(* ===== verification/Effects.thy ===== *)
theory Effects
  imports Prelude
begin

text \<open>
  The effects of the program: a coroutine of the source is a function from the state it can see
  to a result and the state it leaves, where the result is a value or an exception. An exception
  keeps the state changes made before it, as in Python. The second half is the small program
  logic the component theories use: \<open>hoare P m Q E\<close> says that from a state in \<open>P\<close> a normal
  return satisfies \<open>Q\<close> and an exception satisfies \<open>E\<close>; \<open>keeps P m\<close> is the special case of an
  invariant.
\<close>

section \<open>Exceptions\<close>

datatype exn =
    ValueError ustr
  | TypeError ustr
  | RuntimeError ustr
  | PermissionError ustr
  | KeyError ustr
  | AssertionError
  | TimeoutError
  | CancelledError
  | OtherError ustr
  | Out_of_fuel \<comment> \<open>not an exception of the program: a polling loop has not ended yet\<close>

section \<open>Programs\<close>

type_synonym ('s, 'a) prog = "'s \<Rightarrow> (exn + 'a) \<times> 's"

definition ret :: "'a \<Rightarrow> ('s, 'a) prog" where
  "ret a s = (Inr a, s)"

definition raise :: "exn \<Rightarrow> ('s, 'a) prog" where
  "raise e s = (Inl e, s)"

definition seq :: "('s, 'a) prog \<Rightarrow> ('a \<Rightarrow> ('s, 'b) prog) \<Rightarrow> ('s, 'b) prog" where
  "seq m f s = (case m s of (Inl e, s') \<Rightarrow> (Inl e, s') | (Inr a, s') \<Rightarrow> f a s')"

definition gets :: "('s \<Rightarrow> 'a) \<Rightarrow> ('s, 'a) prog" where
  "gets f s = (Inr (f s), s)"

definition modify :: "('s \<Rightarrow> 's) \<Rightarrow> ('s, unit) prog" where
  "modify f s = (Inr (), f s)"

text \<open>\<open>try: m except e: h(e)\<close>.\<close>

definition catch :: "('s, 'a) prog \<Rightarrow> (exn \<Rightarrow> ('s, 'a) prog) \<Rightarrow> ('s, 'a) prog" where
  "catch m h s = (case m s of (Inl e, s') \<Rightarrow> h e s' | (Inr a, s') \<Rightarrow> (Inr a, s'))"

text \<open>\<open>try: m finally: f\<close> where \<open>f\<close> only changes the state.\<close>

definition ensuring :: "('s, 'a) prog \<Rightarrow> ('s \<Rightarrow> 's) \<Rightarrow> ('s, 'a) prog" where
  "ensuring m f s = (case m s of (r, s') \<Rightarrow> (r, f s'))"

text \<open>A pure check that can raise, run as a program.\<close>

definition lift :: "exn + 'a \<Rightarrow> ('s, 'a) prog" where
  "lift r s = (r, s)"

fun for_each :: "'a list \<Rightarrow> ('a \<Rightarrow> ('s, unit) prog) \<Rightarrow> ('s, unit) prog" where
  "for_each [] f = ret ()"
| "for_each (x # xs) f = seq (f x) (\<lambda>_. for_each xs f)"

lemmas prog_simps = ret_def raise_def seq_def gets_def modify_def catch_def ensuring_def lift_def

lemma seq_ret [simp]: "seq (ret a) f = f a"
  by (rule ext) (simp add: prog_simps)

lemma seq_raise [simp]: "seq (raise e) f = raise e"
  by (rule ext) (simp add: prog_simps)

lemma seq_assoc: "seq (seq m f) g = seq m (\<lambda>a. seq (f a) g)"
  by (rule ext) (auto simp: prog_simps split: prod.splits sum.splits)

lemma seq_gets [simp]: "seq (gets f) g s = g (f s) s"
  by (simp add: prog_simps)

lemma seq_modify [simp]: "seq (modify f) g s = g () (f s)"
  by (simp add: prog_simps)

lemma seq_Inr: "m s = (Inr a, s') \<Longrightarrow> seq m f s = f a s'"
  by (simp add: seq_def)

lemma seq_Inl: "m s = (Inl e, s') \<Longrightarrow> seq m f s = (Inl e, s')"
  by (simp add: seq_def)

text \<open>A tape of answers of the environment: its first answer is read and the rest is kept.\<close>

type_synonym 'a tape = "nat \<Rightarrow> 'a"

definition tape_tl :: "'a tape \<Rightarrow> 'a tape" where
  "tape_tl t = (\<lambda>i. t (Suc i))"

lemma tape_tl_const [simp]: "tape_tl (\<lambda>_. a) = (\<lambda>_. a)"
  by (simp add: tape_tl_def)

lemma tape_tl_apply [simp]: "tape_tl t i = t (Suc i)"
  by (simp add: tape_tl_def)

section \<open>Triples\<close>

definition hoare :: "('s \<Rightarrow> bool) \<Rightarrow> ('s, 'a) prog \<Rightarrow> ('a \<Rightarrow> 's \<Rightarrow> bool) \<Rightarrow> (exn \<Rightarrow> 's \<Rightarrow> bool) \<Rightarrow> bool" where
  "hoare P m Q E \<longleftrightarrow>
     (\<forall>s a s'. P s \<longrightarrow> m s = (Inr a, s') \<longrightarrow> Q a s') \<and>
     (\<forall>s e s'. P s \<longrightarrow> m s = (Inl e, s') \<longrightarrow> E e s')"

named_theorems hoare_rules "rules of the program logic"

lemma hoareI:
  assumes "\<And>s a s'. P s \<Longrightarrow> m s = (Inr a, s') \<Longrightarrow> Q a s'"
    and "\<And>s e s'. P s \<Longrightarrow> m s = (Inl e, s') \<Longrightarrow> E e s'"
  shows "hoare P m Q E"
  unfolding hoare_def using assms by blast

lemma hoareD: "hoare P m Q E \<Longrightarrow> P s \<Longrightarrow> m s = (Inr a, s') \<Longrightarrow> Q a s'"
  unfolding hoare_def by blast

lemma hoareD_exn: "hoare P m Q E \<Longrightarrow> P s \<Longrightarrow> m s = (Inl e, s') \<Longrightarrow> E e s'"
  unfolding hoare_def by blast

lemma hoare_pre: "hoare P' m Q E \<Longrightarrow> (\<And>s. P s \<Longrightarrow> P' s) \<Longrightarrow> hoare P m Q E"
  unfolding hoare_def by blast

lemma hoare_post:
  "hoare P m Q' E' \<Longrightarrow> (\<And>a s. Q' a s \<Longrightarrow> Q a s) \<Longrightarrow> (\<And>e s. E' e s \<Longrightarrow> E e s) \<Longrightarrow> hoare P m Q E"
  unfolding hoare_def by blast

lemma hoare_ret [hoare_rules]: "(\<And>s. P s \<Longrightarrow> Q a s) \<Longrightarrow> hoare P (ret a) Q E"
  by (rule hoareI) (auto simp: prog_simps)

lemma hoare_raise [hoare_rules]: "(\<And>s. P s \<Longrightarrow> E e s) \<Longrightarrow> hoare P (raise e) Q E"
  by (rule hoareI) (auto simp: prog_simps)

lemma seq_cases:
  assumes "seq m f s = (r, s')"
  obtains e where "m s = (Inl e, s')" "r = Inl e" | a s1 where "m s = (Inr a, s1)" "f a s1 = (r, s')"
  using assms by (cases "m s"; cases "fst (m s)") (auto simp: seq_def)

lemma catch_cases:
  assumes "catch m h s = (r, s')"
  obtains e s1 where "m s = (Inl e, s1)" "h e s1 = (r, s')" | a where "m s = (Inr a, s')" "r = Inr a"
  using assms by (cases "m s"; cases "fst (m s)") (auto simp: catch_def)

lemma hoare_seq:
  assumes "hoare P m R E" and "\<And>a. hoare (R a) (f a) Q E"
  shows "hoare P (seq m f) Q E"
proof (rule hoareI)
  show "Q a s'" if "P s" "seq m f s = (Inr a, s')" for s a s'
    using that(2) by (rule seq_cases) (auto dest: hoareD [OF assms(1) that(1)] hoareD [OF assms(2)])
  show "E e s'" if "P s" "seq m f s = (Inl e, s')" for s e s'
    using that(2)
    by (rule seq_cases)
      (auto dest: hoareD [OF assms(1) that(1)] hoareD_exn [OF assms(1) that(1)] hoareD_exn [OF assms(2)])
qed

lemma hoare_gets [hoare_rules]: "(\<And>s. P s \<Longrightarrow> Q (f s) s) \<Longrightarrow> hoare P (gets f) Q E"
  by (rule hoareI) (auto simp: prog_simps)

lemma hoare_modify [hoare_rules]: "(\<And>s. P s \<Longrightarrow> Q () (f s)) \<Longrightarrow> hoare P (modify f) Q E"
  by (rule hoareI) (auto simp: prog_simps)

lemma hoare_if [hoare_rules]:
  "(b \<Longrightarrow> hoare P m Q E) \<Longrightarrow> (\<not> b \<Longrightarrow> hoare P n Q E) \<Longrightarrow> hoare P (if b then m else n) Q E"
  by simp

lemma hoare_catch:
  assumes "hoare P m Q E'" and "\<And>e. hoare (E' e) (h e) Q E"
  shows "hoare P (catch m h) Q E"
proof (rule hoareI)
  show "Q a s'" if "P s" "catch m h s = (Inr a, s')" for s a s'
    using that(2)
    by (rule catch_cases)
      (auto dest: hoareD [OF assms(1) that(1)] hoareD_exn [OF assms(1) that(1)] hoareD [OF assms(2)])
  show "E e s'" if "P s" "catch m h s = (Inl e, s')" for s e s'
    using that(2)
    by (rule catch_cases) (auto dest: hoareD_exn [OF assms(1) that(1)] hoareD_exn [OF assms(2)])
qed

lemma hoare_conj:
  "hoare P m Q E \<Longrightarrow> hoare P m Q' E' \<Longrightarrow> hoare P m (\<lambda>a s. Q a s \<and> Q' a s) (\<lambda>e s. E e s \<and> E' e s)"
  unfolding hoare_def by blast

section \<open>Invariants\<close>

definition keeps :: "('s \<Rightarrow> bool) \<Rightarrow> ('s, 'a) prog \<Rightarrow> bool" where
  "keeps P m \<longleftrightarrow> hoare P m (\<lambda>_. P) (\<lambda>_. P)"

named_theorems keeps_rules "programs that keep an invariant"

lemma keepsI: "(\<And>s. P s \<Longrightarrow> P (snd (m s))) \<Longrightarrow> keeps P m"
  unfolding keeps_def by (rule hoareI) (metis snd_conv)+

lemma keepsD: "keeps P m \<Longrightarrow> P s \<Longrightarrow> P (snd (m s))"
  unfolding keeps_def hoare_def by (metis prod.collapse sum.exhaust)

lemma keeps_ret [keeps_rules]: "keeps P (ret a)"
  by (rule keepsI) (simp add: prog_simps)

lemma keeps_raise [keeps_rules]: "keeps P (raise e)"
  by (rule keepsI) (simp add: prog_simps)

lemma keeps_gets [keeps_rules]: "keeps P (gets f)"
  by (rule keepsI) (simp add: prog_simps)

lemma keeps_lift [keeps_rules]: "keeps P (lift r)"
  by (rule keepsI) (simp add: prog_simps)

lemma keeps_modify: "(\<And>s. P s \<Longrightarrow> P (f s)) \<Longrightarrow> keeps P (modify f)"
  by (rule keepsI) (simp add: prog_simps)

lemma keeps_seq [keeps_rules]: "keeps P m \<Longrightarrow> (\<And>a. keeps P (f a)) \<Longrightarrow> keeps P (seq m f)"
  unfolding keeps_def by (rule hoare_seq)

lemma keeps_catch [keeps_rules]: "keeps P m \<Longrightarrow> (\<And>e. keeps P (h e)) \<Longrightarrow> keeps P (catch m h)"
  unfolding keeps_def by (rule hoare_catch)

lemma keeps_ensuring: "keeps P m \<Longrightarrow> (\<And>s. P s \<Longrightarrow> P (f s)) \<Longrightarrow> keeps P (ensuring m f)"
  by (rule keepsI) (auto simp: ensuring_def split: prod.splits dest: keepsD)

lemma keeps_if [keeps_rules]: "keeps P m \<Longrightarrow> keeps P n \<Longrightarrow> keeps P (if b then m else n)"
  by simp

lemma keeps_case_option [keeps_rules]:
  "keeps P m \<Longrightarrow> (\<And>x. keeps P (f x)) \<Longrightarrow> keeps P (case y of None \<Rightarrow> m | Some x \<Rightarrow> f x)"
  by (cases y) auto

lemma keeps_case_prod [keeps_rules]:
  "(\<And>x y. keeps P (f x y)) \<Longrightarrow> keeps P (case z of (x, y) \<Rightarrow> f x y)"
  by (cases z) auto

lemma keeps_case_list [keeps_rules]:
  "keeps P m \<Longrightarrow> (\<And>x xs. keeps P (f x xs)) \<Longrightarrow> keeps P (case ys of [] \<Rightarrow> m | x # xs \<Rightarrow> f x xs)"
  by (cases ys) auto

lemma keeps_case_sum [keeps_rules]:
  "(\<And>x. keeps P (f x)) \<Longrightarrow> (\<And>y. keeps P (g y)) \<Longrightarrow> keeps P (case z of Inl x \<Rightarrow> f x | Inr y \<Rightarrow> g y)"
  by (cases z) auto

lemma keeps_let [keeps_rules]: "(\<And>x. keeps P (f x)) \<Longrightarrow> keeps P (let x = y in f x)"
  by simp

lemma keeps_for_each [keeps_rules]: "(\<And>x. keeps P (f x)) \<Longrightarrow> keeps P (for_each xs f)"
  by (induction xs) (auto intro: keeps_rules)

lemma keeps_conj: "keeps P m \<Longrightarrow> keeps Q m \<Longrightarrow> keeps (\<lambda>s. P s \<and> Q s) m"
  by (rule keepsI) (auto dest: keepsD)

text \<open>A program that takes the states of \<open>P\<close> to states of \<open>Q\<close>, however it ends.\<close>

definition leads :: "('s \<Rightarrow> bool) \<Rightarrow> ('s, 'a) prog \<Rightarrow> ('s \<Rightarrow> bool) \<Rightarrow> bool" where
  "leads P m Q \<longleftrightarrow> hoare P m (\<lambda>_. Q) (\<lambda>_. Q)"

lemma leadsI: "(\<And>s. P s \<Longrightarrow> Q (snd (m s))) \<Longrightarrow> leads P m Q"
  unfolding leads_def by (rule hoareI) (metis snd_conv)+

lemma leadsD: "leads P m Q \<Longrightarrow> P s \<Longrightarrow> Q (snd (m s))"
  unfolding leads_def hoare_def by (metis prod.collapse sum.exhaust)

lemma leads_keeps: "keeps P m \<Longrightarrow> (\<And>s. P s \<Longrightarrow> Q s) \<Longrightarrow> leads P m Q"
  by (rule leadsI) (auto dest: keepsD)

lemma leads_seq:
  "keeps P m \<Longrightarrow> (\<And>a. leads P (f a) Q) \<Longrightarrow> (\<And>s. P s \<Longrightarrow> Q s) \<Longrightarrow> leads P (seq m f) Q"
  unfolding leads_def keeps_def
  by (rule hoare_seq [where R = "\<lambda>_. P"]) (auto intro: hoare_post)

lemma leads_if: "(b \<Longrightarrow> leads P m Q) \<Longrightarrow> (\<not> b \<Longrightarrow> leads P n Q) \<Longrightarrow> leads P (if b then m else n) Q"
  by simp

lemma leads_then_ret: "leads P m Q \<Longrightarrow> leads P (seq m (\<lambda>_. ret a)) Q"
  by (rule leadsI) (auto simp: prog_simps split: prod.splits sum.splits dest: leadsD)

text \<open>\<open>gives P m Q\<close>: a normal return from a state of \<open>P\<close> satisfies \<open>Q\<close>.\<close>

definition gives :: "('s \<Rightarrow> bool) \<Rightarrow> ('s, 'a) prog \<Rightarrow> ('a \<Rightarrow> 's \<Rightarrow> bool) \<Rightarrow> bool" where
  "gives P m Q \<longleftrightarrow> hoare P m Q (\<lambda>_ _. True)"

named_theorems gives_rules "rules for what a program returns"

lemma givesI: "(\<And>s a s'. P s \<Longrightarrow> m s = (Inr a, s') \<Longrightarrow> Q a s') \<Longrightarrow> gives P m Q"
  unfolding gives_def by (rule hoareI) auto

lemma givesD: "gives P m Q \<Longrightarrow> P s \<Longrightarrow> m s = (Inr a, s') \<Longrightarrow> Q a s'"
  unfolding gives_def by (rule hoareD)

lemma gives_seq: "gives P m R \<Longrightarrow> (\<And>a. gives (R a) (f a) Q) \<Longrightarrow> gives P (seq m f) Q"
  unfolding gives_def by (rule hoare_seq)

lemma gives_keeps: "keeps P m \<Longrightarrow> (\<And>a. gives P (f a) Q) \<Longrightarrow> gives P (seq m f) Q"
  by (rule gives_seq [where R = "\<lambda>_. P"]) (auto intro!: givesI dest: keepsD)

lemma gives_if [gives_rules]:
  "(b \<Longrightarrow> gives P m Q) \<Longrightarrow> (\<not> b \<Longrightarrow> gives P n Q) \<Longrightarrow> gives P (if b then m else n) Q"
  by simp

lemma gives_raise [gives_rules]: "gives P (raise e) Q"
  by (rule givesI) (simp add: raise_def)

end
