(* ===== verification/Json.thy ===== *)
theory Json
  imports Effects "HOL-Library.List_Lexorder"
begin

text \<open>
  JSON values as \<^verbatim>\<open>json.loads\<close> returns them, and \<^verbatim>\<open>json.dumps(..., ensure_ascii=False)\<close>, whose text
  the program counts in tokens and returns to the model. An object keeps its keys in insertion
  order. The digits of a float are a parameter (\<open>repr_float\<close>).
\<close>

datatype json =
    JNull
  | JBool bool
  | JInt int
  | JFloat real
  | JStr ustr
  | JArr "json list"
  | JObj "(ustr \<times> json) list"

definition jget :: "json \<Rightarrow> ustr \<Rightarrow> json option" where
  "jget j k = (case j of JObj kvs \<Rightarrow> dict_get kvs k | _ \<Rightarrow> None)"

text \<open>The escapes of a string: quote, backslash and the control characters.\<close>

definition hex_digit :: "nat \<Rightarrow> nat" where
  "hex_digit n = (if n < 10 then 48 + n else 87 + n)"

definition esc_char :: "nat \<Rightarrow> ustr" where
  "esc_char c =
     (if c = 34 then [92, 34]
      else if c = 92 then [92, 92]
      else if c = 10 then [92, 110]
      else if c = 13 then [92, 114]
      else if c = 9 then [92, 116]
      else if c = 8 then [92, 98]
      else if c = 12 then [92, 102]
      else if c < 32 then [92, 117, 48, 48, hex_digit (c div 16), hex_digit (c mod 16)]
      else [c])"

definition quote :: "ustr \<Rightarrow> ustr" where
  "quote s = [34] @ concat (map esc_char s) @ [34]"

text \<open>\<open>sort_keys\<close>, the separators, and the rendering of floats.\<close>

record json_style =
  sort_keys :: bool
  item_sep :: ustr
  key_sep :: ustr

definition default_style :: "bool \<Rightarrow> json_style" where
  "default_style sorted_keys =
     \<lparr>sort_keys = sorted_keys, item_sep = u '', '', key_sep = u '': ''\<rparr>"

definition compact_style :: json_style where
  "compact_style = \<lparr>sort_keys = False, item_sep = u '','', key_sep = u '':''\<rparr>"

fun dumps :: "(real \<Rightarrow> ustr) \<Rightarrow> json_style \<Rightarrow> json \<Rightarrow> ustr" where
  "dumps rf st JNull = u ''null''"
| "dumps rf st (JBool b) = (if b then u ''true'' else u ''false'')"
| "dumps rf st (JInt i) = show_int i"
| "dumps rf st (JFloat r) = rf r"
| "dumps rf st (JStr s) = quote s"
| "dumps rf st (JArr xs) = u ''['' @ py_join (item_sep st) (map (dumps rf st) xs) @ u '']''"
| "dumps rf st (JObj kvs) =
     (let parts = map (\<lambda>kv. (fst kv, dumps rf st (snd kv))) kvs;
          parts = (if sort_keys st then sort_key fst parts else parts)
      in u ''{'' @ py_join (item_sep st) (map (\<lambda>(k, v). quote k @ key_sep st @ v) parts) @ u ''}'')"

text \<open>A rendered string never contains a raw control character: it stays on one line.\<close>

lemma esc_char_printable: "c \<in> set (esc_char d) \<Longrightarrow> 32 \<le> c"
proof -
  assume c: "c \<in> set (esc_char d)"
  have "32 \<le> hex_digit n" for n by (simp add: hex_digit_def)
  with c show "32 \<le> c" by (auto simp: esc_char_def split: if_splits)
qed

lemma quote_printable: "c \<in> set (quote s) \<Longrightarrow> 32 \<le> c"
  by (auto simp: quote_def dest: esc_char_printable)

end
