(* ===== verification/Texts.thy ===== *)
theory Texts
  imports Prelude
begin

text \<open>
  The fixed texts of the program, code point by code point: error messages and replies the code
  stores, compares or shows. Each name says what the text says; the order is the order of the
  source files.
\<close>

section \<open>\<^verbatim>\<open>multi_agent/types.py\<close>\<close>

definition txt_mode_invalid :: ustr where \<comment> \<open>the mode must be auto or off\<close>
  "txt_mode_invalid = [109, 117, 108, 116, 105, 95, 97, 103, 101, 110, 116, 95, 109, 111, 100, 101, 32, 24517,
     39035, 26159, 32, 97, 117, 116, 111, 32, 25110, 32, 111, 102, 102]"

definition txt_parent_session_blank :: ustr where \<comment> \<open>the parent's session id is blank\<close>
  "txt_parent_session_blank = [29238, 32, 84, 117, 114, 110, 32, 115, 101, 115, 115, 105, 111, 110, 95, 105, 100, 32,
     24517, 39035, 26159, 38750, 31354, 23383, 31526, 20018]"

definition txt_parent_request_blank :: ustr where \<comment> \<open>the parent's request id is blank\<close>
  "txt_parent_request_blank = [29238, 32, 84, 117, 114, 110, 32, 114, 101, 113, 117, 101, 115, 116, 95, 105, 100, 32,
     24517, 39035, 26159, 38750, 31354, 23383, 31526, 20018]"

definition txt_parent_tokens_invalid :: ustr where \<comment> \<open>the parent's token count is negative\<close>
  "txt_parent_tokens_invalid = [29238, 32, 84, 117, 114, 110, 32, 105, 110, 105, 116, 105, 97, 108, 95, 99, 111, 110, 116,
     101, 120, 116, 95, 116, 111, 107, 101, 110, 115, 32, 24517, 39035, 26159, 38750, 36127,
     25972, 25968]"

definition txt_result_status :: ustr where \<comment> \<open>unsupported WorkerResult status\<close>
  "txt_result_status = [19981, 25903, 25345, 30340, 32, 87, 111, 114, 107, 101, 114, 82, 101, 115, 117, 108, 116,
     32, 29366, 24577]"

definition txt_result_completed :: ustr where \<comment> \<open>a completed result needs content and no error\<close>
  "txt_result_completed = [99, 111, 109, 112, 108, 101, 116, 101, 100, 32, 32467, 26524, 24517, 39035, 21253, 21547,
     38750, 31354, 32, 99, 111, 110, 116, 101, 110, 116, 32, 19988, 32, 101, 114, 114, 111, 114,
     32, 20026, 32, 110, 117, 108, 108]"

definition txt_result_failed :: ustr where \<comment> \<open>a failed result needs an error and no content\<close>
  "txt_result_failed = [22833, 36133, 32467, 26524, 24517, 39035, 32, 99, 111, 110, 116, 101, 110, 116, 32, 20026,
     32, 110, 117, 108, 108, 32, 19988, 21253, 21547, 38750, 31354, 32, 101, 114, 114, 111, 114]"

definition txt_node_status :: ustr where \<comment> \<open>unsupported node status\<close>
  "txt_node_status = [19981, 25903, 25345, 30340, 32, 77, 117, 108, 116, 105, 65, 103, 101, 110, 116, 78, 111,
     100, 101, 32, 29366, 24577]"

definition txt_node_duration :: ustr where \<comment> \<open>a duration is not negative\<close>
  "txt_node_duration = [100, 117, 114, 97, 116, 105, 111, 110, 95, 109, 115, 32, 24517, 39035, 20026, 38750,
     36127, 25968, 25110, 32, 110, 117, 108, 108]"

section \<open>\<^verbatim>\<open>multi_agent/schema.py\<close>\<close>

definition txt_max_workers_invalid :: ustr where \<comment> \<open>the worker limit must be positive\<close>
  "txt_max_workers_invalid = [109, 97, 120, 95, 119, 111, 114, 107, 101, 114, 115, 95, 112, 101, 114, 95, 114, 117, 110,
     32, 24517, 39035, 26159, 27491, 25972, 25968]"

definition txt_not_object :: ustr where \<comment> \<open>the request must be an object\<close>
  "txt_not_object = [35831, 27714, 24517, 39035, 26159, 32, 111, 98, 106, 101, 99, 116]"

definition txt_unknown_request_fields :: ustr where \<comment> \<open>unsupported request fields:\<close>
  "txt_unknown_request_fields = [19981, 25903, 25345, 30340, 35831, 27714, 23383, 27573, 65306]"

definition txt_request_fields_missing :: ustr where \<comment> \<open>the request needs strategy and tasks\<close>
  "txt_request_fields_missing = [35831, 27714, 24517, 39035, 21253, 21547, 32, 115, 116, 114, 97, 116, 101, 103, 121, 32,
     21644, 32, 116, 97, 115, 107, 115]"

definition txt_tasks_not_array :: ustr where \<comment> \<open>tasks must be an array\<close>
  "txt_tasks_not_array = [116, 97, 115, 107, 115, 32, 24517, 39035, 26159, 25968, 32452]"

definition txt_tasks_empty :: ustr where \<comment> \<open>tasks must not be empty\<close>
  "txt_tasks_empty = [116, 97, 115, 107, 115, 32, 19981, 33021, 20026, 31354]"

definition txt_tasks_too_many :: ustr where \<comment> \<open>more tasks than the limit\<close>
  "txt_tasks_too_many = [116, 97, 115, 107, 115, 32, 19981, 33021, 36229, 36807, 32, 109, 97, 120, 95, 119, 111,
     114, 107, 101, 114, 115, 95, 112, 101, 114, 95, 114, 117, 110]"

definition txt_pipeline_short :: ustr where \<comment> \<open>a pipeline needs two workers\<close>
  "txt_pipeline_short = [112, 105, 112, 101, 108, 105, 110, 101, 32, 33267, 23569, 38656, 35201, 20004, 20010, 32,
     87, 111, 114, 107, 101, 114]"

definition txt_strategy_not_string :: ustr where \<comment> \<open>strategy must be a string\<close>
  "txt_strategy_not_string = [115, 116, 114, 97, 116, 101, 103, 121, 32, 24517, 39035, 26159, 21463, 25903, 25345,
     30340, 23383, 31526, 20018]"

definition txt_strategy_unknown :: ustr where \<comment> \<open>unsupported strategy\<close>
  "txt_strategy_unknown = [115, 116, 114, 97, 116, 101, 103, 121, 32, 19981, 21463, 25903, 25345]"

definition txt_task_not_object :: ustr where \<comment> \<open>every task must be an object\<close>
  "txt_task_not_object = [116, 97, 115, 107, 115, 32, 30340, 27599, 39033, 24517, 39035, 26159, 32, 111, 98, 106,
     101, 99, 116]"

definition txt_unknown_task_fields :: ustr where \<comment> \<open>unsupported task fields:\<close>
  "txt_unknown_task_fields = [19981, 25903, 25345, 30340, 32, 116, 97, 115, 107, 32, 23383, 27573, 65306]"

definition txt_task_fields_missing :: ustr where \<comment> \<open>every task needs role and brief\<close>
  "txt_task_fields_missing = [27599, 20010, 32, 116, 97, 115, 107, 32, 24517, 39035, 21253, 21547, 32, 114, 111, 108,
     101, 32, 21644, 32, 98, 114, 105, 101, 102]"

definition txt_must_be_nonempty :: ustr where \<comment> \<open>must be a non-empty string\<close>
  "txt_must_be_nonempty = [32, 24517, 39035, 26159, 38750, 31354, 23383, 31526, 20018]"

definition txt_must_not_exceed :: ustr where \<comment> \<open>must not exceed\<close>
  "txt_must_not_exceed = [32, 19981, 33021, 36229, 36807, 32]"

definition txt_characters :: ustr where \<comment> \<open>characters\<close>
  "txt_characters = [32, 20010, 23383, 31526]"

section \<open>\<^verbatim>\<open>multi_agent/coordinator.py\<close>\<close>

definition txt_result_exceeded :: ustr where \<comment> \<open>the worker's result exceeds the context limit\<close>
  "txt_result_exceeded = [87, 111, 114, 107, 101, 114, 32, 32467, 26524, 36229, 20986, 19978, 19979, 25991, 38480,
     21046]"

definition txt_invalid_result :: ustr where \<comment> \<open>the worker's result is malformed\<close>
  "txt_invalid_result = [87, 111, 114, 107, 101, 114, 32, 32467, 26524, 26684, 24335, 26080, 25928]"

definition txt_limits_not_positive :: ustr where \<comment> \<open>the concurrency limits must be positive\<close>
  "txt_limits_not_positive = [87, 111, 114, 107, 101, 114, 32, 24182, 21457, 19978, 38480, 24517, 39035, 20026, 27491,
     25972, 25968]"

definition txt_deadline_not_positive :: ustr where \<comment> \<open>the deadlines must be positive\<close>
  "txt_deadline_not_positive = [87, 111, 114, 107, 101, 114, 32, 100, 101, 97, 100, 108, 105, 110, 101, 32, 24517, 39035,
     20026, 27491, 25968]"

definition txt_deadline_order :: ustr where \<comment> \<open>a worker's deadline is within the run's\<close>
  "txt_deadline_order = [87, 111, 114, 107, 101, 114, 32, 100, 101, 97, 100, 108, 105, 110, 101, 32, 19981, 33021,
     36229, 36807, 32, 82, 117, 110, 32, 100, 101, 97, 100, 108, 105, 110, 101]"

definition txt_budget_not_positive :: ustr where \<comment> \<open>the token budgets must be positive\<close>
  "txt_budget_not_positive = [77, 117, 108, 116, 105, 45, 65, 103, 101, 110, 116, 32, 116, 111, 107, 101, 110, 32,
     39044, 31639, 24517, 39035, 20026, 27491, 25972, 25968]"

definition txt_one_run_per_request :: ustr where \<comment> \<open>one run for each parent request\<close>
  "txt_one_run_per_request = [27599, 20010, 29238, 35831, 27714, 21482, 33021, 21019, 24314, 19968, 27425, 32, 77, 117,
     108, 116, 105, 45, 65, 103, 101, 110, 116, 32, 82, 117, 110]"

definition txt_user_stopped :: ustr where \<comment> \<open>the user stopped the collaboration\<close>
  "txt_user_stopped = [29992, 25143, 24050, 20572, 27490, 21327, 20316]"

definition txt_run_timed_out :: ustr where \<comment> \<open>the run timed out\<close>
  "txt_run_timed_out = [77, 117, 108, 116, 105, 45, 65, 103, 101, 110, 116, 32, 82, 117, 110, 32, 24050, 36229,
     26102]"

definition txt_unknown_run :: ustr where \<comment> \<open>unknown run\<close>
  "txt_unknown_run = [26410, 30693, 32, 77, 117, 108, 116, 105, 45, 65, 103, 101, 110, 116, 32, 82, 117, 110]"

definition txt_synthesis_failed :: ustr where \<comment> \<open>the parent's synthesis failed\<close>
  "txt_synthesis_failed = [29238, 32, 65, 103, 101, 110, 116, 32, 115, 121, 110, 116, 104, 101, 115, 105, 115, 32,
     22833, 36133]"

definition txt_bad_outcome :: ustr where \<comment> \<open>unsupported outcome of the parent\<close>
  "txt_bad_outcome = [19981, 25903, 25345, 30340, 29238, 32, 82, 117, 110, 32, 25910, 21475, 32467, 26524]"

definition txt_collab_failed :: ustr where \<comment> \<open>the collaboration failed:\<close>
  "txt_collab_failed = [77, 117, 108, 116, 105, 45, 65, 103, 101, 110, 116, 32, 21327, 20316, 22833, 36133, 65306]"

definition txt_predecessor_failed :: ustr where \<comment> \<open>the preceding worker did not succeed\<close>
  "txt_predecessor_failed = [21069, 24207, 32, 87, 111, 114, 107, 101, 114, 32, 26410, 25104, 21151]"

definition txt_worker_cancelled :: ustr where \<comment> \<open>the worker was cancelled\<close>
  "txt_worker_cancelled = [87, 111, 114, 107, 101, 114, 32, 24050, 21462, 28040]"

definition txt_worker_timeout :: ustr where \<comment> \<open>the worker timed out\<close>
  "txt_worker_timeout = [87, 111, 114, 107, 101, 114, 32, 25191, 34892, 36229, 26102]"

definition txt_worker_failed :: ustr where \<comment> \<open>the worker failed\<close>
  "txt_worker_failed = [87, 111, 114, 107, 101, 114, 32, 25191, 34892, 22833, 36133]"

definition txt_event_failed :: ustr where \<comment> \<open>an event could not be persisted\<close>
  "txt_event_failed = [77, 117, 108, 116, 105, 45, 65, 103, 101, 110, 116, 32, 20107, 20214, 25345, 20037, 21270,
     22833, 36133]"

definition txt_no_slot :: ustr where \<comment> \<open>the worker got no slot\<close>
  "txt_no_slot = [87, 111, 114, 107, 101, 114, 32, 26410, 21462, 24471, 25191, 34892, 27133, 20301]"

definition txt_all_failed :: ustr where \<comment> \<open>every worker failed\<close>
  "txt_all_failed = [77, 117, 108, 116, 105, 45, 65, 103, 101, 110, 116, 32, 87, 111, 114, 107, 101, 114, 32,
     20840, 37096, 22833, 36133]"

section \<open>\<^verbatim>\<open>multi_agent/delegate_tool.py\<close>\<close>

definition txt_duplicate_delegate :: ustr where \<comment> \<open>one accepted delegation for each parent request\<close>
  "txt_duplicate_delegate = [27599, 20010, 29238, 35831, 27714, 21482, 33021, 21463, 29702, 19968, 27425, 32, 100, 101,
     108, 101, 103, 97, 116, 101, 95, 109, 117, 108, 116, 105, 95, 97, 103, 101, 110, 116, 32,
     35843, 29992, 12290]"

definition txt_invalid_delegate :: ustr where \<comment> \<open>the delegation request is invalid:\<close>
  "txt_invalid_delegate = [22996, 27966, 35831, 27714, 26080, 25928, 65306]"

definition txt_runtime_not_established :: ustr where \<comment> \<open>the runtime could not establish the collaboration\<close>
  "txt_runtime_not_established = [77, 117, 108, 116, 105, 45, 65, 103, 101, 110, 116, 32, 21327, 20316, 22833, 36133, 65306,
     36816, 34892, 26102, 26410, 33021, 24314, 31435, 21327, 20316, 29366, 24577, 12290]"

definition txt_collab_timed_out :: ustr where \<comment> \<open>the collaboration timed out\<close>
  "txt_collab_timed_out = [77, 117, 108, 116, 105, 45, 65, 103, 101, 110, 116, 32, 21327, 20316, 24050, 36229, 26102,
     12290]"

definition txt_collab_stopped :: ustr where \<comment> \<open>the collaboration was stopped\<close>
  "txt_collab_stopped = [77, 117, 108, 116, 105, 45, 65, 103, 101, 110, 116, 32, 21327, 20316, 24050, 20572, 27490,
     12290]"

definition txt_collab_interrupted :: ustr where \<comment> \<open>the collaboration was interrupted\<close>
  "txt_collab_interrupted = [77, 117, 108, 116, 105, 45, 65, 103, 101, 110, 116, 32, 21327, 20316, 24050, 20013, 26029,
     65292, 35831, 37325, 26032, 25552, 20132, 20219, 21153, 12290]"

definition txt_worker_incomplete :: ustr where \<comment> \<open>the worker could not finish\<close>
  "txt_worker_incomplete = [87, 111, 114, 107, 101, 114, 32, 26410, 33021, 23436, 25104]"

definition txt_max_workers_positive :: ustr where \<comment> \<open>the worker limit must be positive\<close>
  "txt_max_workers_positive = [109, 97, 120, 95, 119, 111, 114, 107, 101, 114, 115, 95, 112, 101, 114, 95, 114, 117, 110,
     32, 24517, 39035, 26159, 27491, 25972, 25968]"

text \<open>None of the texts the coordinator stores as an error is blank.\<close>

lemma error_texts_not_blank [simp]:
  "py_strip txt_result_exceeded \<noteq> []"
  "py_strip txt_invalid_result \<noteq> []"
  "py_strip txt_limits_not_positive \<noteq> []"
  "py_strip txt_deadline_not_positive \<noteq> []"
  "py_strip txt_deadline_order \<noteq> []"
  "py_strip txt_budget_not_positive \<noteq> []"
  "py_strip txt_one_run_per_request \<noteq> []"
  "py_strip txt_user_stopped \<noteq> []"
  "py_strip txt_run_timed_out \<noteq> []"
  "py_strip txt_unknown_run \<noteq> []"
  "py_strip txt_synthesis_failed \<noteq> []"
  "py_strip txt_bad_outcome \<noteq> []"
  "py_strip txt_collab_failed \<noteq> []"
  "py_strip txt_predecessor_failed \<noteq> []"
  "py_strip txt_worker_cancelled \<noteq> []"
  "py_strip txt_worker_timeout \<noteq> []"
  "py_strip txt_worker_failed \<noteq> []"
  "py_strip txt_event_failed \<noteq> []"
  "py_strip txt_no_slot \<noteq> []"
  "py_strip txt_all_failed \<noteq> []"
  by (auto simp: py_strip_Nil_iff is_space_def txt_result_exceeded_def txt_invalid_result_def
    txt_limits_not_positive_def txt_deadline_not_positive_def txt_deadline_order_def
    txt_budget_not_positive_def txt_one_run_per_request_def txt_user_stopped_def
    txt_run_timed_out_def txt_unknown_run_def txt_synthesis_failed_def txt_bad_outcome_def
    txt_collab_failed_def txt_predecessor_failed_def txt_worker_cancelled_def
    txt_worker_timeout_def txt_worker_failed_def txt_event_failed_def txt_no_slot_def
    txt_all_failed_def)

lemma error_texts_nonempty [simp]:
  "txt_result_exceeded \<noteq> []"
  "txt_invalid_result \<noteq> []"
  "txt_limits_not_positive \<noteq> []"
  "txt_deadline_not_positive \<noteq> []"
  "txt_deadline_order \<noteq> []"
  "txt_budget_not_positive \<noteq> []"
  "txt_one_run_per_request \<noteq> []"
  "txt_user_stopped \<noteq> []"
  "txt_run_timed_out \<noteq> []"
  "txt_unknown_run \<noteq> []"
  "txt_synthesis_failed \<noteq> []"
  "txt_bad_outcome \<noteq> []"
  "txt_collab_failed \<noteq> []"
  "txt_predecessor_failed \<noteq> []"
  "txt_worker_cancelled \<noteq> []"
  "txt_worker_timeout \<noteq> []"
  "txt_worker_failed \<noteq> []"
  "txt_event_failed \<noteq> []"
  "txt_no_slot \<noteq> []"
  "txt_all_failed \<noteq> []"
  by (simp_all add: txt_result_exceeded_def txt_invalid_result_def txt_limits_not_positive_def
    txt_deadline_not_positive_def txt_deadline_order_def txt_budget_not_positive_def
    txt_one_run_per_request_def txt_user_stopped_def txt_run_timed_out_def txt_unknown_run_def
    txt_synthesis_failed_def txt_bad_outcome_def txt_collab_failed_def txt_predecessor_failed_def
    txt_worker_cancelled_def txt_worker_timeout_def txt_worker_failed_def txt_event_failed_def
    txt_no_slot_def txt_all_failed_def)

end
