(* ===== verification/MultiAgentTypes.thy ===== *)
theory MultiAgentTypes
  imports Json Texts
begin

text \<open>
  \<^verbatim>\<open>multi_agent/types.py\<close>, \<^verbatim>\<open>multi_agent/events.py\<close> and \<^verbatim>\<open>multi_agent/schema.py\<close>: the data of a
  multi-agent run, the contracts its constructors enforce, and the strict validation of the
  request the parent model submits. The status strings are the eight the three status sets
  mention; a string outside them is rejected by every constructor.
\<close>

section \<open>Statuses and modes\<close>

datatype status = Queued | Running | Waiting | Completed | Failed | Timed_out | Cancelled | Interrupted

definition run_statuses :: "status list" where
  "run_statuses = [Queued, Running, Waiting, Completed, Failed, Timed_out, Cancelled, Interrupted]"

definition node_statuses :: "status list" where
  "node_statuses = [Queued, Running, Completed, Failed, Timed_out, Cancelled, Interrupted]"

definition worker_result_statuses :: "status list" where
  "worker_result_statuses = [Completed, Failed, Timed_out, Cancelled, Interrupted]"

definition status_str :: "status \<Rightarrow> ustr" where
  "status_str st = (case st of
       Queued \<Rightarrow> u ''queued'' | Running \<Rightarrow> u ''running'' | Waiting \<Rightarrow> u ''waiting''
     | Completed \<Rightarrow> u ''completed'' | Failed \<Rightarrow> u ''failed'' | Timed_out \<Rightarrow> u ''timed_out''
     | Cancelled \<Rightarrow> u ''cancelled'' | Interrupted \<Rightarrow> u ''interrupted'')"

text \<open>The set \<open>{"completed", "failed", "timed_out", "cancelled", "interrupted"}\<close> the code repeats.\<close>

definition terminal :: "status \<Rightarrow> bool" where
  "terminal st \<longleftrightarrow> st \<in> set worker_result_statuses"

lemma terminal_iff [simp]:
  "terminal Completed" "terminal Failed" "terminal Timed_out" "terminal Cancelled"
  "terminal Interrupted" "\<not> terminal Queued" "\<not> terminal Running" "\<not> terminal Waiting"
  by (simp_all add: terminal_def worker_result_statuses_def)

datatype request_mode = Auto | Off

definition parse_multi_agent_mode :: "json \<Rightarrow> exn + request_mode" where
  "parse_multi_agent_mode v = (case v of
       JStr s \<Rightarrow> (if s = u ''auto'' then Inr Auto
                 else if s = u ''off'' then Inr Off
                 else Inl (ValueError txt_mode_invalid))
     | _ \<Rightarrow> Inl (ValueError txt_mode_invalid))"

datatype strategy = Fan_out_fan_in | Pipeline

definition strategy_str :: "strategy \<Rightarrow> ustr" where
  "strategy_str s = (case s of Fan_out_fan_in \<Rightarrow> u ''fan_out_fan_in'' | Pipeline \<Rightarrow> u ''pipeline'')"

section \<open>Records and their contracts\<close>

record ma_task =
  t_role :: ustr
  t_brief :: ustr

record ma_request =
  q_strategy :: strategy
  q_tasks :: "ma_task list"

record worker_result =
  wr_status :: status
  wr_content :: "ustr option"
  wr_error :: "ustr option"

definition blank :: "ustr option \<Rightarrow> bool" where
  "blank x = (case x of None \<Rightarrow> True | Some s \<Rightarrow> py_strip s = [])"

text \<open>\<open>WorkerResult.__post_init__\<close>: content on success, an error otherwise, never both.\<close>

definition mk_worker_result :: "status \<Rightarrow> ustr option \<Rightarrow> ustr option \<Rightarrow> exn + worker_result" where
  "mk_worker_result st content err =
     (if st \<notin> set worker_result_statuses then Inl (ValueError txt_result_status)
      else if st = Completed then
        (if blank content \<or> err \<noteq> None then Inl (ValueError txt_result_completed)
         else Inr \<lparr>wr_status = st, wr_content = content, wr_error = err\<rparr>)
      else if content \<noteq> None \<or> blank err then Inl (ValueError txt_result_failed)
      else Inr \<lparr>wr_status = st, wr_content = content, wr_error = err\<rparr>)"

definition wf_result :: "worker_result \<Rightarrow> bool" where
  "wf_result r \<longleftrightarrow>
     (if wr_status r = Completed then \<not> blank (wr_content r) \<and> wr_error r = None
      else terminal (wr_status r) \<and> wr_content r = None \<and> \<not> blank (wr_error r))"

lemma mk_worker_result_wf: "mk_worker_result st c e = Inr r \<Longrightarrow> wf_result r"
  by (auto simp: mk_worker_result_def wf_result_def terminal_def split: if_splits)

lemma mk_worker_result_iff:
  "mk_worker_result st c e = Inr r \<longleftrightarrow>
     r = \<lparr>wr_status = st, wr_content = c, wr_error = e\<rparr> \<and> wf_result r"
  by (auto simp: mk_worker_result_def wf_result_def terminal_def worker_result_statuses_def)

record ma_node =
  n_id :: ustr
  n_role :: ustr
  n_status :: status
  n_duration :: "real option"
  n_result :: "worker_result option"
  n_error :: "ustr option"
  n_error_code :: "ustr option"

text \<open>\<open>MultiAgentNode.__post_init__\<close>.\<close>

definition check_node :: "ma_node \<Rightarrow> exn + ma_node" where
  "check_node n =
     (if n_status n \<notin> set node_statuses then Inl (ValueError txt_node_status)
      else case n_duration n of
             Some d \<Rightarrow> (if d < 0 then Inl (ValueError txt_node_duration) else Inr n)
           | None \<Rightarrow> Inr n)"

record ma_run =
  r_id :: ustr
  r_session :: ustr
  r_request :: ustr
  r_strategy :: strategy
  r_status :: status
  r_nodes :: "ma_node list"
  r_created_at :: real
  r_started_at :: "real option"
  r_finished_at :: "real option"
  r_error :: "ustr option"
  r_error_code :: "ustr option"

text \<open>\<open>DelegateParentTurn.__post_init__\<close>; the stop query is part of the environment.\<close>

record parent_turn =
  p_session :: ustr
  p_request :: ustr
  p_context_tokens :: int

definition check_parent_turn :: "parent_turn \<Rightarrow> exn + parent_turn" where
  "check_parent_turn p =
     (if py_strip (p_session p) = [] then Inl (ValueError txt_parent_session_blank)
      else if py_strip (p_request p) = [] then Inl (ValueError txt_parent_request_blank)
      else if p_context_tokens p < 0 then Inl (ValueError txt_parent_tokens_invalid)
      else Inr p)"

section \<open>Events\<close>

datatype event_type = Run_started | Node_updated | Run_completed | Run_failed | Run_cancelled

record ma_usage =
  us_input :: int
  us_output :: int
  us_turn_total :: int

record ma_payload =
  e_run_id :: ustr
  e_node_id :: "ustr option"
  e_task_label :: ustr
  e_strategy :: strategy
  e_status :: status
  e_duration :: "real option"
  e_usage :: "ma_usage option"
  e_error_code :: "ustr option"
  e_error :: "ustr option"
  e_content :: "ustr option"

definition run_event_by_status :: "status \<Rightarrow> event_type" where
  "run_event_by_status st = (case st of
       Queued \<Rightarrow> Run_started | Running \<Rightarrow> Run_started | Waiting \<Rightarrow> Run_started
     | Completed \<Rightarrow> Run_completed | Failed \<Rightarrow> Run_failed | Timed_out \<Rightarrow> Run_failed
     | Cancelled \<Rightarrow> Run_cancelled | Interrupted \<Rightarrow> Run_failed)"

section \<open>Validation of a delegation request\<close>

datatype delegate_error = Delegate_value_error ustr | Delegate_schema_error ustr

definition role_max_length :: nat where "role_max_length = 128"

definition brief_max_length :: nat where "brief_max_length = 12000"

definition parse_strategy :: "json \<Rightarrow> delegate_error + strategy" where
  "parse_strategy v = (case v of
       JStr s \<Rightarrow> (if s = u ''fan_out_fan_in'' then Inr Fan_out_fan_in
                 else if s = u ''pipeline'' then Inr Pipeline
                 else Inl (Delegate_schema_error txt_strategy_unknown))
     | _ \<Rightarrow> Inl (Delegate_schema_error txt_strategy_not_string))"

definition non_empty_string :: "json \<Rightarrow> ustr \<Rightarrow> nat \<Rightarrow> delegate_error + ustr" where
  "non_empty_string v field maximum = (case v of
       JStr s \<Rightarrow>
         (if py_strip s = [] then Inl (Delegate_schema_error (field @ txt_must_be_nonempty))
          else if length s > maximum then
            Inl (Delegate_schema_error (field @ txt_must_not_exceed @ dec maximum @ txt_characters))
          else Inr s)
     | _ \<Rightarrow> Inl (Delegate_schema_error (field @ txt_must_be_nonempty)))"

definition unknown_fields :: "(ustr \<times> json) list \<Rightarrow> ustr list \<Rightarrow> ustr list" where
  "unknown_fields kvs allowed = sort (filter (\<lambda>k. k \<notin> set allowed) (map fst kvs))"

definition parse_task :: "json \<Rightarrow> delegate_error + ma_task" where
  "parse_task payload = (case payload of
       JObj kvs \<Rightarrow>
         (let unknown = unknown_fields kvs [u ''role'', u ''brief''] in
          if unknown \<noteq> [] then
            Inl (Delegate_schema_error (txt_unknown_task_fields @ py_join (u '', '') unknown))
          else case (dict_get kvs (u ''role''), dict_get kvs (u ''brief'')) of
            (Some role, Some brief) \<Rightarrow>
              bindE (non_empty_string role (u ''role'') role_max_length) (\<lambda>role.
              bindE (non_empty_string brief (u ''brief'') brief_max_length) (\<lambda>brief.
                Inr \<lparr>t_role = role, t_brief = brief\<rparr>))
          | _ \<Rightarrow> Inl (Delegate_schema_error txt_task_fields_missing))
     | _ \<Rightarrow> Inl (Delegate_schema_error txt_task_not_object))"

definition validate_delegate_request :: "json \<Rightarrow> int \<Rightarrow> delegate_error + ma_request" where
  "validate_delegate_request payload max_workers =
     (if max_workers \<le> 0 then Inl (Delegate_value_error txt_max_workers_invalid)
      else case payload of
        JObj kvs \<Rightarrow>
          (let unknown = unknown_fields kvs [u ''strategy'', u ''tasks''] in
           if unknown \<noteq> [] then
             Inl (Delegate_schema_error (txt_unknown_request_fields @ py_join (u '', '') unknown))
           else case (dict_get kvs (u ''strategy''), dict_get kvs (u ''tasks'')) of
             (Some sv, Some tv) \<Rightarrow>
               bindE (parse_strategy sv) (\<lambda>strategy.
                 case tv of
                   JArr items \<Rightarrow>
                     (if items = [] then Inl (Delegate_schema_error txt_tasks_empty)
                      else if int (length items) > max_workers then
                        Inl (Delegate_schema_error txt_tasks_too_many)
                      else bindE (mapE parse_task items) (\<lambda>tasks.
                        if strategy = Pipeline \<and> length tasks < 2 then
                          Inl (Delegate_schema_error txt_pipeline_short)
                        else Inr \<lparr>q_strategy = strategy, q_tasks = tasks\<rparr>))
                 | _ \<Rightarrow> Inl (Delegate_schema_error txt_tasks_not_array))
           | _ \<Rightarrow> Inl (Delegate_schema_error txt_request_fields_missing))
      | _ \<Rightarrow> Inl (Delegate_schema_error txt_not_object))"

end
