(* ===== verification/Redaction.thy ===== *)
theory Redaction
  imports Texts
begin

text \<open>
  The redaction of worker output in \<^verbatim>\<open>multi_agent/coordinator.py\<close>: the three regular expressions and
  \<open>re.sub\<close> over them, written as scanners, then \<open>_sanitize_content\<close>, \<open>_safe_error\<close> and
  \<open>_safe_task_label\<close>. A matcher gets the character before the position (for \<open>\b\<close>) and the rest of
  the text, and answers with the replacement and the number of characters it consumes. The
  repetitions of the three patterns meet disjoint character classes, so greedy matching never has
  to give characters back, except before the closing \<open>\b\<close> of the token pattern, where the scanner
  searches for the last boundary. \<open>alnum\<close> is \<open>str.isalnum\<close> of one code point (a Unicode table).
\<close>

section \<open>Character classes\<close>

definition ascii_alnum :: "nat \<Rightarrow> bool" where
  "ascii_alnum c \<longleftrightarrow> (48 \<le> c \<and> c \<le> 57) \<or> (65 \<le> c \<and> c \<le> 90) \<or> (97 \<le> c \<and> c \<le> 122)"

text \<open>What the code relies on of the Unicode table: on ASCII it is letters and digits.\<close>

definition alnum_ok :: "(nat \<Rightarrow> bool) \<Rightarrow> bool" where
  "alnum_ok alnum \<longleftrightarrow> (\<forall>c < 128. alnum c \<longleftrightarrow> ascii_alnum c)"

definition word_char :: "(nat \<Rightarrow> bool) \<Rightarrow> nat \<Rightarrow> bool" where
  "word_char alnum c \<longleftrightarrow> alnum c \<or> c = 95"

definition word_at :: "(nat \<Rightarrow> bool) \<Rightarrow> ustr \<Rightarrow> bool" where
  "word_at alnum s = (case s of [] \<Rightarrow> False | c # _ \<Rightarrow> word_char alnum c)"

definition boundary :: "(nat \<Rightarrow> bool) \<Rightarrow> nat option \<Rightarrow> ustr \<Rightarrow> bool" where
  "boundary alnum prev s \<longleftrightarrow>
     (case prev of None \<Rightarrow> False | Some c \<Rightarrow> word_char alnum c) \<noteq> word_at alnum s"

text \<open>Case folding of one code point under \<open>(?i)\<close>, with the four non-ASCII letters that fold to ASCII.\<close>

definition fold_case :: "nat \<Rightarrow> nat" where
  "fold_case c = (if 65 \<le> c \<and> c \<le> 90 then c + 32
     else if c = 304 \<or> c = 305 then 105 else if c = 383 then 115 else if c = 8490 then 107 else c)"

fun strip_prefix_ci :: "ustr \<Rightarrow> ustr \<Rightarrow> ustr option" where
  "strip_prefix_ci [] s = Some s"
| "strip_prefix_ci (l # ls) [] = None"
| "strip_prefix_ci (l # ls) (c # cs) =
     (if fold_case c = l then strip_prefix_ci ls cs else None)"

fun strip_prefix :: "ustr \<Rightarrow> ustr \<Rightarrow> ustr option" where
  "strip_prefix [] s = Some s"
| "strip_prefix (l # ls) [] = None"
| "strip_prefix (l # ls) (c # cs) = (if c = l then strip_prefix ls cs else None)"

section \<open>The substitution\<close>

type_synonym matcher = "nat option \<Rightarrow> ustr \<Rightarrow> (ustr \<times> nat) option"

function re_sub :: "matcher \<Rightarrow> nat option \<Rightarrow> ustr \<Rightarrow> ustr" where
  "re_sub m prev [] = []"
| "re_sub m prev (c # cs) = (case m prev (c # cs) of
       None \<Rightarrow> c # re_sub m (Some c) cs
     | Some (rep, n) \<Rightarrow> rep @ re_sub m (Some ((c # cs) ! (n - 1))) (drop (n - 1) cs))"
  by pat_completeness auto
termination
  by (relation "measure (\<lambda>(m, prev, s). length s)") auto

definition redacted :: ustr where "redacted = u ''[REDACTED]''"

definition bearer_value_char :: "nat \<Rightarrow> bool" where
  "bearer_value_char c \<longleftrightarrow> \<not> is_space c \<and> c \<notin> {44, 59, 125, 39, 34}"

definition match_bearer :: "(nat \<Rightarrow> bool) \<Rightarrow> matcher" where
  "match_bearer alnum prev s =
     (if \<not> boundary alnum prev s then None
      else case strip_prefix_ci (u ''bearer'') s of
        None \<Rightarrow> None
      | Some r \<Rightarrow>
          (let sp = takeWhile is_space r;
               v = takeWhile bearer_value_char (dropWhile is_space r);
               k = 6 + length sp in
           if sp = [] \<or> v = [] then None else Some (take k s @ redacted, k + length v)))"

definition secret_names :: "ustr list" where
  "secret_names = [u ''api_key'', u ''api-key'', u ''apikey'',
     u ''access_token'', u ''access-token'', u ''accesstoken'', u ''authorization'', u ''auth'',
     u ''password'', u ''passwd'', u ''secret'',
     u ''client_secret'', u ''client-secret'', u ''clientsecret'',
     u ''private_key'', u ''private-key'', u ''privatekey'']"

definition secret_value_char :: "nat \<Rightarrow> bool" where
  "secret_value_char c \<longleftrightarrow> \<not> is_space c \<and> c \<notin> {44, 59, 125, 93}"

text \<open>A closed quotation, or a run of value characters.\<close>

definition secret_value_length :: "ustr \<Rightarrow> nat" where
  "secret_value_length s =
     (case s of [] \<Rightarrow> 0
      | q # r \<Rightarrow>
          (if (q = 34 \<or> q = 39) \<and> q \<in> set r then length (takeWhile (\<lambda>c. c \<noteq> q) r) + 2
           else length (takeWhile secret_value_char s)))"

definition match_secret_name :: "(nat \<Rightarrow> bool) \<Rightarrow> ustr \<Rightarrow> ustr \<Rightarrow> (ustr \<times> nat) option" where
  "match_secret_name alnum name s = (case strip_prefix_ci name s of
       None \<Rightarrow> None
     | Some r \<Rightarrow>
         (let r1 = dropWhile is_space r in
          if word_at alnum r \<or> r1 = [] \<or> hd r1 \<notin> {58, 61} then None
          else
            (let r2 = dropWhile is_space (tl r1);
                 k = length s - length r2;
                 n = secret_value_length r2 in
             if n = 0 then None else Some (take k s @ redacted, k + n))))"

definition match_secret :: "(nat \<Rightarrow> bool) \<Rightarrow> matcher" where
  "match_secret alnum prev s =
     (if \<not> boundary alnum prev s then None
      else case filter (\<lambda>x. x \<noteq> None) (map (\<lambda>name. match_secret_name alnum name s) secret_names) of
             [] \<Rightarrow> None
           | x # _ \<Rightarrow> x)"

definition token_char :: "nat \<Rightarrow> bool" where
  "token_char c \<longleftrightarrow> ascii_alnum c \<or> c = 45 \<or> c = 95"

definition token_prefixes :: "ustr list" where
  "token_prefixes = [u ''sk-'', u ''rk-'', u ''xoxb-'', u ''xoxa-'', u ''xoxp-'', u ''xoxr-'', u ''xoxs-'']"

text \<open>The longest repetition of at least twelve token characters that ends at a boundary.\<close>

fun last_boundary :: "(nat \<Rightarrow> bool) \<Rightarrow> ustr \<Rightarrow> nat \<Rightarrow> nat option" where
  "last_boundary alnum r 0 = None"
| "last_boundary alnum r (Suc k) =
     (if Suc k < 12 then None
      else if boundary alnum (Some (r ! k)) (drop (Suc k) r) then Some (Suc k)
      else last_boundary alnum r k)"

definition match_token_prefix :: "(nat \<Rightarrow> bool) \<Rightarrow> ustr \<Rightarrow> ustr \<Rightarrow> (ustr \<times> nat) option" where
  "match_token_prefix alnum p s = (case strip_prefix p s of
       None \<Rightarrow> None
     | Some r \<Rightarrow> (case last_boundary alnum r (length (takeWhile token_char r)) of
           None \<Rightarrow> None
         | Some k \<Rightarrow> Some (redacted, length p + k)))"

definition match_token :: "(nat \<Rightarrow> bool) \<Rightarrow> matcher" where
  "match_token alnum prev s =
     (if \<not> boundary alnum prev s then None
      else case filter (\<lambda>x. x \<noteq> None) (map (\<lambda>p. match_token_prefix alnum p s) token_prefixes) of
             [] \<Rightarrow> None
           | x # _ \<Rightarrow> x)"

section \<open>The three entry points\<close>

definition sanitize_content :: "(nat \<Rightarrow> bool) \<Rightarrow> ustr option \<Rightarrow> ustr" where
  "sanitize_content alnum content = (case content of
       None \<Rightarrow> []
     | Some s \<Rightarrow>
         re_sub (match_token alnum) None
           (re_sub (match_secret alnum) None (re_sub (match_bearer alnum) None s)))"

definition safe_error :: "(nat \<Rightarrow> bool) \<Rightarrow> ustr option \<Rightarrow> ustr" where
  "safe_error alnum err =
     (let t = take 256 (py_join (u '' '') (py_split (sanitize_content alnum err))) in
      if t = [] then txt_worker_failed else t)"

definition default_label :: ustr where "default_label = u ''multi_agent''"

definition safe_task_label :: "(nat \<Rightarrow> bool) \<Rightarrow> ustr \<Rightarrow> ustr" where
  "safe_task_label alnum raw =
     (if \<exists>c \<in> set raw. c < 32 \<or> c = 127 then default_label
      else let t = py_join (u '' '') (py_split raw) in
        if length t > 64 then default_label
        else if t = [] \<or> (\<exists>c \<in> set t. \<not> (alnum c \<or> c \<in> {32, 95, 45})) then default_label
        else t)"

section \<open>What the projections guarantee\<close>

lemma set_py_join: "set (py_join sep ws) \<subseteq> set sep \<union> (\<Union>w \<in> set ws. set w)"
  by (induction sep ws rule: py_join.induct) auto

lemma hd_py_join: "ws \<noteq> [] \<Longrightarrow> hd ws \<noteq> [] \<Longrightarrow> hd (py_join sep ws) = hd (hd ws)"
  by (cases ws; cases "tl ws") auto

lemma joined_words_chars:
  "c \<in> set (py_join (u '' '') (py_split s)) \<Longrightarrow> is_space c \<Longrightarrow> c = 32"
proof -
  assume c: "c \<in> set (py_join (u '' '') (py_split s))" and sp: "is_space c"
  have "c \<in> set (u '' '') \<or> (\<exists>w \<in> set (py_split s). c \<in> set w)"
    using c set_py_join [of "u '' ''" "py_split s"] by blast
  moreover have "\<not> (\<exists>w \<in> set (py_split s). c \<in> set w)"
    using py_split_words [of s] sp by (auto simp: list_all_iff is_word_def)
  ultimately show "c = 32" by (simp add: u_def)
qed

lemma joined_words_not_blank:
  assumes "t = take n (py_join (u '' '') (py_split s))" and "t \<noteq> []"
  shows "py_strip t \<noteq> []"
proof -
  let ?j = "py_join (u '' '') (py_split s)"
  have ne: "py_split s \<noteq> []" using assms by auto
  then obtain w ws where w: "py_split s = w # ws" by (cases "py_split s") auto
  then have word: "is_word w" using py_split_words [of s] by simp
  then obtain c cs where c: "w = c # cs" and "\<not> is_space c"
    by (cases w) (auto simp: is_word_def)
  have "hd ?j = c" using hd_py_join [of "py_split s" "u '' ''"] w c by simp
  moreover have "hd t = hd ?j" using assms by (cases ?j; cases n) auto
  moreover have "hd t \<in> set t" using assms(2) by simp
  ultimately show ?thesis using \<open>\<not> is_space c\<close> by (auto simp: py_strip_Nil_iff)
qed

lemma safe_error_nonblank [simp]: "py_strip (safe_error alnum err) \<noteq> []"
  unfolding safe_error_def Let_def using joined_words_not_blank by simp

lemma safe_error_length: "length (safe_error alnum err) \<le> 256"
  by (simp add: safe_error_def Let_def txt_worker_failed_def)

lemma safe_error_one_line: "c \<in> set (safe_error alnum err) \<Longrightarrow> is_space c \<Longrightarrow> c = 32"
  unfolding safe_error_def Let_def
  by (auto simp: txt_worker_failed_def is_space_def dest!: in_set_takeD
      dest: joined_words_chars split: if_splits)

lemma safe_task_label_chars:
  assumes "alnum_ok alnum" and "c \<in> set (safe_task_label alnum raw)"
  shows "alnum c \<or> c \<in> {32, 95, 45}"
proof -
  have "alnum c" if "c \<in> set default_label - {95}" for c
    using assms(1) that
    by (auto simp: alnum_ok_def ascii_alnum_def default_label_def u_def)
  with assms(2) show ?thesis
    unfolding safe_task_label_def Let_def by (auto split: if_splits)
qed

lemma safe_task_label_length: "length (safe_task_label alnum raw) \<le> 64"
  by (auto simp: safe_task_label_def Let_def default_label_def)

lemma safe_task_label_nonempty: "safe_task_label alnum raw \<noteq> []"
  by (auto simp: safe_task_label_def Let_def default_label_def)

end
