(* ===== verification/Coordinator.thy ===== *)
theory Coordinator
  imports MultiAgentTypes Redaction
begin

text \<open>
  \<^verbatim>\<open>multi_agent/coordinator.py\<close>: the state of \<open>MultiAgentCoordinator\<close>, its event outlet, the life
  cycle of one worker as a step function between the points where the coroutine waits, the
  ordered collection of a pipeline, and the operations of the parent turn (\<open>delegate\<close> up to and
  after the collection, \<open>finalize\<close>, \<open>set_waiting\<close>, \<open>check_parent_context\<close>).

  What the coordinator reads from its surroundings is on tapes in its state: the monotonic clock,
  the wall clock, the parent's stop flag (\<open>None\<close> when the query raises), the answers of the event
  sink, fresh identifiers, and the number of global slots other runs hold.
\<close>

section \<open>State\<close>

record coord_cfg =
  has_sink :: bool
  per_run_limit :: nat
  global_limit :: nat
  run_timeout :: real
  worker_timeout :: real
  worker_result_limit :: int
  parent_result_limit :: int
  max_context :: int
  enc :: "ustr \<Rightarrow> nat"
  alnum :: "nat \<Rightarrow> bool"
  repr_float :: "real \<Rightarrow> ustr"

text \<open>The checks of \<open>__init__\<close>.\<close>

definition check_cfg :: "coord_cfg \<Rightarrow> exn + coord_cfg" where
  "check_cfg cf =
     (if per_run_limit cf \<le> 0 \<or> global_limit cf \<le> 0 then Inl (ValueError txt_limits_not_positive)
      else if run_timeout cf \<le> 0 \<or> worker_timeout cf \<le> 0 then
        Inl (ValueError txt_deadline_not_positive)
      else if worker_timeout cf > run_timeout cf then Inl (ValueError txt_deadline_order)
      else if max_context cf \<le> 0 \<or> worker_result_limit cf \<le> 0 \<or> parent_result_limit cf \<le> 0 then
        Inl (ValueError txt_budget_not_positive)
      else Inr cf)"

text \<open>\<open>count_content_tokens\<close> of \<^verbatim>\<open>sessions/token_counter.py\<close>; \<open>enc\<close> is the tokenizer's length.\<close>

definition count_content_tokens :: "(ustr \<Rightarrow> nat) \<Rightarrow> ustr \<Rightarrow> nat" where
  "count_content_tokens e s = (if s = [] then 0 else max 1 (e s))"

datatype sink_answer = Sink_ok | Sink_raises | Sink_cancelled

type_synonym run_key = "ustr \<times> ustr"

record coord =
  runs_by_request :: "(run_key, ma_run) dict"
  run_keys :: "(ustr, run_key) dict"
  run_deadlines :: "(ustr, real) dict"
  event_errors :: "(ustr, ustr) dict"
  terminal_nodes :: "(ustr \<times> ustr) set"
  terminal_runs :: "ustr set"
  run_held :: nat
  global_held :: nat
  log :: "(event_type \<times> ma_payload) list"
  clock :: "real tape"
  wall :: "real tape"
  stops :: "bool option tape"
  sink :: "sink_answer tape"
  uuids :: "ustr tape"
  others :: "nat tape"

definition read_clock :: "(coord, real) prog" where
  "read_clock s = (Inr (clock s 0), s\<lparr>clock := tape_tl (clock s)\<rparr>)"

definition read_wall :: "(coord, real) prog" where
  "read_wall s = (Inr (wall s 0), s\<lparr>wall := tape_tl (wall s)\<rparr>)"

definition read_uuid :: "(coord, ustr) prog" where
  "read_uuid s = (Inr (uuids s 0), s\<lparr>uuids := tape_tl (uuids s)\<rparr>)"

definition read_others :: "(coord, nat) prog" where
  "read_others s = (Inr (others s 0), s\<lparr>others := tape_tl (others s)\<rparr>)"

text \<open>\<open>_stop_requested\<close>: a query that raises counts as a stop.\<close>

definition stop_requested :: "(coord, bool) prog" where
  "stop_requested s =
     (Inr (case stops s 0 of None \<Rightarrow> True | Some b \<Rightarrow> b), s\<lparr>stops := tape_tl (stops s)\<rparr>)"

section \<open>Events\<close>

definition event_error :: "ustr \<Rightarrow> coord \<Rightarrow> ustr option" where
  "event_error rid s = dict_get (event_errors s) rid"

text \<open>\<open>_run_duration_ms\<close>: an unfinished run reads the wall clock.\<close>

definition run_duration_ms :: "ma_run \<Rightarrow> (coord, real option) prog" where
  "run_duration_ms run = (case r_started_at run of
       None \<Rightarrow> ret None
     | Some t0 \<Rightarrow> (case r_finished_at run of
           Some t1 \<Rightarrow> ret (Some (max 0 ((t1 - t0) * 1000)))
         | None \<Rightarrow> seq read_wall (\<lambda>t1. ret (Some (max 0 ((t1 - t0) * 1000))))))"

definition already_terminal :: "ma_run \<Rightarrow> ma_node option \<Rightarrow> coord \<Rightarrow> bool" where
  "already_terminal run node s = (case node of
       Some n \<Rightarrow> terminal (n_status n) \<and> (r_id run, n_id n) \<in> terminal_nodes s
     | None \<Rightarrow> terminal (r_status run) \<and> r_id run \<in> terminal_runs s)"

definition mark_terminal :: "ma_run \<Rightarrow> ma_node option \<Rightarrow> coord \<Rightarrow> coord" where
  "mark_terminal run node s = (case node of
       Some n \<Rightarrow> (if terminal (n_status n)
                 then s\<lparr>terminal_nodes := insert (r_id run, n_id n) (terminal_nodes s)\<rparr> else s)
     | None \<Rightarrow> (if terminal (r_status run)
                then s\<lparr>terminal_runs := insert (r_id run) (terminal_runs s)\<rparr> else s))"

definition project_error :: "coord_cfg \<Rightarrow> ustr option \<Rightarrow> ustr option" where
  "project_error cf e = (case e of None \<Rightarrow> None
     | Some t \<Rightarrow> (if t = [] then None else Some (safe_error (alnum cf) (Some t))))"

definition completed_content :: "ma_node \<Rightarrow> ustr option" where
  "completed_content n =
     (if n_status n = Completed then Option.bind (n_result n) wr_content else None)"

definition make_payload ::
  "coord_cfg \<Rightarrow> ma_run \<Rightarrow> ma_node option \<Rightarrow> ma_usage option \<Rightarrow> real option \<Rightarrow> ma_payload" where
  "make_payload cf run node usage run_ms =
     \<lparr>e_run_id = r_id run,
      e_node_id = map_option n_id node,
      e_task_label = safe_task_label (alnum cf) (case node of Some n \<Rightarrow> n_role n | None \<Rightarrow> u ''multi_agent''),
      e_strategy = r_strategy run,
      e_status = (case node of Some n \<Rightarrow> n_status n | None \<Rightarrow> r_status run),
      e_duration = (case node of Some n \<Rightarrow> n_duration n | None \<Rightarrow> run_ms),
      e_usage = usage,
      e_error_code = (case node of Some n \<Rightarrow> n_error_code n | None \<Rightarrow> r_error_code run),
      e_error = project_error cf (case node of Some n \<Rightarrow> n_error n | None \<Rightarrow> r_error run),
      e_content = (case node of Some n \<Rightarrow> completed_content n | None \<Rightarrow> None)\<rparr>"

text \<open>The call of the sink and what follows it in \<open>_emit\<close>.\<close>

definition send_event :: "event_type \<Rightarrow> ma_run \<Rightarrow> ma_node option \<Rightarrow> ma_payload \<Rightarrow> (coord, bool) prog" where
  "send_event ev run node payload s =
     (let s1 = s\<lparr>sink := tape_tl (sink s)\<rparr> in
      case sink s 0 of
        Sink_cancelled \<Rightarrow> (Inl CancelledError, s1)
      | Sink_raises \<Rightarrow>
          (Inr False,
           if event_error (r_id run) s = None
           then s1\<lparr>event_errors := dict_put (r_id run) txt_event_failed (event_errors s1)\<rparr> else s1)
      | Sink_ok \<Rightarrow> (Inr True, mark_terminal run node (s1\<lparr>log := log s1 @ [(ev, payload)]\<rparr>)))"

text \<open>\<open>_emit\<close>: a terminal event of a node or a run that was accepted before is not sent again.\<close>

definition emit ::
  "coord_cfg \<Rightarrow> event_type \<Rightarrow> ma_run \<Rightarrow> ma_node option \<Rightarrow> ma_usage option \<Rightarrow> (coord, bool) prog" where
  "emit cf ev run node usage =
     (if \<not> has_sink cf then ret True
      else seq (gets (already_terminal run node)) (\<lambda>seen.
        if seen then ret True
        else seq (if node = None then run_duration_ms run else ret None) (\<lambda>ms.
          send_event ev run node (make_payload cf run node usage ms))))"

section \<open>Nodes and results\<close>

definition node_id :: "nat \<Rightarrow> ustr" where
  "node_id i = u ''worker-'' @ dec i"

lemma node_id_inject [simp]: "node_id i = node_id j \<longleftrightarrow> i = j"
  by (simp add: node_id_def)

definition context_exceeded_code :: ustr where
  "context_exceeded_code = u ''result_context_exceeded''"

definition ended_node :: "ustr \<Rightarrow> ma_task \<Rightarrow> status \<Rightarrow> real option \<Rightarrow> ustr \<Rightarrow> ustr option \<Rightarrow> ma_node" where
  "ended_node nid task st dur err code =
     \<lparr>n_id = nid, n_role = t_role task, n_status = st, n_duration = dur,
      n_result = Some \<lparr>wr_status = st, wr_content = None, wr_error = Some err\<rparr>,
      n_error = Some err, n_error_code = code\<rparr>"

definition cancelled_node :: "ustr \<Rightarrow> ma_task \<Rightarrow> ustr \<Rightarrow> ma_node" where
  "cancelled_node nid task err = ended_node nid task Cancelled None err None"

definition failed_node :: "ustr \<Rightarrow> ma_task \<Rightarrow> ustr \<Rightarrow> ustr \<Rightarrow> ma_node" where
  "failed_node nid task err code = ended_node nid task Failed None err (Some code)"

definition event_failure_node :: "ustr \<Rightarrow> ma_task \<Rightarrow> ustr \<Rightarrow> ma_node" where
  "event_failure_node nid task err = failed_node nid task err (u ''event_persistence_failed'')"

definition timed_out_node :: "ustr \<Rightarrow> ma_task \<Rightarrow> real \<Rightarrow> (coord, ma_node) prog" where
  "timed_out_node nid task started =
     seq read_clock (\<lambda>now.
       ret (ended_node nid task Timed_out (Some (max 0 ((now - started) * 1000))) txt_worker_timeout None))"

text \<open>\<open>_terminal_before_start\<close>: the stop flag and the clock are read again.\<close>

definition terminal_before_start :: "ustr \<Rightarrow> ma_task \<Rightarrow> real \<Rightarrow> (coord, ma_node) prog" where
  "terminal_before_start nid task deadline =
     seq stop_requested (\<lambda>stop.
       if stop then ret (cancelled_node nid task txt_user_stopped)
       else seq read_clock (\<lambda>now.
         if now \<ge> deadline then seq read_clock (\<lambda>started. timed_out_node nid task started)
         else ret (cancelled_node nid task txt_no_slot)))"

definition controlled_failure :: "ustr \<Rightarrow> worker_result" where
  "controlled_failure err = \<lparr>wr_status = Failed, wr_content = None, wr_error = Some err\<rparr>"

text \<open>What a worker hands back; the second constructor is an object of another type.\<close>

datatype worker_value = Worker_result worker_result | Foreign_object

definition normalize_worker_result ::
  "coord_cfg \<Rightarrow> worker_value \<Rightarrow> exn + worker_result \<times> ustr option" where
  "normalize_worker_result cf v = (case v of
       Foreign_object \<Rightarrow> Inr (controlled_failure txt_invalid_result, Some context_exceeded_code)
     | Worker_result r \<Rightarrow>
         (if wr_status r \<noteq> Completed then
            bindE (mk_worker_result (wr_status r) None (Some (safe_error (alnum cf) (wr_error r))))
              (\<lambda>r'. Inr (r', None))
          else
            (let content = sanitize_content (alnum cf) (wr_content r) in
             if py_strip content = [] then
               Inr (controlled_failure txt_invalid_result, Some context_exceeded_code)
             else if int (count_content_tokens (enc cf) content) > worker_result_limit cf then
               Inr (controlled_failure txt_result_exceeded, Some context_exceeded_code)
             else bindE (mk_worker_result Completed (Some content) None) (\<lambda>r'. Inr (r', None)))))"

text \<open>\<open>_worker_usage\<close>: usage with a negative field or without tokens is dropped.\<close>

definition worker_usage :: "ma_usage option \<Rightarrow> ma_usage option" where
  "worker_usage us = (case us of None \<Rightarrow> None
     | Some x \<Rightarrow> (if us_input x < 0 \<or> us_output x < 0 \<or> us_turn_total x < 0 then None
                 else if us_turn_total x > 0 then Some x else None))"

definition dependency_max_chars :: nat where "dependency_max_chars = 12000"

definition dependency_max_tokens :: nat where "dependency_max_tokens = 6000"

text \<open>\<open>_build_dependency\<close>: the content, or the error.\<close>

definition build_dependency :: "coord_cfg \<Rightarrow> ma_node \<Rightarrow> ustr + ustr" where
  "build_dependency cf n = (case Option.bind (n_result n) wr_content of
       None \<Rightarrow> Inl txt_result_exceeded
     | Some c \<Rightarrow>
         (if length c > dependency_max_chars
             \<or> count_content_tokens (enc cf) c > dependency_max_tokens
          then Inl txt_result_exceeded else Inr c))"

end
