(* ===== verification/WorkerSteps.thy ===== *)
theory WorkerSteps
  imports Coordinator
begin

text \<open>
  \<open>_run_worker\<close>, \<open>_acquire\<close> and \<open>_await_worker_result\<close> of \<^verbatim>\<open>multi_agent/coordinator.py\<close> as the
  steps of one worker. The coroutine waits in its two acquire loops, in the sink and in the poll of
  the worker task; a step runs from one such point to the next, one round of a polling loop per
  step. The program counter names the point, with the clock values the coroutine keeps in its
  local variables. The \<open>finally\<close> block is \<open>release\<close>: it runs on every way out.
\<close>

section \<open>One worker\<close>

text \<open>What one poll of the worker task finds.\<close>

datatype worker_answer = Pending | Returned worker_value | Raised_exception | Task_cancelled

datatype pc =
    At_start
  | At_acquire_run real
  | At_acquire_global real
  | At_ready real
  | At_running real real
  | At_done ma_node
  | At_raised exn

record worker =
  wk_pc :: pc
  wk_has_run :: bool
  wk_has_global :: bool
  wk_answers :: "worker_answer tape"
  wk_usage :: "ma_usage option"

definition finished :: "worker \<Rightarrow> bool" where
  "finished w \<longleftrightarrow> (case wk_pc w of At_done _ \<Rightarrow> True | At_raised _ \<Rightarrow> True | _ \<Rightarrow> False)"

definition new_worker :: "worker_answer tape \<Rightarrow> ma_usage option \<Rightarrow> worker" where
  "new_worker ans us =
     \<lparr>wk_pc = At_start, wk_has_run = False, wk_has_global = False, wk_answers = ans, wk_usage = us\<rparr>"

text \<open>The \<open>finally\<close> block.\<close>

definition release :: "pc \<Rightarrow> worker \<Rightarrow> coord \<Rightarrow> worker \<times> coord" where
  "release p w s =
     (w\<lparr>wk_pc := p, wk_has_run := False, wk_has_global := False\<rparr>,
      s\<lparr>global_held := (if wk_has_global w then global_held s - 1 else global_held s),
        run_held := (if wk_has_run w then run_held s - 1 else run_held s)\<rparr>)"

text \<open>Run a piece of the coroutine that ends it with a node, or lets an exception out.\<close>

definition leave :: "(coord, ma_node) prog \<Rightarrow> worker \<Rightarrow> coord \<Rightarrow> worker \<times> coord" where
  "leave m w s = (case m s of
       (Inl e, s') \<Rightarrow> release (At_raised e) w s'
     | (Inr n, s') \<Rightarrow> release (At_done n) w s')"

definition emit_node :: "coord_cfg \<Rightarrow> ma_run \<Rightarrow> ma_usage option \<Rightarrow> ma_node \<Rightarrow> (coord, ma_node) prog" where
  "emit_node cf run us n = seq (emit cf Node_updated run (Some n) us) (\<lambda>_. ret n)"

text \<open>One round of \<open>_acquire\<close>: \<open>None\<close> is giving up, \<open>Some b\<close> says whether the slot was free.\<close>

definition acquire_round :: "real \<Rightarrow> (coord, bool) prog \<Rightarrow> (coord, bool option) prog" where
  "acquire_round deadline slot =
     seq stop_requested (\<lambda>stop.
       if stop then ret None
       else seq read_clock (\<lambda>now.
         if deadline - now \<le> 0 then ret None
         else seq slot (\<lambda>free. ret (Some free))))"

definition run_slot :: "coord_cfg \<Rightarrow> (coord, bool) prog" where
  "run_slot cf = gets (\<lambda>s. run_held s < per_run_limit cf)"

definition global_slot :: "coord_cfg \<Rightarrow> (coord, bool) prog" where
  "global_slot cf =
     seq read_others (\<lambda>k. gets (\<lambda>s. k + global_held s < global_limit cf))"

definition running_node :: "ustr \<Rightarrow> ma_task \<Rightarrow> ma_node" where
  "running_node nid task =
     \<lparr>n_id = nid, n_role = t_role task, n_status = Running, n_duration = None,
      n_result = None, n_error = None, n_error_code = None\<rparr>"

text \<open>From the end of \<open>_await_worker_result\<close> to the \<open>return node\<close>.\<close>

definition failed_result :: "status \<Rightarrow> ustr \<Rightarrow> worker_value" where
  "failed_result st err = Worker_result \<lparr>wr_status = st, wr_content = None, wr_error = Some err\<rparr>"

definition conclude ::
  "coord_cfg \<Rightarrow> ma_run \<Rightarrow> ma_task \<Rightarrow> ustr \<Rightarrow> real \<Rightarrow> ma_usage option \<Rightarrow> worker_value \<Rightarrow> (coord, ma_node) prog"
where
  "conclude cf run task nid started us v =
     seq (lift (normalize_worker_result cf v)) (\<lambda>(r, code).
     seq stop_requested (\<lambda>stop.
       let (r, code) =
         (if stop \<and> wr_status r = Completed
          then (\<lparr>wr_status = Cancelled, wr_content = None, wr_error = Some txt_user_stopped\<rparr>, None)
          else (r, code)) in
     seq read_clock (\<lambda>now.
     seq (lift (check_node
       \<lparr>n_id = nid, n_role = t_role task, n_status = wr_status r,
        n_duration = Some ((now - started) * 1000), n_result = Some r,
        n_error = wr_error r, n_error_code = code\<rparr>)) (\<lambda>node.
       emit_node cf run (worker_usage us) node))))"

definition give_up ::
  "coord_cfg \<Rightarrow> ma_run \<Rightarrow> ma_task \<Rightarrow> ustr \<Rightarrow> real \<Rightarrow> (coord, ma_node) prog" where
  "give_up cf run task nid deadline =
     seq (terminal_before_start nid task deadline) (emit_node cf run None)"

text \<open>
  The steps from each waiting point. \<open>At_ready\<close> emits the running state, looks for an event
  failure, and either starts the worker task with its own deadline or times out at once.
\<close>

definition step_start :: "coord_cfg \<Rightarrow> ma_run \<Rightarrow> ma_task \<Rightarrow> ustr \<Rightarrow> worker \<Rightarrow> coord \<Rightarrow> worker \<times> coord" where
  "step_start cf run task nid w s =
     (let s1 = s\<lparr>clock := tape_tl (clock s)\<rparr> in
      case event_error (r_id run) s1 of
        Some err \<Rightarrow> leave (ret (event_failure_node nid task err)) w s1
      | None \<Rightarrow> (w\<lparr>wk_pc := At_acquire_run (clock s 0)\<rparr>, s1))"

definition step_acquire_run ::
  "coord_cfg \<Rightarrow> ma_run \<Rightarrow> ma_task \<Rightarrow> ustr \<Rightarrow> real \<Rightarrow> real \<Rightarrow> worker \<Rightarrow> coord \<Rightarrow> worker \<times> coord" where
  "step_acquire_run cf run task nid deadline started w s =
     (case acquire_round deadline (run_slot cf) s of
        (Inl e, s1) \<Rightarrow> release (At_raised e) w s1
      | (Inr None, s1) \<Rightarrow> leave (give_up cf run task nid deadline) w s1
      | (Inr (Some False), s1) \<Rightarrow> (w, s1)
      | (Inr (Some True), s1) \<Rightarrow>
          (w\<lparr>wk_pc := At_acquire_global started, wk_has_run := True\<rparr>,
           s1\<lparr>run_held := run_held s1 + 1\<rparr>))"

definition step_acquire_global ::
  "coord_cfg \<Rightarrow> ma_run \<Rightarrow> ma_task \<Rightarrow> ustr \<Rightarrow> real \<Rightarrow> real \<Rightarrow> worker \<Rightarrow> coord \<Rightarrow> worker \<times> coord" where
  "step_acquire_global cf run task nid deadline started w s =
     (case acquire_round deadline (global_slot cf) s of
        (Inl e, s1) \<Rightarrow> release (At_raised e) w s1
      | (Inr None, s1) \<Rightarrow> leave (give_up cf run task nid deadline) w s1
      | (Inr (Some False), s1) \<Rightarrow> (w, s1)
      | (Inr (Some True), s1) \<Rightarrow>
          (w\<lparr>wk_pc := At_ready started, wk_has_global := True\<rparr>,
           s1\<lparr>global_held := global_held s1 + 1\<rparr>))"

definition step_ready ::
  "coord_cfg \<Rightarrow> ma_run \<Rightarrow> ma_task \<Rightarrow> ustr \<Rightarrow> real \<Rightarrow> real \<Rightarrow> worker \<Rightarrow> coord \<Rightarrow> worker \<times> coord" where
  "step_ready cf run task nid deadline started w s =
     (case emit cf Node_updated run (Some (running_node nid task)) None s of
        (Inl e, s1) \<Rightarrow> release (At_raised e) w s1
      | (Inr _, s1) \<Rightarrow>
          (case event_error (r_id run) s1 of
             Some err \<Rightarrow> leave (ret (event_failure_node nid task err)) w s1
           | None \<Rightarrow>
               (let remaining = max 0 (deadline - clock s1 0);
                    timeout = min (worker_timeout cf) remaining;
                    s2 = s1\<lparr>clock := tape_tl (clock s1)\<rparr> in
                if timeout \<le> 0 then
                  leave (seq (timed_out_node nid task started) (emit_node cf run None)) w s2
                else
                  (w\<lparr>wk_pc := At_running started (clock s2 0 + timeout)\<rparr>,
                   s2\<lparr>clock := tape_tl (clock s2)\<rparr>))))"

definition step_running ::
  "coord_cfg \<Rightarrow> ma_run \<Rightarrow> ma_task \<Rightarrow> ustr \<Rightarrow> real \<Rightarrow> real \<Rightarrow> worker \<Rightarrow> coord \<Rightarrow> worker \<times> coord" where
  "step_running cf run task nid started wdl w s =
     (case stop_requested s of
        (Inl e, s1) \<Rightarrow> release (At_raised e) w s1
      | (Inr stop, s1) \<Rightarrow>
          (if stop then
             leave (conclude cf run task nid started (wk_usage w)
               (failed_result Cancelled txt_user_stopped)) w s1
           else
             (let s2 = s1\<lparr>clock := tape_tl (clock s1)\<rparr>;
                  w2 = w\<lparr>wk_answers := tape_tl (wk_answers w)\<rparr> in
              if wdl - clock s1 0 \<le> 0 then
                leave (conclude cf run task nid started (wk_usage w)
                  (failed_result Timed_out txt_worker_timeout)) w s2
              else case wk_answers w 0 of
                Pending \<Rightarrow> (w2, s2)
              | Returned v \<Rightarrow> leave (conclude cf run task nid started (wk_usage w) v) w2 s2
              | Raised_exception \<Rightarrow>
                  leave (conclude cf run task nid started (wk_usage w)
                    (failed_result Failed txt_worker_failed)) w2 s2
              | Task_cancelled \<Rightarrow>
                  leave (conclude cf run task nid started (wk_usage w)
                    (failed_result Cancelled txt_worker_cancelled)) w2 s2)))"

definition worker_step ::
  "coord_cfg \<Rightarrow> ma_run \<Rightarrow> ma_task \<Rightarrow> ustr \<Rightarrow> real \<Rightarrow> worker \<Rightarrow> coord \<Rightarrow> worker \<times> coord" where
  "worker_step cf run task nid deadline w s = (case wk_pc w of
       At_start \<Rightarrow> step_start cf run task nid w s
     | At_acquire_run t0 \<Rightarrow> step_acquire_run cf run task nid deadline t0 w s
     | At_acquire_global t0 \<Rightarrow> step_acquire_global cf run task nid deadline t0 w s
     | At_ready t0 \<Rightarrow> step_ready cf run task nid deadline t0 w s
     | At_running t0 wdl \<Rightarrow> step_running cf run task nid t0 wdl w s
     | At_done n \<Rightarrow> (w, s)
     | At_raised e \<Rightarrow> (w, s))"

text \<open>A worker that runs alone, as in a pipeline: its steps until it ends.\<close>

fun run_worker ::
  "coord_cfg \<Rightarrow> ma_run \<Rightarrow> ma_task \<Rightarrow> ustr \<Rightarrow> real \<Rightarrow> nat \<Rightarrow> worker \<Rightarrow> (coord, ma_node) prog" where
  "run_worker cf run task nid deadline 0 w s = (Inl Out_of_fuel, s)"
| "run_worker cf run task nid deadline (Suc fuel) w s = (case wk_pc w of
       At_done n \<Rightarrow> (Inr n, s)
     | At_raised e \<Rightarrow> (Inl e, s)
     | _ \<Rightarrow> (case worker_step cf run task nid deadline w s of
               (w', s') \<Rightarrow> run_worker cf run task nid deadline fuel w' s'))"

end
