(* ===== verification/WorkerFacts.thy ===== *)
theory WorkerFacts
  imports WorkerSteps
begin

text \<open>
  What the pieces of a worker's life keep. The locale \<open>coord_inv\<close> is the contract of a property of
  the coordinator's state that the tapes do not affect and that survives a refused and an accepted
  event of the run \<open>rid\<close>; \<open>worker_inv\<close> adds that it does not depend on the slots. Every invariant of
  the coordinator is an instance, so the passage through \<open>_emit\<close>, \<open>_acquire\<close> and the rest is proved
  once.
\<close>

section \<open>The contract\<close>

definition payload_for :: "ma_run \<Rightarrow> ma_node option \<Rightarrow> ma_payload \<Rightarrow> bool" where
  "payload_for run node p \<longleftrightarrow>
     e_run_id p = r_id run \<and> e_node_id p = map_option n_id node
     \<and> e_status p = (case node of Some n \<Rightarrow> n_status n | None \<Rightarrow> r_status run)"

lemma make_payload_for: "payload_for run node (make_payload cf run node us ms)"
  by (simp add: payload_for_def make_payload_def)

locale coord_inv =
  fixes P :: "coord \<Rightarrow> bool" and rid :: ustr
  assumes tape_clock: "P s \<Longrightarrow> P (s\<lparr>clock := tape_tl (clock s)\<rparr>)"
    and tape_wall: "P s \<Longrightarrow> P (s\<lparr>wall := tape_tl (wall s)\<rparr>)"
    and tape_stops: "P s \<Longrightarrow> P (s\<lparr>stops := tape_tl (stops s)\<rparr>)"
    and tape_sink: "P s \<Longrightarrow> P (s\<lparr>sink := tape_tl (sink s)\<rparr>)"
    and tape_others: "P s \<Longrightarrow> P (s\<lparr>others := tape_tl (others s)\<rparr>)"
    and refused: "P s \<Longrightarrow> event_error rid s = None \<Longrightarrow>
        P (s\<lparr>event_errors := dict_put rid txt_event_failed (event_errors s)\<rparr>)"
    and accepted: "P s \<Longrightarrow> r_id run = rid \<Longrightarrow> \<not> already_terminal run node s \<Longrightarrow>
        payload_for run node p \<Longrightarrow> P (mark_terminal run node (s\<lparr>log := log s @ [(ev, p)]\<rparr>))"
begin

lemma keeps_read_clock: "keeps P read_clock"
  by (rule keepsI) (simp add: read_clock_def tape_clock)

lemma keeps_read_wall: "keeps P read_wall"
  by (rule keepsI) (simp add: read_wall_def tape_wall)

lemma keeps_read_others: "keeps P read_others"
  by (rule keepsI) (simp add: read_others_def tape_others)

lemma keeps_stop_requested: "keeps P stop_requested"
  by (rule keepsI) (simp add: stop_requested_def tape_stops)

lemmas keeps_reads = keeps_read_clock keeps_read_wall keeps_read_others keeps_stop_requested

lemma keeps_run_duration_ms: "keeps P (run_duration_ms run)"
  unfolding run_duration_ms_def by (intro keeps_rules keeps_reads)

lemma send_event_keeps:
  assumes "P s" "r_id run = rid" "\<not> already_terminal run node s" "payload_for run node p"
  shows "P (snd (send_event ev run node p s))"
proof (cases "sink s 0")
  case Sink_ok
  have "P (s\<lparr>sink := tape_tl (sink s)\<rparr>)" by (rule tape_sink) (rule assms(1))
  moreover have "\<not> already_terminal run node (s\<lparr>sink := tape_tl (sink s)\<rparr>)"
    using assms(3) by (simp add: already_terminal_def split: option.splits)
  ultimately show ?thesis
    using accepted [of "s\<lparr>sink := tape_tl (sink s)\<rparr>" run node p ev] assms(2,4) Sink_ok
    by (simp add: send_event_def Let_def)
next
  case Sink_raises
  have "P (s\<lparr>sink := tape_tl (sink s)\<rparr>)" by (rule tape_sink) (rule assms(1))
  then show ?thesis
    using refused [of "s\<lparr>sink := tape_tl (sink s)\<rparr>"] assms(2) Sink_raises
    by (auto simp: send_event_def Let_def event_error_def)
next
  case Sink_cancelled
  then show ?thesis by (simp add: send_event_def Let_def tape_sink assms(1))
qed

lemma already_terminal_wall [simp]:
  "already_terminal run node (s\<lparr>wall := c\<rparr>) = already_terminal run node s"
  by (simp add: already_terminal_def split: option.splits)

lemma keeps_emit: "r_id run = rid \<Longrightarrow> keeps P (emit cf ev run node us)"
  unfolding emit_def
proof (intro keeps_if keeps_ret, rule keepsI)
  fix s
  assume rid: "r_id run = rid" and "P s"
  have *: "P (snd (send_event ev run node (make_payload cf run node us ms) s'))"
    if "P s'" "\<not> already_terminal run node s'" for ms s'
    using that rid by (intro send_event_keeps make_payload_for) auto
  show "P (snd (seq (gets (already_terminal run node)) (\<lambda>seen. if seen then ret True
     else seq (if node = None then run_duration_ms run else ret None)
       (\<lambda>ms. send_event ev run node (make_payload cf run node us ms))) s))"
    using * [OF \<open>P s\<close>] * [OF tape_wall [OF \<open>P s\<close>]] \<open>P s\<close>
    by (auto simp: ret_def run_duration_ms_def seq_def read_wall_def gets_def split: option.splits)
qed

lemma keeps_emit_node: "r_id run = rid \<Longrightarrow> keeps P (emit_node cf run us n)"
  unfolding emit_node_def by (intro keeps_rules keeps_emit)

lemma keeps_timed_out_node: "keeps P (timed_out_node nid task t)"
  unfolding timed_out_node_def by (intro keeps_rules keeps_reads)

lemma keeps_terminal_before_start: "keeps P (terminal_before_start nid task t)"
  unfolding terminal_before_start_def by (intro keeps_rules keeps_reads keeps_timed_out_node)

lemma keeps_give_up: "r_id run = rid \<Longrightarrow> keeps P (give_up cf run task nid t)"
  unfolding give_up_def by (intro keeps_seq keeps_terminal_before_start keeps_emit_node)

lemma keeps_conclude: "r_id run = rid \<Longrightarrow> keeps P (conclude cf run task nid t us v)"
  unfolding conclude_def Let_def by (intro keeps_rules keeps_reads keeps_emit_node)

lemma keeps_acquire_round: "keeps P slot \<Longrightarrow> keeps P (acquire_round t slot)"
  unfolding acquire_round_def by (intro keeps_rules keeps_reads)

lemma keeps_run_slot: "keeps P (run_slot cf)"
  unfolding run_slot_def by (intro keeps_rules)

lemma keeps_global_slot: "keeps P (global_slot cf)"
  unfolding global_slot_def by (intro keeps_rules keeps_reads)

end

section \<open>Frames: which pieces leave the slots and the bookkeeping alone\<close>

definition slots_are :: "nat \<Rightarrow> nat \<Rightarrow> coord \<Rightarrow> bool" where
  "slots_are a b s \<longleftrightarrow> run_held s = a \<and> global_held s = b"

lemma slots_mark_terminal [simp]:
  "run_held (mark_terminal run node s) = run_held s"
  "global_held (mark_terminal run node s) = global_held s"
  by (auto simp: mark_terminal_def split: option.splits)

interpretation slots: coord_inv "slots_are a b" rid for a b rid
  by unfold_locales (auto simp: slots_are_def)

text \<open>The registered run and its deadline stay while its workers work.\<close>

definition registered :: "ustr \<Rightarrow> run_key option \<Rightarrow> coord \<Rightarrow> bool" where
  "registered rid k s \<longleftrightarrow> dict_get (run_keys s) rid = k"

lemma books_mark_terminal [simp]:
  "run_keys (mark_terminal run node s) = run_keys s"
  "runs_by_request (mark_terminal run node s) = runs_by_request s"
  "run_deadlines (mark_terminal run node s) = run_deadlines s"
  "event_errors (mark_terminal run node s) = event_errors s"
  "uuids (mark_terminal run node s) = uuids s"
  "log (mark_terminal run node s) = log s"
  by (auto simp: mark_terminal_def split: option.splits)

interpretation reg: coord_inv "registered rid' k" rid for rid' k rid
  by unfold_locales (auto simp: registered_def)

text \<open>Every recorded event failure carries the same fixed text.\<close>

definition errors_ok :: "coord \<Rightarrow> bool" where
  "errors_ok s \<longleftrightarrow> (\<forall>r e. event_error r s = Some e \<longrightarrow> e = txt_event_failed)"

interpretation errs: coord_inv errors_ok rid for rid
  by unfold_locales
    (auto simp: errors_ok_def event_error_def dict_simps split: if_splits)

section \<open>Invariants of whole steps\<close>

locale worker_inv = coord_inv +
  assumes run_slot_free: "P s \<Longrightarrow> P (s\<lparr>run_held := a\<rparr>)"
    and global_slot_free: "P s \<Longrightarrow> P (s\<lparr>global_held := b\<rparr>)"
begin

lemma release_keeps: "P s \<Longrightarrow> P (snd (release p w s))"
  unfolding release_def by (auto intro: run_slot_free global_slot_free)

lemma leave_keeps:
  assumes "keeps P m" "P s"
  shows "P (snd (leave m w s))"
proof (cases "m s")
  case (Pair r s')
  with keepsD [OF assms] have "P s'" by simp
  with Pair show ?thesis by (cases r) (simp_all add: leave_def release_keeps)
qed

lemma step_start_keeps: "r_id run = rid \<Longrightarrow> P s \<Longrightarrow> P (snd (step_start cf run task nid w s))"
  by (auto simp: step_start_def Let_def tape_clock split: option.splits intro!: leave_keeps keeps_rules)

lemma step_acquire_run_keeps:
  assumes "r_id run = rid" "P s"
  shows "P (snd (step_acquire_run cf run task nid dl t0 w s))"
proof (cases "acquire_round dl (run_slot cf) s")
  case (Pair r s1)
  have "P s1"
    using keepsD [OF keeps_acquire_round [OF keeps_run_slot] assms(2), of dl cf] Pair by simp
  with Pair assms(1) show ?thesis
    by (auto simp: step_acquire_run_def split: sum.splits option.splits bool.splits
        intro: release_keeps leave_keeps keeps_give_up run_slot_free global_slot_free)
qed

lemma step_acquire_global_keeps:
  assumes "r_id run = rid" "P s"
  shows "P (snd (step_acquire_global cf run task nid dl t0 w s))"
proof (cases "acquire_round dl (global_slot cf) s")
  case (Pair r s1)
  have "P s1"
    using keepsD [OF keeps_acquire_round [OF keeps_global_slot] assms(2), of dl cf] Pair by simp
  with Pair assms(1) show ?thesis
    by (auto simp: step_acquire_global_def split: sum.splits option.splits bool.splits
        intro: release_keeps leave_keeps keeps_give_up run_slot_free global_slot_free)
qed

lemma step_ready_keeps:
  assumes "r_id run = rid" "P s"
  shows "P (snd (step_ready cf run task nid dl t0 w s))"
proof (cases "emit cf Node_updated run (Some (running_node nid task)) None s")
  case (Pair r s1)
  have P1: "P s1" using keepsD [OF keeps_emit [OF assms(1)] assms(2)] Pair by (metis snd_conv)
  have *: "keeps P (seq (timed_out_node nid task t0) (emit_node cf run None))"
    by (intro keeps_seq keeps_timed_out_node keeps_emit_node assms)
  show ?thesis
  proof (cases r)
    case (Inl e)
    with Pair P1 show ?thesis by (simp add: step_ready_def release_keeps)
  next
    case (Inr b)
    show ?thesis
    proof (cases "event_error (r_id run) s1")
      case None
      have "P (s1\<lparr>clock := tape_tl (tape_tl (clock s1))\<rparr>)"
        using tape_clock [OF tape_clock [OF P1]] by simp
      with None Pair Inr P1 * show ?thesis
        by (simp add: step_ready_def Let_def leave_keeps tape_clock)
    next
      case (Some err)
      with Pair Inr P1 show ?thesis
        by (simp add: step_ready_def leave_keeps keeps_ret)
    qed
  qed
qed

lemma step_running_keeps:
  assumes "r_id run = rid" "P s"
  shows "P (snd (step_running cf run task nid t0 wdl w s))"
proof -
  have P1: "P (s\<lparr>stops := tape_tl (stops s)\<rparr>)" by (rule tape_stops) (rule assms)
  have P2: "P (s\<lparr>stops := tape_tl (stops s), clock := tape_tl (clock s)\<rparr>)"
    using tape_clock [OF P1] by simp
  have *: "P s' \<Longrightarrow> P (snd (leave (conclude cf run task nid t0 us v) w' s'))" for s' us v w'
    by (intro leave_keeps keeps_conclude assms)
  show ?thesis
    by (auto simp: step_running_def Let_def stop_requested_def P1 P2
        split: option.splits worker_answer.splits intro: * P1 P2)
qed

lemma worker_step_keeps:
  "r_id run = rid \<Longrightarrow> P s \<Longrightarrow> P (snd (worker_step cf run task nid dl w s))"
  by (simp add: worker_step_def step_start_keeps step_acquire_run_keeps step_acquire_global_keeps
      step_ready_keeps step_running_keeps split: pc.splits)

lemma run_worker_keeps: "r_id run = rid \<Longrightarrow> keeps P (run_worker cf run task nid dl fuel w)"
proof (induction fuel arbitrary: w)
  case 0
  show ?case by (rule keepsI) simp
next
  case (Suc fuel)
  show ?case
  proof (rule keepsI)
    fix s
    assume "P s"
    then have "P (snd (worker_step cf run task nid dl w s))"
      by (rule worker_step_keeps [OF Suc.prems])
    then have "P (snd (run_worker cf run task nid dl fuel
        (fst (worker_step cf run task nid dl w s)) (snd (worker_step cf run task nid dl w s))))"
      by (rule keepsD [OF Suc.IH [OF Suc.prems]])
    with \<open>P s\<close> show "P (snd (run_worker cf run task nid dl (Suc fuel) w s))"
      by (simp add: case_prod_unfold split: pc.splits)
  qed
qed

end

interpretation reg_step: worker_inv "registered rid' k" rid for rid' k rid
  by unfold_locales (auto simp: registered_def)

interpretation errs_step: worker_inv errors_ok rid for rid
  by unfold_locales (auto simp: errors_ok_def event_error_def)

end
