(* ===== verification/WorkerResults.thy ===== *)
theory WorkerResults
  imports WorkerFacts
begin

text \<open>
  What a worker ends with: every node it produces is terminal, belongs to its task, carries a
  result that satisfies the contract of \<open>WorkerResult\<close>, and never more tokens than the limit; a
  stop ends it in one step; and it ends at all once the clock passes its deadline.
\<close>

section \<open>Results\<close>

definition within_limit :: "coord_cfg \<Rightarrow> worker_result \<Rightarrow> bool" where
  "within_limit cf r \<longleftrightarrow>
     (\<forall>c. wr_content r = Some c \<longrightarrow> int (count_content_tokens (enc cf) c) \<le> worker_result_limit cf)"

definition node_ok :: "coord_cfg \<Rightarrow> ustr \<Rightarrow> ma_task \<Rightarrow> ma_node \<Rightarrow> bool" where
  "node_ok cf nid task n \<longleftrightarrow>
     n_id n = nid \<and> n_role n = t_role task \<and> terminal (n_status n) \<and>
     (\<exists>r. n_result n = Some r \<and> wf_result r \<and> wr_status r = n_status n
        \<and> n_error n = wr_error r \<and> within_limit cf r)"

text \<open>What a worker may hand back: a \<open>WorkerResult\<close> was checked when it was built.\<close>

definition value_ok :: "worker_value \<Rightarrow> bool" where
  "value_ok v = (case v of Worker_result r \<Rightarrow> wf_result r | Foreign_object \<Rightarrow> True)"

lemma blank_Some [simp]: "blank (Some t) \<longleftrightarrow> py_strip t = []"
  by (simp add: blank_def)

lemma failed_result_ok [simp]:
  "terminal st \<Longrightarrow> st \<noteq> Completed \<Longrightarrow> py_strip err \<noteq> [] \<Longrightarrow> value_ok (failed_result st err)"
  by (simp add: failed_result_def value_ok_def wf_result_def)

lemma controlled_failure_ok:
  "py_strip err \<noteq> [] \<Longrightarrow> wf_result (controlled_failure err) \<and> within_limit cf (controlled_failure err)"
  by (simp add: controlled_failure_def wf_result_def within_limit_def)

lemma normalize_total:
  assumes "value_ok v"
  shows "\<exists>r code. normalize_worker_result cf v = Inr (r, code) \<and> wf_result r \<and> within_limit cf r"
proof (cases v)
  case Foreign_object
  then show ?thesis by (simp add: normalize_worker_result_def controlled_failure_ok)
next
  case (Worker_result r)
  with assms have wf: "wf_result r" by (simp add: value_ok_def)
  show ?thesis
  proof (cases "wr_status r = Completed")
    case True
    let ?c = "sanitize_content (alnum cf) (wr_content r)"
    consider "py_strip ?c = []"
      | "py_strip ?c \<noteq> []" "int (count_content_tokens (enc cf) ?c) > worker_result_limit cf"
      | "py_strip ?c \<noteq> []" "int (count_content_tokens (enc cf) ?c) \<le> worker_result_limit cf"
      by linarith
    then show ?thesis
    proof cases
      case 3
      then have "mk_worker_result Completed (Some ?c) None
          = Inr \<lparr>wr_status = Completed, wr_content = Some ?c, wr_error = None\<rparr>"
        by (simp add: mk_worker_result_def worker_result_statuses_def)
      with 3 True Worker_result show ?thesis
        by (simp add: normalize_worker_result_def Let_def wf_result_def within_limit_def)
    qed (use True Worker_result in \<open>simp_all add: normalize_worker_result_def Let_def controlled_failure_ok\<close>)
  next
    case False
    with wf have "wr_status r \<in> set worker_result_statuses"
      by (simp add: wf_result_def terminal_def)
    with False Worker_result show ?thesis
      by (simp add: normalize_worker_result_def mk_worker_result_def wf_result_def within_limit_def
          terminal_def)
  qed
qed

section \<open>Nodes\<close>

lemma ended_node_ok:
  assumes "terminal st" "st \<noteq> Completed" "py_strip err \<noteq> []"
  shows "node_ok cf nid task (ended_node nid task st dur err code)"
  using assms by (auto simp: node_ok_def ended_node_def wf_result_def within_limit_def)

lemma cancelled_node_ok: "py_strip err \<noteq> [] \<Longrightarrow> node_ok cf nid task (cancelled_node nid task err)"
  by (simp add: cancelled_node_def ended_node_ok)

lemma failed_node_ok: "py_strip err \<noteq> [] \<Longrightarrow> node_ok cf nid task (failed_node nid task err code)"
  by (simp add: failed_node_def ended_node_ok)

lemma event_failure_node_ok:
  "py_strip err \<noteq> [] \<Longrightarrow> node_ok cf nid task (event_failure_node nid task err)"
  by (simp add: event_failure_node_def failed_node_ok)

text \<open>\<open>yields m P\<close>: a node that \<open>m\<close> returns satisfies \<open>P\<close>, from any state.\<close>

definition yields :: "(coord, 'a) prog \<Rightarrow> ('a \<Rightarrow> bool) \<Rightarrow> bool" where
  "yields m P \<longleftrightarrow> (\<forall>s a s'. m s = (Inr a, s') \<longrightarrow> P a)"

lemma yieldsI: "(\<And>s a s'. m s = (Inr a, s') \<Longrightarrow> P a) \<Longrightarrow> yields m P"
  unfolding yields_def by blast

lemma yieldsD: "yields m P \<Longrightarrow> m s = (Inr a, s') \<Longrightarrow> P a"
  unfolding yields_def by blast

lemma yields_ret: "P a \<Longrightarrow> yields (ret a) P"
  by (rule yieldsI) (simp add: ret_def)

lemma yields_seq:
  assumes "yields m R" and "\<And>a. R a \<Longrightarrow> yields (f a) P"
  shows "yields (seq m f) P"
proof (rule yieldsI)
  fix s b s'
  assume "seq m f s = (Inr b, s')"
  then show "P b" by (rule seq_cases) (auto dest: yieldsD [OF assms(1)] yieldsD [OF assms(2)])
qed

lemma yields_any: "(\<And>a. yields (f a) P) \<Longrightarrow> yields (seq m f) P"
  by (rule yields_seq [where R = "\<lambda>_. True"]) (auto intro: yieldsI)

lemma yields_if: "(b \<Longrightarrow> yields m P) \<Longrightarrow> (\<not> b \<Longrightarrow> yields n P) \<Longrightarrow> yields (if b then m else n) P"
  by simp

lemma yields_emit_node: "P n \<Longrightarrow> yields (emit_node cf run us n) P"
  unfolding emit_node_def by (intro yields_any yields_ret)

lemma yields_timed_out_node: "yields (timed_out_node nid task t) (node_ok cf nid task)"
  unfolding timed_out_node_def by (intro yields_any yields_ret ended_node_ok) auto

lemma yields_terminal_before_start:
  "yields (terminal_before_start nid task t) (node_ok cf nid task)"
  unfolding terminal_before_start_def
  by (intro yields_any yields_if yields_ret yields_timed_out_node cancelled_node_ok) auto

lemma yields_give_up: "yields (give_up cf run task nid t) (node_ok cf nid task)"
  unfolding give_up_def by (rule yields_seq [OF yields_terminal_before_start yields_emit_node])

lemma yields_conclude:
  assumes "value_ok v"
  shows "yields (conclude cf run task nid t us v) (node_ok cf nid task)"
proof -
  obtain r code where n: "normalize_worker_result cf v = Inr (r, code)"
    and r: "wf_result r" "within_limit cf r"
    using normalize_total [OF assms, of cf] by blast
  let ?cancel = "\<lparr>wr_status = Cancelled, wr_content = None, wr_error = Some txt_user_stopped\<rparr>"
  have c: "wf_result ?cancel" "within_limit cf ?cancel"
    by (simp_all add: wf_result_def within_limit_def)
  have term_r: "wf_result r' \<Longrightarrow> terminal (wr_status r')" for r'
    by (auto simp: wf_result_def split: if_splits)
  have node: "yields (seq (lift (check_node
        \<lparr>n_id = nid, n_role = t_role task, n_status = wr_status r', n_duration = Some d,
         n_result = Some r', n_error = wr_error r', n_error_code = k\<rparr>)) (\<lambda>n. emit_node cf run us' n))
      (node_ok cf nid task)"
    if "wf_result r'" "within_limit cf r'" for r' d k us'
  proof (rule yields_seq [where R = "node_ok cf nid task"])
    show "yields (lift (check_node
        \<lparr>n_id = nid, n_role = t_role task, n_status = wr_status r', n_duration = Some d,
         n_result = Some r', n_error = wr_error r', n_error_code = k\<rparr>)) (node_ok cf nid task)"
      using that term_r [OF that(1)]
      by (intro yieldsI) (auto simp: lift_def check_node_def node_ok_def split: if_splits)
  qed (rule yields_emit_node)
  have lifted: "lift (Inr x) = ret x" for x :: "worker_result \<times> ustr option"
    by (rule ext) (simp add: lift_def ret_def)
  have pair: "yields (case x of (r', k) \<Rightarrow> seq read_clock (\<lambda>now. seq (lift (check_node
          \<lparr>n_id = nid, n_role = t_role task, n_status = wr_status r',
           n_duration = Some ((now - t) * 1000), n_result = Some r', n_error = wr_error r',
           n_error_code = k\<rparr>)) (emit_node cf run (worker_usage us)))) (node_ok cf nid task)"
    if "wf_result (fst x)" "within_limit cf (fst x)" for x
    by (cases x, simp only: case_prod_conv, rule yields_any, rule node) (use that in auto)
  show ?thesis
    unfolding conclude_def n lifted seq_ret Let_def case_prod_conv
    using r c by (intro yields_any [where m = stop_requested] pair) auto
qed

section \<open>The node a step ends with\<close>

lemma release_pc [simp]:
  "wk_pc (fst (release p w s)) = p" "wk_has_run (fst (release p w s)) = False"
  "wk_has_global (fst (release p w s)) = False"
  by (simp_all add: release_def)

lemma leave_done:
  assumes "yields m P" "wk_pc (fst (leave m w s)) = At_done n"
  shows "P n"
proof (cases "m s")
  case (Pair r s')
  with assms show ?thesis by (cases r) (auto simp: leave_def dest: yieldsD)
qed

definition answers_ok :: "worker \<Rightarrow> bool" where
  "answers_ok w \<longleftrightarrow> (\<forall>i v. wk_answers w i = Returned v \<longrightarrow> value_ok v)"

lemma errors_ok_text: "errors_ok s \<Longrightarrow> event_error r s = Some e \<Longrightarrow> py_strip e \<noteq> []"
proof -
  assume "errors_ok s" "event_error r s = Some e"
  then have "e = txt_event_failed" by (auto simp: errors_ok_def)
  then show ?thesis by simp
qed

lemma worker_step_done:
  assumes "wk_pc (fst (worker_step cf run task nid dl w s)) = At_done n"
    and "\<not> finished w" "answers_ok w" "errors_ok s"
  shows "node_ok cf nid task n"
proof (cases "wk_pc w")
  case At_start
  have "yields (ret (event_failure_node nid task e)) (node_ok cf nid task)"
    if "event_error (r_id run) (s\<lparr>clock := tape_tl (clock s)\<rparr>) = Some e" for e
    using errors_ok_text [OF errs.tape_clock [OF assms(4)] that]
    by (intro yields_ret event_failure_node_ok)
  with At_start assms(1) show ?thesis
    by (auto simp: worker_step_def step_start_def Let_def split: option.splits dest: leave_done)
next
  case (At_acquire_run t0)
  with assms(1) show ?thesis
    by (auto simp: worker_step_def step_acquire_run_def
        split: prod.splits sum.splits option.splits bool.splits dest: leave_done [OF yields_give_up])
next
  case (At_acquire_global t0)
  with assms(1) show ?thesis
    by (auto simp: worker_step_def step_acquire_global_def
        split: prod.splits sum.splits option.splits bool.splits dest: leave_done [OF yields_give_up])
next
  case (At_ready t0)
  obtain r s1 where e: "emit cf Node_updated run (Some (running_node nid task)) None s = (r, s1)"
    by (cases "emit cf Node_updated run (Some (running_node nid task)) None s") blast
  have "errors_ok s1"
    using keepsD [OF errs.keeps_emit [OF refl] assms(4), of cf Node_updated run] e
    by (metis snd_conv)
  then have *: "yields (ret (event_failure_node nid task x)) (node_ok cf nid task)"
    if "event_error (r_id run) s1 = Some x" for x
    using that errors_ok_text by (intro yields_ret event_failure_node_ok) auto
  have "yields (seq (timed_out_node nid task t0) (emit_node cf run None)) (node_ok cf nid task)"
    by (rule yields_seq [OF yields_timed_out_node yields_emit_node])
  with At_ready e assms(1) * show ?thesis
    by (auto simp: worker_step_def step_ready_def Let_def
        split: sum.splits option.splits if_splits dest: leave_done)
next
  case (At_running t0 wdl)
  have "value_ok v" if "wk_answers w 0 = Returned v" for v
    using assms(3) that by (auto simp: answers_ok_def)
  with At_running assms(1) show ?thesis
    by (auto simp: worker_step_def step_running_def Let_def stop_requested_def
        split: option.splits if_splits worker_answer.splits
        dest!: leave_done [OF yields_conclude, rotated])
qed (use assms(2) in \<open>simp_all add: finished_def\<close>)

end
