(* ===== verification/WorkerLiveness.thy ===== *)
theory WorkerLiveness
  imports WorkerResults
begin

text \<open>
  A worker ends. A raised stop flag ends it at the next poll with a cancelled node, and with no
  stop at all the deadlines end it: when the clock eventually passes every bound, finitely many
  steps reach an end, whatever the slots, the sink and the worker task do.
\<close>

section \<open>Stopping\<close>

definition stopped :: "coord \<Rightarrow> bool" where
  "stopped s \<longleftrightarrow> (\<forall>i. stops s i \<noteq> Some False)"

lemma stopped_read: "stopped s \<Longrightarrow> stop_requested s = (Inr True, s\<lparr>stops := tape_tl (stops s)\<rparr>)"
  unfolding stopped_def stop_requested_def
  by (cases "stops s 0") (auto, metis option.case(2))

lemma stopped_tl: "stopped s \<Longrightarrow> stopped (s\<lparr>stops := tape_tl (stops s)\<rparr>)"
  by (simp add: stopped_def)

definition at_poll :: "pc \<Rightarrow> bool" where
  "at_poll p \<longleftrightarrow> (case p of At_acquire_run _ \<Rightarrow> True | At_acquire_global _ \<Rightarrow> True
     | At_running _ _ \<Rightarrow> True | _ \<Rightarrow> False)"

lemma leave_finished: "finished (fst (leave m w s))"
  by (auto simp: leave_def finished_def release_def split: prod.splits sum.splits)

lemma leave_slots: "wk_has_run (fst (leave m w s)) = False" "wk_has_global (fst (leave m w s)) = False"
  by (auto simp: leave_def release_def split: prod.splits sum.splits)

lemma leave_done_from:
  assumes "wk_pc (fst (leave m w s)) = At_done n"
  shows "\<exists>s'. m s = (Inr n, s')"
  using assms by (auto simp: leave_def release_def split: prod.splits sum.splits)

lemma emit_node_value: "emit_node cf run us n s = (Inr a, s') \<Longrightarrow> a = n"
  by (auto simp: emit_node_def seq_def ret_def split: prod.splits sum.splits)

lemma give_up_stopped:
  assumes "stopped s" "give_up cf run task nid dl s = (Inr n, s')"
  shows "n_status n = Cancelled"
proof -
  from assms(2) have "emit_node cf run None (cancelled_node nid task txt_user_stopped)
      (s\<lparr>stops := tape_tl (stops s)\<rparr>) = (Inr n, s')"
    by (simp add: give_up_def terminal_before_start_def seq_def stopped_read [OF assms(1)] ret_def)
  then have "n = cancelled_node nid task txt_user_stopped" by (rule emit_node_value)
  then show ?thesis by (simp add: cancelled_node_def ended_node_def)
qed

lemma conclude_cancelled:
  assumes "conclude cf run task nid t us (failed_result Cancelled txt_user_stopped) s = (Inr n, s')"
  shows "n_status n = Cancelled"
proof -
  have "yields (conclude cf run task nid t us (failed_result Cancelled txt_user_stopped))
      (\<lambda>n. n_status n = Cancelled)"
    unfolding conclude_def failed_result_def normalize_worker_result_def mk_worker_result_def Let_def
    by (intro yields_seq [where R = "\<lambda>x. wr_status (fst x) = Cancelled"])
      (auto simp: lift_def terminal_def worker_result_statuses_def check_node_def
        intro!: yieldsI [of "lift _"] yields_any [where m = stop_requested] yields_any [where m = read_clock]
          yields_seq [where m = "lift _" and R = "\<lambda>n. n_status n = Cancelled"] yields_emit_node
        split: if_splits)
  then show ?thesis using assms by (rule yieldsD)
qed

lemma acquire_round_stopped:
  "stopped s \<Longrightarrow> acquire_round dl slot s = (Inr None, s\<lparr>stops := tape_tl (stops s)\<rparr>)"
  by (simp add: acquire_round_def seq_def stopped_read ret_def)

lemma stop_step:
  assumes "stopped s" "at_poll (wk_pc w)"
  shows "finished (fst (worker_step cf run task nid dl w s))
    \<and> \<not> wk_has_run (fst (worker_step cf run task nid dl w s))
    \<and> \<not> wk_has_global (fst (worker_step cf run task nid dl w s))
    \<and> (\<forall>n. wk_pc (fst (worker_step cf run task nid dl w s)) = At_done n \<longrightarrow> n_status n = Cancelled)"
proof -
  have g: "n_status n = Cancelled"
    if "wk_pc (fst (leave (give_up cf run task nid dl) w (s\<lparr>stops := tape_tl (stops s)\<rparr>))) = At_done n" for n
    using leave_done_from [OF that] give_up_stopped [OF stopped_tl [OF assms(1)]] by blast
  have c: "n_status n = Cancelled"
    if "wk_pc (fst (leave (conclude cf run task nid t (wk_usage w)
          (failed_result Cancelled txt_user_stopped)) w (s\<lparr>stops := tape_tl (stops s)\<rparr>))) = At_done n" for n t
    using leave_done_from [OF that] conclude_cancelled by blast
  show ?thesis
  proof (cases "wk_pc w")
    case (At_acquire_run t0)
    then show ?thesis using g
      by (simp add: worker_step_def step_acquire_run_def acquire_round_stopped [OF assms(1)]
          leave_finished leave_slots)
  next
    case (At_acquire_global t0)
    then show ?thesis using g
      by (simp add: worker_step_def step_acquire_global_def acquire_round_stopped [OF assms(1)]
          leave_finished leave_slots)
  next
    case (At_running t0 wdl)
    then show ?thesis using c
      by (simp add: worker_step_def step_running_def stopped_read [OF assms(1)]
          leave_finished leave_slots)
  qed (use assms(2) in \<open>simp_all add: at_poll_def\<close>)
qed

section \<open>Deadlines\<close>

definition diverges :: "real tape \<Rightarrow> bool" where
  "diverges c \<longleftrightarrow> (\<forall>b. \<exists>k. \<forall>i \<ge> k. b \<le> c i)"

lemma diverges_tl: "diverges c \<Longrightarrow> diverges (tape_tl c)"
  unfolding diverges_def tape_tl_def by (meson le_SucI)

definition steps :: "coord_cfg \<Rightarrow> ma_run \<Rightarrow> ma_task \<Rightarrow> ustr \<Rightarrow> real \<Rightarrow> nat \<Rightarrow> worker \<times> coord \<Rightarrow> worker \<times> coord" where
  "steps cf run task nid dl k = ((\<lambda>(w, s). worker_step cf run task nid dl w s) ^^ k)"

definition ends :: "coord_cfg \<Rightarrow> ma_run \<Rightarrow> ma_task \<Rightarrow> ustr \<Rightarrow> real \<Rightarrow> worker \<times> coord \<Rightarrow> bool" where
  "ends cf run task nid dl ws \<longleftrightarrow> (\<exists>k. finished (fst (steps cf run task nid dl k ws)))"

lemma ends_now: "finished w \<Longrightarrow> ends cf run task nid dl (w, s)"
  unfolding ends_def steps_def by (rule exI [of _ 0]) simp

lemma ends_step:
  assumes "ends cf run task nid dl (worker_step cf run task nid dl w s)"
  shows "ends cf run task nid dl (w, s)"
proof -
  from assms obtain k where
    "finished (fst (steps cf run task nid dl k (worker_step cf run task nid dl w s)))"
    unfolding ends_def by blast
  then have "finished (fst (steps cf run task nid dl (Suc k) (w, s)))"
    by (simp add: steps_def funpow_Suc_right del: funpow.simps)
  then show ?thesis unfolding ends_def by blast
qed

lemma ends_leave: "ends cf run task nid dl (leave m w s)"
  using ends_now [OF leave_finished] by (metis prod.collapse)

lemma ends_release_raised: "ends cf run task nid dl (release (At_raised e) w s)"
proof -
  have "finished (fst (release (At_raised e) w s))" by (simp add: finished_def release_def)
  then show ?thesis using ends_now by (metis prod.collapse)
qed

lemma clock_emit [simp]: "clock (snd (emit cf ev run node us s)) = clock s"
  by (auto simp: emit_def prog_simps run_duration_ms_def read_wall_def send_event_def Let_def
      mark_terminal_def split: option.splits sink_answer.splits)

lemma acquire_round_clock:
  assumes "acquire_round dl slot s = (Inr (Some b), s1)"
    and "\<And>s. clock (snd (slot s)) = clock s"
  shows "clock s1 = tape_tl (clock s) \<and> clock s 0 < dl"
proof -
  obtain s0 where s0: "s0 = s\<lparr>stops := tape_tl (stops s), clock := tape_tl (clock s)\<rparr>" by simp
  have "slot s0 = (Inr b, s1) \<and> clock s 0 < dl"
    using assms(1) unfolding acquire_round_def s0
    by (auto simp: prog_simps stop_requested_def read_clock_def
        split: if_splits prod.splits sum.splits option.splits)
  then show ?thesis using assms(2) [of s0] s0 by simp
qed

lemma clock_run_slot [simp]: "clock (snd (run_slot cf s)) = clock s"
  by (simp add: run_slot_def gets_def)

lemma clock_global_slot [simp]: "clock (snd (global_slot cf s)) = clock s"
  by (simp add: global_slot_def seq_def gets_def read_others_def)

lemma ends_running:
  assumes "\<forall>i \<ge> k. wdl \<le> clock s i" "wk_pc w = At_running t0 wdl"
  shows "ends cf run task nid dl (w, s)"
  using assms
proof (induction k arbitrary: w s)
  case 0
  then have "wdl - clock s 0 \<le> 0" by simp
  with 0 have "\<exists>m w' s'. worker_step cf run task nid dl w s = leave m w' s'"
    by (auto simp: worker_step_def step_running_def stop_requested_def Let_def)
  then show ?case using ends_leave ends_step by metis
next
  case (Suc k)
  have later: "\<forall>i \<ge> k. wdl \<le> tape_tl (clock s) i" using Suc.prems(1) by (simp add: tape_tl_def)
  have "ends cf run task nid dl (worker_step cf run task nid dl w s)"
    using Suc.prems(2) later
    by (auto simp: worker_step_def step_running_def stop_requested_def Let_def
        split: option.splits worker_answer.splits intro!: ends_leave Suc.IH)
  then show ?case by (rule ends_step)
qed

lemma ends_ready:
  assumes "diverges (clock s)" "wk_pc w = At_ready t0"
  shows "ends cf run task nid dl (w, s)"
proof (rule ends_step)
  obtain r s1 where e: "emit cf Node_updated run (Some (running_node nid task)) None s = (r, s1)"
    by fastforce
  then have c: "clock s1 = clock s"
    using clock_emit [of cf Node_updated run "Some (running_node nid task)" None s] by simp
  have "diverges (tape_tl (tape_tl (clock s)))" using assms(1) by (intro diverges_tl)
  then have run: "ends cf run task nid dl (w', s')"
    if "wk_pc w' = At_running t0 wdl" "clock s' = tape_tl (tape_tl (clock s))" for w' s' wdl
    using ends_running [of _ wdl s' w' t0] that unfolding diverges_def by metis
  show "ends cf run task nid dl (worker_step cf run task nid dl w s)"
    using assms(2) e c
    by (auto simp: worker_step_def step_ready_def Let_def
        split: sum.splits option.splits intro!: ends_leave ends_release_raised run)
qed

lemma ends_acquire_global:
  assumes "\<forall>i \<ge> k. dl \<le> clock s i" "diverges (clock s)" "wk_pc w = At_acquire_global t0"
  shows "ends cf run task nid dl (w, s)"
  using assms
proof (induction k arbitrary: w s)
  case (Suc k)
  obtain r s1 where a: "acquire_round dl (global_slot cf) s = (r, s1)" by fastforce
  have "ends cf run task nid dl (worker_step cf run task nid dl w s)"
  proof (cases r)
    case (Inl e)
    with a Suc.prems show ?thesis
      by (simp add: worker_step_def step_acquire_global_def ends_release_raised)
  next
    case (Inr v)
    show ?thesis
    proof (cases v)
      case None
      with a Inr Suc.prems show ?thesis
        by (simp add: worker_step_def step_acquire_global_def ends_leave)
    next
      case (Some b)
      have c: "clock s1 = tape_tl (clock s)"
        using acquire_round_clock [of dl "global_slot cf" s b s1] a Inr Some by simp
      have d: "diverges (clock s1)" using c Suc.prems(2) by (simp add: diverges_tl)
      have l: "\<forall>i \<ge> k. dl \<le> clock s1 i" using c Suc.prems(1) by simp
      show ?thesis
        using a Inr Some Suc.prems(3) d Suc.IH [OF l d] by (cases b)
          (auto simp: worker_step_def step_acquire_global_def intro!: ends_ready)
    qed
  qed
  then show ?case by (rule ends_step)
next
  case 0
  obtain r s1 where a: "acquire_round dl (global_slot cf) s = (r, s1)" by fastforce
  have low: "dl \<le> clock s 0" using 0 by blast
  have "r \<noteq> Inr (Some b)" for b
  proof
    assume "r = Inr (Some b)"
    then have "clock s 0 < dl"
      using acquire_round_clock [of dl "global_slot cf" s b s1] a by simp
    with low show False by simp
  qed
  then have "ends cf run task nid dl (worker_step cf run task nid dl w s)"
    using a 0(3) by (auto simp: worker_step_def step_acquire_global_def
        split: sum.splits option.splits intro!: ends_leave ends_release_raised)
  then show ?case by (rule ends_step)
qed

lemma ends_acquire_run:
  assumes "\<forall>i \<ge> k. dl \<le> clock s i" "diverges (clock s)" "wk_pc w = At_acquire_run t0"
  shows "ends cf run task nid dl (w, s)"
  using assms
proof (induction k arbitrary: w s)
  case (Suc k)
  obtain r s1 where a: "acquire_round dl (run_slot cf) s = (r, s1)" by fastforce
  have "ends cf run task nid dl (worker_step cf run task nid dl w s)"
  proof (cases r)
    case (Inl e)
    with a Suc.prems show ?thesis
      by (simp add: worker_step_def step_acquire_run_def ends_release_raised)
  next
    case (Inr v)
    show ?thesis
    proof (cases v)
      case None
      with a Inr Suc.prems show ?thesis
        by (simp add: worker_step_def step_acquire_run_def ends_leave)
    next
      case (Some b)
      have c: "clock s1 = tape_tl (clock s)"
        using acquire_round_clock [of dl "run_slot cf" s b s1] a Inr Some by simp
      have d: "diverges (clock s1)" using c Suc.prems(2) by (simp add: diverges_tl)
      have l: "\<forall>i \<ge> k. dl \<le> clock s1 i" using c Suc.prems(1) by simp
      show ?thesis
        using a Inr Some Suc.prems(3) d l Suc.IH [OF l d] by (cases b)
          (auto simp: worker_step_def step_acquire_run_def intro!: ends_acquire_global [where k = k])
    qed
  qed
  then show ?case by (rule ends_step)
next
  case 0
  obtain r s1 where a: "acquire_round dl (run_slot cf) s = (r, s1)" by fastforce
  have low: "dl \<le> clock s 0" using 0 by blast
  have "r \<noteq> Inr (Some b)" for b
  proof
    assume "r = Inr (Some b)"
    then have "clock s 0 < dl"
      using acquire_round_clock [of dl "run_slot cf" s b s1] a by simp
    with low show False by simp
  qed
  then have "ends cf run task nid dl (worker_step cf run task nid dl w s)"
    using a 0(3) by (auto simp: worker_step_def step_acquire_run_def
        split: sum.splits option.splits intro!: ends_leave ends_release_raised)
  then show ?case by (rule ends_step)
qed

lemma ends_start:
  assumes "diverges (clock s)" "wk_pc w = At_start"
  shows "ends cf run task nid dl (w, s)"
proof (rule ends_step)
  have d: "diverges (tape_tl (clock s))" by (rule diverges_tl) (rule assms)
  then obtain k where "\<forall>i \<ge> k. dl \<le> tape_tl (clock s) i" unfolding diverges_def by blast
  then show "ends cf run task nid dl (worker_step cf run task nid dl w s)"
    using assms(2) d
    by (auto simp: worker_step_def step_start_def Let_def
        split: option.splits intro!: ends_leave ends_acquire_run [where k = k])
qed

lemma worker_ends: "diverges (clock s) \<Longrightarrow> ends cf run task nid dl (w, s)"
proof (cases "wk_pc w")
  case (At_acquire_run t0)
  assume d: "diverges (clock s)"
  then obtain k where "\<forall>i \<ge> k. dl \<le> clock s i" unfolding diverges_def by blast
  then show ?thesis using d At_acquire_run by (rule ends_acquire_run)
next
  case (At_acquire_global t0)
  assume d: "diverges (clock s)"
  then obtain k where "\<forall>i \<ge> k. dl \<le> clock s i" unfolding diverges_def by blast
  then show ?thesis using d At_acquire_global by (rule ends_acquire_global)
next
  case (At_running t0 wdl)
  assume d: "diverges (clock s)"
  then obtain k where "\<forall>i \<ge> k. wdl \<le> clock s i" unfolding diverges_def by blast
  then show ?thesis using At_running by (rule ends_running)
qed (auto intro: ends_start ends_ready ends_now simp: finished_def)

text \<open>Enough fuel: a worker that ends after \<open>k\<close> steps returns within \<open>k + 1\<close> units.\<close>

lemma run_worker_Suc:
  "\<not> finished w \<Longrightarrow> run_worker cf run task nid dl (Suc fuel) w s =
     run_worker cf run task nid dl fuel (fst (worker_step cf run task nid dl w s))
       (snd (worker_step cf run task nid dl w s))"
  by (auto simp: finished_def case_prod_unfold split: pc.splits)

lemma run_worker_finished:
  "finished w \<Longrightarrow> run_worker cf run task nid dl (Suc fuel) w s =
     (case wk_pc w of At_done n \<Rightarrow> (Inr n, s) | At_raised e \<Rightarrow> (Inl e, s) | _ \<Rightarrow> (Inl Out_of_fuel, s))"
  by (auto simp: finished_def split: pc.splits)

lemma run_worker_enough:
  assumes "finished (fst (steps cf run task nid dl k (w, s)))"
  shows "\<exists>w' s'. finished w' \<and> run_worker cf run task nid dl (Suc k) w s =
     (case wk_pc w' of At_done n \<Rightarrow> (Inr n, s') | At_raised e \<Rightarrow> (Inl e, s') | _ \<Rightarrow> (Inl Out_of_fuel, s'))"
  using assms
proof (induction k arbitrary: w s)
  case 0
  then have "finished w" by (simp add: steps_def)
  then show ?case using run_worker_finished by blast
next
  case (Suc k)
  show ?case
  proof (cases "finished w")
    case True
    then show ?thesis using run_worker_finished by blast
  next
    case False
    have "finished (fst (steps cf run task nid dl k (worker_step cf run task nid dl w s)))"
      using Suc.prems by (simp add: steps_def funpow_Suc_right del: funpow.simps)
    then have "finished (fst (steps cf run task nid dl k (fst (worker_step cf run task nid dl w s),
        snd (worker_step cf run task nid dl w s))))" by simp
    from Suc.IH [OF this] show ?thesis unfolding run_worker_Suc [OF False] .
  qed
qed

end
