(* ===== verification/FanOut.thy ===== *)
theory FanOut
  imports WorkerLiveness
begin

text \<open>
  \<open>_run_fanout\<close>: the workers of one run interleave. A configuration is the list of workers in task
  order with the coordinator's state; a step moves one unfinished worker. The invariant relates
  the slots the semaphores have given out to the workers that hold them, so the two concurrency
  limits hold in every reachable configuration and no slot is lost when all workers have ended.
  \<open>asyncio.gather\<close> returns the nodes in task order.
\<close>

section \<open>Interleavings\<close>

type_synonym fan = "worker list \<times> coord"

definition fan_move ::
  "coord_cfg \<Rightarrow> ma_run \<Rightarrow> ma_task list \<Rightarrow> real \<Rightarrow> nat \<Rightarrow> fan \<Rightarrow> fan" where
  "fan_move cf run tasks dl i c = (case c of (ws, s) \<Rightarrow>
     if i < length ws \<and> \<not> finished (ws ! i)
     then (case worker_step cf run (tasks ! i) (node_id (i + 1)) dl (ws ! i) s of
             (w, s') \<Rightarrow> (ws[i := w], s'))
     else (ws, s))"

inductive fan_step :: "coord_cfg \<Rightarrow> ma_run \<Rightarrow> ma_task list \<Rightarrow> real \<Rightarrow> fan \<Rightarrow> fan \<Rightarrow> bool"
  for cf run tasks dl where
  move: "i < length ws \<Longrightarrow> \<not> finished (ws ! i) \<Longrightarrow>
     fan_step cf run tasks dl (ws, s) (fan_move cf run tasks dl i (ws, s))"

inductive_cases fan_stepE: "fan_step cf run tasks dl c c'"

text \<open>A schedule says which worker moves next.\<close>

fun fan_run :: "coord_cfg \<Rightarrow> ma_run \<Rightarrow> ma_task list \<Rightarrow> real \<Rightarrow> nat list \<Rightarrow> fan \<Rightarrow> fan" where
  "fan_run cf run tasks dl [] c = c"
| "fan_run cf run tasks dl (i # is) c = fan_run cf run tasks dl is (fan_move cf run tasks dl i c)"

definition all_finished :: "worker list \<Rightarrow> bool" where
  "all_finished ws \<longleftrightarrow> (\<forall>w \<in> set ws. finished w)"

text \<open>\<open>asyncio.gather\<close>: the results in order, or an exception of a worker.\<close>

definition worker_outcome :: "worker \<Rightarrow> exn + ma_node" where
  "worker_outcome w = (case wk_pc w of At_done n \<Rightarrow> Inr n | At_raised e \<Rightarrow> Inl e | _ \<Rightarrow> Inl Out_of_fuel)"

definition gather :: "worker list \<Rightarrow> exn + ma_node list" where
  "gather ws = mapE worker_outcome ws"

section \<open>Slots of one worker\<close>

definition slots_match :: "worker \<Rightarrow> bool" where
  "slots_match w \<longleftrightarrow> (case wk_pc w of
       At_acquire_global _ \<Rightarrow> wk_has_run w \<and> \<not> wk_has_global w
     | At_ready _ \<Rightarrow> wk_has_run w \<and> wk_has_global w
     | At_running _ _ \<Rightarrow> wk_has_run w \<and> wk_has_global w
     | _ \<Rightarrow> \<not> wk_has_run w \<and> \<not> wk_has_global w)"

text \<open>The effect of a step: what the worker gained or lost is what the semaphores gave or took.\<close>

definition slot_effect :: "coord_cfg \<Rightarrow> worker \<Rightarrow> coord \<Rightarrow> worker \<Rightarrow> coord \<Rightarrow> bool" where
  "slot_effect cf w s w' s' \<longleftrightarrow>
     slots_match w' \<and>
     run_held s' + of_bool (wk_has_run w) = run_held s + of_bool (wk_has_run w') \<and>
     global_held s' + of_bool (wk_has_global w) = global_held s + of_bool (wk_has_global w') \<and>
     run_held s' \<le> max (run_held s) (per_run_limit cf) \<and>
     global_held s' \<le> max (global_held s) (global_limit cf)"

definition covers :: "worker \<Rightarrow> coord \<Rightarrow> bool" where
  "covers w s \<longleftrightarrow> of_bool (wk_has_run w) \<le> run_held s \<and> of_bool (wk_has_global w) \<le> global_held s"

lemma slot_effect_leave:
  assumes "\<And>a b. keeps (slots_are a b) m" "covers w s"
  shows "slot_effect cf w s (fst (leave m w s)) (snd (leave m w s))"
proof (cases "m s")
  case (Pair r s')
  have "slots_are (run_held s) (global_held s) s'"
    using keepsD [OF assms(1) [of "run_held s" "global_held s"], of s] Pair
    by (simp add: slots_are_def)
  with Pair assms(2) show ?thesis
    by (cases r) (auto simp: leave_def release_def slot_effect_def slots_match_def slots_are_def
        covers_def of_bool_def split: if_splits)
qed

lemma slot_effect_raised:
  "covers w s \<Longrightarrow> slot_effect cf w s (fst (release (At_raised e) w s)) (snd (release (At_raised e) w s))"
  by (auto simp: release_def slot_effect_def slots_match_def covers_def of_bool_def split: if_splits)

lemma slot_effect_shift:
  "run_held s1 = run_held s \<Longrightarrow> global_held s1 = global_held s \<Longrightarrow>
   wk_has_run w1 = wk_has_run w \<Longrightarrow> wk_has_global w1 = wk_has_global w \<Longrightarrow>
   slot_effect cf w1 s1 w' s' = slot_effect cf w s w' s'"
  by (simp add: slot_effect_def)

lemma covers_shift:
  "run_held s1 = run_held s \<Longrightarrow> global_held s1 = global_held s \<Longrightarrow>
   wk_has_run w1 = wk_has_run w \<Longrightarrow> wk_has_global w1 = wk_has_global w \<Longrightarrow> covers w1 s1 = covers w s"
  by (simp add: covers_def)

lemma acquire_round_slots:
  assumes "acquire_round dl slot s = (r, s1)" "\<And>a b. keeps (slots_are a b) slot"
  shows "run_held s1 = run_held s \<and> global_held s1 = global_held s"
  using keepsD [OF slots.keeps_acquire_round [OF assms(2)], of "run_held s" "global_held s" s dl] assms(1)
  by (simp add: slots_are_def)

lemma acquire_round_taken:
  assumes "acquire_round dl slot s = (Inr (Some True), s1)"
  shows "\<exists>s0. slot s0 = (Inr True, s1)"
  using assms
  by (auto simp: acquire_round_def prog_simps stop_requested_def read_clock_def
      split: if_splits prod.splits sum.splits option.splits)

lemma run_slot_taken: "run_slot cf s0 = (Inr True, s1) \<Longrightarrow> run_held s1 < per_run_limit cf"
  by (auto simp: run_slot_def gets_def)

lemma global_slot_taken: "global_slot cf s0 = (Inr True, s1) \<Longrightarrow> global_held s1 < global_limit cf"
  by (auto simp: global_slot_def gets_def seq_def read_others_def)

lemma slot_effect_acquire_run:
  assumes "covers w s" "slots_match w" "wk_pc w = At_acquire_run t0"
  shows "slot_effect cf w s (fst (step_acquire_run cf run task nid dl t0 w s))
           (snd (step_acquire_run cf run task nid dl t0 w s))"
proof -
  obtain r s1 where a: "acquire_round dl (run_slot cf) s = (r, s1)" by fastforce
  note eq = acquire_round_slots [OF a slots.keeps_run_slot]
  have sh: "slot_effect cf w s = slot_effect cf w s1" and cv: "covers w s1"
    using eq assms(1) by (auto simp: slot_effect_def covers_def fun_eq_iff)
  have "run_held s1 < per_run_limit cf" if "r = Inr (Some True)"
    using acquire_round_taken [of dl "run_slot cf" s s1] a that run_slot_taken by blast
  then show ?thesis
    using a cv assms(2,3) unfolding sh
    by (auto simp: step_acquire_run_def slot_effect_raised slot_effect_leave slots.keeps_give_up
        slot_effect_def [of _ _ _ w] slot_effect_def [of _ _ _ "w\<lparr>wk_pc := _, wk_has_run := _\<rparr>"]
        slots_match_def split: sum.splits option.splits bool.splits)
qed

lemma slot_effect_acquire_global:
  assumes "covers w s" "slots_match w" "wk_pc w = At_acquire_global t0"
  shows "slot_effect cf w s (fst (step_acquire_global cf run task nid dl t0 w s))
           (snd (step_acquire_global cf run task nid dl t0 w s))"
proof -
  obtain r s1 where a: "acquire_round dl (global_slot cf) s = (r, s1)" by fastforce
  note eq = acquire_round_slots [OF a slots.keeps_global_slot]
  have sh: "slot_effect cf w s = slot_effect cf w s1" and cv: "covers w s1"
    using eq assms(1) by (auto simp: slot_effect_def covers_def fun_eq_iff)
  have "global_held s1 < global_limit cf" if "r = Inr (Some True)"
    using acquire_round_taken [of dl "global_slot cf" s s1] a that global_slot_taken by blast
  then show ?thesis
    using a cv assms(2,3) unfolding sh
    by (auto simp: step_acquire_global_def slot_effect_raised slot_effect_leave slots.keeps_give_up
        slot_effect_def [of _ _ _ w] slot_effect_def [of _ _ _ "w\<lparr>wk_pc := _, wk_has_global := _\<rparr>"]
        slots_match_def split: sum.splits option.splits bool.splits)
qed

lemma slot_effect_ready:
  assumes "covers w s" "slots_match w" "wk_pc w = At_ready t0"
  shows "slot_effect cf w s (fst (step_ready cf run task nid dl t0 w s))
           (snd (step_ready cf run task nid dl t0 w s))"
proof -
  obtain r s1 where e: "emit cf Node_updated run (Some (running_node nid task)) None s = (r, s1)"
    by fastforce
  have eq: "run_held s1 = run_held s \<and> global_held s1 = global_held s"
    using keepsD [OF slots.keeps_emit [OF refl], of "run_held s" "global_held s" s cf Node_updated run] e
    by (metis slots_are_def snd_conv)
  define s2 where "s2 = s1\<lparr>clock := tape_tl (clock s1)\<rparr>"
  have sh: "slot_effect cf w s = slot_effect cf w s1" "slot_effect cf w s1 = slot_effect cf w s2"
    and cv: "covers w s1" "covers w s2"
    using eq assms(1) by (auto simp: slot_effect_def covers_def fun_eq_iff s2_def)
  have k: "keeps (slots_are a b) (seq (timed_out_node nid task t0) (emit_node cf run None))" for a b
    by (intro keeps_seq slots.keeps_timed_out_node slots.keeps_emit_node [OF refl])
  have r: "slot_effect cf w s2 (w\<lparr>wk_pc := At_running t0 d\<rparr>) (s2\<lparr>clock := c\<rparr>)" for d c
    using assms(2,3) by (simp add: slot_effect_def slots_match_def)
  show ?thesis
  proof (cases r)
    case (Inl x)
    then show ?thesis using e cv unfolding sh(1) by (simp add: step_ready_def slot_effect_raised)
  next
    case (Inr x)
    show ?thesis
    proof (cases "event_error (r_id run) s1")
      case (Some err)
      then show ?thesis using e Inr cv unfolding sh(1)
        by (simp add: step_ready_def slot_effect_leave keeps_ret)
    next
      case None
      then show ?thesis using e Inr cv k r unfolding sh
        by (simp add: step_ready_def Let_def slot_effect_leave flip: s2_def)
    qed
  qed
qed

lemma slot_effect_running:
  assumes "covers w s" "slots_match w" "wk_pc w = At_running t0 wdl"
  shows "slot_effect cf w s (fst (step_running cf run task nid t0 wdl w s))
           (snd (step_running cf run task nid t0 wdl w s))"
proof -
  have l: "slot_effect cf w s (fst (leave (conclude cf run task nid t0 us v) w1 s1))
      (snd (leave (conclude cf run task nid t0 us v) w1 s1))"
    if "run_held s1 = run_held s" "global_held s1 = global_held s"
      "wk_has_run w1 = wk_has_run w" "wk_has_global w1 = wk_has_global w" for us v w1 s1
  proof -
    have "covers w1 s1" using that assms(1) by (simp add: covers_def)
    then have "slot_effect cf w1 s1 (fst (leave (conclude cf run task nid t0 us v) w1 s1))
        (snd (leave (conclude cf run task nid t0 us v) w1 s1))"
      by (intro slot_effect_leave slots.keeps_conclude [OF refl])
    then show ?thesis by (simp only: slot_effect_shift [OF that])
  qed
  show ?thesis
    using assms(2,3)
    by (auto simp: step_running_def stop_requested_def Let_def intro!: l
        split: option.splits worker_answer.splits) (simp_all add: slot_effect_def slots_match_def)
qed

lemma slot_effect_start:
  assumes "covers w s" "slots_match w" "wk_pc w = At_start"
  shows "slot_effect cf w s (fst (step_start cf run task nid w s)) (snd (step_start cf run task nid w s))"
proof -
  have sh: "slot_effect cf w s = slot_effect cf w (s\<lparr>clock := tape_tl (clock s)\<rparr>)"
    by (simp add: slot_effect_def fun_eq_iff)
  have "covers w (s\<lparr>clock := tape_tl (clock s)\<rparr>)" using assms(1) by (simp add: covers_def)
  then have "slot_effect cf w (s\<lparr>clock := tape_tl (clock s)\<rparr>)
      (fst (leave (ret n) w (s\<lparr>clock := tape_tl (clock s)\<rparr>)))
      (snd (leave (ret n) w (s\<lparr>clock := tape_tl (clock s)\<rparr>)))" for n
    by (intro slot_effect_leave keeps_ret)
  moreover have "slot_effect cf w (s\<lparr>clock := tape_tl (clock s)\<rparr>)
      (w\<lparr>wk_pc := At_acquire_run t\<rparr>) (s\<lparr>clock := tape_tl (clock s)\<rparr>)" for t
    using assms(2,3) by (simp add: slot_effect_def slots_match_def)
  ultimately show ?thesis unfolding sh
    by (auto simp: step_start_def Let_def split: option.splits)
qed

lemma worker_step_slots:
  assumes "covers w s" "slots_match w"
  shows "slot_effect cf w s (fst (worker_step cf run task nid dl w s))
           (snd (worker_step cf run task nid dl w s))"
proof -
  have "slot_effect cf w s w s" using assms(2) by (simp add: slot_effect_def)
  then show ?thesis
    using assms
    by (auto simp: worker_step_def slot_effect_start slot_effect_acquire_run
        slot_effect_acquire_global slot_effect_ready slot_effect_running split: pc.splits)
qed

section \<open>The invariant of a fan-out\<close>

definition fan_start :: "coord_cfg \<Rightarrow> ma_task list \<Rightarrow> fan \<Rightarrow> bool" where
  "fan_start cf tasks c \<longleftrightarrow> (case c of (ws, s) \<Rightarrow>
     length ws = length tasks \<and> (\<forall>w \<in> set ws. wk_pc w = At_start \<and> slots_match w \<and> answers_ok w)
     \<and> run_held s = 0 \<and> global_held s = 0 \<and> errors_ok s)"

definition worker_ok :: "coord_cfg \<Rightarrow> ma_task list \<Rightarrow> nat \<Rightarrow> worker \<Rightarrow> bool" where
  "worker_ok cf tasks i w \<longleftrightarrow> slots_match w \<and> answers_ok w
     \<and> (\<forall>n. wk_pc w = At_done n \<longrightarrow> node_ok cf (node_id (i + 1)) (tasks ! i) n)"

definition fan_inv :: "coord_cfg \<Rightarrow> ma_task list \<Rightarrow> fan \<Rightarrow> bool" where
  "fan_inv cf tasks c \<longleftrightarrow> (case c of (ws, s) \<Rightarrow>
     length ws = length tasks \<and> (\<forall>i < length ws. worker_ok cf tasks i (ws ! i)) \<and> errors_ok s
     \<and> run_held s = length (filter wk_has_run ws) \<and> run_held s \<le> per_run_limit cf
     \<and> global_held s = length (filter wk_has_global ws) \<and> global_held s \<le> global_limit cf)"

lemma length_filter_update:
  "i < length ws \<Longrightarrow> length (filter p (ws[i := w])) + of_bool (p (ws ! i))
     = length (filter p ws) + of_bool (p w)"
proof (induction ws arbitrary: i)
  case (Cons x ws)
  then show ?case by (cases i) auto
qed simp

lemma filter_covers: "i < length ws \<Longrightarrow> of_bool (p (ws ! i)) \<le> length (filter p ws)"
proof (induction ws arbitrary: i)
  case (Cons x ws)
  then show ?case by (cases i) (auto intro: le_SucI)
qed simp

lemma step_answers: "answers_ok w \<Longrightarrow> answers_ok (fst (worker_step cf run task nid dl w s))"
proof -
  assume w: "answers_ok w"
  have r: "answers_ok (fst (release p w' s'))" if "answers_ok w'" for p w' s'
    using that by (simp add: answers_ok_def release_def)
  have l: "answers_ok (fst (leave m w' s'))" if "answers_ok w'" for m w' s'
    using r [OF that] by (auto simp: leave_def split: prod.splits sum.splits)
  have t: "answers_ok (w\<lparr>wk_answers := tape_tl (wk_answers w)\<rparr>)"
    using w by (simp add: answers_ok_def)
  have p: "answers_ok (w\<lparr>wk_pc := q\<rparr>)" "answers_ok (w\<lparr>wk_pc := q, wk_has_run := b\<rparr>)"
    "answers_ok (w\<lparr>wk_pc := q, wk_has_global := b\<rparr>)" for q b
    using w by (simp_all add: answers_ok_def)
  show ?thesis
    by (auto simp: worker_step_def step_start_def step_acquire_run_def step_acquire_global_def
        step_ready_def step_running_def Let_def w intro!: l r t p
        split: pc.splits prod.splits sum.splits option.splits bool.splits worker_answer.splits)
qed

lemma fan_inv_start: "fan_start cf tasks c \<Longrightarrow> fan_inv cf tasks c"
proof (cases c)
  case (Pair ws s)
  assume "fan_start cf tasks c"
  with Pair have f: "length ws = length tasks" "run_held s = 0" "global_held s = 0" "errors_ok s"
    and w: "\<And>w. w \<in> set ws \<Longrightarrow> wk_pc w = At_start \<and> slots_match w \<and> answers_ok w"
    by (auto simp: fan_start_def)
  have n: "\<not> wk_has_run w \<and> \<not> wk_has_global w" if "w \<in> set ws" for w
    using w [OF that] by (auto simp: slots_match_def)
  then have e: "filter wk_has_run ws = []" "filter wk_has_global ws = []"
    by (auto simp: filter_empty_conv)
  have "worker_ok cf tasks i (ws ! i)" if "i < length ws" for i
    using w [of "ws ! i"] that by (auto simp: worker_ok_def)
  with f e Pair show ?thesis by (simp add: fan_inv_def)
qed

lemma fan_inv_move:
  assumes inv: "fan_inv cf tasks (ws, s)" and i: "i < length ws" "\<not> finished (ws ! i)"
  shows "fan_inv cf tasks (fan_move cf run tasks dl i (ws, s))"
proof -
  let ?st = "worker_step cf run (tasks ! i) (node_id (i + 1)) dl (ws ! i) s"
  obtain w' s' where st: "?st = (w', s')" by fastforce
  have ok: "worker_ok cf tasks i (ws ! i)" and e: "errors_ok s"
    using inv i by (auto simp: fan_inv_def)
  then have sl: "slots_match (ws ! i)" and an: "answers_ok (ws ! i)" by (auto simp: worker_ok_def)
  have "covers (ws ! i) s"
    using inv filter_covers [OF i(1), of wk_has_run] filter_covers [OF i(1), of wk_has_global]
    by (simp add: covers_def fan_inv_def)
  from worker_step_slots [OF this sl, of cf run "tasks ! i" "node_id (i + 1)" dl] st
  have eff: "slot_effect cf (ws ! i) s w' s'" by simp
  have "node_ok cf (node_id (i + 1)) (tasks ! i) n" if "wk_pc w' = At_done n" for n
    using worker_step_done [OF _ i(2) an e] st that by (metis fst_conv)
  then have ok': "worker_ok cf tasks i w'"
    using eff step_answers [OF an, of cf run "tasks ! i" "node_id (i + 1)" dl s] st
    by (simp add: worker_ok_def slot_effect_def)
  have e': "errors_ok s'"
    using errs_step.worker_step_keeps [OF refl e, of cf run "tasks ! i" "node_id (i + 1)" dl "ws ! i"] st
    by simp
  have "run_held s' = length (filter wk_has_run (ws[i := w']))"
    and "global_held s' = length (filter wk_has_global (ws[i := w']))"
    using length_filter_update [OF i(1), of wk_has_run w'] length_filter_update [OF i(1), of wk_has_global w']
      eff inv by (auto simp: slot_effect_def fan_inv_def)
  then show ?thesis
    using inv eff i st ok' e'
    by (auto simp: fan_move_def fan_inv_def slot_effect_def nth_list_update)
qed

lemma fan_inv_step: "fan_inv cf tasks c \<Longrightarrow> fan_step cf run tasks dl c c' \<Longrightarrow> fan_inv cf tasks c'"
  by (erule fan_stepE) (auto intro: fan_inv_move)

interpretation fan: machine "fan_start cf tasks" "fan_step cf run tasks dl" "fan_inv cf tasks"
  for cf tasks run dl
  by unfold_locales (auto intro: fan_inv_start fan_inv_step)

lemma fan_move_step: "fan_move cf run tasks dl i c = c \<or> fan_step cf run tasks dl c (fan_move cf run tasks dl i c)"
proof (cases c)
  case (Pair ws s)
  show ?thesis
  proof (cases "i < length ws \<and> \<not> finished (ws ! i)")
    case True
    then show ?thesis using Pair fan_step.move [of i ws cf run tasks dl s] by blast
  next
    case False
    then show ?thesis using Pair by (auto simp: fan_move_def)
  qed
qed

lemma fan_run_steps: "(fan_step cf run tasks dl)\<^sup>*\<^sup>* c (fan_run cf run tasks dl is c)"
proof (induction "is" arbitrary: c)
  case (Cons i "is")
  have "(fan_step cf run tasks dl)\<^sup>*\<^sup>* c (fan_move cf run tasks dl i c)"
    using fan_move_step [of cf run tasks dl i c] by auto
  with Cons.IH [of "fan_move cf run tasks dl i c"] show ?case by simp
qed simp

section \<open>Consequences\<close>

lemma running_holds: "slots_match w \<Longrightarrow> wk_pc w = At_running a b \<Longrightarrow> wk_has_run w \<and> wk_has_global w"
  by (simp add: slots_match_def)

definition is_running :: "worker \<Rightarrow> bool" where
  "is_running w \<longleftrightarrow> (case wk_pc w of At_running _ _ \<Rightarrow> True | _ \<Rightarrow> False)"

lemma fan_inv_limits:
  assumes "fan_inv cf tasks (ws, s)"
  shows "length (filter is_running ws) \<le> min (per_run_limit cf) (global_limit cf)"
proof -
  have imp: "is_running w \<longrightarrow> wk_has_run w \<and> wk_has_global w" if "w \<in> set ws" for w
    using assms that running_holds
    by (auto simp: fan_inv_def worker_ok_def is_running_def in_set_conv_nth split: pc.splits)
  have le: "length (filter is_running ws) \<le> length (filter p ws)"
    if "\<And>w. w \<in> set ws \<Longrightarrow> is_running w \<longrightarrow> p w" for p
    using that by (induction ws) auto
  have "length (filter is_running ws) \<le> length (filter wk_has_run ws)"
    and "length (filter is_running ws) \<le> length (filter wk_has_global ws)"
    using le [of wk_has_run] le [of wk_has_global] imp by blast+
  with assms show ?thesis by (simp add: fan_inv_def)
qed

lemma finished_slots: "finished w \<Longrightarrow> slots_match w \<Longrightarrow> \<not> wk_has_run w \<and> \<not> wk_has_global w"
  by (cases "wk_pc w") (auto simp: finished_def slots_match_def)

lemma fan_inv_finished_slots:
  assumes "fan_inv cf tasks (ws, s)" "all_finished ws"
  shows "run_held s = 0 \<and> global_held s = 0"
proof -
  have "\<not> wk_has_run w \<and> \<not> wk_has_global w" if "w \<in> set ws" for w
    using assms that finished_slots [of w]
    by (auto simp: fan_inv_def worker_ok_def all_finished_def in_set_conv_nth)
  then have "filter wk_has_run ws = []" "filter wk_has_global ws = []"
    by (auto simp: filter_empty_conv)
  with assms(1) show ?thesis by (simp add: fan_inv_def)
qed

lemma fan_inv_gather:
  assumes "fan_inv cf tasks (ws, s)" "gather ws = Inr nodes"
  shows "length nodes = length tasks
    \<and> (\<forall>i < length tasks. node_ok cf (node_id (i + 1)) (tasks ! i) (nodes ! i))"
proof -
  have l: "list_all2 (\<lambda>w n. worker_outcome w = Inr n) ws nodes"
    using assms(2) by (simp add: gather_def mapE_Inr)
  then have len: "length nodes = length ws" by (simp add: list_all2_lengthD)
  have "wk_pc (ws ! i) = At_done (nodes ! i)" if "i < length ws" for i
    using list_all2_nthD [OF l that] by (auto simp: worker_outcome_def split: pc.splits)
  with assms(1) len show ?thesis by (auto simp: fan_inv_def worker_ok_def)
qed

end
