(* ===== verification/Delegation.thy ===== *)
theory Delegation
  imports FanOut
begin

text \<open>
  The operations of \<open>MultiAgentCoordinator\<close> on whole runs: the ordered collection of a pipeline,
  \<open>delegate\<close>, \<open>finalize\<close>, \<open>set_waiting\<close>, \<open>check_parent_context\<close> and the release of a run's state.
  What the worker runner answers to worker \<open>i\<close> is a function of the dependency it is given, so a
  pipeline's data flow is visible; a fan-out also takes the schedule of its workers.
\<close>

section \<open>Collecting the workers\<close>

record run_env =
  env_answers :: "nat \<Rightarrow> ustr option \<Rightarrow> worker_answer tape"
  env_usage :: "nat \<Rightarrow> ma_usage option"
  env_schedule :: "nat list"
  env_fuel :: nat

definition start_workers :: "run_env \<Rightarrow> nat \<Rightarrow> worker list" where
  "start_workers env n =
     map (\<lambda>i. new_worker (env_answers env (i + 1) None) (env_usage env (i + 1))) [0..<n]"

definition run_fanout ::
  "coord_cfg \<Rightarrow> ma_run \<Rightarrow> ma_task list \<Rightarrow> real \<Rightarrow> run_env \<Rightarrow> (coord, ma_node list) prog" where
  "run_fanout cf run tasks dl env s =
     (case fan_run cf run tasks dl (env_schedule env) (start_workers env (length tasks), s) of
        (ws, s') \<Rightarrow> (gather ws, s'))"

definition succeeded :: "ma_node \<Rightarrow> bool" where
  "succeeded n \<longleftrightarrow> n_status n = Completed \<and> Option.bind (n_result n) wr_content \<noteq> None"

text \<open>
  \<open>_run_sequential\<close>: \<open>i\<close> is the loop's \<open>index\<close>, and \<open>dep\<close>, \<open>blocked\<close> and \<open>skip\<close> are its local
  variables. The list is what the rest of the loop appends to \<open>nodes\<close>.
\<close>

fun run_sequential ::
  "coord_cfg \<Rightarrow> ma_run \<Rightarrow> real \<Rightarrow> run_env \<Rightarrow> nat \<Rightarrow> ustr option \<Rightarrow> bool \<Rightarrow> bool \<Rightarrow> ma_task list
     \<Rightarrow> (coord, ma_node list) prog" where
  "run_sequential cf run dl env i dep blocked skip [] = ret []"
| "run_sequential cf run dl env i dep blocked skip (task # rest) =
     (if skip then run_sequential cf run dl env (i + 1) dep blocked False rest
      else if blocked then
        (let n = cancelled_node (node_id i) task txt_predecessor_failed in
         seq (emit cf Node_updated run (Some n) None) (\<lambda>_.
         seq (run_sequential cf run dl env (i + 1) dep True False rest) (\<lambda>ns. ret (n # ns))))
      else
        seq (run_worker cf run task (node_id i) dl (env_fuel env)
              (new_worker (env_answers env i dep) (env_usage env i))) (\<lambda>n.
          if \<not> succeeded n then
            seq (run_sequential cf run dl env (i + 1) dep True False rest) (\<lambda>ns. ret (n # ns))
          else case rest of
            [] \<Rightarrow> ret [n]
          | next_task # _ \<Rightarrow> (case build_dependency cf n of
                Inr c \<Rightarrow>
                  seq (run_sequential cf run dl env (i + 1) (Some c) False False rest) (\<lambda>ns. ret (n # ns))
              | Inl err \<Rightarrow>
                  (let f = failed_node (node_id (i + 1)) next_task err context_exceeded_code in
                   seq (emit cf Node_updated run (Some f) None) (\<lambda>_.
                   seq (run_sequential cf run dl env (i + 1) None True True rest)
                     (\<lambda>ns. ret (n # f # ns)))))))"

text \<open>Either collection starts with a fresh semaphore of its own.\<close>

definition collect ::
  "coord_cfg \<Rightarrow> ma_run \<Rightarrow> ma_request \<Rightarrow> real \<Rightarrow> run_env \<Rightarrow> (coord, ma_node list) prog" where
  "collect cf run req dl env =
     seq (modify (\<lambda>s. s\<lparr>run_held := 0\<rparr>)) (\<lambda>_.
       if q_strategy req = Fan_out_fan_in then run_fanout cf run (q_tasks req) dl env
       else run_sequential cf run dl env 1 None False False (q_tasks req))"

section \<open>Budgets and summaries\<close>

definition result_tokens :: "coord_cfg \<Rightarrow> ma_node list \<Rightarrow> nat" where
  "result_tokens cf nodes =
     sum_list (map (\<lambda>n. case completed_content n of None \<Rightarrow> 0 | Some c \<Rightarrow> count_content_tokens (enc cf) c) nodes)"

text \<open>\<open>_result_budget_error\<close>: the code and the text are fixed, so only whether there is one matters.\<close>

definition result_budget_error :: "coord_cfg \<Rightarrow> ma_run \<Rightarrow> parent_turn \<Rightarrow> bool" where
  "result_budget_error cf run p \<longleftrightarrow>
     int (result_tokens cf (r_nodes run)) > parent_result_limit cf \<or>
     p_context_tokens p + int (result_tokens cf (r_nodes run)) > max_context cf"

definition truthy :: "ustr option \<Rightarrow> bool" where
  "truthy x \<longleftrightarrow> x \<noteq> None \<and> x \<noteq> Some []"

definition first_error :: "ma_node list \<Rightarrow> ustr" where
  "first_error nodes = (case filter truthy (map n_error nodes) of
       Some e # _ \<Rightarrow> e | _ \<Rightarrow> txt_all_failed)"

definition first_error_code :: "ma_node list \<Rightarrow> ustr option" where
  "first_error_code nodes = (case filter truthy (map n_error_code nodes) of
       e # _ \<Rightarrow> e | [] \<Rightarrow> None)"

definition actual_parent_context_tokens :: "coord_cfg \<Rightarrow> json list \<Rightarrow> json list \<Rightarrow> nat" where
  "actual_parent_context_tokens cf messages tools =
     count_content_tokens (enc cf)
       (dumps (repr_float cf) (default_style True)
         (JObj [(u ''messages'', JArr messages), (u ''tools'', JArr tools)]))"

section \<open>The life of a run\<close>

definition remember :: "run_key \<Rightarrow> ma_run \<Rightarrow> coord \<Rightarrow> coord" where
  "remember key run s = s\<lparr>runs_by_request := dict_put key run (runs_by_request s)\<rparr>"

definition register :: "run_key \<Rightarrow> ma_run \<Rightarrow> real \<Rightarrow> coord \<Rightarrow> coord" where
  "register key run dl s =
     s\<lparr>runs_by_request := dict_put key run (runs_by_request s),
       run_keys := dict_put (r_id run) key (run_keys s),
       run_deadlines := dict_put (r_id run) dl (run_deadlines s)\<rparr>"

definition release_run_runtime_state :: "ustr \<Rightarrow> coord \<Rightarrow> coord" where
  "release_run_runtime_state rid s =
     s\<lparr>runs_by_request := (case dict_get (run_keys s) rid of
           None \<Rightarrow> runs_by_request s | Some key \<Rightarrow> dict_del key (runs_by_request s)),
       run_keys := dict_del rid (run_keys s),
       run_deadlines := dict_del rid (run_deadlines s),
       event_errors := dict_del rid (event_errors s),
       terminal_runs := terminal_runs s - {rid},
       terminal_nodes := {k \<in> terminal_nodes s. fst k \<noteq> rid}\<rparr>"

definition run_for :: "ustr \<Rightarrow> ustr \<Rightarrow> coord \<Rightarrow> ma_run option" where
  "run_for session request s = dict_get (runs_by_request s) (session, request)"

definition deadline_for :: "ustr \<Rightarrow> coord \<Rightarrow> real option" where
  "deadline_for rid s = dict_get (run_deadlines s) rid"

definition finish :: "ma_run \<Rightarrow> status \<Rightarrow> ustr option \<Rightarrow> (coord, ma_run) prog" where
  "finish run st err =
     seq read_wall (\<lambda>t. ret (run\<lparr>r_status := st, r_finished_at := Some t, r_error := err\<rparr>))"

definition finish_event_failure :: "coord_cfg \<Rightarrow> run_key \<Rightarrow> ma_run \<Rightarrow> (coord, ma_run) prog" where
  "finish_event_failure cf key run =
     seq (gets (event_error (r_id run))) (\<lambda>e.
     seq (finish (run\<lparr>r_error_code := Some (u ''event_persistence_failed'')\<rparr>) Failed
           (Some (if truthy e then the e else txt_event_failed))) (\<lambda>failed.
     seq (modify (remember key failed)) (\<lambda>_.
     seq (emit cf Run_failed failed None None) (\<lambda>_. ret failed))))"

text \<open>The shared end of \<open>delegate\<close> and \<open>finalize\<close>: finish, remember, emit, and fall back.\<close>

definition conclude_run ::
  "coord_cfg \<Rightarrow> run_key \<Rightarrow> ma_run \<Rightarrow> status \<Rightarrow> ustr option \<Rightarrow> (coord, unit) prog \<Rightarrow> (coord, ma_run) prog" where
  "conclude_run cf key run st err after =
     seq (finish run st err) (\<lambda>run.
     seq (modify (remember key run)) (\<lambda>_.
     seq (emit cf (run_event_by_status (r_status run)) run None None) (\<lambda>persisted.
       if \<not> persisted then finish_event_failure cf key run
       else seq after (\<lambda>_. ret run))))"

definition settle ::
  "coord_cfg \<Rightarrow> run_key \<Rightarrow> ma_run \<Rightarrow> ma_request \<Rightarrow> parent_turn \<Rightarrow> real \<Rightarrow> ma_node list \<Rightarrow> (coord, ma_run) prog"
where
  "settle cf key run req p dl nodes =
     (let run = run\<lparr>r_nodes := nodes\<rparr> in
      seq (gets (event_error (r_id run))) (\<lambda>e.
        if e \<noteq> None then finish_event_failure cf key run
        else
          (let exceeded = result_budget_error cf run p;
               run = (if exceeded
                      then run\<lparr>r_error_code := Some context_exceeded_code, r_error := Some txt_result_exceeded\<rparr>
                      else run);
               successful = filter (\<lambda>n. n_status n = Completed) nodes;
               failed = filter (\<lambda>n. n_status n \<noteq> Completed) nodes in
           seq stop_requested (\<lambda>stop.
           seq read_clock (\<lambda>now.
             if stop then conclude_run cf key run Cancelled (Some txt_user_stopped) (ret ())
             else if now \<ge> dl then conclude_run cf key run Timed_out (Some txt_run_timed_out) (ret ())
             else if exceeded then conclude_run cf key run Failed (Some txt_result_exceeded) (ret ())
             else if successful = [] \<or> (q_strategy req \<noteq> Fan_out_fan_in \<and> failed \<noteq> []) then
               conclude_run cf key
                 (run\<lparr>r_error_code := (if truthy (first_error_code nodes) then first_error_code nodes
                                       else r_error_code run)\<rparr>)
                 Failed (Some (first_error nodes)) (ret ())
             else seq (modify (remember key run)) (\<lambda>_. ret run))))))"

definition queued_nodes :: "ma_request \<Rightarrow> ma_node list" where
  "queued_nodes req =
     map (\<lambda>(i, t). \<lparr>n_id = node_id i, n_role = t_role t, n_status = Queued, n_duration = None,
                    n_result = None, n_error = None, n_error_code = None\<rparr>)
       (enumerate 1 (q_tasks req))"

definition queued_run :: "ustr \<Rightarrow> parent_turn \<Rightarrow> ma_request \<Rightarrow> real \<Rightarrow> ma_run" where
  "queued_run rid p req now =
     \<lparr>r_id = rid, r_session = p_session p, r_request = p_request p, r_strategy = q_strategy req,
      r_status = Queued, r_nodes = queued_nodes req, r_created_at = now, r_started_at = None,
      r_finished_at = None, r_error = None, r_error_code = None\<rparr>"

text \<open>\<open>delegate\<close> after the run is registered.\<close>

definition conduct ::
  "coord_cfg \<Rightarrow> run_key \<Rightarrow> ma_run \<Rightarrow> ma_request \<Rightarrow> parent_turn \<Rightarrow> real \<Rightarrow> run_env \<Rightarrow> (coord, ma_run) prog"
where
  "conduct cf key run req p dl env =
     seq (emit cf (run_event_by_status (r_status run)) run None None) (\<lambda>_.
     seq (gets (event_error (r_id run))) (\<lambda>e1.
       if e1 \<noteq> None then finish_event_failure cf key run
       else
         seq (for_each (r_nodes run) (\<lambda>n. seq (emit cf Node_updated run (Some n) None) (\<lambda>_. ret ()))) (\<lambda>_.
         seq (gets (event_error (r_id run))) (\<lambda>e2.
           if e2 \<noteq> None then finish_event_failure cf key run
           else
             seq read_wall (\<lambda>t.
               let run = run\<lparr>r_status := Running, r_started_at := Some t\<rparr> in
               seq (modify (remember key run)) (\<lambda>_.
               seq (emit cf (run_event_by_status (r_status run)) run None None) (\<lambda>_.
               seq (gets (event_error (r_id run))) (\<lambda>e3.
                 if e3 \<noteq> None then finish_event_failure cf key run
                 else
                   seq (collect cf run req dl env) (\<lambda>nodes.
                   settle cf key run req p dl nodes)))))))))"

definition delegate ::
  "coord_cfg \<Rightarrow> ma_request \<Rightarrow> parent_turn \<Rightarrow> run_env \<Rightarrow> (coord, ma_run) prog" where
  "delegate cf req p env =
     (let key = (p_session p, p_request p) in
      seq (gets (\<lambda>s. dict_get (runs_by_request s) key)) (\<lambda>found.
        if found \<noteq> None then raise (RuntimeError txt_one_run_per_request)
        else
          seq read_wall (\<lambda>now.
          seq read_clock (\<lambda>started.
          seq read_uuid (\<lambda>rid.
            let run = queued_run rid p req now; dl = started + run_timeout cf in
            seq (modify (register key run dl)) (\<lambda>_. conduct cf key run req p dl env))))))"

section \<open>The parent's side\<close>

definition finalize_outcome :: "ustr \<Rightarrow> (status \<times> ustr option) option" where
  "finalize_outcome oc =
     (if oc = u ''completed'' then Some (Completed, None)
      else if oc = u ''failed'' then Some (Failed, Some txt_synthesis_failed)
      else if oc = u ''cancelled'' then Some (Cancelled, Some txt_user_stopped)
      else if oc = u ''timed_out'' then Some (Timed_out, Some txt_run_timed_out)
      else None)"

text \<open>The registered run: \<open>self._runs_by_request[key]\<close> after \<open>self._run_keys.get(run_id)\<close>.\<close>

definition registered_run :: "run_key \<Rightarrow> (coord, ma_run) prog" where
  "registered_run key s = (case dict_get (runs_by_request s) key of
       None \<Rightarrow> (Inl (KeyError (snd key)), s) | Some run \<Rightarrow> (Inr run, s))"

definition finalize :: "coord_cfg \<Rightarrow> ustr \<Rightarrow> ustr \<Rightarrow> (coord, ma_run) prog" where
  "finalize cf rid outcome =
     seq (gets (\<lambda>s. dict_get (run_keys s) rid)) (\<lambda>k. case k of
       None \<Rightarrow> raise (ValueError txt_unknown_run)
     | Some key \<Rightarrow>
         seq (registered_run key) (\<lambda>run.
           if terminal (r_status run) then
             seq (modify (release_run_runtime_state rid)) (\<lambda>_. ret run)
           else
             seq (gets (\<lambda>s. dict_get (run_deadlines s) rid)) (\<lambda>dl.
             seq (if outcome = u ''completed'' \<and> dl \<noteq> None
                  then seq read_clock (\<lambda>now. ret (if now \<ge> the dl then u ''timed_out'' else outcome))
                  else ret outcome) (\<lambda>outcome.
             case finalize_outcome outcome of
               None \<Rightarrow> raise (ValueError txt_bad_outcome)
             | Some (st, err) \<Rightarrow>
                 conclude_run cf key run st err (modify (release_run_runtime_state rid))))))"

definition set_waiting :: "coord_cfg \<Rightarrow> ustr \<Rightarrow> bool \<Rightarrow> (coord, ma_run option) prog" where
  "set_waiting cf rid waiting =
     seq (gets (\<lambda>s. dict_get (run_keys s) rid)) (\<lambda>k. case k of
       None \<Rightarrow> ret None
     | Some key \<Rightarrow>
         seq (registered_run key) (\<lambda>run.
           let st = (if waiting then Waiting else Running) in
           if terminal (r_status run) \<or> r_status run = st then ret (Some run)
           else
             (let updated = run\<lparr>r_status := st\<rparr> in
              seq (modify (remember key updated)) (\<lambda>_.
              seq (emit cf (run_event_by_status st) updated None None) (\<lambda>_. ret (Some updated))))))"

definition check_parent_context ::
  "coord_cfg \<Rightarrow> ustr \<Rightarrow> json list \<Rightarrow> json list \<Rightarrow> (coord, ustr option) prog" where
  "check_parent_context cf rid messages tools =
     seq (gets (\<lambda>s. dict_get (run_keys s) rid)) (\<lambda>k. case k of
       None \<Rightarrow> ret None
     | Some key \<Rightarrow>
         seq (registered_run key) (\<lambda>run.
           if terminal (r_status run) then ret None
           else if int (actual_parent_context_tokens cf messages tools) \<le> max_context cf then ret None
           else
             seq (finish (run\<lparr>r_error_code := Some context_exceeded_code\<rparr>) Failed
                   (Some txt_result_exceeded)) (\<lambda>failed.
             seq (modify (remember key failed)) (\<lambda>_.
             seq (emit cf Run_failed failed None None) (\<lambda>_.
               ret (Some (txt_collab_failed @ txt_result_exceeded)))))))"

end
