(* ===== verification/DelegationFacts.thy ===== *)
theory DelegationFacts
  imports Delegation
begin

text \<open>
  Invariants of whole runs. \<open>run_inv\<close> extends the contract of the workers by the one further update
  a run makes, remembering its snapshot; every part of \<open>delegate\<close> and of the parent's operations
  keeps such a property. Its instances: every node and every run has at most one terminal event in
  the log, the registry stays consistent, and run identifiers stay fresh.
\<close>

section \<open>The contract of a run\<close>

locale run_inv = worker_inv +
  fixes key :: run_key
  assumes remembers: "P s \<Longrightarrow> r_id run = rid \<Longrightarrow> P (remember key run s)"
begin

lemma keeps_remember: "r_id run = rid \<Longrightarrow> keeps P (modify (remember key run))"
  by (intro keeps_modify remembers)

lemma keeps_finish: "keeps P (finish run st err)"
  unfolding finish_def by (intro keeps_rules keeps_reads)

lemma finish_then:
  assumes "r_id run = rid" "\<And>r. r_id r = rid \<Longrightarrow> keeps P (f r)"
  shows "keeps P (seq (finish run st err) f)"
proof (rule keepsI)
  fix s
  assume "P s"
  with assms show "P (snd (seq (finish run st err) f s))"
    by (auto simp: finish_def prog_simps read_wall_def intro!: keepsD [of P "f _"] tape_wall)
qed

lemma keeps_finish_event_failure: "r_id run = rid \<Longrightarrow> keeps P (finish_event_failure cf key run)"
  unfolding finish_event_failure_def by (intro keeps_rules finish_then keeps_remember keeps_emit) simp_all

lemma keeps_conclude_run:
  "r_id run = rid \<Longrightarrow> keeps P after \<Longrightarrow> keeps P (conclude_run cf key run st err after)"
  unfolding conclude_run_def
  by (intro keeps_rules finish_then keeps_remember keeps_emit keeps_finish_event_failure)

lemma keeps_settle: "r_id run = rid \<Longrightarrow> keeps P (settle cf key run req p dl nodes)"
  unfolding settle_def Let_def
  by (intro keeps_rules keeps_reads keeps_remember keeps_finish_event_failure keeps_conclude_run)
    simp_all

lemma keeps_run_sequential:
  "r_id run = rid \<Longrightarrow> keeps P (run_sequential cf run dl env i dep blocked skip tasks)"
proof (induction tasks arbitrary: i dep blocked skip)
  case (Cons t ts)
  show ?case
    unfolding run_sequential.simps Let_def
    by (intro keeps_rules Cons keeps_emit run_worker_keeps)
qed (simp add: keeps_ret)

lemma fan_move_keeps: "r_id run = rid \<Longrightarrow> P (snd c) \<Longrightarrow> P (snd (fan_move cf run tasks dl i c))"
  by (cases c) (auto simp: fan_move_def case_prod_unfold intro: worker_step_keeps)

lemma fan_run_keeps: "r_id run = rid \<Longrightarrow> P (snd c) \<Longrightarrow> P (snd (fan_run cf run tasks dl is c))"
  by (induction "is" arbitrary: c) (simp_all add: fan_move_keeps)

lemma keeps_run_fanout: "r_id run = rid \<Longrightarrow> keeps P (run_fanout cf run tasks dl env)"
proof (rule keepsI)
  fix s
  assume "r_id run = rid" "P s"
  then have "P (snd (fan_run cf run tasks dl (env_schedule env) (start_workers env (length tasks), s)))"
    by (intro fan_run_keeps) simp_all
  then show "P (snd (run_fanout cf run tasks dl env s))"
    by (simp add: run_fanout_def case_prod_unfold)
qed

lemma keeps_collect: "r_id run = rid \<Longrightarrow> keeps P (collect cf run req dl env)"
  unfolding collect_def
  by (intro keeps_rules keeps_modify keeps_run_fanout keeps_run_sequential run_slot_free)

lemma keeps_conduct: "r_id run = rid \<Longrightarrow> keeps P (conduct cf key run req p dl env)"
  unfolding conduct_def Let_def
  by (intro keeps_rules keeps_reads keeps_emit keeps_remember keeps_finish_event_failure
      keeps_collect keeps_settle) simp_all

text \<open>\<open>conclude_run\<close> may end with an operation that takes the run out of the registry.\<close>

lemma finish_leads:
  assumes "r_id run = rid" "\<And>r. r_id r = rid \<Longrightarrow> leads P (f r) Q"
  shows "leads P (seq (finish run st err) f) Q"
proof (rule leadsI)
  fix s
  assume "P s"
  then have "P (s\<lparr>wall := tape_tl (wall s)\<rparr>)" by (rule tape_wall)
  with assms(1) show "Q (snd (seq (finish run st err) f s))"
    using leadsD [OF assms(2), of "run\<lparr>r_status := st, r_finished_at := Some (wall s 0), r_error := err\<rparr>"]
    by (simp add: finish_def prog_simps read_wall_def)
qed

lemma conclude_run_leads:
  assumes "r_id run = rid" "\<And>s. P s \<Longrightarrow> Q s" "leads P after Q"
  shows "leads P (conclude_run cf key run st err after) Q"
  unfolding conclude_run_def
  by (intro finish_leads leads_seq leads_if leads_then_ret keeps_remember keeps_emit
      leads_keeps [OF keeps_finish_event_failure] assms)

end

section \<open>At most one terminal event\<close>

definition terminal_events :: "(event_type \<times> ma_payload) list \<Rightarrow> ustr \<Rightarrow> ustr option \<Rightarrow> nat" where
  "terminal_events l rid who =
     length (filter (\<lambda>(ev, p). e_run_id p = rid \<and> e_node_id p = who \<and> terminal (e_status p)) l)"

definition marked :: "ustr \<Rightarrow> ustr option \<Rightarrow> coord \<Rightarrow> bool" where
  "marked rid who s = (case who of
       None \<Rightarrow> rid \<in> terminal_runs s | Some nid \<Rightarrow> (rid, nid) \<in> terminal_nodes s)"

definition once :: "ustr set \<Rightarrow> coord \<Rightarrow> bool" where
  "once A s \<longleftrightarrow> (\<forall>rid who. terminal_events (log s) rid who \<le> 1
     \<and> (rid \<in> A \<and> terminal_events (log s) rid who = 1 \<longrightarrow> marked rid who s))"

lemma terminal_events_append: "terminal_events (l @ [(ev, p)]) rid who = terminal_events l rid who
    + of_bool (e_run_id p = rid \<and> e_node_id p = who \<and> terminal (e_status p))"
  by (simp add: terminal_events_def)

lemma once_accepted:
  assumes "once (insert rid A) s" "r_id run = rid" "\<not> already_terminal run node s" "payload_for run node p"
  shows "once (insert rid A) (mark_terminal run node (s\<lparr>log := log s @ [(ev, p)]\<rparr>))"
  unfolding once_def
proof (intro allI)
  fix rid' who
  let ?s = "mark_terminal run node (s\<lparr>log := log s @ [(ev, p)]\<rparr>)"
  have old: "terminal_events (log s) rid' who \<le> 1" "rid' \<in> insert rid A \<Longrightarrow> terminal_events (log s) rid' who = 1 \<Longrightarrow> marked rid' who s"
    using assms(1) by (auto simp: once_def)
  have mono: "marked rid' who s \<Longrightarrow> marked rid' who ?s"
    by (auto simp: marked_def mark_terminal_def split: option.splits)
  have new: "\<not> marked rid' who s \<and> marked rid' who ?s"
    if "e_run_id p = rid' \<and> e_node_id p = who \<and> terminal (e_status p)"
    using that assms(2-4)
    by (cases node) (auto simp: payload_for_def already_terminal_def marked_def mark_terminal_def)
  have here: "rid' = rid" if "e_run_id p = rid' \<and> e_node_id p = who \<and> terminal (e_status p)"
    using that assms(2,4) by (simp add: payload_for_def)
  show "terminal_events (log ?s) rid' who \<le> 1 \<and> (rid' \<in> insert rid A \<and> terminal_events (log ?s) rid' who = 1 \<longrightarrow> marked rid' who ?s)"
  proof (cases "e_run_id p = rid' \<and> e_node_id p = who \<and> terminal (e_status p)")
    case True
    with new here old have "terminal_events (log s) rid' who = 0" by fastforce
    with True new [OF True] show ?thesis by (simp add: terminal_events_append)
  next
    case False
    then have "terminal_events (log ?s) rid' who = terminal_events (log s) rid' who" by (simp add: terminal_events_append)
    with old mono show ?thesis by simp
  qed
qed

lemma once_frame:
  "log s' = log s \<Longrightarrow> terminal_runs s' = terminal_runs s \<Longrightarrow> terminal_nodes s' = terminal_nodes s \<Longrightarrow>
   once A s \<Longrightarrow> once A s'"
proof -
  assume e: "log s' = log s" "terminal_runs s' = terminal_runs s" "terminal_nodes s' = terminal_nodes s"
  then have "marked rid who s' = marked rid who s" for rid who
    by (simp add: marked_def split: option.splits)
  with e show "once A s \<Longrightarrow> once A s'" by (simp add: once_def)
qed

interpretation once: run_inv "once (insert rid A)" rid key for rid A key
  by unfold_locales (auto intro: once_accepted elim: once_frame [rotated 3] simp: remember_def)

section \<open>The registry\<close>

definition registry_ok :: "coord \<Rightarrow> bool" where
  "registry_ok s \<longleftrightarrow>
     (\<forall>rid key. dict_get (run_keys s) rid = Some key \<longrightarrow>
        (\<exists>run. dict_get (runs_by_request s) key = Some run \<and> r_id run = rid)) \<and>
     (\<forall>key run. dict_get (runs_by_request s) key = Some run \<longrightarrow> dict_get (run_keys s) (r_id run) = Some key) \<and>
     (\<forall>rid. dict_get (run_deadlines s) rid = None \<longleftrightarrow> dict_get (run_keys s) rid = None) \<and>
     (\<forall>rid who. dict_get (run_keys s) rid = None \<longrightarrow> event_error rid s = None \<and> \<not> marked rid who s)"

lemma marked_frame [simp]:
  "marked rid who (s\<lparr>clock := c\<rparr>) = marked rid who s"
  "marked rid who (s\<lparr>wall := c\<rparr>) = marked rid who s"
  "marked rid who (s\<lparr>stops := st\<rparr>) = marked rid who s"
  "marked rid who (s\<lparr>sink := sk\<rparr>) = marked rid who s"
  "marked rid who (s\<lparr>others := k\<rparr>) = marked rid who s"
  "marked rid who (s\<lparr>uuids := us\<rparr>) = marked rid who s"
  "marked rid who (s\<lparr>event_errors := es\<rparr>) = marked rid who s"
  "marked rid who (s\<lparr>run_held := a\<rparr>) = marked rid who s"
  "marked rid who (s\<lparr>global_held := a\<rparr>) = marked rid who s"
  "marked rid who (s\<lparr>log := l\<rparr>) = marked rid who s"
  "marked rid who (s\<lparr>runs_by_request := rs\<rparr>) = marked rid who s"
  by (simp_all add: marked_def split: option.splits)

lemma marked_mark_terminal:
  "marked rid' who (mark_terminal run node s) \<Longrightarrow> \<not> marked rid' who s \<Longrightarrow> rid' = r_id run"
  by (auto simp: marked_def mark_terminal_def split: option.splits if_splits)

definition listed :: "ustr \<Rightarrow> run_key \<Rightarrow> coord \<Rightarrow> bool" where
  "listed rid key s \<longleftrightarrow> registry_ok s \<and> dict_get (run_keys s) rid = Some key"

lemma listed_accepted:
  "listed rid key s \<Longrightarrow> r_id run = rid \<Longrightarrow> listed rid key (mark_terminal run node (s\<lparr>log := l\<rparr>))"
  using marked_mark_terminal [of _ _ run node "s\<lparr>log := l\<rparr>"]
  by (auto simp: listed_def registry_ok_def event_error_def)

lemma listed_remember: "listed rid key s \<Longrightarrow> r_id run = rid \<Longrightarrow> listed rid key (remember key run s)"
proof -
  assume l: "listed rid key s" and r: "r_id run = rid"
  have uniq: "rid' = rid" if "dict_get (run_keys s) rid' = Some key" for rid'
    using l that unfolding listed_def registry_ok_def by (metis option.inject)
  show "listed rid key (remember key run s)"
    using l r uniq
    by (auto simp: listed_def registry_ok_def remember_def dict_simps event_error_def)
qed

lemma listed_frame:
  assumes "runs_by_request s' = runs_by_request s" "run_keys s' = run_keys s"
    "run_deadlines s' = run_deadlines s" "event_errors s' = event_errors s"
    "terminal_runs s' = terminal_runs s" "terminal_nodes s' = terminal_nodes s" "listed rid key s"
  shows "listed rid key s'"
proof -
  have "marked rid' who s' = marked rid' who s" for rid' who
    using assms(5,6) by (simp add: marked_def split: option.splits)
  with assms show ?thesis by (simp add: listed_def registry_ok_def event_error_def)
qed

lemma listed_refused:
  "listed rid key s \<Longrightarrow> listed rid key (s\<lparr>event_errors := dict_put rid e (event_errors s)\<rparr>)"
  by (auto simp: listed_def registry_ok_def event_error_def dict_simps)

interpretation listed: run_inv "listed rid key" rid key for rid key
proof unfold_locales
qed (erule listed_refused | erule (1) listed_accepted | erule (1) listed_remember
    | (erule listed_frame [rotated 6]; simp))+

section \<open>Fresh identifiers\<close>

text \<open>Of \<open>uuid4\<close> the code uses that a new identifier was never used before.\<close>

definition fresh :: "coord \<Rightarrow> bool" where
  "fresh s \<longleftrightarrow> inj (uuids s)
     \<and> (\<forall>i. dict_get (run_keys s) (uuids s i) = None \<and> (\<forall>(ev, p) \<in> set (log s). e_run_id p \<noteq> uuids s i))"

definition fresh_but :: "ustr \<Rightarrow> coord \<Rightarrow> bool" where
  "fresh_but rid s \<longleftrightarrow> fresh s \<and> (\<forall>i. uuids s i \<noteq> rid)"

lemma fresh_but_frame:
  "fresh_but rid s \<Longrightarrow> uuids s' = uuids s \<Longrightarrow> run_keys s' = run_keys s \<Longrightarrow> log s' = log s \<Longrightarrow> fresh_but rid s'"
  by (simp add: fresh_but_def fresh_def)

lemma fresh_but_accepted:
  "fresh_but rid s \<Longrightarrow> r_id run = rid \<Longrightarrow> payload_for run node p \<Longrightarrow>
   fresh_but rid (mark_terminal run node (s\<lparr>log := log s @ [(ev, p)]\<rparr>))"
  by (auto simp: fresh_but_def fresh_def payload_for_def)

interpretation fresh: run_inv "fresh_but rid" rid key for rid key
proof unfold_locales
qed (erule (2) fresh_but_accepted | (erule fresh_but_frame; simp add: remember_def))+

text \<open>The runs a request key maps to, and the registered identifiers, stay the same.\<close>

definition registered_ids :: "coord \<Rightarrow> ustr set" where
  "registered_ids s = {rid. dict_get (run_keys s) rid \<noteq> None}"

interpretation ids: run_inv "\<lambda>s. registered_ids s = A" rid key for A rid key
proof unfold_locales
qed (simp_all add: registered_ids_def remember_def)

section \<open>The coordinator's invariant\<close>

definition coord_ok :: "coord \<Rightarrow> bool" where
  "coord_ok s \<longleftrightarrow> fresh s \<and> registry_ok s \<and> once (registered_ids s) s \<and> errors_ok s"

text \<open>What holds while an operation works on the run \<open>rid\<close>.\<close>

definition working :: "ustr \<Rightarrow> run_key \<Rightarrow> ustr set \<Rightarrow> coord \<Rightarrow> bool" where
  "working rid key A s \<longleftrightarrow>
     fresh_but rid s \<and> listed rid key s \<and> once (insert rid A) s \<and> errors_ok s
     \<and> registered_ids s = insert rid A"

lemma run_inv_conj:
  assumes "run_inv P rid key" "run_inv Q rid key"
  shows "run_inv (\<lambda>s. P s \<and> Q s) rid key"
  using assms
  unfolding run_inv_def worker_inv_def coord_inv_def run_inv_axioms_def worker_inv_axioms_def
  by simp

lemma errors_run_inv: "run_inv errors_ok rid key"
  by unfold_locales (simp add: errors_ok_def event_error_def remember_def)

interpretation work: run_inv "working rid key A" rid key for rid key A
  unfolding working_def
  by (intro run_inv_conj fresh.run_inv_axioms listed.run_inv_axioms once.run_inv_axioms
      errors_run_inv ids.run_inv_axioms)

lemma registered_idsI: "dict_get (run_keys s) rid = Some key \<Longrightarrow> insert rid (registered_ids s) = registered_ids s"
  by (auto simp: registered_ids_def)

lemma working_ok: "working rid key A s \<Longrightarrow> coord_ok s"
  by (simp add: working_def coord_ok_def fresh_but_def listed_def)

lemma ok_working:
  assumes "coord_ok s" "dict_get (run_keys s) rid = Some key"
  shows "working rid key (registered_ids s) s"
proof -
  have "\<forall>i. uuids s i \<noteq> rid" using assms by (auto simp: coord_ok_def fresh_def)
  with assms show ?thesis
    by (simp add: working_def coord_ok_def fresh_but_def listed_def registered_idsI)
qed

lemma release_ok: "working rid key A s \<Longrightarrow> coord_ok (release_run_runtime_state rid s)"
proof -
  let ?s = "release_run_runtime_state rid s"
  assume w: "working rid key A s"
  then have k: "dict_get (run_keys s) rid = Some key" by (simp add: working_def listed_def)
  have marks: "marked rid' who ?s \<longleftrightarrow> marked rid' who s \<and> rid' \<noteq> rid" for rid' who
    by (auto simp: marked_def release_run_runtime_state_def split: option.splits)
  have "fresh ?s"
    using w by (auto simp: working_def fresh_but_def fresh_def release_run_runtime_state_def dict_simps)
  moreover have "once (registered_ids ?s) ?s"
    using w marks
    by (auto simp: working_def once_def registered_ids_def release_run_runtime_state_def dict_simps)
  moreover have "errors_ok ?s"
    using w by (auto simp: working_def errors_ok_def event_error_def release_run_runtime_state_def
        dict_simps split: if_splits)
  moreover have "registry_ok ?s"
  proof -
    have r: "registry_ok s" using w by (simp add: working_def listed_def)
    have other: "key' \<noteq> key" if "dict_get (run_keys s) rid' = Some key'" "rid' \<noteq> rid" for rid' key'
      using r k that unfolding registry_ok_def by (metis option.inject)
    have own: "rid' = rid \<longleftrightarrow> key' = key" if "dict_get (run_keys s) rid' = Some key'" for rid' key'
      using other [OF that] k that by auto
    show ?thesis
      using r k own marks
      by (auto simp: registry_ok_def release_run_runtime_state_def event_error_def dict_simps)
  qed
  ultimately show ?thesis by (simp add: coord_ok_def)
qed

lemma coord_ok_reads:
  assumes "coord_ok s"
  shows "coord_ok (s\<lparr>wall := w, clock := c\<rparr>)"
  using assms by (simp add: coord_ok_def fresh_def registry_ok_def once_def registered_ids_def
      errors_ok_def event_error_def)

lemma register_working:
  assumes ok: "coord_ok s" and free: "dict_get (runs_by_request s) key = None" and r: "r_id run = uuids s 0"
  shows "working (uuids s 0) key (registered_ids s) (register key run dl (s\<lparr>uuids := tape_tl (uuids s)\<rparr>))"
proof -
  let ?s = "register key run dl (s\<lparr>uuids := tape_tl (uuids s)\<rparr>)" and ?rid = "uuids s 0"
  have new: "dict_get (run_keys s) ?rid = None" using ok by (auto simp: coord_ok_def fresh_def)
  have inj: "uuids s (Suc i) \<noteq> ?rid" for i
    using ok unfolding coord_ok_def fresh_def inj_def by blast
  have marks: "marked rid who ?s = marked rid who s" for rid who
    by (simp add: marked_def register_def split: option.splits)
  have "terminal_events (log s) ?rid who = 0" for who
    using ok by (auto simp: coord_ok_def fresh_def terminal_events_def filter_empty_conv)
  then have "once (insert ?rid (registered_ids s)) ?s"
    using ok marks by (auto simp: coord_ok_def once_def register_def)
  moreover have fb: "fresh_but ?rid ?s"
    using ok inj r
    by (auto simp: coord_ok_def fresh_but_def fresh_def register_def dict_simps inj_def)
  have reg: "registry_ok s" using ok by (simp add: coord_ok_def)
  have f1: "dict_get (run_keys s) rid \<noteq> Some key" for rid
  proof
    assume "dict_get (run_keys s) rid = Some key"
    with reg obtain r where "dict_get (runs_by_request s) key = Some r"
      unfolding registry_ok_def by blast
    with free show False by simp
  qed
  have f2: "r_id r \<noteq> ?rid" if "dict_get (runs_by_request s) k = Some r" for k r
    using reg new that unfolding registry_ok_def by (metis option.distinct(1))
  have l: "listed ?rid key ?s"
    using reg new free r marks f1 f2
    by (auto simp: listed_def registry_ok_def register_def dict_simps event_error_def)
  moreover have "errors_ok ?s"
    using ok by (simp add: coord_ok_def errors_ok_def event_error_def register_def)
  moreover have "registered_ids ?s = insert ?rid (registered_ids s)"
    using r by (auto simp: registered_ids_def register_def dict_simps)
  ultimately show ?thesis using l fb by (simp add: working_def)
qed

lemma queued_run_id [simp]: "r_id (queued_run rid p req now) = rid"
  by (simp add: queued_run_def)

lemma delegate_unfold:
  "delegate cf req p env s =
     (if dict_get (runs_by_request s) (p_session p, p_request p) \<noteq> None
      then (Inl (RuntimeError txt_one_run_per_request), s)
      else
        (let run = queued_run (uuids s 0) p req (wall s 0);
             dl = clock s 0 + run_timeout cf;
             s1 = s\<lparr>wall := tape_tl (wall s), clock := tape_tl (clock s), uuids := tape_tl (uuids s)\<rparr> in
         conduct cf (p_session p, p_request p) run req p dl env
           (register (p_session p, p_request p) run dl s1)))"
  by (simp add: delegate_def Let_def seq_def gets_def raise_def read_wall_def read_clock_def
      read_uuid_def modify_def)

lemma delegate_ok:
  assumes "coord_ok s"
  shows "coord_ok (snd (delegate cf req p env s))"
proof (cases "dict_get (runs_by_request s) (p_session p, p_request p)")
  case None
  let ?s = "s\<lparr>wall := tape_tl (wall s), clock := tape_tl (clock s)\<rparr>"
  have "coord_ok ?s" by (rule coord_ok_reads [OF assms])
  from register_working [OF this, of "(p_session p, p_request p)" "queued_run (uuids s 0) p req (wall s 0)"] None
  have "working (uuids s 0) (p_session p, p_request p) (registered_ids ?s)
      (register (p_session p, p_request p) (queued_run (uuids s 0) p req (wall s 0)) (clock s 0 + run_timeout cf)
        (s\<lparr>wall := tape_tl (wall s), clock := tape_tl (clock s), uuids := tape_tl (uuids s)\<rparr>))"
    by simp
  from working_ok [OF keepsD [OF work.keeps_conduct [OF queued_run_id] this]] show ?thesis
    using None by (simp add: delegate_unfold Let_def)
qed (simp add: delegate_unfold assms)

text \<open>The parent's operations look up the registered run first.\<close>

lemma lookup_run:
  assumes "coord_ok s" "dict_get (run_keys s) rid = Some key"
  obtains run where "dict_get (runs_by_request s) key = Some run" "r_id run = rid"
  using assms unfolding coord_ok_def registry_ok_def by blast

lemma finalize_ok:
  assumes "coord_ok s"
  shows "coord_ok (snd (finalize cf rid oc s))"
proof (cases "dict_get (run_keys s) rid")
  case (Some key)
  obtain run where run: "dict_get (runs_by_request s) key = Some run" "r_id run = rid"
    by (rule lookup_run [OF assms Some])
  have w: "working rid key (registered_ids s) s" by (rule ok_working [OF assms Some])
  have c: "leads (working rid key A) (conclude_run cf key run st err (modify (release_run_runtime_state rid))) coord_ok"
    for A st err
    by (rule work.conclude_run_leads [OF run(2)])
      (auto intro: working_ok leadsI simp: modify_def release_ok)
  show ?thesis
    using leadsD [OF c w] leadsD [OF c work.tape_clock [OF w]] working_ok [OF work.tape_clock [OF w]] assms release_ok [OF w]
    by (auto simp: finalize_def seq_def gets_def registered_run_def Some run ret_def raise_def
        modify_def read_clock_def split: option.splits)
qed (simp add: finalize_def seq_def gets_def raise_def assms)

lemma set_waiting_ok:
  assumes "coord_ok s"
  shows "coord_ok (snd (set_waiting cf rid b s))"
proof (cases "dict_get (run_keys s) rid")
  case (Some key)
  obtain run where run: "dict_get (runs_by_request s) key = Some run" "r_id run = rid"
    by (rule lookup_run [OF assms Some])
  have w: "working rid key (registered_ids s) s" by (rule ok_working [OF assms Some])
  have "keeps (working rid key (registered_ids s))
      (seq (modify (remember key (run\<lparr>r_status := st\<rparr>))) (\<lambda>_.
       seq (emit cf (run_event_by_status st) (run\<lparr>r_status := st\<rparr>) None None)
         (\<lambda>_. ret (Some (run\<lparr>r_status := st\<rparr>)))))" for st
    using run(2) by (intro keeps_rules work.keeps_remember work.keeps_emit) simp_all
  from working_ok [OF keepsD [OF this w]] show ?thesis
    using assms by (simp add: set_waiting_def seq_def [of "gets _"] seq_def [of "registered_run _"] gets_def registered_run_def Some
        run Let_def ret_def)
qed (simp add: set_waiting_def seq_def gets_def ret_def assms)

lemma check_parent_context_ok:
  assumes "coord_ok s"
  shows "coord_ok (snd (check_parent_context cf rid messages tools s))"
proof (cases "dict_get (run_keys s) rid")
  case (Some key)
  obtain run where run: "dict_get (runs_by_request s) key = Some run" "r_id run = rid"
    by (rule lookup_run [OF assms Some])
  have w: "working rid key (registered_ids s) s" by (rule ok_working [OF assms Some])
  have "keeps (working rid key (registered_ids s))
      (seq (finish (run\<lparr>r_error_code := c\<rparr>) Failed e) (\<lambda>failed.
       seq (modify (remember key failed)) (\<lambda>_. seq (emit cf Run_failed failed None None) (\<lambda>_. ret (Some x)))))"
    for c e and x :: ustr
    using run(2) by (intro keeps_rules work.finish_then work.keeps_remember work.keeps_emit) simp_all
  from working_ok [OF keepsD [OF this w]] show ?thesis
    using assms by (simp add: check_parent_context_def seq_def [of "gets _"] seq_def [of "registered_run _"] gets_def
        registered_run_def Some run ret_def)
qed (simp add: check_parent_context_def seq_def gets_def ret_def assms)

section \<open>The coordinator as a machine\<close>

text \<open>The operations a client calls, in any order and with any arguments.\<close>

inductive coord_step :: "coord_cfg \<Rightarrow> coord \<Rightarrow> coord \<Rightarrow> bool" for cf where
  by_delegate: "coord_step cf s (snd (delegate cf req p env s))"
| by_finalize: "coord_step cf s (snd (finalize cf rid outcome s))"
| by_set_waiting: "coord_step cf s (snd (set_waiting cf rid waiting s))"
| by_check_context: "coord_step cf s (snd (check_parent_context cf rid messages tools s))"

inductive_cases coord_stepE: "coord_step cf s t"

text \<open>A new coordinator: nothing registered, nothing logged, identifiers that do not repeat.\<close>

definition coord_init :: "coord \<Rightarrow> bool" where
  "coord_init s \<longleftrightarrow> runs_by_request s = [] \<and> run_keys s = [] \<and> run_deadlines s = [] \<and> event_errors s = []
     \<and> terminal_nodes s = {} \<and> terminal_runs s = {} \<and> log s = [] \<and> inj (uuids s)"

lemma coord_init_ok: "coord_init s \<Longrightarrow> coord_ok s"
  by (auto simp: coord_init_def coord_ok_def fresh_def registry_ok_def once_def errors_ok_def
      event_error_def terminal_events_def marked_def split: option.splits)

interpretation coordinator: machine coord_init "coord_step cf" coord_ok for cf
  by unfold_locales
    (auto intro: coord_init_ok elim!: coord_stepE
      intro!: delegate_ok finalize_ok set_waiting_ok check_parent_context_ok)

end
