(* ===== verification/RunResults.thy ===== *)
theory RunResults
  imports DelegationFacts
begin

text \<open>
  What the collections and \<open>delegate\<close> hand back: the nodes of a pipeline answer its tasks in order,
  a worker after an unsuccessful one never runs, the text a worker receives is the bounded result
  of its predecessor, and a run that is still running after \<open>delegate\<close> is within its budgets.
\<close>

section \<open>One worker on its own\<close>

definition done_ok :: "coord_cfg \<Rightarrow> ustr \<Rightarrow> ma_task \<Rightarrow> worker \<Rightarrow> bool" where
  "done_ok cf nid task w \<longleftrightarrow> (\<forall>n. wk_pc w = At_done n \<longrightarrow> node_ok cf nid task n)"

lemma run_worker_node:
  assumes "run_worker cf run task nid dl fuel w s = (Inr n, s')"
    "answers_ok w" "errors_ok s" "done_ok cf nid task w"
  shows "node_ok cf nid task n"
  using assms
proof (induction fuel arbitrary: w s)
  case (Suc fuel)
  show ?case
  proof (cases "finished w")
    case True
    with Suc.prems show ?thesis
      by (cases "wk_pc w") (auto simp: run_worker_finished finished_def done_ok_def simp del: run_worker.simps)
  next
    case False
    let ?w = "fst (worker_step cf run task nid dl w s)" and ?s = "snd (worker_step cf run task nid dl w s)"
    have "run_worker cf run task nid dl fuel ?w ?s = (Inr n, s')"
      using Suc.prems(1) unfolding run_worker_Suc [OF False] .
    moreover have "answers_ok ?w" by (rule step_answers [OF Suc.prems(2)])
    moreover have "errors_ok ?s" by (rule errs_step.worker_step_keeps [OF refl Suc.prems(3)])
    moreover have "done_ok cf nid task ?w"
      using worker_step_done [OF _ False Suc.prems(2,3)] by (simp add: done_ok_def)
    ultimately show ?thesis by (rule Suc.IH)
  qed
qed simp

lemma new_worker_facts [simp]:
  "answers_ok (new_worker a us) \<longleftrightarrow> (\<forall>i v. a i = Returned v \<longrightarrow> value_ok v)"
  "done_ok cf nid task (new_worker a us)" "slots_match (new_worker a us)"
  "wk_pc (new_worker a us) = At_start"
  by (auto simp: answers_ok_def new_worker_def done_ok_def slots_match_def)

text \<open>What the worker runner may answer: a \<open>WorkerResult\<close> was checked when it was built.\<close>

definition env_ok :: "run_env \<Rightarrow> bool" where
  "env_ok env \<longleftrightarrow> (\<forall>i dep k v. env_answers env i dep k = Returned v \<longrightarrow> value_ok v)"

lemma worker_node:
  assumes "run_worker cf run task nid dl fuel (new_worker (env_answers env i dep) us) s = (Inr n, s')"
    "env_ok env" "errors_ok s"
  shows "node_ok cf nid task n"
  by (rule run_worker_node [OF assms(1)]) (use assms(2,3) in \<open>auto simp: env_ok_def\<close>)

lemma node_ok_succeeded: "node_ok cf nid task n \<Longrightarrow> succeeded n \<longleftrightarrow> n_status n = Completed"
  by (auto simp: node_ok_def succeeded_def wf_result_def blank_def split: option.splits)

section \<open>Pipelines\<close>

fun nodes_for :: "coord_cfg \<Rightarrow> nat \<Rightarrow> ma_task list \<Rightarrow> ma_node list \<Rightarrow> bool" where
  "nodes_for cf i [] ns = (ns = [])"
| "nodes_for cf i (t # ts) ns = (case ns of [] \<Rightarrow> False
     | n # ns \<Rightarrow> node_ok cf (node_id i) t n \<and> nodes_for cf (i + 1) ts ns)"

lemma nodes_for_iff:
  "nodes_for cf i ts ns \<longleftrightarrow> length ns = length ts
     \<and> (\<forall>j < length ts. node_ok cf (node_id (i + j)) (ts ! j) (ns ! j))"
proof (induction ts arbitrary: i ns)
  case (Cons t ts)
  show ?case
    by (cases ns) (auto simp: Cons nth_Cons less_Suc_eq_0_disj split: nat.splits)
qed simp

text \<open>Completed nodes come first.\<close>

fun completed_first :: "ma_node list \<Rightarrow> bool" where
  "completed_first [] = True"
| "completed_first (n # ns) =
     (if n_status n = Completed then completed_first ns else list_all (\<lambda>m. n_status m \<noteq> Completed) ns)"

lemma none_completed_first: "list_all (\<lambda>m. n_status m \<noteq> Completed) ns \<Longrightarrow> completed_first ns"
  by (induction ns) auto

lemma completed_firstD:
  "completed_first ns \<Longrightarrow> a < b \<Longrightarrow> b < length ns \<Longrightarrow> n_status (ns ! b) = Completed \<Longrightarrow>
   n_status (ns ! a) = Completed"
proof (induction ns arbitrary: a b)
  case (Cons n ns)
  obtain b' where b: "b = Suc b'" using Cons.prems(2) by (cases b) auto
  show ?case
  proof (cases "n_status n = Completed")
    case True
    with Cons b show ?thesis by (cases a) auto
  next
    case False
    with Cons.prems b show ?thesis by (auto simp: list_all_length)
  qed
qed simp

definition sequential_post ::
  "coord_cfg \<Rightarrow> nat \<Rightarrow> bool \<Rightarrow> bool \<Rightarrow> ma_task list \<Rightarrow> ma_node list \<Rightarrow> bool" where
  "sequential_post cf i blocked skip ts ns \<longleftrightarrow>
     (if skip then nodes_for cf (i + 1) (tl ts) ns else nodes_for cf i ts ns)
     \<and> completed_first ns \<and> (blocked \<longrightarrow> list_all (\<lambda>m. n_status m \<noteq> Completed) ns)"

lemma run_sequential_post:
  assumes "run_sequential cf run dl env i dep blocked skip ts s = (Inr ns, s')"
    "env_ok env" "errors_ok s" "skip \<longrightarrow> ts \<noteq> [] \<and> blocked"
  shows "sequential_post cf i blocked skip ts ns"
  using assms
proof (induction ts arbitrary: i dep blocked skip s ns)
  case Nil
  then show ?case by (auto simp: ret_def sequential_post_def)
next
  case (Cons t ts)
  note errs = keepsD [OF errs.keeps_emit [OF refl]] keepsD [OF errs_step.run_worker_keeps [OF refl]]
  consider "skip" | "\<not> skip" "blocked" | "\<not> skip" "\<not> blocked" by blast
  then show ?case
  proof cases
    case 1
    then have "run_sequential cf run dl env (i + 1) dep blocked False ts s = (Inr ns, s')"
      using Cons.prems(1) by simp
    from Cons.IH [OF this Cons.prems(2,3)] show ?thesis using 1 by (simp add: sequential_post_def)
  next
    case 2
    let ?n = "cancelled_node (node_id i) t txt_predecessor_failed"
    from Cons.prems(1) 2 obtain b s1 ns' where
      e: "emit cf Node_updated run (Some ?n) None s = (Inr b, s1)" and
      r: "run_sequential cf run dl env (i + 1) dep True False ts s1 = (Inr ns', s')" "ns = ?n # ns'"
      by (auto simp: Let_def ret_def elim!: seq_cases)
    have "errors_ok s1" using errs(1) [OF Cons.prems(3), of cf Node_updated run] e by (metis snd_conv)
    from Cons.IH [OF r(1) Cons.prems(2) this] have "sequential_post cf (i + 1) True False ts ns'" by simp
    moreover have "node_ok cf (node_id i) t ?n" by (rule cancelled_node_ok) simp
    ultimately show ?thesis using 2 r(2)
      by (simp add: sequential_post_def cancelled_node_def ended_node_def)
  next
    case 3
    let ?m = "run_worker cf run t (node_id i) dl (env_fuel env) (new_worker (env_answers env i dep) (env_usage env i))"
    from Cons.prems(1) 3 obtain n s1 where w: "?m s = (Inr n, s1)"
      by (auto elim!: seq_cases)
    note seq_w = seq_Inr [where m = ?m, OF w]
    note body = Cons.prems(1) [unfolded run_sequential.simps, simplified 3 if_False, unfolded seq_w]
    have ok: "node_ok cf (node_id i) t n" by (rule worker_node [OF w Cons.prems(2,3)])
    have e1: "errors_ok s1" using errs(2) [OF Cons.prems(3)] w by (metis snd_conv)
    consider "\<not> succeeded n" | "succeeded n" "ts = []"
      | t' ts' c where "succeeded n" "ts = t' # ts'" "build_dependency cf n = Inr c"
      | t' ts' err where "succeeded n" "ts = t' # ts'" "build_dependency cf n = Inl err"
      by (metis list.exhaust sum.exhaust)
    then show ?thesis
    proof cases
      case 1
      with body obtain ns' where
        r: "run_sequential cf run dl env (i + 1) dep True False ts s1 = (Inr ns', s')" "ns = n # ns'"
        by (auto simp: ret_def simp del: run_sequential.simps elim!: seq_cases)
      from Cons.IH [OF r(1) Cons.prems(2) e1] have "sequential_post cf (i + 1) True False ts ns'" by simp
      with 1 3 ok r(2) show ?thesis
        by (simp add: sequential_post_def node_ok_succeeded [OF ok])
    next
      case 2
      with body have "ns = [n]" by (simp add: ret_def)
      with 2 3 ok show ?thesis by (simp add: sequential_post_def)
    next
      case (3 t' ts' c)
      with body obtain ns' where
        r: "run_sequential cf run dl env (i + 1) (Some c) False False ts s1 = (Inr ns', s')" "ns = n # ns'"
        by (auto simp: ret_def simp del: run_sequential.simps elim!: seq_cases)
      from Cons.IH [OF r(1) Cons.prems(2) e1] have "sequential_post cf (i + 1) False False ts ns'" by simp
      with 3 \<open>\<not> skip\<close> \<open>\<not> blocked\<close> ok r(2) show ?thesis
        by (simp add: sequential_post_def node_ok_succeeded [OF ok])
    next
      case (4 t' ts' err)
      let ?f = "failed_node (node_id (i + 1)) t' err context_exceeded_code"
      from 4 body obtain b s2 ns' where
        e: "emit cf Node_updated run (Some ?f) None s1 = (Inr b, s2)" and
        r: "run_sequential cf run dl env (i + 1) None True True ts s2 = (Inr ns', s')" "ns = n # ?f # ns'"
        by (auto simp: ret_def Let_def simp del: run_sequential.simps elim!: seq_cases)
      have "errors_ok s2" using errs(1) [OF e1, of cf Node_updated run] e by (metis snd_conv)
      from Cons.IH [OF r(1) Cons.prems(2) this] 4(2) have "sequential_post cf (i + 1) True True ts ns'"
        by simp
      moreover have "node_ok cf (node_id (i + 1)) t' ?f"
        using 4(3) by (intro failed_node_ok) (auto simp: build_dependency_def Let_def split: option.splits if_splits)
      ultimately show ?thesis using 4 \<open>\<not> skip\<close> \<open>\<not> blocked\<close> ok r(2)
        by (simp add: sequential_post_def node_ok_succeeded [OF ok] failed_node_def ended_node_def)
    qed
  qed
qed

text \<open>What the proofs of the two collections share about their results.\<close>

lemma sequential_nodes:
  assumes "run_sequential cf run dl env 1 None False False ts s = (Inr ns, s')" "env_ok env" "errors_ok s"
  shows "nodes_for cf 1 ts ns" "completed_first ns"
  using run_sequential_post [OF assms] by (simp_all add: sequential_post_def)

section \<open>Fan-outs\<close>

definition fan_nodes_ok :: "coord_cfg \<Rightarrow> ma_task list \<Rightarrow> fan \<Rightarrow> bool" where
  "fan_nodes_ok cf tasks c \<longleftrightarrow> length (fst c) = length tasks \<and> errors_ok (snd c)
     \<and> (\<forall>i < length tasks. answers_ok (fst c ! i) \<and> done_ok cf (node_id (i + 1)) (tasks ! i) (fst c ! i))"

lemma fan_move_nodes: "fan_nodes_ok cf tasks c \<Longrightarrow> fan_nodes_ok cf tasks (fan_move cf run tasks dl i c)"
proof (cases c)
  case (Pair ws s)
  assume ok: "fan_nodes_ok cf tasks c"
  show ?thesis
  proof (cases "i < length ws \<and> \<not> finished (ws ! i)")
    case True
    with ok Pair have w: "answers_ok (ws ! i)" "errors_ok s" by (auto simp: fan_nodes_ok_def)
    let ?st = "worker_step cf run (tasks ! i) (node_id (i + 1)) dl (ws ! i) s"
    have "answers_ok (fst ?st)" "errors_ok (snd ?st)" "done_ok cf (node_id (i + 1)) (tasks ! i) (fst ?st)"
      using step_answers [OF w(1)] errs_step.worker_step_keeps [OF refl w(2)]
        worker_step_done [OF _ _ w] True by (auto simp: done_ok_def)
    with True ok Pair show ?thesis
      by (auto simp: fan_nodes_ok_def fan_move_def case_prod_unfold nth_list_update)
  next
    case False
    with ok Pair show ?thesis by (auto simp: fan_move_def)
  qed
qed

lemma fan_run_nodes: "fan_nodes_ok cf tasks c \<Longrightarrow> fan_nodes_ok cf tasks (fan_run cf run tasks dl is c)"
  by (induction "is" arbitrary: c) (simp_all add: fan_move_nodes)

lemma start_workers_nodes:
  "env_ok env \<Longrightarrow> errors_ok s \<Longrightarrow> fan_nodes_ok cf tasks (start_workers env (length tasks), s)"
  by (auto simp: fan_nodes_ok_def start_workers_def env_ok_def)

lemma gather_nodes:
  assumes "fan_nodes_ok cf tasks (ws, s)" "gather ws = Inr nodes"
  shows "nodes_for cf 1 tasks nodes"
proof -
  have l: "list_all2 (\<lambda>w n. worker_outcome w = Inr n) ws nodes"
    using assms(2) by (simp add: gather_def mapE_Inr)
  then have len: "length nodes = length ws" by (simp add: list_all2_lengthD)
  have "wk_pc (ws ! i) = At_done (nodes ! i)" if "i < length ws" for i
    using list_all2_nthD [OF l that] by (auto simp: worker_outcome_def split: pc.splits)
  with assms(1) len show ?thesis by (auto simp: nodes_for_iff fan_nodes_ok_def done_ok_def)
qed

lemma collect_nodes:
  assumes "collect cf run req dl env s = (Inr nodes, s')" "env_ok env" "errors_ok s"
  shows "nodes_for cf 1 (q_tasks req) nodes" "q_strategy req = Pipeline \<longrightarrow> completed_first nodes"
proof -
  let ?s = "s\<lparr>run_held := 0\<rparr>"
  have e: "errors_ok ?s" using assms(3) by (simp add: errors_ok_def event_error_def)
  show "nodes_for cf 1 (q_tasks req) nodes"
  proof (cases "q_strategy req")
    case Fan_out_fan_in
    obtain ws s1 where f: "fan_run cf run (q_tasks req) dl (env_schedule env)
        (start_workers env (length (q_tasks req)), ?s) = (ws, s1)" by fastforce
    with assms(1) Fan_out_fan_in have "gather ws = Inr nodes"
      by (simp add: collect_def run_fanout_def)
    moreover have "fan_nodes_ok cf (q_tasks req) (ws, s1)"
      using fan_run_nodes [OF start_workers_nodes [OF assms(2) e], of cf "q_tasks req" run dl "env_schedule env"] f
      by simp
    ultimately show ?thesis by (rule gather_nodes [rotated])
  next
    case Pipeline
    with assms(1) show ?thesis using sequential_nodes(1) [OF _ assms(2) e] by (simp add: collect_def)
  qed
  show "q_strategy req = Pipeline \<longrightarrow> completed_first nodes"
    using assms(1) sequential_nodes(2) [OF _ assms(2) e] by (auto simp: collect_def)
qed

section \<open>What a run ends as\<close>

definition stored :: "run_key \<Rightarrow> ma_run \<Rightarrow> coord \<Rightarrow> bool" where
  "stored key run s \<longleftrightarrow> dict_get (runs_by_request s) key = Some run"

interpretation snapshot: coord_inv "stored key run" rid for key run rid
  by unfold_locales (simp_all add: stored_def)

lemma stored_remember: "stored key run (remember key run s)"
  by (simp add: stored_def remember_def dict_simps)

lemma emit_stored:
  "emit cf ev run node us s = (r, s') \<Longrightarrow> stored key x s \<Longrightarrow> stored key x s'"
  using keepsD [OF snapshot.keeps_emit [OF refl], of key x s cf ev run node us] by simp

lemma finish_value:
  "finish run st err s = (Inr r, s') \<Longrightarrow>
   \<exists>t. r = run\<lparr>r_status := st, r_finished_at := Some t, r_error := err\<rparr>"
  by (auto simp: finish_def prog_simps read_wall_def)

lemma finish_event_failure_returns:
  assumes "finish_event_failure cf key run s = (Inr r, s')"
  shows "stored key r s' \<and> r_status r = Failed \<and> r_id r = r_id run
    \<and> r_error_code r = Some (u ''event_persistence_failed'')"
proof -
  obtain f s1 s2 b e where e: "e = event_error (r_id run) s"
    and f: "finish (run\<lparr>r_error_code := Some (u ''event_persistence_failed'')\<rparr>) Failed
        (Some (if truthy e then the e else txt_event_failed)) s = (Inr f, s1)"
    and m: "emit cf Run_failed f None None (remember key f s1) = (Inr b, s2)" and r: "r = f" "s' = s2"
    using assms by (auto simp: finish_event_failure_def ret_def modify_def elim!: seq_cases)
  from finish_value [OF f] emit_stored [OF m stored_remember] r show ?thesis by auto
qed

lemma conclude_run_returns:
  assumes "conclude_run cf key run st err (ret ()) s = (Inr r, s')"
  shows "stored key r s' \<and> r_id r = r_id run \<and> (r_status r = st \<or> r_status r = Failed)"
proof -
  from assms obtain f s1 where f: "finish run st err s = (Inr f, s1)"
    and rest: "seq (modify (remember key f)) (\<lambda>_.
      seq (emit cf (run_event_by_status (r_status f)) f None None) (\<lambda>ok.
        if \<not> ok then finish_event_failure cf key f else seq (ret ()) (\<lambda>_. ret f))) s1 = (Inr r, s')"
    unfolding conclude_run_def by (auto elim: seq_cases [of "finish _ _ _"])
  from rest have "seq (emit cf (run_event_by_status (r_status f)) f None None) (\<lambda>ok.
        if \<not> ok then finish_event_failure cf key f else ret f) (remember key f s1) = (Inr r, s')"
    unfolding seq_ret by simp
  then obtain b s2 where
    m: "emit cf (run_event_by_status (r_status f)) f None None (remember key f s1) = (Inr b, s2)"
    and r: "(if \<not> b then finish_event_failure cf key f else ret f) s2 = (Inr r, s')"
    by (rule seq_cases) auto
  show ?thesis
  proof (cases b)
    case True
    with r have "r = f" "s' = s2" by (simp_all add: ret_def)
    with finish_value [OF f] emit_stored [OF m stored_remember] show ?thesis by auto
  next
    case False
    with r finish_event_failure_returns [of cf key f s2 r s'] finish_value [OF f] show ?thesis by auto
  qed
qed

text \<open>The promise of a run that goes on to the parent's synthesis.\<close>

definition ready_for_synthesis :: "coord_cfg \<Rightarrow> ma_request \<Rightarrow> parent_turn \<Rightarrow> ma_node list \<Rightarrow> bool" where
  "ready_for_synthesis cf req p nodes \<longleftrightarrow>
     (\<exists>n \<in> set nodes. n_status n = Completed) \<and>
     (q_strategy req = Pipeline \<longrightarrow> (\<forall>n \<in> set nodes. n_status n = Completed)) \<and>
     int (result_tokens cf nodes) \<le> parent_result_limit cf \<and>
     p_context_tokens p + int (result_tokens cf nodes) \<le> max_context cf"

definition settled :: "coord_cfg \<Rightarrow> run_key \<Rightarrow> ma_request \<Rightarrow> parent_turn \<Rightarrow> ustr \<Rightarrow> ma_run \<Rightarrow> coord \<Rightarrow> bool" where
  "settled cf key req p rid r s \<longleftrightarrow> stored key r s \<and> r_id r = rid
     \<and> (terminal (r_status r) \<or>
        r_status r = Running \<and> nodes_for cf 1 (q_tasks req) (r_nodes r) \<and> ready_for_synthesis cf req p (r_nodes r))"

lemma settle_returns:
  assumes "settle cf key run req p dl nodes s = (Inr r, s')" "r_status run = Running"
    "nodes_for cf 1 (q_tasks req) nodes"
  shows "settled cf key req p (r_id run) r s'"
proof -
  let ?run = "run\<lparr>r_nodes := nodes\<rparr>"
  let ?x = "result_budget_error cf ?run p"
  have fail: ?thesis
    if "finish_event_failure cf key ?run s1 = (Inr r, s')" for s1
    using finish_event_failure_returns [OF that] by (simp add: settled_def)
  have conc: ?thesis
    if "conclude_run cf key run' st err (ret ()) s1 = (Inr r, s')" "terminal st" "r_id run' = r_id run"
    for s1 run' st err
    using conclude_run_returns [OF that(1)] that(2,3) by (auto simp: settled_def)
  have go: ?thesis
    if "\<not> ?x" "filter (\<lambda>n. n_status n = Completed) nodes \<noteq> []"
      "q_strategy req = Fan_out_fan_in \<or> filter (\<lambda>n. n_status n \<noteq> Completed) nodes = []"
      "ret ?run (remember key ?run s1) = (Inr r, s')" for s1
  proof -
    have "r = ?run" "s' = remember key ?run s1" using that(4) by (auto simp: ret_def)
    moreover have "ready_for_synthesis cf req p nodes"
      using that(1-3) by (auto simp: ready_for_synthesis_def result_budget_error_def filter_empty_conv)
    ultimately show ?thesis using assms(2,3) stored_remember by (simp add: settled_def)
  qed
  from assms(1) show ?thesis
    unfolding settle_def Let_def
    by (auto elim!: seq_cases [of stop_requested] seq_cases [of read_clock]
        split: if_splits intro: fail) ((erule conc; simp) | (erule (1) go [rotated 3]; simp))+
qed

lemma gives_failure:
  "r_id run = rid \<Longrightarrow> gives P (finish_event_failure cf key run) (settled cf key req p rid)"
  by (rule givesI) (auto dest: finish_event_failure_returns simp: settled_def)

lemma gives_settle:
  "r_status run = Running \<Longrightarrow> gives (\<lambda>_. nodes_for cf 1 (q_tasks req) nodes) (settle cf key run req p dl nodes)
     (settled cf key req p (r_id run))"
  by (rule givesI) (rule settle_returns)

lemma gives_collect:
  "env_ok env \<Longrightarrow> gives errors_ok (collect cf run req dl env) (\<lambda>nodes _. nodes_for cf 1 (q_tasks req) nodes)"
  by (rule givesI) (rule collect_nodes(1))

lemma keeps_errors_remember: "keeps errors_ok (modify (remember key run))"
  by (rule keeps_modify) (simp add: errors_ok_def event_error_def remember_def)

lemma conduct_gives:
  assumes "env_ok env"
  shows "gives errors_ok (conduct cf key run req p dl env) (settled cf key req p (r_id run))"
proof -
  have body: "gives errors_ok (seq (collect cf run' req dl env) (settle cf key run' req p dl))
      (settled cf key req p (r_id run))" if "r_status run' = Running" "r_id run' = r_id run" for run'
    using gives_seq [OF gives_collect [OF assms] gives_settle [OF that(1)]] that(2) by simp
  show ?thesis
    unfolding conduct_def Let_def
    by (intro gives_keeps gives_rules errs.keeps_emit errs.keeps_reads keeps_gets keeps_for_each
        keeps_seq keeps_ret keeps_errors_remember gives_failure body) simp_all
qed

lemma conduct_returns:
  "conduct cf key run req p dl env s = (Inr r, s') \<Longrightarrow> env_ok env \<Longrightarrow> errors_ok s \<Longrightarrow>
   settled cf key req p (r_id run) r s'"
  using givesD [OF conduct_gives] .

end
