(* ===== verification/RunLiveness.thy ===== *)
theory RunLiveness
  imports RunResults
begin

text \<open>
  A pipeline ends: with enough fuel its workers return one after the other, whatever the slots,
  the sink and the worker tasks do, as long as the clock passes every bound. And the text it hands
  from worker to worker is bounded: answers to longer texts are never asked for.
\<close>

section \<open>Running out of fuel is no exception of the program\<close>

definition proper :: "('s, 'a) prog \<Rightarrow> bool" where
  "proper m \<longleftrightarrow> (\<forall>s. fst (m s) \<noteq> Inl Out_of_fuel)"

named_theorems proper_rules "programs that raise exceptions of the source only"

lemma proper_ret [proper_rules]: "proper (ret a)"
  by (simp add: proper_def ret_def)

lemma proper_gets [proper_rules]: "proper (gets f)"
  by (simp add: proper_def gets_def)

lemma proper_lift: "r \<noteq> Inl Out_of_fuel \<Longrightarrow> proper (lift r)"
  by (simp add: proper_def lift_def)

lemma proper_seq [proper_rules]: "proper m \<Longrightarrow> (\<And>a. proper (f a)) \<Longrightarrow> proper (seq m f)"
  by (auto simp: proper_def seq_def split: prod.splits sum.splits) (metis fst_conv)+

lemma proper_if [proper_rules]: "proper m \<Longrightarrow> proper n \<Longrightarrow> proper (if b then m else n)"
  by simp

lemma proper_case_option [proper_rules]:
  "proper m \<Longrightarrow> (\<And>x. proper (f x)) \<Longrightarrow> proper (case y of None \<Rightarrow> m | Some x \<Rightarrow> f x)"
  by (cases y) auto

lemma proper_case_prod [proper_rules]: "(\<And>x y. proper (f x y)) \<Longrightarrow> proper (case z of (x, y) \<Rightarrow> f x y)"
  by (cases z) auto

lemma proper_reads [proper_rules]:
  "proper read_clock" "proper read_wall" "proper read_others" "proper stop_requested"
  by (simp_all add: proper_def read_clock_def read_wall_def read_others_def stop_requested_def)

lemma proper_send_event: "proper (send_event ev run node p)"
  by (simp add: proper_def send_event_def Let_def split: sink_answer.splits)

lemma proper_emit [proper_rules]: "proper (emit cf ev run node us)"
  unfolding emit_def run_duration_ms_def by (intro proper_rules proper_send_event)

lemma proper_emit_node [proper_rules]: "proper (emit_node cf run us n)"
  unfolding emit_node_def by (intro proper_rules)

lemma proper_timed_out_node [proper_rules]: "proper (timed_out_node nid task t)"
  unfolding timed_out_node_def by (intro proper_rules)

lemma proper_give_up [proper_rules]: "proper (give_up cf run task nid dl)"
  unfolding give_up_def terminal_before_start_def by (intro proper_rules)

lemma normalize_exn: "normalize_worker_result cf v \<noteq> Inl Out_of_fuel"
  by (auto simp: normalize_worker_result_def mk_worker_result_def Let_def split: worker_value.splits)

lemma check_node_exn: "check_node n \<noteq> Inl Out_of_fuel"
  by (auto simp: check_node_def split: option.splits)

lemma proper_conclude [proper_rules]: "proper (conclude cf run task nid t us v)"
  unfolding conclude_def Let_def
  by (intro proper_rules proper_lift normalize_exn check_node_exn)

lemma proper_acquire_round: "proper slot \<Longrightarrow> proper (acquire_round dl slot)"
  unfolding acquire_round_def by (intro proper_rules)

lemma proper_slots [proper_rules]: "proper (run_slot cf)" "proper (global_slot cf)"
  unfolding run_slot_def global_slot_def by (intro proper_rules)+

lemma leave_proper: "proper m \<Longrightarrow> wk_pc (fst (leave m w s)) \<noteq> At_raised Out_of_fuel"
  by (auto simp: leave_def proper_def split: prod.splits sum.splits) (metis fst_conv)

lemma proper_not: "proper m \<Longrightarrow> m s \<noteq> (Inl Out_of_fuel, s')"
  by (metis proper_def fst_conv)

lemma worker_step_proper:
  assumes "wk_pc w \<noteq> At_raised Out_of_fuel"
  shows "wk_pc (fst (worker_step cf run task nid dl w s)) \<noteq> At_raised Out_of_fuel"
proof (cases "wk_pc w")
  case At_start
  show ?thesis unfolding worker_step_def At_start
    by (auto simp: step_start_def Let_def split: option.splits dest: leave_proper [OF proper_ret, THEN notE])
next
  case (At_acquire_run t0)
  show ?thesis unfolding worker_step_def At_acquire_run
    using proper_not [OF proper_acquire_round [OF proper_slots(1)], of dl cf s] At_acquire_run
    by (auto simp: step_acquire_run_def leave_proper proper_rules split: prod.splits sum.splits option.splits bool.splits)
next
  case (At_acquire_global t0)
  show ?thesis unfolding worker_step_def At_acquire_global
    using proper_not [OF proper_acquire_round [OF proper_slots(2)], of dl cf s] At_acquire_global
    by (auto simp: step_acquire_global_def leave_proper proper_rules split: prod.splits sum.splits option.splits bool.splits)
next
  case (At_ready t0)
  have "proper (seq (timed_out_node nid task t0) (emit_node cf run None))" by (intro proper_rules)
  then show ?thesis unfolding worker_step_def At_ready
    using proper_not [OF proper_emit, of cf Node_updated run "Some (running_node nid task)" None s]
    by (auto simp: step_ready_def Let_def leave_proper proper_ret split: prod.splits sum.splits option.splits)
next
  case (At_running t0 wdl)
  show ?thesis unfolding worker_step_def At_running
    using At_running
    by (auto simp: step_running_def stop_requested_def Let_def leave_proper proper_conclude
        split: option.splits worker_answer.splits)
next
  case (At_raised e)
  with assms show ?thesis by (simp add: worker_step_def)
qed (simp add: worker_step_def)

section \<open>Fuel\<close>

lemma run_worker_fuel:
  assumes "finished (fst (steps cf run task nid dl k (w, s)))" "wk_pc w \<noteq> At_raised Out_of_fuel" "k < fuel"
  shows "fst (run_worker cf run task nid dl fuel w s) \<noteq> Inl Out_of_fuel
    \<and> run_worker cf run task nid dl fuel w s = run_worker cf run task nid dl (Suc k) w s"
  using assms
proof (induction k arbitrary: w s fuel)
  case 0
  then have f: "finished w" by (simp add: steps_def)
  obtain m where "fuel = Suc m" using 0(3) by (cases fuel) auto
  with f 0(2) show ?case
    by (cases "wk_pc w") (simp_all add: run_worker_finished [OF f] finished_def)
next
  case (Suc k)
  obtain m where m: "fuel = Suc m" "k < m" using Suc.prems(3) by (cases fuel) auto
  show ?case
  proof (cases "finished w")
    case True
    with m Suc.prems(2) show ?thesis
      by (cases "wk_pc w") (simp_all add: run_worker_finished [OF True] finished_def del: run_worker.simps)
  next
    case False
    let ?w = "fst (worker_step cf run task nid dl w s)" and ?s = "snd (worker_step cf run task nid dl w s)"
    have "finished (fst (steps cf run task nid dl k (?w, ?s)))"
      using Suc.prems(1) by (simp add: steps_def funpow_Suc_right del: funpow.simps)
    from Suc.IH [OF this worker_step_proper [OF Suc.prems(2)] m(2)] show ?thesis
      unfolding m(1) run_worker_Suc [OF False] .
  qed
qed

interpretation time: run_inv "\<lambda>s. diverges (clock s)" rid key for rid key
  by unfold_locales (simp_all add: diverges_tl remember_def mark_terminal_def split: option.splits)

text \<open>From some fuel on, a program ends with one and the same result.\<close>

definition stabilizes :: "(nat \<Rightarrow> ('s, 'a) prog) \<Rightarrow> 's \<Rightarrow> bool" where
  "stabilizes m s \<longleftrightarrow> (\<exists>k r. fst r \<noteq> Inl Out_of_fuel \<and> (\<forall>fuel \<ge> k. m fuel s = r))"

lemma stabilizes_const: "proper m \<Longrightarrow> stabilizes (\<lambda>_. m) s"
  unfolding stabilizes_def proper_def by blast

lemma stabilizes_seq:
  assumes "stabilizes m s" "\<And>a s1 fuel. m fuel s = (Inr a, s1) \<Longrightarrow> stabilizes (\<lambda>fuel. f fuel a) s1"
  shows "stabilizes (\<lambda>fuel. seq (m fuel) (f fuel)) s"
proof -
  obtain k x s1 where k: "x \<noteq> Inl Out_of_fuel" "\<And>fuel. k \<le> fuel \<Longrightarrow> m fuel s = (x, s1)"
    using assms(1) unfolding stabilizes_def by fastforce
  show ?thesis
  proof (cases x)
    case (Inl e)
    have "\<forall>fuel \<ge> k. seq (m fuel) (f fuel) s = (Inl e, s1)"
      using k(2) Inl by (simp add: seq_def)
    with k(1) Inl show ?thesis
      unfolding stabilizes_def by (intro exI [of _ k] exI [of _ "(Inl e, s1)"]) simp
  next
    case (Inr a)
    then have "stabilizes (\<lambda>fuel. f fuel a) s1" using assms(2) k(2) by blast
    then obtain k' r where r: "fst r \<noteq> Inl Out_of_fuel" "\<And>fuel. k' \<le> fuel \<Longrightarrow> f fuel a s1 = r"
      unfolding stabilizes_def by blast
    have "\<forall>fuel \<ge> max k k'. seq (m fuel) (f fuel) s = r"
      using k(2) r(2) Inr by (simp add: seq_def)
    with r(1) show ?thesis unfolding stabilizes_def by blast
  qed
qed

lemma stabilizes_seq_same:
  "proper m \<Longrightarrow> (\<And>a s1. m s = (Inr a, s1) \<Longrightarrow> stabilizes (\<lambda>fuel. f fuel a) s1) \<Longrightarrow>
   stabilizes (\<lambda>fuel. seq m (f fuel)) s"
  by (rule stabilizes_seq [OF stabilizes_const])

lemma stabilizes_then_ret: "stabilizes m s \<Longrightarrow> stabilizes (\<lambda>fuel. seq (m fuel) (\<lambda>a. ret (g a))) s"
  by (rule stabilizes_seq) (simp_all add: stabilizes_const proper_ret)

lemma run_worker_stabilizes:
  assumes "diverges (clock s)" "wk_pc w \<noteq> At_raised Out_of_fuel"
  shows "stabilizes (\<lambda>fuel. run_worker cf run task nid dl fuel w) s"
proof -
  obtain k where k: "finished (fst (steps cf run task nid dl k (w, s)))"
    using worker_ends [OF assms(1)] unfolding ends_def by blast
  let ?r = "run_worker cf run task nid dl (Suc k) w s"
  have "fst ?r \<noteq> Inl Out_of_fuel" using run_worker_fuel [OF k assms(2) lessI] by (rule conjunct1)
  moreover have "\<forall>fuel \<ge> Suc k. run_worker cf run task nid dl fuel w s = ?r"
    using run_worker_fuel [OF k assms(2), THEN conjunct2] Suc_le_lessD by blast
  ultimately show ?thesis unfolding stabilizes_def by blast
qed

lemma run_sequential_stabilizes:
  "diverges (clock s) \<Longrightarrow>
   stabilizes (\<lambda>fuel. run_sequential cf run dl (env\<lparr>env_fuel := fuel\<rparr>) i dep blocked skip ts) s"
proof (induction ts arbitrary: i dep blocked skip s)
  case Nil
  show ?case by (simp add: stabilizes_const proper_ret)
next
  case (Cons t ts)
  have emitted: "diverges (clock s2)" if "emit cf Node_updated run n us s1 = (Inr b, s2)" "diverges (clock s1)"
    for n us s1 s2 b
    using keepsD [OF time.keeps_emit [OF refl] that(2), of cf Node_updated run n us] that(1) by simp
  have worked: "diverges (clock s2)" if "run_worker cf run t nid dl fuel w s1 = (Inr n, s2)" "diverges (clock s1)"
    for nid fuel w s1 s2 n
    using keepsD [OF time.run_worker_keeps [OF refl] that(2), of cf run t nid dl fuel w] that(1) by simp
  consider "skip" | "\<not> skip" "blocked" | "\<not> skip" "\<not> blocked" by blast
  then show ?case
  proof cases
    case 1
    then show ?thesis by (simp add: Cons.IH Cons.prems)
  next
    case 2
    have "stabilizes (\<lambda>fuel. seq (emit cf Node_updated run
        (Some (cancelled_node (node_id i) t txt_predecessor_failed)) None) (\<lambda>_.
        seq (run_sequential cf run dl (env\<lparr>env_fuel := fuel\<rparr>) (i + 1) dep True False ts) (\<lambda>ns.
          ret (cancelled_node (node_id i) t txt_predecessor_failed # ns)))) s"
      by (rule stabilizes_seq_same [OF proper_emit], rule stabilizes_then_ret, rule Cons.IH,
          erule emitted, rule Cons.prems)
    with 2 show ?thesis by (simp add: Let_def)
  next
    case 3
    have "stabilizes (\<lambda>fuel. if \<not> succeeded n then
            seq (run_sequential cf run dl (env\<lparr>env_fuel := fuel\<rparr>) (i + 1) dep True False ts) (\<lambda>ns. ret (n # ns))
          else case ts of
            [] \<Rightarrow> ret [n]
          | next_task # _ \<Rightarrow> (case build_dependency cf n of
                Inr c \<Rightarrow>
                  seq (run_sequential cf run dl (env\<lparr>env_fuel := fuel\<rparr>) (i + 1) (Some c) False False ts)
                    (\<lambda>ns. ret (n # ns))
              | Inl err \<Rightarrow>
                  (let f = failed_node (node_id (i + 1)) next_task err context_exceeded_code in
                   seq (emit cf Node_updated run (Some f) None) (\<lambda>_.
                   seq (run_sequential cf run dl (env\<lparr>env_fuel := fuel\<rparr>) (i + 1) None True True ts)
                     (\<lambda>ns. ret (n # f # ns)))))) s1"
      if "diverges (clock s1)" for n s1
    proof -
      consider "\<not> succeeded n" | "succeeded n" "ts = []"
        | t' ts' c where "succeeded n" "ts = t' # ts'" "build_dependency cf n = Inr c"
        | t' ts' err where "succeeded n" "ts = t' # ts'" "build_dependency cf n = Inl err"
        by (metis list.exhaust sum.exhaust)
      then show ?thesis
      proof cases
        case 1
        have "stabilizes (\<lambda>fuel. seq (run_sequential cf run dl (env\<lparr>env_fuel := fuel\<rparr>) (i + 1) dep True False ts)
            (\<lambda>ns. ret (n # ns))) s1"
          by (rule stabilizes_then_ret, rule Cons.IH, rule that)
        with 1 show ?thesis by simp
      next
        case 2
        then show ?thesis by (simp add: stabilizes_const proper_ret)
      next
        case (3 t' ts' c)
        have "stabilizes (\<lambda>fuel. seq (run_sequential cf run dl (env\<lparr>env_fuel := fuel\<rparr>) (i + 1) (Some c) False False ts)
            (\<lambda>ns. ret (n # ns))) s1"
          by (rule stabilizes_then_ret, rule Cons.IH, rule that)
        with 3 show ?thesis by (simp del: run_sequential.simps)
      next
        case (4 t' ts' err)
        let ?f = "failed_node (node_id (i + 1)) t' err context_exceeded_code"
        have "stabilizes (\<lambda>fuel. seq (emit cf Node_updated run (Some ?f) None) (\<lambda>_.
            seq (run_sequential cf run dl (env\<lparr>env_fuel := fuel\<rparr>) (i + 1) None True True ts)
              (\<lambda>ns. ret (n # ?f # ns)))) s1"
          by (rule stabilizes_seq_same [OF proper_emit], rule stabilizes_then_ret, rule Cons.IH,
              erule emitted, rule that)
        with 4 show ?thesis by (simp add: Let_def del: run_sequential.simps)
      qed
    qed
    note body = this
    show ?thesis
      using 3
      unfolding run_sequential.simps
      by simp (rule stabilizes_seq [OF run_worker_stabilizes [OF Cons.prems]],
          simp add: new_worker_def, rule body [simplified], erule worked, rule Cons.prems)
  qed
qed

section \<open>What a pipeline passes on\<close>

definition dependency_bounded :: "coord_cfg \<Rightarrow> ustr option \<Rightarrow> bool" where
  "dependency_bounded cf dep \<longleftrightarrow> (case dep of None \<Rightarrow> True | Some c \<Rightarrow>
     length c \<le> dependency_max_chars \<and> count_content_tokens (enc cf) c \<le> dependency_max_tokens)"

definition same_bounded :: "coord_cfg \<Rightarrow> run_env \<Rightarrow> run_env \<Rightarrow> bool" where
  "same_bounded cf env env' \<longleftrightarrow> env_fuel env = env_fuel env' \<and> env_usage env = env_usage env'
     \<and> (\<forall>i dep. dependency_bounded cf dep \<longrightarrow> env_answers env i dep = env_answers env' i dep)"

lemma build_dependency_bounded: "build_dependency cf n = Inr c \<Longrightarrow> dependency_bounded cf (Some c)"
  by (auto simp: build_dependency_def dependency_bounded_def Let_def split: option.splits if_splits)

lemma run_sequential_bounded:
  assumes "same_bounded cf env env'" "dependency_bounded cf dep"
  shows "run_sequential cf run dl env i dep blocked skip ts = run_sequential cf run dl env' i dep blocked skip ts"
  using assms(2)
proof (induction ts arbitrary: i dep blocked skip)
  case (Cons t ts)
  have env: "env_answers env i dep = env_answers env' i dep" "env_fuel env = env_fuel env'" "env_usage env = env_usage env'"
    using assms(1) Cons.prems by (auto simp: same_bounded_def)
  have none: "dependency_bounded cf None" by (simp add: dependency_bounded_def)
  have passed: "(case build_dependency cf n of
        Inl err \<Rightarrow> seq (emit cf Node_updated run (Some (failed_node (node_id (i + 1)) t' err context_exceeded_code)) None)
          (\<lambda>_. seq (run_sequential cf run dl env (i + 1) None True True ts)
            (\<lambda>ns. ret (n # failed_node (node_id (i + 1)) t' err context_exceeded_code # ns)))
      | Inr c \<Rightarrow> seq (run_sequential cf run dl env (i + 1) (Some c) False False ts) (\<lambda>ns. ret (n # ns))) =
     (case build_dependency cf n of
        Inl err \<Rightarrow> seq (emit cf Node_updated run (Some (failed_node (node_id (i + 1)) t' err context_exceeded_code)) None)
          (\<lambda>_. seq (run_sequential cf run dl env' (i + 1) None True True ts)
            (\<lambda>ns. ret (n # failed_node (node_id (i + 1)) t' err context_exceeded_code # ns)))
      | Inr c \<Rightarrow> seq (run_sequential cf run dl env' (i + 1) (Some c) False False ts) (\<lambda>ns. ret (n # ns)))" for n t'
    by (cases "build_dependency cf n") (simp_all add: Cons.IH build_dependency_bounded none)
  show ?case
    unfolding run_sequential.simps env Cons.IH [OF Cons.prems] Let_def passed ..
qed simp

end
