(* ===== verification/DelegateTool.thy ===== *)
theory DelegateTool
  imports RunLiveness
begin

text \<open>
  \<^verbatim>\<open>multi_agent/delegate_tool.py\<close>: the one delegation of a parent turn. The state is the
  invocation object beside the coordinator's state; the results for the model are JSON texts of
  fixed fields.
\<close>

section \<open>State\<close>

record invocation =
  iv_parent :: parent_turn
  iv_max_workers :: int
  iv_accepted :: bool
  iv_run_id :: "ustr option"
  iv_schema_visible :: bool
  iv_finished :: bool

definition mk_invocation :: "parent_turn \<Rightarrow> int \<Rightarrow> exn + invocation" where
  "mk_invocation p n =
     (if n \<le> 0 then Inl (ValueError txt_max_workers_positive)
      else Inr \<lparr>iv_parent = p, iv_max_workers = n, iv_accepted = False, iv_run_id = None,
                iv_schema_visible = True, iv_finished = False\<rparr>)"

type_synonym delegation = "invocation \<times> coord"

text \<open>Run an operation of the coordinator, or update the invocation.\<close>

definition on_coord :: "(coord, 'a) prog \<Rightarrow> (delegation, 'a) prog" where
  "on_coord m c = (case m (snd c) of (r, s') \<Rightarrow> (r, (fst c, s')))"

definition on_invocation :: "(invocation \<Rightarrow> invocation) \<Rightarrow> (delegation, unit) prog" where
  "on_invocation f = modify (\<lambda>(iv, s). (f iv, s))"

section \<open>Contents\<close>

definition opt_str :: "ustr option \<Rightarrow> json" where
  "opt_str x = (case x of None \<Rightarrow> JNull | Some t \<Rightarrow> JStr t)"

definition json_result :: "coord_cfg \<Rightarrow> (ustr \<times> json) list \<Rightarrow> ustr" where
  "json_result cf kvs = dumps (repr_float cf) compact_style (JObj kvs)"

definition failure_fields :: "ustr \<Rightarrow> ustr \<Rightarrow> (ustr \<times> json) list" where
  "failure_fields code err =
     [(u ''status'', JStr (u ''failed'')), (u ''error_code'', JStr code), (u ''error'', JStr err)]"

definition completed_entries :: "ma_run \<Rightarrow> json list" where
  "completed_entries run =
     map (\<lambda>n. JObj [(u ''node_id'', JStr (n_id n)), (u ''role'', JStr (n_role n)),
                   (u ''content'', opt_str (Option.bind (n_result n) wr_content))])
       (filter (\<lambda>n. n_status n = Completed \<and> n_result n \<noteq> None) (r_nodes run))"

definition failure_entries :: "ma_run \<Rightarrow> json list" where
  "failure_entries run =
     map (\<lambda>n. JObj [(u ''node_id'', JStr (n_id n)), (u ''status'', JStr (status_str (n_status n))),
                   (u ''error_code'', opt_str (n_error_code n)), (u ''error'', opt_str (n_error n))])
       (filter (\<lambda>n. n_status n \<noteq> Completed) (r_nodes run))"

definition unsuccessful :: "status \<Rightarrow> bool" where
  "unsuccessful st \<longleftrightarrow> st \<in> {Failed, Timed_out, Cancelled, Interrupted}"

definition run_fields :: "ma_run \<Rightarrow> (ustr \<times> json) list" where
  "run_fields run =
     (let partial = (r_strategy run = Fan_out_fan_in \<and> (\<exists>n \<in> set (r_nodes run). n_status n = Completed)
            \<and> (\<exists>n \<in> set (r_nodes run). n_status n \<noteq> Completed));
          completed = (if unsuccessful (r_status run) then [] else completed_entries run) in
      [(u ''status'', JStr (status_str (r_status run))), (u ''run_id'', JStr (r_id run)),
       (u ''partial'', JBool partial), (u ''error_code'', opt_str (r_error_code run)),
       (u ''error'', opt_str (r_error run)), (u ''results'', JArr completed),
       (u ''failures'', JArr (failure_entries run))])"

definition run_content :: "coord_cfg \<Rightarrow> ma_run \<Rightarrow> ustr" where
  "run_content cf run = json_result cf (run_fields run)"

definition terminal_content :: "ma_run \<Rightarrow> ustr" where
  "terminal_content run =
     (if r_status run = Timed_out then txt_collab_timed_out
      else if r_status run = Cancelled then txt_collab_stopped
      else if r_status run = Interrupted then txt_collab_interrupted
      else txt_collab_failed @ (if truthy (r_error run) then the (r_error run) else txt_worker_incomplete))"

section \<open>Operations\<close>

text \<open>\<open>except Exception\<close> catches every exception but the cancellation of the task.\<close>

definition is_exception :: "exn \<Rightarrow> bool" where
  "is_exception e \<longleftrightarrow> e \<noteq> CancelledError \<and> e \<noteq> Out_of_fuel"

definition invoke :: "coord_cfg \<Rightarrow> json \<Rightarrow> run_env \<Rightarrow> (delegation, ustr) prog" where
  "invoke cf args env =
     seq (gets fst) (\<lambda>iv.
       if iv_accepted iv then
         ret (json_result cf (failure_fields (u ''duplicate_delegate'') txt_duplicate_delegate))
       else case validate_delegate_request args (iv_max_workers iv) of
         Inl (Delegate_schema_error msg) \<Rightarrow>
           ret (json_result cf (failure_fields (u ''invalid_delegate_request'') (txt_invalid_delegate @ msg)))
       | Inl (Delegate_value_error msg) \<Rightarrow> raise (ValueError msg)
       | Inr request \<Rightarrow>
           seq (on_invocation (\<lambda>iv. iv\<lparr>iv_accepted := True, iv_schema_visible := False\<rparr>)) (\<lambda>_.
             catch
               (seq (on_coord (delegate cf request (iv_parent iv) env)) (\<lambda>run.
                seq (on_invocation (\<lambda>iv. iv\<lparr>iv_run_id := Some (r_id run)\<rparr>)) (\<lambda>_.
                  ret (run_content cf run))))
               (\<lambda>e. if \<not> is_exception e then raise e
                 else seq (gets (\<lambda>(iv, s). run_for (p_session (iv_parent iv)) (p_request (iv_parent iv)) s)) (\<lambda>active.
                   seq (case active of None \<Rightarrow> ret ()
                        | Some run \<Rightarrow> on_invocation (\<lambda>iv. iv\<lparr>iv_run_id := Some (r_id run)\<rparr>)) (\<lambda>_.
                     ret (json_result cf (failure_fields (u ''multi_agent_runtime_error'')
                       txt_runtime_not_established)))))))"

definition check_parent_synthesis ::
  "coord_cfg \<Rightarrow> json list \<Rightarrow> json list \<Rightarrow> (delegation, ustr option) prog" where
  "check_parent_synthesis cf messages tools =
     seq (gets fst) (\<lambda>iv. case iv_run_id iv of
       None \<Rightarrow> ret None
     | Some rid \<Rightarrow>
         seq (gets (\<lambda>(iv, s). run_for (p_session (iv_parent iv)) (p_request (iv_parent iv)) s)) (\<lambda>found.
           case found of
             Some run \<Rightarrow> (if unsuccessful (r_status run) then ret (Some (terminal_content run))
                         else on_coord (check_parent_context cf rid messages tools))
           | None \<Rightarrow> on_coord (check_parent_context cf rid messages tools)))"

definition finish_parent_turn :: "coord_cfg \<Rightarrow> ustr \<Rightarrow> (delegation, unit) prog" where
  "finish_parent_turn cf outcome =
     seq (gets fst) (\<lambda>iv. case iv_run_id iv of
       None \<Rightarrow> ret ()
     | Some rid \<Rightarrow>
         (if iv_finished iv then ret ()
          else
            seq (on_invocation (\<lambda>iv. iv\<lparr>iv_finished := True\<rparr>)) (\<lambda>_.
              catch (seq (on_coord (finalize cf rid outcome)) (\<lambda>_. ret ()))
                (\<lambda>e. case e of ValueError _ \<Rightarrow> ret () | _ \<Rightarrow> raise e))))"

definition deadline_monotonic :: "delegation \<Rightarrow> real option" where
  "deadline_monotonic c = Option.bind (iv_run_id (fst c)) (\<lambda>rid. deadline_for rid (snd c))"

definition set_waiting_iv :: "coord_cfg \<Rightarrow> bool \<Rightarrow> (delegation, unit) prog" where
  "set_waiting_iv cf waiting =
     seq (gets fst) (\<lambda>iv. case iv_run_id iv of
       None \<Rightarrow> ret ()
     | Some rid \<Rightarrow> seq (on_coord (set_waiting cf rid waiting)) (\<lambda>_. ret ()))"

text \<open>
  \<open>_DelegateApprovalAdapter.request_tool_approval\<close>: the channel's own answer is a parameter, an
  exception or a decision. The reset in the \<open>finally\<close> block may itself raise, and then its
  exception replaces the result.
\<close>

definition approval_adapter :: "coord_cfg \<Rightarrow> exn + ustr option \<Rightarrow> (delegation, ustr option) prog" where
  "approval_adapter cf answer =
     seq (set_waiting_iv cf True) (\<lambda>_.
     seq (set_waiting_iv cf False) (\<lambda>_. lift answer))"

definition wrap_parent_approval ::
  "coord_cfg \<Rightarrow> exn + ustr option \<Rightarrow> (delegation, ustr option) prog" where
  "wrap_parent_approval cf answer =
     seq (gets fst) (\<lambda>iv. if iv_run_id iv = None then lift answer else approval_adapter cf answer)"

section \<open>Facts\<close>

lemma on_coord_value: "on_coord m (iv, s) = (fst (m s), (iv, snd (m s)))"
  by (simp add: on_coord_def case_prod_unfold)

lemma on_invocation_value: "on_invocation f (iv, s) = (Inr (), (f iv, s))"
  by (simp add: on_invocation_def modify_def)

lemma invoke_duplicate:
  "iv_accepted iv \<Longrightarrow> invoke cf args env (iv, s) =
     (Inr (json_result cf (failure_fields (u ''duplicate_delegate'') txt_duplicate_delegate)), (iv, s))"
  by (simp add: invoke_def ret_def)

text \<open>An accepted invocation is one whatever its end; a refused one changes nothing.\<close>

lemma invoke_accepts:
  "iv_accepted (fst (snd (invoke cf args env (iv, s)))) \<or>
   snd (invoke cf args env (iv, s)) = (iv, s)"
proof (cases "iv_accepted iv")
  case True
  then show ?thesis by (simp add: invoke_duplicate)
next
  case False
  show ?thesis
  proof (cases "validate_delegate_request args (iv_max_workers iv)")
    case (Inl e)
    with False show ?thesis
      by (cases e) (simp_all add: invoke_def ret_def raise_def)
  next
    case (Inr req)
    let ?iv = "iv\<lparr>iv_accepted := True, iv_schema_visible := False\<rparr>"
    obtain r s' where d: "delegate cf req (iv_parent iv) env s = (r, s')" by fastforce
    show ?thesis
    proof (cases r)
      case (Inr run)
      with False \<open>validate_delegate_request args _ = _\<close> d show ?thesis
        by (simp add: invoke_def seq_def [of "on_invocation _"] seq_def [of "on_coord _"] on_coord_def
            on_invocation_value catch_def ret_def)
    next
      case (Inl e)
      with False \<open>validate_delegate_request args _ = _\<close> d show ?thesis
        by (auto simp: invoke_def seq_def on_coord_def on_invocation_def modify_def gets_def
            catch_def ret_def raise_def split: option.splits)
    qed
  qed
qed

end
