(* ===== verification/MultiAgentProps.thy ===== *)
theory MultiAgentProps
  imports DelegateTool
begin

text \<open>
  The properties of the multi-agent part: scheduling, results, events, the life of a run and the
  boundary to the parent model, with a concrete coordinator for their witnesses.
\<close>

section \<open>A concrete coordinator\<close>

definition demo_cfg :: coord_cfg where
  "demo_cfg = \<lparr>has_sink = True, per_run_limit = 2, global_limit = 2, run_timeout = 100, worker_timeout = 50,
     worker_result_limit = 1000, parent_result_limit = 2000, max_context = 10000,
     enc = length, alnum = ascii_alnum, repr_float = (\<lambda>_. u ''0.0'')\<rparr>"

definition demo_coord :: coord where
  "demo_coord = \<lparr>runs_by_request = [], run_keys = [], run_deadlines = [], event_errors = [],
     terminal_nodes = {}, terminal_runs = {}, run_held = 0, global_held = 0, log = [],
     clock = (\<lambda>i. real i), wall = (\<lambda>_. 0), stops = (\<lambda>_. Some False), sink = (\<lambda>_. Sink_ok),
     uuids = (\<lambda>i. u ''run-'' @ dec i), others = (\<lambda>_. 0)\<rparr>"

definition demo_tasks :: "ma_task list" where
  "demo_tasks = [\<lparr>t_role = u ''reader'', t_brief = u ''read''\<rparr>, \<lparr>t_role = u ''writer'', t_brief = u ''write''\<rparr>]"

definition demo_request :: ma_request where
  "demo_request = \<lparr>q_strategy = Pipeline, q_tasks = demo_tasks\<rparr>"

definition demo_parent :: parent_turn where
  "demo_parent = \<lparr>p_session = u ''s'', p_request = u ''r'', p_context_tokens = 10\<rparr>"

definition demo_env :: run_env where
  "demo_env = \<lparr>env_answers = (\<lambda>i dep k. if k = 0 then Pending else
       Returned (Worker_result \<lparr>wr_status = Completed, wr_content = Some (u ''fine''), wr_error = None\<rparr>)),
     env_usage = (\<lambda>_. None), env_schedule = [0, 1, 0, 1, 0, 1, 0, 1, 0, 1, 0, 1, 0, 1], env_fuel = 20\<rparr>"

definition demo_run :: ma_run where
  "demo_run = queued_run (u ''run-0'') demo_parent demo_request 0"

lemma demo_init: "coord_init demo_coord"
  by (simp add: coord_init_def demo_coord_def inj_def)

lemma demo_ok: "coord_ok demo_coord"
  by (rule coord_init_ok) (rule demo_init)

lemma demo_errors: "errors_ok demo_coord"
  using demo_ok by (simp add: coord_ok_def)

lemma py_strip_fine: "py_strip (u ''fine'') \<noteq> []"
  by code_simp

lemma demo_env_ok: "env_ok demo_env"
  using py_strip_fine by (simp add: env_ok_def demo_env_def value_ok_def wf_result_def)

lemma demo_diverges: "diverges (clock demo_coord)"
  unfolding diverges_def
proof
  fix b :: real
  obtain k :: nat where "b \<le> real k" using real_arch_simple by blast
  then show "\<exists>k. \<forall>i \<ge> k. b \<le> clock demo_coord i"
    by (intro exI [of _ k]) (auto simp: demo_coord_def intro: order_trans)
qed

section \<open>Concurrency\<close>


lemma demo_fan_start: "fan_start demo_cfg demo_tasks (start_workers demo_env 2, demo_coord)"
  using demo_env_ok demo_errors
  by (auto simp: fan_start_def start_workers_def demo_tasks_def env_ok_def demo_coord_def)


text \<open>
  C2: No slot leaks: when all workers of a fan-out have ended, however each of them ended (a
  result, a stop, a deadline, an exception of the event sink), both semaphores are where they were.
\<close>

theorem fanout_slots_returned:
  assumes "fan_start cf tasks c" "(fan_step cf run tasks dl)\<^sup>*\<^sup>* c (ws, s)" "all_finished ws"
  shows "run_held s = 0 \<and> global_held s = 0"
  by (rule fan_inv_finished_slots [OF _ assms(3)], rule fan.inv_steps) (rule assms fan_inv_start)+

theorem fanout_slots_returned_witness:
  "run_held (snd (fan_run demo_cfg demo_run demo_tasks 100 (env_schedule demo_env)
     (start_workers demo_env 2, demo_coord))) = 0"
proof -
  let ?c = "fan_run demo_cfg demo_run demo_tasks 100 (env_schedule demo_env) (start_workers demo_env 2, demo_coord)"
  have "list_all finished (fst ?c)" by code_simp
  then have f: "all_finished (fst ?c)" by (simp add: all_finished_def list_all_iff)
  have "(fan_step demo_cfg demo_run demo_tasks 100)\<^sup>*\<^sup>* (start_workers demo_env 2, demo_coord) (fst ?c, snd ?c)"
    using fan_run_steps by (simp only: prod.collapse)
  from fanout_slots_returned [OF demo_fan_start this f] show ?thesis by simp
qed

text \<open>
  Stopping is prompt: a worker that waits for a slot or for its task ends in its next step
  once the stop flag is raised, holds no slot afterwards, and its node is cancelled.
\<close>

theorem stop_ends_worker:
  assumes "stopped s" "at_poll (wk_pc w)" "worker_step cf run task nid dl w s = (w', s')"
  shows "finished w' \<and> \<not> wk_has_run w' \<and> \<not> wk_has_global w'
    \<and> (\<forall>n. wk_pc w' = At_done n \<longrightarrow> n_status n = Cancelled)"
  using stop_step [OF assms(1,2), of cf run task nid dl] assms(3) by simp

theorem stop_ends_worker_witness:
  "finished (fst (worker_step demo_cfg demo_run (demo_tasks ! 0) (node_id 1) 100
     ((start_workers demo_env 2 ! 0)\<lparr>wk_pc := At_acquire_run 0\<rparr>) (demo_coord\<lparr>stops := (\<lambda>_. Some True)\<rparr>)))"
  using stop_ends_worker [of "demo_coord\<lparr>stops := (\<lambda>_. Some True)\<rparr>"
      "(start_workers demo_env 2 ! 0)\<lparr>wk_pc := At_acquire_run 0\<rparr>"
      demo_cfg demo_run "demo_tasks ! 0" "node_id 1" 100, OF _ _ prod.collapse [symmetric]]
  by (simp add: stopped_def at_poll_def)

text \<open>
  Deadlines end a worker: if the clock passes every bound, then from some amount of fuel on
  the worker ends with one and the same outcome, which is never running out of fuel, whatever the
  semaphores, the stop flag, the event sink and the worker task answer.
\<close>

theorem worker_terminates:
  assumes "diverges (clock s)"
  shows "\<exists>k r. fst r \<noteq> Inl Out_of_fuel \<and>
    (\<forall>fuel \<ge> k. run_worker cf run task nid dl fuel (new_worker answers us) s = r)"
  using run_worker_stabilizes [OF assms, of "new_worker answers us" cf run task nid dl]
  unfolding stabilizes_def by (simp add: new_worker_def)

theorem worker_terminates_witness:
  "\<exists>k r. fst r \<noteq> Inl Out_of_fuel \<and>
    (\<forall>fuel \<ge> k. run_worker demo_cfg demo_run (demo_tasks ! 0) (node_id 1) 100 fuel
       (new_worker (\<lambda>_. Pending) None) demo_coord = r)"
  by (rule worker_terminates [OF demo_diverges])

section \<open>Collections\<close>

text \<open>
  C3: A pipeline ends: with a clock that passes every bound, from some amount of fuel on its
  collection gives one and the same outcome, which is never running out of fuel.
\<close>

theorem pipeline_terminates:
  assumes "diverges (clock s)"
  shows "\<exists>k r. fst r \<noteq> Inl Out_of_fuel \<and>
    (\<forall>fuel \<ge> k. run_sequential cf run dl (env\<lparr>env_fuel := fuel\<rparr>) 1 None False False tasks s = r)"
  using run_sequential_stabilizes [OF assms, of cf run dl env 1 None False False tasks]
  unfolding stabilizes_def .

theorem pipeline_terminates_witness:
  "\<exists>k r. fst r \<noteq> Inl Out_of_fuel \<and>
    (\<forall>fuel \<ge> k. run_sequential demo_cfg demo_run 100 (demo_env\<lparr>env_fuel := fuel\<rparr>) 1 None False False
       demo_tasks demo_coord = r)"
  by (rule pipeline_terminates [OF demo_diverges])

text \<open>
  C4: The nodes a collection returns answer the tasks in order: the j-th node has the id
  \<open>worker-(j+1)\<close> and the j-th role, its status is terminal, and its result is a well-formed
  \<open>WorkerResult\<close> whose content keeps the token limit. In a pipeline no worker completes after one
  that did not.
\<close>

theorem collect_answers_tasks:
  assumes "env_ok env" "errors_ok s" "collect cf run req dl env s = (Inr nodes, s')"
  shows "length nodes = length (q_tasks req) \<and>
    (\<forall>j < length nodes. node_ok cf (node_id (j + 1)) (q_tasks req ! j) (nodes ! j)) \<and>
    (q_strategy req = Pipeline \<longrightarrow> (\<forall>a b. a < b \<longrightarrow> b < length nodes \<longrightarrow>
       n_status (nodes ! b) = Completed \<longrightarrow> n_status (nodes ! a) = Completed))"
  using collect_nodes [OF assms(3,1,2)] by (auto simp: nodes_for_iff dest: completed_firstD)

theorem collect_answers_tasks_witness:
  "case collect demo_cfg demo_run demo_request 100 demo_env demo_coord of
     (Inr nodes, s) \<Rightarrow> map n_status nodes = [Completed, Completed] \<and> length nodes = 2
   | (Inl e, s) \<Rightarrow> False"
proof -
  have c: "case fst (collect demo_cfg demo_run demo_request 100 demo_env demo_coord) of
      Inr nodes \<Rightarrow> map n_status nodes = [Completed, Completed] | Inl e \<Rightarrow> False" by code_simp
  then obtain nodes s' where r: "collect demo_cfg demo_run demo_request 100 demo_env demo_coord = (Inr nodes, s')"
    by (cases "collect demo_cfg demo_run demo_request 100 demo_env demo_coord") (auto split: sum.splits)
  from collect_answers_tasks [OF demo_env_ok demo_errors r] c r show ?thesis
    by (simp add: demo_request_def demo_tasks_def)
qed

text \<open>
  C5: What a pipeline passes on is bounded: two worlds whose workers answer alike whenever the
  dependency has at most 12000 characters and 6000 tokens cannot be told apart, so no longer text
  ever reaches a worker.
\<close>

theorem pipeline_dependency_bounded:
  assumes "\<And>i dep. (\<And>c. dep = Some c \<Longrightarrow> length c \<le> 12000 \<and> count_content_tokens (enc cf) c \<le> 6000) \<Longrightarrow>
      env_answers env i dep = env_answers env' i dep"
    and "env_usage env = env_usage env'" "env_fuel env = env_fuel env'"
  shows "run_sequential cf run dl env 1 None False False tasks s
    = run_sequential cf run dl env' 1 None False False tasks s"
proof -
  have "env_answers env i dep = env_answers env' i dep" if "dependency_bounded cf dep" for i dep
    using that by (intro assms(1))
      (simp add: dependency_bounded_def dependency_max_chars_def dependency_max_tokens_def)
  then have "same_bounded cf env env'" using assms(2,3) by (simp add: same_bounded_def)
  then show ?thesis by (simp add: run_sequential_bounded [of cf env env'] dependency_bounded_def)
qed

theorem pipeline_dependency_bounded_witness:
  "run_sequential demo_cfg demo_run 100 demo_env 1 None False False demo_tasks demo_coord
   = run_sequential demo_cfg demo_run 100 (demo_env\<lparr>env_answers := (\<lambda>i dep k.
       if (case dep of None \<Rightarrow> False | Some c \<Rightarrow> 12000 < length c) then Raised_exception
       else env_answers demo_env i dep k)\<rparr>) 1 None False False demo_tasks demo_coord"
  by (rule pipeline_dependency_bounded) (auto split: option.splits)

section \<open>The life of a run\<close>

text \<open>What \<open>finalize\<close> does to a registered run.\<close>

lemma conclude_run_ends:
  assumes "conclude_run cf key run st err (modify (release_run_runtime_state rid)) s = (Inr r, s')"
    "r_id run = rid" "terminal st"
  shows "r_id r = rid \<and> terminal (r_status r) \<and>
    ((\<exists>s0. s' = release_run_runtime_state rid s0) \<or>
     stored key r s' \<and> r_error_code r = Some (u ''event_persistence_failed''))"
proof -
  from assms(1) obtain f s1 where f: "finish run st err s = (Inr f, s1)"
    and rest: "seq (modify (remember key f)) (\<lambda>_.
      seq (emit cf (run_event_by_status (r_status f)) f None None) (\<lambda>ok.
        if \<not> ok then finish_event_failure cf key f
        else seq (modify (release_run_runtime_state rid)) (\<lambda>_. ret f))) s1 = (Inr r, s')"
    unfolding conclude_run_def by (auto elim: seq_cases [of "finish _ _ _"])
  from rest have "seq (emit cf (run_event_by_status (r_status f)) f None None) (\<lambda>ok.
      if \<not> ok then finish_event_failure cf key f
      else seq (modify (release_run_runtime_state rid)) (\<lambda>_. ret f)) (remember key f s1) = (Inr r, s')"
    by simp
  then obtain b s2 where "(if \<not> b then finish_event_failure cf key f
      else seq (modify (release_run_runtime_state rid)) (\<lambda>_. ret f)) s2 = (Inr r, s')"
    by (rule seq_cases) auto
  then show ?thesis
    using finish_value [OF f] assms(2,3) finish_event_failure_returns [of cf key f s2 r s']
    by (cases b) (auto simp: ret_def)
qed

lemma finalize_outcome_terminal: "finalize_outcome oc = Some (st, err) \<Longrightarrow> terminal st"
  by (auto simp: finalize_outcome_def split: if_splits)

lemma finalize_returns:
  assumes "coord_ok s" "finalize cf rid oc s = (Inr r, s')"
  shows "r_id r = rid \<and> terminal (r_status r) \<and>
    ((\<exists>s0. s' = release_run_runtime_state rid s0) \<or>
     (\<exists>key. stored key r s') \<and> r_error_code r = Some (u ''event_persistence_failed''))"
proof (cases "dict_get (run_keys s) rid")
  case (Some key)
  obtain run where run: "dict_get (runs_by_request s) key = Some run" "r_id run = rid"
    by (rule lookup_run [OF assms(1) Some])
  define Q where "Q r s' \<longleftrightarrow> r_id r = rid \<and> terminal (r_status r) \<and>
    ((\<exists>s0. s' = release_run_runtime_state rid s0) \<or>
     (\<exists>key. stored key r s') \<and> r_error_code r = Some (u ''event_persistence_failed''))" for r s'
  have c: "gives (\<lambda>_. True) (conclude_run cf key run st err (modify (release_run_runtime_state rid))) Q"
    if "finalize_outcome oc' = Some (st, err)" for st err oc'
    by (rule givesI, unfold Q_def, drule conclude_run_ends [OF _ run(2) finalize_outcome_terminal [OF that]]) blast
  have o: "gives (\<lambda>_. True) (case finalize_outcome oc' of None \<Rightarrow> raise (ValueError txt_bad_outcome)
      | Some (st, err) \<Rightarrow> conclude_run cf key run st err (modify (release_run_runtime_state rid))) Q" for oc'
    by (cases "finalize_outcome oc'") (auto intro: gives_raise c)
  have t: "gives (\<lambda>_. True) (seq (modify (release_run_runtime_state rid)) (\<lambda>_. ret run)) Q"
    if "terminal (r_status run)"
    by (rule givesI) (auto simp: Q_def ret_def run that)
  have "gives (\<lambda>_. True)
      (if terminal (r_status run) then seq (modify (release_run_runtime_state rid)) (\<lambda>_. ret run)
       else
         seq (gets (\<lambda>s. dict_get (run_deadlines s) rid)) (\<lambda>dl.
         seq (if oc = u ''completed'' \<and> dl \<noteq> None
              then seq read_clock (\<lambda>now. ret (if now \<ge> the dl then u ''timed_out'' else oc))
              else ret oc) (\<lambda>outcome.
         case finalize_outcome outcome of
           None \<Rightarrow> raise (ValueError txt_bad_outcome)
         | Some (st, err) \<Rightarrow> conclude_run cf key run st err (modify (release_run_runtime_state rid))))) Q"
    by (rule gives_if, erule t) (intro gives_keeps o keepsI TrueI)
  from givesD [OF this TrueI, of s r s'] have "Q r s'"
    using assms(2) run Some
    by (simp add: finalize_def registered_run_def seq_def [of "registered_run _"])
  then show ?thesis by (simp add: Q_def)
next
  case None
  with assms(2) show ?thesis by (simp add: finalize_def raise_def)
qed

text \<open>Nothing of a released run is left.\<close>

lemma released_nothing:
  "dict_get (run_keys (release_run_runtime_state rid s)) rid = None"
  "dict_get (run_deadlines (release_run_runtime_state rid s)) rid = None"
  "event_error rid (release_run_runtime_state rid s) = None"
  "\<not> marked rid who (release_run_runtime_state rid s)"
  by (auto simp: release_run_runtime_state_def dict_simps event_error_def marked_def split: option.splits)

text \<open>
  C6: In every state that any sequence of the coordinator's operations reaches from a new
  coordinator, the event log holds at most one terminal event for every run and for every node of
  every run, however often \<open>finalize\<close> and the rest are called and whatever the sink refuses.
\<close>

theorem terminal_event_at_most_once:
  assumes "reach coord_init (coord_step cf) s"
  shows "length (filter (\<lambda>(ev, p). e_run_id p = rid \<and> e_node_id p = who \<and> terminal (e_status p)) (log s)) \<le> 1"
  using coordinator.inv_reach [OF assms] by (simp add: coord_ok_def once_def terminal_events_def)

definition demo_delegated :: coord where
  "demo_delegated = snd (delegate demo_cfg demo_request demo_parent demo_env demo_coord)"

definition demo_finalized :: coord where
  "demo_finalized = snd (finalize demo_cfg (u ''run-0'') (u ''completed'') demo_delegated)"

lemma demo_reach: "reach coord_init (coord_step demo_cfg) demo_delegated"
proof -
  have "reach coord_init (coord_step demo_cfg) demo_coord"
    by (rule reach_init [where init = coord_init, OF demo_init])
  then show ?thesis unfolding demo_delegated_def by (rule reach_step) (rule by_delegate)
qed

lemma demo_reach_final: "reach coord_init (coord_step demo_cfg) demo_finalized"
  unfolding demo_finalized_def by (rule reach_step [where step = "coord_step demo_cfg", OF demo_reach by_finalize])

theorem terminal_event_at_most_once_witness:
  "length (filter (\<lambda>(ev, p). e_run_id p = u ''run-0'' \<and> e_node_id p = None \<and> terminal (e_status p))
     (log demo_finalized)) = 1"
proof -
  have "length (filter (\<lambda>(ev, p). e_run_id p = u ''run-0'' \<and> e_node_id p = None \<and> terminal (e_status p))
     (log demo_finalized)) \<ge> 1" by code_simp
  then show ?thesis
    using terminal_event_at_most_once [OF demo_reach_final, of "u ''run-0''" None] by simp
qed

text \<open>
  C7: What \<open>delegate\<close> promises: the run it returns is the snapshot it remembers for the parent, and
  it is either terminal or still running. It is running only for a collection that answers every
  task in order, has a completed node (in a pipeline: only completed nodes), and whose results fit
  both token budgets together with the parent's context.
\<close>

theorem delegate_settles:
  assumes "coord_ok s" "env_ok env" "delegate cf req p env s = (Inr r, s')"
  shows "r_id r = uuids s 0 \<and> run_for (p_session p) (p_request p) s' = Some r \<and>
    (terminal (r_status r) \<or>
     r_status r = Running \<and> length (r_nodes r) = length (q_tasks req) \<and>
     (\<forall>j < length (r_nodes r). node_ok cf (node_id (j + 1)) (q_tasks req ! j) (r_nodes r ! j)) \<and>
     (\<exists>n \<in> set (r_nodes r). n_status n = Completed) \<and>
     (q_strategy req = Pipeline \<longrightarrow> (\<forall>n \<in> set (r_nodes r). n_status n = Completed)) \<and>
     int (result_tokens cf (r_nodes r)) \<le> parent_result_limit cf \<and>
     p_context_tokens p + int (result_tokens cf (r_nodes r)) \<le> max_context cf)"
proof -
  let ?run = "queued_run (uuids s 0) p req (wall s 0)"
  let ?s = "register (p_session p, p_request p) ?run (clock s 0 + run_timeout cf)
      (s\<lparr>wall := tape_tl (wall s), clock := tape_tl (clock s), uuids := tape_tl (uuids s)\<rparr>)"
  have c: "conduct cf (p_session p, p_request p) ?run req p (clock s 0 + run_timeout cf) env ?s = (Inr r, s')"
    using assms(3) by (simp add: delegate_unfold Let_def split: if_splits)
  have "errors_ok ?s"
    using assms(1) by (simp add: coord_ok_def errors_ok_def event_error_def register_def)
  from conduct_returns [OF c assms(2) this] show ?thesis
    by (auto simp: settled_def stored_def run_for_def ready_for_synthesis_def nodes_for_iff)
qed

theorem delegate_settles_witness:
  "case delegate demo_cfg demo_request demo_parent demo_env demo_coord of
     (Inr r, s) \<Rightarrow> r_status r = Running \<and> int (result_tokens demo_cfg (r_nodes r)) \<le> 2000
   | (Inl e, s) \<Rightarrow> False"
proof -
  have c: "case fst (delegate demo_cfg demo_request demo_parent demo_env demo_coord) of
      Inr r \<Rightarrow> r_status r = Running | Inl e \<Rightarrow> False" by code_simp
  then obtain r s' where r: "delegate demo_cfg demo_request demo_parent demo_env demo_coord = (Inr r, s')"
    by (cases "delegate demo_cfg demo_request demo_parent demo_env demo_coord") (auto split: sum.splits)
  from delegate_settles [OF demo_ok demo_env_ok r] c r show ?thesis by (simp add: demo_cfg_def)
qed

text \<open>One run for each parent request: after a delegation that returned a run, every further
  delegation of the same parent request is refused and changes nothing, until the run is released.
\<close>

theorem delegate_once_per_request:
  assumes "coord_ok s" "env_ok env" "delegate cf req p env s = (Inr r, s')"
    "p_session p' = p_session p" "p_request p' = p_request p"
  shows "delegate cf req' p' env' s' = (Inl (RuntimeError txt_one_run_per_request), s')"
proof -
  let ?run = "queued_run (uuids s 0) p req (wall s 0)"
  let ?s = "register (p_session p, p_request p) ?run (clock s 0 + run_timeout cf)
      (s\<lparr>wall := tape_tl (wall s), clock := tape_tl (clock s), uuids := tape_tl (uuids s)\<rparr>)"
  have c: "conduct cf (p_session p, p_request p) ?run req p (clock s 0 + run_timeout cf) env ?s = (Inr r, s')"
    using assms(3) by (simp add: delegate_unfold Let_def split: if_splits)
  have "errors_ok ?s"
    using assms(1) by (simp add: coord_ok_def errors_ok_def event_error_def register_def)
  from conduct_returns [OF c assms(2) this] assms(4,5) show ?thesis
    by (simp add: settled_def stored_def delegate_unfold)
qed

theorem delegate_once_per_request_witness:
  "fst (delegate demo_cfg demo_request demo_parent demo_env demo_delegated)
     = Inl (RuntimeError txt_one_run_per_request)"
proof -
  have "case fst (delegate demo_cfg demo_request demo_parent demo_env demo_coord) of
      Inr r \<Rightarrow> True | Inl e \<Rightarrow> False" by code_simp
  then obtain r where "delegate demo_cfg demo_request demo_parent demo_env demo_coord = (Inr r, demo_delegated)"
    unfolding demo_delegated_def
    by (cases "delegate demo_cfg demo_request demo_parent demo_env demo_coord") (auto split: sum.splits)
  from delegate_once_per_request [OF demo_ok demo_env_ok this refl refl] show ?thesis by simp
qed

text \<open>
  C8: \<open>finalize\<close> ends a run for good: it returns a terminal run with the given id and then either
  nothing of the run is left (no registry entry, deadline, event error or terminal mark), or the
  final event could not be persisted; then the failed run stays remembered.
\<close>

theorem finalize_releases:
  assumes "coord_ok s" "finalize cf rid outcome s = (Inr r, s')"
  shows "r_id r = rid \<and> terminal (r_status r) \<and>
    (dict_get (run_keys s') rid = None \<and> deadline_for rid s' = None \<and> event_error rid s' = None
       \<and> rid \<notin> terminal_runs s' \<and> (\<forall>nid. (rid, nid) \<notin> terminal_nodes s')
     \<or> r_error_code r = Some (u ''event_persistence_failed'')
       \<and> (\<exists>session request. run_for session request s' = Some r))"
proof -
  have "rid \<notin> terminal_runs (release_run_runtime_state rid x)"
    "(rid, nid) \<notin> terminal_nodes (release_run_runtime_state rid x)" for x nid
    by (simp_all add: release_run_runtime_state_def)
  then show ?thesis
    using finalize_returns [OF assms] released_nothing(1-3)
    by (fastforce simp: deadline_for_def run_for_def stored_def)
qed

theorem finalize_releases_witness:
  "dict_get (run_keys demo_finalized) (u ''run-0'') = None"
proof -
  have c: "case fst (finalize demo_cfg (u ''run-0'') (u ''completed'') demo_delegated) of
      Inr r \<Rightarrow> r_error_code r = None | Inl e \<Rightarrow> False" by code_simp
  then obtain r where r: "finalize demo_cfg (u ''run-0'') (u ''completed'') demo_delegated = (Inr r, demo_finalized)"
    unfolding demo_finalized_def
    by (cases "finalize demo_cfg (u ''run-0'') (u ''completed'') demo_delegated") (auto split: sum.splits)
  from finalize_releases [OF coordinator.inv_reach [OF demo_reach] r] c r show ?thesis by simp
qed

text \<open>One call of the sink inside \<open>emit\<close>.\<close>

lemma finish_then_eq: "seq (finish run st err) f s =
    f (run\<lparr>r_status := st, r_finished_at := Some (wall s 0), r_error := err\<rparr>) (s\<lparr>wall := tape_tl (wall s)\<rparr>)"
  by (simp add: finish_def seq_def read_wall_def ret_def)

interpretation books: coord_inv "\<lambda>s. run_keys s = a \<and> run_deadlines s = b" rid for a b rid
  by unfold_locales simp_all

lemma emit_books: "emit cf ev run node us s = (r, s') \<Longrightarrow> run_keys s' = run_keys s \<and> run_deadlines s' = run_deadlines s"
  using keepsD [OF books.keeps_emit [OF refl, where a = "run_keys s" and b = "run_deadlines s"], of s cf ev run node us]
  by simp

lemma emit_returns: "sink s 0 \<noteq> Sink_cancelled \<Longrightarrow> \<exists>b s'. emit cf ev run node us s = (Inr b, s')"
  by (cases "sink s 0"; cases node; cases "r_started_at run"; cases "r_finished_at run")
    (auto simp: emit_def seq_def gets_def run_duration_ms_def ret_def read_wall_def send_event_def Let_def)

lemma emit_refused:
  "has_sink cf \<Longrightarrow> \<not> already_terminal run node s \<Longrightarrow> sink s 0 = Sink_raises \<Longrightarrow>
   \<exists>s'. emit cf ev run node us s = (Inr False, s') \<and> sink s' 0 = sink s 1"
  by (simp add: emit_def seq_def gets_def run_duration_ms_def ret_def read_wall_def
      send_event_def Let_def split: option.splits)

lemma finish_event_failure_books:
  assumes "sink s 0 \<noteq> Sink_cancelled"
  shows "\<exists>r s'. finish_event_failure cf key run s = (Inr r, s') \<and> run_keys s' = run_keys s
    \<and> run_deadlines s' = run_deadlines s"
proof -
  let ?f = "run\<lparr>r_error_code := Some (u ''event_persistence_failed''), r_status := Failed,
     r_finished_at := Some (wall s 0),
     r_error := Some (if truthy (event_error (r_id run) s) then the (event_error (r_id run) s) else txt_event_failed)\<rparr>"
  let ?s = "remember key ?f (s\<lparr>wall := tape_tl (wall s)\<rparr>)"
  obtain b s' where e: "emit cf Run_failed ?f None None ?s = (Inr b, s')"
    using emit_returns [of ?s cf Run_failed ?f None None] assms by (force simp: remember_def)
  then have "finish_event_failure cf key run s = (Inr ?f, s')"
    by (simp add: finish_event_failure_def finish_then_eq seq_def [of "emit _ _ _ _ _"] e ret_def)
  with emit_books [OF e] show ?thesis by (simp add: remember_def)
qed

text \<open>\<open>finalize\<close> with a refused final event leaves the run registered: the run is remembered as
  failed, and none of its registry entries is removed (only a further \<open>finalize\<close> would remove them).
\<close>

theorem finalize_unpersisted_keeps_run:
  assumes "dict_get (run_keys s) rid = Some key" "dict_get (runs_by_request s) key = Some run"
    "r_id run = rid" "\<not> terminal (r_status run)" "has_sink cf" "rid \<notin> terminal_runs s"
    "sink s 0 = Sink_raises" "sink s 1 \<noteq> Sink_cancelled"
    "outcome \<in> {u ''failed'', u ''cancelled'', u ''timed_out''}"
  shows "\<exists>r s'. finalize cf rid outcome s = (Inr r, s') \<and> r_status r = Failed
    \<and> dict_get (run_keys s') rid = Some key \<and> deadline_for rid s' = deadline_for rid s"
proof -
  obtain st err where o: "finalize_outcome outcome = Some (st, err)" "outcome \<noteq> u ''completed''" "terminal st"
    using assms(9) by (auto simp: finalize_outcome_def)
  let ?f = "run\<lparr>r_status := st, r_finished_at := Some (wall s 0), r_error := err\<rparr>"
  let ?s1 = "remember key ?f (s\<lparr>wall := tape_tl (wall s)\<rparr>)"
  have "\<not> already_terminal ?f None ?s1" "sink ?s1 0 = Sink_raises"
    using assms(3,6,7) by (simp_all add: already_terminal_def remember_def)
  from emit_refused [OF assms(5) this] obtain s2
    where e: "emit cf (run_event_by_status st) ?f None None ?s1 = (Inr False, s2)" and k2: "sink s2 0 = sink s 1"
    by (auto simp: remember_def)
  have b2: "run_keys s2 = run_keys s \<and> run_deadlines s2 = run_deadlines s"
    using emit_books [OF e] by (simp add: remember_def)
  have "sink s2 0 \<noteq> Sink_cancelled" using k2 assms(8) by simp
  from finish_event_failure_books [OF this] obtain r s' where f: "finish_event_failure cf key ?f s2 = (Inr r, s')"
    and k: "run_keys s' = run_keys s2" "run_deadlines s' = run_deadlines s2" by blast
  have "finalize cf rid outcome s = (Inr r, s')"
    using assms(1-4) o e f
    by (simp add: finalize_def registered_run_def seq_def [of "registered_run _"] conclude_run_def finish_then_eq
        seq_def [of "emit _ _ _ _ _"])
  with finish_event_failure_returns [OF f] k b2 assms(1) show ?thesis by (auto simp: deadline_for_def)
qed

definition demo_refusing :: coord where
  "demo_refusing = demo_delegated\<lparr>sink := (\<lambda>_. Sink_raises)\<rparr>"

theorem finalize_unpersisted_keeps_run_witness:
  "\<exists>r s'. finalize demo_cfg (u ''run-0'') (u ''failed'') demo_refusing = (Inr r, s')
     \<and> dict_get (run_keys s') (u ''run-0'') = Some (u ''s'', u ''r'')"
proof -
  have k: "dict_get (run_keys demo_refusing) (u ''run-0'') = Some (u ''s'', u ''r'')" by code_simp
  obtain run where r: "dict_get (runs_by_request demo_refusing) (u ''s'', u ''r'') = Some run" "r_id run = u ''run-0''"
    using lookup_run [OF coordinator.inv_reach [OF demo_reach], of "u ''run-0''" "(u ''s'', u ''r'')"] k
    by (auto simp: demo_refusing_def)
  have c: "case dict_get (runs_by_request demo_refusing) (u ''s'', u ''r'') of
      None \<Rightarrow> False | Some run \<Rightarrow> r_status run = Running" by code_simp
  have t: "u ''run-0'' \<notin> terminal_runs demo_refusing" by code_simp
  from finalize_unpersisted_keeps_run [OF k r, of demo_cfg "u ''failed''"] c r t show ?thesis
    by (auto simp: demo_cfg_def demo_refusing_def)
qed

text \<open>The context check before the synthesis: it reports a failure only when the serialised
  messages and tools exceed the context limit, and then the run is failed for good: \<open>finalize\<close>
  returns that failed run for every outcome of the parent and releases it.
\<close>

theorem context_failure_is_final:
  assumes "coord_ok s" "check_parent_context cf rid messages tools s = (Inr (Some t), s')"
  shows "int (actual_parent_context_tokens cf messages tools) > max_context cf \<and>
    (\<exists>r. r_id r = rid \<and> r_status r = Failed \<and> r_error_code r = Some context_exceeded_code \<and>
      (\<forall>outcome. finalize cf rid outcome s' = (Inr r, release_run_runtime_state rid s')))"
proof -
  obtain key where k: "dict_get (run_keys s) rid = Some key"
    using assms(2) by (cases "dict_get (run_keys s) rid") (auto simp: check_parent_context_def ret_def)
  obtain run where run: "dict_get (runs_by_request s) key = Some run" "r_id run = rid"
    by (rule lookup_run [OF assms(1) k])
  let ?f = "run\<lparr>r_error_code := Some context_exceeded_code, r_status := Failed,
      r_finished_at := Some (wall s 0), r_error := Some txt_result_exceeded\<rparr>"
  have big: "int (actual_parent_context_tokens cf messages tools) > max_context cf"
    using assms(2) run k
    by (auto simp: check_parent_context_def registered_run_def seq_def [of "registered_run _"] ret_def
        split: if_splits)
  obtain b where e: "emit cf Run_failed ?f None None (remember key ?f (s\<lparr>wall := tape_tl (wall s)\<rparr>)) = (Inr b, s')"
    using assms(2) run k
    by (auto simp: check_parent_context_def registered_run_def seq_def [of "registered_run _"] ret_def
        finish_then_eq split: if_splits elim!: seq_cases [of "emit _ _ _ _ _"])
  have "stored key ?f s'" by (rule emit_stored [OF e stored_remember])
  moreover have "registered rid (Some key) s'"
    using keepsD [OF reg.keeps_emit [OF refl], of rid "Some key"
        "remember key ?f (s\<lparr>wall := tape_tl (wall s)\<rparr>)" cf Run_failed ?f None None] e k
    by (simp add: registered_def remember_def)
  ultimately have "finalize cf rid oc s' = (Inr ?f, release_run_runtime_state rid s')" for oc
    by (simp add: finalize_def registered_def stored_def registered_run_def seq_def [of "registered_run _"] ret_def)
  with big run show ?thesis by (intro conjI exI [of _ ?f]) simp_all
qed

theorem context_failure_is_final_witness:
  "let s' = snd (check_parent_context (demo_cfg\<lparr>max_context := 20\<rparr>) (u ''run-0'') [] [] demo_delegated) in
   snd (finalize (demo_cfg\<lparr>max_context := 20\<rparr>) (u ''run-0'') (u ''completed'') s')
     = release_run_runtime_state (u ''run-0'') s'"
proof -
  let ?c = "check_parent_context (demo_cfg\<lparr>max_context := 20\<rparr>) (u ''run-0'') [] [] demo_delegated"
  have "case fst ?c of Inr (Some t) \<Rightarrow> True | _ \<Rightarrow> False" by code_simp
  then obtain t where "?c = (Inr (Some t), snd ?c)" by (cases ?c) (auto split: sum.splits option.splits)
  from context_failure_is_final [OF coordinator.inv_reach [OF demo_reach] this] show ?thesis
    by (metis snd_conv)
qed

end
