(* ===== verification/BoundaryProps.thy ===== *)
theory BoundaryProps
  imports MultiAgentProps
begin

text \<open>
  The properties of the boundary between the parent model and the coordinator: the validated
  request, the single delegation of a turn, the projection of waiting, and what texts may carry.
\<close>

section \<open>The request\<close>

lemma non_empty_string_Inr:
  "non_empty_string v field n = Inr s \<longleftrightarrow> v = JStr s \<and> py_strip s \<noteq> [] \<and> length s \<le> n"
  by (auto simp: non_empty_string_def split: json.splits)

definition task_ok :: "ma_task \<Rightarrow> bool" where
  "task_ok t \<longleftrightarrow> py_strip (t_role t) \<noteq> [] \<and> length (t_role t) \<le> 128
     \<and> py_strip (t_brief t) \<noteq> [] \<and> length (t_brief t) \<le> 12000"

lemma parse_task_ok: "parse_task j = Inr t \<Longrightarrow> task_ok t"
  by (auto simp: parse_task_def Let_def bindE_eq_Inr non_empty_string_Inr task_ok_def role_max_length_def
      brief_max_length_def split: json.splits if_splits option.splits)

text \<open>
  C9: Whatever JSON value the parent model submits, an accepted request has at least one task and
  at most \<open>max_workers_per_run\<close> of them, at least two in a pipeline, and every task has a role of at
  most 128 and a brief of at most 12000 characters, neither of them blank.
\<close>

theorem validated_request_ok:
  assumes "validate_delegate_request payload n = Inr req"
  shows "1 \<le> length (q_tasks req) \<and> int (length (q_tasks req)) \<le> n
    \<and> (q_strategy req = Pipeline \<longrightarrow> 2 \<le> length (q_tasks req))
    \<and> (\<forall>t \<in> set (q_tasks req). task_ok t)"
proof -
  obtain kvs where kvs: "payload = JObj kvs"
    using assms by (cases payload) (auto simp: validate_delegate_request_def split: if_splits)
  from assms obtain strat tv where tv: "(case tv of
      JArr items \<Rightarrow>
        (if items = [] then Inl (Delegate_schema_error txt_tasks_empty)
         else if int (length items) > n then Inl (Delegate_schema_error txt_tasks_too_many)
         else bindE (mapE parse_task items) (\<lambda>tasks.
           if strat = Pipeline \<and> length tasks < 2 then Inl (Delegate_schema_error txt_pipeline_short)
           else Inr \<lparr>q_strategy = strat, q_tasks = tasks\<rparr>))
    | _ \<Rightarrow> Inl (Delegate_schema_error txt_tasks_not_array)) = Inr req"
    unfolding kvs validate_delegate_request_def Let_def json.case
    by (auto simp: bindE_eq_Inr split: if_splits option.splits)
  then obtain items tasks where t: "mapE parse_task items = Inr tasks"
    and req: "req = \<lparr>q_strategy = strat, q_tasks = tasks\<rparr>" "items \<noteq> []" "int (length items) \<le> n"
      "strat = Pipeline \<longrightarrow> \<not> length tasks < 2"
    by (cases tv) (auto simp: bindE_eq_Inr split: if_splits)
  from t have l: "list_all2 (\<lambda>x y. parse_task x = Inr y) items tasks" by (simp add: mapE_Inr)
  then have len: "length items = length tasks" by (rule list_all2_lengthD)
  have "task_ok y" if "y \<in> set tasks" for y
    using l that by (auto simp: list_all2_conv_all_nth in_set_conv_nth dest: parse_task_ok)
  with req len show ?thesis by (cases tasks; cases "tl tasks") auto
qed

definition demo_payload :: json where
  "demo_payload = JObj [(u ''strategy'', JStr (u ''pipeline'')),
     (u ''tasks'', JArr [JObj [(u ''role'', JStr (u ''reader'')), (u ''brief'', JStr (u ''read''))],
                       JObj [(u ''role'', JStr (u ''writer'')), (u ''brief'', JStr (u ''write''))]])]"

theorem validated_request_ok_witness:
  "validate_delegate_request demo_payload 4 = Inr demo_request \<and> 2 \<le> length (q_tasks demo_request)"
proof -
  have r: "validate_delegate_request demo_payload 4 = Inr demo_request" by code_simp
  from validated_request_ok [OF r] r show ?thesis by (simp add: demo_request_def)
qed

definition task_json :: "ma_task \<Rightarrow> json" where
  "task_json t = JObj [(u ''role'', JStr (t_role t)), (u ''brief'', JStr (t_brief t))]"

definition request_json :: "ma_request \<Rightarrow> json" where
  "request_json req = JObj [(u ''strategy'', JStr (strategy_str (q_strategy req))),
     (u ''tasks'', JArr (map task_json (q_tasks req)))]"

lemma parse_task_json: "task_ok t \<Longrightarrow> parse_task (task_json t) = Inr t"
  by (cases t) (simp add: parse_task_def task_json_def unknown_fields_def dict_get_def bindE_eq_Inr
      non_empty_string_def task_ok_def role_max_length_def brief_max_length_def)

lemma mapE_parse_tasks: "list_all task_ok ts \<Longrightarrow> mapE parse_task (map task_json ts) = Inr ts"
  by (induction ts) (simp_all add: parse_task_json)

text \<open>
  Every request within those bounds can be submitted: written as the JSON object of the
  schema it is accepted, and the accepted request is the one written.
\<close>

theorem request_roundtrip:
  assumes "\<forall>t \<in> set (q_tasks req). task_ok t" "q_tasks req \<noteq> []" "int (length (q_tasks req)) \<le> n"
    "q_strategy req = Pipeline \<longrightarrow> 2 \<le> length (q_tasks req)"
  shows "validate_delegate_request (request_json req) n = Inr req"
proof -
  have "0 < length (q_tasks req)" using assms(2) by simp
  then have "0 < n" using assms(3) by linarith
  moreover have "mapE parse_task (map task_json (q_tasks req)) = Inr (q_tasks req)"
    using assms(1) by (intro mapE_parse_tasks) (simp add: list_all_iff)
  moreover have "parse_strategy (JStr (strategy_str (q_strategy req))) = Inr (q_strategy req)"
    by (cases "q_strategy req") (simp_all add: parse_strategy_def strategy_str_def)
  ultimately show ?thesis
    using assms(2-4)
    by (auto simp: validate_delegate_request_def request_json_def unknown_fields_def dict_get_def Let_def)
qed

theorem request_roundtrip_witness:
  "validate_delegate_request (request_json demo_request) 2 = Inr demo_request"
proof (rule request_roundtrip)
  have "py_strip (u ''reader'') \<noteq> [] \<and> py_strip (u ''read'') \<noteq> [] \<and> py_strip (u ''writer'') \<noteq> []
    \<and> py_strip (u ''write'') \<noteq> []" by code_simp
  then show "\<forall>t \<in> set (q_tasks demo_request). task_ok t"
    by (simp add: demo_request_def demo_tasks_def task_ok_def)
qed (simp_all add: demo_request_def demo_tasks_def)

section \<open>The delegation of a turn\<close>


definition demo_invocation :: invocation where
  "demo_invocation = \<lparr>iv_parent = demo_parent, iv_max_workers = 4, iv_accepted = False, iv_run_id = None,
     iv_schema_visible = True, iv_finished = False\<rparr>"


text \<open>The parent's outcome reaches the coordinator once: after \<open>finish_parent_turn\<close> has run to an
  end, in whatever way, a further call does nothing.
\<close>

theorem finish_parent_turn_once:
  assumes "iv_run_id iv \<noteq> None" "finish_parent_turn cf outcome (iv, s) = (r, (iv', s'))"
  shows "finish_parent_turn cf outcome' (iv', s') = (Inr (), (iv', s')) \<and> iv_run_id iv' = iv_run_id iv"
proof -
  obtain rid where rid: "iv_run_id iv = Some rid" using assms(1) by blast
  show ?thesis
  proof (cases "iv_finished iv")
    case True
    with assms(2) rid show ?thesis by (auto simp: finish_parent_turn_def ret_def)
  next
    case False
    obtain x t where f: "finalize cf rid outcome s = (x, t)" by fastforce
    have "iv' = iv\<lparr>iv_finished := True\<rparr>"
      using assms(2) rid False f
      by (cases x) (auto simp: finish_parent_turn_def seq_def [of "on_invocation _"] on_invocation_value
          catch_def seq_def [of "on_coord _"] on_coord_def ret_def raise_def split: exn.splits)
    with rid show ?thesis by (simp add: finish_parent_turn_def ret_def)
  qed
qed

theorem finish_parent_turn_once_witness:
  "let c = snd (finish_parent_turn demo_cfg (u ''completed'')
       (demo_invocation\<lparr>iv_run_id := Some (u ''run-0'')\<rparr>, demo_delegated)) in
   snd (finish_parent_turn demo_cfg (u ''failed'') c) = c"
proof -
  obtain r iv s where f: "finish_parent_turn demo_cfg (u ''completed'')
      (demo_invocation\<lparr>iv_run_id := Some (u ''run-0'')\<rparr>, demo_delegated) = (r, (iv, s))"
    by (metis prod.collapse)
  from finish_parent_turn_once [OF _ f, of "u ''failed''"] f show ?thesis
    by (simp add: demo_invocation_def)
qed

section \<open>Waiting for an approval\<close>

interpretation calm: run_inv "\<lambda>s. \<forall>i. sink s i \<noteq> Sink_cancelled" rid key for rid key
  by unfold_locales (auto simp: mark_terminal_def remember_def split: option.splits)

lemma set_waiting_returns:
  assumes "dict_get (run_keys s) rid = Some key" "stored key run s" "r_id run = rid"
    "\<not> terminal (r_status run)" "\<forall>i. sink s i \<noteq> Sink_cancelled" "st = (if b then Waiting else Running)"
  shows "\<exists>s'. set_waiting cf rid b s = (Inr (Some (run\<lparr>r_status := st\<rparr>)), s') \<and> stored key (run\<lparr>r_status := st\<rparr>) s'
    \<and> dict_get (run_keys s') rid = Some key \<and> (\<forall>i. sink s' i \<noteq> Sink_cancelled)"
proof (cases "r_status run = st")
  case True
  then have "run\<lparr>r_status := st\<rparr> = run" by simp
  with True assms show ?thesis
    by (auto simp: set_waiting_def registered_run_def stored_def seq_def [of "registered_run _"] ret_def)
next
  case False
  let ?r = "run\<lparr>r_status := st\<rparr>"
  let ?s = "remember key ?r s"
  have calm: "\<forall>i. sink ?s i \<noteq> Sink_cancelled" using assms(5) by (simp add: remember_def)
  obtain x s' where e: "emit cf (run_event_by_status st) ?r None None ?s = (Inr x, s')"
    using emit_returns [of ?s cf "run_event_by_status st" ?r None None] calm by blast
  have "set_waiting cf rid b s = (Inr (Some ?r), s')"
    using assms False e
    by (auto simp: set_waiting_def registered_run_def stored_def seq_def [of "registered_run _"] Let_def
        seq_def [of "emit _ _ _ _ _"] ret_def)
  moreover have "stored key ?r s'" by (rule emit_stored [OF e stored_remember])
  moreover have "dict_get (run_keys s') rid = Some key"
    using emit_books [OF e] assms(1) by (simp add: remember_def)
  moreover have "\<forall>i. sink s' i \<noteq> Sink_cancelled"
    using keepsD [OF calm.keeps_emit [OF refl] calm, of cf "run_event_by_status st" ?r None None] e by simp
  ultimately show ?thesis by blast
qed

text \<open>
  While the parent's tool approval is pending the run is projected as waiting, and however the
  approval ends, by an answer or by an exception, the very snapshot from before is remembered
  again; the answer of the channel is passed on unchanged.
\<close>

theorem approval_restores_run:
  assumes "dict_get (run_keys s) rid = Some key" "stored key run s" "r_id run = rid" "r_status run = Running"
    "iv_run_id iv = Some rid" "\<forall>i. sink s i \<noteq> Sink_cancelled"
  shows "\<exists>s1 s'. set_waiting cf rid True s = (Inr (Some (run\<lparr>r_status := Waiting\<rparr>)), s1)
    \<and> stored key (run\<lparr>r_status := Waiting\<rparr>) s1
    \<and> wrap_parent_approval cf answer (iv, s) = (answer, (iv, s')) \<and> stored key run s'"
proof -
  obtain s1 where w: "set_waiting cf rid True s = (Inr (Some (run\<lparr>r_status := Waiting\<rparr>)), s1)"
    and s1: "stored key (run\<lparr>r_status := Waiting\<rparr>) s1" "dict_get (run_keys s1) rid = Some key"
      "\<forall>i. sink s1 i \<noteq> Sink_cancelled"
    using set_waiting_returns [OF assms(1-3) _ assms(6) refl, of cf True] assms(4) by auto
  have again: "run\<lparr>r_status := Waiting\<rparr>\<lparr>r_status := Running\<rparr> = run" using assms(4) by simp
  obtain s' where b: "set_waiting cf rid False s1 = (Inr (Some run), s')" and s': "stored key run s'"
    using set_waiting_returns [OF s1(2,1) _ _ s1(3) refl, of cf False] assms(3) again by auto
  have "wrap_parent_approval cf answer (iv, s) = (answer, (iv, s'))"
    using assms(5) w b
    by (simp add: wrap_parent_approval_def approval_adapter_def set_waiting_iv_def seq_def gets_def
        on_coord_def ret_def lift_def)
  with w s1(1) s' show ?thesis by blast
qed

theorem approval_restores_run_witness:
  "\<exists>s1 s' run. set_waiting demo_cfg (u ''run-0'') True demo_delegated = (Inr (Some run), s1)
    \<and> r_status run = Waiting
    \<and> wrap_parent_approval demo_cfg (Inl TimeoutError)
         (demo_invocation\<lparr>iv_run_id := Some (u ''run-0'')\<rparr>, demo_delegated)
       = (Inl TimeoutError, (demo_invocation\<lparr>iv_run_id := Some (u ''run-0'')\<rparr>, s'))"
proof -
  have k: "dict_get (run_keys demo_delegated) (u ''run-0'') = Some (u ''s'', u ''r'')" by code_simp
  obtain run where r: "dict_get (runs_by_request demo_delegated) (u ''s'', u ''r'') = Some run" "r_id run = u ''run-0''"
    by (rule lookup_run [OF coordinator.inv_reach [OF demo_reach] k])
  have "case dict_get (runs_by_request demo_delegated) (u ''s'', u ''r'') of
      None \<Rightarrow> False | Some run \<Rightarrow> r_status run = Running" by code_simp
  with r have st: "r_status run = Running" by simp
  have calm: "\<forall>i. sink demo_delegated i \<noteq> Sink_cancelled"
  proof -
    have "runs_by_request demo_coord = []" "\<forall>i. sink demo_coord i \<noteq> Sink_cancelled"
      by (simp_all add: demo_coord_def)
    then show ?thesis
      unfolding demo_delegated_def delegate_unfold Let_def
      by (simp only: dict_get_empty not_True_eq_False if_False simp_thms)
        (rule keepsD [OF calm.keeps_conduct [OF refl]], simp add: register_def)
  qed
  show ?thesis
    using approval_restores_run [OF k _ r(2) st _ calm, of "demo_invocation\<lparr>iv_run_id := Some (u ''run-0'')\<rparr>"
        demo_cfg "Inl TimeoutError"] r(1)
    by (fastforce simp: stored_def)
qed

section \<open>What texts may carry\<close>

text \<open>
  A run that ended without success tells the parent model nothing a worker wrote: its JSON
  result is the same as if every node had lost its result.
\<close>

theorem failed_run_hides_results:
  assumes "r_status run \<in> {Failed, Timed_out, Cancelled, Interrupted}"
  shows "run_content cf (run\<lparr>r_nodes := map (\<lambda>n. n\<lparr>n_result := None\<rparr>) (r_nodes run)\<rparr>) = run_content cf run"
  using assms
  by (auto simp: run_content_def run_fields_def unsuccessful_def failure_entries_def filter_map o_def)

theorem failed_run_hides_results_witness:
  "run_content demo_cfg (demo_run\<lparr>r_status := Failed, r_nodes := map (\<lambda>n. n\<lparr>n_result := None\<rparr>) (r_nodes demo_run)\<rparr>)
     = run_content demo_cfg (demo_run\<lparr>r_status := Failed\<rparr>)"
  using failed_run_hides_results [of "demo_run\<lparr>r_status := Failed\<rparr>" demo_cfg] by simp

text \<open>What an event may carry: every error text is one line of at most 256 characters that is not
  blank, and every task label is a non-empty text of at most 64 letters, digits, spaces,
  underscores and hyphens.
\<close>

theorem event_texts_bounded:
  assumes "alnum_ok (alnum cf)" "p = make_payload cf run node us ms"
  shows "(\<forall>e. e_error p = Some e \<longrightarrow> length e \<le> 256 \<and> py_strip e \<noteq> [] \<and> (\<forall>c \<in> set e. is_space c \<longrightarrow> c = 32))
    \<and> e_task_label p \<noteq> [] \<and> length (e_task_label p) \<le> 64
    \<and> (\<forall>c \<in> set (e_task_label p). alnum cf c \<or> c \<in> {32, 95, 45})"
  using assms safe_error_one_line
  by (auto simp: make_payload_def project_error_def safe_error_length safe_task_label_length
      safe_task_label_nonempty dest: safe_task_label_chars split: option.splits if_splits)

theorem event_texts_bounded_witness:
  "e_task_label (make_payload demo_cfg demo_run None None None) \<noteq> []"
proof -
  have "alnum_ok (alnum demo_cfg)" by (simp add: alnum_ok_def demo_cfg_def)
  from event_texts_bounded [OF this refl] show ?thesis by simp
qed

end
