(* ===== verification/ContextMemory.thy ===== *)
theory ContextMemory
  imports Json TurnTexts "HOL-Library.Multiset"
begin

text \<open>
  What a turn sends to the model and what it keeps of the conversation: the system prompt and the
  message list (\<^verbatim>\<open>context/system_prompt.py\<close>, \<^verbatim>\<open>context/builder.py\<close>), the token breakdown
  (\<^verbatim>\<open>context/token_budget.py\<close>, \<^verbatim>\<open>context/session_context.py\<close>), the compaction of the short-term
  history (\<^verbatim>\<open>memory/short_term.py\<close>), the profile files (\<^verbatim>\<open>memory/long_term.py\<close>) and the usage
  record (\<^verbatim>\<open>observability/token_monitor.py\<close>). The tokenizer's length is the parameter \<open>e\<close>.
\<close>

section \<open>Data\<close>

record message_record =
  mr_id :: ustr
  mr_session :: ustr
  mr_role :: ustr
  mr_content :: ustr
  mr_name :: "ustr option"
  mr_tool_call :: "ustr option"
  mr_tokens :: int
  mr_created :: ustr
  mr_metadata :: json

record session =
  se_id :: ustr
  se_user :: ustr
  se_channel :: ustr
  se_title :: ustr
  se_summary :: ustr
  se_pinned :: bool
  se_archived :: bool
  se_uncompacted :: "message_record list"
  se_created :: ustr
  se_updated :: ustr
  se_principal :: ustr
  se_conversation :: ustr

record llm_usage =
  lu_input :: int
  lu_output :: int
  lu_total :: int

definition no_usage :: llm_usage where
  "no_usage = \<lparr>lu_input = 0, lu_output = 0, lu_total = 0\<rparr>"

definition usage_add :: "llm_usage \<Rightarrow> llm_usage option \<Rightarrow> llm_usage" where
  "usage_add x y = (case y of None \<Rightarrow> x
     | Some y \<Rightarrow> \<lparr>lu_input = lu_input x + lu_input y, lu_output = lu_output x + lu_output y,
                 lu_total = lu_total x + lu_total y\<rparr>)"

text \<open>\<open>count_content_tokens\<close> of \<^verbatim>\<open>sessions/token_counter.py\<close>.\<close>

definition content_tokens :: "(ustr \<Rightarrow> nat) \<Rightarrow> ustr \<Rightarrow> int" where
  "content_tokens e s = (if s = [] then 0 else max 1 (int (e s)))"

lemma content_tokens_nonneg [simp]: "0 \<le> content_tokens e s"
  by (simp add: content_tokens_def max_def)

section \<open>Prompts\<close>

record skill_item =
  sk_name :: ustr
  sk_description :: ustr

definition render_skill_catalog :: "skill_item list \<Rightarrow> ustr" where
  "render_skill_catalog skills =
     (if skills = [] then []
      else txt_skill_catalog_head @
        py_join [10] (map (\<lambda>s. sk_name s @ txt_fullwidth_colon @ sk_description s) skills))"

definition build_system_prompt :: "skill_item list \<Rightarrow> ustr" where
  "build_system_prompt skills = txt_base_system_prompt @ txt_mcp_guidance @ render_skill_catalog skills"

definition build_loaded_skill_prompt :: "ustr \<Rightarrow> ustr \<Rightarrow> ustr" where
  "build_loaded_skill_prompt name body =
     txt_loaded_skill @ name @ [10, 10] @ txt_loaded_skill_rank @ [10, 10] @ body"

section \<open>The profile files\<close>

record snapshot =
  soul :: ustr
  user :: ustr

definition system_contents :: "snapshot \<Rightarrow> ustr list" where
  "system_contents p =
     (if soul p = [] then [] else [txt_soul_memory @ soul p]) @
     (if user p = [] then [] else [txt_user_memory @ user p])"

record profile_limits =
  soul_limit :: int
  user_limit :: int
  total_limit :: int

definition validate_profile :: "(ustr \<Rightarrow> nat) \<Rightarrow> profile_limits \<Rightarrow> snapshot \<Rightarrow> exn + unit" where
  "validate_profile e limits p =
     (if content_tokens e (soul p) > soul_limit limits then
        Inl (ValueError (u ''SOUL.md'' @ txt_over_limit_prefix @ show_int (soul_limit limits) @ txt_tokens_limit))
      else if content_tokens e (user p) > user_limit limits then
        Inl (ValueError (u ''USER.md'' @ txt_over_limit_prefix @ show_int (user_limit limits) @ txt_tokens_limit))
      else if content_tokens e (soul p) + content_tokens e (user p) > total_limit limits then
        Inl (ValueError (txt_memory_over_limit @ show_int (total_limit limits) @ txt_tokens_limit))
      else Inr ())"

text \<open>
  The two files are the state, \<open>None\<close> when a file does not exist; every write asks the file system,
  which may refuse it with an exception that leaves the file as it was.
\<close>

record profile_files =
  soul_file :: "ustr option"
  user_file :: "ustr option"
  write_answers :: "exn option tape"

definition read_profile_file :: "ustr option \<Rightarrow> ustr" where
  "read_profile_file f = (case f of None \<Rightarrow> [] | Some t \<Rightarrow> py_strip t)"

definition read_profile :: "(ustr \<Rightarrow> nat) \<Rightarrow> profile_limits \<Rightarrow> (profile_files, snapshot) prog" where
  "read_profile e limits fs =
     (let p = \<lparr>soul = read_profile_file (soul_file fs), user = read_profile_file (user_file fs)\<rparr> in
      (bindE (validate_profile e limits p) (\<lambda>_. Inr p), fs))"

definition render_profile :: "ustr \<Rightarrow> ustr" where
  "render_profile t = py_strip t @ (if py_strip t = [] then [] else [10])"

definition write_profile_file :: "(profile_files \<Rightarrow> profile_files) \<Rightarrow> (profile_files, unit) prog" where
  "write_profile_file upd fs =
     (let fs1 = fs\<lparr>write_answers := tape_tl (write_answers fs)\<rparr> in
      case write_answers fs 0 of Some e \<Rightarrow> (Inl e, fs1) | None \<Rightarrow> (Inr (), upd fs1))"

text \<open>The rollback restores a file's text, or removes a file that did not exist (which needs no write).\<close>

definition restore_profile_file ::
  "ustr option \<Rightarrow> (ustr option \<Rightarrow> profile_files \<Rightarrow> profile_files) \<Rightarrow> (profile_files, unit) prog" where
  "restore_profile_file previous upd =
     (case previous of None \<Rightarrow> modify (upd None) | Some t \<Rightarrow> write_profile_file (upd (Some t)))"

definition write_profile :: "(ustr \<Rightarrow> nat) \<Rightarrow> profile_limits \<Rightarrow> snapshot \<Rightarrow> (profile_files, unit) prog" where
  "write_profile e limits p =
     seq (lift (validate_profile e limits p)) (\<lambda>_.
     seq (gets (\<lambda>fs. (soul_file fs, user_file fs))) (\<lambda>(old_soul, old_user).
       catch
         (seq (write_profile_file (\<lambda>fs. fs\<lparr>soul_file := Some (render_profile (soul p))\<rparr>)) (\<lambda>_.
          write_profile_file (\<lambda>fs. fs\<lparr>user_file := Some (render_profile (user p))\<rparr>)))
         (\<lambda>err. if err = CancelledError then raise err else
            seq (restore_profile_file old_soul (\<lambda>t fs. fs\<lparr>soul_file := t\<rparr>)) (\<lambda>_.
            seq (restore_profile_file old_user (\<lambda>t fs. fs\<lparr>user_file := t\<rparr>)) (\<lambda>_. raise err)))))"

section \<open>The session's two histories\<close>

definition count_message_tokens :: "message_record list \<Rightarrow> int" where
  "count_message_tokens ms = sum_list (map mr_tokens ms)"

definition session_history :: "session \<Rightarrow> message_record list \<Rightarrow> message_record list" where
  "session_history se full =
     (if se_uncompacted se \<noteq> [] \<or> se_summary se \<noteq> [] then se_uncompacted se else full)"

section \<open>Token breakdown\<close>

record breakdown =
  bd_system :: int
  bd_catalog :: int
  bd_profile :: int
  bd_summary :: int
  bd_history :: int
  bd_input :: int
  bd_output :: int
  bd_tools :: int
  bd_context :: int

record build_env =
  be_enc :: "ustr \<Rightarrow> nat"
  be_float :: "real \<Rightarrow> ustr"

definition tool_schema_tokens :: "build_env \<Rightarrow> json list \<Rightarrow> int" where
  "tool_schema_tokens be tools =
     content_tokens (be_enc be) (dumps (be_float be) (default_style True) (JArr tools))"

definition build_context_token_breakdown ::
  "build_env \<Rightarrow> ustr \<Rightarrow> message_record list \<Rightarrow> ustr \<Rightarrow> ustr \<Rightarrow> snapshot \<Rightarrow> json list \<Rightarrow> bool
     \<Rightarrow> skill_item list \<Rightarrow> breakdown" where
  "build_context_token_breakdown be summary history inp outp profile tools include_turn skills =
     (let ct = content_tokens (be_enc be);
          catalog = ct (render_skill_catalog skills);
          system = ct (build_system_prompt []);
          prof = sum_list (map ct (system_contents profile));
          summ = (if summary = [] then 0 else ct (txt_summary_prefix @ summary));
          hist = count_message_tokens history;
          schema = (if tools = [] then 0 else tool_schema_tokens be tools);
          context = system + catalog + prof + summ + hist + schema in
      \<lparr>bd_system = system, bd_catalog = catalog, bd_profile = prof, bd_summary = summ,
       bd_history = hist, bd_input = ct inp, bd_output = ct outp, bd_tools = schema,
       bd_context = (if include_turn then context + (ct inp + ct outp) else context)\<rparr>)"

definition has_current_turn :: "message_record list \<Rightarrow> ustr \<Rightarrow> ustr \<Rightarrow> bool" where
  "has_current_turn history inp outp =
     (case last_n 2 history of
        [q, a] \<Rightarrow> mr_role q = u ''user'' \<and> mr_content q = inp
                 \<and> mr_role a = u ''assistant'' \<and> mr_content a = outp
      | _ \<Rightarrow> False)"

definition build_save_context_token_breakdown ::
  "build_env \<Rightarrow> ustr \<Rightarrow> message_record list \<Rightarrow> ustr \<Rightarrow> ustr \<Rightarrow> snapshot \<Rightarrow> json list \<Rightarrow> nat
     \<Rightarrow> skill_item list \<Rightarrow> breakdown \<times> nat" where
  "build_save_context_token_breakdown be summary history inp outp profile tools tool_count skills =
     (let include_turn = has_current_turn history inp outp;
          hist = (if include_turn then but_last_n 2 history else history) in
      (build_context_token_breakdown be summary hist inp outp profile tools include_turn skills,
       tool_count))"

section \<open>Messages for the model\<close>

definition chat_message :: "ustr \<Rightarrow> ustr \<Rightarrow> json" where
  "chat_message role content = JObj [(u ''role'', JStr role), (u ''content'', JStr content)]"

record attachment =
  at_id :: "ustr option"
  at_source :: ustr
  at_filename :: ustr
  at_mime :: ustr
  at_size :: int
  at_base64 :: "ustr option"
  at_processing :: ustr
  at_truncated :: bool
  at_error :: "ustr option"
  at_text_chars :: "int option"

definition described :: "attachment \<Rightarrow> bool" where
  "described a \<longleftrightarrow> at_id a \<noteq> None \<and> at_source a \<in> {u ''document'', u ''image''}"

definition descriptor :: "attachment \<Rightarrow> json" where
  "descriptor a = JObj
     [(u ''attachment_id'', JStr (the (at_id a))), (u ''source'', JStr (at_source a)),
      (u ''filename'', JStr (at_filename a)), (u ''mime_type'', JStr (at_mime a)),
      (u ''size_bytes'', JInt (at_size a))]"

definition attachment_context :: "build_env \<Rightarrow> attachment list \<Rightarrow> ustr" where
  "attachment_context be ats =
     (let ds = filter described ats in
      if ds = [] then []
      else txt_attachment_head @ dumps (be_float be) (default_style False) (JArr (map descriptor ds)) @ [10] @
        (if \<exists>a \<in> set ds. at_source a = u ''document'' then txt_attachment_document
         else txt_attachment_image))"

definition image_part :: "attachment \<Rightarrow> json list" where
  "image_part a = (if at_source a = u ''image'' then
       (case at_base64 a of None \<Rightarrow> []
        | Some d \<Rightarrow> [JObj [(u ''type'', JStr (u ''image_url'')),
            (u ''image_url'', JObj [(u ''url'', JStr (u ''data:'' @ at_mime a @ u '';base64,'' @ d))])]])
     else [])"

definition build_messages ::
  "build_env \<Rightarrow> ustr \<Rightarrow> message_record list \<Rightarrow> ustr \<Rightarrow> snapshot \<Rightarrow> skill_item list \<Rightarrow> attachment list \<Rightarrow> json list"
where
  "build_messages be summary history content profile skills ats =
     (let ctx = attachment_context be ats;
          text = (if ctx = [] then content else if content = [] then ctx else content @ [10, 10] @ ctx);
          images = concat (map image_part ats) in
      [chat_message (u ''system'') (build_system_prompt skills)] @
      map (chat_message (u ''system'')) (system_contents profile) @
      (if summary = [] then [] else [chat_message (u ''system'') (txt_summary_prefix @ summary)]) @
      map (\<lambda>m. chat_message (mr_role m) (mr_content m)) history @
      [if images = [] then chat_message (u ''user'') text
       else JObj [(u ''role'', JStr (u ''user'')),
         (u ''content'', JArr ((if text = [] then []
            else [JObj [(u ''type'', JStr (u ''text'')), (u ''text'', JStr text)]]) @ images))]])"

definition build_worker_messages ::
  "build_env \<Rightarrow> ustr \<Rightarrow> snapshot \<Rightarrow> skill_item list \<Rightarrow> ustr \<Rightarrow> ustr \<Rightarrow> ustr option \<Rightarrow> exn + json list" where
  "build_worker_messages be system_prompt profile skills role brief dep =
     (if (case dep of None \<Rightarrow> False
          | Some d \<Rightarrow> length d > 12000 \<or> content_tokens (be_enc be) d > 6000)
      then Inl (ValueError txt_dependency_exceeded)
      else Inr
        ([chat_message (u ''system'') system_prompt] @
         map (chat_message (u ''system'')) (system_contents profile) @
         (let catalog = render_skill_catalog skills in
          if catalog = [] then [] else [chat_message (u ''system'') (txt_worker_skills @ catalog)]) @
         [chat_message (u ''user'') (txt_worker_role @ role @ txt_worker_brief @ brief @
            (case dep of None \<Rightarrow> [] | Some d \<Rightarrow> if d = [] then [] else txt_worker_dependency @ d))]))"

section \<open>Short-term memory\<close>

record memory_cfg =
  compact_threshold :: int
  window_limit :: int

record compaction_plan =
  cp_should :: bool
  cp_source :: "message_record list"
  cp_window :: "message_record list"

definition is_turn :: "message_record \<Rightarrow> message_record \<Rightarrow> bool" where
  "is_turn q a \<longleftrightarrow> mr_role q = u ''user'' \<and> mr_role a = u ''assistant''"

fun complete_turns :: "message_record list \<Rightarrow> message_record list list" where
  "complete_turns (q # a # ms) =
     (if is_turn q a then [q, a] # complete_turns ms else complete_turns (a # ms))"
| "complete_turns ms = []"

text \<open>The loop of \<open>recent_window\<close> over the reversed turns, with its two break conditions.\<close>

fun window_loop :: "int \<Rightarrow> message_record list list \<Rightarrow> message_record list \<Rightarrow> int \<Rightarrow> message_record list" where
  "window_loop limit [] selected used = selected"
| "window_loop limit (t # ts) selected used =
     (if count_message_tokens t > limit then selected
      else if used + count_message_tokens t > limit then selected
      else window_loop limit ts (t @ selected) (used + count_message_tokens t))"

definition recent_window :: "memory_cfg \<Rightarrow> message_record list \<Rightarrow> message_record list" where
  "recent_window mc ms = window_loop (window_limit mc) (rev (complete_turns ms)) [] 0"

definition plan_compaction :: "memory_cfg \<Rightarrow> message_record list \<Rightarrow> bool \<Rightarrow> compaction_plan" where
  "plan_compaction mc ms force =
     (if \<not> force \<and> \<not> count_message_tokens ms > compact_threshold mc
      then \<lparr>cp_should = False, cp_source = [], cp_window = ms\<rparr>
      else
        (let w = recent_window mc ms; ids = set (map mr_id w) in
         \<lparr>cp_should = True, cp_source = filter (\<lambda>m. mr_id m \<notin> ids) ms, cp_window = w\<rparr>))"

definition summary_messages :: "ustr \<Rightarrow> message_record list \<Rightarrow> json list" where
  "summary_messages existing ms =
     [chat_message (u ''system'') txt_summarizer_system,
      chat_message (u ''user'') (txt_summary_task @ txt_existing_summary @
        (if existing = [] then txt_none_word else existing) @ [10, 10] @ txt_pending_fragment @
        py_join [10] (map (\<lambda>m. mr_role m @ u '': '' @ mr_content m) ms))]"

text \<open>\<open>compact\<close>; what the model answers to the two messages is an argument: content and usage.\<close>

definition compact_summary ::
  "ustr \<Rightarrow> message_record list \<Rightarrow> (json list \<Rightarrow> exn + ustr \<times> llm_usage option) \<Rightarrow> exn + ustr \<times> llm_usage" where
  "compact_summary existing ms llm =
     (if ms = [] then Inr (existing, no_usage)
      else bindE (llm (summary_messages existing ms)) (\<lambda>(content, us). case us of
        None \<Rightarrow> Inl (RuntimeError txt_summary_no_usage)
      | Some x \<Rightarrow>
          (if lu_total x \<le> 0 then Inl (RuntimeError txt_summary_no_usage)
           else if py_strip content = [] then Inl (RuntimeError txt_summary_empty)
           else Inr (py_strip content, x))))"

section \<open>Usage records\<close>

record token_usage =
  tu_input :: int
  tu_output :: int
  tu_turn :: int
  tu_total :: int
  tu_compacted :: int

definition record_llm_usage :: "llm_usage \<Rightarrow> int \<Rightarrow> bool \<Rightarrow> exn + token_usage" where
  "record_llm_usage us previous compacted =
     (if lu_total us \<le> 0 then Inl (ValueError txt_usage_invalid)
      else Inr \<lparr>tu_input = lu_input us, tu_output = lu_output us, tu_turn = lu_total us,
               tu_total = previous + lu_total us, tu_compacted = (if compacted then 1 else 0)\<rparr>)"

end
