(* ===== verification/RuntimeTexts.thy ===== *)
theory RuntimeTexts
  imports Prelude
begin

text \<open>
  The fixed texts of the program, code point by code point: error messages and replies the code
  stores, compares or shows. Each name says what the text says; the order is the order of the
  source files.
\<close>

section \<open>\<^verbatim>\<open>sessions/store.py\<close>\<close>

definition txt_recovery_error :: ustr where \<comment> \<open>the restart interrupted the run\<close>
  "txt_recovery_error = [71, 97, 116, 101, 119, 97, 121, 32, 37325, 21551, 23548, 33268, 32, 82, 117, 110, 32,
     20013, 26029]"

definition txt_usage_scope :: ustr where \<comment> \<open>the scope is neither worker nor parent\<close>
  "txt_usage_scope = [116, 111, 107, 101, 110, 32, 117, 115, 97, 103, 101, 32, 115, 99, 111, 112, 101, 32,
     24517, 39035, 26159, 32, 119, 111, 114, 107, 101, 114, 32, 25110, 32, 112, 97, 114, 101,
     110, 116]"

definition txt_identifier_blank :: ustr where \<comment> \<open>must be a non-empty string\<close>
  "txt_identifier_blank = [32, 24517, 39035, 26159, 38750, 31354, 23383, 31526, 20018]"

definition txt_identifier_unsafe :: ustr where \<comment> \<open>has unsafe characters\<close>
  "txt_identifier_unsafe = [32, 21253, 21547, 19981, 23433, 20840, 23383, 31526]"

definition txt_route_session_mismatch :: ustr where \<comment> \<open>session id and route disagree\<close>
  "txt_route_session_mismatch = [115, 101, 115, 115, 105, 111, 110, 95, 105, 100, 32, 24517, 39035, 19982, 32, 114, 111,
     117, 116, 101, 32, 19968, 33268]"

section \<open>\<^verbatim>\<open>sessions/manager.py\<close>\<close>

definition txt_cmd_history :: ustr where \<comment> \<open>help of /history\<close>
  "txt_cmd_history = [26597, 30475, 24403, 21069, 20250, 35805, 30340, 23436, 25972, 21382, 21490, 28040, 24687]"

definition txt_cmd_context :: ustr where \<comment> \<open>help of /context\<close>
  "txt_cmd_context = [26597, 30475, 24403, 21069, 20250, 27880, 20837, 27169, 22411, 30340, 20250, 35805, 19978,
     19979, 25991]"

definition txt_cmd_tools :: ustr where \<comment> \<open>help of /tools\<close>
  "txt_cmd_tools = [26597, 30475, 24403, 21069, 20250, 35805, 30340, 24037, 20855, 35843, 29992, 35760, 24405]"

definition txt_cmd_approve :: ustr where \<comment> \<open>help of /approve\<close>
  "txt_cmd_approve = [26597, 30475, 25110, 35774, 32622, 20840, 23616, 24037, 20855, 33258, 21160, 23457, 25209]"

definition txt_cmd_clear :: ustr where \<comment> \<open>help of /clear\<close>
  "txt_cmd_clear = [28165, 31354, 24403, 21069, 20250, 35805, 30340, 28040, 24687, 21644, 25688, 35201]"

definition txt_cmd_new :: ustr where \<comment> \<open>help of /new\<close>
  "txt_cmd_new = [24320, 22987, 19968, 20010, 26032, 20250, 35805, 65292, 67, 76, 73, 32, 20250, 20999,
     25442, 21040, 26032, 30340, 32, 115, 101, 115, 115, 105, 111, 110]"

definition txt_cmd_exit :: ustr where \<comment> \<open>help of /exit\<close>
  "txt_cmd_exit = [36864, 20986, 24403, 21069, 32, 67, 76, 73, 32, 20250, 35805]"

definition txt_route_inconsistent :: ustr where \<comment> \<open>the stored route differs\<close>
  "txt_route_inconsistent = [101, 120, 105, 115, 116, 105, 110, 103, 32, 115, 101, 115, 115, 105, 111, 110, 32, 114,
     111, 117, 116, 101, 32, 19981, 19968, 33268]"

definition txt_route_missing :: ustr where \<comment> \<open>the stored record has no valid route\<close>
  "txt_route_missing = [101, 120, 105, 115, 116, 105, 110, 103, 32, 115, 101, 115, 115, 105, 111, 110, 32, 32570,
     23569, 26377, 25928, 32, 114, 111, 117, 116, 101]"

definition txt_no_history :: ustr where \<comment> \<open>no messages yet\<close>
  "txt_no_history = [26242, 26080, 21382, 21490, 28040, 24687, 12290]"

definition txt_approve_usage :: ustr where \<comment> \<open>usage of /approve\<close>
  "txt_approve_usage = [29992, 27861, 65306, 47, 97, 112, 112, 114, 111, 118, 101, 32, 91, 111, 110, 124, 111,
     102, 102, 93]"

definition txt_cleared :: ustr where \<comment> \<open>the session is cleared\<close>
  "txt_cleared = [24403, 21069, 20250, 35805, 24050, 28165, 31354, 12290]"

definition txt_new_session :: ustr where \<comment> \<open>a new session has begun\<close>
  "txt_new_session = [24050, 24320, 22987, 26032, 20250, 35805, 12290]"

definition txt_bye :: ustr where \<comment> \<open>goodbye\<close>
  "txt_bye = [20877, 35265, 12290]"

definition txt_unknown_command :: ustr where \<comment> \<open>unknown command\<close>
  "txt_unknown_command = [26410, 30693, 21629, 20196, 65306]"

definition txt_available_commands :: ustr where \<comment> \<open>available commands\<close>
  "txt_available_commands = [21487, 29992, 21629, 20196, 65306, 10]"

definition txt_colon :: ustr where \<comment> \<open>a full-width colon\<close>
  "txt_colon = [65306]"

definition txt_no_context :: ustr where \<comment> \<open>no context yet\<close>
  "txt_no_context = [24403, 21069, 20250, 35805, 26242, 26080, 19978, 19979, 25991, 12290]"

definition txt_view_summary :: ustr where \<comment> \<open>summary line\<close>
  "txt_view_summary = [20250, 35805, 25688, 35201, 65306]"

definition txt_none :: ustr where \<comment> \<open>none\<close>
  "txt_none = [26080]"

definition txt_view_full :: ustr where \<comment> \<open>number of messages\<close>
  "txt_view_full = [23436, 25972, 21382, 21490, 28040, 24687, 25968, 65306]"

definition txt_view_uncompacted :: ustr where \<comment> \<open>number of uncompacted messages\<close>
  "txt_view_uncompacted = [26410, 21387, 32553, 21382, 21490, 28040, 24687, 25968, 65306]"

definition txt_view_tokens :: ustr where \<comment> \<open>tokens of the uncompacted messages\<close>
  "txt_view_tokens = [26410, 21387, 32553, 21382, 21490, 116, 111, 107, 101, 110, 25968, 65306]"

definition txt_view_history :: ustr where \<comment> \<open>the uncompacted messages\<close>
  "txt_view_history = [26410, 21387, 32553, 21382, 21490, 65306]"

definition txt_no_tools :: ustr where \<comment> \<open>no tool calls yet\<close>
  "txt_no_tools = [26242, 26080, 24037, 20855, 35843, 29992, 35760, 24405, 12290]"

definition txt_approve_status :: ustr where \<comment> \<open>state of the automatic approval\<close>
  "txt_approve_status = [20840, 23616, 24037, 20855, 33258, 21160, 23457, 25209, 65306]"

definition txt_is_on :: ustr where \<comment> \<open>on\<close>
  "txt_is_on = [24050, 24320, 21551]"

definition txt_is_off :: ustr where \<comment> \<open>off\<close>
  "txt_is_off = [24050, 20851, 38381]"

definition txt_full_stop :: ustr where \<comment> \<open>a full stop\<close>
  "txt_full_stop = [12290]"

definition txt_approve_on :: ustr where \<comment> \<open>automatic approval is on\<close>
  "txt_approve_on = [24050, 24320, 21551, 20840, 23616, 24037, 20855, 33258, 21160, 23457, 25209, 12290, 10,
     23457, 25209, 31867, 24037, 20855, 23558, 19981, 20877, 36880, 27425, 30830, 35748, 65307,
     23433, 20840, 26816, 26597, 20173, 28982, 29983, 25928, 12290]"

definition txt_approve_off :: ustr where \<comment> \<open>automatic approval is off\<close>
  "txt_approve_off = [24050, 20851, 38381, 20840, 23616, 24037, 20855, 33258, 21160, 23457, 25209, 12290, 10,
     23457, 25209, 31867, 24037, 20855, 23558, 24674, 22797, 36880, 27425, 30830, 35748, 12290]"

section \<open>\<^verbatim>\<open>runtime/principal_context.py\<close>\<close>

definition txt_principal_invalid :: ustr where \<comment> \<open>the principal id is empty\<close>
  "txt_principal_invalid = [112, 114, 105, 110, 99, 105, 112, 97, 108, 32, 105, 100, 32, 26080, 25928]"

definition txt_foreign_read :: ustr where \<comment> \<open>cannot read a session of another principal\<close>
  "txt_foreign_read = [19981, 33021, 35835, 21462, 20854, 23427, 20027, 20307, 30340, 32, 115, 101, 115, 115,
     105, 111, 110]"

definition txt_foreign_approve :: ustr where \<comment> \<open>only the owner changes the approval\<close>
  "txt_foreign_approve = [38750, 32, 79, 119, 110, 101, 114, 32, 19981, 33021, 20462, 25913, 20840, 23616, 24037,
     20855, 33258, 21160, 23457, 25209]"

definition txt_foreign_operate :: ustr where \<comment> \<open>cannot operate on a session of another principal\<close>
  "txt_foreign_operate = [19981, 33021, 25805, 20316, 20854, 23427, 20027, 20307, 30340, 32, 115, 101, 115, 115,
     105, 111, 110]"

definition txt_foreign_access :: ustr where \<comment> \<open>cannot access a session of another principal\<close>
  "txt_foreign_access = [19981, 33021, 35775, 38382, 20854, 23427, 20027, 20307, 30340, 32, 115, 101, 115, 115,
     105, 111, 110]"

definition txt_foreign_route :: ustr where \<comment> \<open>the route is of another principal\<close>
  "txt_foreign_route = [114, 111, 117, 116, 101, 32, 19981, 23646, 20110, 24403, 21069, 20027, 20307]"

section \<open>\<^verbatim>\<open>channels/policy.py\<close>\<close>

definition txt_im_new :: ustr where \<comment> \<open>instant messaging has no /new\<close>
  "txt_im_new = [24403, 21069, 32, 73, 77, 32, 28192, 36947, 19981, 25903, 25345, 32, 47, 110, 101, 119,
     12290, 22914, 38656, 28165, 31354, 24403, 21069, 35805, 39064, 65292, 35831, 21457, 36865,
     32, 47, 99, 108, 101, 97, 114, 12290]"

definition txt_im_exit :: ustr where \<comment> \<open>instant messaging has no /exit\<close>
  "txt_im_exit = [24403, 21069, 32, 73, 77, 32, 28192, 36947, 19981, 25903, 25345, 32, 47, 101, 120, 105,
     116, 12290]"

definition txt_im_approve :: ustr where \<comment> \<open>instant messaging has no approval\<close>
  "txt_im_approve = [24403, 21069, 32, 73, 77, 32, 28192, 36947, 19981, 25903, 25345, 24037, 20855, 23457,
     25209, 12290, 35831, 22312, 32, 87, 101, 98, 32, 25110, 32, 67, 76, 73, 32, 20013, 25805,
     20316, 12290]"

definition txt_im_multi :: ustr where \<comment> \<open>instant messaging has no /multi\<close>
  "txt_im_multi = [24403, 21069, 32, 73, 77, 32, 28192, 36947, 19981, 25903, 25345, 32, 47, 109, 117, 108,
     116, 105, 32, 21629, 20196, 12290, 35831, 22312, 32, 87, 101, 98, 32, 25110, 32, 67, 76,
     73, 32, 20013, 25805, 20316, 12290]"

section \<open>\<^verbatim>\<open>channels/base.py\<close>\<close>

definition txt_no_approval_channel :: ustr where \<comment> \<open>the channel cannot ask for approval\<close>
  "txt_no_approval_channel = [24403, 21069, 32, 67, 104, 97, 110, 110, 101, 108, 32, 19981, 25903, 25345, 24037, 20855,
     23457, 25209, 12290]"

section \<open>\<^verbatim>\<open>runtime/state.py\<close>\<close>

definition txt_build_no_session :: ustr where \<comment> \<open>BUILD without a session\<close>
  "txt_build_no_session = [66, 85, 73, 76, 68, 32, 32570, 23569, 24050, 21152, 36733, 30340, 32, 115, 101, 115, 115,
     105, 111, 110, 12290]"

definition txt_request_failed :: ustr where \<comment> \<open>the request failed\<close>
  "txt_request_failed = [35831, 27714, 22833, 36133, 65306]"

definition txt_context_too_large :: ustr where \<comment> \<open>the context is too large\<close>
  "txt_context_too_large = [19978, 19979, 25991, 36807, 22823, 65292, 24050, 25298, 32477, 26412, 36718, 35831, 27714,
     12290, 35831, 20808, 28165, 29702, 20250, 35805, 25110, 25552, 39640, 32, 109, 97, 120, 95,
     99, 111, 110, 116, 101, 120, 116, 95, 116, 111, 107, 101, 110, 115, 12290]"

definition txt_no_vision :: ustr where \<comment> \<open>the model has no vision\<close>
  "txt_no_vision = [24403, 21069, 32, 97, 99, 116, 105, 118, 101, 32, 76, 76, 77, 32, 19981, 25903, 25345,
     22270, 29255, 29702, 35299, 65292, 35831, 31227, 38500, 22270, 29255, 25110, 20999, 25442,
     25903, 25345, 35270, 35273, 30340, 27169, 22411, 12290]"

definition txt_run_no_session :: ustr where \<comment> \<open>RUN without a session\<close>
  "txt_run_no_session = [82, 85, 78, 32, 32570, 23569, 24050, 21152, 36733, 30340, 32, 115, 101, 115, 115, 105,
     111, 110, 12290]"

definition txt_parent_tokens_bad :: ustr where \<comment> \<open>the token count of the parent is invalid\<close>
  "txt_parent_tokens_bad = [77, 117, 108, 116, 105, 45, 65, 103, 101, 110, 116, 32, 29238, 19978, 19979, 25991, 32,
     116, 111, 107, 101, 110, 32, 35745, 25968, 26080, 25928]"

definition txt_save_no_usage :: ustr where \<comment> \<open>no usage to store\<close>
  "txt_save_no_usage = [26412, 36718, 32, 76, 76, 77, 32, 21709, 24212, 32570, 23569, 32, 117, 115, 97, 103, 101,
     65292, 26080, 27861, 20889, 20837, 32, 116, 114, 117, 101, 95, 116, 111, 107, 101, 110, 95,
     117, 115, 97, 103, 101, 46, 106, 115, 111, 110, 108, 12290]"

definition txt_save_no_tokens :: ustr where \<comment> \<open>no token record to store\<close>
  "txt_save_no_tokens = [26412, 36718, 32570, 23569, 32, 116, 114, 117, 101, 95, 116, 111, 107, 101, 110, 95, 117,
     115, 97, 103, 101, 65292, 26080, 27861, 25191, 34892, 32, 83, 65, 86, 69, 12290]"

definition txt_compact_no_usage :: ustr where \<comment> \<open>no usage for COMPACT\<close>
  "txt_compact_no_usage = [26412, 36718, 32, 76, 76, 77, 32, 21709, 24212, 32570, 23569, 32, 117, 115, 97, 103, 101,
     65292, 26080, 27861, 25191, 34892, 32, 67, 79, 77, 80, 65, 67, 84, 12290]"

section \<open>\<^verbatim>\<open>bus/messages.py\<close>\<close>

definition txt_disposition :: ustr where \<comment> \<open>unknown disposition\<close>
  "txt_disposition = [19981, 25903, 25345, 30340, 32, 100, 105, 115, 112, 111, 115, 105, 116, 105, 111, 110]"

section \<open>\<^verbatim>\<open>runtime/tool_call_runner.py\<close>\<close>

definition txt_tool_word :: ustr where \<comment> \<open>tool\<close>
  "txt_tool_word = [24037, 20855, 32]"

definition txt_channel_blocks :: ustr where \<comment> \<open>the channel does not allow the tool\<close>
  "txt_channel_blocks = [24403, 21069, 32, 67, 104, 97, 110, 110, 101, 108, 32, 19981, 20801, 35768, 35843, 29992,
     35813, 24037, 20855]"

definition txt_blocked_by_channel :: ustr where \<comment> \<open>blocked by the channel policy\<close>
  "txt_blocked_by_channel = [32, 34987, 24403, 21069, 32, 67, 104, 97, 110, 110, 101, 108, 32, 31574, 30053, 38459,
     27490, 65306]"

definition txt_bad_arguments :: ustr where \<comment> \<open>wrong arguments\<close>
  "txt_bad_arguments = [32, 21442, 25968, 38169, 35823, 65306]"

definition txt_security_failed :: ustr where \<comment> \<open>failed the security check\<close>
  "txt_security_failed = [32, 23433, 20840, 26816, 26597, 22833, 36133, 65306]"

definition txt_blocked_by_hook :: ustr where \<comment> \<open>blocked by a hook\<close>
  "txt_blocked_by_hook = [32, 34987, 32, 72, 111, 111, 107, 32, 38459, 27490, 65306]"

section \<open>\<^verbatim>\<open>tools/executor.py\<close>\<close>

definition txt_execution_failed :: ustr where \<comment> \<open>the execution failed\<close>
  "txt_execution_failed = [32, 25191, 34892, 22833, 36133, 65306]"

section \<open>\<^verbatim>\<open>tools/registry.py\<close>\<close>

definition txt_args_not_object :: ustr where \<comment> \<open>arguments must be an object\<close>
  "txt_args_not_object = [32, 21442, 25968, 24517, 39035, 26159, 32, 111, 98, 106, 101, 99, 116, 65292, 23454,
     38469, 26159, 32]"

definition txt_unknown_tool :: ustr where \<comment> \<open>unknown tool\<close>
  "txt_unknown_tool = [26410, 30693, 24037, 20855, 65306]"

definition txt_available_tools :: ustr where \<comment> \<open>available tools\<close>
  "txt_available_tools = [12290, 21487, 29992, 24037, 20855, 65306]"

definition txt_semicolon :: ustr where \<comment> \<open>a full-width semicolon\<close>
  "txt_semicolon = [65307]"

section \<open>\<^verbatim>\<open>tools/context_attachment.py\<close>\<close>

definition txt_att_format :: ustr where \<comment> \<open>malformed attachment\<close>
  "txt_att_format = [26412, 36718, 19978, 19979, 25991, 38468, 20214, 26684, 24335, 26080, 25928]"

definition txt_att_kind :: ustr where \<comment> \<open>unknown kind of attachment\<close>
  "txt_att_kind = [26412, 36718, 19978, 19979, 25991, 38468, 20214, 31867, 22411, 26080, 25928]"

definition txt_att_roles :: ustr where \<comment> \<open>only user and assistant messages\<close>
  "txt_att_roles = [26412, 36718, 19978, 19979, 25991, 38468, 20214, 21482, 20801, 35768, 32, 117, 115, 101,
     114, 32, 25110, 32, 97, 115, 115, 105, 115, 116, 97, 110, 116, 32, 25991, 26412, 28040,
     24687]"

definition txt_att_count :: ustr where \<comment> \<open>the token count is wrong\<close>
  "txt_att_count = [26412, 36718, 19978, 19979, 25991, 38468, 20214, 32, 116, 111, 107, 101, 110, 32, 35745,
     25968, 19981, 19968, 33268]"

definition txt_att_total :: ustr where \<comment> \<open>too many tokens of attachments\<close>
  "txt_att_total = [26412, 36718, 19978, 19979, 25991, 38468, 20214, 24635, 37327, 36229, 36807, 32]"

definition txt_tokens_restriction :: ustr where \<comment> \<open>tokens limit\<close>
  "txt_tokens_restriction = [32, 116, 111, 107, 101, 110, 115, 32, 38480, 21046]"

section \<open>\<^verbatim>\<open>runtime/attachment_manager.py\<close>\<close>

definition txt_skill_no_metadata :: ustr where \<comment> \<open>the skill has no metadata\<close>
  "txt_skill_no_metadata = [83, 107, 105, 108, 108, 32, 38468, 20214, 32570, 23569, 21152, 36733, 20803, 25968, 25454]"

definition txt_skill_source :: ustr where \<comment> \<open>the source of the skill is invalid\<close>
  "txt_skill_source = [83, 107, 105, 108, 108, 32, 38468, 20214, 26469, 28304, 26080, 25928]"

definition txt_skill_tokens_bad :: ustr where \<comment> \<open>the token count of the skill is invalid\<close>
  "txt_skill_tokens_bad = [83, 107, 105, 108, 108, 32, 38468, 20214, 32, 116, 111, 107, 101, 110, 32, 20803, 25968,
     25454, 26080, 25928]"

definition txt_skill_at_most :: ustr where \<comment> \<open>at most so many skills\<close>
  "txt_skill_at_most = [26412, 36718, 26368, 22810, 21152, 36733, 32]"

definition txt_skill_word :: ustr where \<comment> \<open>skills\<close>
  "txt_skill_word = [32, 20010, 32, 83, 107, 105, 108, 108]"

definition txt_skill_single :: ustr where \<comment> \<open>a single skill is too long\<close>
  "txt_skill_single = [21333, 20010, 32, 83, 107, 105, 108, 108, 32, 36229, 36807, 32]"

definition txt_skill_total :: ustr where \<comment> \<open>the skills are too long together\<close>
  "txt_skill_total = [26412, 36718, 24050, 21152, 36733, 32, 83, 107, 105, 108, 108, 32, 24635, 37327, 36229,
     36807, 32]"

definition txt_att_context :: ustr where \<comment> \<open>the context would be too long\<close>
  "txt_att_context = [36861, 21152, 38468, 20214, 21518, 19978, 19979, 25991, 36229, 36807, 32]"

section \<open>\<^verbatim>\<open>runtime/agent_loop.py\<close>\<close>

definition txt_ma_timed_out :: ustr where \<comment> \<open>the collaboration has timed out\<close>
  "txt_ma_timed_out = [77, 117, 108, 116, 105, 45, 65, 103, 101, 110, 116, 32, 21327, 20316, 24050, 36229, 26102,
     12290]"

definition txt_empty_response :: ustr where \<comment> \<open>the model returned nothing\<close>
  "txt_empty_response = [27169, 22411, 36820, 22238, 20102, 31354, 21709, 24212, 12290]"

definition txt_attachment_rejected :: ustr where \<comment> \<open>the attachment is rejected\<close>
  "txt_attachment_rejected = [26412, 36718, 19978, 19979, 25991, 38468, 20214, 34987, 25298, 32477, 65306]"

definition txt_delegate_not_allowed :: ustr where \<comment> \<open>the turn does not allow the delegation call\<close>
  "txt_delegate_not_allowed = [24403, 21069, 29238, 22238, 21512, 19981, 20801, 35768, 32, 100, 101, 108, 101, 103, 97,
     116, 101, 95, 109, 117, 108, 116, 105, 95, 97, 103, 101, 110, 116, 32, 35843, 29992, 12290]"

definition txt_delegation_not_allowed :: ustr where \<comment> \<open>the turn does not allow delegation\<close>
  "txt_delegation_not_allowed = [24403, 21069, 29238, 22238, 21512, 19981, 20801, 35768, 22996, 27966]"

definition txt_guidance :: ustr where \<comment> \<open>the user guides the running task\<close>
  "txt_guidance = [12304, 29992, 25143, 27491, 22312, 24341, 23548, 24403, 21069, 20219, 21153, 12305, 10,
     29992, 25143, 22312, 20219, 21153, 25191, 34892, 20013, 34917, 20805, 20102, 20197, 19979,
     26041, 21521, 12290, 35831, 22312, 31995, 32479, 32422, 26463, 21644, 23433, 20840, 23457,
     25209, 19981, 21464, 30340, 21069, 25552, 19979, 35843, 25972, 21518, 32493, 35745, 21010,
     65307, 19981, 35201, 37325, 22797, 24050, 32463, 23436, 25104, 30340, 25805, 20316, 12290,
     10, 10]"

definition txt_rounds_reached :: ustr where \<comment> \<open>the limit of tool rounds is reached\<close>
  "txt_rounds_reached = [24037, 20855, 35843, 29992, 36718, 25968, 24050, 36798, 21040, 19978, 38480, 65292, 24050,
     23436, 25104, 32]"

definition txt_rounds_calls :: ustr where \<comment> \<open>tool calls\<close>
  "txt_rounds_calls = [32, 27425, 24037, 20855, 35843, 29992, 65288]"

definition txt_rounds_hint :: ustr where \<comment> \<open>the model gave no summary\<close>
  "txt_rounds_hint = [65289, 12290, 27169, 22411, 26410, 33021, 29983, 25104, 26368, 32456, 24635, 32467, 65292,
     21487, 20351, 29992, 32, 47, 116, 111, 111, 108, 115, 32, 26597, 30475, 26412, 36718,
     23436, 25972, 24037, 20855, 32467, 26524, 12290]"

definition txt_stream_no_usage :: ustr where \<comment> \<open>the stream has no usage\<close>
  "txt_stream_no_usage = [27969, 24335, 32, 76, 76, 77, 32, 21709, 24212, 32570, 23569, 32, 117, 115, 97, 103, 101,
     65292, 26080, 27861, 20445, 23384, 26412, 36718, 32467, 26524, 12290]"

section \<open>\<^verbatim>\<open>hooks/tool_result_truncation.py\<close>\<close>

definition txt_retry_hint :: ustr where \<comment> \<open>ask again with narrower conditions\<close>
  "txt_retry_hint = [35831, 20351, 29992, 26356, 31934, 30830, 30340, 26465, 20214, 12289, 33539, 22260, 25110,
     36807, 28388, 20877, 27425, 26597, 35810, 12290]"

definition txt_source_url :: ustr where \<comment> \<open>source url\<close>
  "txt_source_url = [26469, 28304, 32, 85, 82, 76, 65306]"

definition txt_omitted :: ustr where \<comment> \<open>omitted\<close>
  "txt_omitted = [91, 24050, 30465, 30053, 32]"

definition txt_omitted_results :: ustr where \<comment> \<open>results\<close>
  "txt_omitted_results = [32, 26465, 32467, 26524, 65307]"

definition txt_omitted_part :: ustr where \<comment> \<open>part of the result is omitted\<close>
  "txt_omitted_part = [91, 24050, 30465, 30053, 37096, 20998, 24037, 20855, 32467, 26524, 65307]"

section \<open>\<^verbatim>\<open>hooks/tool_permission.py\<close>\<close>

definition txt_approval_unregistered :: ustr where \<comment> \<open>the approval tool is not registered\<close>
  "txt_approval_unregistered = [23457, 25209, 24037, 20855, 26410, 27880, 20876, 65306]"

definition txt_approval_parallel :: ustr where \<comment> \<open>an approval tool cannot run in parallel\<close>
  "txt_approval_parallel = [23457, 25209, 24037, 20855, 19981, 33021, 35774, 32622, 32, 112, 97, 114, 97, 108, 108,
     101, 108, 95, 115, 97, 102, 101, 61, 116, 114, 117, 101, 65306]"

section \<open>\<^verbatim>\<open>context/tool_round_limit_prompt.py\<close>\<close>

definition txt_round_limit_prompt :: ustr where \<comment> \<open>summarise without further tools\<close>
  "txt_round_limit_prompt = [24037, 20855, 35843, 29992, 36718, 25968, 24050, 36798, 21040, 19978, 38480, 12290, 35831,
     22522, 20110, 24403, 21069, 23545, 35805, 21644, 24050, 26377, 24037, 20855, 32467, 26524,
     65292, 24635, 32467, 26412, 27425, 20219, 21153, 24050, 32463, 23436, 25104, 30340, 22788,
     29702, 32467, 26524, 12290, 19981, 35201, 32487, 32493, 35843, 29992, 24037, 20855, 65292,
     19981, 35201, 21482, 35828, 26126, 36798, 21040, 19978, 38480, 12290, 21482, 33021, 36755,
     20986, 33258, 28982, 35821, 35328, 26368, 32456, 31572, 26696, 12290]"

end
