(* ===== verification/SessionStore.thy ===== *)
theory SessionStore
  imports ContextMemory RuntimeTexts Redaction
begin

text \<open>
  \<^verbatim>\<open>sessions/store.py\<close>: the directory of session directories, each with a session file and four
  JSONL files. A JSONL file is the list of its rows, a session file the JSON value it parses to,
  \<open>None\<close> when it is missing or no JSON. Every write asks the file system first, which may refuse it
  with an exception that changes nothing. A field of a stored row that has another JSON type than
  the program writes is read as its default.
\<close>

section \<open>Parameters\<close>

text \<open>\<open>datetime.fromisoformat\<close>: microseconds, and whether the text has a UTC offset.\<close>

datatype stamp = Naive int | Aware int

record store_env =
  iso :: "ustr \<Rightarrow> stamp option"
  dir_stamp :: "ustr \<Rightarrow> ustr"
  st_enc :: "ustr \<Rightarrow> nat"

section \<open>State\<close>

record session_dir =
  sd_name :: ustr
  sd_session :: "json option"
  sd_messages :: "json list"
  sd_traces :: "json list"
  sd_usage :: "json list"
  sd_tools :: "json list"

record disk =
  dk_dirs :: "session_dir list"
  dk_io :: "exn option tape"

definition empty_dir :: "ustr \<Rightarrow> session_dir" where
  "empty_dir name = \<lparr>sd_name = name, sd_session = None, sd_messages = [], sd_traces = [],
     sd_usage = [], sd_tools = []\<rparr>"

definition get_dir :: "session_dir list \<Rightarrow> ustr \<Rightarrow> session_dir option" where
  "get_dir ds name = find (\<lambda>d. sd_name d = name) ds"

definition update_dir :: "ustr \<Rightarrow> (session_dir \<Rightarrow> session_dir) \<Rightarrow> session_dir list \<Rightarrow> session_dir list" where
  "update_dir name f ds =
     (if get_dir ds name = None then ds @ [f (empty_dir name)]
      else map (\<lambda>d. if sd_name d = name then f d else d) ds)"

text \<open>A write that the file system may refuse; the parent directory is made when it is missing.\<close>

definition ask_io :: "(disk, unit) prog" where
  "ask_io dk = (let dk1 = dk\<lparr>dk_io := tape_tl (dk_io dk)\<rparr> in
     case dk_io dk 0 of Some e \<Rightarrow> (Inl e, dk1) | None \<Rightarrow> (Inr (), dk1))"

definition write_dir :: "ustr \<Rightarrow> (session_dir \<Rightarrow> session_dir) \<Rightarrow> (disk, unit) prog" where
  "write_dir name f = seq ask_io (\<lambda>_. modify (\<lambda>dk. dk\<lparr>dk_dirs := update_dir name f (dk_dirs dk)\<rparr>))"

definition remove_dir :: "ustr \<Rightarrow> (disk, unit) prog" where
  "remove_dir name =
     seq ask_io (\<lambda>_. modify (\<lambda>dk. dk\<lparr>dk_dirs := filter (\<lambda>d. sd_name d \<noteq> name) (dk_dirs dk)\<rparr>))"

section \<open>Directory names\<close>

definition utf8_char :: "nat \<Rightarrow> nat list" where
  "utf8_char c =
     (if c < 128 then [c]
      else if c < 2048 then [192 + c div 64, 128 + c mod 64]
      else if c < 65536 then [224 + c div 4096, 128 + c div 64 mod 64, 128 + c mod 64]
      else [240 + c div 262144, 128 + c div 4096 mod 64, 128 + c div 64 mod 64, 128 + c mod 64])"

definition utf8 :: "ustr \<Rightarrow> nat list" where
  "utf8 s = concat (map utf8_char s)"

text \<open>\<open>urllib.parse.quote(s, safe="")\<close>.\<close>

definition hex_upper :: "nat \<Rightarrow> nat" where
  "hex_upper n = (if n < 10 then 48 + n else 55 + n)"

definition url_quote :: "ustr \<Rightarrow> ustr" where
  "url_quote s = concat (map (\<lambda>b. if ascii_alnum b \<or> b \<in> {95, 46, 45, 126} then [b]
     else [37, hex_upper (b div 16), hex_upper (b mod 16)]) (utf8 s))"

section \<open>Rows\<close>

definition jstr :: "json \<Rightarrow> ustr \<Rightarrow> ustr option" where
  "jstr j k = (case jget j k of Some (JStr s) \<Rightarrow> Some s | _ \<Rightarrow> None)"

definition jstr_or :: "ustr \<Rightarrow> json \<Rightarrow> ustr \<Rightarrow> ustr" where
  "jstr_or def j k = (case jstr j k of Some s \<Rightarrow> s | None \<Rightarrow> def)"

definition jbool :: "json \<Rightarrow> ustr \<Rightarrow> bool option" where
  "jbool j k = (case jget j k of Some (JBool b) \<Rightarrow> Some b | _ \<Rightarrow> None)"

text \<open>\<open>int(value)\<close> of a number.\<close>

definition int_of :: "json \<Rightarrow> int option" where
  "int_of j = (case j of JInt i \<Rightarrow> Some i | JBool b \<Rightarrow> Some (if b then 1 else 0)
     | JFloat r \<Rightarrow> Some (if r < 0 then - \<lfloor>- r\<rfloor> else \<lfloor>r\<rfloor>) | _ \<Rightarrow> None)"

definition jint_or :: "int \<Rightarrow> json \<Rightarrow> ustr \<Rightarrow> int" where
  "jint_or def j k = (case Option.bind (jget j k) int_of of Some i \<Rightarrow> i | None \<Rightarrow> def)"

definition context_row :: "message_record \<Rightarrow> json" where
  "context_row m = JObj [(u ''role'', JStr (mr_role m)), (u ''content'', JStr (mr_content m))]"

definition message_row :: "message_record \<Rightarrow> json" where
  "message_row m = JObj [(u ''id'', JStr (mr_id m)), (u ''role'', JStr (mr_role m)),
     (u ''content'', JStr (mr_content m)), (u ''token_count'', JInt (mr_tokens m)),
     (u ''created_at'', JStr (mr_created m)), (u ''metadata'', mr_metadata m)]"

definition row_message :: "store_env \<Rightarrow> json \<Rightarrow> message_record" where
  "row_message env row =
     \<lparr>mr_id = jstr_or [] row (u ''id''), mr_session = jstr_or [] row (u ''session_id''),
      mr_role = jstr_or [] row (u ''role''), mr_content = jstr_or [] row (u ''content''),
      mr_name = jstr row (u ''name''), mr_tool_call = jstr row (u ''tool_call_id''),
      mr_tokens = jint_or (content_tokens (st_enc env) (jstr_or [] row (u ''content''))) row (u ''token_count''),
      mr_created = jstr_or [] row (u ''created_at''),
      mr_metadata = (case jget row (u ''metadata'') of Some m \<Rightarrow> m | None \<Rightarrow> JObj [])\<rparr>"

definition session_row :: "session \<Rightarrow> json" where
  "session_row s = JObj
     [(u ''id'', JStr (se_id s)), (u ''user_id'', JStr (se_user s)), (u ''channel'', JStr (se_channel s)),
      (u ''principal_id'', JStr (se_principal s)), (u ''conversation_id'', JStr (se_conversation s)),
      (u ''title'', JStr (se_title s)), (u ''summary'', JStr (se_summary s)),
      (u ''pinned'', JBool (se_pinned s)), (u ''archived'', JBool (se_archived s)),
      (u ''uncompacted_history'', JArr (map context_row (se_uncompacted s))),
      (u ''created_at'', JStr (se_created s)), (u ''updated_at'', JStr (se_updated s))]"

definition row_session :: "store_env \<Rightarrow> json \<Rightarrow> session" where
  "row_session env row =
     \<lparr>se_id = jstr_or [] row (u ''id''), se_user = jstr_or [] row (u ''user_id''),
      se_channel = jstr_or [] row (u ''channel''), se_title = jstr_or [] row (u ''title''),
      se_summary = jstr_or [] row (u ''summary''),
      se_pinned = (jbool row (u ''pinned'') = Some True), se_archived = (jbool row (u ''archived'') = Some True),
      se_uncompacted = (case jget row (u ''uncompacted_history'') of
          Some (JArr items) \<Rightarrow> map (row_message env) items | _ \<Rightarrow> []),
      se_created = jstr_or [] row (u ''created_at''), se_updated = jstr_or [] row (u ''updated_at''),
      se_principal = jstr_or [] row (u ''principal_id''),
      se_conversation = jstr_or [] row (u ''conversation_id'')\<rparr>"

definition session_string_fields :: "ustr list" where
  "session_string_fields = [u ''id'', u ''user_id'', u ''channel'', u ''principal_id'',
     u ''conversation_id'', u ''title'', u ''summary'', u ''created_at'', u ''updated_at'']"

text \<open>\<open>int(row["token_count"])\<close> of a history item raises, and the file counts as damaged.\<close>

definition history_item_ok :: "json \<Rightarrow> bool" where
  "history_item_ok item \<longleftrightarrow> (case item of JObj _ \<Rightarrow> True | _ \<Rightarrow> False)
     \<and> jstr item (u ''role'') \<noteq> None \<and> jstr item (u ''content'') \<noteq> None
     \<and> (case jget item (u ''token_count'') of None \<Rightarrow> True | Some v \<Rightarrow> int_of v \<noteq> None)"

definition aware_time :: "store_env \<Rightarrow> ustr \<Rightarrow> bool" where
  "aware_time env t \<longleftrightarrow> (case iso env t of Some (Aware _) \<Rightarrow> True | _ \<Rightarrow> False)"

definition valid_session_payload :: "store_env \<Rightarrow> json \<Rightarrow> bool" where
  "valid_session_payload env row \<longleftrightarrow>
     (case row of JObj _ \<Rightarrow> True | _ \<Rightarrow> False)
     \<and> list_all (\<lambda>k. jstr row k \<noteq> None) session_string_fields
     \<and> jstr row (u ''id'') \<noteq> Some []
     \<and> jbool row (u ''pinned'') \<noteq> None \<and> jbool row (u ''archived'') \<noteq> None
     \<and> (case jget row (u ''uncompacted_history'') of Some (JArr items) \<Rightarrow> list_all history_item_ok items | _ \<Rightarrow> False)
     \<and> aware_time env (jstr_or [] row (u ''created_at'')) \<and> aware_time env (jstr_or [] row (u ''updated_at''))"

definition read_session_file :: "store_env \<Rightarrow> json option \<Rightarrow> session option" where
  "read_session_file env f = (case f of None \<Rightarrow> None
     | Some row \<Rightarrow> (if valid_session_payload env row then Some (row_session env row) else None))"

section \<open>Finding a session\<close>

definition dir_session :: "store_env \<Rightarrow> session_dir \<Rightarrow> session option" where
  "dir_session env d = read_session_file env (sd_session d)"

definition holds_session :: "store_env \<Rightarrow> ustr \<Rightarrow> session_dir \<Rightarrow> bool" where
  "holds_session env sid d = (case dir_session env d of Some s \<Rightarrow> se_id s = sid | None \<Rightarrow> False)"

definition find_session_dir :: "store_env \<Rightarrow> session_dir list \<Rightarrow> ustr \<Rightarrow> ustr" where
  "find_session_dir env ds sid =
     (let legacy = url_quote sid in
      if (case get_dir ds legacy of Some d \<Rightarrow> holds_session env sid d | None \<Rightarrow> False) then legacy
      else case find (holds_session env sid) ds of Some d \<Rightarrow> sd_name d | None \<Rightarrow> legacy)"

definition the_dir :: "store_env \<Rightarrow> session_dir list \<Rightarrow> ustr \<Rightarrow> session_dir" where
  "the_dir env ds sid = (case get_dir ds (find_session_dir env ds sid) of
     Some d \<Rightarrow> d | None \<Rightarrow> empty_dir (find_session_dir env ds sid))"

definition load_session :: "store_env \<Rightarrow> session_dir list \<Rightarrow> ustr \<Rightarrow> session option" where
  "load_session env ds sid = dir_session env (the_dir env ds sid)"

definition has_session_record :: "session_dir list \<Rightarrow> ustr \<Rightarrow> bool" where
  "has_session_record ds sid \<longleftrightarrow> (\<exists>d \<in> set ds. case sd_session d of
     Some row \<Rightarrow> jget row (u ''id'') = Some (JStr sid) | None \<Rightarrow> False)"

definition in_session :: "store_env \<Rightarrow> ustr \<Rightarrow> (session_dir \<Rightarrow> session_dir) \<Rightarrow> (disk, unit) prog" where
  "in_session env sid f =
     seq (gets (\<lambda>dk. find_session_dir env (dk_dirs dk) sid)) (\<lambda>name. write_dir name f)"

definition write_session :: "store_env \<Rightarrow> session \<Rightarrow> (disk, unit) prog" where
  "write_session env s = in_session env (se_id s) (\<lambda>d. d\<lparr>sd_session := Some (session_row s)\<rparr>)"

section \<open>Sessions\<close>

record channel_route =
  cr_principal :: ustr
  cr_channel :: ustr
  cr_conversation :: ustr
  cr_session :: ustr

definition create_session :: "store_env \<Rightarrow> ustr \<Rightarrow> channel_route \<Rightarrow> ustr \<Rightarrow> (disk, session) prog" where
  "create_session env sid route now =
     (if cr_session route \<noteq> sid then raise (ValueError txt_route_session_mismatch)
      else
        (let s = \<lparr>se_id = sid, se_user = cr_principal route, se_channel = cr_channel route,
                  se_title = sid, se_summary = [], se_pinned = False, se_archived = False,
                  se_uncompacted = [], se_created = now, se_updated = now,
                  se_principal = cr_principal route, se_conversation = cr_conversation route\<rparr> in
         seq (write_dir (dir_stamp env now @ u ''_'' @ url_quote sid)
                (\<lambda>d. d\<lparr>sd_session := Some (session_row s)\<rparr>)) (\<lambda>_. ret s)))"

definition clear_session :: "store_env \<Rightarrow> ustr \<Rightarrow> (disk, unit) prog" where
  "clear_session env sid =
     seq (gets (\<lambda>dk. find_session_dir env (dk_dirs dk) sid)) (\<lambda>name.
     seq (gets (\<lambda>dk. get_dir (dk_dirs dk) name \<noteq> None)) (\<lambda>present.
       if present then remove_dir name else ret ()))"

text \<open>The age limit is in days, the present in microseconds.\<close>

definition expired :: "store_env \<Rightarrow> int \<Rightarrow> session_dir \<Rightarrow> bool" where
  "expired env deadline d = (case dir_session env d of None \<Rightarrow> False
     | Some s \<Rightarrow> (case iso env (se_updated s) of Some (Aware t) \<Rightarrow> t < deadline | _ \<Rightarrow> False))"

fun remove_expired :: "store_env \<Rightarrow> int \<Rightarrow> session_dir list \<Rightarrow> nat \<Rightarrow> (disk, nat) prog" where
  "remove_expired env deadline [] removed = ret removed"
| "remove_expired env deadline (d # ds) removed =
     (if expired env deadline d
      then seq (remove_dir (sd_name d)) (\<lambda>_. remove_expired env deadline ds (Suc removed))
      else remove_expired env deadline ds removed)"

definition cleanup_expired_sessions :: "store_env \<Rightarrow> int \<Rightarrow> int \<Rightarrow> (disk, nat) prog" where
  "cleanup_expired_sessions env now retention_days =
     (if retention_days \<le> 0 then ret 0
      else seq (gets dk_dirs) (\<lambda>ds.
        remove_expired env (now - retention_days * 86400000000) ds 0))"

definition touch_session :: "store_env \<Rightarrow> ustr \<Rightarrow> ustr \<Rightarrow> (disk, unit) prog" where
  "touch_session env sid now =
     seq (gets (\<lambda>dk. load_session env (dk_dirs dk) sid)) (\<lambda>found. case found of
       None \<Rightarrow> ret () | Some s \<Rightarrow> write_session env (s\<lparr>se_updated := now\<rparr>))"

definition update_summary :: "store_env \<Rightarrow> ustr \<Rightarrow> ustr \<Rightarrow> ustr \<Rightarrow> (disk, unit) prog" where
  "update_summary env sid summary now =
     seq (gets (\<lambda>dk. load_session env (dk_dirs dk) sid)) (\<lambda>found. case found of
       None \<Rightarrow> ret () | Some s \<Rightarrow> write_session env (s\<lparr>se_summary := summary, se_updated := now\<rparr>))"

definition update_uncompacted_history ::
  "store_env \<Rightarrow> ustr \<Rightarrow> message_record list \<Rightarrow> ustr \<Rightarrow> (disk, unit) prog" where
  "update_uncompacted_history env sid history now =
     seq (gets (\<lambda>dk. load_session env (dk_dirs dk) sid)) (\<lambda>found. case found of
       None \<Rightarrow> ret () | Some s \<Rightarrow> write_session env (s\<lparr>se_uncompacted := history, se_updated := now\<rparr>))"

definition update_session_metadata ::
  "store_env \<Rightarrow> ustr \<Rightarrow> ustr option \<Rightarrow> bool option \<Rightarrow> bool option \<Rightarrow> ustr \<Rightarrow> (disk, session option) prog"
where
  "update_session_metadata env sid title pinned archived now =
     seq (gets (\<lambda>dk. load_session env (dk_dirs dk) sid)) (\<lambda>found. case found of
       None \<Rightarrow> ret None
     | Some s \<Rightarrow>
         (let s1 = (case title of None \<Rightarrow> s | Some t \<Rightarrow> s\<lparr>se_title := t\<rparr>);
              s2 = (case pinned of None \<Rightarrow> s1 | Some b \<Rightarrow> s1\<lparr>se_pinned := b\<rparr>);
              s3 = (case archived of None \<Rightarrow> s2 | Some b \<Rightarrow> s2\<lparr>se_archived := b\<rparr>);
              s4 = s3\<lparr>se_updated := now\<rparr> in
          seq (write_session env s4) (\<lambda>_. ret (Some s4))))"

text \<open>\<open>list.sort(reverse=True)\<close> keeps the order of equal elements.\<close>

definition list_sessions ::
  "store_env \<Rightarrow> session_dir list \<Rightarrow> bool option \<Rightarrow> ustr option \<Rightarrow> ustr option \<Rightarrow> session list" where
  "list_sessions env ds archived channel owner =
     (let all = List.map_filter (dir_session env) ds;
          a = (case archived of None \<Rightarrow> all | Some b \<Rightarrow> filter (\<lambda>s. se_archived s = b) all);
          c = (case channel of None \<Rightarrow> a | Some x \<Rightarrow> filter (\<lambda>s. se_channel s = x) a);
          p = (case owner of None \<Rightarrow> c | Some x \<Rightarrow> filter (\<lambda>s. se_principal s = x) c) in
      sort_key (\<lambda>s. \<not> se_pinned s) (rev (sort_key se_updated (rev p))))"

section \<open>Messages\<close>

definition save_message ::
  "store_env \<Rightarrow> ustr \<Rightarrow> ustr \<Rightarrow> ustr \<Rightarrow> int \<Rightarrow> json option \<Rightarrow> ustr option \<Rightarrow> ustr option \<Rightarrow> ustr \<Rightarrow> ustr
     \<Rightarrow> (disk, message_record) prog" where
  "save_message env sid role content tokens metadata message_id created_at fresh now =
     (let m = \<lparr>mr_id = (case message_id of Some i \<Rightarrow> if i = [] then fresh else i | None \<Rightarrow> fresh),
               mr_session = sid, mr_role = role, mr_content = content, mr_name = None, mr_tool_call = None,
               mr_tokens = tokens,
               mr_created = (case created_at of Some t \<Rightarrow> if t = [] then now else t | None \<Rightarrow> now),
               mr_metadata = (case metadata of Some j \<Rightarrow> j | None \<Rightarrow> JObj [])\<rparr> in
      seq (in_session env sid (\<lambda>d. d\<lparr>sd_messages := sd_messages d @ [message_row m]\<rparr>)) (\<lambda>_.
      seq (touch_session env sid now) (\<lambda>_. ret m)))"

definition all_messages :: "store_env \<Rightarrow> session_dir list \<Rightarrow> ustr \<Rightarrow> message_record list" where
  "all_messages env ds sid = map (row_message env) (sd_messages (the_dir env ds sid))"

text \<open>\<open>rows[-limit:]\<close>.\<close>

definition recent_messages :: "store_env \<Rightarrow> session_dir list \<Rightarrow> ustr \<Rightarrow> int \<Rightarrow> message_record list" where
  "recent_messages env ds sid limit =
     map (row_message env) (let rows = sd_messages (the_dir env ds sid) in
       if limit > 0 then last_n (nat limit) rows else drop (nat (- limit)) rows)"

section \<open>Tool calls\<close>

record tool_record =
  tr_call_id :: "ustr option"
  tr_name :: ustr
  tr_args :: "(ustr \<times> json) list"
  tr_content :: ustr
  tr_error :: "ustr option"
  tr_duration :: real

definition tool_row :: "ustr \<Rightarrow> ustr \<Rightarrow> tool_record \<Rightarrow> json" where
  "tool_row turn now r = JObj
     [(u ''turn_id'', JStr turn),
      (u ''tool_call_id'', JStr (case tr_call_id r of Some i \<Rightarrow> i | None \<Rightarrow> [])),
      (u ''tool_name'', JStr (tr_name r)), (u ''args'', JObj (tr_args r)),
      (u ''content'', JStr (tr_content r)),
      (u ''error'', (case tr_error r of Some e \<Rightarrow> JStr e | None \<Rightarrow> JNull)),
      (u ''duration_ms'', JFloat (tr_duration r)), (u ''created_at'', JStr now)]"

definition save_tool_calls :: "store_env \<Rightarrow> ustr \<Rightarrow> ustr \<Rightarrow> tool_record list \<Rightarrow> ustr \<Rightarrow> (disk, unit) prog" where
  "save_tool_calls env turn sid calls now =
     (if calls = [] then ret ()
      else in_session env sid (\<lambda>d. d\<lparr>sd_tools := sd_tools d @ map (tool_row turn now) calls\<rparr>))"

section \<open>Token usage\<close>

text \<open>The part of a usage record that a delegation adds: who used the tokens, in which run and node.\<close>

record usage_tag =
  ut_scope :: ustr
  ut_run :: ustr
  ut_node :: "ustr option"
  ut_agent :: ustr

definition identifier_char :: "nat \<Rightarrow> bool" where
  "identifier_char c \<longleftrightarrow> ascii_alnum c \<or> c \<in> {95, 46, 58, 45}"

definition safe_identifier_text :: "ustr \<Rightarrow> bool" where
  "safe_identifier_text t \<longleftrightarrow> (case t of [] \<Rightarrow> False
     | c # cs \<Rightarrow> ascii_alnum c \<and> length cs \<le> 127 \<and> list_all identifier_char cs)"

definition safe_identifier :: "ustr \<Rightarrow> ustr \<Rightarrow> exn + ustr" where
  "safe_identifier value field =
     (if py_strip value = [] then Inl (ValueError (field @ txt_identifier_blank))
      else
        (let text = py_join [32] (py_split value) in
         if safe_identifier_text text then Inr text
         else Inl (ValueError (field @ txt_identifier_unsafe))))"

definition safe_optional_identifier :: "ustr option \<Rightarrow> exn + json" where
  "safe_optional_identifier value = (case value of None \<Rightarrow> Inr JNull
     | Some v \<Rightarrow> bindE (safe_identifier v (u ''node_id'')) (\<lambda>t. Inr (JStr t)))"

definition usage_fields :: "ustr \<Rightarrow> token_usage \<Rightarrow> int \<Rightarrow> (ustr \<times> json) list" where
  "usage_fields turn us ledger_total =
     [(u ''turn_id'', JStr turn), (u ''input_tokens'', JInt (tu_input us)),
      (u ''output_tokens'', JInt (tu_output us)), (u ''turn_total_tokens'', JInt (tu_turn us)),
      (u ''total_tokens'', JInt ledger_total), (u ''compacted'', JInt (tu_compacted us))]"

definition tag_fields :: "usage_tag \<Rightarrow> exn + (ustr \<times> json) list" where
  "tag_fields tag =
     (if ut_scope tag \<notin> {u ''worker'', u ''parent''} then Inl (ValueError txt_usage_scope)
      else bindE (safe_identifier (ut_run tag) (u ''run_id'')) (\<lambda>run.
           bindE (safe_optional_identifier (ut_node tag)) (\<lambda>node.
           bindE (safe_identifier (ut_agent tag) (u ''agent_id'')) (\<lambda>agent.
             Inr [(u ''run_id'', JStr run), (u ''node_id'', node), (u ''agent_id'', JStr agent),
                  (u ''scope'', JStr (ut_scope tag))]))))"

text \<open>The last cumulative total of a ledger.\<close>

definition ledger_total :: "json list \<Rightarrow> int" where
  "ledger_total rows = (if rows = [] then 0 else jint_or 0 (last rows) (u ''total_tokens''))"

definition last_total_tokens :: "store_env \<Rightarrow> session_dir list \<Rightarrow> ustr \<Rightarrow> int" where
  "last_total_tokens env ds sid = ledger_total (sd_usage (the_dir env ds sid))"

definition save_true_token_usage ::
  "store_env \<Rightarrow> ustr \<Rightarrow> ustr \<Rightarrow> token_usage \<Rightarrow> usage_tag option \<Rightarrow> (disk, unit) prog" where
  "save_true_token_usage env turn sid us tag = (case tag of
     None \<Rightarrow> in_session env sid (\<lambda>d. d\<lparr>sd_usage := sd_usage d @ [JObj (usage_fields turn us (tu_total us))]\<rparr>)
   | Some t \<Rightarrow>
       seq (lift (tag_fields t)) (\<lambda>extra.
       seq (gets (\<lambda>dk. last_total_tokens env (dk_dirs dk) sid)) (\<lambda>previous.
         in_session env sid (\<lambda>d. d\<lparr>sd_usage := sd_usage d @
           [JObj (usage_fields turn us (previous + tu_turn us) @ extra)]\<rparr>))))"

end
