(* ===== verification/SystemTexts.thy ===== *)
theory SystemTexts
  imports Prelude
begin

text \<open>
  The fixed texts of the program, code point by code point: error messages and replies the code
  stores, compares or shows. Each name says what the text says; the order is the order of the
  source files.
\<close>

section \<open>\<^verbatim>\<open>bus/messages.py\<close>\<close>

definition txt_route_required :: ustr where \<comment> \<open>the route is required\<close>
  "txt_route_required = [114, 111, 117, 116, 101, 32, 25110, 32, 115, 101, 115, 115, 105, 111, 110, 95, 105, 100,
     12289, 117, 115, 101, 114, 95, 105, 100, 12289, 99, 104, 97, 110, 110, 101, 108, 32, 22343,
     20026, 24517, 22635]"

definition txt_session_route :: ustr where \<comment> \<open>session id and route disagree\<close>
  "txt_session_route = [115, 101, 115, 115, 105, 111, 110, 95, 105, 100, 32, 24517, 39035, 19982, 32, 114, 111,
     117, 116, 101, 32, 19968, 33268]"

definition txt_user_route :: ustr where \<comment> \<open>user id and route disagree\<close>
  "txt_user_route = [117, 115, 101, 114, 95, 105, 100, 32, 24517, 39035, 19982, 32, 114, 111, 117, 116, 101,
     32, 19968, 33268]"

definition txt_channel_route :: ustr where \<comment> \<open>channel and route disagree\<close>
  "txt_channel_route = [99, 104, 97, 110, 110, 101, 108, 32, 24517, 39035, 19982, 32, 114, 111, 117, 116, 101, 32,
     19968, 33268]"

definition txt_route_differs :: ustr where \<comment> \<open>two different routes\<close>
  "txt_route_differs = [114, 111, 117, 116, 101, 32, 21442, 25968, 19981, 19968, 33268]"

definition txt_recipient_differs :: ustr where \<comment> \<open>two different recipients\<close>
  "txt_recipient_differs = [114, 101, 99, 105, 112, 105, 101, 110, 116, 32, 21442, 25968, 19981, 19968, 33268]"

definition txt_recipient_required :: ustr where \<comment> \<open>the recipient is required\<close>
  "txt_recipient_required = [114, 101, 99, 105, 112, 105, 101, 110, 116, 32, 25110, 32, 116, 97, 114, 103, 101, 116,
     95, 99, 104, 97, 110, 110, 101, 108, 32, 20026, 24517, 22635]"

definition txt_target_recipient :: ustr where \<comment> \<open>target and recipient disagree\<close>
  "txt_target_recipient = [116, 97, 114, 103, 101, 116, 95, 99, 104, 97, 110, 110, 101, 108, 32, 24517, 39035, 19982,
     32, 114, 101, 99, 105, 112, 105, 101, 110, 116, 32, 19968, 33268]"

section \<open>\<^verbatim>\<open>config/settings.py\<close>\<close>

definition txt_permissions_object :: ustr where \<comment> \<open>the permissions must be an object\<close>
  "txt_permissions_object = [116, 111, 111, 108, 95, 112, 101, 114, 109, 105, 115, 115, 105, 111, 110, 115, 32, 24517,
     39035, 26159, 32, 111, 98, 106, 101, 99, 116]"

section \<open>\<^verbatim>\<open>sessions/manager.py\<close>\<close>

definition txt_coerce_mixed :: ustr where \<comment> \<open>a route and old identity arguments\<close>
  "txt_coerce_mixed = [114, 111, 117, 116, 101, 32, 19982, 26087, 36523, 20221, 21442, 25968, 19981, 21487,
     28151, 29992]"

definition txt_coerce_missing :: ustr where \<comment> \<open>user and channel are required\<close>
  "txt_coerce_missing = [117, 115, 101, 114, 95, 105, 100, 32, 21644, 32, 99, 104, 97, 110, 110, 101, 108, 32,
     20026, 24517, 22635]"

section \<open>\<^verbatim>\<open>gateway/principals.py\<close>\<close>

definition txt_principal_blank :: ustr where \<comment> \<open>the principal id must not be empty\<close>
  "txt_principal_blank = [112, 114, 105, 110, 99, 105, 112, 97, 108, 95, 105, 100, 32, 19981, 33021, 20026, 31354]"

definition txt_owner_root :: ustr where \<comment> \<open>the root of the owner cannot be removed\<close>
  "txt_owner_root = [79, 119, 110, 101, 114, 32, 20027, 20307, 25968, 25454, 26681, 19981, 21487, 31227, 38500]"

definition txt_route_principal :: ustr where \<comment> \<open>the principal id of the route is invalid\<close>
  "txt_route_principal = [114, 111, 117, 116, 101, 32, 112, 114, 105, 110, 99, 105, 112, 97, 108, 32, 105, 100, 32,
     26080, 25928]"

definition txt_owner_invalid :: ustr where \<comment> \<open>the owner principal id is invalid\<close>
  "txt_owner_invalid = [111, 119, 110, 101, 114, 32, 112, 114, 105, 110, 99, 105, 112, 97, 108, 32, 105, 100, 32,
     26080, 25928]"

section \<open>\<^verbatim>\<open>hooks/channel_status.py\<close>\<close>

definition txt_compacting :: ustr where \<comment> \<open>the context is being compacted\<close>
  "txt_compacting = [27491, 22312, 21387, 32553, 20250, 35805, 19978, 19979, 25991, 46, 46, 46]"

definition txt_compacted :: ustr where \<comment> \<open>compaction is done\<close>
  "txt_compacted = [21387, 32553, 23436, 25104, 65306]"

definition txt_compacted_messages :: ustr where \<comment> \<open>so many messages compacted\<close>
  "txt_compacted_messages = [24050, 21387, 32553, 32]"

definition txt_messages_comma :: ustr where \<comment> \<open>messages\<close>
  "txt_messages_comma = [32, 26465, 28040, 24687, 65292]"

definition txt_compress_word :: ustr where \<comment> \<open>compressed\<close>
  "txt_compress_word = [21387, 32553, 32]"

definition txt_tokens_comma :: ustr where \<comment> \<open>tokens\<close>
  "txt_tokens_comma = [32, 116, 111, 107, 101, 110, 115, 65292]"

definition txt_keep_recent :: ustr where \<comment> \<open>the recent ones are kept\<close>
  "txt_keep_recent = [20445, 30041, 26368, 36817, 32]"

definition txt_tokens_raw :: ustr where \<comment> \<open>tokens of raw text\<close>
  "txt_tokens_raw = [32, 116, 111, 107, 101, 110, 115, 32, 21407, 25991, 12290]"

end
