(* ===== verification/Messages.thy ===== *)
theory Messages
  imports SessionStore SystemTexts
begin

text \<open>
  The messages between channels and the runtime (\<^verbatim>\<open>bus/messages.py\<close>), what an instant-messaging
  channel may ask for and which tools it may use (\<^verbatim>\<open>channels/policy.py\<close>), and the choice of the
  adapter of a turn (\<open>ChannelRouter\<close> of \<^verbatim>\<open>channels/base.py\<close>). Fresh identifiers and the current time
  are arguments of the constructors.
\<close>

section \<open>Inbound messages\<close>

record inbound =
  im_id :: ustr
  im_session :: ustr
  im_route :: channel_route
  im_content :: ustr
  im_attachments :: "attachment list"
  im_metadata :: "(ustr \<times> json) list"
  im_created :: ustr

text \<open>The checks of the old identity fields against a route that is given.\<close>

definition agrees :: "ustr option \<Rightarrow> ustr \<Rightarrow> bool" where
  "agrees given actual \<longleftrightarrow> (case given of None \<Rightarrow> True | Some x \<Rightarrow> x = actual)"

definition normal_route ::
  "ustr option \<Rightarrow> ustr option \<Rightarrow> ustr option \<Rightarrow> channel_route option \<Rightarrow> exn + channel_route" where
  "normal_route sid usr channel route = (case route of
     None \<Rightarrow> (case (sid, usr, channel) of
         (Some s, Some x, Some c) \<Rightarrow> Inr \<lparr>cr_principal = x, cr_channel = c, cr_conversation = s, cr_session = s\<rparr>
       | _ \<Rightarrow> Inl (TypeError txt_route_required))
   | Some r \<Rightarrow>
       (if \<not> agrees sid (cr_session r) then Inl (ValueError txt_session_route)
        else if \<not> agrees usr (cr_principal r) then Inl (ValueError txt_user_route)
        else if \<not> agrees channel (cr_channel r) then Inl (ValueError txt_channel_route)
        else Inr r))"

definition or_default :: "ustr option \<Rightarrow> ustr \<Rightarrow> ustr" where
  "or_default x def = (case x of None \<Rightarrow> def | Some t \<Rightarrow> if t = [] then def else t)"

definition mk_inbound ::
  "ustr \<Rightarrow> ustr option \<Rightarrow> ustr option \<Rightarrow> ustr option \<Rightarrow> ustr \<Rightarrow> attachment list \<Rightarrow> (ustr \<times> json) list
     \<Rightarrow> ustr option \<Rightarrow> channel_route option \<Rightarrow> ustr \<Rightarrow> exn + inbound" where
  "mk_inbound mid sid usr channel content ats meta created route now =
     bindE (normal_route sid usr channel route) (\<lambda>r.
       Inr \<lparr>im_id = mid, im_session = cr_session r, im_route = r, im_content = content,
            im_attachments = ats, im_metadata = meta, im_created = or_default created now\<rparr>)"

text \<open>\<open>InboundMessage.new\<close>: the second argument may be a route.\<close>

datatype session_arg = Session_id ustr | Session_route channel_route

definition new_inbound ::
  "ustr \<Rightarrow> session_arg option \<Rightarrow> ustr option \<Rightarrow> ustr option \<Rightarrow> channel_route option \<Rightarrow> ustr \<Rightarrow> ustr
     \<Rightarrow> exn + inbound" where
  "new_inbound content arg usr channel route fresh now = (case arg of
     Some (Session_route r) \<Rightarrow>
       (if route \<noteq> None \<and> route \<noteq> Some r then Inl (ValueError txt_route_differs)
        else mk_inbound fresh None usr channel content [] [] None (Some r) now)
   | Some (Session_id s) \<Rightarrow> mk_inbound fresh (Some s) usr channel content [] [] None route now
   | None \<Rightarrow> mk_inbound fresh None usr channel content [] [] None route now)"

lemma mk_inbound_session:
  "mk_inbound mid sid usr channel content ats meta created route now = Inr m \<Longrightarrow>
     im_session m = cr_session (im_route m)"
  by (auto simp: mk_inbound_def bindE_eq_Inr)

section \<open>Outbound messages\<close>

record recipient =
  rp_principal :: ustr
  rp_channel :: ustr
  rp_conversation :: ustr

record outbound =
  om_id :: ustr
  om_session :: ustr
  om_recipient :: recipient
  om_content :: ustr
  om_event_type :: ustr
  om_event_id :: ustr
  om_disposition :: ustr
  om_metadata :: "(ustr \<times> json) list"
  om_created :: ustr

datatype target = To_channel ustr | To_recipient recipient

definition normal_recipient :: "ustr \<Rightarrow> target option \<Rightarrow> recipient option \<Rightarrow> exn + recipient" where
  "normal_recipient sid target rcp = (case target of
     Some (To_recipient r) \<Rightarrow>
       (if rcp \<noteq> None \<and> rcp \<noteq> Some r then Inl (ValueError txt_recipient_differs) else Inr r)
   | Some (To_channel c) \<Rightarrow> (case rcp of
         None \<Rightarrow> Inr \<lparr>rp_principal = u ''legacy'', rp_channel = c, rp_conversation = sid\<rparr>
       | Some r \<Rightarrow> (if c \<noteq> rp_channel r then Inl (ValueError txt_target_recipient) else Inr r))
   | None \<Rightarrow> (case rcp of None \<Rightarrow> Inl (TypeError txt_recipient_required) | Some r \<Rightarrow> Inr r))"

definition mk_outbound ::
  "ustr \<Rightarrow> ustr \<Rightarrow> target option \<Rightarrow> ustr \<Rightarrow> ustr \<Rightarrow> recipient option \<Rightarrow> ustr option \<Rightarrow> ustr \<Rightarrow> ustr \<Rightarrow> exn + outbound"
where
  "mk_outbound oid sid target content event_type rcp event_id disposition now =
     bindE (normal_recipient sid target rcp) (\<lambda>r.
       if disposition \<notin> {u ''chat_reply'', u ''proactive_notification''} then Inl (ValueError txt_disposition)
       else Inr \<lparr>om_id = oid, om_session = sid, om_recipient = r, om_content = content,
                 om_event_type = event_type, om_event_id = or_default event_id oid,
                 om_disposition = disposition, om_metadata = [], om_created = now\<rparr>)"

definition new_outbound :: "ustr \<Rightarrow> target \<Rightarrow> ustr \<Rightarrow> ustr option \<Rightarrow> ustr \<Rightarrow> ustr \<Rightarrow> ustr \<Rightarrow> exn + outbound" where
  "new_outbound sid target content event_id disposition fresh now =
     mk_outbound fresh sid (Some target) content (u ''response.completed'') None event_id disposition now"

definition completed_outbound ::
  "ustr \<Rightarrow> target \<Rightarrow> ustr \<Rightarrow> ustr option \<Rightarrow> ustr \<Rightarrow> ustr \<Rightarrow> ustr \<Rightarrow> exn + outbound" where
  "completed_outbound sid target content event_id disposition fresh now =
     new_outbound sid target content event_id disposition fresh now"

definition started_outbound :: "ustr \<Rightarrow> target \<Rightarrow> ustr \<Rightarrow> ustr \<Rightarrow> exn + outbound" where
  "started_outbound sid target fresh now =
     mk_outbound fresh sid (Some target) [] (u ''response.started'') None None (u ''chat_reply'') now"

definition delta_outbound :: "ustr \<Rightarrow> target \<Rightarrow> ustr \<Rightarrow> ustr \<Rightarrow> ustr \<Rightarrow> exn + outbound" where
  "delta_outbound sid target content fresh now =
     mk_outbound fresh sid (Some target) content (u ''response.delta'') None None (u ''chat_reply'') now"

definition error_outbound :: "ustr \<Rightarrow> target \<Rightarrow> ustr \<Rightarrow> ustr \<Rightarrow> ustr \<Rightarrow> exn + outbound" where
  "error_outbound sid target content fresh now =
     mk_outbound fresh sid (Some target) content (u ''response.error'') None None (u ''chat_reply'') now"

section \<open>Channel policy\<close>

definition im_channels :: "ustr list" where
  "im_channels = [u ''feishu'', u ''weixin'']"

definition starts_with :: "ustr \<Rightarrow> ustr \<Rightarrow> bool" where
  "starts_with s p \<longleftrightarrow> take (length p) s = p"

definition im_command_rejection :: "channel_route \<Rightarrow> ustr \<Rightarrow> ustr option" where
  "im_command_rejection route content =
     (if cr_channel route \<notin> set im_channels then None
      else
        (let command = py_strip content in
         if command = u ''/new'' then Some txt_im_new
         else if command = u ''/exit'' then Some txt_im_exit
         else if starts_with command (u ''/approve'') then Some txt_im_approve
         else if command = u ''/multi'' \<or> starts_with command (u ''/multi '') then Some txt_im_multi
         else None))"

text \<open>
  \<open>DefaultChannelToolPolicy\<close>: the registered tools as pairs of name and approval flag; \<open>None\<close>
  leaves every tool in place.
\<close>

definition allowed_tool_names :: "channel_route \<Rightarrow> (ustr \<times> bool) list \<Rightarrow> ustr list \<Rightarrow> ustr list option" where
  "allowed_tool_names route tools approval_required =
     (if cr_channel route \<notin> set im_channels then None
      else Some (map fst (filter (\<lambda>(name, approval). name \<notin> set approval_required \<and> \<not> approval) tools)))"

section \<open>Adapters\<close>

text \<open>
  A factory is asked with the message and, when it takes no argument, without; an adapter is named
  by a value of type \<open>'a\<close>. The silent adapter takes no output and refuses every approval.
\<close>

datatype 'a factory = With_message "inbound \<Rightarrow> 'a" | Plain 'a

definition create_adapter :: "'a \<Rightarrow> (ustr, 'a factory) dict \<Rightarrow> inbound \<Rightarrow> 'a" where
  "create_adapter silent factories m = (case dict_get factories (cr_channel (im_route m)) of
     None \<Rightarrow> silent | Some (With_message f) \<Rightarrow> f m | Some (Plain a) \<Rightarrow> a)"

definition silent_request_tool_approval :: "ustr option" where
  "silent_request_tool_approval = Some txt_no_approval_channel"

end
