(* ===== verification/RunHistory.thy ===== *)
theory RunHistory
  imports SessionStore
begin

text \<open>
  The multi-agent history of a session in \<^verbatim>\<open>sessions/store.py\<close>: what of a trace is written, the view
  of the runs that is read back from the rows (\<open>read_multi_agent_runs\<close>), and the recovery after a
  restart, which closes every run that has no terminal row (\<open>recover_interrupted_runs\<close>). A member
  test with a value that is no string is \<open>False\<close>; the program only writes strings there.
\<close>

section \<open>Writing traces\<close>

record state_trace =
  sx_turn :: ustr
  sx_session :: ustr
  sx_state :: ustr
  sx_duration :: real
  sx_event :: ustr
  sx_error :: "ustr option"
  sx_metadata :: json

definition one_line :: "ustr \<Rightarrow> ustr" where
  "one_line s = py_join [32] (py_split s)"

definition real_of_json :: "json \<Rightarrow> real option" where
  "real_of_json j = (case j of JInt i \<Rightarrow> Some (of_int i) | JFloat r \<Rightarrow> Some r | _ \<Rightarrow> None)"

text \<open>The integer entries of a usage object, those of a number type.\<close>

definition safe_usage :: "(ustr \<times> json) list \<Rightarrow> (ustr \<times> json) list" where
  "safe_usage kvs = List.map_filter (\<lambda>name. case dict_get kvs name of
       Some (JInt i) \<Rightarrow> Some (name, JInt i)
     | Some (JFloat r) \<Rightarrow> map_option (\<lambda>i. (name, JInt i)) (int_of (JFloat r))
     | _ \<Rightarrow> None) [u ''input_tokens'', u ''output_tokens'', u ''turn_total_tokens'']"

definition safe_entry :: "ustr \<Rightarrow> json option \<Rightarrow> json option" where
  "safe_entry key value =
     (if key = u ''parent_request_id'' then (case value of
        Some (JStr s) \<Rightarrow> (if safe_identifier_text (one_line s) then Some (JStr (one_line s)) else None) | _ \<Rightarrow> None)
      else if key \<in> {u ''run_id'', u ''task_label'', u ''strategy'', u ''status'', u ''error_code''} then (case value of
        Some (JStr s) \<Rightarrow> Some (JStr (take 256 (one_line s))) | _ \<Rightarrow> None)
      else if key = u ''node_id'' then (case value of
        None \<Rightarrow> Some JNull | Some JNull \<Rightarrow> Some JNull | Some (JStr s) \<Rightarrow> Some (JStr (take 128 s)) | _ \<Rightarrow> None)
      else if key \<in> {u ''error'', u ''content''} then (case value of
        Some (JStr s) \<Rightarrow> Some (JStr (if key = u ''content'' then one_line s else take 256 (one_line s))) | _ \<Rightarrow> None)
      else if key = u ''usage'' then (case value of Some (JObj kvs) \<Rightarrow> Some (JObj (safe_usage kvs)) | _ \<Rightarrow> None)
      else if key = u ''duration_ms'' then
        map_option (\<lambda>r. JFloat (max 0 r)) (Option.bind value real_of_json)
      else value)"

definition safe_metadata_keys :: "ustr list" where
  "safe_metadata_keys = [u ''run_id'', u ''node_id'', u ''parent_request_id'', u ''task_label'',
     u ''strategy'', u ''status'', u ''duration_ms'', u ''usage'', u ''error_code'', u ''error'', u ''content'']"

definition safe_multi_agent_metadata :: "json \<Rightarrow> json" where
  "safe_multi_agent_metadata metadata = (case metadata of
       JObj kvs \<Rightarrow> JObj (List.map_filter (\<lambda>k. map_option (Pair k) (safe_entry k (dict_get kvs k))) safe_metadata_keys)
     | _ \<Rightarrow> JObj [])"

definition trace_row :: "state_trace \<Rightarrow> json" where
  "trace_row t = JObj
     [(u ''turn_id'', JStr (sx_turn t)), (u ''state'', JStr (sx_state t)),
      (u ''duration_ms'', JFloat (sx_duration t)), (u ''event'', JStr (sx_event t)),
      (u ''error'', (case sx_error t of Some e \<Rightarrow> JStr e | None \<Rightarrow> JNull)),
      (u ''metadata'', (if sx_state t = u ''MULTI_AGENT'' then safe_multi_agent_metadata (sx_metadata t)
        else sx_metadata t))]"

definition save_turn_traces :: "store_env \<Rightarrow> state_trace list \<Rightarrow> (disk, unit) prog" where
  "save_turn_traces env traces = (case traces of [] \<Rightarrow> ret ()
     | t # _ \<Rightarrow> in_session env (sx_session t) (\<lambda>d. d\<lparr>sd_traces := sd_traces d @ map trace_row traces\<rparr>))"

section \<open>Reading rows\<close>

definition multi_agent_event_types :: "ustr list" where
  "multi_agent_event_types = [u ''multi_agent.run.started'', u ''multi_agent.node.updated'',
     u ''multi_agent.run.completed'', u ''multi_agent.run.failed'', u ''multi_agent.run.cancelled'']"

definition run_terminal_events :: "ustr list" where
  "run_terminal_events = [u ''multi_agent.run.completed'', u ''multi_agent.run.failed'', u ''multi_agent.run.cancelled'']"

definition run_terminal_statuses :: "ustr list" where
  "run_terminal_statuses = [u ''completed'', u ''failed'', u ''timed_out'', u ''cancelled'', u ''interrupted'']"

text \<open>Event, run and metadata of a row both readers look at.\<close>

definition run_row :: "json \<Rightarrow> (ustr \<times> ustr \<times> json) option" where
  "run_row row =
     (if jstr row (u ''state'') \<noteq> Some (u ''MULTI_AGENT'') then None
      else case (jget row (u ''metadata''), jstr row (u ''event'')) of
        (Some (JObj kvs), Some event) \<Rightarrow>
          (if event \<notin> set multi_agent_event_types then None
           else case jstr (JObj kvs) (u ''run_id'') of
             None \<Rightarrow> None | Some rid \<Rightarrow> if rid = [] then None else Some (event, rid, JObj kvs))
      | _ \<Rightarrow> None)"

definition status_in :: "json \<Rightarrow> ustr list \<Rightarrow> bool" where
  "status_in m sts \<longleftrightarrow> (case jstr m (u ''status'') of Some s \<Rightarrow> s \<in> set sts | None \<Rightarrow> False)"

section \<open>The view of the runs\<close>

record node_view =
  nv_id :: ustr
  nv_role :: json
  nv_status :: ustr
  nv_duration :: json
  nv_content :: json
  nv_error_code :: json
  nv_error :: json

record usage_sum =
  uv_input :: int
  uv_output :: int
  uv_turn :: int

record run_view =
  rv_id :: ustr
  rv_status :: ustr
  rv_strategy :: json
  rv_nodes :: "node_view list"
  rv_error_code :: json
  rv_error :: json
  rv_usage :: "(usage_sum \<times> usage_sum) option"
  rv_duration :: json
  rv_parent :: "ustr option"

record views =
  vs_runs :: "(ustr, run_view) dict"
  vs_ended :: "ustr list"
  vs_ended_nodes :: "(ustr \<times> ustr) list"

definition jnum :: "json \<Rightarrow> ustr \<Rightarrow> json option" where
  "jnum j k = (case jget j k of Some (JInt i) \<Rightarrow> Some (JInt i) | Some (JFloat r) \<Rightarrow> Some (JFloat r)
     | Some (JBool b) \<Rightarrow> Some (JBool b) | _ \<Rightarrow> None)"

definition jget_or :: "json \<Rightarrow> json \<Rightarrow> ustr \<Rightarrow> json" where
  "jget_or def j k = (case jget j k of Some v \<Rightarrow> v | None \<Rightarrow> def)"

definition nonempty :: "ustr option \<Rightarrow> ustr option" where
  "nonempty x = (case x of Some s \<Rightarrow> if s = [] then None else Some s | None \<Rightarrow> None)"

definition new_view :: "ustr \<Rightarrow> json \<Rightarrow> run_view" where
  "new_view rid m = \<lparr>rv_id = rid, rv_status = u ''queued'', rv_strategy = jget_or (JStr []) m (u ''strategy''),
     rv_nodes = [], rv_error_code = JNull, rv_error = JNull, rv_usage = None, rv_duration = JNull,
     rv_parent = nonempty (jstr m (u ''parent_request_id''))\<rparr>"

text \<open>\<open>if found: x[field] = found\<close>.\<close>

definition put_some :: "'a option \<Rightarrow> ('a \<Rightarrow> 'v \<Rightarrow> 'v) \<Rightarrow> 'v \<Rightarrow> 'v" where
  "put_some x f v = (case x of Some a \<Rightarrow> f a v | None \<Rightarrow> v)"

definition start_view :: "json \<Rightarrow> run_view \<Rightarrow> run_view" where
  "start_view m v =
     put_some (jnum m (u ''duration_ms'')) (\<lambda>d v. v\<lparr>rv_duration := d\<rparr>)
     (put_some (jstr m (u ''strategy'')) (\<lambda>s v. v\<lparr>rv_strategy := JStr s\<rparr>)
     (put_some (nonempty (jstr m (u ''status''))) (\<lambda>s v. v\<lparr>rv_status := s\<rparr>) v))"

definition node_entry :: "ustr \<Rightarrow> json \<Rightarrow> node_view \<Rightarrow> node_view" where
  "node_entry nid m n =
     put_some (jstr m (u ''error'')) (\<lambda>e n. n\<lparr>nv_error := JStr (take 256 e)\<rparr>)
     (put_some (jstr m (u ''error_code'')) (\<lambda>e n. n\<lparr>nv_error_code := JStr e\<rparr>)
     (put_some (jstr m (u ''content'')) (\<lambda>c n. n\<lparr>nv_content := JStr c\<rparr>)
     (put_some (jnum m (u ''duration_ms'')) (\<lambda>d n. n\<lparr>nv_duration := d\<rparr>)
     (put_some (jstr m (u ''task_label'')) (\<lambda>t n. n\<lparr>nv_role := JStr t\<rparr>)
     (put_some (nonempty (jstr m (u ''status''))) (\<lambda>s n. n\<lparr>nv_status := s\<rparr>) n)))))"

definition new_node_view :: "ustr \<Rightarrow> json \<Rightarrow> node_view" where
  "new_node_view nid m = \<lparr>nv_id = nid, nv_role = jget_or (JStr nid) m (u ''task_label''),
     nv_status = u ''queued'', nv_duration = JNull, nv_content = JNull, nv_error_code = JNull, nv_error = JNull\<rparr>"

definition node_step :: "ustr \<Rightarrow> json \<Rightarrow> run_view \<Rightarrow> run_view" where
  "node_step nid m v =
     (let nodes = (if find (\<lambda>n. nv_id n = nid) (rv_nodes v) = None
                   then rv_nodes v @ [new_node_view nid m] else rv_nodes v) in
      v\<lparr>rv_nodes := map (\<lambda>n. if nv_id n = nid then node_entry nid m n else n) nodes\<rparr>)"

definition end_view :: "json \<Rightarrow> run_view \<Rightarrow> run_view" where
  "end_view m v =
     put_some (jnum m (u ''duration_ms'')) (\<lambda>d v. v\<lparr>rv_duration := d\<rparr>)
     ((put_some (nonempty (jstr m (u ''status''))) (\<lambda>s v. v\<lparr>rv_status := s\<rparr>) v)
       \<lparr>rv_error_code := jget_or JNull m (u ''error_code''), rv_error := jget_or JNull m (u ''error'')\<rparr>)"

definition on_view :: "ustr \<Rightarrow> (run_view \<Rightarrow> run_view) \<Rightarrow> views \<Rightarrow> views" where
  "on_view rid f vs = vs\<lparr>vs_runs := map (\<lambda>(k, v). (k, if k = rid then f v else v)) (vs_runs vs)\<rparr>"

definition ensure_view :: "ustr \<Rightarrow> json \<Rightarrow> views \<Rightarrow> views" where
  "ensure_view rid m vs = (if dict_get (vs_runs vs) rid = None
     then vs\<lparr>vs_runs := dict_put rid (new_view rid m) (vs_runs vs)\<rparr> else vs)"

definition view_row :: "json \<Rightarrow> views \<Rightarrow> views" where
  "view_row row vs = (case run_row row of None \<Rightarrow> vs
     | Some (event, rid, m) \<Rightarrow>
         (let vs1 = ensure_view rid m vs in
          if event = u ''multi_agent.run.started'' then
            (if rid \<in> set (vs_ended vs1) then vs1 else on_view rid (start_view m) vs1)
          else if event = u ''multi_agent.node.updated'' then
            (case nonempty (jstr m (u ''node_id'')) of None \<Rightarrow> vs1
             | Some nid \<Rightarrow>
                 (if (rid, nid) \<in> set (vs_ended_nodes vs1) then vs1
                  else
                    (let vs2 = on_view rid (node_step nid m) vs1 in
                     if status_in m run_terminal_statuses
                     then vs2\<lparr>vs_ended_nodes := (rid, nid) # vs_ended_nodes vs2\<rparr> else vs2)))
          else if rid \<notin> set (vs_ended vs1) \<and> status_in m run_terminal_statuses then
            (let vs2 = on_view rid (end_view m) vs1 in vs2\<lparr>vs_ended := rid # vs_ended vs2\<rparr>)
          else vs1))"

definition view_rows :: "json list \<Rightarrow> views" where
  "view_rows rows = fold view_row rows \<lparr>vs_runs = [], vs_ended = [], vs_ended_nodes = []\<rparr>"

definition usage_row_fields :: "json \<Rightarrow> usage_sum \<Rightarrow> usage_sum" where
  "usage_row_fields row s = \<lparr>uv_input = uv_input s + jint_or 0 row (u ''input_tokens''),
     uv_output = uv_output s + jint_or 0 row (u ''output_tokens''),
     uv_turn = uv_turn s + jint_or 0 row (u ''turn_total_tokens'')\<rparr>"

definition no_sum :: usage_sum where
  "no_sum = \<lparr>uv_input = 0, uv_output = 0, uv_turn = 0\<rparr>"

text \<open>\<open>_multi_agent_usage_summary\<close>: the tokens of the workers, and of the workers and the parent.\<close>

definition usage_summary :: "json list \<Rightarrow> ustr \<Rightarrow> usage_sum \<times> usage_sum" where
  "usage_summary rows rid = fold (\<lambda>row (w, t).
     if jstr row (u ''run_id'') \<noteq> Some rid then (w, t)
     else if jstr row (u ''scope'') = Some (u ''worker'') then (usage_row_fields row w, usage_row_fields row t)
     else if jstr row (u ''scope'') = Some (u ''parent'') then (w, usage_row_fields row t)
     else (w, t)) rows (no_sum, no_sum)"

definition read_multi_agent_runs ::
  "store_env \<Rightarrow> session_dir list \<Rightarrow> ustr \<Rightarrow> int option \<Rightarrow> run_view list" where
  "read_multi_agent_runs env ds sid limit =
     (let d = the_dir env ds sid;
          runs = map snd (vs_runs (view_rows (sd_traces d))) in
      case limit of
        None \<Rightarrow> map (\<lambda>v. v\<lparr>rv_usage := Some (usage_summary (sd_usage d) (rv_id v))\<rparr>) runs
      | Some n \<Rightarrow>
          (if n \<le> 0 then []
           else map (\<lambda>v. v\<lparr>rv_usage := Some (usage_summary (sd_usage d) (rv_id v))\<rparr>) (last_n (nat n) runs)))"

section \<open>Recovery\<close>

definition recovery_row :: "ustr \<Rightarrow> ustr option \<Rightarrow> json \<Rightarrow> json" where
  "recovery_row rid node previous =
     (let is_node = nonempty node \<noteq> None in
      JObj
        [(u ''turn_id'', JStr (u ''recovery-'' @ rid)), (u ''state'', JStr (u ''MULTI_AGENT'')),
         (u ''duration_ms'', JFloat 0),
         (u ''event'', JStr (if is_node then u ''multi_agent.node.updated'' else u ''multi_agent.run.failed'')),
         (u ''error'', JStr txt_recovery_error),
         (u ''metadata'', JObj
            [(u ''run_id'', JStr rid), (u ''node_id'', (case node of Some n \<Rightarrow> JStr n | None \<Rightarrow> JNull)),
             (u ''task_label'', (if is_node then jget_or JNull previous (u ''task_label'') else JStr (u ''multi_agent''))),
             (u ''strategy'', jget_or (JStr []) previous (u ''strategy'')),
             (u ''status'', JStr (u ''interrupted'')),
             (u ''duration_ms'', jget_or JNull previous (u ''duration_ms'')),
             (u ''usage'', JNull), (u ''error_code'', JStr (u ''gateway_restart'')),
             (u ''error'', JStr txt_recovery_error)])])"

text \<open>\<open>grouped\<close>: the runs in the order of their first row, each with its rows.\<close>

definition group_rows :: "json list \<Rightarrow> (ustr, (ustr \<times> json) list) dict" where
  "group_rows rows = fold (\<lambda>row g. case run_row row of None \<Rightarrow> g
     | Some (event, rid, m) \<Rightarrow>
         dict_put rid ((case dict_get g rid of None \<Rightarrow> [] | Some ms \<Rightarrow> ms) @ [(event, m)]) g) rows []"

definition run_ended :: "(ustr \<times> json) list \<Rightarrow> bool" where
  "run_ended ms \<longleftrightarrow> list_ex (\<lambda>(event, m). event \<in> set run_terminal_events \<and> status_in m run_terminal_statuses) ms"

definition latest_nodes :: "(ustr \<times> json) list \<Rightarrow> (ustr, json) dict" where
  "latest_nodes ms = fold (\<lambda>(event, m) d. case nonempty (jstr m (u ''node_id'')) of
     None \<Rightarrow> d | Some nid \<Rightarrow> dict_put nid m d) ms []"

definition close_run :: "ustr \<Rightarrow> (ustr \<times> json) list \<Rightarrow> json list" where
  "close_run rid ms =
     map (\<lambda>(nid, m). recovery_row rid (Some nid) m)
       (filter (\<lambda>(nid, m). \<not> status_in m run_terminal_statuses) (latest_nodes ms)) @
     [recovery_row rid None (if ms = [] then JObj [] else snd (last ms))]"

definition recover_rows :: "json list \<Rightarrow> ustr list \<times> json list" where
  "recover_rows rows =
     (let open_runs = filter (\<lambda>(rid, ms). \<not> run_ended ms) (group_rows rows) in
      (map fst open_runs, concat (map (\<lambda>(rid, ms). close_run rid ms) open_runs)))"

fun recover_dirs :: "store_env \<Rightarrow> session_dir list \<Rightarrow> (disk, ustr list) prog" where
  "recover_dirs env [] = ret []"
| "recover_dirs env (d # ds) =
     (if dir_session env d = None then recover_dirs env ds
      else
        (let (ids, additions) = recover_rows (sd_traces d) in
         seq (if additions = [] then ret ()
              else write_dir (sd_name d) (\<lambda>d. d\<lparr>sd_traces := sd_traces d @ additions\<rparr>)) (\<lambda>_.
         seq (recover_dirs env ds) (\<lambda>rest. ret (ids @ rest)))))"

definition recover_interrupted_runs :: "store_env \<Rightarrow> (disk, ustr list) prog" where
  "recover_interrupted_runs env = seq (gets dk_dirs) (\<lambda>ds. recover_dirs env ds)"

end
