(* ===== verification/SessionManager.thy ===== *)
theory SessionManager
  imports Messages RunHistory
begin

text \<open>
  The session manager and its slash commands (\<^verbatim>\<open>sessions/manager.py\<close>), and the reader that binds it
  to one principal (\<^verbatim>\<open>runtime/principal_context.py\<close>). The state is the disk of one data root, the
  approval switch with the settings file it is kept in, and the tapes of times and identifiers
  that \<^verbatim>\<open>utc_now_iso\<close> and \<^verbatim>\<open>uuid4\<close> return.
\<close>

section \<open>State\<close>

text \<open>The settings file: missing, not readable as JSON (with the exception), or a value.\<close>

datatype config_file = No_config | Bad_config exn | Config json

record desk =
  dx_disk :: disk
  dx_auto :: bool
  dx_config :: config_file
  dx_config_io :: "exn option tape"
  dx_times :: "ustr tape"
  dx_ids :: "ustr tape"

definition on_disk :: "(disk, 'a) prog \<Rightarrow> (desk, 'a) prog" where
  "on_disk m s = (case m (dx_disk s) of (r, dk) \<Rightarrow> (r, s\<lparr>dx_disk := dk\<rparr>))"

definition next_time :: "(desk, ustr) prog" where
  "next_time s = (Inr (dx_times s 0), s\<lparr>dx_times := tape_tl (dx_times s)\<rparr>)"

definition next_id :: "(desk, ustr) prog" where
  "next_id s = (Inr (dx_ids s 0), s\<lparr>dx_ids := tape_tl (dx_ids s)\<rparr>)"

definition dirs :: "desk \<Rightarrow> session_dir list" where
  "dirs s = dk_dirs (dx_disk s)"

text \<open>
  What the manager is given: the store's parameters, the time in microseconds of an instant, and
  Python's rendering of a dictionary and of milliseconds with three decimals.
\<close>

record manager_env =
  me_store :: store_env
  me_micros :: "ustr \<Rightarrow> int"
  me_repr :: "json \<Rightarrow> ustr"
  me_fixed3 :: "real \<Rightarrow> ustr"

section \<open>Sessions\<close>

definition manager_load_or_create :: "manager_env \<Rightarrow> channel_route \<Rightarrow> (desk, session) prog" where
  "manager_load_or_create me route =
     seq (gets (\<lambda>s. load_session (me_store me) (dirs s) (cr_session route))) (\<lambda>found. case found of
       Some se \<Rightarrow>
         (if (se_principal se, se_channel se, se_conversation se)
               \<noteq> (cr_principal route, cr_channel route, cr_conversation route)
          then raise (ValueError txt_route_inconsistent) else ret se)
     | None \<Rightarrow>
         seq (gets (\<lambda>s. has_session_record (dirs s) (cr_session route))) (\<lambda>recorded.
           if recorded then raise (ValueError txt_route_missing)
           else seq next_time (\<lambda>now. on_disk (create_session (me_store me) (cr_session route) route now))))"

definition coerce_route ::
  "session_arg \<Rightarrow> ustr option \<Rightarrow> ustr option \<Rightarrow> ustr option \<Rightarrow> exn + channel_route" where
  "coerce_route arg usr channel conversation = (case arg of
     Session_route r \<Rightarrow>
       (if usr \<noteq> None \<or> channel \<noteq> None \<or> conversation \<noteq> None then Inl (ValueError txt_coerce_mixed) else Inr r)
   | Session_id s \<Rightarrow> (case (usr, channel) of
         (Some x, Some c) \<Rightarrow> Inr \<lparr>cr_principal = x, cr_channel = c, cr_conversation = or_default conversation s,
             cr_session = s\<rparr>
       | _ \<Rightarrow> Inl (TypeError txt_coerce_missing)))"

definition manager_cleanup :: "manager_env \<Rightarrow> int \<Rightarrow> (desk, nat) prog" where
  "manager_cleanup me retention_days =
     (if retention_days \<le> 0 then ret 0
      else seq next_time (\<lambda>now.
        on_disk (cleanup_expired_sessions (me_store me) (me_micros me now) retention_days)))"

definition manager_save_message ::
  "manager_env \<Rightarrow> ustr \<Rightarrow> ustr \<Rightarrow> ustr \<Rightarrow> int \<Rightarrow> json option \<Rightarrow> ustr option \<Rightarrow> ustr option
     \<Rightarrow> (desk, message_record) prog" where
  "manager_save_message me sid role content tokens metadata mid created =
     seq next_id (\<lambda>fresh. seq next_time (\<lambda>now.
       on_disk (save_message (me_store me) sid role content tokens metadata mid created fresh now)))"

definition save_user_message ::
  "manager_env \<Rightarrow> ustr \<Rightarrow> ustr \<Rightarrow> int \<Rightarrow> ustr option \<Rightarrow> ustr option \<Rightarrow> json option \<Rightarrow> (desk, message_record) prog" where
  "save_user_message me sid content tokens mid created metadata =
     manager_save_message me sid (u ''user'') content tokens metadata mid created"

definition save_assistant_message ::
  "manager_env \<Rightarrow> ustr \<Rightarrow> ustr \<Rightarrow> int \<Rightarrow> json option \<Rightarrow> (desk, message_record) prog" where
  "save_assistant_message me sid content tokens metadata =
     manager_save_message me sid (u ''assistant'') content tokens metadata None None"

section \<open>Slash commands\<close>

definition command_table :: "(ustr \<times> ustr) list" where
  "command_table = [(u ''/history'', txt_cmd_history), (u ''/context'', txt_cmd_context),
     (u ''/tools'', txt_cmd_tools), (u ''/approve'', txt_cmd_approve), (u ''/clear'', txt_cmd_clear),
     (u ''/new'', txt_cmd_new), (u ''/exit'', txt_cmd_exit)]"

definition command_help :: ustr where
  "command_help = py_join [10] (map (\<lambda>(name, description). name @ txt_colon @ description) command_table)"

definition role_line :: "message_record \<Rightarrow> ustr" where
  "role_line m = mr_role m @ u '': '' @ mr_content m"

definition context_view :: "manager_env \<Rightarrow> ustr \<Rightarrow> (desk, ustr) prog" where
  "context_view me sid =
     seq (gets (\<lambda>s. (load_session (me_store me) (dirs s) sid, all_messages (me_store me) (dirs s) sid)))
       (\<lambda>(found, full). case found of
         None \<Rightarrow> ret txt_no_context
       | Some se \<Rightarrow>
           (let recent = session_history se full in
            ret (py_join [10] (
              [txt_view_summary @ (if se_summary se = [] then txt_none else se_summary se),
               txt_view_full @ dec (length full),
               txt_view_uncompacted @ dec (length recent),
               txt_view_tokens @ show_int (count_message_tokens recent)] @
              (if recent = [] then [] else txt_view_history # map role_line recent)))))"

definition tool_lines :: "manager_env \<Rightarrow> json \<Rightarrow> ustr list" where
  "tool_lines me row =
     [jstr_or [] row (u ''created_at'') @ u '' turn='' @ jstr_or [] row (u ''turn_id'') @ u '' tool='' @
        jstr_or [] row (u ''tool_name'') @ u '' tool_call_id='' @ jstr_or [] row (u ''tool_call_id''),
      u ''args: '' @ me_repr me (jget_or (JObj []) row (u ''args'')),
      u ''result: '' @ jstr_or [] row (u ''content''),
      u ''error: '' @ or_default (jstr row (u ''error'')) txt_none,
      u ''duration_ms: '' @ me_fixed3 me (case Option.bind (jget row (u ''duration_ms'')) real_of_json of
        Some r \<Rightarrow> r | None \<Rightarrow> 0)]"

definition tools_view :: "manager_env \<Rightarrow> ustr \<Rightarrow> (desk, ustr) prog" where
  "tools_view me sid =
     seq (gets (\<lambda>s. sd_tools (the_dir (me_store me) (dirs s) sid))) (\<lambda>rows.
       ret (if rows = [] then txt_no_tools else py_join [10] (concat (map (tool_lines me) rows))))"

definition auto_approve_status :: "desk \<Rightarrow> ustr" where
  "auto_approve_status s = txt_approve_status @ (if dx_auto s then txt_is_on else txt_is_off) @ txt_full_stop"

text \<open>
  \<open>update_auto_approve_tools\<close> sets the switch first, then reads the settings file, changes it and
  writes it back; an exception leaves the switch set.
\<close>

definition config_payload :: "config_file \<Rightarrow> bool \<Rightarrow> exn + json" where
  "config_payload f enabled = (case f of
     Bad_config e \<Rightarrow> Inl e
   | No_config \<Rightarrow> Inr (JObj [(u ''tool_permissions'', JObj [(u ''auto_approve_tools'', JBool enabled)])])
   | Config (JObj kvs) \<Rightarrow> (case dict_get kvs (u ''tool_permissions'') of
         None \<Rightarrow> Inr (JObj (dict_put (u ''tool_permissions'') (JObj [(u ''auto_approve_tools'', JBool enabled)]) kvs))
       | Some (JObj ps) \<Rightarrow> Inr (JObj (dict_put (u ''tool_permissions'')
             (JObj (dict_put (u ''auto_approve_tools'') (JBool enabled) ps)) kvs))
       | Some _ \<Rightarrow> Inl (ValueError txt_permissions_object))
   | Config _ \<Rightarrow> Inl (OtherError (u ''AttributeError'')))"

definition update_auto_approve_tools :: "bool \<Rightarrow> (desk, unit) prog" where
  "update_auto_approve_tools enabled =
     seq (modify (\<lambda>s. s\<lparr>dx_auto := enabled\<rparr>)) (\<lambda>_.
     seq (gets dx_config) (\<lambda>f.
     seq (lift (config_payload f enabled)) (\<lambda>payload s.
       (let s1 = s\<lparr>dx_config_io := tape_tl (dx_config_io s)\<rparr> in
        case dx_config_io s 0 of Some e \<Rightarrow> (Inl e, s1) | None \<Rightarrow> (Inr (), s1\<lparr>dx_config := Config payload\<rparr>)))))"

definition manager_clear :: "manager_env \<Rightarrow> ustr \<Rightarrow> (desk, unit) prog" where
  "manager_clear me sid = on_disk (clear_session (me_store me) sid)"

definition handle_inbound_command :: "manager_env \<Rightarrow> ustr \<Rightarrow> ustr \<Rightarrow> (desk, ustr option) prog" where
  "handle_inbound_command me sid content =
     (let command = py_strip content in
      if \<not> starts_with command (u ''/'') then ret None
      else if command = u ''/history'' then
        seq (gets (\<lambda>s. all_messages (me_store me) (dirs s) sid)) (\<lambda>ms.
          ret (Some (if ms = [] then txt_no_history else py_join [10] (map role_line ms))))
      else if command = u ''/context'' then seq (context_view me sid) (\<lambda>t. ret (Some t))
      else if command = u ''/tools'' then seq (tools_view me sid) (\<lambda>t. ret (Some t))
      else if command = u ''/approve'' then seq (gets auto_approve_status) (\<lambda>t. ret (Some t))
      else if command = u ''/approve on'' then seq (update_auto_approve_tools True) (\<lambda>_. ret (Some txt_approve_on))
      else if command = u ''/approve off'' then seq (update_auto_approve_tools False) (\<lambda>_. ret (Some txt_approve_off))
      else if starts_with command (u ''/approve'') then ret (Some txt_approve_usage)
      else if command = u ''/clear'' then seq (manager_clear me sid) (\<lambda>_. ret (Some txt_cleared))
      else if command = u ''/new'' then ret (Some txt_new_session)
      else if command = u ''/exit'' then ret (Some txt_bye)
      else ret (Some (txt_unknown_command @ command @ [10] @ txt_available_commands @ command_help)))"

definition handle_command :: "manager_env \<Rightarrow> session \<Rightarrow> inbound \<Rightarrow> (desk, ustr option) prog" where
  "handle_command me se m = handle_inbound_command me (se_id se) (im_content m)"

end
