(* ===== verification/PrincipalReader.thy ===== *)
theory PrincipalReader
  imports SessionManager
begin

text \<open>
  \<open>PrincipalSessionReader\<close> (\<^verbatim>\<open>runtime/principal_context.py\<close>) restricts a session manager to the
  sessions of one principal; \<open>GatewayPrincipalResolver\<close> (\<^verbatim>\<open>gateway/principals.py\<close>) gives every
  principal its own data root and reader. The operations of a reader are the datatype \<open>reader_op\<close>,
  so that a history of calls is a list. The hash of a principal's name is a parameter.
\<close>

section \<open>The reader\<close>

record reader =
  rd_principal :: ustr
  rd_global_approval :: bool

definition mk_reader :: "ustr \<Rightarrow> bool \<Rightarrow> exn + reader" where
  "mk_reader p allow = (if p = [] then Inl (ValueError txt_principal_invalid)
     else Inr \<lparr>rd_principal = p, rd_global_approval = allow\<rparr>)"

definition require_session :: "manager_env \<Rightarrow> reader \<Rightarrow> ustr \<Rightarrow> (desk, session) prog" where
  "require_session me rd sid =
     seq (gets (\<lambda>s. load_session (me_store me) (dirs s) sid)) (\<lambda>found. case found of
       None \<Rightarrow> raise (PermissionError txt_foreign_access)
     | Some se \<Rightarrow> (if se_principal se \<noteq> rd_principal rd then raise (PermissionError txt_foreign_access) else ret se))"

definition validate_route :: "reader \<Rightarrow> channel_route \<Rightarrow> (desk, unit) prog" where
  "validate_route rd route =
     (if cr_principal route \<noteq> rd_principal rd then raise (PermissionError txt_foreign_route) else ret ())"

definition reader_list_sessions :: "manager_env \<Rightarrow> reader \<Rightarrow> (desk, session list) prog" where
  "reader_list_sessions me rd =
     gets (\<lambda>s. list_sessions (me_store me) (dirs s) None None (Some (rd_principal rd)))"

definition reader_all_messages :: "manager_env \<Rightarrow> reader \<Rightarrow> ustr \<Rightarrow> (desk, message_record list) prog" where
  "reader_all_messages me rd sid =
     seq (gets (\<lambda>s. load_session (me_store me) (dirs s) sid)) (\<lambda>found. case found of
       None \<Rightarrow> raise (PermissionError txt_foreign_read)
     | Some se \<Rightarrow> (if se_principal se \<noteq> rd_principal rd then raise (PermissionError txt_foreign_read)
         else gets (\<lambda>s. all_messages (me_store me) (dirs s) sid)))"

definition reader_recent_messages ::
  "manager_env \<Rightarrow> reader \<Rightarrow> ustr \<Rightarrow> int \<Rightarrow> (desk, message_record list) prog" where
  "reader_recent_messages me rd sid limit = seq (require_session me rd sid) (\<lambda>_.
     gets (\<lambda>s. recent_messages (me_store me) (dirs s) sid limit))"

definition reader_last_total :: "manager_env \<Rightarrow> reader \<Rightarrow> ustr \<Rightarrow> (desk, int) prog" where
  "reader_last_total me rd sid = seq (require_session me rd sid) (\<lambda>_.
     gets (\<lambda>s. last_total_tokens (me_store me) (dirs s) sid))"

definition reader_runs :: "manager_env \<Rightarrow> reader \<Rightarrow> ustr \<Rightarrow> int \<Rightarrow> (desk, run_view list) prog" where
  "reader_runs me rd sid limit = seq (require_session me rd sid) (\<lambda>_.
     gets (\<lambda>s. read_multi_agent_runs (me_store me) (dirs s) sid (Some limit)))"

definition reader_load_or_create :: "manager_env \<Rightarrow> reader \<Rightarrow> channel_route \<Rightarrow> (desk, session) prog" where
  "reader_load_or_create me rd route = seq (validate_route rd route) (\<lambda>_. manager_load_or_create me route)"

definition reader_inbound_command ::
  "manager_env \<Rightarrow> reader \<Rightarrow> ustr \<Rightarrow> inbound \<Rightarrow> (desk, ustr option) prog" where
  "reader_inbound_command me rd sid m =
     seq (validate_route rd (im_route m)) (\<lambda>_.
       if \<not> rd_global_approval rd \<and> starts_with (py_strip (im_content m)) (u ''/approve'')
       then raise (PermissionError txt_foreign_approve)
       else seq (gets (\<lambda>s. load_session (me_store me) (dirs s) sid)) (\<lambda>found.
         if (case found of None \<Rightarrow> False | Some se \<Rightarrow> se_principal se \<noteq> rd_principal rd)
         then raise (PermissionError txt_foreign_operate)
         else handle_inbound_command me sid (im_content m)))"

definition reader_command :: "manager_env \<Rightarrow> reader \<Rightarrow> session \<Rightarrow> inbound \<Rightarrow> (desk, ustr option) prog" where
  "reader_command me rd se m =
     (if se_principal se \<noteq> rd_principal rd then raise (PermissionError txt_foreign_operate)
      else seq (validate_route rd (im_route m)) (\<lambda>_. handle_command me se m))"

definition reader_update_metadata ::
  "manager_env \<Rightarrow> reader \<Rightarrow> ustr \<Rightarrow> ustr option \<Rightarrow> bool option \<Rightarrow> bool option \<Rightarrow> (desk, session option) prog" where
  "reader_update_metadata me rd sid title pinned archived = seq (require_session me rd sid) (\<lambda>_.
     seq next_time (\<lambda>now. on_disk (update_session_metadata (me_store me) sid title pinned archived now)))"

definition reader_update_summary :: "manager_env \<Rightarrow> reader \<Rightarrow> ustr \<Rightarrow> ustr \<Rightarrow> (desk, unit) prog" where
  "reader_update_summary me rd sid summary = seq (require_session me rd sid) (\<lambda>_.
     seq next_time (\<lambda>now. on_disk (update_summary (me_store me) sid summary now)))"

definition reader_update_history ::
  "manager_env \<Rightarrow> reader \<Rightarrow> ustr \<Rightarrow> message_record list \<Rightarrow> (desk, unit) prog" where
  "reader_update_history me rd sid history = seq (require_session me rd sid) (\<lambda>_.
     seq next_time (\<lambda>now. on_disk (update_uncompacted_history (me_store me) sid history now)))"

definition reader_save_user ::
  "manager_env \<Rightarrow> reader \<Rightarrow> ustr \<Rightarrow> ustr \<Rightarrow> int \<Rightarrow> ustr option \<Rightarrow> ustr option \<Rightarrow> json option
     \<Rightarrow> (desk, message_record) prog" where
  "reader_save_user me rd sid content tokens mid created metadata = seq (require_session me rd sid) (\<lambda>_.
     save_user_message me sid content tokens mid created metadata)"

definition reader_save_assistant ::
  "manager_env \<Rightarrow> reader \<Rightarrow> ustr \<Rightarrow> ustr \<Rightarrow> int \<Rightarrow> json option \<Rightarrow> (desk, message_record) prog" where
  "reader_save_assistant me rd sid content tokens metadata = seq (require_session me rd sid) (\<lambda>_.
     save_assistant_message me sid content tokens metadata)"

definition reader_save_tools :: "manager_env \<Rightarrow> reader \<Rightarrow> ustr \<Rightarrow> ustr \<Rightarrow> tool_record list \<Rightarrow> (desk, unit) prog" where
  "reader_save_tools me rd turn sid calls = seq (require_session me rd sid) (\<lambda>_.
     seq next_time (\<lambda>now. on_disk (save_tool_calls (me_store me) turn sid calls now)))"

definition reader_save_usage ::
  "manager_env \<Rightarrow> reader \<Rightarrow> ustr \<Rightarrow> ustr \<Rightarrow> token_usage \<Rightarrow> usage_tag option \<Rightarrow> (desk, unit) prog" where
  "reader_save_usage me rd turn sid us tag = seq (require_session me rd sid) (\<lambda>_.
     on_disk (save_true_token_usage (me_store me) turn sid us tag))"

definition reader_save_traces :: "manager_env \<Rightarrow> reader \<Rightarrow> state_trace list \<Rightarrow> (desk, unit) prog" where
  "reader_save_traces me rd traces =
     seq (for_each traces (\<lambda>t. seq (require_session me rd (sx_session t)) (\<lambda>_. ret ()))) (\<lambda>_.
       on_disk (save_turn_traces (me_store me) traces))"

definition reader_cleanup :: "manager_env \<Rightarrow> int \<Rightarrow> (desk, nat) prog" where
  "reader_cleanup me retention_days = manager_cleanup me retention_days"

section \<open>Principals and their roots\<close>

text \<open>The directory \<open>data_dir/principals/<digest>\<close> of a principal that is not the owner.\<close>

record resolver_env =
  re_owner :: ustr
  re_data_dir :: "ustr list"
  re_sha :: "nat list \<Rightarrow> ustr"
  re_approval :: "ustr list"

record storage =
  bu_root :: "ustr list"
  bu_reader :: reader

record principal_context =
  px_principal :: ustr
  px_root :: "ustr list"
  px_reader :: reader
  px_allowed :: "ustr list option"

type_synonym bundles = "(ustr, storage) dict"

definition check_owner :: "ustr option \<Rightarrow> ustr \<Rightarrow> exn + ustr" where
  "check_owner given configured =
     (let owner = or_default given configured in
      if owner = [] then Inl (ValueError txt_owner_invalid) else Inr owner)"

definition non_owner_root :: "resolver_env \<Rightarrow> ustr \<Rightarrow> ustr list" where
  "non_owner_root re p =
     re_data_dir re @ [u ''principals'', re_sha re (utf8 (u ''tga-principal-v1'') @ [0] @ utf8 p)]"

definition resolve :: "resolver_env \<Rightarrow> (ustr \<times> bool) list \<Rightarrow> channel_route \<Rightarrow> (bundles, principal_context) prog" where
  "resolve re tools route =
     (let p = cr_principal route in
      if p = [] then raise (ValueError txt_route_principal)
      else
        seq (gets (\<lambda>bs. dict_get bs p)) (\<lambda>known.
        seq (case known of
            Some b \<Rightarrow> ret b
          | None \<Rightarrow>
              (let b = \<lparr>bu_root = (if p = re_owner re then re_data_dir re else non_owner_root re p),
                        bu_reader = \<lparr>rd_principal = p, rd_global_approval = (p = re_owner re)\<rparr>\<rparr> in
               seq (modify (\<lambda>bs. dict_put p b bs)) (\<lambda>_. ret b))) (\<lambda>b.
          ret \<lparr>px_principal = p, px_root = bu_root b, px_reader = bu_reader b,
               px_allowed = allowed_tool_names route tools (re_approval re)\<rparr>)))"

definition forget_non_owner :: "resolver_env \<Rightarrow> ustr \<Rightarrow> (bundles, ustr list) prog" where
  "forget_non_owner re p =
     (if p = [] then raise (ValueError txt_principal_blank)
      else if p = re_owner re then raise (ValueError txt_owner_root)
      else seq (gets (\<lambda>bs. dict_get bs p)) (\<lambda>known.
           seq (modify (\<lambda>bs. dict_del p bs)) (\<lambda>_.
             ret (case known of Some b \<Rightarrow> bu_root b | None \<Rightarrow> non_owner_root re p))))"

end
