(* ===== verification/TurnTypes.thy ===== *)
theory TurnTypes
  imports PrincipalReader DelegateTool
begin

text \<open>
  The turn of the runtime: its states and transitions (\<^verbatim>\<open>runtime/state.py\<close>), the context of one
  turn (\<^verbatim>\<open>runtime/turn_context.py\<close>), the world a turn works in, and the environment it is given.
  The world holds the data root of the turn's principal, the counter of active turns, what was sent
  to the channel and what was emitted, and the tapes of answers from outside: clock, model and
  channel. The agent loop is an argument of the machine.
\<close>

section \<open>States\<close>

datatype turn_state = COMMAND | SESSION | BUILD | RUN | COMPACT | SAVE | RESPOND

datatype turn_event = Ev_ok | Ev_shortcut | Ev_rejected | Ev_error

fun rank :: "turn_state \<Rightarrow> nat" where
  "rank COMMAND = 0" | "rank SESSION = 1" | "rank BUILD = 2" | "rank RUN = 3"
| "rank COMPACT = 4" | "rank SAVE = 5" | "rank RESPOND = 6"

text \<open>The states in the order a turn goes through them.\<close>

instantiation turn_state :: linorder
begin

definition less_eq_turn_state :: "turn_state \<Rightarrow> turn_state \<Rightarrow> bool" where
  "less_eq_turn_state s t \<longleftrightarrow> rank s \<le> rank t"

definition less_turn_state :: "turn_state \<Rightarrow> turn_state \<Rightarrow> bool" where
  "less_turn_state s t \<longleftrightarrow> rank s < rank t"

instance
proof
  fix s t :: turn_state
  show "s \<le> t \<Longrightarrow> t \<le> s \<Longrightarrow> s = t"
    unfolding less_eq_turn_state_def by (cases s; cases t) simp_all
qed (auto simp: less_eq_turn_state_def less_turn_state_def)

end

definition state_name :: "turn_state \<Rightarrow> ustr" where
  "state_name s = (case s of COMMAND \<Rightarrow> u ''COMMAND'' | SESSION \<Rightarrow> u ''SESSION'' | BUILD \<Rightarrow> u ''BUILD''
     | RUN \<Rightarrow> u ''RUN'' | COMPACT \<Rightarrow> u ''COMPACT'' | SAVE \<Rightarrow> u ''SAVE'' | RESPOND \<Rightarrow> u ''RESPOND'')"

definition event_name :: "turn_event \<Rightarrow> ustr" where
  "event_name e = (case e of Ev_ok \<Rightarrow> u ''ok'' | Ev_shortcut \<Rightarrow> u ''shortcut''
     | Ev_rejected \<Rightarrow> u ''rejected'' | Ev_error \<Rightarrow> u ''error'')"

definition transitions :: "((turn_state \<times> turn_event) \<times> turn_state option) list" where
  "transitions =
     [((COMMAND, Ev_ok), Some SESSION), ((COMMAND, Ev_shortcut), Some RESPOND), ((SESSION, Ev_ok), Some BUILD),
      ((BUILD, Ev_ok), Some RUN), ((BUILD, Ev_rejected), Some RESPOND), ((RUN, Ev_ok), Some COMPACT),
      ((COMPACT, Ev_ok), Some SAVE), ((SAVE, Ev_ok), Some RESPOND), ((RESPOND, Ev_ok), None)]"

definition next_state :: "turn_state \<Rightarrow> turn_event \<Rightarrow> exn + turn_state option" where
  "next_state s e =
     (if e = Ev_error then Inr (if s \<noteq> RESPOND then Some RESPOND else None)
      else case map_of transitions (s, e) of
        None \<Rightarrow> Inl (KeyError (state_name s)) | Some t \<Rightarrow> Inr t)"

lemma next_state_up: "next_state s e = Inr (Some t) \<Longrightarrow> s < t"
  by (cases s; cases e) (auto simp: next_state_def transitions_def less_turn_state_def)

lemma next_state_end: "next_state s e = Inr None \<Longrightarrow> s = RESPOND"
  by (cases s; cases e) (auto simp: next_state_def transitions_def)

section \<open>The context of a turn\<close>

record compact_stats =
  cs_should :: bool
  cs_compacted :: int
  cs_compacted_tokens :: int
  cs_window :: int
  cs_window_tokens :: int

record turn_ctx =
  tc_inbound :: inbound
  tc_state :: turn_state
  tc_turn_id :: ustr
  tc_session :: "session option"
  tc_history :: "message_record list"
  tc_messages :: "json list"
  tc_final :: ustr
  tc_shortcut :: "ustr option"
  tc_tools :: "tool_record list"
  tc_skills :: "ustr list"
  tc_skill_tokens :: int
  tc_guidance :: "ustr list"
  tc_cancelled :: bool
  tc_usage :: "llm_usage option"
  tc_trace :: "state_trace list"
  tc_saved :: nat
  tc_token_usage :: "token_usage option"
  tc_context :: "(breakdown \<times> nat option) option"
  tc_should_compact :: bool
  tc_stats :: "compact_stats option"
  tc_outbound :: "outbound option"
  tc_error :: "ustr option"
  tc_invocation :: "invocation option"
  tc_attachment_tool :: "(channel_route \<times> ustr list) option"

definition new_ctx :: "inbound \<Rightarrow> ustr \<Rightarrow> turn_ctx" where
  "new_ctx m turn_id = \<lparr>tc_inbound = m, tc_state = COMMAND, tc_turn_id = turn_id, tc_session = None,
     tc_history = [], tc_messages = [], tc_final = [], tc_shortcut = None, tc_tools = [], tc_skills = [],
     tc_skill_tokens = 0, tc_guidance = [], tc_cancelled = False, tc_usage = None, tc_trace = [],
     tc_saved = 0, tc_token_usage = None, tc_context = None, tc_should_compact = False, tc_stats = None,
     tc_outbound = None, tc_error = None, tc_invocation = None, tc_attachment_tool = None\<rparr>"

section \<open>The world\<close>

datatype chan_out = Status_out ustr | Completed_out ustr | Error_out ustr | Multi_agent_out ustr json

record world =
  wd_desk :: desk
  wd_profile :: profile_files
  wd_bundles :: bundles
  wd_active :: int
  wd_clock :: "real tape"
  wd_llm :: "(exn + ustr \<times> llm_usage option) tape"
  wd_handlers :: "exn option tape"
  wd_events :: "json list"
  wd_channel :: "exn option tape"
  wd_sent :: "chan_out list"

record turn =
  tn_world :: world
  tn_ctx :: turn_ctx

text \<open>What the agent loop returns (\<open>AgentLoopResult\<close>), and the run its delegation was accepted as.\<close>

record loop_result =
  lr_content :: ustr
  lr_tools :: "tool_record list"
  lr_usage :: "llm_usage option"
  lr_skills :: "ustr list"
  lr_skill_tokens :: int
  lr_guidance :: "ustr list"
  lr_cancelled :: bool
  lr_run_id :: "ustr option"

record turn_env =
  te_manager :: manager_env
  te_build :: build_env
  te_limits :: profile_limits
  te_resolver :: resolver_env
  te_registered :: "(ustr \<times> bool) list"
  te_retention :: int
  te_max_context :: int
  te_memory :: memory_cfg
  te_ma_enabled :: bool
  te_max_workers :: int
  te_vision :: bool
  te_skills :: "skill_item list"
  te_tools :: "ustr list option \<Rightarrow> invocation option \<Rightarrow> json list"
  te_loop :: "turn_ctx \<Rightarrow> bool \<Rightarrow> (world, loop_result) prog"

section \<open>Access to the parts of a turn\<close>

definition on_world :: "(world, 'a) prog \<Rightarrow> (turn, 'a) prog" where
  "on_world m s = (case m (tn_world s) of (r, w) \<Rightarrow> (r, s\<lparr>tn_world := w\<rparr>))"

definition on_desk :: "(desk, 'a) prog \<Rightarrow> (world, 'a) prog" where
  "on_desk m w = (case m (wd_desk w) of (r, d) \<Rightarrow> (r, w\<lparr>wd_desk := d\<rparr>))"

abbreviation at_desk :: "(desk, 'a) prog \<Rightarrow> (turn, 'a) prog" where
  "at_desk m \<equiv> on_world (on_desk m)"

definition on_profile :: "(profile_files, 'a) prog \<Rightarrow> (world, 'a) prog" where
  "on_profile m w = (case m (wd_profile w) of (r, p) \<Rightarrow> (r, w\<lparr>wd_profile := p\<rparr>))"

definition on_bundles :: "(bundles, 'a) prog \<Rightarrow> (world, 'a) prog" where
  "on_bundles m w = (case m (wd_bundles w) of (r, b) \<Rightarrow> (r, w\<lparr>wd_bundles := b\<rparr>))"

definition ctx :: "(turn_ctx \<Rightarrow> 'a) \<Rightarrow> (turn, 'a) prog" where
  "ctx f = gets (\<lambda>s. f (tn_ctx s))"

definition upd :: "(turn_ctx \<Rightarrow> turn_ctx) \<Rightarrow> (turn, unit) prog" where
  "upd f = modify (\<lambda>s. s\<lparr>tn_ctx := f (tn_ctx s)\<rparr>)"

definition clock :: "(world, real) prog" where
  "clock w = (Inr (wd_clock w 0), w\<lparr>wd_clock := tape_tl (wd_clock w)\<rparr>)"

text \<open>A call of the channel adapter, and of all proactive handlers; either may raise.\<close>

definition tell :: "chan_out \<Rightarrow> (world, unit) prog" where
  "tell c w = (let w1 = w\<lparr>wd_channel := tape_tl (wd_channel w)\<rparr> in
     case wd_channel w 0 of Some e \<Rightarrow> (Inl e, w1) | None \<Rightarrow> (Inr (), w1\<lparr>wd_sent := wd_sent w @ [c]\<rparr>))"

definition emit_event :: "json \<Rightarrow> (world, unit) prog" where
  "emit_event payload w =
     (let w1 = w\<lparr>wd_handlers := tape_tl (wd_handlers w), wd_events := wd_events w @ [payload]\<rparr> in
      case wd_handlers w 0 of Some e \<Rightarrow> (Inl e, w1) | None \<Rightarrow> (Inr (), w1))"

text \<open>\<open>str(exc)\<close>: some exceptions carry no text.\<close>

definition exn_text :: "exn \<Rightarrow> ustr" where
  "exn_text e = (case e of ValueError t \<Rightarrow> t | TypeError t \<Rightarrow> t | RuntimeError t \<Rightarrow> t | PermissionError t \<Rightarrow> t
     | KeyError t \<Rightarrow> [39] @ t @ [39] | AssertionError \<Rightarrow> [] | TimeoutError \<Rightarrow> [] | CancelledError \<Rightarrow> []
     | OtherError t \<Rightarrow> t | Out_of_fuel \<Rightarrow> [])"

end
