(* ===== verification/TurnMachine.thy ===== *)
theory TurnMachine
  imports TurnTypes
begin

text \<open>
  The handlers of the turn's states (\<^verbatim>\<open>runtime/state.py\<close>), the loop that drives them and maps errors
  (\<^verbatim>\<open>runtime/runtime.py\<close>), and the observing hooks of a turn (\<^verbatim>\<open>hooks/channel_status.py\<close>,
  \<^verbatim>\<open>hooks/turn_monitor.py\<close>, \<^verbatim>\<open>hooks/manager.py\<close>). Each handler is a program over the world and the
  context of the turn; it returns the event of the transition table.
\<close>

abbreviation me :: "turn_env \<Rightarrow> manager_env" where "me \<equiv> te_manager"

definition sid_of :: "turn_ctx \<Rightarrow> ustr" where
  "sid_of c = im_session (tc_inbound c)"

definition tokens_of :: "turn_env \<Rightarrow> ustr \<Rightarrow> int" where
  "tokens_of te t = content_tokens (be_enc (te_build te)) t"

definition read_memory :: "turn_env \<Rightarrow> (turn, snapshot) prog" where
  "read_memory te = on_world (on_profile (read_profile (be_enc (te_build te)) (te_limits te)))"

section \<open>COMMAND and SESSION\<close>

definition command_state :: "turn_env \<Rightarrow> reader \<Rightarrow> (turn, turn_event) prog" where
  "command_state te rd =
     seq (ctx tc_inbound) (\<lambda>m. case im_command_rejection (im_route m) (im_content m) of
       Some t \<Rightarrow> seq (upd (\<lambda>c. c\<lparr>tc_shortcut := Some t, tc_final := t\<rparr>)) (\<lambda>_. ret Ev_shortcut)
     | None \<Rightarrow>
         seq (at_desk (reader_inbound_command (me te) rd (im_session m) m)) (\<lambda>answer.
         seq (upd (\<lambda>c. c\<lparr>tc_shortcut := answer\<rparr>)) (\<lambda>_. case answer of
           Some t \<Rightarrow> seq (upd (\<lambda>c. c\<lparr>tc_final := t\<rparr>)) (\<lambda>_. ret Ev_shortcut)
         | None \<Rightarrow> ret Ev_ok)))"

definition session_state :: "turn_env \<Rightarrow> reader \<Rightarrow> (turn, turn_event) prog" where
  "session_state te rd =
     seq (ctx tc_inbound) (\<lambda>m.
     seq (at_desk (reader_cleanup (me te) (te_retention te))) (\<lambda>_.
     seq (at_desk (reader_load_or_create (me te) rd (im_route m))) (\<lambda>se.
     seq (upd (\<lambda>c. c\<lparr>tc_session := Some se\<rparr>)) (\<lambda>_. ret Ev_ok))))"

section \<open>BUILD\<close>

text \<open>\<open>_multi_agent_invocation\<close>.\<close>

definition multi_agent_invocation :: "turn_env \<Rightarrow> (turn, invocation option) prog" where
  "multi_agent_invocation te =
     seq (ctx (\<lambda>c. (tc_inbound c, tc_context c))) (\<lambda>(m, context).
     seq (lift (parse_multi_agent_mode (case dict_get (im_metadata m) (u ''multi_agent_mode'') of
        Some j \<Rightarrow> j | None \<Rightarrow> JStr (u ''auto'')))) (\<lambda>mode.
       if cr_channel (im_route m) \<notin> {u ''cli'', u ''web''} then ret None
       else if \<not> te_ma_enabled te \<or> mode = Off then ret None
       else
         (let initial = (case context of Some (b, _) \<Rightarrow> bd_context b | None \<Rightarrow> 0) in
          if initial < 0 then raise (ValueError txt_parent_tokens_bad)
          else
            seq (read_memory te) (\<lambda>_.
            seq (lift (check_parent_turn \<lparr>p_session = im_session m, p_request = im_id m, p_context_tokens = initial\<rparr>)) (\<lambda>p.
            seq (lift (mk_invocation p (te_max_workers te))) (\<lambda>iv. ret (Some iv)))))))"

definition reject :: "ustr \<Rightarrow> (turn, turn_event) prog" where
  "reject t = seq (upd (\<lambda>c. c\<lparr>tc_error := Some t, tc_final := txt_request_failed @ t\<rparr>)) (\<lambda>_. ret Ev_rejected)"

definition is_value_error :: "exn \<Rightarrow> bool" where
  "is_value_error e = (case e of ValueError _ \<Rightarrow> True | _ \<Rightarrow> False)"

definition attachment_tool_for :: "inbound \<Rightarrow> (channel_route \<times> ustr list) option" where
  "attachment_tool_for m =
     (if im_attachments m \<noteq> [] \<and> cr_channel (im_route m) = u ''web''
      then Some (im_route m, List.map_filter at_id (im_attachments m)) else None)"

text \<open>The part of BUILD after the provisional invocation.\<close>

definition build_messages_state ::
  "turn_env \<Rightarrow> session \<Rightarrow> message_record list \<Rightarrow> invocation option \<Rightarrow> (turn, turn_event) prog" where
  "build_messages_state te se history provisional =
     seq (ctx tc_inbound) (\<lambda>m.
     seq (read_memory te) (\<lambda>memory.
       (let b = build_context_token_breakdown (te_build te) (se_summary se) history (im_content m) [] memory
              (te_tools te (allowed_tool_names (im_route m) (te_registered te) (re_approval (te_resolver te))) provisional)
              True (te_skills te) in
        seq (upd (\<lambda>c. c\<lparr>tc_context := Some (b, None)\<rparr>)) (\<lambda>_.
          if bd_context b > te_max_context te then reject txt_context_too_large
          else if (\<exists>a \<in> set (im_attachments m). at_source a = u ''image'') \<and> \<not> te_vision te then reject txt_no_vision
          else
            seq (case attachment_tool_for m of None \<Rightarrow> ret ()
                 | Some t \<Rightarrow> upd (\<lambda>c. c\<lparr>tc_attachment_tool := Some t\<rparr>)) (\<lambda>_.
            seq (multi_agent_invocation te) (\<lambda>iv.
            seq (upd (\<lambda>c. c\<lparr>tc_invocation := iv\<rparr>)) (\<lambda>_.
            seq (read_memory te) (\<lambda>memory2.
            seq (upd (\<lambda>c. c\<lparr>tc_messages := build_messages (te_build te) (se_summary se) history (im_content m)
                memory2 (te_skills te) (im_attachments m)\<rparr>)) (\<lambda>_. ret Ev_ok))))))))) "

definition build_state :: "turn_env \<Rightarrow> reader \<Rightarrow> (turn, turn_event) prog" where
  "build_state te rd =
     seq (ctx tc_session) (\<lambda>found. case found of
       None \<Rightarrow> raise (RuntimeError txt_build_no_session)
     | Some se \<Rightarrow>
         seq (at_desk (reader_all_messages (me te) rd (se_id se))) (\<lambda>full.
           (let history = session_history se full in
            seq (upd (\<lambda>c. c\<lparr>tc_history := history\<rparr>)) (\<lambda>_.
            seq (catch (seq (multi_agent_invocation te) (\<lambda>iv. ret (Inr iv)))
                   (\<lambda>e. if is_value_error e then ret (Inl e) else raise e)) (\<lambda>provisional.
              case provisional of
                Inl e \<Rightarrow> reject (exn_text e)
              | Inr iv \<Rightarrow> build_messages_state te se history iv)))))"

section \<open>RUN\<close>

definition run_loop_state :: "turn_env \<Rightarrow> (turn, turn_event) prog" where
  "run_loop_state te =
     seq (ctx tc_session) (\<lambda>found. case found of
       None \<Rightarrow> raise (RuntimeError txt_run_no_session)
     | Some _ \<Rightarrow>
         seq (ctx (\<lambda>c. c)) (\<lambda>c.
         seq (on_world (gets (\<lambda>w. dx_auto (wd_desk w)))) (\<lambda>auto.
         seq (on_world (te_loop te c auto)) (\<lambda>r.
         seq (upd (\<lambda>c. c\<lparr>tc_final := lr_content r, tc_tools := lr_tools r, tc_usage := lr_usage r,
             tc_skills := lr_skills r, tc_skill_tokens := lr_skill_tokens r, tc_guidance := lr_guidance r,
             tc_cancelled := lr_cancelled r,
             tc_invocation := map_option (\<lambda>iv. iv\<lparr>iv_run_id := lr_run_id r\<rparr>) (tc_invocation c)\<rparr>)) (\<lambda>_.
           ret Ev_ok)))))"

section \<open>COMPACT\<close>

definition fresh_message :: "turn_env \<Rightarrow> ustr \<Rightarrow> ustr \<Rightarrow> ustr \<Rightarrow> ustr \<Rightarrow> (turn, message_record) prog" where
  "fresh_message te sid role content now =
     seq (at_desk next_id) (\<lambda>i. ret \<lparr>mr_id = i, mr_session = sid, mr_role = role, mr_content = content,
       mr_name = None, mr_tool_call = None, mr_tokens = tokens_of te content, mr_created = now,
       mr_metadata = JObj []\<rparr>)"

fun fresh_messages :: "turn_env \<Rightarrow> ustr \<Rightarrow> (ustr \<times> ustr) list \<Rightarrow> ustr \<Rightarrow> (turn, message_record list) prog" where
  "fresh_messages te sid [] now = ret []"
| "fresh_messages te sid ((role, content) # xs) now =
     seq (fresh_message te sid role content now) (\<lambda>m.
     seq (fresh_messages te sid xs now) (\<lambda>ms. ret (m # ms)))"

definition turn_contents :: "turn_ctx \<Rightarrow> (ustr \<times> ustr) list" where
  "turn_contents c =
     map (Pair (u ''user'')) (im_content (tc_inbound c) # tc_guidance c) @
     (if tc_final c \<noteq> [] \<or> \<not> tc_cancelled c then [(u ''assistant'', tc_final c)] else [])"

definition build_virtual_history :: "turn_env \<Rightarrow> (turn, message_record list) prog" where
  "build_virtual_history te =
     seq (ctx (\<lambda>c. c)) (\<lambda>c.
       if tc_usage c = None then raise (RuntimeError txt_compact_no_usage)
       else seq (at_desk next_time) (\<lambda>now.
            seq (fresh_messages te (sid_of c) (turn_contents c) now) (\<lambda>ms. ret (tc_history c @ ms))))"

definition build_true_token_usage :: "turn_env \<Rightarrow> reader \<Rightarrow> bool \<Rightarrow> (turn, token_usage) prog" where
  "build_true_token_usage te rd compacted =
     seq (ctx (\<lambda>c. c)) (\<lambda>c. case tc_usage c of
       None \<Rightarrow> raise (RuntimeError txt_save_no_usage)
     | Some us \<Rightarrow>
         seq (at_desk (reader_last_total (me te) rd (sid_of c))) (\<lambda>previous.
           lift (record_llm_usage us previous compacted)))"

text \<open>The end of each branch of COMPACT: the usage record, unless a cancelled turn used nothing.\<close>

definition record_usage :: "turn_env \<Rightarrow> reader \<Rightarrow> bool \<Rightarrow> (turn, unit) prog" where
  "record_usage te rd compacted =
     seq (ctx (\<lambda>c. c)) (\<lambda>c.
       if \<not> tc_cancelled c \<or> (case tc_usage c of Some us \<Rightarrow> lu_total us > 0 | None \<Rightarrow> False)
       then seq (build_true_token_usage te rd compacted) (\<lambda>tu. upd (\<lambda>c. c\<lparr>tc_token_usage := Some tu\<rparr>))
       else ret ())"

text \<open>A hook's call of the channel: its exceptions are logged and swallowed (\<open>HookManager\<close>).\<close>

definition hook_status :: "ustr \<Rightarrow> (turn, unit) prog" where
  "hook_status t = catch (on_world (tell (Status_out t))) (\<lambda>e. if is_exception e then ret () else raise e)"

definition after_compact_text :: "compact_stats \<Rightarrow> ustr" where
  "after_compact_text st =
     txt_compacted @ txt_compacted_messages @ show_int (cs_compacted st) @ txt_messages_comma @
     txt_compress_word @ show_int (cs_compacted_tokens st) @ txt_tokens_comma @
     txt_keep_recent @ show_int (cs_window_tokens st) @ txt_tokens_raw"

definition plan_stats :: "compaction_plan \<Rightarrow> compact_stats" where
  "plan_stats p = \<lparr>cs_should = cp_should p, cs_compacted = int (length (cp_source p)),
     cs_compacted_tokens = count_message_tokens (cp_source p), cs_window = int (length (cp_window p)),
     cs_window_tokens = count_message_tokens (cp_window p)\<rparr>"

definition set_history :: "message_record list \<Rightarrow> turn_ctx \<Rightarrow> turn_ctx" where
  "set_history ms c = c\<lparr>tc_session := map_option (\<lambda>s. s\<lparr>se_uncompacted := ms\<rparr>) (tc_session c)\<rparr>"

definition ask_summary :: "session \<Rightarrow> message_record list \<Rightarrow> (turn, ustr \<times> llm_usage) prog" where
  "ask_summary se source = on_world (\<lambda>w. if source = [] then (compact_summary (se_summary se) source (\<lambda>_. Inl AssertionError), w)
     else (compact_summary (se_summary se) source (\<lambda>_. wd_llm w 0), w\<lparr>wd_llm := tape_tl (wd_llm w)\<rparr>))"

definition compact_summarise :: "turn_env \<Rightarrow> reader \<Rightarrow> session \<Rightarrow> compaction_plan \<Rightarrow> (turn, turn_event) prog" where
  "compact_summarise te rd se plan =
     seq (hook_status txt_compacting) (\<lambda>_.
     seq (ask_summary se (cp_source plan)) (\<lambda>(summary, us).
     seq (upd (\<lambda>c. c\<lparr>tc_usage := map_option (\<lambda>x. usage_add x (Some us)) (tc_usage c)\<rparr>)) (\<lambda>_.
     seq (upd (\<lambda>c. set_history (cp_window plan)
            (c\<lparr>tc_session := map_option (\<lambda>s. s\<lparr>se_summary := summary\<rparr>) (tc_session c)\<rparr>))) (\<lambda>_.
     seq (record_usage te rd True) (\<lambda>_.
     seq (hook_status (after_compact_text (plan_stats plan))) (\<lambda>_. ret Ev_ok))))))"

definition compact_state :: "turn_env \<Rightarrow> reader \<Rightarrow> (turn, turn_event) prog" where
  "compact_state te rd =
     seq (ctx (\<lambda>c. c)) (\<lambda>c. case tc_session c of
       None \<Rightarrow> ret Ev_ok
     | Some se \<Rightarrow>
         seq (build_virtual_history te) (\<lambda>history.
         seq (read_memory te) (\<lambda>memory.
           (let b = build_context_token_breakdown (te_build te) (se_summary se) history [] [] memory
                  (te_tools te (allowed_tool_names (im_route (tc_inbound c)) (te_registered te)
                    (re_approval (te_resolver te))) None) False (te_skills te);
                plan = plan_compaction (te_memory te) history (bd_context b > te_max_context te) in
            seq (upd (\<lambda>c. c\<lparr>tc_stats := Some (plan_stats plan), tc_should_compact := cp_should plan\<rparr>)) (\<lambda>_.
              if \<not> cp_should plan \<or> cp_source plan = [] then
                seq (upd (set_history history)) (\<lambda>_.
                seq (record_usage te rd False) (\<lambda>_. ret Ev_ok))
              else compact_summarise te rd se plan)))))"

end
