(* ===== verification/TurnLoop.thy ===== *)
theory TurnLoop
  imports TurnMachine
begin

text \<open>
  SAVE and RESPOND of \<^verbatim>\<open>runtime/state.py\<close>, the loop of \<^verbatim>\<open>runtime/runtime.py\<close> over the transition table,
  with the mapping of exceptions to error replies, the traces, the monitor's metadata and the
  counter of active turns, and the event sink that persists multi-agent events.
\<close>

section \<open>SAVE\<close>

definition public_dict :: "attachment \<Rightarrow> json" where
  "public_dict a = JObj (
     [(u ''attachment_id'', JStr (the (at_id a))), (u ''source'', JStr (at_source a)),
      (u ''filename'', JStr (at_filename a)), (u ''mime_type'', JStr (at_mime a)),
      (u ''size_bytes'', JInt (at_size a)), (u ''processing'', JStr (at_processing a)),
      (u ''truncated'', JBool (at_truncated a)), (u ''error'', opt_str (at_error a))] @
     (case at_text_chars a of Some n \<Rightarrow> [(u ''text_chars'', JInt n)] | None \<Rightarrow> []))"

definition attachment_metadata :: "inbound \<Rightarrow> json option" where
  "attachment_metadata m = (if im_attachments m = [] then None
     else Some (JObj [(u ''attachments'', JArr (map public_dict (filter (\<lambda>a. at_id a \<noteq> None) (im_attachments m))))]))"

definition cancelled_metadata :: "turn_ctx \<Rightarrow> json option" where
  "cancelled_metadata c = (if tc_cancelled c
     then Some (JObj [(u ''incomplete'', JBool True), (u ''outcome'', JStr (u ''cancelled''))]) else None)"

text \<open>The title is taken from the first input, when the session still has its id as title.\<close>

definition save_title :: "turn_env \<Rightarrow> reader \<Rightarrow> session \<Rightarrow> turn_ctx \<Rightarrow> (turn, unit) prog" where
  "save_title te rd se c =
     (let title = take 48 (py_join [32] (py_split (im_content (tc_inbound c)))) in
      if se_title se = se_id se \<and> title \<noteq> [] then
        seq (upd (\<lambda>c. c\<lparr>tc_session := map_option (\<lambda>s. s\<lparr>se_title := title\<rparr>) (tc_session c)\<rparr>)) (\<lambda>_.
        seq (at_desk (reader_update_metadata (me te) rd (sid_of c) (Some title) None None)) (\<lambda>_. ret ()))
      else ret ())"

definition save_context :: "turn_env \<Rightarrow> reader \<Rightarrow> turn_ctx \<Rightarrow> (turn, unit) prog" where
  "save_context te rd c = (case tc_session c of
     None \<Rightarrow> ret ()
   | Some se \<Rightarrow>
       seq (save_title te rd se c) (\<lambda>_.
       seq (read_memory te) (\<lambda>memory.
         (let (b, n) = build_save_context_token_breakdown (te_build te) (se_summary se) (se_uncompacted se)
                (im_content (tc_inbound c)) (tc_final c) memory
                (te_tools te (allowed_tool_names (im_route (tc_inbound c)) (te_registered te)
                  (re_approval (te_resolver te))) None) (length (tc_tools c)) (te_skills te) in
          upd (\<lambda>c. c\<lparr>tc_context := Some (b, Some n)\<rparr>)))))"

definition save_messages :: "turn_env \<Rightarrow> reader \<Rightarrow> turn_ctx \<Rightarrow> (desk, ustr option) prog" where
  "save_messages te rd c =
     (let m = tc_inbound c; sid = sid_of c in
      seq (reader_save_user (me te) rd sid (im_content m) (tokens_of te (im_content m)) (Some (im_id m))
             (Some (im_created m)) (attachment_metadata m)) (\<lambda>_.
      seq (for_each (tc_guidance c) (\<lambda>g.
             seq (reader_save_user (me te) rd sid g (tokens_of te g) None None None) (\<lambda>_. ret ()))) (\<lambda>_.
        if tc_final c \<noteq> [] \<or> \<not> tc_cancelled c then
          seq (reader_save_assistant (me te) rd sid (tc_final c) (tokens_of te (tc_final c)) (cancelled_metadata c))
            (\<lambda>a. ret (if tc_cancelled c then None else Some (mr_id a)))
        else ret None)))"

definition usage_tag_of :: "turn_ctx \<Rightarrow> usage_tag option" where
  "usage_tag_of c = (case Option.bind (tc_invocation c) iv_run_id of
     None \<Rightarrow> None
   | Some rid \<Rightarrow> (if rid = [] then None
       else Some \<lparr>ut_scope = u ''parent'', ut_run = rid, ut_node = None, ut_agent = u ''parent''\<rparr>))"

text \<open>The records after the messages: summary and history, tool calls, usage.\<close>

definition save_records :: "turn_env \<Rightarrow> reader \<Rightarrow> turn_ctx \<Rightarrow> (desk, unit) prog" where
  "save_records te rd c =
     seq (case tc_session c of None \<Rightarrow> ret ()
          | Some se \<Rightarrow>
              seq (reader_update_summary (me te) rd (sid_of c) (se_summary se)) (\<lambda>_.
                reader_update_history (me te) rd (sid_of c) (se_uncompacted se))) (\<lambda>_.
     seq (reader_save_tools (me te) rd (tc_turn_id c) (sid_of c) (tc_tools c)) (\<lambda>_.
       case tc_token_usage c of None \<Rightarrow> ret ()
       | Some tu \<Rightarrow> reader_save_usage (me te) rd (tc_turn_id c) (sid_of c) tu (usage_tag_of c)))"

definition completed_payload :: "turn_ctx \<Rightarrow> ustr option \<Rightarrow> json" where
  "completed_payload c mid = JObj (
     [(u ''session_id'', JStr (sid_of c)), (u ''turn_id'', JStr (tc_turn_id c)),
      (u ''principal_id'', JStr (cr_principal (im_route (tc_inbound c))))] @
     (case mid of Some i \<Rightarrow> [(u ''completed_assistant_message_id'', JStr i)] | None \<Rightarrow> []))"

definition save_state :: "turn_env \<Rightarrow> reader \<Rightarrow> (turn, turn_event) prog" where
  "save_state te rd =
     seq (ctx (\<lambda>c. c)) (\<lambda>c.
       if tc_usage c = None then raise (RuntimeError txt_save_no_usage)
       else if tc_token_usage c = None \<and> \<not> tc_cancelled c then raise (RuntimeError txt_save_no_tokens)
       else
         seq (save_context te rd c) (\<lambda>_.
         seq (ctx (\<lambda>c. c)) (\<lambda>c1.
         seq (at_desk (save_messages te rd c1)) (\<lambda>mid.
         seq (at_desk (save_records te rd c1)) (\<lambda>_.
         seq (on_world (emit_event (completed_payload c1 mid))) (\<lambda>_. ret Ev_ok))))))"

section \<open>RESPOND\<close>

definition recipient_of :: "inbound \<Rightarrow> recipient" where
  "recipient_of m = \<lparr>rp_principal = cr_principal (im_route m), rp_channel = cr_channel (im_route m),
     rp_conversation = cr_conversation (im_route m)\<rparr>"

definition respond_message :: "turn_ctx \<Rightarrow> ustr \<Rightarrow> ustr \<Rightarrow> exn + outbound" where
  "respond_message c fid now =
     (if truthy (tc_error c) then
        mk_outbound fid (sid_of c) None (tc_final c) (u ''response.error'') (Some (recipient_of (tc_inbound c)))
          (Some (im_id (tc_inbound c))) (u ''chat_reply'') now
      else
        bindE (completed_outbound (sid_of c) (To_recipient (recipient_of (tc_inbound c))) (tc_final c)
          (Some (im_id (tc_inbound c))) (u ''chat_reply'') fid now) (\<lambda>o1.
        Inr (if tc_cancelled c
             then o1\<lparr>om_metadata := dict_put (u ''outcome'') (JStr (u ''cancelled'')) (om_metadata o1)\<rparr> else o1)))"

definition respond_state :: "(turn, turn_event) prog" where
  "respond_state =
     seq (ctx (\<lambda>c. c)) (\<lambda>c.
     seq (at_desk next_id) (\<lambda>fid.
     seq (at_desk next_time) (\<lambda>now.
     seq (lift (respond_message c fid now)) (\<lambda>o1.
     seq (upd (\<lambda>c. c\<lparr>tc_outbound := Some o1\<rparr>)) (\<lambda>_. ret Ev_ok)))))"

definition run_state :: "turn_env \<Rightarrow> reader \<Rightarrow> turn_state \<Rightarrow> (turn, turn_event) prog" where
  "run_state te rd st = (case st of
     COMMAND \<Rightarrow> command_state te rd | SESSION \<Rightarrow> session_state te rd | BUILD \<Rightarrow> build_state te rd
   | RUN \<Rightarrow> run_loop_state te | COMPACT \<Rightarrow> compact_state te rd | SAVE \<Rightarrow> save_state te rd
   | RESPOND \<Rightarrow> respond_state)"

section \<open>Traces\<close>

definition run_trace_metadata :: "turn_ctx \<Rightarrow> (ustr \<times> json) list" where
  "run_trace_metadata c =
     [(u ''tool_call_count'', JInt (int (length (tc_tools c)))),
      (u ''tool_names'', JArr (map (\<lambda>r. JStr (tr_name r)) (tc_tools c))),
      (u ''loaded_skill_names'', JArr (map JStr (tc_skills c))),
      (u ''loaded_skill_count'', JInt (int (length (tc_skills c)))),
      (u ''loaded_skill_token_count'', JInt (tc_skill_tokens c))]"

definition compact_trace_metadata :: "turn_ctx \<Rightarrow> (ustr \<times> json) list" where
  "compact_trace_metadata c =
     (let n = (\<lambda>f. JInt (case tc_stats c of Some st \<Rightarrow> f st | None \<Rightarrow> 0)) in
      [(u ''compacted'', JInt (case tc_token_usage c of Some tu \<Rightarrow> tu_compacted tu | None \<Rightarrow> 0)),
       (u ''compacted_message_count'', n cs_compacted), (u ''compacted_token_count'', n cs_compacted_tokens),
       (u ''raw_window_message_count'', n cs_window), (u ''raw_window_token_count'', n cs_window_tokens)])"

definition breakdown_fields :: "breakdown \<Rightarrow> (ustr \<times> json) list" where
  "breakdown_fields b =
     [(u ''system_tokens'', JInt (bd_system b)), (u ''skill_catalog_tokens'', JInt (bd_catalog b)),
      (u ''profile_memory_tokens'', JInt (bd_profile b)), (u ''summary_tokens'', JInt (bd_summary b)),
      (u ''history_tokens'', JInt (bd_history b)), (u ''current_input_tokens'', JInt (bd_input b)),
      (u ''output_tokens'', JInt (bd_output b)), (u ''tool_schema_tokens'', JInt (bd_tools b)),
      (u ''current_context_tokens'', JInt (bd_context b))]"

definition save_trace_metadata :: "turn_ctx \<Rightarrow> (ustr \<times> json) list" where
  "save_trace_metadata c = (case tc_context c of
     None \<Rightarrow> []
   | Some (b, n) \<Rightarrow> breakdown_fields b @
       (case n of Some k \<Rightarrow> [(u ''tool_count'', JInt (int k))] | None \<Rightarrow> []))"

definition trace_metadata :: "turn_ctx \<Rightarrow> (ustr \<times> json) list" where
  "trace_metadata c =
     (if tc_state c = RUN then run_trace_metadata c
      else if tc_state c = COMPACT then compact_trace_metadata c
      else if tc_state c = SAVE then save_trace_metadata c else [])"

text \<open>\<open>TurnMonitorHook.after_turn\<close>.\<close>

definition turn_outcome :: "turn_ctx \<Rightarrow> ustr" where
  "turn_outcome c =
     (if \<exists>t \<in> set (tc_trace c). sx_state t = u ''BUILD'' \<and> sx_event t = u ''rejected'' then u ''rejected''
      else if tc_cancelled c then u ''cancelled''
      else if truthy (tc_error c) then u ''failed'' else u ''completed'')"

definition after_turn :: "turn_ctx \<Rightarrow> real \<Rightarrow> real \<Rightarrow> (ustr \<times> json) list" where
  "after_turn c duration waited =
     [(u ''outcome'', JStr (turn_outcome c)), (u ''turn_duration_ms'', JFloat duration),
      (u ''session_lock_wait_ms'', JFloat waited),
      (u ''tool_failure_count'', JInt (int (length (filter (\<lambda>r. truthy (tr_error r)) (tc_tools c)))))]"

section \<open>The loop\<close>

text \<open>One round of the loop: the state, the mapping of an exception, the trace, the next state.\<close>

definition map_error :: "exn \<Rightarrow> (turn, turn_event) prog" where
  "map_error e =
     (if is_exception e then
        seq (upd (\<lambda>c. c\<lparr>tc_error := Some (exn_text e), tc_final := txt_request_failed @ exn_text e\<rparr>)) (\<lambda>_. ret Ev_error)
      else raise e)"

text \<open>The end of a round: the monitor's fields at the end of the turn, the trace, the next state.\<close>

definition monitor_fields :: "real \<Rightarrow> real \<Rightarrow> turn_state option \<Rightarrow> (turn, (ustr \<times> json) list) prog" where
  "monitor_fields turn_started waited next =
     seq (ctx (\<lambda>c. c)) (\<lambda>c.
       if tc_state c = RESPOND \<and> next = None \<and> tc_shortcut c = None \<and> tc_session c \<noteq> None
       then seq (on_world clock) (\<lambda>now. ret (after_turn c ((now - turn_started) * 1000) waited))
       else ret [])"

definition trace_entry :: "turn_ctx \<Rightarrow> turn_event \<Rightarrow> real \<Rightarrow> (ustr \<times> json) list \<Rightarrow> state_trace" where
  "trace_entry c event duration monitor =
     \<lparr>sx_turn = tc_turn_id c, sx_session = sid_of c, sx_state = state_name (tc_state c),
      sx_duration = duration, sx_event = event_name event, sx_error = tc_error c,
      sx_metadata = JObj (fold (\<lambda>(k, v) d. dict_put k v d) monitor (trace_metadata c))\<rparr>"

definition enter :: "turn_state option \<Rightarrow> turn_ctx \<Rightarrow> turn_ctx" where
  "enter next c = (case next of None \<Rightarrow> c | Some st \<Rightarrow> c\<lparr>tc_state := st\<rparr>)"

definition close_step ::
  "real \<Rightarrow> real \<Rightarrow> turn_event \<Rightarrow> real \<Rightarrow> turn_state option \<Rightarrow> (turn, turn_state option) prog" where
  "close_step turn_started waited event duration next =
     seq (monitor_fields turn_started waited next) (\<lambda>monitor.
     seq (upd (\<lambda>c. c\<lparr>tc_trace := tc_trace c @ [trace_entry c event duration monitor]\<rparr>)) (\<lambda>_.
     seq (upd (enter next)) (\<lambda>_. ret next)))"

definition turn_step :: "turn_env \<Rightarrow> reader \<Rightarrow> real \<Rightarrow> real \<Rightarrow> (turn, turn_state option) prog" where
  "turn_step te rd turn_started waited =
     seq (ctx tc_state) (\<lambda>st.
     seq (on_world clock) (\<lambda>started.
     seq (catch (run_state te rd st) map_error) (\<lambda>event.
     seq (on_world clock) (\<lambda>ended.
     seq (ctx tc_state) (\<lambda>st'.
     seq (lift (next_state st' event)) (\<lambda>next.
       close_step turn_started waited event ((ended - started) * 1000) next))))))"

text \<open>
  The states only go up, so the loop ends. No handler changes the state of the turn itself; the
  program of the agent loop sees the world only.
\<close>

type_synonym turn_frame = "turn_state \<times> state_trace list \<times> inbound \<times> ustr \<times> nat"

definition frame :: "turn_ctx \<Rightarrow> turn_frame" where
  "frame c = (tc_state c, tc_trace c, tc_inbound c, tc_turn_id c, tc_saved c)"

lemma frame_upd [simp]:
  "frame (c\<lparr>tc_session := a0\<rparr>) = frame c"
  "frame (c\<lparr>tc_history := a1\<rparr>) = frame c"
  "frame (c\<lparr>tc_messages := a2\<rparr>) = frame c"
  "frame (c\<lparr>tc_final := a3\<rparr>) = frame c"
  "frame (c\<lparr>tc_shortcut := a4\<rparr>) = frame c"
  "frame (c\<lparr>tc_tools := a5\<rparr>) = frame c"
  "frame (c\<lparr>tc_skills := a6\<rparr>) = frame c"
  "frame (c\<lparr>tc_skill_tokens := a7\<rparr>) = frame c"
  "frame (c\<lparr>tc_guidance := a8\<rparr>) = frame c"
  "frame (c\<lparr>tc_cancelled := a9\<rparr>) = frame c"
  "frame (c\<lparr>tc_usage := a10\<rparr>) = frame c"
  "frame (c\<lparr>tc_token_usage := a11\<rparr>) = frame c"
  "frame (c\<lparr>tc_context := a12\<rparr>) = frame c"
  "frame (c\<lparr>tc_should_compact := a13\<rparr>) = frame c"
  "frame (c\<lparr>tc_stats := a14\<rparr>) = frame c"
  "frame (c\<lparr>tc_outbound := a15\<rparr>) = frame c"
  "frame (c\<lparr>tc_error := a16\<rparr>) = frame c"
  "frame (c\<lparr>tc_invocation := a17\<rparr>) = frame c"
  "frame (c\<lparr>tc_attachment_tool := a18\<rparr>) = frame c"
  by (simp_all add: frame_def)

abbreviation framed :: "turn_frame \<Rightarrow> turn \<Rightarrow> bool" where
  "framed k s \<equiv> frame (tn_ctx s) = k"

lemma keeps_on_world [keeps_rules]: "keeps (\<lambda>s. P (tn_ctx s)) (on_world m)"
  by (rule keepsI) (auto simp: on_world_def split: prod.split)

lemma keeps_ctx [keeps_rules]: "keeps P (ctx f)"
  by (simp add: ctx_def keeps_gets)

lemma keeps_upd: "(\<And>c. P c \<Longrightarrow> P (f c)) \<Longrightarrow> keeps (\<lambda>s. P (tn_ctx s)) (upd f)"
  by (rule keepsI) (auto simp: upd_def modify_def)

lemma keeps_read_memory [keeps_rules]: "keeps (\<lambda>s. P (tn_ctx s)) (read_memory te)"
  by (simp add: read_memory_def keeps_on_world)

lemma keeps_fresh_messages [keeps_rules]: "keeps (\<lambda>s. P (tn_ctx s)) (fresh_messages te sid xs now)"
  by (induction te sid xs now rule: fresh_messages.induct)
    (auto simp: fresh_message_def intro!: keeps_rules)

lemma keeps_ask_summary [keeps_rules]: "keeps (\<lambda>s. P (tn_ctx s)) (ask_summary se source)"
  by (simp add: ask_summary_def keeps_on_world)

lemma set_history_frame [simp]: "frame (set_history ms c) = frame c"
  by (simp add: set_history_def)

lemma keeps_hook_status [keeps_rules]: "keeps (\<lambda>s. P (tn_ctx s)) (hook_status t)"
  unfolding hook_status_def by (intro keeps_rules)

lemma keeps_invocation [keeps_rules]: "keeps (\<lambda>s. P (tn_ctx s)) (multi_agent_invocation te)"
  unfolding multi_agent_invocation_def by (intro keeps_rules)

lemma keeps_record_usage [keeps_rules]: "keeps (framed k) (record_usage te rd b)"
  unfolding record_usage_def build_true_token_usage_def by (intro keeps_rules keeps_upd) simp_all

lemma keeps_run_state: "keeps (framed k) (run_state te rd st')"
proof -
  have reject: "keeps (framed k) (reject t)" for t
    unfolding reject_def by (intro keeps_rules keeps_upd) simp
  have build: "keeps (framed k) (build_messages_state te se h iv)" for se h iv
    unfolding build_messages_state_def Let_def by (intro keeps_rules keeps_upd reject) simp_all
  have summarise: "keeps (framed k) (compact_summarise te rd se plan)" for se plan
    unfolding compact_summarise_def by (intro keeps_rules keeps_upd) simp_all
  have history: "keeps (framed k) (build_virtual_history te)"
    unfolding build_virtual_history_def by (intro keeps_rules)
  have title: "keeps (framed k) (save_title te rd se c)" for se c
    unfolding save_title_def Let_def by (intro keeps_rules keeps_upd) simp_all
  have save_ctx: "keeps (framed k) (save_context te rd c)" for c
    unfolding save_context_def Let_def by (intro keeps_rules keeps_upd title) simp_all
  show ?thesis
    by (cases st')
      (auto simp: run_state_def command_state_def session_state_def build_state_def run_loop_state_def
        compact_state_def save_state_def respond_state_def Let_def
        intro!: keeps_rules keeps_upd reject build summarise history save_ctx)
qed

text \<open>A tick of the clock changes the clock only; the end of a round never raises.\<close>

definition tick :: "turn \<Rightarrow> turn" where
  "tick s = s\<lparr>tn_world := (tn_world s)\<lparr>wd_clock := tape_tl (wd_clock (tn_world s))\<rparr>\<rparr>"

lemma on_world_clock: "on_world clock s = (Inr (wd_clock (tn_world s) 0), tick s)"
  by (simp add: on_world_def clock_def tick_def)

lemma tick_ctx [simp]: "tn_ctx (tick s) = tn_ctx s"
  by (simp add: tick_def)

lemma close_step_run:
  obtains monitor s' where "close_step started waited event duration next s = (Inr next, s')"
    "tn_ctx s' = enter next ((tn_ctx s)\<lparr>tc_trace := tc_trace (tn_ctx s) @ [trace_entry (tn_ctx s) event duration monitor]\<rparr>)"
    "tn_world s' = tn_world s \<or> tn_world s' = tn_world (tick s)"
proof -
  obtain monitor s1 where m: "monitor_fields started waited next s = (Inr monitor, s1)" "tn_ctx s1 = tn_ctx s"
    "s1 = s \<or> s1 = tick s"
    by (cases "tc_state (tn_ctx s) = RESPOND \<and> next = None \<and> tc_shortcut (tn_ctx s) = None \<and> tc_session (tn_ctx s) \<noteq> None")
      (auto simp: monitor_fields_def ctx_def on_world_clock seq_def gets_def ret_def)
  then show thesis
    by (intro that [of "s1\<lparr>tn_ctx := enter next ((tn_ctx s)\<lparr>tc_trace := tc_trace (tn_ctx s) @
        [trace_entry (tn_ctx s) event duration monitor]\<rparr>)\<rparr>" monitor])
      (auto simp: close_step_def upd_def prog_simps)
qed

text \<open>A round in terms of its handler.\<close>

lemma turn_step_run:
  "turn_step te rd ts waited s = (case catch (run_state te rd (tc_state (tn_ctx s))) map_error (tick s) of
     (Inl e, s2) \<Rightarrow> (Inl e, s2)
   | (Inr event, s2) \<Rightarrow> (case next_state (tc_state (tn_ctx s2)) event of
       Inl e \<Rightarrow> (Inl e, tick s2)
     | Inr next \<Rightarrow> close_step ts waited event
         ((wd_clock (tn_world s2) 0 - wd_clock (tn_world s) 0) * 1000) next (tick s2)))"
  by (simp add: turn_step_def ctx_def on_world_clock seq_def gets_def lift_def
      split: prod.splits sum.splits)

lemma caught_frame:
  assumes "catch (run_state te rd st) map_error s = (r, s2)"
  shows "frame (tn_ctx s2) = frame (tn_ctx s)"
proof -
  let ?k = "frame (tn_ctx s)"
  have "keeps (framed ?k) (catch (run_state te rd st) map_error)"
    unfolding map_error_def by (intro keeps_rules keeps_run_state keeps_upd) simp_all
  from keepsD [OF this, of s] assms show ?thesis by simp
qed

lemma turn_step_cases:
  assumes "turn_step te rd ts waited s = (Inr next, s')"
  obtains event s2 duration monitor where
    "catch (run_state te rd (tc_state (tn_ctx s))) map_error (tick s) = (Inr event, s2)"
    "next_state (tc_state (tn_ctx s)) event = Inr next" "frame (tn_ctx s2) = frame (tn_ctx s)"
    "tn_ctx s' = enter next ((tn_ctx s2)\<lparr>tc_trace := tc_trace (tn_ctx s2) @ [trace_entry (tn_ctx s2) event duration monitor]\<rparr>)"
    "wd_desk (tn_world s') = wd_desk (tn_world s2)"
proof -
  obtain r s2 where r: "catch (run_state te rd (tc_state (tn_ctx s))) map_error (tick s) = (r, s2)" by fastforce
  from caught_frame [OF r] have fr: "frame (tn_ctx s2) = frame (tn_ctx s)" by simp
  then have st: "tc_state (tn_ctx s2) = tc_state (tn_ctx s)" by (simp add: frame_def)
  obtain event where e: "r = Inr event" using assms r by (cases r) (simp_all add: turn_step_run)
  obtain next' where n: "next_state (tc_state (tn_ctx s)) event = Inr next'"
    using assms r e st by (cases "next_state (tc_state (tn_ctx s)) event") (simp_all add: turn_step_run)
  let ?d = "(wd_clock (tn_world s2) 0 - wd_clock (tn_world s) 0) * 1000"
  obtain monitor s3 where c: "close_step ts waited event ?d next' (tick s2) = (Inr next', s3)"
    "tn_ctx s3 = enter next' ((tn_ctx s2)\<lparr>tc_trace := tc_trace (tn_ctx s2) @ [trace_entry (tn_ctx s2) event ?d monitor]\<rparr>)"
    "tn_world s3 = tn_world (tick s2) \<or> tn_world s3 = tn_world (tick (tick s2))"
    by (rule close_step_run [of ts waited event ?d next' "tick s2"]) simp
  have "next = next'" "s' = s3" using assms r e st n c(1) by (simp_all add: turn_step_run)
  moreover have "wd_desk (tn_world s3) = wd_desk (tn_world s2)" using c(3) by (auto simp: tick_def)
  ultimately show thesis using that [of event s2 ?d monitor] r e n fr c(2) by simp
qed

lemma turn_step_up:
  assumes "turn_step te rd ts waited s = (Inr (Some st), s')"
  shows "tc_state (tn_ctx s) < st \<and> tc_state (tn_ctx s') = st"
  using assms by (rule turn_step_cases) (auto simp: enter_def frame_def dest: next_state_up)

lemma rank_le: "rank t \<le> 6"
  by (cases t) simp_all

lemma turn_step_measure:
  assumes "(Inr (Some st), s') = turn_step te rd ts waited s"
  shows "6 - rank (tc_state (tn_ctx s')) < 6 - rank (tc_state (tn_ctx s))"
  using turn_step_up [OF assms [symmetric]] rank_le [of st] by (auto simp: less_turn_state_def)

function turn_loop :: "turn_env \<Rightarrow> reader \<Rightarrow> real \<Rightarrow> real \<Rightarrow> turn \<Rightarrow> (exn + unit) \<times> turn" where
  "turn_loop te rd started waited s = (case turn_step te rd started waited s of
       (Inl e, s') \<Rightarrow> (Inl e, s')
     | (Inr None, s') \<Rightarrow> (Inr (), s')
     | (Inr (Some st), s') \<Rightarrow> turn_loop te rd started waited s')"
  by pat_completeness auto

termination
  by (relation "measure (\<lambda>(te, rd, started, waited, s). 6 - rank (tc_state (tn_ctx s)))")
    (simp_all add: turn_step_measure)

declare turn_loop.simps [simp del]

section \<open>The whole turn\<close>

definition save_remaining_traces :: "turn_env \<Rightarrow> reader \<Rightarrow> (turn, unit) prog" where
  "save_remaining_traces te rd =
     seq (ctx (\<lambda>c. c)) (\<lambda>c.
       if tc_shortcut c \<noteq> None \<or> tc_session c = None then ret ()
       else seq (at_desk (reader_save_traces (me te) rd (drop (tc_saved c) (tc_trace c)))) (\<lambda>_.
            upd (\<lambda>c. c\<lparr>tc_saved := length (tc_trace c)\<rparr>)))"

definition final_outbound :: "turn_env \<Rightarrow> (turn, outbound) prog" where
  "final_outbound te =
     seq (ctx (\<lambda>c. c)) (\<lambda>c. case tc_outbound c of
       Some o1 \<Rightarrow> ret o1
     | None \<Rightarrow>
         seq (at_desk next_id) (\<lambda>fid. seq (at_desk next_time) (\<lambda>now.
           lift (new_outbound (sid_of c) (To_channel (cr_channel (im_route (tc_inbound c)))) (tc_final c) None
             (u ''chat_reply'') fid now))))"

definition deliver :: "outbound \<Rightarrow> (turn, outbound) prog" where
  "deliver o1 =
     seq (on_world (tell (if om_event_type o1 = u ''response.error'' then Error_out (om_content o1)
       else Completed_out (om_content o1)))) (\<lambda>_. ret o1)"

definition run_turn_bound :: "turn_env \<Rightarrow> reader \<Rightarrow> real \<Rightarrow> (turn, outbound) prog" where
  "run_turn_bound te rd turn_started =
     seq (on_world clock) (\<lambda>wait_started.
     seq (on_world clock) (\<lambda>locked.
     seq (turn_loop te rd turn_started ((locked - wait_started) * 1000)) (\<lambda>_.
     seq (save_remaining_traces te rd) (\<lambda>_.
     seq (final_outbound te) deliver))))"

definition begin_turn :: "world \<Rightarrow> world" where
  "begin_turn w = w\<lparr>wd_active := wd_active w + 1\<rparr>"

definition end_turn :: "world \<Rightarrow> world" where
  "end_turn w = w\<lparr>wd_active := max 0 (wd_active w - 1)\<rparr>"

definition is_globally_idle :: "world \<Rightarrow> bool" where
  "is_globally_idle w \<longleftrightarrow> wd_active w = 0"

text \<open>Run a program of the turn on a fresh context.\<close>

definition in_turn :: "inbound \<Rightarrow> ustr \<Rightarrow> (turn, 'a) prog \<Rightarrow> (world, 'a) prog" where
  "in_turn m turn_id prg w = (case prg \<lparr>tn_world = w, tn_ctx = new_ctx m turn_id\<rparr> of (r, s) \<Rightarrow> (r, tn_world s))"

definition run_turn :: "turn_env \<Rightarrow> inbound \<Rightarrow> (world, outbound) prog" where
  "run_turn te m =
     seq (modify begin_turn) (\<lambda>_.
       ensuring
         (seq (on_bundles (resolve (te_resolver te) (te_registered te) (im_route m))) (\<lambda>px.
          seq clock (\<lambda>turn_started.
          seq (on_desk next_id) (\<lambda>turn_id.
            in_turn m turn_id (run_turn_bound te (px_reader px) turn_started)))))
         end_turn)"

section \<open>The event sink of the coordinator\<close>

definition multi_agent_event_fields :: "ustr list" where
  "multi_agent_event_fields = [u ''run_id'', u ''node_id'', u ''task_label'', u ''strategy'', u ''status'',
     u ''duration_ms'', u ''usage'', u ''error_code'', u ''error'', u ''content'']"

definition live_event_fields :: "ustr list" where
  "live_event_fields = filter (\<lambda>k. k \<noteq> u ''content'') multi_agent_event_fields"

definition event_trace :: "turn_ctx \<Rightarrow> ustr \<Rightarrow> (ustr \<times> json) list \<Rightarrow> state_trace" where
  "event_trace c event_type metadata =
     \<lparr>sx_turn = tc_turn_id c, sx_session = sid_of c, sx_state = u ''MULTI_AGENT'',
      sx_duration = (case Option.bind (dict_get metadata (u ''duration_ms'')) real_of_json of Some r \<Rightarrow> r | None \<Rightarrow> 0),
      sx_event = event_type, sx_error = jstr (JObj metadata) (u ''error''),
      sx_metadata = JObj (dict_put (u ''parent_request_id'') (JStr (im_id (tc_inbound c))) metadata)\<rparr>"

text \<open>The usage row of a worker; the ledger computes the cumulative total itself.\<close>

definition worker_usage_row :: "json \<Rightarrow> token_usage" where
  "worker_usage_row us =
     \<lparr>tu_input = jint_or 0 us (u ''input_tokens''), tu_output = jint_or 0 us (u ''output_tokens''),
      tu_turn = jint_or 0 us (u ''turn_total_tokens''), tu_total = jint_or 0 us (u ''turn_total_tokens''), tu_compacted = 0\<rparr>"

definition save_worker_usage :: "turn_env \<Rightarrow> reader \<Rightarrow> turn_ctx \<Rightarrow> (ustr \<times> json) list \<Rightarrow> json option \<Rightarrow> (turn, unit) prog" where
  "save_worker_usage te rd c metadata us =
     (case (us, jstr (JObj metadata) (u ''run_id''), jstr (JObj metadata) (u ''node_id'')) of
        (Some (JObj kvs), Some rid, Some nid) \<Rightarrow>
          at_desk (reader_save_usage (me te) rd (tc_turn_id c @ u '':'' @ rid @ u '':'' @ nid) (sid_of c)
            (worker_usage_row (JObj kvs))
            (Some \<lparr>ut_scope = u ''worker'', ut_run = rid, ut_node = Some nid,
                   ut_agent = u ''worker-'' @ rid @ u ''-'' @ nid\<rparr>))
      | _ \<Rightarrow> ret ())"

definition persist_multi_agent_event :: "turn_env \<Rightarrow> reader \<Rightarrow> ustr \<Rightarrow> (ustr \<times> json) list \<Rightarrow> (turn, unit) prog" where
  "persist_multi_agent_event te rd event_type payload =
     seq (ctx (\<lambda>c. c)) (\<lambda>c.
       if tc_session c = None \<or> event_type \<notin> set multi_agent_event_types then ret ()
       else
         (let metadata = filter (\<lambda>(k, v). k \<in> set multi_agent_event_fields) payload in
          seq (at_desk (reader_save_traces (me te) rd [event_trace c event_type metadata])) (\<lambda>_.
          seq (save_worker_usage te rd c metadata (dict_get payload (u ''usage''))) (\<lambda>_.
            on_world (tell (Multi_agent_out event_type
              (JObj (filter (\<lambda>(k, v). k \<in> set live_event_fields) metadata))))))))"

end
