(* ===== verification/SessionFacts.thy ===== *)
theory SessionFacts
  imports RunHistory
begin

text \<open>
  Facts about the session store: directories under their names, what a lookup by session id finds
  after a write, the rows of sessions and messages read back, and the reader of the multi-agent
  history. The directory names of a disk are distinct (\<open>disk_ok\<close>), which every write keeps.
\<close>

section \<open>Directories\<close>

definition disk_ok :: "disk \<Rightarrow> bool" where
  "disk_ok dk \<longleftrightarrow> distinct (map sd_name (dk_dirs dk))"

lemma get_dir_name: "get_dir ds name = Some d \<Longrightarrow> sd_name d = name \<and> d \<in> set ds"
  by (auto simp: get_dir_def find_Some_iff)

lemma get_dir_None: "get_dir ds name = None \<longleftrightarrow> name \<notin> sd_name ` set ds"
  by (auto simp: get_dir_def find_None_iff)

lemma get_dir_in:
  "distinct (map sd_name ds) \<Longrightarrow> d \<in> set ds \<Longrightarrow> get_dir ds (sd_name d) = Some d"
  unfolding get_dir_def by (induction ds) auto

lemma get_dir_update:
  assumes "\<And>d. sd_name (f d) = sd_name d"
  shows "get_dir (update_dir name f ds) name' =
    (if name' = name then Some (f (case get_dir ds name of Some d \<Rightarrow> d | None \<Rightarrow> empty_dir name))
     else get_dir ds name')"
proof (cases "get_dir ds name")
  case None
  then have "get_dir (ds @ [f (empty_dir name)]) name' =
      (if name' = name then Some (f (empty_dir name)) else get_dir ds name')"
    using assms unfolding get_dir_def
    by (induction ds) (auto simp: empty_dir_def split: if_splits)
  with None show ?thesis by (simp add: update_dir_def)
next
  case (Some d)
  have "get_dir (map (\<lambda>d. if sd_name d = name then f d else d) ds) name' =
      (if name' = name then map_option f (get_dir ds name) else get_dir ds name')"
    using assms unfolding get_dir_def by (induction ds) auto
  with Some show ?thesis by (simp add: update_dir_def)
qed

lemma names_update:
  assumes "\<And>d. sd_name (f d) = sd_name d"
  shows "map sd_name (update_dir name f ds) =
    (if get_dir ds name = None then map sd_name ds @ [name] else map sd_name ds)"
  using assms by (auto simp: update_dir_def empty_dir_def o_def)

lemma distinct_update:
  "(\<And>d. sd_name (f d) = sd_name d) \<Longrightarrow> distinct (map sd_name ds) \<Longrightarrow> distinct (map sd_name (update_dir name f ds))"
  using names_update [of f name ds] by (auto simp: get_dir_None)

text \<open>A write runs \<open>ask_io\<close> and then either nothing or its update has happened.\<close>

lemma ask_io_dirs: "dk_dirs (snd (ask_io dk)) = dk_dirs dk"
  by (simp add: ask_io_def Let_def split: option.splits)

lemma write_dir_Inr:
  "write_dir name f dk = (Inr x, dk') \<Longrightarrow> dk_dirs dk' = update_dir name f (dk_dirs dk)"
  using ask_io_dirs [of dk] by (auto simp: write_dir_def seq_def modify_def split: prod.splits sum.splits)

lemma write_dir_Inl: "write_dir name f dk = (Inl e, dk') \<Longrightarrow> dk_dirs dk' = dk_dirs dk"
  using ask_io_dirs [of dk] by (auto simp: write_dir_def seq_def modify_def split: prod.splits sum.splits)

lemma in_session_Inr:
  "in_session env sid f dk = (Inr x, dk') \<Longrightarrow>
     dk_dirs dk' = update_dir (find_session_dir env (dk_dirs dk) sid) f (dk_dirs dk)"
  by (auto simp: in_session_def dest: write_dir_Inr)

lemma in_session_Inl: "in_session env sid f dk = (Inl e, dk') \<Longrightarrow> dk_dirs dk' = dk_dirs dk"
  by (auto simp: in_session_def dest: write_dir_Inl)

text \<open>
  A write that happens or not, as an invariant rule: what holds of the directories before and
  after the update holds after the write.
\<close>

lemma keeps_in_session:
  assumes "\<And>ds. P ds \<Longrightarrow> P (update_dir (find_session_dir env ds sid) f ds)"
  shows "keeps (\<lambda>dk. P (dk_dirs dk)) (in_session env sid f)"
proof (rule keepsI)
  fix dk :: disk assume p: "P (dk_dirs dk)"
  obtain r dk' where m: "in_session env sid f dk = (r, dk')" by fastforce
  have "P (dk_dirs dk')"
  proof (cases r)
    case (Inl e)
    with m have "dk_dirs dk' = dk_dirs dk" by (simp add: in_session_Inl)
    with p show ?thesis by (simp only:)
  next
    case (Inr x)
    with m have "dk_dirs dk' = update_dir (find_session_dir env (dk_dirs dk) sid) f (dk_dirs dk)"
      by (simp add: in_session_Inr)
    with assms [OF p] show ?thesis by (simp only:)
  qed
  with m show "P (dk_dirs (snd (in_session env sid f dk)))" by simp
qed

section \<open>Lookup by session id\<close>

lemma the_dir_name: "sd_name (the_dir env ds sid) = find_session_dir env ds sid"
  by (auto simp: the_dir_def empty_dir_def dest: get_dir_name split: option.splits)

definition legacy_holds :: "store_env \<Rightarrow> session_dir list \<Rightarrow> ustr \<Rightarrow> bool" where
  "legacy_holds env ds sid \<longleftrightarrow>
     (case get_dir ds (url_quote sid) of Some d \<Rightarrow> holds_session env sid d | None \<Rightarrow> False)"

lemma find_session_dir_alt:
  "find_session_dir env ds sid =
     (if legacy_holds env ds sid then url_quote sid
      else case map_option sd_name (find (holds_session env sid) ds) of Some n \<Rightarrow> n | None \<Rightarrow> url_quote sid)"
  by (simp add: find_session_dir_def legacy_holds_def Let_def split: option.split)

lemma find_session_dir_eqI:
  "legacy_holds env ds' sid = legacy_holds env ds sid \<Longrightarrow>
     map_option sd_name (find (holds_session env sid) ds') = map_option sd_name (find (holds_session env sid) ds) \<Longrightarrow>
     find_session_dir env ds' sid = find_session_dir env ds sid"
  by (simp only: find_session_dir_alt)

lemma holds_empty [simp]: "\<not> holds_session env sid (empty_dir name)"
  by (simp add: holds_session_def dir_session_def read_session_file_def empty_dir_def)

lemma find_map_same:
  "(\<And>d. P (g d) = P d) \<Longrightarrow> (\<And>d. sd_name (g d) = sd_name d) \<Longrightarrow>
     map_option sd_name (find P (map g ds)) = map_option sd_name (find P ds)"
  by (induction ds) auto

lemma find_append_not: "\<not> P d \<Longrightarrow> find P (ds @ [d]) = find P ds"
  by (induction ds) auto

text \<open>An update that leaves the session files alone does not change where a session is.\<close>

lemma find_session_dir_update:
  assumes f: "\<And>d. sd_name (f d) = sd_name d" "\<And>d. sd_session (f d) = sd_session d"
  shows "find_session_dir env (update_dir name f ds) sid = find_session_dir env ds sid"
proof -
  have h: "holds_session env sid (f d) = holds_session env sid d" for d
    by (simp add: holds_session_def dir_session_def f(2))
  have "legacy_holds env (update_dir name f ds) sid = legacy_holds env ds sid"
    using h by (simp add: legacy_holds_def get_dir_update [of f, OF f(1)] split: option.split)
  moreover have "map_option sd_name (find (holds_session env sid) (update_dir name f ds))
      = map_option sd_name (find (holds_session env sid) ds)"
  proof (cases "get_dir ds name")
    case None
    then show ?thesis using h by (simp add: update_dir_def find_append_not)
  next
    case (Some y)
    have "map_option sd_name (find (holds_session env sid) (map (\<lambda>d. if sd_name d = name then f d else d) ds))
        = map_option sd_name (find (holds_session env sid) ds)"
      by (rule find_map_same) (simp_all add: h f(1))
    with Some show ?thesis by (simp add: update_dir_def)
  qed
  ultimately show ?thesis by (rule find_session_dir_eqI)
qed

text \<open>So the session's directory is the updated one, and every other session keeps its own.\<close>

lemma the_dir_update:
  assumes f: "\<And>d. sd_name (f d) = sd_name d" "\<And>d. sd_session (f d) = sd_session d"
  shows "the_dir env (update_dir (find_session_dir env ds sid) f ds) sid = f (the_dir env ds sid)"
  by (simp add: the_dir_def find_session_dir_update [of f, OF f] get_dir_update [of f, OF f(1)] split: option.split)

lemma find_Some_get:
  assumes "distinct (map sd_name ds)" "find (holds_session env sid) ds = Some d"
  shows "get_dir ds (sd_name d) = Some d"
  using assms get_dir_in by (auto simp: find_Some_iff)

text \<open>A lookup succeeds exactly when some directory holds the session.\<close>

lemma load_session_None:
  assumes "distinct (map sd_name ds)"
  shows "load_session env ds sid = None \<or> (\<exists>d \<in> set ds. dir_session env d \<noteq> None \<and> the_dir env ds sid = d)"
  by (auto simp: load_session_def the_dir_def dir_session_def read_session_file_def empty_dir_def
      dest: get_dir_name split: option.splits)

lemma load_session_holds:
  assumes "distinct (map sd_name ds)" "d \<in> set ds" "holds_session env sid d"
  obtains s where "load_session env ds sid = Some s" "se_id s = sid"
proof -
  obtain d' where d': "find (holds_session env sid) ds = Some d'"
    using assms(2,3) by (metis find_None_iff option.exhaust)
  let ?l = "url_quote sid"
  have "\<exists>d2. get_dir ds (find_session_dir env ds sid) = Some d2 \<and> holds_session env sid d2"
  proof (cases "case get_dir ds ?l of Some d \<Rightarrow> holds_session env sid d | None \<Rightarrow> False")
    case True
    then show ?thesis by (auto simp: find_session_dir_def split: option.splits)
  next
    case False
    have "holds_session env sid d'" using d' by (auto simp: find_Some_iff)
    with False d' find_Some_get [OF assms(1) d'] show ?thesis by (simp add: find_session_dir_def)
  qed
  then show thesis
    by (intro that [of "the (load_session env ds sid)"])
      (auto simp: load_session_def the_dir_def holds_session_def split: option.splits)
qed

section \<open>Rows read back\<close>

text \<open>What a stored history item keeps of a message: role and content, nothing else.\<close>

definition context_copy :: "store_env \<Rightarrow> message_record \<Rightarrow> message_record" where
  "context_copy env m = \<lparr>mr_id = [], mr_session = [], mr_role = mr_role m, mr_content = mr_content m,
     mr_name = None, mr_tool_call = None, mr_tokens = content_tokens (st_enc env) (mr_content m),
     mr_created = [], mr_metadata = JObj []\<rparr>"

definition reloaded :: "store_env \<Rightarrow> session \<Rightarrow> session" where
  "reloaded env s = s\<lparr>se_uncompacted := map (context_copy env) (se_uncompacted s)\<rparr>"

definition storable :: "store_env \<Rightarrow> session \<Rightarrow> bool" where
  "storable env s \<longleftrightarrow> se_id s \<noteq> [] \<and> aware_time env (se_created s) \<and> aware_time env (se_updated s)"

lemma row_context_row: "row_message env (context_row m) = context_copy env m"
  by (simp add: row_message_def context_row_def context_copy_def jstr_or_def jstr_def jint_or_def jget_def dict_get_def)

lemma row_message_row: "row_message env (message_row m) = m\<lparr>mr_session := [], mr_name := None, mr_tool_call := None\<rparr>"
  by (simp add: row_message_def message_row_def jstr_or_def jstr_def jint_or_def jget_def dict_get_def int_of_def)

lemma history_item_ok_context: "history_item_ok (context_row m)"
  by (simp add: history_item_ok_def context_row_def jstr_def jget_def dict_get_def)

lemma session_row_get:
  "jget (session_row s) (u ''id'') = Some (JStr (se_id s))"
  "jget (session_row s) (u ''user_id'') = Some (JStr (se_user s))"
  "jget (session_row s) (u ''channel'') = Some (JStr (se_channel s))"
  "jget (session_row s) (u ''principal_id'') = Some (JStr (se_principal s))"
  "jget (session_row s) (u ''conversation_id'') = Some (JStr (se_conversation s))"
  "jget (session_row s) (u ''title'') = Some (JStr (se_title s))"
  "jget (session_row s) (u ''summary'') = Some (JStr (se_summary s))"
  "jget (session_row s) (u ''pinned'') = Some (JBool (se_pinned s))"
  "jget (session_row s) (u ''archived'') = Some (JBool (se_archived s))"
  "jget (session_row s) (u ''uncompacted_history'') = Some (JArr (map context_row (se_uncompacted s)))"
  "jget (session_row s) (u ''created_at'') = Some (JStr (se_created s))"
  "jget (session_row s) (u ''updated_at'') = Some (JStr (se_updated s))"
  by (simp_all add: session_row_def jget_def dict_get_def)

lemma read_session_row:
  "storable env s \<Longrightarrow> read_session_file env (Some (session_row s)) = Some (reloaded env s)"
proof -
  assume ok: "storable env s"
  have obj: "case session_row s of JObj _ \<Rightarrow> True | _ \<Rightarrow> False" by (simp add: session_row_def)
  have str: "jstr (session_row s) k = (case jget (session_row s) k of Some (JStr x) \<Rightarrow> Some x | _ \<Rightarrow> None)" for k
    by (simp add: jstr_def)
  have items: "list_all history_item_ok (map context_row ms)" for ms
    by (simp add: list_all_iff history_item_ok_context)
  have fields: "list_all (\<lambda>k. jstr (session_row s) k \<noteq> None) session_string_fields"
    unfolding session_string_fields_def by (simp add: str session_row_get)
  have ids: "jstr (session_row s) (u ''id'') \<noteq> Some []"
    "jbool (session_row s) (u ''pinned'') \<noteq> None" "jbool (session_row s) (u ''archived'') \<noteq> None"
    using ok by (simp_all add: str session_row_get jbool_def storable_def)
  have times: "aware_time env (jstr_or [] (session_row s) (u ''created_at''))"
    "aware_time env (jstr_or [] (session_row s) (u ''updated_at''))"
    using ok by (simp_all add: str session_row_get jstr_or_def storable_def)
  have "valid_session_payload env (session_row s)"
    by (simp only: valid_session_payload_def session_row_get(10) option.case json.case items obj fields ids times
        not_False_eq_True simp_thms)
  moreover have "row_session env (session_row s) = reloaded env s"
    by (simp add: row_session_def str jstr_or_def jbool_def session_row_get reloaded_def row_context_row o_def)
  ultimately show ?thesis by (simp add: read_session_file_def)
qed

lemma holds_session_row:
  "sd_session d = Some (session_row s) \<Longrightarrow> storable env s \<Longrightarrow> holds_session env (se_id s) d"
  by (simp add: holds_session_def dir_session_def read_session_row reloaded_def)

lemma read_session_storable: "read_session_file env f = Some s \<Longrightarrow> storable env s"
proof -
  assume "read_session_file env f = Some s"
  then obtain row where row: "valid_session_payload env row" "s = row_session env row"
    by (auto simp: read_session_file_def split: option.splits if_splits)
  from row(1) have f: "list_all (\<lambda>k. jstr row k \<noteq> None) session_string_fields" "jstr row (u ''id'') \<noteq> Some []"
    and t: "aware_time env (jstr_or [] row (u ''created_at''))" "aware_time env (jstr_or [] row (u ''updated_at''))"
    unfolding valid_session_payload_def by blast+
  from f obtain x where "jstr row (u ''id'') = Some x" "x \<noteq> []"
    by (auto simp: session_string_fields_def)
  with t row(2) show "storable env s" by (simp add: storable_def row_session_def jstr_or_def)
qed

section \<open>Writing a session file\<close>

lemma find_map_same_on:
  "(\<And>d. d \<in> set ds \<Longrightarrow> P (g d) = P d) \<Longrightarrow> (\<And>d. sd_name (g d) = sd_name d) \<Longrightarrow>
     map_option sd_name (find P (map g ds)) = map_option sd_name (find P ds)"
  by (induction ds) auto

lemma load_write_session:
  assumes dist: "distinct (map sd_name ds)" and load: "load_session env ds sid = Some s" "se_id s = sid"
    and new: "se_id s' = sid" "storable env s'"
  defines "f \<equiv> (\<lambda>d. d\<lparr>sd_session := Some (session_row s')\<rparr>)"
  shows "the_dir env (update_dir (find_session_dir env ds sid) f ds) sid = f (the_dir env ds sid)"
    and "load_session env (update_dir (find_session_dir env ds sid) f ds) sid = Some (reloaded env s')"
proof -
  let ?N = "find_session_dir env ds sid" and ?h = "holds_session env sid"
  let ?ds = "update_dir ?N f ds"
  have nm: "sd_name (f d) = sd_name d" for d by (simp add: f_def)
  have hf: "?h (f d)" for d using holds_session_row [of "f d" s' env] new by (simp add: f_def)
  from load obtain d where d: "get_dir ds ?N = Some d" "?h d"
    by (auto simp: load_session_def the_dir_def holds_session_def dir_session_def read_session_file_def
        empty_dir_def split: option.splits)
  then have in_ds: "d \<in> set ds" "sd_name d = ?N" using get_dir_name [of ds ?N d] by auto
  have only: "x = d" if "x \<in> set ds" "sd_name x = ?N" for x
    using that in_ds dist by (simp add: distinct_map inj_on_def)
  have upd: "?ds = map (\<lambda>x. if sd_name x = ?N then f x else x) ds" using d(1) by (simp add: update_dir_def)
  have find: "map_option sd_name (find ?h ?ds) = map_option sd_name (find ?h ds)"
    unfolding upd using only d(2) hf nm by (intro find_map_same_on) auto
  have leg: "legacy_holds env ?ds sid \<longleftrightarrow> legacy_holds env ds sid"
    using d hf by (auto simp: legacy_holds_def get_dir_update [of f, OF nm] split: option.splits if_splits)
  have same: "find_session_dir env ?ds sid = ?N" by (rule find_session_dir_eqI [OF leg find])
  then show td: "the_dir env ?ds sid = f (the_dir env ds sid)"
    using d by (simp add: the_dir_def get_dir_update [of f, OF nm])
  show "load_session env ?ds sid = Some (reloaded env s')"
    unfolding load_session_def td using new by (simp add: dir_session_def f_def read_session_row)
qed

end
