(* ===== verification/TurnFacts.thy ===== *)
theory TurnFacts
  imports TurnLoop SessionFacts
begin

text \<open>
  Facts about the turn machine: the events each handler returns are those of the transition table,
  RESPOND never fails, the states of the trace go up to RESPOND, and what a turn does to the
  counter of active turns.
\<close>

lemma seqE:
  assumes "seq m f s = (Inr b, s2)"
  obtains a s1 where "m s = (Inr a, s1)" "f a s1 = (Inr b, s2)"
  using assms by (auto simp: seq_def split: prod.splits sum.splits)

section \<open>Events\<close>

definition expected :: "turn_state \<Rightarrow> turn_event \<Rightarrow> turn \<Rightarrow> bool" where
  "expected st ev s \<longleftrightarrow> (\<exists>t. next_state st ev = Inr t)"

lemma expected_simps [simp]:
  "expected st Ev_ok s" "expected st Ev_error s"
  "expected COMMAND Ev_shortcut s" "expected BUILD Ev_rejected s"
  by (cases st; simp add: expected_def next_state_def transitions_def)+

definition any :: "turn \<Rightarrow> bool" where
  "any s \<longleftrightarrow> True"

lemma gives_ret_event: "(\<And>s. expected st ev s) \<Longrightarrow> gives any (ret ev) (expected st)"
  by (rule givesI) (simp add: ret_def)

lemma gives_any_seq: "(\<And>a. gives any (f a) Q) \<Longrightarrow> gives any (seq m f) Q"
  by (rule gives_seq [where R = "\<lambda>_. any"]) (auto intro!: givesI simp: any_def)

lemma gives_any_option [gives_rules]:
  "gives P m Q \<Longrightarrow> (\<And>x. gives P (f x) Q) \<Longrightarrow> gives P (case_option m f x) Q"
  by (cases x) auto

lemma gives_any_sum: "(\<And>x. gives P (f x) Q) \<Longrightarrow> (\<And>x. gives P (g x) Q) \<Longrightarrow> gives P (case_sum f g x) Q"
  by (cases x) auto

lemma gives_any_prod: "(\<And>x y. gives P (f x y) Q) \<Longrightarrow> gives P (case_prod f x) Q"
  by (cases x) auto

lemmas event_rules = gives_any_seq gives_rules gives_any_sum gives_any_prod gives_ret_event

lemma run_state_events: "gives any (run_state te rd st) (expected st)"
proof -
  have reject: "gives any (reject t) (expected BUILD)" for t
    unfolding reject_def by (intro event_rules) simp
  show ?thesis
    by (cases st)
      (auto simp: run_state_def command_state_def session_state_def build_state_def run_loop_state_def
        compact_state_def save_state_def respond_state_def build_messages_state_def compact_summarise_def Let_def
        intro!: event_rules reject)
qed

lemma caught_event:
  assumes "catch (run_state te rd st) map_error s = (Inr ev, s2)"
  shows "\<exists>t. next_state st ev = Inr t"
proof (cases "run_state te rd st s")
  case (Pair r s1)
  show ?thesis
  proof (cases r)
    case (Inl e)
    with Pair assms have "map_error e s1 = (Inr ev, s2)" by (simp add: catch_def)
    then have "ev = Ev_error" by (auto simp: map_error_def upd_def prog_simps split: if_splits)
    then show ?thesis by (simp add: next_state_def)
  next
    case (Inr x)
    with Pair assms have "run_state te rd st s = (Inr ev, s2)" by (simp add: catch_def)
    from givesD [OF run_state_events _ this] show ?thesis by (simp add: any_def expected_def)
  qed
qed

lemma caught_Inl:
  assumes "catch m map_error s = (Inl e, s2)"
  shows "\<not> is_exception e"
  using assms by (auto simp: catch_def map_error_def upd_def prog_simps split: prod.splits sum.splits if_splits)

lemma tick_world [simp]:
  "wd_desk (tn_world (tick s)) = wd_desk (tn_world s)" "wd_events (tn_world (tick s)) = wd_events (tn_world s)"
  "wd_active (tn_world (tick s)) = wd_active (tn_world s)" "wd_sent (tn_world (tick s)) = wd_sent (tn_world s)"
  by (simp_all add: tick_def)

section \<open>RESPOND\<close>

definition reply :: "turn_ctx \<Rightarrow> outbound \<Rightarrow> bool" where
  "reply c o1 \<longleftrightarrow> om_content o1 = tc_final c \<and> om_session o1 = sid_of c \<and> om_recipient o1 = recipient_of (tc_inbound c)
     \<and> om_event_type o1 = (if truthy (tc_error c) then u ''response.error'' else u ''response.completed'')"

lemma respond_message_ok: "\<exists>o1. respond_message c fid now = Inr o1 \<and> reply c o1"
  by (simp add: respond_message_def reply_def mk_outbound_def completed_outbound_def new_outbound_def
      normal_recipient_def)

lemma respond_state_run:
  obtains o1 s' where "respond_state s = (Inr Ev_ok, s')" "reply (tn_ctx s) o1"
    "tn_ctx s' = (tn_ctx s)\<lparr>tc_outbound := Some o1\<rparr>" "dirs (wd_desk (tn_world s')) = dirs (wd_desk (tn_world s))"
    "wd_events (tn_world s') = wd_events (tn_world s)"
proof -
  let ?d = "wd_desk (tn_world s)"
  obtain o1 where o1: "respond_message (tn_ctx s) (dx_ids ?d 0) (dx_times ?d 0) = Inr o1" "reply (tn_ctx s) o1"
    using respond_message_ok by blast
  from o1 show thesis
    by (intro that [of "snd (respond_state s)" o1])
      (simp_all add: respond_state_def ctx_def upd_def on_world_def on_desk_def next_id_def next_time_def dirs_def prog_simps)
qed

lemma reply_enter [simp]: "reply (enter nxt c) o1 = reply c o1"
  by (simp add: reply_def enter_def sid_of_def split: option.split)

lemma reply_trace [simp]: "reply (c\<lparr>tc_trace := x\<rparr>) o1 = reply c o1" "reply (c\<lparr>tc_outbound := y\<rparr>) o1 = reply c o1"
  by (simp_all add: reply_def sid_of_def)

text \<open>The last round of a turn.\<close>

lemma respond_step:
  assumes "tc_state (tn_ctx s) = RESPOND"
  obtains o1 duration monitor s' where "turn_step te rd ts waited s = (Inr None, s')" "reply (tn_ctx s) o1"
    "tn_ctx s' = (tn_ctx s)\<lparr>tc_outbound := Some o1, tc_trace := tc_trace (tn_ctx s) @
      [trace_entry ((tn_ctx s)\<lparr>tc_outbound := Some o1\<rparr>) Ev_ok duration monitor]\<rparr>"
    "dirs (wd_desk (tn_world s')) = dirs (wd_desk (tn_world s))" "wd_events (tn_world s') = wd_events (tn_world s)"
proof -
  obtain o1 s2 where r: "respond_state (tick s) = (Inr Ev_ok, s2)" "reply (tn_ctx s) o1"
    "tn_ctx s2 = (tn_ctx s)\<lparr>tc_outbound := Some o1\<rparr>"
    "dirs (wd_desk (tn_world s2)) = dirs (wd_desk (tn_world s))" "wd_events (tn_world s2) = wd_events (tn_world s)"
    by (rule respond_state_run [of "tick s"]) simp
  let ?d = "(wd_clock (tn_world s2) 0 - wd_clock (tn_world s) 0) * 1000"
  obtain monitor s3 where c: "close_step ts waited Ev_ok ?d None (tick s2) = (Inr None, s3)"
    "tn_ctx s3 = enter None ((tn_ctx s2)\<lparr>tc_trace := tc_trace (tn_ctx s2) @ [trace_entry (tn_ctx s2) Ev_ok ?d monitor]\<rparr>)"
    "tn_world s3 = tn_world (tick s2) \<or> tn_world s3 = tn_world (tick (tick s2))"
    by (rule close_step_run [of ts waited Ev_ok ?d None "tick s2"]) simp
  have "turn_step te rd ts waited s = (Inr None, s3)"
    using assms r(1,3) c(1) by (simp add: turn_step_run run_state_def catch_def next_state_def transitions_def)
  moreover have "dirs (wd_desk (tn_world s3)) = dirs (wd_desk (tn_world s))" "wd_events (tn_world s3) = wd_events (tn_world s)"
    using c(3) r(4,5) by auto
  ultimately show thesis using that [of s3 o1 ?d monitor] r(2,3) c(2) by (simp add: enter_def)
qed

lemma respond_loop:
  assumes "tc_state (tn_ctx s) = RESPOND"
  obtains o1 entry s' where "turn_loop te rd ts waited s = (Inr (), s')" "reply (tn_ctx s) o1"
    "tn_ctx s' = (tn_ctx s)\<lparr>tc_outbound := Some o1, tc_trace := tc_trace (tn_ctx s) @ [entry]\<rparr>"
    "sx_state entry = u ''RESPOND''"
    "dirs (wd_desk (tn_world s')) = dirs (wd_desk (tn_world s))" "wd_events (tn_world s') = wd_events (tn_world s)"
proof -
  obtain o1 duration monitor s' where st: "turn_step te rd ts waited s = (Inr None, s')" "reply (tn_ctx s) o1"
    "tn_ctx s' = (tn_ctx s)\<lparr>tc_outbound := Some o1, tc_trace := tc_trace (tn_ctx s) @
      [trace_entry ((tn_ctx s)\<lparr>tc_outbound := Some o1\<rparr>) Ev_ok duration monitor]\<rparr>"
    "dirs (wd_desk (tn_world s')) = dirs (wd_desk (tn_world s))" "wd_events (tn_world s') = wd_events (tn_world s)"
    using assms by (rule respond_step)
  then have "turn_loop te rd ts waited s = (Inr (), s')" by (subst turn_loop.simps) simp
  moreover have "sx_state (trace_entry ((tn_ctx s)\<lparr>tc_outbound := Some o1\<rparr>) Ev_ok duration monitor) = u ''RESPOND''"
    using assms by (simp add: trace_entry_def state_name_def)
  ultimately show thesis using that st by blast
qed

end
