(* ===== verification/ReaderFacts.thy ===== *)
theory ReaderFacts
  imports PrincipalReader SessionFacts
begin

text \<open>
  The disk of a data root is well formed when directory names are distinct and no two directories
  hold the same session. A change to a directory of the reader's own principal keeps that and
  leaves every directory of another principal as it is; every operation of a reader makes only
  such changes.
\<close>

section \<open>Well-formed disks and foreign directories\<close>

definition dir_id :: "store_env \<Rightarrow> session_dir \<Rightarrow> ustr option" where
  "dir_id env d = map_option se_id (dir_session env d)"

definition held :: "store_env \<Rightarrow> session_dir list \<Rightarrow> ustr list" where
  "held env ds = List.map_filter (dir_id env) ds"

definition disk_wf :: "store_env \<Rightarrow> session_dir list \<Rightarrow> bool" where
  "disk_wf env ds \<longleftrightarrow> distinct (map sd_name ds) \<and> distinct (held env ds)"

definition foreign :: "store_env \<Rightarrow> ustr \<Rightarrow> session_dir \<Rightarrow> bool" where
  "foreign env p d \<longleftrightarrow> (case dir_session env d of Some s \<Rightarrow> se_principal s \<noteq> p | None \<Rightarrow> False)"

definition foreign_dirs :: "store_env \<Rightarrow> ustr \<Rightarrow> session_dir list \<Rightarrow> session_dir list" where
  "foreign_dirs env p ds = filter (foreign env p) ds"

lemma held_simps [simp]:
  "held env [] = []" "held env (d # ds) = (case dir_id env d of None \<Rightarrow> held env ds | Some i \<Rightarrow> i # held env ds)"
  "held env (xs @ ys) = held env xs @ held env ys"
  by (auto simp: held_def List.map_filter_def split: option.split)

lemma in_held: "i \<in> set (held env ds) \<longleftrightarrow> (\<exists>d \<in> set ds. dir_id env d = Some i)"
  by (auto simp: held_def map_filter_def image_iff)

lemma disk_wfD: "disk_wf env ds \<Longrightarrow> distinct (map sd_name ds)" "disk_wf env ds \<Longrightarrow> distinct (held env ds)"
  by (simp_all add: disk_wf_def)

text \<open>What a change of the directory \<open>n\<close> must do to stay among the principal's own directories.\<close>

definition own_change ::
  "store_env \<Rightarrow> ustr \<Rightarrow> ustr \<Rightarrow> (session_dir \<Rightarrow> session_dir) \<Rightarrow> session_dir list \<Rightarrow> bool" where
  "own_change env p n f ds \<longleftrightarrow> (\<forall>d. sd_name (f d) = sd_name d) \<and> (case get_dir ds n of
       Some d \<Rightarrow> \<not> foreign env p d \<and> \<not> foreign env p (f d) \<and> (dir_id env (f d) = None \<or> dir_id env (f d) = dir_id env d)
     | None \<Rightarrow> \<not> foreign env p (f (empty_dir n)) \<and> (case dir_id env (f (empty_dir n)) of
           None \<Rightarrow> True | Some i \<Rightarrow> i \<notin> set (held env ds)))"

lemma split_dir:
  assumes "distinct (map sd_name ds)" "get_dir ds n = Some d"
  obtains xs ys where "ds = xs @ d # ys" "n \<notin> sd_name ` set xs" "n \<notin> sd_name ` set ys" "sd_name d = n"
proof -
  from get_dir_name [OF assms(2)] obtain xs ys where "ds = xs @ d # ys" "sd_name d = n"
    by (auto dest: split_list)
  with assms(1) show thesis by (intro that) auto
qed

lemma map_other: "n \<notin> sd_name ` set xs \<Longrightarrow> map (\<lambda>x. if sd_name x = n then f x else x) xs = xs"
  by (induction xs) auto

lemma own_change_ok:
  assumes "disk_wf env ds" "own_change env p n f ds"
  shows "disk_wf env (update_dir n f ds) \<and> foreign_dirs env p (update_dir n f ds) = foreign_dirs env p ds"
proof (cases "get_dir ds n")
  case None
  then have "n \<notin> sd_name ` set ds" by (simp add: get_dir_None)
  with None assms show ?thesis
    by (auto simp: own_change_def update_dir_def disk_wf_def foreign_dirs_def empty_dir_def split: option.splits)
next
  case (Some d)
  from assms(1) have "distinct (map sd_name ds)" by (rule disk_wfD)
  then obtain xs ys where ds: "ds = xs @ d # ys" "n \<notin> sd_name ` set xs" "n \<notin> sd_name ` set ys" "sd_name d = n"
    using Some by (rule split_dir)
  then have upd: "update_dir n f ds = xs @ f d # ys" using Some by (simp add: update_dir_def map_other)
  from assms(2) Some have f: "sd_name (f d) = n" "\<not> foreign env p d" "\<not> foreign env p (f d)"
    "dir_id env (f d) = None \<or> dir_id env (f d) = dir_id env d"
    by (auto simp: own_change_def ds(4))
  from f(4) assms(1) have "distinct (held env (xs @ f d # ys))"
    by (auto simp: disk_wf_def ds(1) split: option.splits)
  with assms(1) f ds(1,4) show ?thesis unfolding upd by (simp add: disk_wf_def foreign_dirs_def)
qed

lemma remove_ok:
  assumes "disk_wf env ds" "\<And>d. get_dir ds n = Some d \<Longrightarrow> \<not> foreign env p d"
  shows "disk_wf env (filter (\<lambda>d. sd_name d \<noteq> n) ds)
    \<and> foreign_dirs env p (filter (\<lambda>d. sd_name d \<noteq> n) ds) = foreign_dirs env p ds"
proof -
  have "distinct (held env (filter P ds))" if "distinct (held env ds)" for P
    using that by (induction ds) (auto simp: in_held split: option.splits)
  moreover have "foreign env p d \<Longrightarrow> d \<in> set ds \<Longrightarrow> sd_name d \<noteq> n" for d
    using assms(2) [of d] get_dir_in [OF disk_wfD(1) [OF assms(1)], of d] by auto
  then have "filter (foreign env p) (filter (\<lambda>d. sd_name d \<noteq> n) ds) = filter (foreign env p) ds"
    unfolding filter_filter by (intro filter_cong) auto
  ultimately show ?thesis using assms(1) by (simp add: disk_wf_def distinct_map_filter foreign_dirs_def)
qed

section \<open>The directory of a loaded session\<close>

lemma loaded_dir:
  assumes "load_session env ds sid = Some s"
  obtains d where "get_dir ds (find_session_dir env ds sid) = Some d" "dir_session env d = Some s" "d \<in> set ds"
  using assms by (auto simp: load_session_def the_dir_def dir_session_def read_session_file_def empty_dir_def
      dest: get_dir_name split: option.splits)

lemma only_holder:
  assumes "disk_wf env ds" "d \<in> set ds" "d' \<in> set ds" "dir_id env d = Some i" "dir_id env d' = Some i"
  shows "d' = d"
  using assms disk_wfD(2) [OF assms(1)]
proof (induction ds)
  case (Cons x xs)
  have "disk_wf env xs" using Cons.prems(1) by (auto simp: disk_wf_def split: option.splits)
  moreover have "distinct (held env xs)" using Cons.prems(6) by (auto split: option.splits)
  moreover have "d \<in> set xs \<Longrightarrow> dir_id env x \<noteq> Some i" "d' \<in> set xs \<Longrightarrow> dir_id env x \<noteq> Some i"
    using Cons.prems(4-6) by (auto simp: in_held)
  ultimately show ?case using Cons.IH Cons.prems by auto
qed simp

text \<open>A session that is held by a directory is found there under its own id.\<close>

lemma found_by_id:
  assumes "disk_wf env ds" "d \<in> set ds" "dir_session env d = Some s"
  shows "get_dir ds (find_session_dir env ds (se_id s)) = Some d"
proof -
  have holds: "holds_session env (se_id s) x \<longleftrightarrow> dir_id env x = Some (se_id s)" for x
    by (auto simp: holds_session_def dir_id_def split: option.split)
  have d: "dir_id env d = Some (se_id s)" using assms(3) by (simp add: dir_id_def)
  have only: "x = d" if "x \<in> set ds" "holds_session env (se_id s) x" for x
    using only_holder [OF assms(1,2) that(1) d] that(2) by (simp add: holds)
  obtain x where x: "find (holds_session env (se_id s)) ds = Some x"
    using assms(2) d holds by (metis find_None_iff option.exhaust)
  then have "x = d" using only by (auto simp: find_Some_iff)
  have name: "get_dir ds (sd_name d) = Some d" using disk_wfD(1) [OF assms(1)] assms(2) by (rule get_dir_in)
  show ?thesis
  proof (cases "legacy_holds env ds (se_id s)")
    case True
    then obtain y where "get_dir ds (url_quote (se_id s)) = Some y" "holds_session env (se_id s) y"
      by (auto simp: legacy_holds_def split: option.splits)
    with only get_dir_name [OF this(1)] True show ?thesis by (simp add: find_session_dir_alt)
  next
    case False
    with x \<open>x = d\<close> name show ?thesis by (simp add: find_session_dir_alt)
  qed
qed

lemma row_principal:
  "read_session_file env (Some (session_row s)) = Some x \<Longrightarrow> se_principal x = se_principal s \<and> se_id x = se_id s"
  by (auto simp: read_session_file_def row_session_def jstr_or_def jstr_def session_row_get split: if_splits)

section \<open>Writes to an own session\<close>

definition own :: "store_env \<Rightarrow> ustr \<Rightarrow> ustr \<Rightarrow> session_dir list \<Rightarrow> bool" where
  "own env p sid ds \<longleftrightarrow> (case load_session env ds sid of Some s \<Rightarrow> se_principal s = p | None \<Rightarrow> False)"

text \<open>What a well-formed disk keeps: it stays well formed, with the same foreign directories \<open>F\<close>.\<close>

definition safe :: "store_env \<Rightarrow> ustr \<Rightarrow> session_dir list \<Rightarrow> session_dir list \<Rightarrow> bool" where
  "safe env p F ds \<longleftrightarrow> disk_wf env ds \<and> foreign_dirs env p ds = F"

lemma safe_change: "safe env p F ds \<Longrightarrow> own_change env p n f ds \<Longrightarrow> safe env p F (update_dir n f ds)"
  using own_change_ok [of env ds p n f] by (simp add: safe_def)

text \<open>An update of the own session's directory that leaves the session file alone.\<close>

lemma safe_append:
  assumes "safe env p F ds" "own env p sid ds"
    and f: "\<And>d. sd_name (f d) = sd_name d" "\<And>d. sd_session (f d) = sd_session d"
  defines "ds' \<equiv> update_dir (find_session_dir env ds sid) f ds"
  shows "safe env p F ds'" "own env p sid ds'"
proof -
  from assms(2) obtain s where s: "load_session env ds sid = Some s" "se_principal s = p"
    by (auto simp: own_def split: option.splits)
  obtain d where d: "get_dir ds (find_session_dir env ds sid) = Some d" "dir_session env d = Some s"
    using loaded_dir [OF s(1)] by blast
  have same: "dir_session env (f x) = dir_session env x" for x by (simp add: dir_session_def f(2))
  have "own_change env p (find_session_dir env ds sid) f ds"
    using d s(2) by (simp add: own_change_def f(1) foreign_def dir_id_def same)
  with assms(1) show "safe env p F ds'" unfolding ds'_def by (rule safe_change)
  have "the_dir env ds' sid = f (the_dir env ds sid)" unfolding ds'_def using f by (rule the_dir_update)
  then show "own env p sid ds'" using s by (simp add: own_def load_session_def same)
qed

text \<open>Writing back a session that was loaded, with the same id and principal.\<close>

lemma safe_write:
  assumes "safe env p F ds" "load_session env ds sid = Some s" "se_principal s = p"
    "se_id s' = se_id s" "se_principal s' = p"
  shows "safe env p F (update_dir (find_session_dir env ds (se_id s')) (\<lambda>d. d\<lparr>sd_session := Some (session_row s')\<rparr>) ds)"
proof -
  obtain d where d: "get_dir ds (find_session_dir env ds sid) = Some d" "dir_session env d = Some s" "d \<in> set ds"
    using loaded_dir [OF assms(2)] by blast
  let ?f = "\<lambda>d. d\<lparr>sd_session := Some (session_row s')\<rparr>"
  have at: "get_dir ds (find_session_dir env ds (se_id s')) = Some d"
    using found_by_id [OF _ d(3,2)] assms(1,4) by (simp add: safe_def)
  have x: "dir_session env (?f d) = Some x \<Longrightarrow> se_principal x = p \<and> se_id x = se_id s" for x
    using row_principal [of env s' x] assms(4,5) by (simp add: dir_session_def)
  have 1: "\<not> foreign env p d" using d(2) assms(3) by (simp add: foreign_def)
  have 2: "\<not> foreign env p (?f d)" using x unfolding foreign_def by (cases "dir_session env (?f d)") auto
  have 3: "dir_id env (?f d) = None \<or> dir_id env (?f d) = dir_id env d"
    using x d(2) unfolding dir_id_def by (cases "dir_session env (?f d)") auto
  have "own_change env p (find_session_dir env ds (se_id s')) ?f ds"
    unfolding own_change_def at option.case using 1 2 3 by simp
  with assms(1) show ?thesis by (rule safe_change)
qed

text \<open>The same for the programs of the store: \<open>stays\<close> is the invariant of the desk.\<close>

definition stays :: "store_env \<Rightarrow> ustr \<Rightarrow> session_dir list \<Rightarrow> disk \<Rightarrow> bool" where
  "stays env p F dk \<longleftrightarrow> safe env p F (dk_dirs dk)"

definition at_home :: "store_env \<Rightarrow> ustr \<Rightarrow> ustr \<Rightarrow> session_dir list \<Rightarrow> disk \<Rightarrow> bool" where
  "at_home env p sid F dk \<longleftrightarrow> safe env p F (dk_dirs dk) \<and> own env p sid (dk_dirs dk)"

lemma at_home_append:
  assumes "\<And>d. sd_name (f d) = sd_name d" "\<And>d. sd_session (f d) = sd_session d"
  shows "keeps (at_home env p sid F) (in_session env sid f)"
  unfolding at_home_def [abs_def]
  by (rule keeps_in_session) (auto intro: safe_append [where f = f, OF _ _ assms])

lemma stays_write:
  assumes "at_home env p sid F dk" "load_session env (dk_dirs dk) sid = Some s"
    "se_id s' = se_id s" "se_principal s' = se_principal s"
  shows "stays env p F (snd (write_session env s' dk))"
proof -
  obtain r dk' where w: "write_session env s' dk = (r, dk')" by fastforce
  from assms(1,2) have safe: "safe env p F (dk_dirs dk)" and p: "se_principal s = p"
    by (auto simp: at_home_def own_def)
  show ?thesis
  proof (cases r)
    case (Inl e)
    with w safe show ?thesis using in_session_Inl [of env "se_id s'" _ dk e dk'] by (simp add: write_session_def stays_def)
  next
    case (Inr x)
    have "safe env p F (dk_dirs dk')"
      using safe_write [OF safe assms(2) p assms(3)] assms(4) p
        in_session_Inr [OF w [unfolded write_session_def Inr]] by (simp only: simp_thms)
    with w show ?thesis by (simp add: stays_def)
  qed
qed

lemma at_home_stays: "at_home env p sid F dk \<Longrightarrow> stays env p F dk"
  by (simp add: at_home_def stays_def)

definition loaded :: "store_env \<Rightarrow> ustr \<Rightarrow> ustr \<Rightarrow> session_dir list \<Rightarrow> session \<Rightarrow> disk \<Rightarrow> bool" where
  "loaded env p sid F s dk \<longleftrightarrow> at_home env p sid F dk \<and> load_session env (dk_dirs dk) sid = Some s"

lemma leads_write:
  "se_id s' = se_id s \<Longrightarrow> se_principal s' = se_principal s \<Longrightarrow>
     leads (loaded env p sid F s) (write_session env s') (stays env p F)"
  by (rule leadsI) (auto simp: loaded_def intro: stays_write)

lemma leads_load:
  assumes "\<And>s. leads (loaded env p sid F s) (k s) (stays env p F)"
  shows "leads (at_home env p sid F)
    (seq (gets (\<lambda>dk. load_session env (dk_dirs dk) sid)) (\<lambda>found. case found of None \<Rightarrow> m | Some s \<Rightarrow> k s))
    (stays env p F)"
proof (rule leadsI)
  fix dk assume h: "at_home env p sid F dk"
  then obtain s where s: "load_session env (dk_dirs dk) sid = Some s"
    by (auto simp: at_home_def own_def split: option.splits)
  with leadsD [OF assms, of s dk] h
  show "stays env p F (snd (seq (gets (\<lambda>dk. load_session env (dk_dirs dk) sid))
      (\<lambda>found. case found of None \<Rightarrow> m | Some s \<Rightarrow> k s) dk))" by (simp add: loaded_def)
qed

section \<open>The operations of a reader\<close>

datatype reader_op =
    Op_load channel_route
  | Op_command ustr inbound
  | Op_metadata ustr "ustr option" "bool option" "bool option"
  | Op_summary ustr ustr
  | Op_history ustr "message_record list"
  | Op_user ustr ustr int "ustr option" "ustr option" "json option"
  | Op_assistant ustr ustr int "json option"
  | Op_tools ustr ustr "tool_record list"
  | Op_usage ustr ustr token_usage "usage_tag option"
  | Op_traces "state_trace list"
  | Op_messages ustr
  | Op_recent ustr int
  | Op_total ustr
  | Op_runs ustr int
  | Op_list

fun reader_run :: "manager_env \<Rightarrow> reader \<Rightarrow> reader_op \<Rightarrow> (desk, unit) prog" where
  "reader_run me rd (Op_load route) = seq (reader_load_or_create me rd route) (\<lambda>_. ret ())"
| "reader_run me rd (Op_command sid m) = seq (reader_inbound_command me rd sid m) (\<lambda>_. ret ())"
| "reader_run me rd (Op_metadata sid t p a) = seq (reader_update_metadata me rd sid t p a) (\<lambda>_. ret ())"
| "reader_run me rd (Op_summary sid t) = reader_update_summary me rd sid t"
| "reader_run me rd (Op_history sid ms) = reader_update_history me rd sid ms"
| "reader_run me rd (Op_user sid c n mid created meta) =
     seq (reader_save_user me rd sid c n mid created meta) (\<lambda>_. ret ())"
| "reader_run me rd (Op_assistant sid c n meta) = seq (reader_save_assistant me rd sid c n meta) (\<lambda>_. ret ())"
| "reader_run me rd (Op_tools turn sid calls) = reader_save_tools me rd turn sid calls"
| "reader_run me rd (Op_usage turn sid us tag) = reader_save_usage me rd turn sid us tag"
| "reader_run me rd (Op_traces ts) = reader_save_traces me rd ts"
| "reader_run me rd (Op_messages sid) = seq (reader_all_messages me rd sid) (\<lambda>_. ret ())"
| "reader_run me rd (Op_recent sid n) = seq (reader_recent_messages me rd sid n) (\<lambda>_. ret ())"
| "reader_run me rd (Op_total sid) = seq (reader_last_total me rd sid) (\<lambda>_. ret ())"
| "reader_run me rd (Op_runs sid n) = seq (reader_runs me rd sid n) (\<lambda>_. ret ())"
| "reader_run me rd Op_list = seq (reader_list_sessions me rd) (\<lambda>_. ret ())"

text \<open>The session an operation is about; \<open>Op_list\<close> and an empty list of traces have none.\<close>

fun op_session :: "reader_op \<Rightarrow> ustr option" where
  "op_session (Op_load route) = Some (cr_session route)"
| "op_session (Op_command sid m) = Some sid"
| "op_session (Op_metadata sid t p a) = Some sid"
| "op_session (Op_summary sid t) = Some sid"
| "op_session (Op_history sid ms) = Some sid"
| "op_session (Op_user sid c n mid created meta) = Some sid"
| "op_session (Op_assistant sid c n meta) = Some sid"
| "op_session (Op_tools turn sid calls) = Some sid"
| "op_session (Op_usage turn sid us tag) = Some sid"
| "op_session (Op_traces ts) = (case ts of [] \<Rightarrow> None | t # _ \<Rightarrow> Some (sx_session t))"
| "op_session (Op_messages sid) = Some sid"
| "op_session (Op_recent sid n) = Some sid"
| "op_session (Op_total sid) = Some sid"
| "op_session (Op_runs sid n) = Some sid"
| "op_session Op_list = None"

abbreviation desk_stays :: "store_env \<Rightarrow> ustr \<Rightarrow> session_dir list \<Rightarrow> desk \<Rightarrow> bool" where
  "desk_stays env p F s \<equiv> stays env p F (dx_disk s)"

abbreviation desk_home :: "store_env \<Rightarrow> ustr \<Rightarrow> ustr \<Rightarrow> session_dir list \<Rightarrow> desk \<Rightarrow> bool" where
  "desk_home env p sid F s \<equiv> at_home env p sid F (dx_disk s)"

lemma leads_on_disk: "leads P m Q \<Longrightarrow> leads (\<lambda>s. P (dx_disk s)) (on_disk m) (\<lambda>s. Q (dx_disk s))"
  by (rule leadsI) (auto simp: on_disk_def split: prod.splits dest: leadsD)

lemma keeps_next [keeps_rules]: "keeps (\<lambda>s. P (dx_disk s)) next_time" "keeps (\<lambda>s. P (dx_disk s)) next_id"
  by (auto intro!: keepsI simp: next_time_def next_id_def)

lemma leads_next_time:
  assumes "\<And>t. leads (desk_home env p sid F) (f t) (desk_stays env p F)"
  shows "leads (desk_home env p sid F) (seq next_time f) (desk_stays env p F)"
  by (rule leads_seq [OF _ assms]) (auto intro: keeps_rules at_home_stays)

lemma leads_next_id:
  assumes "\<And>t. leads (desk_home env p sid F) (f t) (desk_stays env p F)"
  shows "leads (desk_home env p sid F) (seq next_id f) (desk_stays env p F)"
  by (rule leads_seq [OF _ assms]) (auto intro: keeps_rules at_home_stays)

lemma require_session_cases:
  "(\<exists>e. require_session me rd sid s = (Inl e, s)) \<or>
   (\<exists>se. require_session me rd sid s = (Inr se, s) \<and> own (me_store me) (rd_principal rd) sid (dirs s))"
  by (auto simp: require_session_def own_def raise_def ret_def split: option.split)

lemma keeps_require:
  assumes "leads (desk_home (me_store me) (rd_principal rd) sid F) m (desk_stays (me_store me) (rd_principal rd) F)"
  shows "keeps (desk_stays (me_store me) (rd_principal rd) F) (seq (require_session me rd sid) (\<lambda>_. m))"
proof (rule keepsI)
  fix s assume s: "desk_stays (me_store me) (rd_principal rd) F s"
  from require_session_cases [of me rd sid s]
  show "desk_stays (me_store me) (rd_principal rd) F (snd (seq (require_session me rd sid) (\<lambda>_. m) s))"
  proof (elim disjE exE conjE)
    fix e assume "require_session me rd sid s = (Inl e, s)"
    with s show ?thesis by (simp add: seq_Inl)
  next
    fix se assume "require_session me rd sid s = (Inr se, s)" "own (me_store me) (rd_principal rd) sid (dirs s)"
    with s leadsD [OF assms, of s] show ?thesis by (simp add: seq_Inr at_home_def stays_def dirs_def)
  qed
qed

end
