(* ===== verification/RecoveryFacts.thy ===== *)
theory RecoveryFacts
  imports SessionFacts
begin

text \<open>
  The two readers of the multi-agent history agree on which runs a list of rows mentions and which
  of them have ended. The view keeps a terminal status; the recovery adds a terminal row for every
  run that has none, so a second recovery finds nothing to do.
\<close>

definition seen_runs :: "json list \<Rightarrow> ustr set" where
  "seen_runs rows = {rid. \<exists>row \<in> set rows. \<exists>e m. run_row row = Some (e, rid, m)}"

definition ended_runs :: "json list \<Rightarrow> ustr set" where
  "ended_runs rows = {rid. \<exists>row \<in> set rows. \<exists>e m. run_row row = Some (e, rid, m)
     \<and> e \<in> set run_terminal_events \<and> status_in m run_terminal_statuses}"

lemma seen_runs_simps [simp]:
  "seen_runs [] = {}" "seen_runs (xs @ ys) = seen_runs xs \<union> seen_runs ys"
  "seen_runs [row] = (case run_row row of None \<Rightarrow> {} | Some (e, rid, m) \<Rightarrow> {rid})"
  by (auto simp: seen_runs_def split: option.splits)

lemma seen_runs_Cons: "seen_runs (x # xs) = seen_runs [x] \<union> seen_runs xs"
  using seen_runs_simps(2) [of "[x]" xs] by simp

lemma ended_runs_simps [simp]:
  "ended_runs [] = {}" "ended_runs (xs @ ys) = ended_runs xs \<union> ended_runs ys"
  "ended_runs [row] = (case run_row row of None \<Rightarrow> {} | Some (e, rid, m) \<Rightarrow>
     if e \<in> set run_terminal_events \<and> status_in m run_terminal_statuses then {rid} else {})"
  by (auto simp: ended_runs_def split: option.splits if_splits)

lemma run_row_event: "run_row row = Some (e, rid, m) \<Longrightarrow> e \<in> set multi_agent_event_types \<and> rid \<noteq> []"
  by (auto simp: run_row_def split: if_splits option.splits json.splits)

lemma event_cases:
  assumes "run_row row = Some (e, rid, m)"
  obtains "e = u ''multi_agent.run.started''" | "e = u ''multi_agent.node.updated''"
    | "e \<in> set run_terminal_events" "e \<noteq> u ''multi_agent.run.started''" "e \<noteq> u ''multi_agent.node.updated''"
  using run_row_event [OF assms] by (auto simp: multi_agent_event_types_def run_terminal_events_def)

section \<open>The view\<close>

lemma on_view_runs: "vs_runs (on_view rid f vs) = map (\<lambda>(k, v). (k, if k = rid then f v else v)) (vs_runs vs)"
  and on_view_ended [simp]: "vs_ended (on_view rid f vs) = vs_ended vs"
  by (simp_all add: on_view_def)

lemma keys_on_view [simp]: "fst ` set (vs_runs (on_view rid f vs)) = fst ` set (vs_runs vs)"
  by (force simp: on_view_runs image_iff)

lemma ensure_view_ended [simp]: "vs_ended (ensure_view rid m vs) = vs_ended vs"
  by (simp add: ensure_view_def)

lemma keys_ensure_view [simp]: "fst ` set (vs_runs (ensure_view rid m vs)) = insert rid (fst ` set (vs_runs vs))"
proof (cases "dict_get (vs_runs vs) rid")
  case None
  then show ?thesis by (simp add: ensure_view_def keys_dict_put)
next
  case (Some v)
  then have "rid \<in> fst ` set (vs_runs vs)" using dict_get_in [of "vs_runs vs" rid v] by force
  with Some show ?thesis by (auto simp: ensure_view_def)
qed

lemma set_dict_put: "kv \<in> set (dict_put k v d) \<Longrightarrow> kv = (k, v) \<or> kv \<in> set d"
  by (induction k v d rule: dict_put.induct) (auto split: if_splits)

definition views_ok :: "ustr set \<Rightarrow> ustr set \<Rightarrow> views \<Rightarrow> bool" where
  "views_ok seen ended vs \<longleftrightarrow> fst ` set (vs_runs vs) = seen \<and> set (vs_ended vs) = ended
     \<and> (\<forall>k v. (k, v) \<in> set (vs_runs vs) \<longrightarrow> k \<in> ended \<longrightarrow> rv_status v \<in> set run_terminal_statuses)"

lemma views_okI:
  "fst ` set (vs_runs vs) = seen \<Longrightarrow> set (vs_ended vs) = ended \<Longrightarrow>
     (\<And>k v. (k, v) \<in> set (vs_runs vs) \<Longrightarrow> k \<in> ended \<Longrightarrow> rv_status v \<in> set run_terminal_statuses) \<Longrightarrow>
     views_ok seen ended vs"
  by (simp add: views_ok_def)

lemma views_okD:
  assumes "views_ok seen ended vs"
  shows "fst ` set (vs_runs vs) = seen" "set (vs_ended vs) = ended"
    "(k, v) \<in> set (vs_runs vs) \<Longrightarrow> k \<in> ended \<Longrightarrow> rv_status v \<in> set run_terminal_statuses"
  using assms by (simp_all add: views_ok_def)

lemma views_ok_ensure:
  assumes "views_ok seen ended vs" "ended \<subseteq> seen"
  shows "views_ok (insert rid seen) ended (ensure_view rid m vs)"
proof (rule views_okI)
  show "fst ` set (vs_runs (ensure_view rid m vs)) = insert rid seen"
    "set (vs_ended (ensure_view rid m vs)) = ended"
    using views_okD(1,2) [OF assms(1)] by simp_all
  fix k v assume kv: "(k, v) \<in> set (vs_runs (ensure_view rid m vs))" "k \<in> ended"
  show "rv_status v \<in> set run_terminal_statuses"
  proof (cases "dict_get (vs_runs vs) rid")
    case None
    then have "rid \<notin> seen"
      using views_okD(1) [OF assms(1)] map_of_eq_None_iff [of "vs_runs vs" rid] by (simp add: dict_get_def)
    then have "k \<noteq> rid" using kv(2) assms(2) by blast
    with kv(1) None have "(k, v) \<in> set (vs_runs vs)"
      by (auto simp: ensure_view_def dest: set_dict_put)
    then show ?thesis using kv(2) by (rule views_okD(3) [OF assms(1)])
  next
    case (Some w)
    with kv(1) have "(k, v) \<in> set (vs_runs vs)" by (simp add: ensure_view_def)
    then show ?thesis using kv(2) by (rule views_okD(3) [OF assms(1)])
  qed
qed

lemma views_ok_on_view:
  assumes "views_ok seen ended vs"
    and "\<And>v. rid \<in> ended \<Longrightarrow> rv_status v \<in> set run_terminal_statuses \<Longrightarrow> rv_status (f v) \<in> set run_terminal_statuses"
  shows "views_ok seen ended (on_view rid f vs)"
proof (rule views_okI)
  show "fst ` set (vs_runs (on_view rid f vs)) = seen" "set (vs_ended (on_view rid f vs)) = ended"
    using views_okD(1,2) [OF assms(1)] by simp_all
  fix k v assume "(k, v) \<in> set (vs_runs (on_view rid f vs))" "k \<in> ended"
  then obtain w where w: "(k, w) \<in> set (vs_runs vs)" "v = (if k = rid then f w else w)" "k \<in> ended"
    by (auto simp: on_view_runs)
  from views_okD(3) [OF assms(1) w(1,3)] assms(2) [of w] w(2,3)
  show "rv_status v \<in> set run_terminal_statuses" by auto
qed

text \<open>A run that ends now: its view gets a terminal status and it joins the ended runs.\<close>

lemma views_ok_end:
  assumes "views_ok seen ended vs" "\<And>v. rv_status (f v) \<in> set run_terminal_statuses"
  shows "views_ok seen (insert rid ended) ((on_view rid f vs)\<lparr>vs_ended := rid # vs_ended vs\<rparr>)"
proof (rule views_okI)
  show "fst ` set (vs_runs ((on_view rid f vs)\<lparr>vs_ended := rid # vs_ended vs\<rparr>)) = seen"
    "set (vs_ended ((on_view rid f vs)\<lparr>vs_ended := rid # vs_ended vs\<rparr>)) = insert rid ended"
    using views_okD(1,2) [OF assms(1)] by simp_all
  fix k v assume "(k, v) \<in> set (vs_runs ((on_view rid f vs)\<lparr>vs_ended := rid # vs_ended vs\<rparr>))" "k \<in> insert rid ended"
  then obtain w where w: "(k, w) \<in> set (vs_runs vs)" "v = (if k = rid then f w else w)" "k = rid \<or> k \<in> ended"
    by (auto simp: on_view_runs)
  then show "rv_status v \<in> set run_terminal_statuses"
    using views_okD(3) [OF assms(1) w(1)] assms(2) [of w] by (cases "k = rid") auto
qed

lemma end_view_status:
  "status_in m run_terminal_statuses \<Longrightarrow> rv_status (end_view m v) \<in> set run_terminal_statuses"
proof -
  assume "status_in m run_terminal_statuses"
  then obtain s where s: "jstr m (u ''status'') = Some s" "s \<in> set run_terminal_statuses"
    by (auto simp: status_in_def split: option.splits)
  then have "s \<noteq> []" by (auto simp: run_terminal_statuses_def)
  with s show ?thesis by (simp add: end_view_def put_some_def nonempty_def split: option.splits)
qed

lemma node_step_status [simp]: "rv_status (node_step nid m v) = rv_status v"
  by (simp add: node_step_def Let_def)

lemma views_ok_row:
  assumes "views_ok seen ended vs" "ended \<subseteq> seen"
  shows "views_ok (seen \<union> seen_runs [row]) (ended \<union> ended_runs [row]) (view_row row vs)"
proof (cases "run_row row")
  case None
  with assms show ?thesis by (simp add: view_row_def)
next
  case (Some x)
  obtain e rid m where x: "x = (e, rid, m)" by (cases x) auto
  let ?vs = "ensure_view rid m vs"
  have ok: "views_ok (insert rid seen) ended ?vs" using assms by (rule views_ok_ensure)
  then have en: "set (vs_ended ?vs) = ended" by (simp add: views_ok_def)
  from Some x have r: "run_row row = Some (e, rid, m)" by simp
  then show ?thesis
  proof (cases rule: event_cases)
    case 1
    then have "view_row row vs = (if rid \<in> ended then ?vs else on_view rid (start_view m) ?vs)"
      using r en by (simp add: view_row_def Let_def)
    moreover have "views_ok (insert rid seen) ended (on_view rid (start_view m) ?vs)" if "rid \<notin> ended"
      by (rule views_ok_on_view [OF ok]) (use that in blast)
    ultimately show ?thesis using 1 r ok by (simp add: run_terminal_events_def)
  next
    case 2
    have ok2: "views_ok (insert rid seen) ended (on_view rid (node_step nid m) ?vs)" for nid
      by (rule views_ok_on_view [OF ok]) simp
    have more: "views_ok a b (v\<lparr>vs_ended_nodes := z\<rparr>) = views_ok a b v" for a b v z
      by (simp add: views_ok_def)
    have "views_ok (insert rid seen) ended (view_row row vs)"
      using 2 r ok ok2 by (simp add: view_row_def Let_def more split: option.split)
    with 2 r show ?thesis by (simp add: run_terminal_events_def)
  next
    case 3
    show ?thesis
    proof (cases "rid \<notin> ended \<and> status_in m run_terminal_statuses")
      case True
      let ?v2 = "(on_view rid (end_view m) ?vs)\<lparr>vs_ended := rid # vs_ended ?vs\<rparr>"
      have "view_row row vs = ?v2" using True 3 r en by (simp add: view_row_def Let_def)
      moreover have "views_ok (insert rid seen) (insert rid ended) ?v2"
        using True end_view_status [of m] by (intro views_ok_end [OF ok]) simp
      ultimately show ?thesis using True 3 r by simp
    next
      case False
      then have "view_row row vs = ?vs" using 3 r en by (auto simp: view_row_def Let_def)
      with False 3 r ok show ?thesis by (auto simp: insert_absorb)
    qed
  qed
qed

lemma ended_subset_seen: "ended_runs rows \<subseteq> seen_runs rows"
  by (auto simp: ended_runs_def seen_runs_def)

lemma views_ok_rows: "views_ok (seen_runs rows) (ended_runs rows) (view_rows rows)"
proof (induction rows rule: rev_induct)
  case Nil
  show ?case by (simp add: views_ok_def view_rows_def)
next
  case (snoc row rows)
  from views_ok_row [OF snoc ended_subset_seen] show ?case by (simp add: view_rows_def)
qed

section \<open>Recovery\<close>

definition rows_of :: "ustr \<Rightarrow> json list \<Rightarrow> (ustr \<times> json) list" where
  "rows_of rid rows = List.map_filter (\<lambda>row. case run_row row of None \<Rightarrow> None
     | Some (e, r, m) \<Rightarrow> if r = rid then Some (e, m) else None) rows"

lemma rows_of_simps [simp]:
  "rows_of rid [] = []" "rows_of rid (xs @ ys) = rows_of rid xs @ rows_of rid ys"
  "rows_of rid [row] = (case run_row row of None \<Rightarrow> [] | Some (e, r, m) \<Rightarrow> if r = rid then [(e, m)] else [])"
  by (auto simp: rows_of_def List.map_filter_def split: option.splits)

lemma group_rows_get:
  "dict_ok (group_rows rows) \<and>
   dict_get (group_rows rows) rid = (if rid \<in> seen_runs rows then Some (rows_of rid rows) else None)"
proof (induction rows rule: rev_induct)
  case Nil
  show ?case by (simp add: group_rows_def)
next
  case (snoc row rows)
  have none: "rid \<notin> seen_runs rows \<Longrightarrow> rows_of rid rows = []" for rid
    by (auto simp: rows_of_def seen_runs_def map_filter_def filter_empty_conv split: option.splits)
  have step: "group_rows (rows @ [row]) = (case run_row row of None \<Rightarrow> group_rows rows
     | Some (event, rid, m) \<Rightarrow> dict_put rid ((case dict_get (group_rows rows) rid of None \<Rightarrow> [] | Some ms \<Rightarrow> ms) @ [(event, m)])
         (group_rows rows))"
    unfolding group_rows_def by simp
  show ?case
  proof (cases "run_row row")
    case None
    with snoc step show ?thesis by simp
  next
    case (Some x)
    obtain e r m where "x = (e, r, m)" by (cases x) auto
    with Some snoc step none show ?thesis
      by (cases "r = rid") (auto simp: dict_simps)
  qed
qed

lemma run_ended_rows_of: "run_ended (rows_of rid rows) \<longleftrightarrow> rid \<in> ended_runs rows"
  by (induction rows rule: rev_induct) (auto simp: run_ended_def split: option.splits if_splits)

lemma group_rows_keys: "(rid, ms) \<in> set (group_rows rows) \<longleftrightarrow> rid \<in> seen_runs rows \<and> ms = rows_of rid rows"
proof -
  have "(rid, ms) \<in> set (group_rows rows) \<longleftrightarrow> dict_get (group_rows rows) rid = Some ms"
    using group_rows_get [of rows] map_of_eq_Some_iff [of "group_rows rows" rid ms]
    by (simp add: dict_get_def dict_ok_def)
  then show ?thesis using group_rows_get [of rows rid] by auto
qed

lemma run_row_recovery:
  "rid \<noteq> [] \<Longrightarrow> \<exists>m. run_row (recovery_row rid node previous) =
     Some (if nonempty node \<noteq> None then u ''multi_agent.node.updated'' else u ''multi_agent.run.failed'', rid, m)
     \<and> jstr m (u ''status'') = Some (u ''interrupted'')"
  by (simp add: run_row_def recovery_row_def Let_def jstr_def jget_def dict_get_def multi_agent_event_types_def)

lemma close_run_rows:
  assumes "rid \<noteq> []"
  shows "seen_runs (close_run rid ms) = {rid}" "ended_runs (close_run rid ms) = {rid}"
proof -
  have nodes: "seen_runs (map (\<lambda>(nid, m). recovery_row rid (Some nid) m) xs) \<subseteq> {rid}" for xs
  proof -
    have row: "\<exists>e m'. run_row (recovery_row rid (Some nid) m) = Some (e, rid, m')" for nid m
      using run_row_recovery [OF assms, of "Some nid" m] by blast
    have "seen_runs [case x of (nid, m) \<Rightarrow> recovery_row rid (Some nid) m] \<subseteq> {rid}" for x
    proof -
      obtain nid m where x: "x = (nid, m)" by (cases x) auto
      from row [of nid m] x show ?thesis by auto
    qed
    then show ?thesis
      by (induction xs) (simp_all add: seen_runs_Cons [of _ "map _ _"] del: seen_runs_simps(3))
  qed
  from run_row_recovery [OF assms, of None "if ms = [] then JObj [] else snd (last ms)"]
  obtain m where m: "run_row (recovery_row rid None (if ms = [] then JObj [] else snd (last ms)))
      = Some (u ''multi_agent.run.failed'', rid, m)" "jstr m (u ''status'') = Some (u ''interrupted'')"
    by (auto simp: nonempty_def)
  have sub: "seen_runs (close_run rid ms) = {rid}"
    using nodes [of "filter (\<lambda>(nid, m). \<not> status_in m run_terminal_statuses) (latest_nodes ms)"] m(1)
    by (auto simp: close_run_def)
  have "rid \<in> ended_runs (close_run rid ms)"
    using m by (simp add: close_run_def run_terminal_events_def status_in_def run_terminal_statuses_def)
  with sub ended_subset_seen [of "close_run rid ms"] show "seen_runs (close_run rid ms) = {rid}"
    "ended_runs (close_run rid ms) = {rid}" by auto
qed

lemma concat_close_runs:
  assumes "\<forall>(rid, ms) \<in> set xs. rid \<noteq> []"
  shows "seen_runs (concat (map (\<lambda>(rid, ms). close_run rid ms) xs)) = fst ` set xs
    \<and> ended_runs (concat (map (\<lambda>(rid, ms). close_run rid ms) xs)) = fst ` set xs"
  using assms by (induction xs) (auto simp: close_run_rows)

text \<open>After its rows are added every run has ended, and a second recovery finds none open.\<close>

lemma recover_rows_close:
  assumes "recover_rows rows = (ids, added)"
  shows "ended_runs (rows @ added) = seen_runs (rows @ added)"
    and "set ids = seen_runs rows - ended_runs rows"
    and "distinct ids"
proof -
  let ?open = "filter (\<lambda>(rid, ms). \<not> run_ended ms) (group_rows rows)"
  have ids: "ids = map fst ?open" and added: "added = concat (map (\<lambda>(rid, ms). close_run rid ms) ?open)"
    using assms unfolding recover_rows_def Let_def by auto
  have fs: "fst ` set ?open = seen_runs rows - ended_runs rows"
    by (auto simp: group_rows_keys run_ended_rows_of image_iff)
  have ne: "\<forall>(rid, ms) \<in> set ?open. rid \<noteq> []"
    by (auto simp: group_rows_keys seen_runs_def dest: run_row_event)
  from concat_close_runs [OF ne] fs ended_subset_seen [of rows]
  show "ended_runs (rows @ added) = seen_runs (rows @ added)" by (auto simp: added)
  show "set ids = seen_runs rows - ended_runs rows" using fs ids by simp
  show "distinct ids" using group_rows_get [of rows] unfolding ids dict_ok_def
    by (rule distinct_map_filter [OF conjunct1])
qed

lemma recover_rows_nothing:
  assumes "ended_runs rows = seen_runs rows"
  shows "recover_rows rows = ([], [])"
proof -
  have "filter (\<lambda>(rid, ms). \<not> run_ended ms) (group_rows rows) = []"
    using assms by (auto simp: filter_empty_conv group_rows_keys run_ended_rows_of)
  then show ?thesis by (simp add: recover_rows_def)
qed

end
