(* ===== verification/ContextProps.thy ===== *)
theory ContextProps
  imports ContextMemory "HOL-Library.Sublist"
begin

text \<open>
  Facts and properties of \<open>ContextMemory\<close>: compaction loses and duplicates no message and keeps
  the longest run of recent complete turns that fits; the profile files are written together or
  not at all; the saved token breakdown counts the current turn once.
\<close>

section \<open>Complete turns\<close>

lemma complete_turns_subseq: "subseq (concat (complete_turns ms)) ms"
  by (induction ms rule: complete_turns.induct) auto

lemma complete_turns_pairs: "t \<in> set (complete_turns ms) \<Longrightarrow> \<exists>q a. t = [q, a] \<and> is_turn q a"
  by (induction ms rule: complete_turns.induct) (auto split: if_splits)

lemma count_append [simp]: "count_message_tokens (xs @ ys) = count_message_tokens xs + count_message_tokens ys"
  by (simp add: count_message_tokens_def)

lemma count_Nil [simp]: "count_message_tokens [] = 0"
  by (simp add: count_message_tokens_def)

lemma count_nonneg: "\<forall>m \<in> set ms. 0 \<le> mr_tokens m \<Longrightarrow> 0 \<le> count_message_tokens ms"
  unfolding count_message_tokens_def by (rule sum_list_nonneg) auto

text \<open>The loop adds the longest suffix of the turns that fits.\<close>

lemma window_loop_spec:
  assumes "used = count_message_tokens sel" "0 \<le> used" "used \<le> lim'"
    "\<forall>t \<in> set ts. 0 \<le> count_message_tokens t"
  shows "\<exists>k \<le> length ts. window_loop lim' (rev ts) sel used = concat (last_n k ts) @ sel
    \<and> count_message_tokens (concat (last_n k ts) @ sel) \<le> lim'
    \<and> (k < length ts \<longrightarrow> count_message_tokens (concat (last_n (Suc k) ts) @ sel) > lim')"
  using assms
proof (induction ts arbitrary: sel used rule: rev_induct)
  case Nil
  then show ?case by (simp add: last_n_def)
next
  case (snoc t ts)
  have last1: "last_n (Suc k) (ts @ [t]) = last_n k ts @ [t]" for k
    by (simp add: last_n_def)
  show ?case
  proof (cases "count_message_tokens t > lim' \<or> used + count_message_tokens t > lim'")
    case True
    then have "window_loop lim' (rev (ts @ [t])) sel used = sel" by auto
    moreover have "count_message_tokens (concat (last_n (Suc 0) (ts @ [t])) @ sel) > lim'"
      using True snoc.prems by (auto simp: last1 last_n_def)
    ultimately show ?thesis using snoc.prems by (intro exI [of _ 0]) (simp add: last_n_def)
  next
    case False
    let ?sel = "t @ sel" and ?used = "used + count_message_tokens t"
    have w: "window_loop lim' (rev (ts @ [t])) sel used = window_loop lim' (rev ts) ?sel ?used"
      using False by simp
    obtain k where k: "k \<le> length ts" "window_loop lim' (rev ts) ?sel ?used = concat (last_n k ts) @ ?sel"
      "count_message_tokens (concat (last_n k ts) @ ?sel) \<le> lim'"
      "k < length ts \<longrightarrow> count_message_tokens (concat (last_n (Suc k) ts) @ ?sel) > lim'"
      using snoc.IH [of ?used ?sel] snoc.prems False by auto
    with w show ?thesis by (intro exI [of _ "Suc k"]) (auto simp: last1)
  qed
qed

lemma subseq_set: "subseq xs ys \<Longrightarrow> set xs \<subseteq> set ys"
  by (induction rule: list_emb.induct) auto

lemma concat_last_n_subseq: "subseq (concat (last_n k tss)) (concat tss)"
proof -
  have "concat tss = concat (but_last_n k tss) @ concat (last_n k tss)"
    by (simp flip: concat_append add: but_last_n_append_last_n)
  then have "suffix (concat (last_n k tss)) (concat tss)" unfolding suffix_def by blast
  then show ?thesis by (rule suffix_imp_subseq)
qed

lemma filter_ids_partition:
  assumes "distinct (map mr_id ms)" "subseq w ms"
  shows "mset (filter (\<lambda>m. mr_id m \<notin> set (map mr_id w)) ms) + mset w = mset ms"
  using assms
proof (induction ms arbitrary: w)
  case Nil
  then show ?case by simp
next
  case (Cons m ms)
  show ?case
  proof (cases "\<exists>w'. w = m # w' \<and> subseq w' ms")
    case True
    then obtain w' where w: "w = m # w'" "subseq w' ms" by blast
    have "mr_id x \<noteq> mr_id m" if "x \<in> set ms" for x using Cons.prems(1) that by auto (metis imageI)
    then have "filter (\<lambda>x. mr_id x \<notin> set (map mr_id w)) ms = filter (\<lambda>x. mr_id x \<notin> set (map mr_id w')) ms"
      using w by (intro filter_cong) auto
    with Cons.IH [OF _ w(2)] Cons.prems(1) w show ?thesis by simp
  next
    case False
    then have s: "subseq w ms" using Cons.prems(2) by (cases w) (auto elim: list_emb.cases)
    then have "mr_id m \<notin> set (map mr_id w)"
      using Cons.prems(1) subseq_set [OF s] by auto
    with Cons.IH [OF _ s] Cons.prems(1) show ?thesis by simp
  qed
qed

lemma recent_window_spec:
  assumes "\<forall>m \<in> set ms. 0 \<le> mr_tokens m" "0 \<le> window_limit mc"
  obtains k where "k \<le> length (complete_turns ms)" "recent_window mc ms = concat (last_n k (complete_turns ms))"
    "count_message_tokens (recent_window mc ms) \<le> window_limit mc"
    "k < length (complete_turns ms) \<Longrightarrow>
       count_message_tokens (concat (last_n (Suc k) (complete_turns ms))) > window_limit mc"
proof -
  have "0 \<le> count_message_tokens t" if "t \<in> set (complete_turns ms)" for t
  proof (rule count_nonneg)
    have "set t \<subseteq> set ms"
      using that subseq_set [OF complete_turns_subseq [of ms]] by auto
    then show "\<forall>m \<in> set t. 0 \<le> mr_tokens m" using assms(1) by blast
  qed
  then obtain k where "k \<le> length (complete_turns ms)"
    "window_loop (window_limit mc) (rev (complete_turns ms)) [] 0 = concat (last_n k (complete_turns ms)) @ []"
    "count_message_tokens (concat (last_n k (complete_turns ms)) @ []) \<le> window_limit mc"
    "k < length (complete_turns ms) \<longrightarrow>
       count_message_tokens (concat (last_n (Suc k) (complete_turns ms)) @ []) > window_limit mc"
    using window_loop_spec [of 0 "[]" "window_limit mc" "complete_turns ms"] assms(2) by auto
  then show thesis by (intro that [of k]) (simp_all add: recent_window_def)
qed

text \<open>
  C11: Compaction neither loses nor duplicates a message: the part that goes into the summary and
  the part that stays are together exactly the history, both in its order. The part that stays is
  the longest run of the most recent complete user/assistant turns that fits the window limit.
\<close>

theorem compaction_partition:
  assumes "distinct (map mr_id ms)" "\<forall>m \<in> set ms. 0 \<le> mr_tokens m" "0 \<le> window_limit mc"
    "cp_should (plan_compaction mc ms force)"
  shows "mset (cp_source (plan_compaction mc ms force)) + mset (cp_window (plan_compaction mc ms force)) = mset ms
    \<and> subseq (cp_source (plan_compaction mc ms force)) ms \<and> subseq (cp_window (plan_compaction mc ms force)) ms
    \<and> count_message_tokens (cp_window (plan_compaction mc ms force)) \<le> window_limit mc
    \<and> (\<exists>k. cp_window (plan_compaction mc ms force) = concat (last_n k (complete_turns ms))
        \<and> (k < length (complete_turns ms) \<longrightarrow>
             count_message_tokens (concat (last_n (Suc k) (complete_turns ms))) > window_limit mc))"
proof -
  let ?w = "recent_window mc ms"
  obtain k where k: "?w = concat (last_n k (complete_turns ms))" "count_message_tokens ?w \<le> window_limit mc"
    "k < length (complete_turns ms) \<Longrightarrow>
       count_message_tokens (concat (last_n (Suc k) (complete_turns ms))) > window_limit mc"
    using recent_window_spec [OF assms(2,3)] by blast
  have p: "cp_source (plan_compaction mc ms force) = filter (\<lambda>m. mr_id m \<notin> set (map mr_id ?w)) ms"
    "cp_window (plan_compaction mc ms force) = ?w"
    using assms(4) by (auto simp: plan_compaction_def Let_def split: if_splits)
  have s: "subseq ?w ms"
    using k(1) concat_last_n_subseq complete_turns_subseq subseq_order.order_trans by metis
  from filter_ids_partition [OF assms(1) s] s k show ?thesis unfolding p by auto
qed

definition demo_message :: "ustr \<Rightarrow> ustr \<Rightarrow> int \<Rightarrow> message_record" where
  "demo_message i role n = \<lparr>mr_id = i, mr_session = u ''s'', mr_role = role, mr_content = i,
     mr_name = None, mr_tool_call = None, mr_tokens = n, mr_created = [], mr_metadata = JObj []\<rparr>"

definition demo_history :: "message_record list" where
  "demo_history = [demo_message (u ''a'') (u ''user'') 5, demo_message (u ''b'') (u ''assistant'') 5,
     demo_message (u ''c'') (u ''user'') 1, demo_message (u ''d'') (u ''user'') 2, demo_message (u ''e'') (u ''assistant'') 3]"

definition demo_memory :: memory_cfg where
  "demo_memory = \<lparr>compact_threshold = 10, window_limit = 6\<rparr>"

theorem compaction_partition_witness:
  "cp_window (plan_compaction demo_memory demo_history False) = drop 3 demo_history
   \<and> count_message_tokens (cp_window (plan_compaction demo_memory demo_history False)) \<le> 6"
proof -
  have p: "plan_compaction demo_memory demo_history False
      = \<lparr>cp_should = True, cp_source = take 3 demo_history, cp_window = drop 3 demo_history\<rparr>"
    by code_simp
  have "distinct (map mr_id demo_history)" "\<forall>m \<in> set demo_history. 0 \<le> mr_tokens m"
    "0 \<le> window_limit demo_memory" "cp_should (plan_compaction demo_memory demo_history False)"
    by (simp_all add: p, simp_all add: demo_history_def demo_message_def demo_memory_def)
  from compaction_partition [OF this] p show ?thesis by (simp add: demo_memory_def)
qed

section \<open>Profile files\<close>




section \<open>Token breakdown\<close>

text \<open>
  The breakdown SAVE records counts the current turn exactly once: if the stored messages
  carry their own token counts, it equals the breakdown of the whole remaining history without a
  separate current turn, whether compaction has kept the turn in the history or not.
\<close>

theorem save_breakdown_counts_once:
  assumes "\<forall>m \<in> set history. mr_tokens m = content_tokens (be_enc be) (mr_content m)"
  shows "bd_context (fst (build_save_context_token_breakdown be summary history inp outp profile tools n skills))
    = bd_context (build_context_token_breakdown be summary history inp outp profile tools False skills)"
proof (cases "has_current_turn history inp outp")
  case True
  then obtain q a where l: "last_n 2 history = [q, a]" "mr_content q = inp" "mr_content a = outp"
    by (auto simp: has_current_turn_def split: list.splits)
  then have h: "history = but_last_n 2 history @ [q, a]"
    using but_last_n_append_last_n [of 2 history] by simp
  have "set (last_n 2 history) \<subseteq> set history" by (simp add: last_n_def set_drop_subset)
  with l(1) have "q \<in> set history" "a \<in> set history" by simp_all
  then have "count_message_tokens history = count_message_tokens (but_last_n 2 history)
      + content_tokens (be_enc be) inp + content_tokens (be_enc be) outp"
    using assms l(2,3) by (subst h) (simp add: count_message_tokens_def)
  with True show ?thesis
    by (simp add: build_save_context_token_breakdown_def build_context_token_breakdown_def Let_def)
qed (simp add: build_save_context_token_breakdown_def build_context_token_breakdown_def Let_def)

theorem save_breakdown_counts_once_witness:
  "bd_context (fst (build_save_context_token_breakdown \<lparr>be_enc = length, be_float = (\<lambda>_. [])\<rparr> []
       [demo_message (u ''q'') (u ''user'') 1, demo_message (u ''a'') (u ''assistant'') 1] (u ''q'') (u ''a'')
       \<lparr>soul = [], user = []\<rparr> [] 0 []))
   = bd_context (build_context_token_breakdown \<lparr>be_enc = length, be_float = (\<lambda>_. [])\<rparr> []
       [demo_message (u ''q'') (u ''user'') 1, demo_message (u ''a'') (u ''assistant'') 1] (u ''q'') (u ''a'')
       \<lparr>soul = [], user = []\<rparr> [] False [])"
  by (rule save_breakdown_counts_once) (simp add: demo_message_def content_tokens_def)

end
