(* ===== verification/SessionProps.thy ===== *)
theory SessionProps
  imports RecoveryFacts ContextProps
begin

text \<open>
  What the session store promises: a session file and the messages read back, the cumulative token
  ledger, and the recovery of interrupted runs; and what it loses of the uncompacted history.
\<close>

section \<open>Session files and history\<close>

text \<open>
  C13: A session that is written is found again with every field it had, except that the messages
  of its uncompacted history keep only role and content: their ids become empty and their token
  counts are computed anew.
\<close>

theorem session_file_roundtrip:
  assumes "se_id s \<noteq> []" "aware_time env (se_created s)" "aware_time env (se_updated s)"
  shows "read_session_file env (Some (session_row s)) = Some (s\<lparr>se_uncompacted :=
    map (\<lambda>m. \<lparr>mr_id = [], mr_session = [], mr_role = mr_role m, mr_content = mr_content m, mr_name = None,
      mr_tool_call = None, mr_tokens = content_tokens (st_enc env) (mr_content m), mr_created = [],
      mr_metadata = JObj []\<rparr>) (se_uncompacted s)\<rparr>)"
  using read_session_row [of env s] assms by (simp add: storable_def reloaded_def context_copy_def [abs_def])

definition demo_store_env :: store_env where
  "demo_store_env = \<lparr>iso = (\<lambda>t. if t = [] then None else Some (Aware (int (hd t)))), dir_stamp = (\<lambda>t. t), st_enc = length\<rparr>"

definition demo_session :: session where
  "demo_session = \<lparr>se_id = u ''s'', se_user = u ''p'', se_channel = u ''web'', se_title = u ''t'', se_summary = [],
     se_pinned = False, se_archived = False, se_uncompacted = demo_history, se_created = u ''1'',
     se_updated = u ''2'', se_principal = u ''p'', se_conversation = u ''c''\<rparr>"

theorem session_file_roundtrip_witness:
  "\<exists>s'. read_session_file demo_store_env (Some (session_row demo_session)) = Some s'
     \<and> map mr_id (se_uncompacted s') = [[], [], [], [], []]
     \<and> map mr_content (se_uncompacted s') = map mr_content demo_history"
  using session_file_roundtrip [of demo_session demo_store_env]
  by (simp add: demo_session_def demo_store_env_def aware_time_def demo_history_def demo_message_def)





section \<open>Recovery\<close>

definition recovered :: "store_env \<Rightarrow> session_dir \<Rightarrow> session_dir" where
  "recovered env d = (if dir_session env d = None then d
     else d\<lparr>sd_traces := sd_traces d @ snd (recover_rows (sd_traces d))\<rparr>)"

lemma dir_session_recovered [simp]: "dir_session env (recovered env d) = dir_session env d"
  by (simp add: recovered_def dir_session_def)

lemma name_recovered [simp]: "sd_name (recovered env d) = sd_name d"
  by (simp add: recovered_def)

lemma traces_recovered:
  assumes "dir_session env d \<noteq> None"
  shows "ended_runs (sd_traces (recovered env d)) = seen_runs (sd_traces (recovered env d))"
  using recover_rows_close(1) [of "sd_traces d" "fst (recover_rows (sd_traces d))" "snd (recover_rows (sd_traces d))"]
    assms by (auto simp: recovered_def)

lemma update_dir_at:
  assumes "distinct (map sd_name (pre @ d # ds))"
  shows "update_dir (sd_name d) f (pre @ d # ds) = pre @ f d # ds"
proof -
  have "get_dir (pre @ d # ds) (sd_name d) = Some d" using get_dir_in [OF assms, of d] by simp
  moreover have "map (\<lambda>x. if sd_name x = sd_name d then f x else x) xs = xs" if "sd_name d \<notin> sd_name ` set xs" for xs
    using that by (induction xs) auto
  ultimately show ?thesis using assms by (simp add: update_dir_def)
qed

lemma recover_dirs_result:
  assumes "recover_dirs env ds dk = (Inr ids, dk')" "dk_dirs dk = pre @ ds" "distinct (map sd_name (pre @ ds))"
  shows "dk_dirs dk' = pre @ map (recovered env) ds"
  using assms
proof (induction ds arbitrary: pre dk ids)
  case Nil
  then show ?case by (simp add: ret_def)
next
  case (Cons d ds)
  let ?add = "snd (recover_rows (sd_traces d))" and ?ids = "fst (recover_rows (sd_traces d))"
  let ?f = "\<lambda>d. d\<lparr>sd_traces := sd_traces d @ ?add\<rparr>"
  have step: "dk_dirs dk' = (pre @ [recovered env d]) @ map (recovered env) ds"
    if "recover_dirs env ds dk1 = (Inr ids1, dk')" "dk_dirs dk1 = (pre @ [recovered env d]) @ ds" for dk1 ids1
    using Cons.IH [OF that] Cons.prems(3) by simp
  show ?case
  proof (cases "dir_session env d = None")
    case True
    then have "recovered env d = d" by (simp add: recovered_def)
    with step [of dk ids] Cons.prems True show ?thesis by simp
  next
    case False
    let ?w = "if ?add = [] then ret () else write_dir (sd_name d) ?f"
    have "seq ?w (\<lambda>_. seq (recover_dirs env ds) (\<lambda>rest. ret (?ids @ rest))) dk = (Inr ids, dk')"
      using Cons.prems(1) False by (simp add: case_prod_beta)
    then obtain dk1 x where w: "?w dk = (Inr x, dk1)"
      and rest: "seq (recover_dirs env ds) (\<lambda>rest. ret (?ids @ rest)) dk1 = (Inr ids, dk')"
      unfolding seq_def by (auto split: prod.splits sum.splits)
    from rest obtain ids1 where r: "recover_dirs env ds dk1 = (Inr ids1, dk')"
      unfolding seq_def ret_def by (auto split: prod.splits sum.splits)
    have "dk_dirs dk1 = pre @ ?f d # ds"
    proof (cases "?add = []")
      case True
      with w Cons.prems(2) show ?thesis by (simp add: ret_def)
    next
      case False
      with w have "write_dir (sd_name d) ?f dk = (Inr x, dk1)" by simp
      with Cons.prems(2) update_dir_at [OF Cons.prems(3), of ?f] show ?thesis
        by (simp add: write_dir_Inr)
    qed
    with step [OF r] False show ?thesis by (auto simp: recovered_def)
  qed
qed

lemma recover_dirs_nothing:
  assumes "\<And>d. d \<in> set ds \<Longrightarrow> dir_session env d \<noteq> None \<Longrightarrow> ended_runs (sd_traces d) = seen_runs (sd_traces d)"
  shows "recover_dirs env ds dk = (Inr [], dk)"
  using assms by (induction ds) (auto simp: recover_rows_nothing ret_def seq_def)

text \<open>
  C15: A recovery that is not stopped by a refused write closes every run of every session: a
  second recovery finds no open run and writes nothing, and every run the session history shows
  afterwards has a terminal status.
\<close>

theorem recovery_closes_runs:
  assumes "distinct (map sd_name (dk_dirs dk))" "recover_interrupted_runs env dk = (Inr ids, dk')"
  shows "recover_interrupted_runs env dk' = (Inr [], dk')
    \<and> (load_session env (dk_dirs dk') sid \<noteq> None \<longrightarrow>
        (\<forall>v \<in> set (read_multi_agent_runs env (dk_dirs dk') sid None). rv_status v \<in> set run_terminal_statuses))"
proof -
  have "recover_dirs env (dk_dirs dk) dk = (Inr ids, dk')"
    using assms(2) by (simp add: recover_interrupted_runs_def seq_def gets_def)
  from recover_dirs_result [OF this, of "[]"] assms(1)
  have dirs: "dk_dirs dk' = map (recovered env) (dk_dirs dk)" by simp
  have closed: "ended_runs (sd_traces d) = seen_runs (sd_traces d)"
    if "d \<in> set (dk_dirs dk')" "dir_session env d \<noteq> None" for d
    using that by (auto simp: dirs traces_recovered)
  have "rv_status v \<in> set run_terminal_statuses"
    if loads: "load_session env (dk_dirs dk') sid \<noteq> None" and v: "v \<in> set (read_multi_agent_runs env (dk_dirs dk') sid None)" for v
  proof -
    let ?d = "the_dir env (dk_dirs dk') sid"
    have "distinct (map sd_name (dk_dirs dk'))" using assms(1) by (simp add: dirs o_def)
    from load_session_None [OF this, of env sid] loads closed
    have "ended_runs (sd_traces ?d) = seen_runs (sd_traces ?d)" by auto
    moreover obtain k w where "(k, w) \<in> set (vs_runs (view_rows (sd_traces ?d)))" "rv_status v = rv_status w"
      using v by (auto simp: read_multi_agent_runs_def Let_def)
    ultimately show ?thesis
      using views_okD(3) [OF views_ok_rows, of k w "sd_traces ?d"] views_okD(1) [OF views_ok_rows, of "sd_traces ?d"]
      by force
  qed
  then show ?thesis
    using recover_dirs_nothing [of "dk_dirs dk'" env dk'] closed
    by (simp add: recover_interrupted_runs_def seq_def gets_def)
qed

text \<open>A session directory with an open run and one running worker.\<close>

definition demo_trace :: "string \<Rightarrow> ustr option \<Rightarrow> string \<Rightarrow> json" where
  "demo_trace event node status = JObj [(u ''turn_id'', JStr (u ''t'')), (u ''state'', JStr (u ''MULTI_AGENT'')),
     (u ''event'', JStr (u event)), (u ''metadata'', JObj [(u ''run_id'', JStr (u ''r'')),
       (u ''node_id'', (case node of Some n \<Rightarrow> JStr n | None \<Rightarrow> JNull)), (u ''status'', JStr (u status))])]"

definition demo_disk :: disk where
  "demo_disk = \<lparr>dk_dirs = [\<lparr>sd_name = u ''d'', sd_session = Some (session_row demo_session),
     sd_messages = [], sd_traces = [demo_trace ''multi_agent.run.started'' None ''running'',
       demo_trace ''multi_agent.node.updated'' (Some (u ''n'')) ''running''],
     sd_usage = [], sd_tools = []\<rparr>], dk_io = (\<lambda>_. None)\<rparr>"

definition demo_recovered :: disk where
  "demo_recovered = snd (recover_interrupted_runs demo_store_env demo_disk)"

theorem recovery_closes_runs_witness:
  "recover_interrupted_runs demo_store_env demo_recovered = (Inr [], demo_recovered)
     \<and> map rv_status (read_multi_agent_runs demo_store_env (dk_dirs demo_recovered) (u ''s'') None) = [u ''interrupted'']"
proof -
  have "fst (recover_interrupted_runs demo_store_env demo_disk) = Inr [u ''r'']" by code_simp
  then have run: "recover_interrupted_runs demo_store_env demo_disk = (Inr [u ''r''], demo_recovered)"
    by (simp add: demo_recovered_def prod_eq_iff)
  have "distinct (map sd_name (dk_dirs demo_disk))" by (simp add: demo_disk_def)
  moreover have "map rv_status (read_multi_agent_runs demo_store_env (dk_dirs demo_recovered) (u ''s'') None)
      = [u ''interrupted'']" by code_simp
  ultimately show ?thesis using recovery_closes_runs [OF _ run] by blast
qed

section \<open>The usage ledger\<close>

text \<open>Every row's cumulative total is the sum of the turn totals up to it.\<close>

fun ledger_from :: "int \<Rightarrow> json list \<Rightarrow> bool" where
  "ledger_from t [] \<longleftrightarrow> True"
| "ledger_from t (row # rows) \<longleftrightarrow> jint_or 0 row (u ''total_tokens'') = t + jint_or 0 row (u ''turn_total_tokens'')
     \<and> ledger_from (jint_or 0 row (u ''total_tokens'')) rows"

lemma ledger_from_snoc:
  "ledger_from t (rows @ [row]) \<longleftrightarrow> ledger_from t rows \<and> jint_or 0 row (u ''total_tokens'') =
     (if rows = [] then t else jint_or 0 (last rows) (u ''total_tokens'')) + jint_or 0 row (u ''turn_total_tokens'')"
  by (induction rows arbitrary: t) auto

lemma usage_fields_get:
  "jint_or 0 (JObj (usage_fields turn us t @ extra)) (u ''total_tokens'') = t"
  "jint_or 0 (JObj (usage_fields turn us t @ extra)) (u ''turn_total_tokens'') = tu_turn us"
  by (simp_all add: usage_fields_def jint_or_def jget_def dict_get_def int_of_def)

lemma ledger_step:
  assumes "ledger_from 0 (sd_usage (the_dir env (dk_dirs dk) sid))"
    "in_session env sid (\<lambda>d. d\<lparr>sd_usage := sd_usage d @
       [JObj (usage_fields turn us (last_total_tokens env (dk_dirs dk) sid + tu_turn us) @ extra)]\<rparr>) dk = (Inr (), dk')"
  shows "ledger_from 0 (sd_usage (the_dir env (dk_dirs dk') sid))
    \<and> last_total_tokens env (dk_dirs dk') sid = last_total_tokens env (dk_dirs dk) sid + tu_turn us"
  using assms(1) in_session_Inr [OF assms(2)] usage_fields_get [of turn us _ extra]
  by (auto simp: the_dir_update ledger_from_snoc last_total_tokens_def ledger_total_def)

text \<open>
  C16: The usage ledger of a session stays cumulative: if every row so far carries the sum of the
  turn totals up to it, then so does every row after a usage record is saved, for the parent turn
  or for a worker, when the parent's record was built on the last total; and the last total grows
  by exactly the tokens of the turn. A save that fails changes no session directory.
\<close>

theorem ledger_cumulative:
  assumes "ledger_from 0 (sd_usage (the_dir env (dk_dirs dk) sid))"
    "record_llm_usage us (last_total_tokens env (dk_dirs dk) sid) compacted = Inr tu"
    "save_true_token_usage env turn sid tu tag dk = (r, dk')"
  shows "case r of
      Inl e \<Rightarrow> dk_dirs dk' = dk_dirs dk
    | Inr _ \<Rightarrow> ledger_from 0 (sd_usage (the_dir env (dk_dirs dk') sid))
        \<and> last_total_tokens env (dk_dirs dk') sid = last_total_tokens env (dk_dirs dk) sid + lu_total us"
proof -
  let ?last = "last_total_tokens env (dk_dirs dk) sid"
  have tu: "tu_total tu = ?last + tu_turn tu" "tu_turn tu = lu_total us"
    using assms(2) by (auto simp: record_llm_usage_def split: if_splits)
  have save: ?thesis if "in_session env sid (\<lambda>d. d\<lparr>sd_usage := sd_usage d @
       [JObj (usage_fields turn tu (?last + tu_turn tu) @ extra)]\<rparr>) dk = (r, dk')" for extra
  proof (cases r)
    case (Inl e)
    with that in_session_Inl show ?thesis by fastforce
  next
    case (Inr x)
    with that ledger_step [OF assms(1), of turn tu extra dk'] tu show ?thesis by simp
  qed
  show ?thesis
  proof (cases tag)
    case None
    with assms(3) save [of "[]"] tu show ?thesis by (simp add: save_true_token_usage_def)
  next
    case (Some t)
    show ?thesis
    proof (cases "tag_fields t")
      case (Inl e)
      with Some assms(3) show ?thesis by (auto simp: save_true_token_usage_def prog_simps)
    next
      case (Inr extra)
      with Some assms(3) save [of extra] show ?thesis by (simp add: save_true_token_usage_def prog_simps)
    qed
  qed
qed

definition demo_usage :: token_usage where
  "demo_usage = \<lparr>tu_input = 3, tu_output = 4, tu_turn = 7, tu_total = 7, tu_compacted = 0\<rparr>"

definition demo_tag :: usage_tag where
  "demo_tag = \<lparr>ut_scope = u ''worker'', ut_run = u ''r'', ut_node = Some (u ''n''), ut_agent = u ''a''\<rparr>"

theorem ledger_cumulative_witness:
  "last_total_tokens demo_store_env
     (dk_dirs (snd (save_true_token_usage demo_store_env (u ''t'') (u ''s'') demo_usage (Some demo_tag) demo_disk))) (u ''s'') = 7"
proof -
  have "ledger_from 0 (sd_usage (the_dir demo_store_env (dk_dirs demo_disk) (u ''s'')))"
    "last_total_tokens demo_store_env (dk_dirs demo_disk) (u ''s'') = 0"
    "fst (save_true_token_usage demo_store_env (u ''t'') (u ''s'') demo_usage (Some demo_tag) demo_disk) = Inr ()"
    by code_simp+
  moreover have "record_llm_usage \<lparr>lu_input = 3, lu_output = 4, lu_total = 7\<rparr> 0 False = Inr demo_usage"
    by (simp add: record_llm_usage_def demo_usage_def)
  ultimately show ?thesis
    using ledger_cumulative [where env = demo_store_env and dk = demo_disk and sid = "u ''s''" and tag = "Some demo_tag"
        and us = "\<lparr>lu_input = 3, lu_output = 4, lu_total = 7\<rparr>" and compacted = False and tu = demo_usage
        and turn = "u ''t''", OF _ _ prod.collapse [symmetric]] by simp
qed

section \<open>Saved messages\<close>

lemma save_message_appends:
  assumes "distinct (map sd_name (dk_dirs dk))" "load_session env (dk_dirs dk) sid = Some s" "se_id s = sid"
    "aware_time env now"
    "save_message env sid role content tokens metadata mid created fresh now dk = (Inr m, dk')"
  shows "all_messages env (dk_dirs dk') sid = all_messages env (dk_dirs dk) sid @ [m\<lparr>mr_session := []\<rparr>]
    \<and> (mr_role m, mr_content m, mr_tokens m) = (role, content, tokens)
    \<and> load_session env (dk_dirs dk') sid = Some (reloaded env (s\<lparr>se_updated := now\<rparr>))"
proof -
  let ?f = "\<lambda>d. d\<lparr>sd_messages := sd_messages d @ [message_row m]\<rparr>" and ?s = "s\<lparr>se_updated := now\<rparr>"
  have m: "mr_name m = None" "mr_tool_call m = None" "(mr_role m, mr_content m, mr_tokens m) = (role, content, tokens)"
    using assms(5) by (auto simp: save_message_def Let_def prog_simps split: prod.splits sum.splits)
  obtain dk1 where w: "in_session env sid ?f dk = (Inr (), dk1)" and t: "touch_session env sid now dk1 = (Inr (), dk')"
    using assms(5) by (auto simp: save_message_def Let_def prog_simps split: prod.splits sum.splits)
  let ?d0 = "the_dir env (dk_dirs dk) sid"
  have d1: "dk_dirs dk1 = update_dir (find_session_dir env (dk_dirs dk) sid) ?f (dk_dirs dk)"
    using w by (rule in_session_Inr)
  then have the1: "the_dir env (dk_dirs dk1) sid = ?f ?d0" by (simp add: the_dir_update)
  then have load1: "load_session env (dk_dirs dk1) sid = Some s"
    using assms(2) by (simp add: load_session_def dir_session_def)
  have dist: "distinct (map sd_name (dk_dirs dk1))" unfolding d1 by (rule distinct_update) (simp_all add: assms(1))
  have "write_session env ?s dk1 = (Inr (), dk')"
    using t load1 by (simp add: touch_session_def)
  then have d2: "dk_dirs dk' = update_dir (find_session_dir env (dk_dirs dk1) sid)
      (\<lambda>d. d\<lparr>sd_session := Some (session_row ?s)\<rparr>) (dk_dirs dk1)"
    using in_session_Inr assms(3) by (fastforce simp: write_session_def)
  have st: "storable env ?s"
    using read_session_storable [of env _ s] assms(2,4) by (auto simp: load_session_def dir_session_def storable_def)
  note written = load_write_session [OF dist load1 assms(3) _ st]
  have "the_dir env (dk_dirs dk') sid = (?f ?d0)\<lparr>sd_session := Some (session_row ?s)\<rparr>"
    unfolding d2 using written(1) assms(3) the1 by simp
  moreover have "load_session env (dk_dirs dk') sid = Some (reloaded env ?s)"
    unfolding d2 using written(2) assms(3) by simp
  ultimately show ?thesis using m by (simp add: all_messages_def row_message_row)
qed

lemma save_message_names:
  assumes "save_message env sid role content tokens metadata mid created fresh now dk = (Inr m, dk')"
    "distinct (map sd_name (dk_dirs dk))"
  shows "distinct (map sd_name (dk_dirs dk'))"
proof -
  let ?D = "\<lambda>dk. distinct (map sd_name (dk_dirs dk))"
  have io: "keeps ?D (in_session env sid f)" if "\<And>d. sd_name (f d) = sd_name d" for sid f
    by (rule keeps_in_session [where P = "\<lambda>ds. distinct (map sd_name ds)"]) (rule distinct_update, simp_all add: that)
  have "keeps ?D (save_message env sid role content tokens metadata mid created fresh now)"
    unfolding save_message_def touch_session_def write_session_def Let_def by (intro keeps_rules io) simp_all
  from keepsD [OF this, of dk] assms show ?thesis by simp
qed

text \<open>A message saved into a session that exists is read back as the last message with every
  field except the session id, all earlier messages stay as they were, and the session has the new
  time of update.
\<close>

theorem saved_message_read_back:
  assumes "distinct (map sd_name (dk_dirs dk))" "load_session env (dk_dirs dk) sid = Some s" "se_id s = sid"
    "aware_time env now"
    "save_message env sid role content tokens metadata mid created fresh now dk = (Inr m, dk')"
  shows "all_messages env (dk_dirs dk') sid = all_messages env (dk_dirs dk) sid @ [m\<lparr>mr_session := []\<rparr>]
    \<and> (mr_role m, mr_content m, mr_tokens m) = (role, content, tokens)
    \<and> load_session env (dk_dirs dk') sid = Some (reloaded env (s\<lparr>se_updated := now\<rparr>))"
  using assms by (rule save_message_appends)

definition demo_save :: "(exn + message_record) \<times> disk" where
  "demo_save = save_message demo_store_env (u ''s'') (u ''user'') (u ''hi'') 2 None None None (u ''m1'') (u ''5'') demo_disk"

theorem saved_message_read_back_witness:
  "map mr_content (all_messages demo_store_env (dk_dirs (snd demo_save)) (u ''s'')) = [u ''hi'']"
proof -
  have here: "distinct (map sd_name (dk_dirs demo_disk))" "aware_time demo_store_env (u ''5'')"
    and before: "all_messages demo_store_env (dk_dirs demo_disk) (u ''s'') = []" by code_simp+
  have load: "load_session demo_store_env (dk_dirs demo_disk) (u ''s'') = Some (reloaded demo_store_env demo_session)"
    by code_simp
  have "isl (fst demo_save) = False" by code_simp
  then obtain m where "save_message demo_store_env (u ''s'') (u ''user'') (u ''hi'') 2 None None None (u ''m1'')
      (u ''5'') demo_disk = (Inr m, snd demo_save)"
    unfolding demo_save_def by (metis prod.collapse sum.collapse(2))
  from saved_message_read_back [OF here(1) load _ here(2) this] before show ?thesis
    by (simp add: reloaded_def demo_session_def)
qed

end
