(* ===== verification/ReaderProps.thy ===== *)
theory ReaderProps
  imports ReaderFacts SessionProps
begin

text \<open>
  What the restriction to one principal promises: a reader never touches a directory of another
  principal, refuses every operation on a session of another principal, and different principals
  work on different data roots.
\<close>

section \<open>The stores' programs from an own session\<close>













section \<open>Reader operations with another shape\<close>






lemma reader_command_cases:
  "(\<exists>e. reader_inbound_command me rd sid m s = (Inl (PermissionError e), s)) \<or>
   (reader_inbound_command me rd sid m s = handle_inbound_command me sid (im_content m) s \<and>
     (\<forall>se. load_session (me_store me) (dirs s) sid = Some se \<longrightarrow> se_principal se = rd_principal rd))"
  by (cases "load_session (me_store me) (dirs s) sid")
    (simp_all add: reader_inbound_command_def validate_route_def raise_def)





section \<open>Properties\<close>



definition demo_manager :: manager_env where
  "demo_manager = \<lparr>me_store = demo_store_env, me_micros = (\<lambda>_. 0), me_repr = (\<lambda>_. []), me_fixed3 = (\<lambda>_. [])\<rparr>"

definition demo_desk :: desk where
  "demo_desk = \<lparr>dx_disk = demo_disk\<lparr>dk_dirs := dk_dirs demo_disk @ [\<lparr>sd_name = u ''e'',
       sd_session = Some (session_row (demo_session\<lparr>se_id := u ''o'', se_principal := u ''q''\<rparr>)), sd_messages = [],
       sd_traces = [], sd_usage = [], sd_tools = []\<rparr>]\<rparr>,
     dx_auto = False, dx_config = No_config, dx_config_io = (\<lambda>_. None), dx_times = (\<lambda>_. u ''7''), dx_ids = (\<lambda>_. u ''i'')\<rparr>"

definition demo_reader :: reader where
  "demo_reader = \<lparr>rd_principal = u ''p'', rd_global_approval = False\<rparr>"


text \<open>
  On a session of another principal every operation of a reader fails with an exception (a
  permission error, or the mismatch of the route) and changes nothing: not the disk, not the
  approval switch, not the settings file.
\<close>

theorem foreign_session_refused:
  assumes "op_session op = Some sid" "load_session (me_store me) (dirs s) sid = Some se"
    "se_principal se \<noteq> rd_principal rd"
  shows "\<exists>e. reader_run me rd op s = (Inl e, s) \<and> (e = ValueError txt_route_inconsistent \<or> (\<exists>t. e = PermissionError t))"
proof -
  have req: "require_session me rd sid s = (Inl (PermissionError txt_foreign_access), s)"
    using assms(2,3) by (simp add: require_session_def raise_def)
  have defs: "seq (require_session me rd sid) f s = (Inl (PermissionError txt_foreign_access), s)"
    for f :: "session \<Rightarrow> (desk, unit) prog" using req by (rule seq_Inl)
  show ?thesis
  proof (cases op)
    case (Op_load route)
    then have "sid = cr_session route" using assms(1) by simp
    with assms(2,3) Op_load show ?thesis
      by (auto simp: reader_load_or_create_def validate_route_def manager_load_or_create_def prog_simps)
  next
    case (Op_command sid' m)
    with assms reader_command_cases [of me rd sid m s] show ?thesis by (auto simp: seq_def)
  next
    case (Op_traces ts)
    with assms(1) obtain t rest where ts: "ts = t # rest" "sx_session t = sid" by (cases ts) auto
    have "for_each ts (\<lambda>t. seq (require_session me rd (sx_session t)) (\<lambda>_. ret ())) s = (Inl (PermissionError txt_foreign_access), s)"
      using req ts by (simp add: seq_def)
    with Op_traces show ?thesis by (simp add: reader_save_traces_def seq_Inl)
  next
    case (Op_messages sid')
    with assms show ?thesis by (simp add: reader_all_messages_def raise_def seq_def gets_def)
  qed (use assms(1) in \<open>simp_all add: defs reader_update_metadata_def reader_update_summary_def reader_update_history_def
      reader_save_user_def reader_save_assistant_def reader_save_tools_def reader_save_usage_def
      reader_recent_messages_def reader_last_total_def reader_runs_def seq_assoc\<close>)
qed

theorem foreign_session_refused_witness:
  "snd (reader_run demo_manager demo_reader (Op_command (u ''o'')
     \<lparr>im_id = [], im_session = u ''o'', im_route = \<lparr>cr_principal = u ''p'', cr_channel = u ''cli'', cr_conversation = [],
        cr_session = u ''o''\<rparr>, im_content = u ''/clear'', im_attachments = [], im_metadata = [], im_created = []\<rparr>)
     demo_desk) = demo_desk"
proof -
  have load: "load_session (me_store demo_manager) (dirs demo_desk) (u ''o'') \<noteq> None"
    "se_principal (the (load_session (me_store demo_manager) (dirs demo_desk) (u ''o''))) \<noteq> rd_principal demo_reader"
    by code_simp+
  then obtain se where "load_session (me_store demo_manager) (dirs demo_desk) (u ''o'') = Some se"
    "se_principal se \<noteq> rd_principal demo_reader" by auto
  from foreign_session_refused [OF _ this, of "Op_command (u ''o'')
     \<lparr>im_id = [], im_session = u ''o'', im_route = \<lparr>cr_principal = u ''p'', cr_channel = u ''cli'', cr_conversation = [],
        cr_session = u ''o''\<rparr>, im_content = u ''/clear'', im_attachments = [], im_metadata = [], im_created = []\<rparr>"]
  show ?thesis by auto
qed

section \<open>Data roots\<close>

text \<open>What the resolver remembers: every bundle is the reader and the root of its principal.\<close>

definition bundle_for :: "resolver_env \<Rightarrow> ustr \<Rightarrow> storage" where
  "bundle_for re p = \<lparr>bu_root = (if p = re_owner re then re_data_dir re else non_owner_root re p),
     bu_reader = \<lparr>rd_principal = p, rd_global_approval = (p = re_owner re)\<rparr>\<rparr>"

definition bundles_ok :: "resolver_env \<Rightarrow> bundles \<Rightarrow> bool" where
  "bundles_ok re bs \<longleftrightarrow> (\<forall>p b. dict_get bs p = Some b \<longrightarrow> b = bundle_for re p)"

lemma bundles_ok_put: "bundles_ok re bs \<Longrightarrow> bundles_ok re (dict_put p (bundle_for re p) bs)"
  unfolding bundles_ok_def by (simp add: dict_simps)

lemma bundles_ok_del: "bundles_ok re bs \<Longrightarrow> bundles_ok re (dict_del p bs)"
  unfolding bundles_ok_def by (simp add: dict_simps)

lemma resolve_run:
  assumes "bundles_ok re bs" "cr_principal route \<noteq> []"
  shows "\<exists>bs'. resolve re tools route bs = (Inr \<lparr>px_principal = cr_principal route,
      px_root = bu_root (bundle_for re (cr_principal route)), px_reader = bu_reader (bundle_for re (cr_principal route)),
      px_allowed = allowed_tool_names route tools (re_approval re)\<rparr>, bs') \<and> bundles_ok re bs'"
proof (cases "dict_get bs (cr_principal route)")
  case None
  with assms bundles_ok_put [OF assms(1), of "cr_principal route"] show ?thesis
    by (simp add: resolve_def Let_def prog_simps bundle_for_def [symmetric])
next
  case (Some b)
  with assms have "b = bundle_for re (cr_principal route)" by (simp add: bundles_ok_def)
  with Some assms show ?thesis by (simp add: resolve_def Let_def prog_simps)
qed

text \<open>A history of resolver calls, of which only \<open>resolve\<close> and \<open>forget_non_owner\<close> change the bundles.\<close>

datatype resolver_op = Resolve "(ustr \<times> bool) list" channel_route | Forget ustr

fun resolver_step :: "resolver_env \<Rightarrow> resolver_op \<Rightarrow> bundles \<Rightarrow> bundles" where
  "resolver_step re (Resolve tools route) bs = snd (resolve re tools route bs)"
| "resolver_step re (Forget p) bs = snd (forget_non_owner re p bs)"

lemma bundles_ok_step: "bundles_ok re bs \<Longrightarrow> bundles_ok re (resolver_step re op bs)"
proof (cases op)
  case (Resolve tools route)
  assume ok: "bundles_ok re bs"
  show ?thesis
  proof (cases "cr_principal route = []")
    case True
    with Resolve ok show ?thesis by (simp add: resolve_def Let_def raise_def)
  next
    case False
    from resolve_run [OF ok False, of tools] Resolve show ?thesis by auto
  qed
next
  case (Forget p)
  assume ok: "bundles_ok re bs"
  with bundles_ok_del [OF ok, of p] Forget show ?thesis by (simp add: forget_non_owner_def prog_simps)
qed

lemma bundles_ok_steps: "bundles_ok re bs \<Longrightarrow> bundles_ok re (fold (resolver_step re) ops bs)"
  by (induction ops arbitrary: bs) (auto intro: bundles_ok_step)

text \<open>
  After any history of the resolver, two routes of different principals get readers bound to
  their own principal and different data roots, and only the owner's reader may change the global
  approval, provided that the hash does not collide on the two names.
\<close>

theorem principals_have_own_roots:
  assumes "resolve re tools route1 (fold (resolver_step re) ops []) = (Inr c1, bs1)"
    "resolve re tools route2 (fold (resolver_step re) ops' []) = (Inr c2, bs2)"
    "cr_principal route1 \<noteq> cr_principal route2"
    "\<And>p q. re_sha re (utf8 (u ''tga-principal-v1'') @ [0] @ utf8 p) = re_sha re (utf8 (u ''tga-principal-v1'') @ [0] @ utf8 q)
       \<Longrightarrow> p \<in> {cr_principal route1, cr_principal route2} \<Longrightarrow> q \<in> {cr_principal route1, cr_principal route2} \<Longrightarrow> p = q"
  shows "px_root c1 \<noteq> px_root c2 \<and> rd_principal (px_reader c1) = cr_principal route1
    \<and> rd_principal (px_reader c2) = cr_principal route2
    \<and> (rd_global_approval (px_reader c1) \<longleftrightarrow> cr_principal route1 = re_owner re)"
proof -
  have run: "c = \<lparr>px_principal = cr_principal route, px_root = bu_root (bundle_for re (cr_principal route)),
      px_reader = bu_reader (bundle_for re (cr_principal route)),
      px_allowed = allowed_tool_names route tools (re_approval re)\<rparr>"
    if "resolve re tools route (fold (resolver_step re) os []) = (Inr c, bs)" for route os c bs
  proof -
    have "cr_principal route \<noteq> []" using that by (auto simp: resolve_def Let_def raise_def)
    moreover have "bundles_ok re (fold (resolver_step re) os [])"
      by (rule bundles_ok_steps) (simp add: bundles_ok_def)
    ultimately obtain bs' where "resolve re tools route (fold (resolver_step re) os []) =
        (Inr \<lparr>px_principal = cr_principal route, px_root = bu_root (bundle_for re (cr_principal route)),
          px_reader = bu_reader (bundle_for re (cr_principal route)),
          px_allowed = allowed_tool_names route tools (re_approval re)\<rparr>, bs')"
      using resolve_run by blast
    with that show ?thesis by simp
  qed
  have "bu_root (bundle_for re (cr_principal route1)) \<noteq> bu_root (bundle_for re (cr_principal route2))"
    using assms(3,4) by (auto simp: bundle_for_def non_owner_root_def)
  with run [OF assms(1)] run [OF assms(2)] show ?thesis by (simp add: bundle_for_def)
qed

definition demo_resolver :: resolver_env where
  "demo_resolver = \<lparr>re_owner = u ''own'', re_data_dir = [u ''data''], re_sha = (\<lambda>bs. bs), re_approval = []\<rparr>"

definition demo_route :: "string \<Rightarrow> channel_route" where
  "demo_route p = \<lparr>cr_principal = u p, cr_channel = u ''web'', cr_conversation = u ''c'', cr_session = u ''s''\<rparr>"

lemma run_ok: "isl (fst x) = False \<Longrightarrow> x = (Inr (projr (fst x)), snd x)"
  by (cases x) (auto simp: isl_def split: sum.splits intro: sum.exhaust_sel)

theorem principals_have_own_roots_witness:
  "px_root (projr (fst (resolve demo_resolver [] (demo_route ''own'') [])))
     \<noteq> px_root (projr (fst (resolve demo_resolver [] (demo_route ''guest'')
          (fold (resolver_step demo_resolver) [Resolve [] (demo_route ''own'')] []))))"
proof -
  let ?ops = "[Resolve [] (demo_route ''own'')]"
  have 1: "isl (fst (resolve demo_resolver [] (demo_route ''own'') (fold (resolver_step demo_resolver) [] []))) = False"
    and 2: "isl (fst (resolve demo_resolver [] (demo_route ''guest'') (fold (resolver_step demo_resolver) ?ops []))) = False"
    by code_simp+
  have ne: "cr_principal (demo_route ''own'') \<noteq> cr_principal (demo_route ''guest'')" by (simp add: demo_route_def)
  have sha: "p = q" if "re_sha demo_resolver (utf8 (u ''tga-principal-v1'') @ [0] @ utf8 p)
      = re_sha demo_resolver (utf8 (u ''tga-principal-v1'') @ [0] @ utf8 q)"
    "p \<in> {cr_principal (demo_route ''own''), cr_principal (demo_route ''guest'')}"
    "q \<in> {cr_principal (demo_route ''own''), cr_principal (demo_route ''guest'')}" for p q
  proof -
    have "utf8 (u ''own'') \<noteq> utf8 (u ''guest'')" by code_simp
    with that show ?thesis by (auto simp: demo_resolver_def demo_route_def)
  qed
  from principals_have_own_roots [OF run_ok [OF 1] run_ok [OF 2] ne sha] show ?thesis by simp
qed

end
