(* ===== verification/TurnProps.thy ===== *)
theory TurnProps
  imports TurnFacts ReaderProps
begin

text \<open>
  What a turn promises: it always ends with one reply after going up through its states, an
  exception becomes an error reply, a rejected request saves no message, a saved turn is in the
  history as the virtual history of the compaction had it, and the runtime is idle again.
\<close>

section \<open>Every turn replies\<close>



text \<open>
  C19: An exception in a state before RESPOND ends the turn with the reply that quotes its text: as
  an error reply, except that an exception without text (a bare \<open>TimeoutError\<close> for instance) is
  reported as a completed response.
\<close>

theorem exception_reply:
  assumes "tc_state (tn_ctx s) = st" "st \<noteq> RESPOND"
    "run_state te rd st (tick s) = (Inl e, s2)" "is_exception e"
  shows "\<exists>s' o1. turn_loop te rd ts waited s = (Inr (), s') \<and> tc_outbound (tn_ctx s') = Some o1
    \<and> om_content o1 = txt_request_failed @ exn_text e
    \<and> om_event_type o1 = (if exn_text e = [] then u ''response.completed'' else u ''response.error'')"
proof -
  let ?c = "(tn_ctx s2)\<lparr>tc_error := Some (exn_text e), tc_final := txt_request_failed @ exn_text e\<rparr>"
  let ?s3 = "s2\<lparr>tn_ctx := ?c\<rparr>"
  have c: "catch (run_state te rd st) map_error (tick s) = (Inr Ev_error, ?s3)"
    using assms(3,4) by (simp add: catch_def map_error_def upd_def prog_simps)
  from caught_frame [OF c] assms(1) have st3: "tc_state (tn_ctx ?s3) = st" by (simp add: frame_def)
  have n: "next_state st Ev_error = Inr (Some RESPOND)" using assms(2) by (simp add: next_state_def)
  let ?d = "(wd_clock (tn_world ?s3) 0 - wd_clock (tn_world s) 0) * 1000"
  obtain m s4 where close: "close_step ts waited Ev_error ?d (Some RESPOND) (tick ?s3) = (Inr (Some RESPOND), s4)"
    "tn_ctx s4 = enter (Some RESPOND) (?c\<lparr>tc_trace := tc_trace ?c @ [trace_entry ?c Ev_error ?d m]\<rparr>)"
    by (rule close_step_run [of ts waited Ev_error ?d "Some RESPOND" "tick ?s3"]) simp
  have step: "turn_step te rd ts waited s = (Inr (Some RESPOND), s4)"
    using assms(1) c n st3 close(1) by (simp add: turn_step_run)
  have "tc_state (tn_ctx s4) = RESPOND" using close(2) by (simp add: enter_def)
  then obtain o1 entry s5 where l: "turn_loop te rd ts waited s4 = (Inr (), s5)" "reply (tn_ctx s4) o1"
    "tn_ctx s5 = (tn_ctx s4)\<lparr>tc_outbound := Some o1, tc_trace := tc_trace (tn_ctx s4) @ [entry]\<rparr>"
    by (rule respond_loop)
  have "turn_loop te rd ts waited s = (Inr (), s5)" using step l(1) by (subst turn_loop.simps) simp
  moreover have "tc_error (tn_ctx s4) = Some (exn_text e)" "tc_final (tn_ctx s4) = txt_request_failed @ exn_text e"
    using close(2) by (simp_all add: enter_def)
  ultimately show ?thesis using l(2,3) by (auto simp: reply_def truthy_def)
qed

section \<open>A demonstration environment\<close>

text \<open>The agent loop of the demonstration answers, or fails with the exception it is given.\<close>

definition demo_loop :: "exn option \<Rightarrow> turn_ctx \<Rightarrow> bool \<Rightarrow> (world, loop_result) prog" where
  "demo_loop failure c auto w = ((case failure of Some e \<Rightarrow> Inl e
     | None \<Rightarrow> Inr \<lparr>lr_content = u ''hello'', lr_tools = [], lr_usage = Some \<lparr>lu_input = 3, lu_output = 4, lu_total = 7\<rparr>,
         lr_skills = [], lr_skill_tokens = 0, lr_guidance = [u ''more''], lr_cancelled = False, lr_run_id = None\<rparr>), w)"

definition demo_turn_env :: "exn option \<Rightarrow> int \<Rightarrow> turn_env" where
  "demo_turn_env failure limit =
     \<lparr>te_manager = demo_manager, te_build = \<lparr>be_enc = length, be_float = (\<lambda>_. [])\<rparr>,
      te_limits = \<lparr>soul_limit = 10, user_limit = 10, total_limit = 20\<rparr>,
      te_resolver = \<lparr>re_owner = u ''p'', re_data_dir = [], re_sha = (\<lambda>x. x), re_approval = []\<rparr>, te_registered = [],
      te_retention = 0, te_max_context = limit, te_memory = \<lparr>compact_threshold = 1000, window_limit = 3\<rparr>,
      te_ma_enabled = False, te_max_workers = 2, te_vision = False, te_skills = [], te_tools = (\<lambda>_ _. []),
      te_loop = demo_loop failure\<rparr>"

definition demo_world :: world where
  "demo_world = \<lparr>wd_desk = demo_desk,
     wd_profile = \<lparr>soul_file = None, user_file = None, write_answers = (\<lambda>_. None)\<rparr>, wd_bundles = [], wd_active = 0,
     wd_clock = (\<lambda>_. 0), wd_llm = (\<lambda>_. Inl TimeoutError), wd_handlers = (\<lambda>_. None), wd_events = [],
     wd_channel = (\<lambda>_. None), wd_sent = []\<rparr>"

definition demo_inbound :: inbound where
  "demo_inbound = \<lparr>im_id = u ''m'', im_session = u ''s'',
     im_route = \<lparr>cr_principal = u ''p'', cr_channel = u ''web'', cr_conversation = u ''c'', cr_session = u ''s''\<rparr>,
     im_content = u ''hi'', im_attachments = [], im_metadata = [], im_created = u ''8''\<rparr>"

definition demo_turn :: "turn_state \<Rightarrow> turn" where
  "demo_turn st = \<lparr>tn_world = demo_world,
     tn_ctx = (new_ctx demo_inbound (u ''t''))\<lparr>tc_state := st, tc_session := Some demo_session,
       tc_history := [], tc_guidance := [u ''more''], tc_final := u ''hello'',
       tc_usage := Some \<lparr>lu_input = 3, lu_output = 4, lu_total = 7\<rparr>\<rparr>\<rparr>"

text \<open>The agent loop runs into a \<open>TimeoutError\<close>: the reply says that the request failed, as a completed response.\<close>

theorem exception_reply_witness:
  "\<exists>s' o1. turn_loop (demo_turn_env (Some TimeoutError) 1000) demo_reader 0 0 (demo_turn RUN) = (Inr (), s')
     \<and> tc_outbound (tn_ctx s') = Some o1 \<and> om_event_type o1 = u ''response.completed''"
proof -
  have st: "tc_state (tn_ctx (demo_turn RUN)) = RUN" by (simp add: demo_turn_def)
  have "fst (run_state (demo_turn_env (Some TimeoutError) 1000) demo_reader RUN (tick (demo_turn RUN))) = Inl TimeoutError"
    by code_simp
  then have run: "run_state (demo_turn_env (Some TimeoutError) 1000) demo_reader RUN (tick (demo_turn RUN)) =
      (Inl TimeoutError, snd (run_state (demo_turn_env (Some TimeoutError) 1000) demo_reader RUN (tick (demo_turn RUN))))"
    by (simp add: prod_eq_iff)
  from exception_reply [OF st _ run, of 0 0] show ?thesis by (auto simp: is_exception_def exn_text_def)
qed

section \<open>Rejected requests\<close>

lemma keeps_world: "keeps Q m \<Longrightarrow> keeps (\<lambda>s. Q (tn_world s)) (on_world m)"
  by (rule keepsI) (auto simp: on_world_def split: prod.split dest: keepsD)

lemma keeps_desk: "keeps R m \<Longrightarrow> keeps (\<lambda>w. R (wd_desk w) \<and> wd_events w = E) (on_desk m)"
  by (rule keepsI) (auto simp: on_desk_def split: prod.split dest: keepsD)

lemma keeps_upd_world [keeps_rules]: "keeps (\<lambda>s. Q (tn_world s)) (upd f)"
  by (rule keepsI) (simp add: upd_def modify_def)

abbreviation unsaved :: "session_dir list \<Rightarrow> json list \<Rightarrow> world \<Rightarrow> bool" where
  "unsaved D E w \<equiv> dirs (wd_desk w) = D \<and> wd_events w = E"

lemma keeps_profile: "keeps (unsaved D E) (on_profile m)"
  by (rule keepsI) (auto simp: on_profile_def split: prod.split)

lemma build_saves_nothing: "keeps (\<lambda>s. unsaved D E (tn_world s)) (build_state te rd)"
proof -
  have mem: "keeps (\<lambda>s. unsaved D E (tn_world s)) (read_memory te)"
    unfolding read_memory_def by (rule keeps_world, rule keeps_profile)
  have read: "keeps (\<lambda>s. unsaved D E (tn_world s)) (at_desk (reader_all_messages me' rd sid))" for me' sid
    unfolding reader_all_messages_def
    by (rule keeps_world, rule keeps_desk [where R = "\<lambda>d. dirs d = D"], intro keeps_rules)
  have inv: "keeps (\<lambda>s. unsaved D E (tn_world s)) (multi_agent_invocation te)"
    unfolding multi_agent_invocation_def Let_def by (intro keeps_rules mem)
  have reject: "keeps (\<lambda>s. unsaved D E (tn_world s)) (reject t)" for t
    unfolding reject_def by (intro keeps_rules keeps_upd_world [where Q = "unsaved D E"])
  show ?thesis unfolding build_state_def build_messages_state_def Let_def
    by (intro keeps_rules mem read inv reject keeps_upd_world [where Q = "unsaved D E"])
qed

text \<open>A rejection has set the final content.\<close>

definition rejected_ok :: "turn_event \<Rightarrow> turn \<Rightarrow> bool" where
  "rejected_ok ev s \<longleftrightarrow> (ev = Ev_rejected \<longrightarrow> (\<exists>t. tc_final (tn_ctx s) = txt_request_failed @ t))"

lemma gives_reject: "gives any (reject t) rejected_ok"
  by (rule givesI) (auto simp: reject_def upd_def prog_simps rejected_ok_def)

lemma gives_ret_ok: "gives any (ret Ev_ok) rejected_ok"
  by (rule givesI) (auto simp: ret_def rejected_ok_def)

lemma rejected_text:
  assumes "run_state te rd BUILD s = (Inr Ev_rejected, s2)"
  shows "\<exists>t. tc_final (tn_ctx s2) = txt_request_failed @ t"
proof -
  have "gives any (build_state te rd) rejected_ok"
    unfolding build_state_def build_messages_state_def Let_def
    by (intro gives_any_seq gives_rules gives_any_sum gives_any_prod gives_reject gives_ret_ok)
  from givesD [OF this, of s] assms show ?thesis by (simp add: any_def run_state_def rejected_ok_def)
qed

text \<open>
  A request that BUILD rejects (a bad multi-agent mode, a context above the limit, an image
  without vision) goes straight to its reply: the agent loop is not run, no session directory is
  changed, nothing is emitted to the proactive handlers, and the reply says why.
\<close>

theorem rejected_turn_saves_nothing:
  assumes "tc_state (tn_ctx s) = BUILD" "run_state te rd BUILD (tick s) = (Inr Ev_rejected, s2)"
  shows "\<exists>s' o1 t. turn_loop te rd ts waited s = (Inr (), s') \<and> dirs (wd_desk (tn_world s')) = dirs (wd_desk (tn_world s))
    \<and> wd_events (tn_world s') = wd_events (tn_world s)
    \<and> map sx_state (tc_trace (tn_ctx s')) = map sx_state (tc_trace (tn_ctx s)) @ [u ''BUILD'', u ''RESPOND'']
    \<and> tc_outbound (tn_ctx s') = Some o1 \<and> om_content o1 = txt_request_failed @ t"
proof -
  have c: "catch (run_state te rd BUILD) map_error (tick s) = (Inr Ev_rejected, s2)"
    using assms(2) by (simp add: catch_def)
  have fr: "frame (tn_ctx s2) = frame (tn_ctx s)" using caught_frame [OF c] by simp
  have same: "unsaved (dirs (wd_desk (tn_world s))) (wd_events (tn_world s)) (tn_world s2)"
    using keepsD [OF build_saves_nothing [of "dirs (wd_desk (tn_world s))" "wd_events (tn_world s)" te rd], of "tick s"]
      assms(2) by (simp add: run_state_def)
  obtain t where t: "tc_final (tn_ctx s2) = txt_request_failed @ t"
    using rejected_text [OF assms(2)] by blast
  let ?d = "(wd_clock (tn_world s2) 0 - wd_clock (tn_world s) 0) * 1000"
  obtain m s4 where close: "close_step ts waited Ev_rejected ?d (Some RESPOND) (tick s2) = (Inr (Some RESPOND), s4)"
    "tn_ctx s4 = enter (Some RESPOND) ((tn_ctx s2)\<lparr>tc_trace := tc_trace (tn_ctx s2) @ [trace_entry (tn_ctx s2) Ev_rejected ?d m]\<rparr>)"
    "tn_world s4 = tn_world (tick s2) \<or> tn_world s4 = tn_world (tick (tick s2))"
    by (rule close_step_run [of ts waited Ev_rejected ?d "Some RESPOND" "tick s2"]) simp
  have step: "turn_step te rd ts waited s = (Inr (Some RESPOND), s4)"
    using assms(1) c fr close(1) by (simp add: turn_step_run frame_def next_state_def transitions_def)
  have "tc_state (tn_ctx s4) = RESPOND" using close(2) by (simp add: enter_def)
  then obtain o1 entry s5 where l: "turn_loop te rd ts waited s4 = (Inr (), s5)" "reply (tn_ctx s4) o1"
    "tn_ctx s5 = (tn_ctx s4)\<lparr>tc_outbound := Some o1, tc_trace := tc_trace (tn_ctx s4) @ [entry]\<rparr>"
    "sx_state entry = u ''RESPOND''"
    "dirs (wd_desk (tn_world s5)) = dirs (wd_desk (tn_world s4))" "wd_events (tn_world s5) = wd_events (tn_world s4)"
    by (rule respond_loop)
  have "turn_loop te rd ts waited s = (Inr (), s5)" using step l(1) by (subst turn_loop.simps) simp
  moreover have "unsaved (dirs (wd_desk (tn_world s))) (wd_events (tn_world s)) (tn_world s5)"
    using close(3) same l(5,6) by auto
  moreover have "map sx_state (tc_trace (tn_ctx s5)) = map sx_state (tc_trace (tn_ctx s)) @ [u ''BUILD'', u ''RESPOND'']"
    using l(3,4) close(2) fr assms(1) by (simp add: enter_def trace_entry_def frame_def state_name_def)
  moreover have "tc_outbound (tn_ctx s5) = Some o1" "om_content o1 = txt_request_failed @ t"
    using l(2,3) close(2) t by (simp_all add: reply_def enter_def)
  ultimately show ?thesis by blast
qed

theorem rejected_turn_saves_nothing_witness:
  "\<exists>s' o1. turn_loop (demo_turn_env None 1) demo_reader 0 0 (demo_turn BUILD) = (Inr (), s')
     \<and> dirs (wd_desk (tn_world s')) = dirs demo_desk \<and> tc_outbound (tn_ctx s') = Some o1"
proof -
  have st: "tc_state (tn_ctx (demo_turn BUILD)) = BUILD" by (simp add: demo_turn_def)
  have "fst (run_state (demo_turn_env None 1) demo_reader BUILD (tick (demo_turn BUILD))) = Inr Ev_rejected"
    by code_simp
  then have run: "run_state (demo_turn_env None 1) demo_reader BUILD (tick (demo_turn BUILD)) =
      (Inr Ev_rejected, snd (run_state (demo_turn_env None 1) demo_reader BUILD (tick (demo_turn BUILD))))"
    by (simp add: prod_eq_iff)
  have "wd_desk (tn_world (demo_turn BUILD)) = demo_desk" by (simp add: demo_turn_def demo_world_def)
  with rejected_turn_saves_nothing [OF st run, of 0 0] show ?thesis by auto
qed

section \<open>Saved turns\<close>

text \<open>The session can be written: it is loaded under its id and all times are aware.\<close>

definition writable :: "store_env \<Rightarrow> ustr \<Rightarrow> desk \<Rightarrow> bool" where
  "writable env sid d \<longleftrightarrow> distinct (map sd_name (dirs d))
     \<and> (\<exists>s. load_session env (dirs d) sid = Some s \<and> se_id s = sid) \<and> (\<forall>i. aware_time env (dx_times d i))"

abbreviation talk :: "message_record list \<Rightarrow> (ustr \<times> ustr) list" where
  "talk ms \<equiv> map (\<lambda>m. (mr_role m, mr_content m)) ms"

lemma seq_require:
  "seq (require_session mg rd sid) (\<lambda>_. m) d = (Inr a, d') \<Longrightarrow> m d = (Inr a, d')"
  using require_session_cases [of mg rd sid d] by (auto simp: seq_def)

lemma manager_save_appends:
  assumes "writable (me_store mg) sid d"
    "manager_save_message mg sid role content tokens meta mid created d = (Inr m, d')"
  shows "writable (me_store mg) sid d'
    \<and> talk (all_messages (me_store mg) (dirs d') sid) = talk (all_messages (me_store mg) (dirs d) sid) @ [(role, content)]"
proof -
  let ?env = "me_store mg" and ?now = "dx_times d 0"
  obtain s where s: "load_session ?env (dirs d) sid = Some s" "se_id s = sid"
    using assms(1) by (auto simp: writable_def)
  obtain dk where save: "save_message ?env sid role content tokens meta mid created (dx_ids d 0) ?now (dx_disk d) = (Inr m, dk)"
    and d': "d' = d\<lparr>dx_ids := tape_tl (dx_ids d), dx_times := tape_tl (dx_times d), dx_disk := dk\<rparr>"
    using assms(2) by (auto simp: manager_save_message_def next_id_def next_time_def SessionManager.on_disk_def seq_def
        split: prod.splits)
  have "distinct (map sd_name (dk_dirs (dx_disk d)))" "aware_time ?env ?now"
    using assms(1) by (simp_all add: writable_def dirs_def)
  from save_message_appends [OF this(1) _ s(2) this(2) save] s(1)
  have m: "all_messages ?env (dk_dirs dk) sid = all_messages ?env (dk_dirs (dx_disk d)) sid @ [m\<lparr>mr_session := []\<rparr>]"
    "(mr_role m, mr_content m, mr_tokens m) = (role, content, tokens)"
    "load_session ?env (dk_dirs dk) sid = Some (reloaded ?env (s\<lparr>se_updated := ?now\<rparr>))"
    by (simp_all add: dirs_def)
  have "distinct (map sd_name (dk_dirs dk))"
    using save_message_names [OF save] assms(1) by (simp add: writable_def dirs_def)
  with m s(2) assms(1) d' show ?thesis by (auto simp: writable_def dirs_def reloaded_def)
qed

lemma reader_save_appends:
  assumes "writable (me_store mg) sid d"
    "seq (require_session mg rd sid) (\<lambda>_. manager_save_message mg sid role content tokens meta mid created) d = (Inr m, d')"
  shows "writable (me_store mg) sid d'
    \<and> talk (all_messages (me_store mg) (dirs d') sid) = talk (all_messages (me_store mg) (dirs d) sid) @ [(role, content)]"
  using manager_save_appends [OF assms(1) seq_require [OF assms(2)]] .

lemma guidance_appends:
  assumes "writable (me_store mg) sid d"
    "for_each gs (\<lambda>g. seq (reader_save_user mg rd sid g (f g) None None None) (\<lambda>_. ret ())) d = (Inr (), d')"
  shows "writable (me_store mg) sid d'
    \<and> talk (all_messages (me_store mg) (dirs d') sid)
        = talk (all_messages (me_store mg) (dirs d) sid) @ map (Pair (u ''user'')) gs"
  using assms
proof (induction gs arbitrary: d)
  case Nil
  then show ?case by (simp add: ret_def)
next
  case (Cons g gs)
  from Cons.prems(2) obtain m d1 where 1: "reader_save_user mg rd sid g (f g) None None None d = (Inr m, d1)"
    and 2: "for_each gs (\<lambda>g. seq (reader_save_user mg rd sid g (f g) None None None) (\<lambda>_. ret ())) d1 = (Inr (), d')"
    by (simp only: for_each.simps seq_assoc seq_ret) (elim seqE, simp)
  from reader_save_appends [OF Cons.prems(1) 1 [unfolded reader_save_user_def save_user_message_def]] Cons.IH [OF _ 2]
  show ?case by simp
qed

lemma virtual_history_talk:
  assumes "fresh_messages te sid xs now s = (Inr ms, s')"
  shows "talk ms = xs"
  using assms
proof (induction te sid xs now arbitrary: s ms rule: fresh_messages.induct)
  case (1 te sid now)
  then show ?case by (simp add: ret_def)
next
  case (2 te sid role content xs now)
  then show ?case
    by (auto simp: fresh_message_def seq_def ret_def split: prod.splits sum.splits)
qed

text \<open>
  What SAVE appends to the messages of the session is what COMPACT added to the history it
  planned the compaction with: the user's input, the guidance consumed in the turn, and the answer
  unless a cancelled turn has none, with the same roles and contents in the same order.
\<close>

theorem saved_turn_is_virtual_history:
  assumes "build_virtual_history te s = (Inr h, s1)"
    "writable (me_store (me te)) (sid_of (tn_ctx s)) d"
    "save_messages te rd (tn_ctx s) d = (Inr mid, d')"
  shows "talk (all_messages (me_store (me te)) (dirs d') (sid_of (tn_ctx s)))
    = talk (all_messages (me_store (me te)) (dirs d) (sid_of (tn_ctx s))) @ talk (drop (length (tc_history (tn_ctx s))) h)"
proof -
  let ?c = "tn_ctx s" and ?env = "me_store (me te)" and ?sid = "sid_of (tn_ctx s)"
  let ?all = "\<lambda>d. talk (all_messages ?env (dirs d) ?sid)"
  from assms(1) obtain ms where h: "h = tc_history ?c @ ms" "talk ms = turn_contents ?c"
    by (auto simp: build_virtual_history_def ctx_def on_world_def on_desk_def next_time_def prog_simps
        split: if_splits prod.splits sum.splits dest: virtual_history_talk)
  from assms(3) obtain m1 d1 d2 where
    1: "reader_save_user (me te) rd ?sid (im_content (tc_inbound ?c)) (tokens_of te (im_content (tc_inbound ?c)))
        (Some (im_id (tc_inbound ?c))) (Some (im_created (tc_inbound ?c))) (attachment_metadata (tc_inbound ?c)) d = (Inr m1, d1)"
    and 2: "for_each (tc_guidance ?c) (\<lambda>g. seq (reader_save_user (me te) rd ?sid g (tokens_of te g) None None None) (\<lambda>_. ret ())) d1
        = (Inr (), d2)"
    and 3: "(if tc_final ?c \<noteq> [] \<or> \<not> tc_cancelled ?c then
          seq (reader_save_assistant (me te) rd ?sid (tc_final ?c) (tokens_of te (tc_final ?c)) (cancelled_metadata ?c))
            (\<lambda>a. ret (if tc_cancelled ?c then None else Some (mr_id a)))
        else ret None) d2 = (Inr mid, d')"
    unfolding save_messages_def Let_def seq_def by (auto split: prod.splits sum.splits)
  note s1 = reader_save_appends [OF assms(2) 1 [unfolded reader_save_user_def save_user_message_def]]
  note s2 = guidance_appends [OF conjunct1 [OF s1] 2]
  have "?all d' = ?all d2 @ (if tc_final ?c \<noteq> [] \<or> \<not> tc_cancelled ?c then [(u ''assistant'', tc_final ?c)] else [])"
  proof (cases "tc_final ?c \<noteq> [] \<or> \<not> tc_cancelled ?c")
    case True
    with 3 obtain a d3 where a: "reader_save_assistant (me te) rd ?sid (tc_final ?c) (tokens_of te (tc_final ?c))
        (cancelled_metadata ?c) d2 = (Inr a, d3)" "d' = d3"
      by (auto simp: seq_def ret_def split: prod.splits sum.splits)
    from reader_save_appends [OF conjunct1 [OF s2] a(1) [unfolded reader_save_assistant_def save_assistant_message_def]] a(2) True
    show ?thesis by simp
  next
    case False
    with 3 show ?thesis by (simp add: ret_def)
  qed
  with s1 s2 h show ?thesis by (simp add: turn_contents_def)
qed

theorem saved_turn_is_virtual_history_witness:
  "talk (all_messages demo_store_env
     (dirs (snd (save_messages (demo_turn_env None 1000) demo_reader (tn_ctx (demo_turn SAVE)) demo_desk))) (u ''s''))
   = [(u ''user'', u ''hi''), (u ''user'', u ''more''), (u ''assistant'', u ''hello'')]"
proof -
  let ?te = "demo_turn_env None 1000" and ?s = "demo_turn SAVE"
  have ok: "isl (fst (build_virtual_history ?te ?s)) = False"
    "isl (fst (save_messages ?te demo_reader (tn_ctx ?s) demo_desk)) = False"
    "talk (projr (fst (build_virtual_history ?te ?s))) = [(u ''user'', u ''hi''), (u ''user'', u ''more''), (u ''assistant'', u ''hello'')]"
    "distinct (map sd_name (dirs demo_desk))" "sid_of (tn_ctx ?s) = u ''s''" "all_messages demo_store_env (dirs demo_desk) (u ''s'') = []"
    "load_session demo_store_env (dirs demo_desk) (u ''s'') \<noteq> None"
    "se_id (the (load_session demo_store_env (dirs demo_desk) (u ''s''))) = u ''s''"
    "aware_time demo_store_env (u ''7'')"
    by code_simp+
  have env: "me_store (me ?te) = demo_store_env" by (simp add: demo_turn_env_def demo_manager_def)
  have "writable (me_store (me ?te)) (sid_of (tn_ctx ?s)) demo_desk"
    using ok(4,5,7-9) by (auto simp: writable_def env demo_desk_def)
  from saved_turn_is_virtual_history [OF run_ok [OF ok(1)] this run_ok [OF ok(2)]] ok(3,5,6)
  show ?thesis by (simp add: env demo_turn_def new_ctx_def)
qed

section \<open>Idle again\<close>

lemma keeps_active_desk: "keeps (\<lambda>w. wd_active w = n) (on_desk m)"
  by (rule keepsI) (simp add: on_desk_def split: prod.split)

lemma keeps_active_profile: "keeps (\<lambda>w. wd_active w = n) (on_profile m)"
  by (rule keepsI) (simp add: on_profile_def split: prod.split)

lemma keeps_active_small [keeps_rules]:
  "keeps (\<lambda>w. wd_active w = n) clock" "keeps (\<lambda>w. wd_active w = n) (tell c)"
  "keeps (\<lambda>w. wd_active w = n) (emit_event j)" "keeps (\<lambda>w. wd_active w = n) (on_bundles m)"
  by (rule keepsI, simp add: clock_def tell_def emit_event_def on_bundles_def Let_def split: option.split prod.split)+

abbreviation active :: "int \<Rightarrow> turn \<Rightarrow> bool" where
  "active n s \<equiv> wd_active (tn_world s) = n"

lemma keeps_active_turn [keeps_rules]:
  "keeps (active n) (at_desk m)" "keeps (active n) (read_memory te)" "keeps (active n) (upd f)"
  "keeps (active n) (on_world clock)" "keeps (active n) (on_world (tell c))" "keeps (active n) (on_world (emit_event j))"
  "keeps (active n) (ask_summary se source)" "keeps (active n) (on_world (gets g))"
  unfolding read_memory_def
  by (intro keeps_world keeps_active_desk keeps_active_profile keeps_rules keeps_upd_world [where Q = "\<lambda>w. wd_active w = n"])+
    (auto intro!: keepsI simp: ask_summary_def on_world_def gets_def)

lemma keeps_active_run:
  assumes "\<And>c b n. keeps (\<lambda>w. wd_active w = n) (te_loop te c b)"
  shows "keeps (active n) (run_state te rd st)"
proof -
  have loop: "keeps (active n) (on_world (te_loop te c b))" for c b by (rule keeps_world, rule assms)
  have fresh: "keeps (active n) (fresh_messages te sid xs now)" for sid xs now
    by (induction te sid xs now rule: fresh_messages.induct) (auto simp: fresh_message_def intro!: keeps_rules)
  have inv: "keeps (active n) (multi_agent_invocation te)"
    unfolding multi_agent_invocation_def Let_def by (intro keeps_rules)
  have usage: "keeps (active n) (record_usage te rd b)" for b
    unfolding record_usage_def build_true_token_usage_def by (intro keeps_rules)
  show ?thesis
    by (cases st)
      (auto simp: run_state_def command_state_def session_state_def build_state_def build_messages_state_def reject_def
        run_loop_state_def compact_state_def compact_summarise_def build_virtual_history_def hook_status_def save_state_def
        save_context_def save_title_def respond_state_def Let_def
        intro!: keeps_rules loop fresh inv usage)
qed

lemma keeps_active_loop:
  assumes "\<And>c b n. keeps (\<lambda>w. wd_active w = n) (te_loop te c b)" "active n s"
  shows "active n (snd (turn_loop te rd ts waited s))"
  using assms
proof (induction te rd ts waited s rule: turn_loop.induct)
  case (1 te rd ts waited s)
  have "keeps (active n) (turn_step te rd ts waited)"
    unfolding turn_step_def close_step_def monitor_fields_def map_error_def
    by (intro keeps_rules keeps_active_run 1(2))
  note act = keepsD [OF this 1(3)]
  obtain r s1 where step: "turn_step te rd ts waited s = (r, s1)" by fastforce
  have "active n (snd (turn_loop te rd ts waited s1))" if "r = Inr (Some st)" for st
    using 1(1) [OF step [symmetric] that refl 1(2)] act step by simp
  with act step show ?case by (subst turn_loop.simps) (auto split: sum.split option.split)
qed

text \<open>However a turn ends, with a reply, with an exception or cancelled, the counter of active
  turns is what it was before, so the runtime is globally idle again after its last turn; the agent
  loop is only required not to touch the counter.
\<close>

theorem active_turns_restored:
  assumes "\<And>c b n. keeps (\<lambda>w. wd_active w = n) (te_loop te c b)" "0 \<le> wd_active w" "run_turn te m w = (r, w')"
  shows "wd_active w' = wd_active w \<and> (is_globally_idle w' \<longleftrightarrow> is_globally_idle w)"
proof -
  let ?n = "wd_active w + 1"
  have bound: "keeps (active ?n) (run_turn_bound te rd ts)" for rd ts
    unfolding run_turn_bound_def save_remaining_traces_def final_outbound_def deliver_def
    by (intro keeps_rules) (auto intro!: keepsI keeps_active_loop assms(1))
  have "keeps (\<lambda>w. wd_active w = ?n) (in_turn m tid (run_turn_bound te rd ts))" for tid rd ts
  proof (rule keepsI)
    fix x :: world assume "wd_active x = ?n"
    then have "active ?n (snd (run_turn_bound te rd ts \<lparr>tn_world = x, tn_ctx = new_ctx m tid\<rparr>))"
      by (intro keepsD [OF bound]) simp
    then show "wd_active (snd (in_turn m tid (run_turn_bound te rd ts) x)) = ?n"
      by (simp add: in_turn_def case_prod_beta)
  qed
  then have "keeps (\<lambda>w. wd_active w = ?n)
      (seq (on_bundles (resolve (te_resolver te) (te_registered te) (im_route m))) (\<lambda>px.
          seq clock (\<lambda>turn_started. seq (on_desk next_id) (\<lambda>turn_id.
            in_turn m turn_id (run_turn_bound te (px_reader px) turn_started)))))"
    by (intro keeps_rules keeps_active_desk)
  from keepsD [OF this, of "begin_turn w"] assms(2,3) show ?thesis
    by (auto simp: run_turn_def begin_turn_def end_turn_def is_globally_idle_def ensuring_def split: prod.splits)
qed

theorem active_turns_restored_witness:
  "is_globally_idle (snd (run_turn (demo_turn_env (Some CancelledError) 1000) demo_inbound demo_world))"
proof -
  have "keeps (\<lambda>w. wd_active w = n) (te_loop (demo_turn_env (Some CancelledError) 1000) c b)" for c b n
    by (rule keepsI) (simp add: demo_turn_env_def demo_loop_def)
  from active_turns_restored [where te = "demo_turn_env (Some CancelledError) 1000" and m = demo_inbound and w = demo_world,
      OF this _ prod.collapse [symmetric]]
  show ?thesis by (simp add: demo_world_def is_globally_idle_def)
qed

end
