(* ===== verification/GatewayTexts.thy ===== *)
theory GatewayTexts
  imports Prelude
begin

text \<open>
  The fixed texts of the program, code point by code point: error messages and replies the code
  stores, compares or shows. Each name says what the text says; the order is the order of the
  source files.
\<close>

section \<open>\<^verbatim>\<open>gateway/turns.py\<close>\<close>

definition txt_gateway_closed :: ustr where \<comment> \<open>the gateway is closed\<close>
  "txt_gateway_closed = [71, 97, 116, 101, 119, 97, 121, 32, 24050, 20851, 38381]"

definition txt_max_turns :: ustr where \<comment> \<open>the number of turns must be positive\<close>
  "txt_max_turns = [109, 97, 120, 95, 99, 111, 110, 99, 117, 114, 114, 101, 110, 116, 95, 116, 117, 114, 110,
     115, 32, 24517, 39035, 22823, 20110, 32, 48]"

definition txt_gateway_failed :: ustr where \<comment> \<open>the request failed\<close>
  "txt_gateway_failed = [35831, 27714, 22833, 36133, 65306]"

end
