(* ===== verification/GatewayTurns.thy ===== *)
theory GatewayTurns
  imports GatewayTexts Messages TurnTypes
begin

text \<open>
  The gateway's scheduler of turns (\<^verbatim>\<open>gateway/turns.py\<close>). Its methods are coroutines: a
  section under \<open>_lock\<close> runs as one step, and between two sections the callback of an adapter, the
  runtime or another method may run. The state therefore holds, besides the coordinator's own
  fields, what is under way: the dispatch callbacks that have not ended, the inbound queue of the
  bus, the phase of every turn task, and the replies published and not yet delivered. A callback is
  a value of type \<open>'d\<close>, which the coordinator only stores and hands back.
\<close>

section \<open>State\<close>

type_synonym route_key = "ustr \<times> ustr \<times> ustr"

definition route_key :: "channel_route \<Rightarrow> route_key" where
  "route_key r = (cr_principal r, cr_channel r, cr_conversation r)"

abbreviation key_of :: "inbound \<Rightarrow> route_key" where
  "key_of m \<equiv> route_key (im_route m)"

text \<open>
  A task waits for a slot, runs the turn, is suspended while an approval is open (the web and the
  CLI control give their slot back for that time), has ended the turn, or has recorded its reply.
\<close>

datatype phase = Waiting | Executing | Suspended | Ended outbound | Recorded outbound

record 'd gateway =
  gw_closed :: bool
  gw_dispatcher :: bool
  gw_slots :: nat
  gw_tasks :: "(inbound \<times> phase) list"
  gw_inflight :: "ustr set"
  gw_terminal :: "(ustr, outbound) dict"
  gw_active :: "(route_key, ustr) dict"
  gw_pending :: "(route_key, (inbound \<times> 'd) list) dict"
  gw_blocks :: "(ustr, route_key \<Rightarrow> bool) dict"
  gw_dispatching :: "(inbound \<times> 'd) list"
  gw_inbox :: "inbound list"
  gw_outbox :: "(inbound \<times> outbound) list"
  gw_idle_calls :: nat

definition terminal_limit :: nat where
  "terminal_limit = 2048"

definition new_gateway :: "int \<Rightarrow> exn + 'd gateway" where
  "new_gateway slots =
     (if slots \<le> 0 then Inl (ValueError txt_max_turns)
      else Inr \<lparr>gw_closed = False, gw_dispatcher = False, gw_slots = nat slots, gw_tasks = [],
                gw_inflight = {}, gw_terminal = [], gw_active = [], gw_pending = [], gw_blocks = [],
                gw_dispatching = [], gw_inbox = [], gw_outbox = [], gw_idle_calls = 0\<rparr>)"

definition start_gateway :: "'d gateway \<Rightarrow> 'd gateway" where
  "start_gateway g = (if gw_dispatcher g then g else g\<lparr>gw_closed := False, gw_dispatcher := True\<rparr>)"

definition globally_idle :: "'d gateway \<Rightarrow> bool" where
  "globally_idle g \<longleftrightarrow> gw_inflight g = {} \<and> gw_tasks g = []"

text \<open>\<open>on_idle\<close> is called when nothing is left to do.\<close>

definition notify_idle :: "'d gateway \<Rightarrow> 'd gateway" where
  "notify_idle g = (if globally_idle g then g\<lparr>gw_idle_calls := Suc (gw_idle_calls g)\<rparr> else g)"

definition queue_of :: "'d gateway \<Rightarrow> route_key \<Rightarrow> (inbound \<times> 'd) list" where
  "queue_of g k = (case dict_get (gw_pending g) k of None \<Rightarrow> [] | Some q \<Rightarrow> q)"

section \<open>Sections under the lock\<close>

datatype verdict = Refused | Queued | Started

definition submit_section :: "inbound \<Rightarrow> 'd \<Rightarrow> ('d gateway, verdict) prog" where
  "submit_section m d g =
     (let k = key_of m in
      if gw_closed g then (Inl (RuntimeError txt_gateway_closed), g)
      else if list_ex (\<lambda>(_, matcher). matcher k) (gw_blocks g) then (Inr Refused, g)
      else if im_id m \<in> gw_inflight g \<or> dict_get (gw_terminal g) (im_id m) \<noteq> None then (Inr Refused, g)
      else
        (let g1 = g\<lparr>gw_inflight := insert (im_id m) (gw_inflight g)\<rparr> in
         if dict_get (gw_active g) k \<noteq> None then
           (Inr Queued, g1\<lparr>gw_pending := dict_put k (queue_of g k @ [(m, d)]) (gw_pending g)\<rparr>)
         else (Inr Started, g1\<lparr>gw_active := dict_put k (im_id m) (gw_active g)\<rparr>)))"

definition reserve_section :: "(route_key \<Rightarrow> bool) \<Rightarrow> ustr \<Rightarrow> ('d gateway, ustr option) prog" where
  "reserve_section matcher token g =
     (if gw_closed g then (Inl (RuntimeError txt_gateway_closed), g)
      else if list_ex matcher (map fst (gw_active g) @ map fst (gw_pending g)) then (Inr None, g)
      else (Inr (Some token), g\<lparr>gw_blocks := dict_put token matcher (gw_blocks g)\<rparr>))"

definition release_section :: "ustr \<Rightarrow> 'd gateway \<Rightarrow> 'd gateway" where
  "release_section token g = g\<lparr>gw_blocks := dict_del token (gw_blocks g)\<rparr>"

text \<open>The message \<open>complete_route_turn\<close> hands to its callback, if any.\<close>

definition complete_section :: "channel_route \<Rightarrow> ustr \<Rightarrow> 'd gateway \<Rightarrow> (inbound \<times> 'd) option \<times> 'd gateway" where
  "complete_section route rid g =
     (let k = route_key route in
      if dict_get (gw_active g) k \<noteq> Some rid then (None, g)
      else case queue_of g k of
        [] \<Rightarrow> (None, g\<lparr>gw_active := dict_del k (gw_active g), gw_pending := dict_del k (gw_pending g)\<rparr>)
      | (m, d) # q \<Rightarrow>
          (Some (m, d), g\<lparr>gw_pending := (if q = [] then dict_del k (gw_pending g) else dict_put k q (gw_pending g)),
                          gw_active := dict_put k (im_id m) (gw_active g)\<rparr>))"

text \<open>\<open>_rollback_dispatch\<close> up to the next dispatch; a return from the middle does not ask for idleness.\<close>

definition rollback_section ::
  "channel_route \<Rightarrow> ustr \<Rightarrow> bool \<Rightarrow> 'd gateway \<Rightarrow> (inbound \<times> 'd) option \<times> 'd gateway" where
  "rollback_section route rid advance g =
     (let k = route_key route;
          g1 = g\<lparr>gw_inflight := gw_inflight g - {rid}\<rparr> in
      if dict_get (gw_active g) k \<noteq> Some rid then (None, g1)
      else case (advance, queue_of g k) of
        (True, (m, d) # q) \<Rightarrow>
          (Some (m, d), g1\<lparr>gw_active := dict_put k (im_id m) (gw_active g),
                           gw_pending := (if q = [] then dict_del k (gw_pending g) else dict_put k q (gw_pending g))\<rparr>)
      | (_, q) \<Rightarrow>
          (None, notify_idle
             (g1\<lparr>gw_active := dict_del k (gw_active g), gw_pending := dict_del k (gw_pending g),
                 gw_inflight := gw_inflight g1 - (\<lambda>(m, _). im_id m) ` set q\<rparr>)))"

definition discard_section :: "channel_route \<Rightarrow> 'd gateway \<Rightarrow> 'd gateway" where
  "discard_section route g =
     (let k = route_key route in
      g\<lparr>gw_pending := dict_del k (gw_pending g),
        gw_inflight := gw_inflight g - (\<lambda>(m, _). im_id m) ` set (queue_of g k)\<rparr>)"

text \<open>\<open>close\<close>: before the tasks are cancelled, and after they have ended.\<close>

definition close_begin :: "'d gateway \<Rightarrow> 'd gateway" where
  "close_begin g = g\<lparr>gw_closed := True, gw_dispatcher := False\<rparr>"

definition close_end :: "'d gateway \<Rightarrow> 'd gateway" where
  "close_end g = g\<lparr>gw_inflight := {}, gw_active := [], gw_pending := [], gw_blocks := []\<rparr>"

declare close_begin_def [simp] close_end_def [simp]

definition resync :: "ustr \<Rightarrow> 'd gateway \<Rightarrow> outbound option" where
  "resync rid g = dict_get (gw_terminal g) rid"

section \<open>Replies\<close>

definition reply_recipient :: "inbound \<Rightarrow> recipient" where
  "reply_recipient m = \<lparr>rp_principal = cr_principal (im_route m), rp_channel = cr_channel (im_route m),
                     rp_conversation = cr_conversation (im_route m)\<rparr>"

definition failure_reply :: "inbound \<Rightarrow> exn \<Rightarrow> ustr \<Rightarrow> ustr \<Rightarrow> outbound" where
  "failure_reply m e fresh_id now =
     \<lparr>om_id = fresh_id, om_session = im_session m, om_recipient = reply_recipient m,
      om_content = txt_gateway_failed @ exn_text e, om_event_type = u ''response.error'',
      om_event_id = (if im_id m = [] then fresh_id else im_id m),
      om_disposition = u ''chat_reply'', om_metadata = [], om_created = now\<rparr>"

lemma failure_reply_constructor:
  "mk_outbound fresh_id (im_session m) None (txt_gateway_failed @ exn_text e) (u ''response.error'')
     (Some (reply_recipient m)) (Some (im_id m)) (u ''chat_reply'') now = Inr (failure_reply m e fresh_id now)"
  by (simp add: mk_outbound_def normal_recipient_def or_default_def failure_reply_def)

text \<open>A binding epoch is an integer (a boolean counts as one) that is not negative.\<close>

definition is_epoch :: "json \<Rightarrow> bool" where
  "is_epoch j = (case j of JInt i \<Rightarrow> 0 \<le> i | JBool _ \<Rightarrow> True | _ \<Rightarrow> False)"

definition finish_reply :: "inbound \<Rightarrow> exn + outbound \<Rightarrow> ustr \<Rightarrow> ustr \<Rightarrow> outbound" where
  "finish_reply m result fresh_id now =
     (let o1 = (case result of Inl e \<Rightarrow> failure_reply m e fresh_id now
                | Inr reply \<Rightarrow> reply\<lparr>om_event_id := im_id m\<rparr>);
          o2 = o1\<lparr>om_metadata := dict_put (u ''request_id'') (JStr (im_id m)) (om_metadata o1)\<rparr>
      in case dict_get (im_metadata m) (u ''binding_epoch'') of
           Some j \<Rightarrow> (if is_epoch j then o2\<lparr>om_metadata := dict_put (u ''binding_epoch'') j (om_metadata o2)\<rparr> else o2)
         | None \<Rightarrow> o2)"

text \<open>The oldest replies leave the cache.\<close>

fun evict :: "(ustr, outbound) dict \<Rightarrow> (ustr, outbound) dict" where
  "evict [] = []"
| "evict (x # xs) = (if length (x # xs) > terminal_limit then evict xs else x # xs)"

definition record_section :: "inbound \<Rightarrow> outbound \<Rightarrow> 'd gateway \<Rightarrow> 'd gateway" where
  "record_section m reply g =
     g\<lparr>gw_inflight := gw_inflight g - {im_id m},
       gw_terminal := evict (dict_del (im_id m) (gw_terminal g) @ [(im_id m, reply)])\<rparr>"

text \<open>
  What a channel takes for the end of the turn it controls (\<open>on_delivery\<close> of \<^verbatim>\<open>channels/im.py\<close>): a
  chat reply to the recipient of the turn, of a closing type, with the turn's request id.
\<close>

definition request_of :: "outbound \<Rightarrow> json" where
  "request_of reply = (case dict_get (om_metadata reply) (u ''request_id'') of
     Some j \<Rightarrow> j | None \<Rightarrow> JStr (om_event_id reply))"

definition ends_turn :: "inbound \<Rightarrow> outbound \<Rightarrow> bool" where
  "ends_turn m reply \<longleftrightarrow> om_disposition reply = u ''chat_reply''
     \<and> om_event_type reply \<in> {u ''response.completed'', u ''response.error''}
     \<and> om_recipient reply = reply_recipient m \<and> request_of reply = JStr (im_id m)"

section \<open>The gateway as a machine\<close>

text \<open>The element at an index, with what comes before and after it.\<close>

definition pick :: "nat \<Rightarrow> 'a list \<Rightarrow> ('a list \<times> 'a \<times> 'a list) option" where
  "pick i xs = (case drop i xs of [] \<Rightarrow> None | x # ys \<Rightarrow> Some (take i xs, x, ys))"

lemma pick_Some: "pick i xs = Some (a, x, b) \<Longrightarrow> xs = a @ x # b"
  by (auto simp: pick_def split: list.splits) (metis append_take_drop_id)

datatype 'd move =
    Submit inbound 'd
  | Reserve "route_key \<Rightarrow> bool" ustr
  | Release ustr
  | Dispatch_ok nat
  | Dispatch_raises nat bool \<comment> \<open>an exception (then the next message is taken) or a cancellation\<close>
  | Discard channel_route
  | Consume
  | Acquire nat
  | Suspend nat
  | Resume nat
  | Turn_ends nat "exn + outbound" ustr ustr
  | Record_reply nat
  | Publish nat
  | Delivered nat
  | Close
  | Cancel_task nat
  | Clear

datatype event = Accepted inbound | Dispatched inbound

text \<open>The call of a dispatch callback begins.\<close>

definition begin_dispatch :: "(inbound \<times> 'd) option \<times> 'd gateway \<Rightarrow> event list \<times> 'd gateway" where
  "begin_dispatch p = (case p of
     (None, g) \<Rightarrow> ([], g)
   | (Some (m, d), g) \<Rightarrow> ([Dispatched m], g\<lparr>gw_dispatching := gw_dispatching g @ [(m, d)]\<rparr>))"

definition submit :: "inbound \<Rightarrow> 'd \<Rightarrow> 'd gateway \<Rightarrow> event list \<times> 'd gateway" where
  "submit m d g = (case submit_section m d g of
     (Inr Started, g1) \<Rightarrow> (case begin_dispatch (Some (m, d), g1) of (evs, g2) \<Rightarrow> (Accepted m # evs, g2))
   | (Inr Queued, g1) \<Rightarrow> ([Accepted m], g1)
   | (_, g1) \<Rightarrow> ([], g1))"

definition free_slot :: "phase \<Rightarrow> nat \<Rightarrow> nat" where
  "free_slot p n = (if p = Executing then Suc n else n)"

fun gw_move :: "'d move \<Rightarrow> 'd gateway \<Rightarrow> (event list \<times> 'd gateway) option" where
  "gw_move (Submit m d) g = Some (submit m d g)"
| "gw_move (Reserve matcher token) g = Some ([], snd (reserve_section matcher token g))"
| "gw_move (Release token) g = Some ([], release_section token g)"
| "gw_move (Dispatch_ok i) g = (case pick i (gw_dispatching g) of None \<Rightarrow> None
     | Some (a, (m, d), b) \<Rightarrow> Some ([], g\<lparr>gw_dispatching := a @ b, gw_inbox := gw_inbox g @ [m]\<rparr>))"
| "gw_move (Dispatch_raises i advance) g = (case pick i (gw_dispatching g) of None \<Rightarrow> None
     | Some (a, (m, d), b) \<Rightarrow>
         Some (begin_dispatch (rollback_section (im_route m) (im_id m) advance (g\<lparr>gw_dispatching := a @ b\<rparr>))))"
| "gw_move (Discard route) g = Some ([], discard_section route g)"
| "gw_move Consume g = (case gw_inbox g of [] \<Rightarrow> None
     | m # ms \<Rightarrow> (if gw_closed g \<or> \<not> gw_dispatcher g then None
                  else Some ([], g\<lparr>gw_inbox := ms, gw_tasks := gw_tasks g @ [(m, Waiting)]\<rparr>)))"
| "gw_move (Acquire i) g = (case pick i (gw_tasks g) of
       Some (a, (m, Waiting), b) \<Rightarrow> (if gw_slots g = 0 then None
         else Some ([], g\<lparr>gw_slots := gw_slots g - 1, gw_tasks := a @ (m, Executing) # b\<rparr>))
     | _ \<Rightarrow> None)"
| "gw_move (Suspend i) g = (case pick i (gw_tasks g) of
       Some (a, (m, Executing), b) \<Rightarrow> Some ([], g\<lparr>gw_slots := Suc (gw_slots g), gw_tasks := a @ (m, Suspended) # b\<rparr>)
     | _ \<Rightarrow> None)"
| "gw_move (Resume i) g = (case pick i (gw_tasks g) of
       Some (a, (m, Suspended), b) \<Rightarrow> (if gw_slots g = 0 then None
         else Some ([], g\<lparr>gw_slots := gw_slots g - 1, gw_tasks := a @ (m, Executing) # b\<rparr>))
     | _ \<Rightarrow> None)"
| "gw_move (Turn_ends i result fresh_id now) g = (case pick i (gw_tasks g) of
       Some (a, (m, Executing), b) \<Rightarrow>
         Some ([], g\<lparr>gw_slots := Suc (gw_slots g),
                     gw_tasks := a @ (m, Ended (finish_reply m result fresh_id now)) # b\<rparr>)
     | _ \<Rightarrow> None)"
| "gw_move (Record_reply i) g = (case pick i (gw_tasks g) of
       Some (a, (m, Ended reply), b) \<Rightarrow>
         Some ([], (record_section m reply g)\<lparr>gw_tasks := a @ (m, Recorded reply) # b\<rparr>)
     | _ \<Rightarrow> None)"
| "gw_move (Publish i) g = (case pick i (gw_tasks g) of
       Some (a, (m, Recorded reply), b) \<Rightarrow>
         Some ([], notify_idle (g\<lparr>gw_outbox := gw_outbox g @ [(m, reply)], gw_tasks := a @ b\<rparr>))
     | _ \<Rightarrow> None)"
| "gw_move (Delivered i) g = (case pick i (gw_outbox g) of None \<Rightarrow> None
     | Some (a, (m, reply), b) \<Rightarrow>
         (if ends_turn m reply
          then Some (begin_dispatch (complete_section (im_route m) (im_id m) (g\<lparr>gw_outbox := a @ b\<rparr>)))
          else None))"
| "gw_move Close g = Some ([], close_begin g)"
| "gw_move (Cancel_task i) g = (case pick i (gw_tasks g) of None \<Rightarrow> None
     | Some (a, (m, p), b) \<Rightarrow>
         (if gw_closed g then Some ([], g\<lparr>gw_slots := free_slot p (gw_slots g), gw_tasks := a @ b\<rparr>) else None))"
| "gw_move Clear g =
     (if gw_closed g \<and> gw_tasks g = [] then Some ([], close_end g) else None)"

text \<open>A run of the gateway: the moves made, and what was accepted and dispatched in which order.\<close>

fun gw_run :: "'d move list \<Rightarrow> 'd gateway \<Rightarrow> (event list \<times> 'd gateway) option" where
  "gw_run [] g = Some ([], g)"
| "gw_run (mv # mvs) g = (case gw_move mv g of None \<Rightarrow> None
     | Some (evs, g1) \<Rightarrow> (case gw_run mvs g1 of None \<Rightarrow> None | Some (evs', g2) \<Rightarrow> Some (evs @ evs', g2)))"

text \<open>The steps from one state to another, and the states a started gateway can reach.\<close>

inductive gw_step :: "'d gateway \<Rightarrow> event list \<Rightarrow> 'd gateway \<Rightarrow> bool" where
  gw_step: "gw_move mv g = Some (evs, g') \<Longrightarrow> gw_step g evs g'"

definition gw_initial :: "nat \<Rightarrow> 'd gateway \<Rightarrow> bool" where
  "gw_initial n g \<longleftrightarrow> (\<exists>g0. new_gateway (int n) = Inr g0 \<and> g = start_gateway g0)"

abbreviation gw_next :: "'d gateway \<Rightarrow> 'd gateway \<Rightarrow> bool" where
  "gw_next g g' \<equiv> \<exists>evs. gw_step g evs g'"

end
