(* ===== verification/GatewayFacts.thy ===== *)
theory GatewayFacts
  imports GatewayTurns "HOL-Library.Multiset" "HOL-Library.Sublist"
begin

text \<open>
  The invariant of the gateway's scheduler. Its two halves are equations of multisets: the active
  routes are exactly the routes of the messages somebody is responsible for, and the ids in flight
  are exactly the ids of the messages that still have to be answered. Every move keeps them until
  the gateway is closed.
\<close>

section \<open>Dictionaries as multisets\<close>

lemma filter_absent: "k \<notin> fst ` set d \<Longrightarrow> filter_mset (\<lambda>p. fst p \<noteq> k) (mset d) = mset d"
  by (induction d) auto

lemma mset_dict_put: "dict_ok d \<Longrightarrow> mset (dict_put k v d) = add_mset (k, v) (mset (dict_del k d))"
proof (induction k v d rule: dict_put.induct)
  case (2 k v k' v' d)
  then show ?case using filter_absent [of k' d] by (auto simp: dict_del_def dict_ok_def)
qed (simp add: dict_del_def)

lemma dict_del_absent: "dict_get d k = None \<Longrightarrow> dict_del k d = d"
  unfolding dict_get_def dict_del_def by (induction d) (auto split: if_splits)

lemma mset_dict_split: "dict_ok d \<Longrightarrow> dict_get d k = Some v \<Longrightarrow> mset d = add_mset (k, v) (mset (dict_del k d))"
proof (induction d)
  case (Cons x d)
  obtain a b where x: "x = (a, b)" by force
  show ?case using Cons filter_absent [of a d] by (auto simp: x dict_del_def dict_ok_def dict_get_def split: if_splits)
qed simp

lemma mset_concat_values: "mset (concat (map snd d)) = (\<Sum>p \<in># mset d. mset (snd p))"
  by (induction d) simp_all

text \<open>All waiting messages, seen from the queue of one route.\<close>

definition pending_all :: "'d gateway \<Rightarrow> (inbound \<times> 'd) list" where
  "pending_all g = concat (map snd (gw_pending g))"

lemma pending_split:
  assumes "dict_ok (gw_pending g)"
  shows "mset (pending_all g) = mset (queue_of g k) + mset (concat (map snd (dict_del k (gw_pending g))))"
proof (cases "dict_get (gw_pending g) k")
  case None
  then show ?thesis by (simp add: pending_all_def queue_of_def dict_del_absent)
next
  case (Some q)
  then show ?thesis using assms
    by (simp add: pending_all_def queue_of_def mset_concat_values mset_dict_split)
qed

lemma pending_put:
  "dict_ok p \<Longrightarrow> mset (concat (map snd (dict_put k q p))) = mset q + mset (concat (map snd (dict_del k p)))"
  by (simp add: mset_concat_values mset_dict_put)

lemma set_dict_put_ok: "dict_ok d \<Longrightarrow> set (dict_put k v d) = insert (k, v) {p \<in> set d. fst p \<noteq> k}"
  using arg_cong [OF mset_dict_put, of d set_mset k v] by (auto simp: dict_del_def)

lemma set_dict_del: "set (dict_del k d) = {p \<in> set d. fst p \<noteq> k}"
  by (auto simp: dict_del_def)

section \<open>The invariant\<close>

definition tag :: "inbound \<Rightarrow> route_key \<times> ustr" where
  "tag m = (key_of m, im_id m)"

definition unrecorded :: "phase \<Rightarrow> bool" where
  "unrecorded p = (case p of Recorded _ \<Rightarrow> False | _ \<Rightarrow> True)"

lemma unrecorded_simps [simp]: "unrecorded Waiting" "unrecorded Executing" "unrecorded Suspended"
  "unrecorded (Ended r)" "\<not> unrecorded (Recorded r)"
  by (simp_all add: unrecorded_def)

text \<open>The messages somebody is responsible for, and the ids of those not yet answered.\<close>

definition owned :: "'d gateway \<Rightarrow> (route_key \<times> ustr) multiset" where
  "owned g = image_mset (tag \<circ> fst) (mset (gw_dispatching g)) + image_mset tag (mset (gw_inbox g))
     + image_mset (tag \<circ> fst) (mset (gw_tasks g)) + image_mset (tag \<circ> fst) (mset (gw_outbox g))"

definition unanswered :: "'d gateway \<Rightarrow> ustr multiset" where
  "unanswered g = image_mset (im_id \<circ> fst) (mset (gw_dispatching g)) + image_mset im_id (mset (gw_inbox g))
     + image_mset (im_id \<circ> fst) (filter_mset (\<lambda>t. unrecorded (snd t)) (mset (gw_tasks g)))
     + image_mset (im_id \<circ> fst) (mset (pending_all g))"

definition queues_ok :: "'d gateway \<Rightarrow> bool" where
  "queues_ok g \<longleftrightarrow> dict_ok (gw_pending g) \<and>
     (\<forall>(k, q) \<in> set (gw_pending g). q \<noteq> [] \<and> dict_get (gw_active g) k \<noteq> None \<and> (\<forall>x \<in> set q. key_of (fst x) = k))"

definition blocks_ok :: "'d gateway \<Rightarrow> bool" where
  "blocks_ok g \<longleftrightarrow> (\<forall>b \<in> set (gw_blocks g). \<forall>k. snd b k \<longrightarrow> dict_get (gw_active g) k = None)"

text \<open>
  \<open>balanced X Y g\<close>: the books of \<open>g\<close> are right up to the owners \<open>X\<close> and the ids \<open>Y\<close> that a section
  under way has taken out.
\<close>

definition balanced :: "(route_key \<times> ustr) multiset \<Rightarrow> ustr multiset \<Rightarrow> 'd gateway \<Rightarrow> bool" where
  "balanced X Y g \<longleftrightarrow> dict_ok (gw_active g) \<and> mset (gw_active g) = owned g + X
     \<and> finite (gw_inflight g) \<and> mset_set (gw_inflight g) = unanswered g + Y
     \<and> queues_ok g \<and> blocks_ok g"

lemmas books = owned_def unanswered_def pending_all_def

lemma queue_of_in: "queue_of g k \<noteq> [] \<Longrightarrow> (k, queue_of g k) \<in> set (gw_pending g)"
  by (cases "dict_get (gw_pending g) k") (auto simp: queue_of_def dest: dict_get_in)

lemma queue_of_ok:
  assumes "queues_ok g" and "queue_of g k \<noteq> []"
  shows "dict_get (gw_active g) k \<noteq> None" "\<forall>x \<in> set (queue_of g k). key_of (fst x) = k"
  using bspec [OF conjunct2 [OF assms(1) [unfolded queues_ok_def]] queue_of_in [OF assms(2)]] by auto

lemma mset_set_remove: "finite A \<Longrightarrow> mset_set (A - {x}) = mset_set A - {#x#}"
  by (cases "x \<in> A") (simp_all add: mset_set_Diff)

lemma mset_set_remove_all: "finite A \<Longrightarrow> mset_set A = M + N \<Longrightarrow> mset_set (A - set_mset N) = M"
proof -
  assume fin: "finite A" and eq: "mset_set A = M + N"
  have le: "count (M + N) x \<le> 1" for x
    unfolding eq [symmetric] using fin by (simp add: count_mset_set')
  have "A = set_mset M \<union> set_mset N" using fin eq by (metis finite_set_mset_mset_set set_mset_union)
  moreover have "set_mset M \<inter> set_mset N = {}"
  proof (rule ccontr)
    assume "set_mset M \<inter> set_mset N \<noteq> {}"
    then obtain x where "x \<in># M" "x \<in># N" by auto
    then have "0 < count M x" "0 < count N x" by simp_all
    then show False using le [of x] by (simp del: count_greater_zero_iff)
  qed
  ultimately have A: "A - set_mset N = set_mset M" by auto
  have "count M x = 1" if "x \<in># M" for x
    using le [of x] count_greater_zero_iff [of M x] that by (simp del: count_greater_zero_iff)
  then have "mset_set (set_mset M) = M"
    by (intro multiset_eqI) (auto simp: count_mset_set' not_in_iff)
  then show "mset_set (A - set_mset N) = M" using A by simp
qed

section \<open>Each section keeps the books\<close>

lemma active_del:
  assumes "balanced (add_mset (k, i) X) Y g"
  shows "dict_get (gw_active g) k = Some i" "mset (dict_del k (gw_active g)) = owned g + X"
proof -
  from assms have ok: "dict_ok (gw_active g)" and eq: "mset (gw_active g) = owned g + add_mset (k, i) X"
    by (auto simp: balanced_def)
  then have "(k, i) \<in> set (gw_active g)" by (metis set_mset_mset union_iff union_single_eq_member)
  then show get: "dict_get (gw_active g) k = Some i"
    using ok by (simp add: dict_get_def dict_ok_def)
  then show "mset (dict_del k (gw_active g)) = owned g + X"
    using mset_dict_split [OF ok get] eq by simp
qed

lemma queues_del:
  "queues_ok g \<Longrightarrow> dict_ok (dict_del k (gw_pending g)) \<and>
     (\<forall>(k', q) \<in> set (dict_del k (gw_pending g)). k' \<noteq> k \<and> q \<noteq> [] \<and> dict_get (gw_active g) k' \<noteq> None \<and> (\<forall>x \<in> set q. key_of (fst x) = k'))"
  unfolding queues_ok_def by (auto simp: set_dict_del)

lemma blocks_del: "blocks_ok g \<Longrightarrow> blocks_ok (g\<lparr>gw_active := dict_del k (gw_active g)\<rparr>)"
  unfolding blocks_ok_def by (auto simp: dict_simps)

lemma blocks_put:
  "blocks_ok g \<Longrightarrow> dict_get (gw_active g) k \<noteq> None \<Longrightarrow> blocks_ok (g\<lparr>gw_active := dict_put k v (gw_active g)\<rparr>)"
  unfolding blocks_ok_def by (auto simp: dict_simps)

text \<open>The two ways a route moves on: its next message is dispatched, or it falls idle.\<close>

definition route_next :: "route_key \<Rightarrow> inbound \<Rightarrow> 'd \<Rightarrow> (inbound \<times> 'd) list \<Rightarrow> 'd gateway \<Rightarrow> 'd gateway" where
  "route_next k m d q g = g\<lparr>gw_pending := (if q = [] then dict_del k (gw_pending g) else dict_put k q (gw_pending g)),
     gw_active := dict_put k (im_id m) (gw_active g), gw_dispatching := gw_dispatching g @ [(m, d)]\<rparr>"

definition route_idle :: "route_key \<Rightarrow> 'd gateway \<Rightarrow> 'd gateway" where
  "route_idle k g = g\<lparr>gw_active := dict_del k (gw_active g), gw_pending := dict_del k (gw_pending g)\<rparr>"

lemma balanced_route_next:
  assumes bal: "balanced {#(k, i)#} {#} g" and q: "queue_of g k = (m, d) # q"
  shows "balanced {#} {#} (route_next k m d q g)"
proof -
  have qs: "queues_ok g" and act: "dict_ok (gw_active g)" and ok: "dict_ok (gw_pending g)"
    using bal by (auto simp: balanced_def queues_ok_def)
  have key: "key_of m = k" "\<forall>x \<in> set q. key_of (fst x) = k"
    using queue_of_ok(2) [OF qs, of k] q by simp_all
  note del = active_del [OF bal]
  let ?P = "if q = [] then dict_del k (gw_pending g) else dict_put k q (gw_pending g)"
  have pend: "mset (concat (map snd ?P)) = mset q + mset (concat (map snd (dict_del k (gw_pending g))))"
    using ok by (simp add: pending_put)
  have "mset (pending_all g) = add_mset (m, d) (mset (concat (map snd ?P)))"
    unfolding pend using pending_split [OF ok, of k] q by simp
  then have "unanswered (route_next k m d q g) = unanswered g"
    by (simp add: books route_next_def)
  moreover have "mset (dict_put k (im_id m) (gw_active g)) = owned (route_next k m d q g)"
    using act del(2) key(1) by (simp add: mset_dict_put owned_def route_next_def tag_def)
  moreover have "queues_ok (route_next k m d q g)"
    using queues_del [OF qs, of k] key(2) ok
    by (auto simp: queues_ok_def route_next_def dict_simps set_dict_put_ok set_dict_del)
  moreover have "blocks_ok (route_next k m d q g)"
    using blocks_put [of g k "im_id m"] bal del(1) by (auto simp: balanced_def blocks_ok_def route_next_def)
  ultimately show ?thesis using bal by (auto simp: balanced_def route_next_def)
qed

lemma balanced_route_idle:
  assumes bal: "balanced {#(k, i)#} {#} g"
  shows "balanced {#} (image_mset (im_id \<circ> fst) (mset (queue_of g k))) (route_idle k g)"
proof -
  have qs: "queues_ok g" and act: "dict_ok (gw_active g)" and ok: "dict_ok (gw_pending g)"
    using bal by (auto simp: balanced_def queues_ok_def)
  note del = active_del [OF bal]
  have "unanswered g = unanswered (route_idle k g) + image_mset (im_id \<circ> fst) (mset (queue_of g k))"
    using pending_split [OF ok, of k] by (simp add: unanswered_def pending_all_def route_idle_def)
  moreover have "mset (dict_del k (gw_active g)) = owned (route_idle k g)"
    using del(2) by (simp add: owned_def route_idle_def)
  moreover have "queues_ok (route_idle k g)"
    using queues_del [OF qs, of k] by (auto simp: queues_ok_def route_idle_def dict_simps)
  moreover have "blocks_ok (route_idle k g)"
    using blocks_del [of g k] bal by (auto simp: balanced_def blocks_ok_def route_idle_def)
  ultimately show ?thesis using bal act by (auto simp: balanced_def route_idle_def)
qed

lemma balanced_forget:
  assumes "balanced X Y g"
  shows "balanced X {#} (g\<lparr>gw_inflight := gw_inflight g - set_mset Y\<rparr>)"
proof -
  have "mset_set (gw_inflight g - set_mset Y) = unanswered g"
    using assms by (intro mset_set_remove_all) (auto simp: balanced_def)
  then show ?thesis using assms
    by (auto simp: balanced_def books queues_ok_def blocks_ok_def)
qed

lemma balanced_notify [simp]: "balanced X Y (notify_idle g) = balanced X Y g"
  by (simp add: notify_idle_def balanced_def books queues_ok_def blocks_ok_def)

lemma queue_of_simps [simp]:
  "queue_of (g\<lparr>gw_dispatching := xs\<rparr>) k = queue_of g k" "queue_of (g\<lparr>gw_outbox := os\<rparr>) k = queue_of g k"
  "queue_of (g\<lparr>gw_inflight := A\<rparr>) k = queue_of g k"
  by (simp_all add: queue_of_def)

text \<open>What the two sections do to a route whose turn they end.\<close>

lemma complete_eq:
  assumes "dict_get (gw_active g) (route_key r) = Some i"
  shows "begin_dispatch (complete_section r i g) = (case queue_of g (route_key r) of
      [] \<Rightarrow> ([], route_idle (route_key r) g)
    | (m, d) # q \<Rightarrow> ([Dispatched m], route_next (route_key r) m d q g))"
  using assms by (cases "queue_of g (route_key r)")
    (auto simp: complete_section_def begin_dispatch_def route_idle_def route_next_def Let_def)

definition forget :: "ustr set \<Rightarrow> 'd gateway \<Rightarrow> 'd gateway" where
  "forget A g = g\<lparr>gw_inflight := gw_inflight g - A\<rparr>"

lemma rollback_next_eq:
  assumes "dict_get (gw_active g) (route_key r) = Some i" and "queue_of g (route_key r) = (m, d) # q"
  shows "begin_dispatch (rollback_section r i True g) =
    ([Dispatched m], route_next (route_key r) m d q (forget {i} g))"
  using assms by (simp add: rollback_section_def begin_dispatch_def route_next_def forget_def Let_def)

lemma rollback_idle_eq:
  assumes "dict_get (gw_active g) (route_key r) = Some i" and "advance \<Longrightarrow> queue_of g (route_key r) = []"
  shows "begin_dispatch (rollback_section r i advance g) =
    ([], notify_idle (forget (set_mset (image_mset (im_id \<circ> fst) (mset (queue_of g (route_key r)))))
       (route_idle (route_key r) (forget {i} g))))"
proof -
  have "(\<lambda>(m, _). im_id m) = im_id \<circ> (fst :: inbound \<times> 'a \<Rightarrow> inbound)" by (simp add: fun_eq_iff)
  then have *: "(\<lambda>(m, _). im_id m) ` set q = set_mset (image_mset (im_id \<circ> fst) (mset q))" for q :: "(inbound \<times> 'a) list"
    by simp
  show ?thesis
  proof (cases advance)
    case True
    then show ?thesis using assms
      by (simp add: rollback_section_def begin_dispatch_def route_idle_def forget_def Let_def)
  next
    case False
    then show ?thesis using assms(1)
      by (simp add: rollback_section_def begin_dispatch_def route_idle_def forget_def Let_def * del: set_image_mset)
  qed
qed

lemma complete_balanced:
  assumes bal: "balanced {#(route_key r, i)#} {#} g"
  shows "balanced {#} {#} (snd (begin_dispatch (complete_section r i g)))"
  using balanced_route_idle [OF bal] balanced_route_next [OF bal]
  by (auto simp: complete_eq [OF active_del(1) [OF bal]] split: list.split)

lemma rollback_balanced:
  assumes bal: "balanced {#(route_key r, i)#} {#i#} g"
  shows "balanced {#} {#} (snd (begin_dispatch (rollback_section r i advance g)))"
proof -
  let ?k = "route_key r"
  have bal1: "balanced {#(?k, i)#} {#} (forget {i} g)" using balanced_forget [OF bal] by (simp add: forget_def)
  note act = active_del(1) [OF bal]
  show ?thesis
  proof (cases "advance \<and> queue_of g ?k \<noteq> []")
    case True
    then obtain m d q where q: "queue_of g ?k = (m, d) # q" by (cases "queue_of g ?k") auto
    then show ?thesis using balanced_route_next [OF bal1, of m d q] True rollback_next_eq [OF act q]
      by (simp add: forget_def)
  next
    case False
    then have "snd (begin_dispatch (rollback_section r i advance g)) = notify_idle (forget
        (set_mset (image_mset (im_id \<circ> fst) (mset (queue_of (forget {i} g) ?k)))) (route_idle ?k (forget {i} g)))"
      using rollback_idle_eq [OF act, of advance] by (simp add: forget_def)
    then show ?thesis using balanced_forget [OF balanced_route_idle [OF bal1]] by (simp add: forget_def)
  qed
qed

lemma discard_balanced:
  assumes bal: "balanced {#} {#} g"
  shows "balanced {#} {#} (discard_section r g)"
proof -
  let ?k = "route_key r" and ?g1 = "g\<lparr>gw_pending := dict_del (route_key r) (gw_pending g)\<rparr>"
  let ?Q = "image_mset (im_id \<circ> fst) (mset (queue_of g ?k))"
  have qs: "queues_ok g" and ok: "dict_ok (gw_pending g)" using bal by (auto simp: balanced_def queues_ok_def)
  have "unanswered g = unanswered ?g1 + ?Q"
    using pending_split [OF ok, of ?k] by (simp add: unanswered_def pending_all_def)
  moreover have "queues_ok ?g1" using queues_del [OF qs, of ?k] by (auto simp: queues_ok_def)
  ultimately have "balanced {#} ?Q ?g1" using bal by (auto simp: balanced_def owned_def blocks_ok_def)
  from balanced_forget [OF this] show ?thesis
    by (simp add: discard_section_def Let_def comp_def split_beta)
qed

text \<open>The three outcomes of a submission.\<close>

definition enqueue :: "inbound \<Rightarrow> 'd \<Rightarrow> 'd gateway \<Rightarrow> 'd gateway" where
  "enqueue m d g = g\<lparr>gw_inflight := insert (im_id m) (gw_inflight g),
     gw_pending := dict_put (key_of m) (queue_of g (key_of m) @ [(m, d)]) (gw_pending g)\<rparr>"

definition occupy :: "inbound \<Rightarrow> 'd \<Rightarrow> 'd gateway \<Rightarrow> 'd gateway" where
  "occupy m d g = g\<lparr>gw_inflight := insert (im_id m) (gw_inflight g),
     gw_active := dict_put (key_of m) (im_id m) (gw_active g), gw_dispatching := gw_dispatching g @ [(m, d)]\<rparr>"

definition refuses :: "'d gateway \<Rightarrow> inbound \<Rightarrow> bool" where
  "refuses g m \<longleftrightarrow> gw_closed g \<or> list_ex (\<lambda>(_, matcher). matcher (key_of m)) (gw_blocks g)
     \<or> im_id m \<in> gw_inflight g \<or> dict_get (gw_terminal g) (im_id m) \<noteq> None"

lemma submit_eq:
  "submit m d g = (if refuses g m then ([], g)
     else if dict_get (gw_active g) (key_of m) \<noteq> None then ([Accepted m], enqueue m d g)
     else ([Accepted m, Dispatched m], occupy m d g))"
proof (cases "refuses g m")
  case True
  have "submit_section m d g = (if gw_closed g then Inl (RuntimeError txt_gateway_closed) else Inr Refused, g)"
    using True by (auto simp: refuses_def submit_section_def Let_def)
  then show ?thesis using True by (simp add: submit_def)
next
  case False
  then have "submit_section m d g = (if dict_get (gw_active g) (key_of m) \<noteq> None then (Inr Queued, enqueue m d g)
      else (Inr Started, (occupy m d g)\<lparr>gw_dispatching := gw_dispatching g\<rparr>))"
    by (simp add: refuses_def submit_section_def Let_def enqueue_def occupy_def)
  then show ?thesis using False by (simp add: submit_def begin_dispatch_def occupy_def)
qed

lemma submit_balanced:
  assumes bal: "balanced {#} {#} g"
  shows "balanced {#} {#} (snd (submit m d g))"
proof -
  let ?k = "key_of m"
  have act: "dict_ok (gw_active g)" and qs: "queues_ok g" and ok: "dict_ok (gw_pending g)"
    and bl: "blocks_ok g" using bal by (auto simp: balanced_def queues_ok_def)
  have "balanced {#} {#} (enqueue m d g)" if new: "im_id m \<notin> gw_inflight g" and busy: "dict_get (gw_active g) ?k \<noteq> None"
  proof -
    have "unanswered (enqueue m d g) = add_mset (im_id m) (unanswered g)"
      using pending_split [OF ok, of ?k] ok by (simp add: unanswered_def pending_all_def pending_put enqueue_def)
    moreover have "queues_ok (enqueue m d g)" using qs queue_of_ok(2) [OF qs, of ?k] busy
      by (cases "queue_of g ?k = []") (auto simp: queues_ok_def set_dict_put_ok enqueue_def)
    moreover have "owned (enqueue m d g) = owned g" "blocks_ok (enqueue m d g)"
      using bl by (simp_all add: owned_def blocks_ok_def enqueue_def)
    ultimately show ?thesis using bal new by (simp add: balanced_def) (simp add: enqueue_def)
  qed
  moreover have "balanced {#} {#} (occupy m d g)" if new: "\<not> refuses g m" and idle: "dict_get (gw_active g) ?k = None"
  proof -
    have "unanswered (occupy m d g) = add_mset (im_id m) (unanswered g)" "owned (occupy m d g) = add_mset (tag m) (owned g)"
      by (simp_all add: unanswered_def pending_all_def owned_def occupy_def)
    moreover have "queues_ok (occupy m d g)" using qs by (fastforce simp: queues_ok_def dict_simps occupy_def)
    moreover have "blocks_ok (occupy m d g)" using bl new
      by (auto simp: blocks_ok_def dict_simps list_ex_iff refuses_def occupy_def)
    ultimately show ?thesis using bal new idle act
      by (simp add: balanced_def refuses_def) (simp add: occupy_def mset_dict_put dict_del_absent tag_def)
  qed
  ultimately show ?thesis using bal by (auto simp: submit_eq refuses_def)
qed

section \<open>Every move keeps the books\<close>

text \<open>The parts of the state that matter for the books, and the moves that only shift a message on.\<close>

lemma balanced_shift:
  assumes "owned g' = owned g" "unanswered g' = unanswered g" "gw_active g' = gw_active g"
    "gw_inflight g' = gw_inflight g" "gw_pending g' = gw_pending g" "gw_blocks g' = gw_blocks g"
  shows "balanced X Y g' \<longleftrightarrow> balanced X Y g"
  using assms by (simp add: balanced_def queues_ok_def blocks_ok_def)

lemma take_dispatch:
  assumes "balanced {#} {#} g" and "gw_dispatching g = a @ (m, d) # b"
  shows "balanced {#tag m#} {#im_id m#} (g\<lparr>gw_dispatching := a @ b\<rparr>)"
  using assms by (simp add: balanced_def books queues_ok_def blocks_ok_def ac_simps)

lemma take_reply:
  assumes "balanced {#} {#} g" and "gw_outbox g = a @ (m, r) # b"
  shows "balanced {#tag m#} {#} (g\<lparr>gw_outbox := a @ b\<rparr>)"
  using assms by (simp add: balanced_def books queues_ok_def blocks_ok_def ac_simps)

lemma record_balanced:
  assumes bal: "balanced {#} {#} g" and t: "gw_tasks g = a @ (m, Ended r) # b"
  shows "balanced {#} {#} ((record_section m r g)\<lparr>gw_tasks := a @ (m, Recorded r) # b\<rparr>)"
proof -
  have "balanced {#} {#im_id m#} (g\<lparr>gw_tasks := a @ (m, Recorded r) # b\<rparr>)"
    using bal t by (simp add: balanced_def books queues_ok_def blocks_ok_def)
  from balanced_forget [OF this] show ?thesis
    by (simp add: record_section_def balanced_def books queues_ok_def blocks_ok_def)
qed

lemma dict_get_key: "dict_get d k \<noteq> None \<Longrightarrow> k \<in> set (map fst d)"
  by (simp add: dict_get_def map_of_eq_None_iff)

lemma reserve_balanced:
  assumes bal: "balanced {#} {#} g" shows "balanced {#} {#} (snd (reserve_section f t g))"
proof (cases "gw_closed g \<or> list_ex f (map fst (gw_active g) @ map fst (gw_pending g))")
  case False
  have "set (dict_put t f bs) \<subseteq> insert (t, f) (set bs)" for bs
    by (induction t f bs rule: dict_put.induct) auto
  moreover have "dict_get (gw_active g) k = None" if "f k" for k
    using False that dict_get_key [of "gw_active g" k] by (auto simp: list_ex_iff)
  moreover have "blocks_ok g" using bal by (simp add: balanced_def)
  ultimately have "blocks_ok (g\<lparr>gw_blocks := dict_put t f (gw_blocks g)\<rparr>)"
    by (fastforce simp: blocks_ok_def)
  then show ?thesis using bal False
    by (simp add: balanced_def books queues_ok_def reserve_section_def)
qed (use bal in \<open>auto simp: reserve_section_def\<close>)

lemma release_balanced:
  assumes "balanced {#} {#} g" shows "balanced {#} {#} (release_section t g)"
  using assms by (auto simp: balanced_def books queues_ok_def blocks_ok_def release_section_def set_dict_del)

text \<open>The moves that hand a message on without touching the coordinator's own fields.\<close>

fun hands_on :: "'d move \<Rightarrow> bool" where
  "hands_on (Dispatch_ok _) = True" | "hands_on Consume = True" | "hands_on (Acquire _) = True"
| "hands_on (Suspend _) = True" | "hands_on (Resume _) = True" | "hands_on (Turn_ends _ _ _ _) = True"
| "hands_on _ = False"

lemma hands_on_balanced:
  assumes "gw_move mv g = Some (evs, g')" and "hands_on mv"
  shows "balanced X Y g' \<longleftrightarrow> balanced X Y g"
proof (rule balanced_shift)
qed (use assms in \<open>cases mv; auto simp: books dest!: pick_Some split: option.splits list.splits phase.splits if_splits\<close>)+

lemma move_balanced:
  assumes mv: "gw_move mv g = Some (evs, g')" and op: "\<not> gw_closed g'" "\<not> gw_closed g"
    and bal: "balanced {#} {#} g"
  shows "balanced {#} {#} g'"
proof (cases "hands_on mv")
  case True
  then show ?thesis using hands_on_balanced [OF mv] bal by blast
next
  case False
  with mv op show ?thesis
  proof (cases mv)
    case (Submit m d)
    then show ?thesis using mv submit_balanced [OF bal, of m d] by simp
  next
    case (Dispatch_raises i adv)
    then obtain a m d b where p: "pick i (gw_dispatching g) = Some (a, (m, d), b)"
      and g': "g' = snd (begin_dispatch (rollback_section (im_route m) (im_id m) adv (g\<lparr>gw_dispatching := a @ b\<rparr>)))"
      using mv by (auto split: option.splits)
    show ?thesis unfolding g' using take_dispatch [OF bal pick_Some [OF p]] by (simp add: tag_def rollback_balanced)
  next
    case (Record_reply i)
    then obtain a m r b where p: "pick i (gw_tasks g) = Some (a, (m, Ended r), b)"
      and g': "g' = (record_section m r g)\<lparr>gw_tasks := a @ (m, Recorded r) # b\<rparr>"
      using mv by (auto split: option.splits phase.splits)
    show ?thesis unfolding g' by (rule record_balanced [OF bal pick_Some [OF p]])
  next
    case (Publish i)
    then obtain a m r b where p: "pick i (gw_tasks g) = Some (a, (m, Recorded r), b)"
      and g': "g' = notify_idle (g\<lparr>gw_outbox := gw_outbox g @ [(m, r)], gw_tasks := a @ b\<rparr>)"
      using mv by (auto split: option.splits phase.splits)
    show ?thesis using bal pick_Some [OF p] unfolding g' balanced_notify
      by (subst balanced_shift [of _ g]) (simp_all add: books)
  next
    case (Delivered i)
    then obtain a m r b where p: "pick i (gw_outbox g) = Some (a, (m, r), b)"
      and g': "g' = snd (begin_dispatch (complete_section (im_route m) (im_id m) (g\<lparr>gw_outbox := a @ b\<rparr>)))"
      using mv by (auto split: option.splits if_splits)
    show ?thesis unfolding g' using take_reply [OF bal pick_Some [OF p]] by (simp add: tag_def complete_balanced)
  qed (auto simp: reserve_balanced release_balanced discard_balanced bal split: option.splits)
qed

text \<open>A closed gateway stays closed.\<close>

lemma rollback_closed [simp]: "gw_closed (snd (rollback_section r i adv g)) = gw_closed g"
  by (simp add: rollback_section_def notify_idle_def Let_def split: prod.split bool.split list.split)

lemma complete_closed [simp]: "gw_closed (snd (complete_section r i g)) = gw_closed g"
  by (simp add: complete_section_def Let_def split: list.split prod.split)

lemma begin_closed [simp]: "gw_closed (snd (begin_dispatch p)) = gw_closed (snd p)"
  by (simp add: begin_dispatch_def split: prod.split option.split)

lemma submit_closed [simp]: "gw_closed (snd (submit m d g)) = gw_closed g"
  by (simp add: submit_def submit_section_def begin_dispatch_def Let_def)

lemma move_closed: "gw_move mv g = Some (evs, g') \<Longrightarrow> gw_closed g \<Longrightarrow> gw_closed g'"
proof (cases mv)
  case (Dispatch_raises i adv)
  then show "gw_move mv g = Some (evs, g') \<Longrightarrow> gw_closed g \<Longrightarrow> gw_closed g'"
    by (auto split: option.splits dest!: arg_cong [where f = snd])
next
  case (Delivered i)
  then show "gw_move mv g = Some (evs, g') \<Longrightarrow> gw_closed g \<Longrightarrow> gw_closed g'"
    by (auto split: option.splits if_splits dest!: arg_cong [where f = snd])
next
  case (Submit m d)
  then show "gw_move mv g = Some (evs, g') \<Longrightarrow> gw_closed g \<Longrightarrow> gw_closed g'"
    by (auto dest!: arg_cong [where f = snd])
qed (auto simp: reserve_section_def release_section_def discard_section_def record_section_def notify_idle_def Let_def
      split: option.splits list.splits phase.splits if_splits)

section \<open>Slots and the cache of replies\<close>

lemma evict_drop: "evict xs = drop (length xs - terminal_limit) xs"
  by (induction xs rule: evict.induct) (auto simp: Suc_diff_le not_less_eq_eq drop_Cons')

text \<open>The cache is a dictionary within its limit, and slots are either free or held by an executing task.\<close>

definition cache_ok :: "(ustr, outbound) dict \<Rightarrow> bool" where
  "cache_ok d \<longleftrightarrow> dict_ok d \<and> length d \<le> terminal_limit"

definition executing :: "'d gateway \<Rightarrow> nat" where
  "executing g = length (filter (\<lambda>t. snd t = Executing) (gw_tasks g))"

lemma cache_record: "dict_ok d \<Longrightarrow> cache_ok (evict (dict_del k d @ [(k, v)]))"
proof -
  assume d: "dict_ok d"
  then have "dict_ok (dict_del k d @ [(k, v)])"
    unfolding dict_ok_def dict_del_def by (induction d) auto
  then have "dict_ok (evict (dict_del k d @ [(k, v)]))"
    unfolding evict_drop dict_ok_def drop_map [symmetric] by (rule distinct_drop)
  then show ?thesis by (simp add: cache_ok_def evict_drop)
qed

definition stable :: "'d gateway \<Rightarrow> 'd gateway \<Rightarrow> bool" where
  "stable g g' \<longleftrightarrow> gw_terminal g' = gw_terminal g \<and> gw_slots g' = gw_slots g \<and> gw_tasks g' = gw_tasks g"

lemma stable_sections:
  "stable g (snd (begin_dispatch p)) = stable g (snd p)"
  "stable g (snd (rollback_section r i adv g')) = stable g g'"
  "stable g (snd (complete_section r i g')) = stable g g'"
  "stable g (snd (submit m d g')) = stable g g'"
  by (simp_all add: stable_def begin_dispatch_def rollback_section_def complete_section_def submit_def
      submit_section_def notify_idle_def Let_def split: prod.split option.split bool.split list.split)

lemma stable_shift [simp]: "stable g (g\<lparr>gw_dispatching := xs\<rparr>)" "stable g (g\<lparr>gw_outbox := os\<rparr>)" "stable g g"
  by (simp_all add: stable_def)

text \<open>The moves that leave tasks, slots and cache alone.\<close>

fun leaves_tasks :: "'d move \<Rightarrow> bool" where
  "leaves_tasks (Submit _ _) = True" | "leaves_tasks (Dispatch_raises _ _) = True"
| "leaves_tasks (Delivered _) = True" | "leaves_tasks _ = False"

lemma leaves_tasks_stable:
  assumes "gw_move mv g = Some (evs, g')" and "leaves_tasks mv"
  shows "stable g g'"
  using assms by (cases mv)
    (auto simp: stable_sections split: option.splits if_splits dest!: arg_cong [where f = snd])

lemma move_slots:
  assumes "gw_move mv g = Some (evs, g')"
  shows "gw_slots g' + executing g' = gw_slots g + executing g"
proof (cases "leaves_tasks mv")
  case True
  then show ?thesis using leaves_tasks_stable [OF assms] by (simp add: stable_def executing_def)
next
  case False
  with assms show ?thesis
    by (cases mv) (auto simp: executing_def free_slot_def reserve_section_def release_section_def
        discard_section_def record_section_def notify_idle_def Let_def dest!: pick_Some
        split: option.splits list.splits phase.splits if_splits)
qed

lemma move_cache:
  assumes "gw_move mv g = Some (evs, g')" and "cache_ok (gw_terminal g)"
  shows "cache_ok (gw_terminal g')"
proof (cases "leaves_tasks mv")
  case True
  then show ?thesis using leaves_tasks_stable [OF assms(1)] assms(2) by (simp add: stable_def)
next
  case False
  moreover have "dict_ok (gw_terminal g)" using assms(2) by (simp add: cache_ok_def)
  ultimately show ?thesis using assms
    by (cases mv) (auto simp: reserve_section_def release_section_def discard_section_def record_section_def
        notify_idle_def Let_def cache_record
        split: option.splits list.splits phase.splits if_splits)
qed

section \<open>The invariant of the machine\<close>

definition gw_inv :: "nat \<Rightarrow> 'd gateway \<Rightarrow> bool" where
  "gw_inv n g \<longleftrightarrow> (gw_closed g \<or> balanced {#} {#} g) \<and> gw_slots g + executing g = n \<and> cache_ok (gw_terminal g)"

lemma initial_inv: "gw_initial n g \<Longrightarrow> gw_inv n g"
  by (auto simp: gw_initial_def new_gateway_def start_gateway_def gw_inv_def balanced_def books queues_ok_def
      blocks_ok_def executing_def cache_ok_def split: if_splits)

lemma step_inv: "gw_inv n g \<Longrightarrow> gw_step g evs g' \<Longrightarrow> gw_inv n g'"
  unfolding gw_inv_def by (auto elim!: gw_step.cases dest: move_slots move_cache move_closed intro: move_balanced)

interpretation gw: machine "gw_initial n" gw_next "gw_inv n" for n
  by unfold_locales (auto intro: initial_inv step_inv)

lemma run_inv: "gw_run mvs g = Some (tr, g') \<Longrightarrow> gw_inv n g \<Longrightarrow> gw_inv n g'"
  by (induction mvs arbitrary: g tr)
    (auto split: option.splits prod.splits intro: step_inv [OF _ gw_step.intros])

lemma run_open: "gw_run mvs g = Some (tr, g') \<Longrightarrow> \<not> gw_closed g' \<Longrightarrow> \<not> gw_closed g"
  by (induction mvs arbitrary: g tr) (auto split: option.splits prod.splits dest: move_closed)

end
