(* ===== verification/RouteQueues.thy ===== *)
theory RouteQueues
  imports GatewayFacts
begin

text \<open>
  What the scheduler promises for one route, as a machine of its own: the route is idle or has one
  turn, and behind the turn stand the messages that were accepted, in order. Every move of the
  gateway is, seen from every route, a step of this machine (a simulation), so the order in which a
  route's messages are dispatched is read off the small machine.
\<close>

section \<open>The abstract machine of a route\<close>

text \<open>The turn under way, if any, and the waiting messages.\<close>

type_synonym route_view = "ustr option \<times> inbound list"

inductive route_step :: "bool \<Rightarrow> route_view \<Rightarrow> event list \<Rightarrow> route_view \<Rightarrow> bool" for lossy where
  stay: "route_step lossy v [] v"
| begin_turn: "route_step lossy (None, []) [Accepted m, Dispatched m] (Some (im_id m), [])"
| wait: "route_step lossy (Some i, q) [Accepted m] (Some i, q @ [m])"
| move_on: "route_step lossy (Some i, m # q) [Dispatched m] (Some (im_id m), q)"
| end_turn: "route_step lossy (Some i, []) [] (None, [])"
| drop_waiting: "lossy \<Longrightarrow> route_step lossy (v, q) [] (v, [])"
| abort: "lossy \<Longrightarrow> route_step lossy (Some i, q) [] (None, [])"

inductive route_run :: "bool \<Rightarrow> route_view \<Rightarrow> event list \<Rightarrow> route_view \<Rightarrow> bool" for lossy where
  route_run_refl: "route_run lossy v [] v"
| route_run_step: "route_step lossy v e1 v1 \<Longrightarrow> route_run lossy v1 e2 v2 \<Longrightarrow> route_run lossy v (e1 @ e2) v2"

lemma route_step_mono: "route_step a v e v' \<Longrightarrow> (a \<Longrightarrow> b) \<Longrightarrow> route_step b v e v'"
  by (erule route_step.cases) (auto intro: route_step.intros)

lemma route_run_mono: "route_run a v e v' \<Longrightarrow> (a \<Longrightarrow> b) \<Longrightarrow> route_run b v e v'"
  by (induction rule: route_run.induct) (auto intro: route_run.intros route_step_mono)

fun accepted :: "event list \<Rightarrow> inbound list" where
  "accepted [] = []"
| "accepted (Accepted m # es) = m # accepted es"
| "accepted (Dispatched m # es) = accepted es"

fun dispatched :: "event list \<Rightarrow> inbound list" where
  "dispatched [] = []"
| "dispatched (Accepted m # es) = dispatched es"
| "dispatched (Dispatched m # es) = m # dispatched es"

lemma accepted_append [simp]: "accepted (xs @ ys) = accepted xs @ accepted ys"
  by (induction xs rule: accepted.induct) simp_all

lemma dispatched_append [simp]: "dispatched (xs @ ys) = dispatched xs @ dispatched ys"
  by (induction xs rule: dispatched.induct) simp_all

text \<open>A route serves in the order of acceptance; only a lossy step leaves a message out.\<close>

lemma route_step_fifo:
  "route_step lossy v es v' \<Longrightarrow> subseq (dispatched es @ snd v') (snd v @ accepted es)
     \<and> (\<not> lossy \<longrightarrow> dispatched es @ snd v' = snd v @ accepted es)"
  by (induction rule: route_step.induct) auto

lemma route_run_fifo:
  "route_run lossy v es v' \<Longrightarrow> subseq (dispatched es @ snd v') (snd v @ accepted es)
     \<and> (\<not> lossy \<longrightarrow> dispatched es @ snd v' = snd v @ accepted es)"
proof (induction rule: route_run.induct)
  case (route_run_step v e1 v1 e2 v2)
  note one = route_step_fifo [OF route_run_step(1)]
  have "subseq (dispatched e1 @ dispatched e2 @ snd v2) (dispatched e1 @ snd v1 @ accepted e2)"
    using route_run_step.IH by (simp add: subseq_append')
  also have "subseq \<dots> (snd v @ accepted e1 @ accepted e2)"
    using one list_emb_append_mono [of "(=)" "dispatched e1 @ snd v1" "snd v @ accepted e1" "accepted e2" "accepted e2"]
    by simp
  finally show ?case using one route_run_step.IH by (metis accepted_append append_assoc dispatched_append)
qed simp

section \<open>The gateway implements it\<close>

definition view :: "route_key \<Rightarrow> 'd gateway \<Rightarrow> route_view" where
  "view k g = (dict_get (gw_active g) k, map fst (queue_of g k))"

definition message_of :: "event \<Rightarrow> inbound" where
  "message_of e = (case e of Accepted m \<Rightarrow> m | Dispatched m \<Rightarrow> m)"

definition on_route :: "route_key \<Rightarrow> event list \<Rightarrow> event list" where
  "on_route k = filter (\<lambda>e. key_of (message_of e) = k)"

lemma on_route_simps [simp]: "on_route k [] = []"
  "on_route k (Accepted m # es) = (if key_of m = k then Accepted m # on_route k es else on_route k es)"
  "on_route k (Dispatched m # es) = (if key_of m = k then Dispatched m # on_route k es else on_route k es)"
  "on_route k (xs @ ys) = on_route k xs @ on_route k ys"
  by (simp_all add: on_route_def message_of_def)

text \<open>The moves that drop waiting messages: a discarded route, and a cancelled dispatch.\<close>

fun lossy_move :: "'d move \<Rightarrow> bool" where
  "lossy_move (Discard _) = True"
| "lossy_move (Dispatch_raises _ advance) = (\<not> advance)"
| "lossy_move _ = False"

lemma view_cong: "gw_active g' = gw_active g \<Longrightarrow> gw_pending g' = gw_pending g \<Longrightarrow> view k g' = view k g"
  by (simp add: view_def queue_of_def)

lemma view_shift [simp]: "view k (g\<lparr>gw_dispatching := xs\<rparr>) = view k g" "view k (g\<lparr>gw_outbox := os\<rparr>) = view k g"
  by (simp_all add: view_def queue_of_def)

lemma view_next:
  assumes bal: "balanced {#(k, i)#} Y g" and q: "queue_of g k = (m, d) # q"
  shows "route_step lossy (view k' g) (on_route k' [Dispatched m]) (view k' (route_next k m d q g))"
proof -
  have "queues_ok g" using bal by (simp add: balanced_def)
  then have key: "key_of m = k" using queue_of_ok(2) [of g k] q by simp
  show ?thesis
  proof (cases "k' = k")
    case True
    have "view k (route_next k m d q g) = (Some (im_id m), map fst q)"
      by (simp add: view_def route_next_def queue_of_def dict_simps)
    moreover have "view k g = (Some i, m # map fst q)"
      using active_del(1) [OF bal] q by (simp add: view_def)
    ultimately show ?thesis using True key by (simp add: move_on)
  next
    case False
    then have "view k' (route_next k m d q g) = view k' g"
      by (simp add: view_def route_next_def queue_of_def dict_simps)
    then show ?thesis using False key by (simp add: stay)
  qed
qed

lemma view_idle:
  assumes bal: "balanced {#(k, i)#} Y g" and q: "lossy \<or> queue_of g k = []"
  shows "route_step lossy (view k' g) [] (view k' (route_idle k g))"
proof (cases "k' = k")
  case True
  have "view k (route_idle k g) = (None, [])"
    by (simp add: view_def route_idle_def queue_of_def dict_simps)
  moreover have "view k g = (Some i, map fst (queue_of g k))"
    using active_del(1) [OF bal] by (simp add: view_def)
  ultimately show ?thesis using True q by (auto intro: abort end_turn)
next
  case False
  then have "view k' (route_idle k g) = view k' g"
    by (simp add: view_def route_idle_def queue_of_def dict_simps)
  then show ?thesis by (simp add: stay)
qed

lemma begin_complete:
  assumes bal: "balanced {#(route_key r, i)#} {#} g" and eq: "begin_dispatch (complete_section r i g) = (evs, g')"
  shows "route_step lossy (view k g) (on_route k evs) (view k g')"
proof (cases "queue_of g (route_key r)")
  case Nil
  then show ?thesis using eq view_idle [OF bal] by (simp add: complete_eq [OF active_del(1) [OF bal]])
next
  case (Cons x q)
  obtain m d where x: "x = (m, d)" by force
  then show ?thesis using eq Cons view_next [OF bal Cons [unfolded x], where k' = k and lossy = lossy]
    by (auto simp: complete_eq [OF active_del(1) [OF bal]])
qed

lemma view_forget [simp]: "view k (notify_idle g) = view k g" "view k (forget A g) = view k g"
  by (simp_all add: notify_idle_def forget_def view_def queue_of_def)

lemma begin_rollback:
  assumes bal: "balanced {#(route_key r, i)#} {#i#} g"
    and eq: "begin_dispatch (rollback_section r i advance g) = (evs, g')"
  shows "route_step (\<not> advance) (view k g) (on_route k evs) (view k g')"
proof -
  let ?k = "route_key r" and ?g1 = "forget {i} g"
  have bal1: "balanced {#(?k, i)#} {#} ?g1" using balanced_forget [OF bal] by (simp add: forget_def)
  have same: "queue_of ?g1 ?k = queue_of g ?k" by (simp add: forget_def)
  note act = active_del(1) [OF bal]
  show ?thesis
  proof (cases "advance \<and> queue_of g ?k \<noteq> []")
    case True
    then obtain m d q where q: "queue_of g ?k = (m, d) # q" by (cases "queue_of g ?k") auto
    then have "evs = [Dispatched m]" "g' = route_next ?k m d q ?g1"
      using rollback_next_eq [OF act q] eq True by simp_all
    then show ?thesis using view_next [OF bal1, of m d q] q same by simp
  next
    case False
    then have "evs = []" "view k g' = view k (route_idle ?k ?g1)"
      using rollback_idle_eq [OF act, of advance] eq by auto
    moreover have "\<not> advance \<or> queue_of ?g1 ?k = []" using False same by simp
    ultimately show ?thesis using view_idle [OF bal1, of "\<not> advance" k] by simp
  qed
qed

lemma view_submit:
  assumes bal: "balanced {#} {#} g" and eq: "submit m d g = (evs, g')"
  shows "route_step lossy (view k g) (on_route k evs) (view k g')"
proof -
  let ?k = "key_of m"
  have "route_step lossy (view k g) (on_route k [Accepted m]) (view k (enqueue m d g))"
    if "dict_get (gw_active g) ?k \<noteq> None"
    using that by (auto simp: view_def queue_of_def dict_simps enqueue_def intro: wait stay)
  moreover have "route_step lossy (view k g) (on_route k [Accepted m, Dispatched m]) (view k (occupy m d g))"
    if idle: "dict_get (gw_active g) ?k = None"
  proof (cases "k = ?k")
    case True
    have "queue_of g ?k = []" using queue_of_ok(1) [of g ?k] bal idle by (auto simp: balanced_def)
    then have "view k g = (None, [])" "view k (occupy m d g) = (Some (im_id m), [])"
      using True idle by (simp_all add: view_def occupy_def queue_of_def dict_simps)
    then show ?thesis using True by (simp add: begin_turn)
  next
    case False
    then have "view k (occupy m d g) = view k g" by (simp add: view_def occupy_def queue_of_def dict_simps)
    then show ?thesis using False by (simp add: stay)
  qed
  ultimately show ?thesis using eq by (auto simp: submit_eq stay split: if_splits)
qed

lemma view_discard: "route_step True (view k g) [] (view k (discard_section r g))"
proof (cases "k = route_key r")
  case True
  then have "view k (discard_section r g) = (fst (view k g), [])"
    by (simp add: view_def discard_section_def queue_of_def dict_simps Let_def)
  then show ?thesis using drop_waiting [of True "fst (view k g)" "snd (view k g)"] by simp
next
  case False
  then have "view k (discard_section r g) = view k g"
    by (simp add: view_def discard_section_def queue_of_def dict_simps Let_def)
  then show ?thesis by (simp add: stay)
qed

text \<open>The moves that do not touch routes and queues.\<close>

lemma other_moves:
  assumes "gw_move mv g = Some (evs, g')" and "\<not> gw_closed g" and "\<not> leaves_tasks mv" and "\<nexists>r. mv = Discard r"
  shows "evs = [] \<and> gw_active g' = gw_active g \<and> gw_pending g' = gw_pending g"
  using assms by (cases mv) (auto simp: reserve_section_def release_section_def record_section_def notify_idle_def
      split: option.splits list.splits phase.splits if_splits)

text \<open>The simulation.\<close>

lemma move_view:
  assumes mv: "gw_move mv g = Some (evs, g')" and op: "\<not> gw_closed g"
    and bal: "balanced {#} {#} g"
  shows "route_step (lossy_move mv) (view k g) (on_route k evs) (view k g')"
proof -
  consider (submit) m d where "mv = Submit m d" | (raises) i adv where "mv = Dispatch_raises i adv"
    | (delivered) i where "mv = Delivered i" | (discard) r where "mv = Discard r"
    | (other) "\<not> leaves_tasks mv" "\<nexists>r. mv = Discard r"
    by (cases mv) auto
  then show ?thesis
  proof cases
    case (submit m d)
    then show ?thesis using mv view_submit [OF bal, of m d evs g'] by simp
  next
    case (raises i adv)
    then obtain a m d b where p: "pick i (gw_dispatching g) = Some (a, (m, d), b)"
      and eq: "begin_dispatch (rollback_section (im_route m) (im_id m) adv (g\<lparr>gw_dispatching := a @ b\<rparr>)) = (evs, g')"
      using mv by (auto split: option.splits)
    have "balanced {#(route_key (im_route m), im_id m)#} {#im_id m#} (g\<lparr>gw_dispatching := a @ b\<rparr>)"
      using take_dispatch [OF bal pick_Some [OF p]] by (simp add: tag_def)
    from begin_rollback [OF this eq, of k] show ?thesis using raises by simp
  next
    case (delivered i)
    then obtain a m r b where p: "pick i (gw_outbox g) = Some (a, (m, r), b)"
      and eq: "begin_dispatch (complete_section (im_route m) (im_id m) (g\<lparr>gw_outbox := a @ b\<rparr>)) = (evs, g')"
      using mv by (auto split: option.splits if_splits)
    have "balanced {#(route_key (im_route m), im_id m)#} {#} (g\<lparr>gw_outbox := a @ b\<rparr>)"
      using take_reply [OF bal pick_Some [OF p]] by (simp add: tag_def)
    from begin_complete [OF this eq, of "lossy_move mv" k] show ?thesis by simp
  next
    case (discard r)
    then show ?thesis using mv view_discard [of k g r] by auto
  next
    case other
    note same = other_moves [OF mv op other]
    then have "view k g' = view k g" by (intro view_cong) simp_all
    moreover have "evs = []" using same by simp
    ultimately show ?thesis by (simp add: stay)
  qed
qed

lemma run_seen_from:
  assumes "gw_run mvs g = Some (tr, g')" and "\<not> gw_closed g'" and "gw_inv n g"
  shows "route_run (list_ex lossy_move mvs) (view k g) (on_route k tr) (view k g')"
  using assms
proof (induction mvs arbitrary: g tr)
  case (Cons mv mvs)
  then obtain e1 g1 e2 where mv: "gw_move mv g = Some (e1, g1)" and rest: "gw_run mvs g1 = Some (e2, g')"
    and tr: "tr = e1 @ e2"
    by (auto split: option.splits)
  have "gw_run (mv # mvs) g = Some (tr, g')" using Cons.prems by simp
  then have op: "\<not> gw_closed g" using run_open Cons.prems(2) by blast
  then have bal: "balanced {#} {#} g" using Cons.prems(3) by (simp add: gw_inv_def)
  have "route_run (list_ex lossy_move mvs) (view k g1) (on_route k e2) (view k g')"
    using Cons.IH [OF rest Cons.prems(2)] step_inv [OF Cons.prems(3) gw_step.intros [OF mv]] by blast
  then have "route_run (list_ex lossy_move (mv # mvs)) (view k g1) (on_route k e2) (view k g')"
    by (rule route_run_mono) simp
  moreover have "route_step (list_ex lossy_move (mv # mvs)) (view k g) (on_route k e1) (view k g1)"
    by (rule route_step_mono [OF move_view [OF mv op bal]]) simp
  ultimately show ?case unfolding tr by (simp add: route_run_step)
qed (simp add: route_run_refl)

end
