(* ===== verification/GatewayProps.thy ===== *)
theory GatewayProps
  imports RouteQueues
begin

text \<open>
  What the gateway's scheduler guarantees in every state it reaches before it is closed: one turn
  per route, an exact record of the requests in flight, first-come-first-served order on every
  route, and the exclusion of blocked routes.
\<close>

section \<open>Reading the invariant\<close>

definition responsible :: "'d gateway \<Rightarrow> inbound list" where
  "responsible g = map fst (gw_dispatching g) @ gw_inbox g @ map fst (gw_tasks g) @ map fst (gw_outbox g)"

definition to_answer :: "'d gateway \<Rightarrow> inbound list" where
  "to_answer g = map fst (gw_dispatching g) @ gw_inbox g
     @ map fst (filter (\<lambda>t. unrecorded (snd t)) (gw_tasks g)) @ map fst (pending_all g)"

lemma owned_responsible: "owned g = image_mset tag (mset (responsible g))"
  by (simp add: owned_def responsible_def multiset.map_comp)

lemma unanswered_to_answer: "unanswered g = image_mset im_id (mset (to_answer g))"
  by (simp add: unanswered_def to_answer_def multiset.map_comp)

lemma reach_balanced:
  assumes "reach (gw_initial n) gw_next g" and "\<not> gw_closed g"
  shows "balanced {#} {#} g" "executing g \<le> n" "length (gw_terminal g) \<le> terminal_limit"
  using gw.inv_reach [OF assms(1)] assms(2) by (auto simp: gw_inv_def cache_ok_def)

lemma balanced_owners:
  assumes "balanced {#} {#} g"
  shows "distinct (map key_of (responsible g))" "set (gw_active g) = tag ` set (responsible g)"
proof -
  have eq: "mset (gw_active g) = mset (map tag (responsible g))" and ok: "dict_ok (gw_active g)"
    using assms by (simp_all add: balanced_def owned_responsible)
  show "set (gw_active g) = tag ` set (responsible g)" using mset_eq_setD [OF eq] by simp
  have "mset (map fst (gw_active g)) = mset (map fst (map tag (responsible g)))" by (metis eq mset_map)
  then have "distinct (map fst (map tag (responsible g)))" using ok mset_eq_imp_distinct_iff unfolding dict_ok_def by blast
  moreover have "map fst (map tag (responsible g)) = map key_of (responsible g)" by (simp add: tag_def comp_def)
  ultimately show "distinct (map key_of (responsible g))" by (simp only:)
qed

lemma balanced_ids:
  assumes "balanced {#} {#} g"
  shows "distinct (map im_id (to_answer g))" "gw_inflight g = im_id ` set (to_answer g)"
proof -
  have eq: "mset_set (gw_inflight g) = mset (map im_id (to_answer g))" and fin: "finite (gw_inflight g)"
    using assms by (simp_all add: balanced_def unanswered_to_answer)
  then have A: "gw_inflight g = set (map im_id (to_answer g))" by (metis finite_set_mset_mset_set set_mset_mset)
  then show "gw_inflight g = im_id ` set (to_answer g)" by simp
  have "card (set (map im_id (to_answer g))) = length (map im_id (to_answer g))"
    using arg_cong [OF eq, of size] A by simp
  then show "distinct (map im_id (to_answer g))" by (rule card_distinct)
qed

lemma balanced_idle: "balanced {#} {#} g \<Longrightarrow> globally_idle g \<longleftrightarrow> to_answer g = [] \<and> gw_tasks g = []"
  using balanced_ids(2) [of g] by (auto simp: globally_idle_def)

lemma run_reach:
  "gw_run mvs g = Some (tr, g') \<Longrightarrow> reach (gw_initial n) gw_next g \<Longrightarrow> reach (gw_initial n) gw_next g'"
proof (induction mvs arbitrary: g tr)
  case (Cons mv mvs)
  then obtain e1 g1 e2 where mv: "gw_move mv g = Some (e1, g1)" and rest: "gw_run mvs g1 = Some (e2, g')"
    by (auto split: option.splits)
  have "gw_next g g1" using gw_step [OF mv] by blast
  then show ?case using Cons.IH [OF rest] reach_step [OF Cons.prems(2)] by blast
qed simp

section \<open>A gateway with one slot and two messages of one route\<close>

definition gate_route :: channel_route where
  "gate_route = \<lparr>cr_principal = u ''owner'', cr_channel = u ''cli'', cr_conversation = u ''c1'', cr_session = u ''s1''\<rparr>"

definition gate_message :: "string \<Rightarrow> inbound" where
  "gate_message x = \<lparr>im_id = u x, im_session = u ''s1'', im_route = gate_route, im_content = u ''hello'',
     im_attachments = [], im_metadata = [], im_created = []\<rparr>"

definition demo_reply :: outbound where
  "demo_reply = \<lparr>om_id = u ''o1'', om_session = u ''s1'', om_recipient = reply_recipient (gate_message ''m1''),
     om_content = u ''hi'', om_event_type = u ''response.completed'', om_event_id = u ''o1'',
     om_disposition = u ''chat_reply'', om_metadata = [], om_created = []\<rparr>"

definition demo_gateway :: "unit gateway" where
  "demo_gateway = start_gateway (projr (new_gateway 1))"

definition demo_moves :: "unit move list" where
  "demo_moves = [Submit (gate_message ''m1'') (), Submit (gate_message ''m2'') (), Submit (gate_message ''m2'') (),
     Dispatch_ok 0, Consume, Acquire 0, Turn_ends 0 (Inr demo_reply) [] [], Record_reply 0,
     Publish 0, Delivered 0, Submit (gate_message ''m3'') ()]"

definition demo_block :: "route_key \<Rightarrow> bool" where
  "demo_block k \<longleftrightarrow> fst (snd k) = u ''feishu''"

definition gate_run :: "event list \<times> unit gateway" where
  "gate_run = the (gw_run (demo_moves @ [Reserve demo_block (u ''t'')]) demo_gateway)"

lemma demo_initial: "gw_initial 1 demo_gateway"
  by (simp add: gw_initial_def demo_gateway_def new_gateway_def)

lemma demo_run_defined: "gw_run (demo_moves @ [Reserve demo_block (u ''t'')]) demo_gateway = Some (fst gate_run, snd gate_run)"
proof -
  have "gw_run (demo_moves @ [Reserve demo_block (u ''t'')]) demo_gateway \<noteq> None" by code_simp
  then show ?thesis by (auto simp: gate_run_def)
qed

lemma demo_open: "\<not> gw_closed (snd gate_run)"
  by code_simp

lemma demo_reached: "reach (gw_initial 1) gw_next (snd gate_run)"
  by (rule run_reach [OF demo_run_defined reach_init [of "gw_initial 1", OF demo_initial]])

section \<open>Properties\<close>

text \<open>C20: In every state an open gateway reaches, the active routes are exactly the routes of the
  messages someone is responsible for (a dispatch, the bus, a task, an undelivered reply), no two of
  these messages share a route, and no more turns execute than there are slots.\<close>

theorem one_turn_per_route:
  assumes "reach (gw_initial n) gw_next g" and "\<not> gw_closed g"
  shows "distinct (map key_of (responsible g))
    \<and> set (gw_active g) = (\<lambda>m. (key_of m, im_id m)) ` set (responsible g)
    \<and> executing g \<le> n"
proof -
  have "tag = (\<lambda>m. (key_of m, im_id m))" by (simp add: fun_eq_iff tag_def)
  then show ?thesis using reach_balanced [OF assms] balanced_owners by metis
qed

theorem one_turn_per_route_witness:
  "distinct (map key_of (responsible (snd gate_run))) \<and> map im_id (responsible (snd gate_run)) = [u ''m2'']
    \<and> executing (snd gate_run) \<le> 1"
proof -
  have "map im_id (responsible (snd gate_run)) = [u ''m2'']" by code_simp
  then show ?thesis using one_turn_per_route [OF demo_reached demo_open] by blast
qed

text \<open>C21: In every state an open gateway reaches, the ids in flight are exactly the ids of the
  messages that still have to be answered, each message once; it reports idleness exactly when none
  is left and no task runs; and the cache of replies stays within its limit.\<close>

theorem requests_tracked:
  assumes "reach (gw_initial n) gw_next g" and "\<not> gw_closed g"
  shows "distinct (map im_id (to_answer g)) \<and> gw_inflight g = im_id ` set (to_answer g)
    \<and> (globally_idle g \<longleftrightarrow> to_answer g = [] \<and> gw_tasks g = [])
    \<and> length (gw_terminal g) \<le> terminal_limit"
  using reach_balanced [OF assms] balanced_ids balanced_idle by blast

theorem requests_tracked_witness:
  "map im_id (to_answer (snd gate_run)) = [u ''m2'', u ''m3''] \<and> \<not> globally_idle (snd gate_run)
    \<and> gw_inflight (snd gate_run) = im_id ` set (to_answer (snd gate_run))"
proof -
  have "map im_id (to_answer (snd gate_run)) = [u ''m2'', u ''m3'']" by code_simp
  then show ?thesis using requests_tracked [OF demo_reached demo_open] by auto
qed

text \<open>C22: On every route the messages are dispatched in the order they were accepted: what was
  dispatched, followed by what waits, is a subsequence of what was accepted, and is all of it when
  no move of the run discards waiting messages.\<close>

theorem routes_are_fifo:
  assumes "gw_initial n g0" and "gw_run mvs g0 = Some (tr, g)" and "\<not> gw_closed g"
  shows "subseq (dispatched (on_route k tr) @ map fst (queue_of g k)) (accepted (on_route k tr))
    \<and> (\<not> list_ex lossy_move mvs
        \<longrightarrow> dispatched (on_route k tr) @ map fst (queue_of g k) = accepted (on_route k tr))"
proof -
  have "view k g0 = (None, [])"
    using assms(1) by (auto simp: gw_initial_def new_gateway_def start_gateway_def view_def queue_of_def split: if_splits)
  then show ?thesis
    using route_run_fifo [OF run_seen_from [OF assms(2,3) initial_inv [OF assms(1)], of k]] by (simp add: view_def)
qed

theorem routes_are_fifo_witness:
  "dispatched (on_route (route_key gate_route) (fst gate_run)) @ map fst (queue_of (snd gate_run) (route_key gate_route))
      = accepted (on_route (route_key gate_route) (fst gate_run))
    \<and> dispatched (on_route (route_key gate_route) (fst gate_run)) = [gate_message ''m1'', gate_message ''m2'']"
proof -
  have "\<not> list_ex lossy_move (demo_moves @ [Reserve demo_block (u ''t'')])" by code_simp
  moreover have "dispatched (on_route (route_key gate_route) (fst gate_run)) = [gate_message ''m1'', gate_message ''m2'']"
    by code_simp
  ultimately show ?thesis using routes_are_fifo [OF demo_initial demo_run_defined demo_open] by blast
qed

text \<open>C23: The gateway refines one first-in-first-out machine per route: every move of a reachable
  open gateway is, seen from any route, a step of \<open>route_step\<close> with the events of that route, and a
  step that can lose waiting messages only for a discard or a cancelled dispatch.\<close>

theorem gateway_refines_routes:
  assumes "reach (gw_initial n) gw_next g" and "\<not> gw_closed g" and "gw_move mv g = Some (evs, g')"
  shows "route_step (lossy_move mv) (view k g) (on_route k evs) (view k g')"
  using reach_balanced(1) [OF assms(1,2)] by (rule move_view [OF assms(3,2)])

theorem gateway_refines_routes_witness:
  "route_step True (Some (u ''m2''), [gate_message ''m3'']) [] (Some (u ''m2''), [])"
proof -
  let ?k = "route_key gate_route"
  have "gw_move (Discard gate_route) (snd gate_run) = Some ([], discard_section gate_route (snd gate_run))"
    by simp
  from gateway_refines_routes [OF demo_reached demo_open this, of ?k]
  have "route_step True (view ?k (snd gate_run)) [] (view ?k (discard_section gate_route (snd gate_run)))" by simp
  moreover have "view ?k (snd gate_run) = (Some (u ''m2''), [gate_message ''m3''])" by code_simp
  moreover have "view ?k (discard_section gate_route (snd gate_run)) = (Some (u ''m2''), [])" by code_simp
  ultimately show ?thesis by simp
qed

text \<open>While a route block is held, no message of a blocked route is being worked on, waits or
  has an undelivered reply, and every message of such a route is refused without any effect.\<close>

theorem blocked_routes_are_idle:
  assumes "reach (gw_initial n) gw_next g" and "\<not> gw_closed g" and "(token, matcher) \<in> set (gw_blocks g)"
    and "matcher (key_of m)"
  shows "key_of m \<notin> key_of ` set (responsible g @ map fst (pending_all g)) \<and> submit m d g = ([], g)"
proof -
  note bal = reach_balanced(1) [OF assms(1,2)]
  have idle: "dict_get (gw_active g) (key_of m) = None"
  proof -
    have "blocks_ok g" using bal by (simp add: balanced_def)
    then show ?thesis using assms(3,4) unfolding blocks_ok_def by (metis snd_conv)
  qed
  have "key_of m \<notin> key_of ` set (responsible g)"
  proof
    assume "key_of m \<in> key_of ` set (responsible g)"
    then have "key_of m \<in> fst ` set (gw_active g)" unfolding balanced_owners(2) [OF bal] by (force simp: tag_def)
    then show False using idle by (simp add: dict_get_def map_of_eq_None_iff)
  qed
  moreover have "key_of m \<notin> key_of ` set (map fst (pending_all g))"
    using bal idle by (fastforce simp: balanced_def queues_ok_def pending_all_def)
  moreover have "refuses g m" using assms(3,4) by (force simp: refuses_def list_ex_iff)
  ultimately show ?thesis by (auto simp: submit_eq)
qed

definition blocked_message :: inbound where
  "blocked_message = (gate_message ''m9'')\<lparr>im_route := gate_route\<lparr>cr_channel := u ''feishu''\<rparr>\<rparr>"

theorem blocked_routes_are_idle_witness: "submit blocked_message () (snd gate_run) = ([], snd gate_run)"
proof -
  have "map fst (gw_blocks (snd gate_run)) = [u ''t''] \<and> list_ex (\<lambda>b. snd b (key_of blocked_message)) (gw_blocks (snd gate_run))"
    by code_simp
  then obtain token matcher where "(token, matcher) \<in> set (gw_blocks (snd gate_run))" "matcher (key_of blocked_message)"
    by (auto simp: list_ex_iff)
  from blocked_routes_are_idle [OF demo_reached demo_open this] show ?thesis by blast
qed

end
