(* ===== verification/ToolSchema.thy ===== *)
theory ToolSchema
  imports Messages "HOL-Library.Product_Lexorder"
begin

text \<open>
  The arguments of a tool call (\<^verbatim>\<open>tools/base.py\<close>) and the registry of tools
  (\<^verbatim>\<open>tools/registry.py\<close>): arguments are cast to the types of the tool's JSON schema and then
  validated against it. Schemas come from tools and from remote servers, so they are JSON values of
  any shape, and a comparison Python refuses is an exception. A parameter gives what the
  interpreter prints (\<open>str\<close> of a value), the decimal digits outside ASCII, \<open>float\<close> of a text, and
  the text of its type errors.
\<close>

section \<open>Schemas\<close>

record schema_env =
  sv_str :: "json \<Rightarrow> ustr"
  sv_digit :: "nat \<Rightarrow> nat option"
  sv_float :: "ustr \<Rightarrow> real option"
  sv_type_error :: ustr

type_synonym schema = "(ustr, json) dict"

text \<open>The non-null type: a list names alternatives.\<close>

definition schema_type :: "schema \<Rightarrow> json option" where
  "schema_type s = (case dict_get s (u ''type'') of
     Some (JArr ts) \<Rightarrow> List.find (\<lambda>t. t \<noteq> JStr (u ''null'')) ts
   | t \<Rightarrow> t)"

definition typed :: "schema \<Rightarrow> string \<Rightarrow> bool" where
  "typed s name \<longleftrightarrow> schema_type s = Some (JStr (u name))"

definition sub_schema :: "json option \<Rightarrow> schema option" where
  "sub_schema j = (case j of Some (JObj s) \<Rightarrow> Some s | _ \<Rightarrow> None)"

text \<open>\<open>schema.get(key, {})\<close> read as a dictionary of sub-schemas; any other value has none.\<close>

definition properties :: "schema \<Rightarrow> schema" where
  "properties s = (case sub_schema (dict_get s (u ''properties'')) of Some ps \<Rightarrow> ps | None \<Rightarrow> [])"

definition prop_schema :: "schema \<Rightarrow> ustr \<Rightarrow> schema option" where
  "prop_schema s k = sub_schema (dict_get (properties s) k)"

section \<open>Casting\<close>

text \<open>\<open>int\<close> of a text: white space around it, a sign, digits with single underscores between them, and
  not more digits than the interpreter converts.\<close>

definition digit_value :: "schema_env \<Rightarrow> nat \<Rightarrow> nat option" where
  "digit_value env c = (if 48 \<le> c \<and> c \<le> 57 then Some (c - 48) else sv_digit env c)"

fun digits :: "schema_env \<Rightarrow> bool \<Rightarrow> ustr \<Rightarrow> nat list option" where
  "digits env after_digit [] = (if after_digit then Some [] else None)"
| "digits env after_digit (c # cs) =
     (if c = 95 then (if after_digit then digits env False cs else None)
      else case digit_value env c of None \<Rightarrow> None | Some d \<Rightarrow> map_option ((#) d) (digits env True cs))"

definition parse_int :: "schema_env \<Rightarrow> ustr \<Rightarrow> int option" where
  "parse_int env s =
     (let t = py_strip s;
          (sign, body) = (if take 1 t = [45] then (- 1, drop 1 t) else if take 1 t = [43] then (1, drop 1 t) else (1, t))
      in case digits env False body of None \<Rightarrow> None
         | Some ds \<Rightarrow> (if length ds > 4300 then None
                      else Some (sign * int (fold (\<lambda>d n. 10 * n + d) ds 0))))"

definition ascii_lower :: "ustr \<Rightarrow> ustr" where
  "ascii_lower = map (\<lambda>c. if 65 \<le> c \<and> c \<le> 90 then c + 32 else c)"

definition cast_text :: "schema_env \<Rightarrow> ustr \<Rightarrow> schema \<Rightarrow> json" where
  "cast_text env t s =
     (if typed s ''integer'' then (case parse_int env t of Some i \<Rightarrow> JInt i | None \<Rightarrow> JStr t)
      else if typed s ''number'' then (case sv_float env t of Some r \<Rightarrow> JFloat r | None \<Rightarrow> JStr t)
      else if typed s ''boolean'' then
        (if ascii_lower t \<in> {u ''true'', u ''1'', u ''yes''} then JBool True
         else if ascii_lower t \<in> {u ''false'', u ''0'', u ''no''} then JBool False else JStr t)
      else JStr t)"

definition py_str :: "schema_env \<Rightarrow> json \<Rightarrow> ustr" where
  "py_str env v = (case v of JStr t \<Rightarrow> t | _ \<Rightarrow> sv_str env v)"

lemma size_member: "(k, v) \<in> set kvs \<Longrightarrow> size v < size (JObj kvs)"
  by (induction kvs) auto

lemma size_item: "v \<in> set xs \<Longrightarrow> size v < size (JArr xs)"
  by (induction xs) auto

lemma size_zip: "(i, v) \<in> set (zip is xs) \<Longrightarrow> size v < size (JArr xs)"
  using size_item set_zip_rightD by metis

function cast_value :: "schema_env \<Rightarrow> json \<Rightarrow> schema \<Rightarrow> json" where
  "cast_value env v s =
     (if typed s ''string'' then (if v = JNull then v else JStr (py_str env v))
      else case v of
        JStr t \<Rightarrow> cast_text env t s
      | JArr xs \<Rightarrow>
          (case sub_schema (dict_get s (u ''items'')) of
             Some item \<Rightarrow> (if typed s ''array'' then JArr (map (\<lambda>x. cast_value env x item) xs) else v)
           | None \<Rightarrow> v)
      | JObj kvs \<Rightarrow>
          (if typed s ''object'' then
             JObj (map (\<lambda>(k, x). (k, case prop_schema s k of Some p \<Rightarrow> cast_value env x p | None \<Rightarrow> x)) kvs)
           else v)
      | _ \<Rightarrow> v)"
  by pat_completeness auto
termination
  by (relation "measure (\<lambda>(_, v, _). size v)") (auto dest: size_member size_item)

declare cast_value.simps [simp del]

definition cast_args :: "schema_env \<Rightarrow> (ustr \<times> json) list \<Rightarrow> schema \<Rightarrow> (ustr \<times> json) list" where
  "cast_args env args s =
     map (\<lambda>(k, x). (k, case prop_schema s k of Some p \<Rightarrow> cast_value env x p | None \<Rightarrow> x)) args"

section \<open>Comparisons as Python makes them\<close>

definition num_val :: "json \<Rightarrow> real option" where
  "num_val j = (case j of JInt i \<Rightarrow> Some (of_int i) | JFloat r \<Rightarrow> Some r
     | JBool b \<Rightarrow> Some (if b then 1 else 0) | _ \<Rightarrow> None)"

text \<open>\<open>a == b\<close>: numbers and booleans by value, dictionaries whatever the order of their keys.\<close>

function py_eq :: "json \<Rightarrow> json \<Rightarrow> bool" where
  "py_eq a b =
     (case (num_val a, num_val b) of
        (Some x, Some y) \<Rightarrow> x = y
      | _ \<Rightarrow>
        (case (a, b) of
           (JNull, JNull) \<Rightarrow> True
         | (JStr s, JStr t) \<Rightarrow> s = t
         | (JArr xs, JArr ys) \<Rightarrow> length xs = length ys \<and> list_all (\<lambda>(x, y). py_eq x y) (zip xs ys)
         | (JObj xs, JObj ys) \<Rightarrow> length xs = length ys \<and>
             list_all (\<lambda>(k, x). case dict_get ys k of Some y \<Rightarrow> py_eq x y | None \<Rightarrow> False) xs
         | _ \<Rightarrow> False))"
  by pat_completeness auto
termination
  by (relation "measure (\<lambda>(a, b). size a)") (auto dest: size_member size_item set_zip_leftD)

declare py_eq.simps [simp del]

definition hashable :: "json \<Rightarrow> bool" where
  "hashable j \<longleftrightarrow> (case j of JArr _ \<Rightarrow> False | JObj _ \<Rightarrow> False | _ \<Rightarrow> True)"

text \<open>\<open>p in t\<close> for texts.\<close>

definition is_substring :: "ustr \<Rightarrow> ustr \<Rightarrow> bool" where
  "is_substring p t \<longleftrightarrow> list_ex (\<lambda>i. take (length p) (drop i t) = p) [0..<Suc (length t)]"

text \<open>\<open>v in c\<close>.\<close>

definition py_in :: "schema_env \<Rightarrow> json \<Rightarrow> json \<Rightarrow> exn + bool" where
  "py_in env v c = (case c of
     JArr xs \<Rightarrow> Inr (list_ex (\<lambda>x. py_eq v x) xs)
   | JStr t \<Rightarrow> (case v of JStr p \<Rightarrow> Inr (is_substring p t) | _ \<Rightarrow> Inl (TypeError (sv_type_error env)))
   | JObj kvs \<Rightarrow> (if hashable v then Inr (list_ex (\<lambda>k. v = JStr k) (map fst kvs))
                 else Inl (TypeError (sv_type_error env)))
   | _ \<Rightarrow> Inl (TypeError (sv_type_error env)))"

section \<open>Validation\<close>

definition type_names :: "string list" where
  "type_names = [''string'', ''integer'', ''number'', ''boolean'', ''array'', ''object'']"

text \<open>The name of the declared type the value does not have; a type that is a list or a dictionary
  cannot be looked up.\<close>

definition has_type :: "string \<Rightarrow> json \<Rightarrow> bool" where
  "has_type name v = (case v of
     JStr _ \<Rightarrow> name = ''string'' | JBool _ \<Rightarrow> name = ''boolean'' | JArr _ \<Rightarrow> name = ''array''
   | JObj _ \<Rightarrow> name = ''object'' | JInt _ \<Rightarrow> name = ''integer'' \<or> name = ''number''
   | JFloat _ \<Rightarrow> name = ''number'' | JNull \<Rightarrow> False)"

definition type_mismatch :: "schema_env \<Rightarrow> json \<Rightarrow> schema \<Rightarrow> exn + string option" where
  "type_mismatch env v s = (case schema_type s of
     None \<Rightarrow> Inr None
   | Some t \<Rightarrow> (if \<not> hashable t then Inl (TypeError (sv_type_error env))
              else Inr (List.find (\<lambda>name. t = JStr (u name) \<and> \<not> has_type name v) type_names)))"

definition py_truthy :: "json \<Rightarrow> bool" where
  "py_truthy j = (case j of JNull \<Rightarrow> False | JBool b \<Rightarrow> b | JInt i \<Rightarrow> i \<noteq> 0 | JFloat r \<Rightarrow> r \<noteq> 0
     | JStr t \<Rightarrow> t \<noteq> [] | JArr xs \<Rightarrow> xs \<noteq> [] | JObj kvs \<Rightarrow> kvs \<noteq> [])"

definition nullable :: "schema \<Rightarrow> bool" where
  "nullable s \<longleftrightarrow> (case dict_get s (u ''nullable'') of Some j \<Rightarrow> py_truthy j | None \<Rightarrow> False)
     \<or> (case dict_get s (u ''type'') of Some (JArr ts) \<Rightarrow> JStr (u ''null'') \<in> set ts | _ \<Rightarrow> False)"

text \<open>One bound: the message when the key is there and the comparison fails.\<close>

definition bound_error ::
  "schema_env \<Rightarrow> schema \<Rightarrow> string \<Rightarrow> (real \<Rightarrow> bool) \<Rightarrow> (ustr \<Rightarrow> ustr) \<Rightarrow> exn + ustr list" where
  "bound_error env s key violates msg = (case dict_get s (u key) of
     None \<Rightarrow> Inr []
   | Some m \<Rightarrow> (case num_val m of None \<Rightarrow> Inl (TypeError (sv_type_error env))
              | Some r \<Rightarrow> Inr (if violates r then [msg (py_str env m)] else [])))"

definition both :: "exn + ustr list \<Rightarrow> exn + ustr list \<Rightarrow> exn + ustr list" where
  "both a b = bindE a (\<lambda>xs. bindE b (\<lambda>ys. Inr (xs @ ys)))"

definition enum_errors :: "schema_env \<Rightarrow> json \<Rightarrow> schema \<Rightarrow> ustr \<Rightarrow> exn + ustr list" where
  "enum_errors env v s label = (case dict_get s (u ''enum'') of
     None \<Rightarrow> Inr []
   | Some c \<Rightarrow> bindE (py_in env v c) (\<lambda>found. Inr (if found then [] else [label @ u '' must be one of '' @ py_str env c])))"

definition range_errors :: "schema_env \<Rightarrow> json \<Rightarrow> schema \<Rightarrow> ustr \<Rightarrow> exn + ustr list" where
  "range_errors env v s label =
     (if \<not> typed s ''integer'' \<and> \<not> typed s ''number'' then Inr []
      else case num_val v of None \<Rightarrow> Inr [] | Some x \<Rightarrow>
        both (bound_error env s ''minimum'' (\<lambda>m. x < m) (\<lambda>t. label @ u '' must be >= '' @ t))
             (bound_error env s ''maximum'' (\<lambda>m. x > m) (\<lambda>t. label @ u '' must be <= '' @ t)))"

definition length_errors :: "schema_env \<Rightarrow> json \<Rightarrow> schema \<Rightarrow> ustr \<Rightarrow> exn + ustr list" where
  "length_errors env v s label = (case v of
     JStr t \<Rightarrow> (if \<not> typed s ''string'' then Inr [] else
        both (bound_error env s ''minLength'' (\<lambda>m. real (length t) < m) (\<lambda>x. label @ u '' must be at least '' @ x @ u '' chars''))
             (bound_error env s ''maxLength'' (\<lambda>m. real (length t) > m) (\<lambda>x. label @ u '' must be at most '' @ x @ u '' chars'')))
   | JArr xs \<Rightarrow> (if \<not> typed s ''array'' then Inr [] else
        both (bound_error env s ''minItems'' (\<lambda>m. real (length xs) < m) (\<lambda>x. label @ u '' must have at least '' @ x @ u '' items''))
             (bound_error env s ''maxItems'' (\<lambda>m. real (length xs) > m) (\<lambda>x. label @ u '' must be at most '' @ x @ u '' items'')))
   | _ \<Rightarrow> Inr [])"

definition missing_errors :: "schema_env \<Rightarrow> (ustr \<times> json) list \<Rightarrow> schema \<Rightarrow> exn + ustr list" where
  "missing_errors env args s =
     bindE (case dict_get s (u ''required'') of
              None \<Rightarrow> Inr []
            | Some (JArr ks) \<Rightarrow> Inr ks
            | Some (JStr t) \<Rightarrow> Inr (map (\<lambda>c. JStr [c]) t)
            | Some (JObj kvs) \<Rightarrow> Inr (map (JStr \<circ> fst) kvs)
            | _ \<Rightarrow> Inl (TypeError (sv_type_error env)))
       (\<lambda>ks. bindE (mapE (\<lambda>k. if \<not> hashable k then Inl (TypeError (sv_type_error env))
                       else Inr (if list_ex (\<lambda>(n, _). k = JStr n) args then [] else [u ''missing required '' @ py_str env k])) ks)
         (\<lambda>es. Inr (concat es)))"

lemma mapE_cong [fundef_cong]:
  "xs = ys \<Longrightarrow> (\<And>x. x \<in> set ys \<Longrightarrow> f x = g x) \<Longrightarrow> mapE f xs = mapE g ys"
  by (induction xs arbitrary: ys) auto

function validate_value :: "schema_env \<Rightarrow> json \<Rightarrow> schema \<Rightarrow> ustr \<Rightarrow> exn + ustr list" where
  "validate_value env v s path =
     (let label = (if path = [] then u ''parameter'' else path) in
      if v = JNull \<and> nullable s then Inr []
      else bindE (type_mismatch env v s) (\<lambda>bad. case bad of
        Some name \<Rightarrow> Inr [label @ u '' should be '' @ u name]
      | None \<Rightarrow>
          both (enum_errors env v s label) (both (range_errors env v s label) (both (length_errors env v s label)
            (case v of
               JArr xs \<Rightarrow> (case sub_schema (dict_get s (u ''items'')) of
                   Some item \<Rightarrow> (if \<not> typed s ''array'' then Inr [] else
                     bindE (mapE (\<lambda>(i, x). validate_value env x item (label @ u ''['' @ dec i @ u '']'')) (zip [0..<length xs] xs))
                       (\<lambda>es. Inr (concat es)))
                 | None \<Rightarrow> Inr [])
             | JObj kvs \<Rightarrow> (if \<not> typed s ''object'' then Inr [] else
                 both (missing_errors env kvs s)
                   (bindE (mapE (\<lambda>(k, x). case prop_schema s k of
                        Some p \<Rightarrow> validate_value env x p (if path = [] then k else path @ u ''.'' @ k)
                      | None \<Rightarrow> Inr []) kvs) (\<lambda>es. Inr (concat es))))
             | _ \<Rightarrow> Inr [])))))"
  by pat_completeness auto
termination
  by (relation "measure (\<lambda>(_, v, _, _). size v)") (auto dest: size_member size_zip)

declare validate_value.simps [simp del]

definition type_name :: "json \<Rightarrow> ustr" where
  "type_name v = (case v of JNull \<Rightarrow> u ''NoneType'' | JBool _ \<Rightarrow> u ''bool'' | JInt _ \<Rightarrow> u ''int''
     | JFloat _ \<Rightarrow> u ''float'' | JStr _ \<Rightarrow> u ''str'' | JArr _ \<Rightarrow> u ''list'' | JObj _ \<Rightarrow> u ''dict'')"

definition validate_args :: "schema_env \<Rightarrow> json \<Rightarrow> schema \<Rightarrow> exn + ustr list" where
  "validate_args env a s = (case a of
     JObj kvs \<Rightarrow>
       both (missing_errors env kvs s)
         (bindE (mapE (\<lambda>(k, x). case prop_schema s k of Some p \<Rightarrow> validate_value env x p k | None \<Rightarrow> Inr []) kvs)
           (\<lambda>es. Inr (concat es)))
   | _ \<Rightarrow> Inr [u ''parameters must be object, got '' @ type_name a])"

end
