(* ===== verification/ToolRegistry.thy ===== *)
theory ToolRegistry
  imports ToolSchema RuntimeTexts
begin

text \<open>
  The registry of tools (\<^verbatim>\<open>tools/registry.py\<close>). A tool is its declared fields and the identity of
  its object; what running it does is answered from outside. The two lists of schemas the registry
  hands to the model are cached until a tool is added or removed.
\<close>

section \<open>Tools\<close>

text \<open>The boundaries of a worker (\<open>WorkerPathPolicy\<close>): components of absolute paths.\<close>

record path_policy =
  pp_workspace :: "ustr list"
  pp_data_dir :: "ustr list"

record tool =
  to_object :: nat
  to_name :: ustr
  to_description :: ustr
  to_schema :: schema
  to_parallel_safe :: bool
  to_approval_required :: bool
  to_read_only :: bool \<comment> \<open>\<open>worker_read_only\<close>\<close>
  to_trusted :: bool \<comment> \<open>its class is the one \<open>_TRUSTED_WORKER_TOOL_TYPES\<close> names\<close>
  to_workspace :: "ustr option"
  to_has_policy :: bool \<comment> \<open>it has the attribute \<open>worker_path_policy\<close>\<close>
  to_policy :: "path_policy option"

record registry =
  rg_tools :: "(ustr, tool) dict"
  rg_schemas_cache :: "json list option"
  rg_openai_cache :: "json list option"

definition empty_registry :: registry where
  "empty_registry = \<lparr>rg_tools = [], rg_schemas_cache = None, rg_openai_cache = None\<rparr>"

definition register_tool :: "tool \<Rightarrow> registry \<Rightarrow> registry" where
  "register_tool t rg = \<lparr>rg_tools = dict_put (to_name t) t (rg_tools rg), rg_schemas_cache = None, rg_openai_cache = None\<rparr>"

definition unregister_tool :: "tool \<Rightarrow> registry \<Rightarrow> bool \<times> registry" where
  "unregister_tool t rg =
     (if map_option to_object (dict_get (rg_tools rg) (to_name t)) \<noteq> Some (to_object t) then (False, rg)
      else (True, \<lparr>rg_tools = dict_del (to_name t) (rg_tools rg), rg_schemas_cache = None, rg_openai_cache = None\<rparr>))"

definition unregister_prefix :: "ustr \<Rightarrow> registry \<Rightarrow> ustr list \<times> registry" where
  "unregister_prefix p rg =
     (let removed = filter (\<lambda>n. starts_with n p) (map fst (rg_tools rg));
          tools = fold dict_del removed (rg_tools rg)
      in (removed, if removed = [] then rg\<lparr>rg_tools := tools\<rparr>
          else \<lparr>rg_tools = tools, rg_schemas_cache = None, rg_openai_cache = None\<rparr>))"

definition has_tool :: "ustr \<Rightarrow> registry \<Rightarrow> bool" where
  "has_tool n rg \<longleftrightarrow> dict_get (rg_tools rg) n \<noteq> None"

definition get_tool :: "ustr \<Rightarrow> registry \<Rightarrow> exn + tool" where
  "get_tool n rg = (case dict_get (rg_tools rg) n of Some t \<Rightarrow> Inr t | None \<Rightarrow> Inl (KeyError n))"

definition tool_names :: "registry \<Rightarrow> ustr list" where
  "tool_names rg = sort (map fst (rg_tools rg))"

definition sorted_tools :: "registry \<Rightarrow> tool list" where
  "sorted_tools rg = sort_key (\<lambda>t. (starts_with (to_name t) (u ''mcp_''), to_name t)) (map snd (rg_tools rg))"

section \<open>What the model sees\<close>

definition tool_schema_row :: "tool \<Rightarrow> json" where
  "tool_schema_row t = JObj [(u ''name'', JStr (to_name t)), (u ''description'', JStr (to_description t)),
     (u ''input_schema'', JObj (to_schema t))]"

definition openai_row :: "tool \<Rightarrow> json" where
  "openai_row t = JObj [(u ''type'', JStr (u ''function'')),
     (u ''function'', JObj [(u ''name'', JStr (to_name t)), (u ''description'', JStr (to_description t)),
        (u ''parameters'', JObj (to_schema t))])]"

definition schemas :: "registry \<Rightarrow> json list \<times> registry" where
  "schemas rg = (case rg_schemas_cache rg of Some c \<Rightarrow> (c, rg)
     | None \<Rightarrow> (let c = map tool_schema_row (sorted_tools rg) in (c, rg\<lparr>rg_schemas_cache := Some c\<rparr>)))"

definition row_name :: "json \<Rightarrow> json option" where
  "row_name row = Option.bind (jget row (u ''function'')) (\<lambda>f. jget f (u ''name''))"

definition openai_tools :: "ustr list option \<Rightarrow> registry \<Rightarrow> json list \<times> registry" where
  "openai_tools allowed rg =
     (let (c, rg1) = (case rg_openai_cache rg of Some c \<Rightarrow> (c, rg)
            | None \<Rightarrow> (let c = map openai_row (sorted_tools rg) in (c, rg\<lparr>rg_openai_cache := Some c\<rparr>)))
      in (case allowed of None \<Rightarrow> c
          | Some names \<Rightarrow> filter (\<lambda>row. list_ex (\<lambda>n. row_name row = Some (JStr n)) names) c, rg1))"

section \<open>Preparing a call\<close>

text \<open>The tool, the normalised arguments, and the text of what is wrong with them.\<close>

definition default_schema :: schema where
  "default_schema = [(u ''type'', JStr (u ''object'')), (u ''properties'', JObj [])]"

definition effective_schema :: "tool \<Rightarrow> schema" where
  "effective_schema t = (if to_schema t = [] then default_schema else to_schema t)"

definition prepare_call ::
  "schema_env \<Rightarrow> registry \<Rightarrow> ustr \<Rightarrow> json \<Rightarrow> exn + tool option \<times> (ustr \<times> json) list \<times> ustr option" where
  "prepare_call env rg name args = (case args of
     JObj kvs \<Rightarrow> (case dict_get (rg_tools rg) name of
         None \<Rightarrow> Inr (None, kvs, Some (txt_unknown_tool @ name @ txt_available_tools @ py_join (u '', '') (tool_names rg)))
       | Some t \<Rightarrow>
           (let s = effective_schema t; norm = cast_args env kvs s in
            bindE (validate_args env (JObj norm) s) (\<lambda>errors.
              Inr (Some t, norm, if errors = [] then None else Some (py_join txt_semicolon errors)))))
   | _ \<Rightarrow> Inr (None, [], Some (txt_tool_word @ name @ txt_args_not_object @ type_name args)))"

section \<open>Facts\<close>

text \<open>Casting twice is casting once.\<close>

lemma cast_text_idem: "cast_value env (cast_text env t s) s = (if typed s ''string'' then cast_value env (cast_text env t s) s else cast_text env t s)"
  by (auto simp: cast_value.simps cast_text_def split: option.splits)

lemma cast_value_idem: "cast_value env (cast_value env v s) s = cast_value env v s"
proof (induction env v s rule: cast_value.induct)
  case (1 env v s)
  show ?case
  proof (cases "typed s ''string''")
    case True
    then show ?thesis by (simp add: cast_value.simps py_str_def)
  next
    case False
    note str = this
    show ?thesis
    proof (cases v)
      case (JStr t)
      then show ?thesis using str cast_text_idem [of env t s] by (simp add: cast_value.simps [of env "JStr t"])
    next
      case (JArr xs)
      then show ?thesis using str 1(1) [OF str JArr]
        by (auto simp: cast_value.simps [of env "JArr _"] split: option.split)
    next
      case (JObj kvs)
      have "cast_value env (cast_value env x p) p = cast_value env x p"
        if "(k, x) \<in> set kvs" "prop_schema s k = Some p" "typed s ''object''" for k x p
        using 1(2) [OF str JObj that(3) that(1)] that(2) by auto
      then show ?thesis using str JObj
        by (auto simp: cast_value.simps [of env "JObj _"] split: option.split)
    qed (use str in \<open>simp_all add: cast_value.simps\<close>)
  qed
qed

lemma cast_args_idem: "cast_args env (cast_args env args s) s = cast_args env args s"
  by (auto simp: cast_args_def comp_def cast_value_idem split: option.split)

end
