(* ===== verification/ToolTexts.thy ===== *)
theory ToolTexts
  imports Prelude
begin

text \<open>
  The fixed texts of the program, code point by code point: error messages and replies the code
  stores, compares or shows. Each name says what the text says; the order is the order of the
  source files.
\<close>

section \<open>\<^verbatim>\<open>tools/path_utils.py\<close>\<close>

definition txt_no_tilde :: ustr where \<comment> \<open>no ~ in a path\<close>
  "txt_no_tilde = [119, 111, 114, 107, 115, 112, 97, 99, 101, 32, 24037, 20855, 19981, 25903, 25345, 32, 126,
     32, 36335, 24452, 65292, 35831, 20351, 29992, 30456, 23545, 36335, 24452, 25110, 32, 119,
     111, 114, 107, 115, 112, 97, 99, 101, 32, 20869, 32477, 23545, 36335, 24452]"

section \<open>\<^verbatim>\<open>tools/security.py\<close>\<close>

definition txt_refuse_read :: ustr where \<comment> \<open>reading a device is refused\<close>
  "txt_refuse_read = [25298, 32477, 35835, 21462, 21361, 38505, 35774, 22791, 36335, 24452, 65306]"

definition txt_refuse_write :: ustr where \<comment> \<open>writing a device is refused\<close>
  "txt_refuse_write = [25298, 32477, 20889, 20837, 21361, 38505, 35774, 22791, 36335, 24452, 65306]"

definition txt_refuse_sessions :: ustr where \<comment> \<open>writing session files is refused\<close>
  "txt_refuse_sessions = [25298, 32477, 30452, 25509, 20889, 20837, 32, 46, 115, 101, 115, 115, 105, 111, 110, 115,
     32, 29366, 24577, 25991, 20214, 65306]"

definition txt_command_refused :: ustr where \<comment> \<open>the command is refused\<close>
  "txt_command_refused = [21629, 20196, 34987, 23433, 20840, 31574, 30053, 25298, 32477]"

definition txt_only_http :: ustr where \<comment> \<open>only http and https\<close>
  "txt_only_http = [21482, 20801, 35768, 32, 104, 116, 116, 112, 47, 104, 116, 116, 112, 115, 32, 85, 82, 76,
     65292, 23454, 38469, 26159, 65306]"

definition txt_no_host :: ustr where \<comment> \<open>the url has no host\<close>
  "txt_no_host = [85, 82, 76, 32, 32570, 23569, 22495, 21517]"

section \<open>\<^verbatim>\<open>multi_agent/worker_profile.py\<close>\<close>

definition txt_worker_symlink :: ustr where \<comment> \<open>a worker follows no symbolic link\<close>
  "txt_worker_symlink = [87, 111, 114, 107, 101, 114, 32, 31105, 27490, 36319, 38543, 31526, 21495, 38142, 25509]"

definition txt_worker_outside :: ustr where \<comment> \<open>a worker reads the workspace only\<close>
  "txt_worker_outside = [87, 111, 114, 107, 101, 114, 32, 21482, 20801, 35768, 35835, 21462, 20027, 39033, 30446,
     24037, 20316, 21306]"

definition txt_worker_data_dir :: ustr where \<comment> \<open>a worker reads no data directory\<close>
  "txt_worker_data_dir = [87, 111, 114, 107, 101, 114, 32, 31105, 27490, 35835, 21462, 32, 100, 97, 116, 97, 95,
     100, 105, 114]"

definition txt_worker_sessions :: ustr where \<comment> \<open>a worker reads no sessions\<close>
  "txt_worker_sessions = [87, 111, 114, 107, 101, 114, 32, 31105, 27490, 35835, 21462, 32, 46, 115, 101, 115, 115,
     105, 111, 110, 115]"

definition txt_worker_git :: ustr where \<comment> \<open>a worker reads no git directory\<close>
  "txt_worker_git = [87, 111, 114, 107, 101, 114, 32, 31105, 27490, 35835, 21462, 32, 46, 103, 105, 116]"

definition txt_worker_env :: ustr where \<comment> \<open>a worker reads no environment files\<close>
  "txt_worker_env = [87, 111, 114, 107, 101, 114, 32, 31105, 27490, 35835, 21462, 29615, 22659, 20973, 25454]"

definition txt_worker_credentials :: ustr where \<comment> \<open>a worker reads no credentials\<close>
  "txt_worker_credentials = [87, 111, 114, 107, 101, 114, 32, 31105, 27490, 35835, 21462, 20973, 25454, 25991, 20214]"

definition txt_worker_drafts :: ustr where \<comment> \<open>a worker reads no skill drafts\<close>
  "txt_worker_drafts = [87, 111, 114, 107, 101, 114, 32, 31105, 27490, 35835, 21462, 32, 83, 107, 105, 108, 108,
     32, 33609, 31295, 25110, 26242, 23384, 30446, 24405]"

section \<open>\<^verbatim>\<open>multi_agent/worker_runner.py\<close>\<close>

definition txt_limit_prefix :: ustr where \<comment> \<open>the limit of tool rounds is reached\<close>
  "txt_limit_prefix = [24037, 20855, 35843, 29992, 36718, 25968, 24050, 36798, 21040, 19978, 38480, 65292]"

definition txt_worker_limit :: ustr where \<comment> \<open>the worker has reached its limit\<close>
  "txt_worker_limit = [87, 111, 114, 107, 101, 114, 32, 24050, 36798, 21040, 24037, 20855, 35843, 29992, 36718,
     25968, 19978, 38480]"

definition txt_preview_cut :: ustr where \<comment> \<open>the excerpt is cut\<close>
  "txt_preview_cut = [91, 32467, 26524, 25688, 24405, 24050, 25130, 26029, 93]"

definition txt_evidence_intro :: ustr where \<comment> \<open>the excerpts of the evidence follow\<close>
  "txt_evidence_intro = [87, 111, 114, 107, 101, 114, 32, 24037, 20855, 35843, 29992, 39044, 31639, 24050, 29992,
     23613, 12290, 20197, 19979, 26159, 24050, 33719, 24471, 30340, 21463, 25511, 35777, 25454,
     25688, 24405, 65307, 35831, 22522, 20110, 36825, 20123, 35777, 25454, 23436, 25104, 27719,
     24635, 65292, 24182, 26126, 30830, 20173, 26410, 39564, 35777, 30340, 32570, 21475, 12290]"

section \<open>\<^verbatim>\<open>multi_agent/delegate_tool.py\<close>\<close>

definition txt_delegate_description :: ustr where \<comment> \<open>what the delegation call does\<close>
  "txt_delegate_description = [20351, 29992, 22266, 23450, 25299, 25169, 36816, 34892, 21463, 38480, 21482, 35835, 32,
     87, 111, 114, 107, 101, 114, 65292, 24182, 30001, 29238, 32, 65, 103, 101, 110, 116, 32,
     27719, 24635, 32467, 26524, 12290]"

end
