(* ===== verification/ToolSecurity.thy ===== *)
theory ToolSecurity
  imports ToolRegistry ToolTexts TurnTypes "HOL-Library.Sublist"
begin

text \<open>
  The security checks before a tool runs (\<^verbatim>\<open>tools/security.py\<close>, \<^verbatim>\<open>tools/path_utils.py\<close>). A path is
  resolved by the host, a parameter that gives the components of the absolute path or the exception;
  the parse of a url and the Unicode lower case are parameters too. The refused shell commands are
  given by regular expressions, which are data here with a matcher of their own.
\<close>

section \<open>Regular expressions\<close>

text \<open>A character of a class, sequence, choice, repetition, and a word boundary.\<close>

datatype rx = Cls "nat \<Rightarrow> bool" | Cat rx rx | Alt rx rx | Star rx | Boundary

definition in_word :: "(nat \<Rightarrow> bool) \<Rightarrow> nat \<Rightarrow> bool" where
  "in_word letter c \<longleftrightarrow> (48 \<le> c \<and> c \<le> 57) \<or> (65 \<le> c \<and> c \<le> 90) \<or> (97 \<le> c \<and> c \<le> 122) \<or> c = 95 \<or> letter c"

definition rx_word_at :: "(nat \<Rightarrow> bool) \<Rightarrow> ustr \<Rightarrow> nat \<Rightarrow> bool" where
  "rx_word_at letter s i \<longleftrightarrow> i < length s \<and> in_word letter (s ! i)"

definition at_boundary :: "(nat \<Rightarrow> bool) \<Rightarrow> ustr \<Rightarrow> nat \<Rightarrow> bool" where
  "at_boundary letter s i \<longleftrightarrow> rx_word_at letter s i \<noteq> (i \<noteq> 0 \<and> rx_word_at letter s (i - 1))"

fun closure :: "(nat \<Rightarrow> nat list) \<Rightarrow> nat \<Rightarrow> nat list \<Rightarrow> nat list" where
  "closure f 0 is = is"
| "closure f (Suc n) is = closure f n (remdups (is @ concat (map f is)))"

text \<open>The positions at which a match that begins at \<open>i\<close> may end.\<close>

fun rx_ends :: "(nat \<Rightarrow> bool) \<Rightarrow> rx \<Rightarrow> ustr \<Rightarrow> nat \<Rightarrow> nat list" where
  "rx_ends letter (Cls p) s i = (if i < length s \<and> p (s ! i) then [Suc i] else [])"
| "rx_ends letter (Cat a b) s i = concat (map (rx_ends letter b s) (rx_ends letter a s i))"
| "rx_ends letter (Alt a b) s i = rx_ends letter a s i @ rx_ends letter b s i"
| "rx_ends letter (Star a) s i = closure (rx_ends letter a s) (length s) [i]"
| "rx_ends letter Boundary s i = (if at_boundary letter s i then [i] else [])"

definition search :: "(nat \<Rightarrow> bool) \<Rightarrow> rx \<Rightarrow> ustr \<Rightarrow> bool" where
  "search letter r s \<longleftrightarrow> list_ex (\<lambda>i. rx_ends letter r s i \<noteq> []) [0..<Suc (length s)]"

text \<open>What a match is.\<close>

inductive matches :: "(nat \<Rightarrow> bool) \<Rightarrow> ustr \<Rightarrow> rx \<Rightarrow> nat \<Rightarrow> nat \<Rightarrow> bool" for letter s where
  match_cls: "i < length s \<Longrightarrow> p (s ! i) \<Longrightarrow> matches letter s (Cls p) i (Suc i)"
| match_cat: "matches letter s a i j \<Longrightarrow> matches letter s b j k \<Longrightarrow> matches letter s (Cat a b) i k"
| match_left: "matches letter s a i j \<Longrightarrow> matches letter s (Alt a b) i j"
| match_right: "matches letter s b i j \<Longrightarrow> matches letter s (Alt a b) i j"
| match_stop: "matches letter s (Star a) i i"
| match_more: "matches letter s a i j \<Longrightarrow> matches letter s (Star a) j k \<Longrightarrow> matches letter s (Star a) i k"
| match_boundary: "at_boundary letter s i \<Longrightarrow> matches letter s Boundary i i"

inductive_cases match_clsE: "matches letter s (Cls p) i j"
inductive_cases match_catE: "matches letter s (Cat a b) i j"
inductive_cases match_altE: "matches letter s (Alt a b) i j"
inductive_cases match_boundaryE: "matches letter s Boundary i j"

lemma matches_le: "matches letter s r i j \<Longrightarrow> i \<le> j \<and> (i \<le> length s \<longrightarrow> j \<le> length s)"
  by (induction rule: matches.induct) auto

text \<open>The closure reaches what up to \<open>n\<close> applications reach.\<close>

definition hop :: "(nat \<Rightarrow> nat list) \<Rightarrow> nat \<Rightarrow> nat \<Rightarrow> bool" where
  "hop f i j \<longleftrightarrow> j \<in> set (f i)"

lemma closure_sound: "k \<in> set (closure f n is) \<Longrightarrow> \<exists>i \<in> set is. (hop f)\<^sup>*\<^sup>* i k"
proof (induction n arbitrary: "is")
  case (Suc n)
  then obtain j where j: "j \<in> set (is @ concat (map f is))" "(hop f)\<^sup>*\<^sup>* j k" by fastforce
  then show ?case by (auto simp: hop_def [symmetric] intro: converse_rtranclp_into_rtranclp)
qed auto

lemma closure_mono: "i \<in> set is \<Longrightarrow> i \<in> set (closure f n is)"
  by (induction n arbitrary: "is") simp_all

lemma closure_complete: "(hop f ^^ n) i k \<Longrightarrow> i \<in> set is \<Longrightarrow> n \<le> m \<Longrightarrow> k \<in> set (closure f m is)"
proof (induction n arbitrary: m i "is")
  case 0
  then show ?case by (simp add: closure_mono)
next
  case (Suc n)
  from relpowp_Suc_D2 [OF Suc.prems(1)] obtain j where "hop f i j" and rest: "(hop f ^^ n) j k" by blast
  moreover obtain m' where m: "m = Suc m'" "n \<le> m'" using Suc.prems(3) by (cases m) auto
  ultimately have "j \<in> set (remdups (is @ concat (map f is)))" using Suc.prems(2) by (auto simp: hop_def)
  from Suc.IH [OF rest this m(2)] show ?case by (simp add: m(1))
qed

text \<open>A repetition never needs more rounds than the text is long: a round that matches nothing can be left out.\<close>

lemma hops_bounded:
  assumes step: "\<And>i j. i \<le> b \<Longrightarrow> hop f i j \<Longrightarrow> i \<le> j \<and> j \<le> b"
  shows "(hop f)\<^sup>*\<^sup>* i k \<Longrightarrow> i \<le> b \<Longrightarrow> i \<le> k \<and> k \<le> b \<and> (\<exists>n \<le> k - i. (hop f ^^ n) i k)"
proof (induction rule: rtranclp_induct)
  case base
  then show ?case by (auto intro: exI [of _ 0])
next
  case (step j k)
  then obtain n where n: "i \<le> j" "j \<le> b" "n \<le> j - i" "(hop f ^^ n) i j" by auto
  have jk: "j \<le> k" "k \<le> b" using assms [OF n(2) step(2)] by auto
  show ?case
  proof (cases "j = k")
    case True
    then show ?thesis using n by auto
  next
    case False
    then have "Suc n \<le> k - i" using n jk by auto
    moreover have "(hop f ^^ Suc n) i k" using n(4) step(2) by (simp add: relcompp.relcompI)
    ultimately show ?thesis using n(1) jk by (metis le_trans)
  qed
qed

lemma rx_ends_matches: "i \<le> length s \<Longrightarrow> j \<in> set (rx_ends letter r s i) \<longleftrightarrow> matches letter s r i j"
proof (induction r arbitrary: i j)
  case (Cls p)
  then show ?case by (auto intro: match_cls elim: match_clsE)
next
  case (Cat a b)
  have "k \<le> length s" if "matches letter s a i k" for k using matches_le [OF that] Cat.prems by simp
  then show ?case using Cat by (auto intro: match_cat elim!: match_catE)
next
  case (Alt a b)
  then show ?case by (auto intro: match_left match_right elim: match_altE)
next
  case Boundary
  then show ?case by (auto intro: match_boundary elim: match_boundaryE)
next
  case (Star a)
  let ?f = "rx_ends letter a s"
  have star: "matches letter s (Star a) i k \<longleftrightarrow> (hop ?f)\<^sup>*\<^sup>* i k" if "i \<le> length s" for i k
  proof
    show "(hop ?f)\<^sup>*\<^sup>* i k" if "matches letter s (Star a) i k" using that \<open>i \<le> length s\<close>
    proof (induction "Star a" i k rule: matches.induct)
      case (match_more i j k)
      then have "hop ?f i j" "j \<le> length s" using Star.IH matches_le by (auto simp: hop_def)
      then show ?case using match_more by (meson converse_rtranclp_into_rtranclp)
    qed simp
    show "matches letter s (Star a) i k" if "(hop ?f)\<^sup>*\<^sup>* i k" using that \<open>i \<le> length s\<close>
    proof (induction rule: converse_rtranclp_induct)
      case (step i j)
      then have "matches letter s a i j" using Star.IH by (simp add: hop_def)
      moreover from this have "j \<le> length s" using matches_le step.prems by blast
      ultimately show ?case using step.IH by (blast intro: match_more)
    qed (rule match_stop)
  qed
  have mono: "i' \<le> j' \<and> j' \<le> length s" if "i' \<le> length s" "hop ?f i' j'" for i' j'
    using Star.IH [OF that(1)] that matches_le by (auto simp: hop_def)
  show ?case
  proof
    assume "j \<in> set (rx_ends letter (Star a) s i)"
    then have "(hop ?f)\<^sup>*\<^sup>* i j" using closure_sound [of j ?f "length s" "[i]"] by simp
    then show "matches letter s (Star a) i j" using star [OF Star.prems] by simp
  next
    assume "matches letter s (Star a) i j"
    then have "(hop ?f)\<^sup>*\<^sup>* i j" using star [OF Star.prems] by simp
    from hops_bounded [OF mono this Star.prems] obtain n where "n \<le> j - i" "j \<le> length s" "(hop ?f ^^ n) i j"
      by auto
    then show "j \<in> set (rx_ends letter (Star a) s i)"
      using closure_complete [of n ?f i j "[i]" "length s"] by simp
  qed
qed

lemma search_matches: "search letter r s \<longleftrightarrow> (\<exists>i \<le> length s. \<exists>j. matches letter s r i j)"
proof -
  have "search letter r s \<longleftrightarrow> (\<exists>i \<in> {0..<Suc (length s)}. \<exists>j. j \<in> set (rx_ends letter r s i))"
    unfolding search_def list_ex_iff by (simp del: upt_Suc add: ex_in_conv)
  also have "\<dots> \<longleftrightarrow> (\<exists>i \<le> length s. \<exists>j. matches letter s r i j)"
    by (auto simp: rx_ends_matches less_Suc_eq_le)
  finally show ?thesis .
qed

section \<open>The refused commands\<close>

definition rx_empty :: rx where
  "rx_empty = Star (Cls (\<lambda>_. False))"

definition rx_char :: "nat \<Rightarrow> rx" where
  "rx_char c = Cls (\<lambda>x. x = c)"

fun rx_seq :: "rx list \<Rightarrow> rx" where
  "rx_seq [] = rx_empty"
| "rx_seq [r] = r"
| "rx_seq (r # rs) = Cat r (rx_seq rs)"

definition rx_lit :: "string \<Rightarrow> rx" where
  "rx_lit s = rx_seq (map rx_char (u s))"

definition rx_plus :: "rx \<Rightarrow> rx" where
  "rx_plus r = Cat r (Star r)"

definition rx_not :: "string \<Rightarrow> rx" where \<comment> \<open>a character outside a list\<close>
  "rx_not s = Cls (\<lambda>c. c \<notin> set (u s))"

definition rx_space :: rx where
  "rx_space = Cls is_space"

definition rx_nonspace :: rx where
  "rx_nonspace = Cls (\<lambda>c. \<not> is_space c)"

definition rx_word :: "string \<Rightarrow> rx" where
  "rx_word s = rx_seq [Boundary, rx_lit s, Boundary]"

definition sessions_dir :: rx where
  "sessions_dir = rx_lit ''.sessions/''"

definition deny_patterns :: "rx list" where
  "deny_patterns =
    [rx_seq [Boundary, rx_lit ''rm'', rx_plus rx_space, rx_lit ''-'', Star rx_nonspace,
       Cls (\<lambda>c. c \<in> set (u ''rf'')), Star rx_nonspace, Boundary],
     rx_word ''mkfs'',
     rx_word ''diskpart'',
     rx_seq [Boundary, rx_lit ''dd'', rx_plus rx_space, rx_lit ''if=''],
     rx_seq [rx_lit ''>'', Star rx_space, rx_lit ''/dev/sd''],
     rx_word ''shutdown'',
     rx_word ''reboot'',
     rx_word ''poweroff'',
     rx_seq [rx_lit '':()'', Star rx_space, rx_lit ''{'', Star (Cls (\<lambda>c. c \<noteq> 10)), rx_lit ''};'', Star rx_space, rx_lit '':''],
     rx_seq [rx_lit ''>'', Alt (rx_lit ''>'') rx_empty, Star rx_space, Star rx_nonspace, sessions_dir],
     rx_seq [rx_word ''tee'', Star (rx_not ''|;&<>''), sessions_dir],
     rx_seq [Boundary, Alt (rx_lit ''cp'') (rx_lit ''mv''), Boundary,
       rx_plus (Cat (rx_plus rx_space) (rx_plus (Cls (\<lambda>c. \<not> is_space c \<and> c \<notin> set (u ''|;&<>''))))),
       rx_plus rx_space, Star rx_nonspace, sessions_dir],
     rx_seq [Boundary, rx_lit ''sed'', rx_plus rx_space, rx_lit ''-i'', Star (rx_not ''|;&<>''), sessions_dir]]"

section \<open>The environment of the checks\<close>

text \<open>\<open>OtherError\<close> of a path operation stands for an \<open>OSError\<close>.\<close>

record security_env =
  se_schema :: schema_env
  se_lower :: "ustr \<Rightarrow> ustr"
  se_letter :: "nat \<Rightarrow> bool"
  se_resolve :: "ustr \<Rightarrow> exn + ustr list"
  se_url :: "ustr \<Rightarrow> exn + ustr \<times> ustr"
  se_symlink :: "ustr list \<Rightarrow> bool"
  se_casefold :: "ustr \<Rightarrow> ustr"
  se_cwd :: ustr

definition path_text :: "ustr list \<Rightarrow> ustr" where
  "path_text parts = u ''/'' @ py_join (u ''/'') parts"

definition is_os_error :: "exn \<Rightarrow> bool" where
  "is_os_error e = (case e of PermissionError _ \<Rightarrow> True | TimeoutError \<Rightarrow> True | OtherError _ \<Rightarrow> True | _ \<Rightarrow> False)"

definition is_bad_value :: "exn \<Rightarrow> bool" where
  "is_bad_value e = (case e of ValueError _ \<Rightarrow> True | _ \<Rightarrow> False)"

definition is_key_error :: "exn \<Rightarrow> bool" where
  "is_key_error e = (case e of KeyError _ \<Rightarrow> True | _ \<Rightarrow> False)"

section \<open>Paths\<close>

definition under :: "ustr list \<Rightarrow> ustr list \<Rightarrow> bool" where
  "under path base \<longleftrightarrow> take (length base) path = base"

definition resolve_workspace_path :: "security_env \<Rightarrow> ustr \<Rightarrow> ustr \<Rightarrow> exn + ustr list" where
  "resolve_workspace_path env path workspace =
     (if starts_with path (u ''~'') then Inl (PermissionError txt_no_tilde)
      else bindE (se_resolve env (if starts_with path (u ''/'') then path else workspace @ u ''/'' @ path)) (\<lambda>resolved.
        bindE (se_resolve env workspace) (\<lambda>base.
          if \<not> under resolved base then Inl (PermissionError (u ''path is outside workspace: '' @ path))
          else Inr resolved)))"

definition blocked_devices :: "ustr list" where
  "blocked_devices = map u [''/dev/zero'', ''/dev/random'', ''/dev/urandom'', ''/dev/full'', ''/dev/stdin'',
     ''/dev/stdout'', ''/dev/stderr'', ''/dev/tty'', ''/dev/console'', ''/dev/fd/0'', ''/dev/fd/1'', ''/dev/fd/2'']"

text \<open>\<open>re.match\<close> at the beginning of a text; the end of the pattern is the end of the text or its last newline.\<close>

definition fd_pattern :: "schema_env \<Rightarrow> rx" where
  "fd_pattern env = rx_seq [rx_lit ''/proc/'',
     Alt (rx_lit ''self'') (rx_plus (Cls (\<lambda>c. digit_value env c \<noteq> None))), rx_lit ''/fd/'',
     Cls (\<lambda>c. c \<in> set (u ''012''))]"

definition is_fd_path :: "security_env \<Rightarrow> ustr \<Rightarrow> bool" where
  "is_fd_path env s \<longleftrightarrow> list_ex (\<lambda>j. drop j s = [] \<or> drop j s = [10]) (rx_ends (se_letter env) (fd_pattern (se_schema env)) s 0)"

definition is_blocked_device_path :: "security_env \<Rightarrow> ustr \<Rightarrow> exn + bool" where
  "is_blocked_device_path env raw =
     bindE (case se_resolve env raw of
              Inr parts \<Rightarrow> Inr (path_text parts)
            | Inl e \<Rightarrow> (if is_os_error e \<or> is_bad_value e then Inr raw else Inl e))
       (\<lambda>resolved. Inr (raw \<in> set blocked_devices \<or> resolved \<in> set blocked_devices
          \<or> is_fd_path env raw \<or> is_fd_path env resolved \<or> starts_with resolved (u ''/dev/'')))"

definition is_session_state_path :: "ustr list \<Rightarrow> bool" where
  "is_session_state_path parts \<longleftrightarrow> u ''.sessions'' \<in> set parts"

definition validate_read_path :: "security_env \<Rightarrow> ustr list \<Rightarrow> exn + ustr option" where
  "validate_read_path env path =
     bindE (is_blocked_device_path env (path_text path)) (\<lambda>bad.
       Inr (if bad then Some (txt_refuse_read @ path_text path) else None))"

definition validate_write_path :: "security_env \<Rightarrow> ustr list \<Rightarrow> exn + ustr option" where
  "validate_write_path env path =
     bindE (is_blocked_device_path env (path_text path)) (\<lambda>bad.
       Inr (if bad then Some (txt_refuse_write @ path_text path)
            else if is_session_state_path path then Some (txt_refuse_sessions @ path_text path) else None))"

definition validate_command :: "security_env \<Rightarrow> ustr \<Rightarrow> ustr option" where
  "validate_command env command =
     (if list_ex (\<lambda>p. search (se_letter env) p (se_lower env (py_strip command))) deny_patterns
      then Some txt_command_refused else None)"

definition validate_http_url :: "security_env \<Rightarrow> ustr \<Rightarrow> exn + ustr option" where
  "validate_http_url env url =
     bindE (se_url env url) (\<lambda>(scheme, host).
       Inr (if scheme \<notin> {u ''http'', u ''https''}
            then Some (txt_only_http @ (if scheme = [] then u ''none'' else scheme))
            else if host = [] then Some txt_no_host else None))"

section \<open>The check of a tool call\<close>

definition str_arg :: "security_env \<Rightarrow> (ustr \<times> json) list \<Rightarrow> string \<Rightarrow> exn + ustr" where
  "str_arg env args k = (case dict_get args (u k) of
     None \<Rightarrow> Inl (KeyError (u k)) | Some v \<Rightarrow> Inr (py_str (se_schema env) v))"

definition working_dir :: "security_env \<Rightarrow> (ustr \<times> json) list \<Rightarrow> ustr" where
  "working_dir env args = (case dict_get args (u ''working_dir'') of
     Some v \<Rightarrow> (if py_truthy v then py_str (se_schema env) v else u ''.'') | None \<Rightarrow> u ''.'')"

definition tool_call_rules :: "security_env \<Rightarrow> ustr \<Rightarrow> (ustr \<times> json) list \<Rightarrow> ustr \<Rightarrow> exn + ustr option" where
  "tool_call_rules env name args workspace =
     (if name = u ''read_file'' then
        bindE (str_arg env args ''path'') (\<lambda>p. bindE (resolve_workspace_path env p workspace) (validate_read_path env))
      else if name \<in> {u ''write_file'', u ''edit_file''} then
        bindE (str_arg env args ''path'') (\<lambda>p. bindE (resolve_workspace_path env p workspace) (validate_write_path env))
      else if name = u ''exec'' then
        bindE (resolve_workspace_path env (working_dir env args) workspace) (\<lambda>_.
          bindE (str_arg env args ''command'') (\<lambda>c. Inr (validate_command env c)))
      else if name = u ''web_fetch'' then
        bindE (str_arg env args ''url'') (validate_http_url env)
      else Inr None)"

definition validate_tool_call :: "security_env \<Rightarrow> ustr \<Rightarrow> (ustr \<times> json) list \<Rightarrow> ustr \<Rightarrow> exn + ustr option" where
  "validate_tool_call env name args workspace = (case tool_call_rules env name args workspace of
     Inr r \<Rightarrow> Inr r
   | Inl e \<Rightarrow> (if is_key_error e \<or> is_os_error e \<or> is_bad_value e then Inr (Some (exn_text e)) else Inl e))"

section \<open>The path policy of a worker\<close>

text \<open>The components of a path text: empty ones and single dots are dropped.\<close>

fun split_on :: "nat \<Rightarrow> ustr \<Rightarrow> ustr \<Rightarrow> ustr list" where
  "split_on sep cur [] = [rev cur]"
| "split_on sep cur (c # cs) = (if c = sep then rev cur # split_on sep [] cs else split_on sep (c # cur) cs)"

definition path_parts :: "ustr \<Rightarrow> ustr list" where
  "path_parts p = filter (\<lambda>x. x \<noteq> [] \<and> x \<noteq> u ''.'') (split_on 47 [] p)"

definition raw_candidate :: "path_policy \<Rightarrow> ustr \<Rightarrow> ustr list" where
  "raw_candidate pp path = (if starts_with path (u ''/'') then path_parts path else pp_workspace pp @ path_parts path)"

definition sensitive_names :: "ustr list" where
  "sensitive_names = map u [''settings.local.json'', ''credentials'', ''credentials.json'', ''credentials.yaml'',
     ''credentials.yml'', ''secrets'', ''secrets.json'', ''.credentials'', ''.secrets'', ''.netrc'', ''id_rsa'',
     ''id_ed25519'', ''.npmrc'', ''.pypirc'']"

text \<open>Consecutive components, as the loop over \<open>enumerate(parts[:-1])\<close> sees them.\<close>

definition hides_skill :: "ustr list \<Rightarrow> bool" where
  "hides_skill parts \<longleftrightarrow> list_ex (\<lambda>(a, b). a = u ''.skills'' \<and> b \<in> {u ''.drafts'', u ''.staging''}) (zip parts (tl parts))"

definition part_error :: "ustr list \<Rightarrow> ustr option" where
  "part_error parts =
     (if u ''.sessions'' \<in> set parts then Some txt_worker_sessions
      else if u ''.git'' \<in> set parts then Some txt_worker_git
      else if list_ex (\<lambda>p. p = u ''.env'' \<or> starts_with p (u ''.env.'')) parts then Some txt_worker_env
      else if list_ex (\<lambda>p. p \<in> set sensitive_names \<or> is_substring (u ''credential'') p) parts then Some txt_worker_credentials
      else if hides_skill parts then Some txt_worker_drafts
      else None)"

definition policy_validate :: "security_env \<Rightarrow> path_policy \<Rightarrow> ustr \<Rightarrow> exn + ustr option" where
  "policy_validate env pp path =
     (let raw = raw_candidate pp path in
      if list_ex (\<lambda>n. se_symlink env (take n raw)) [0..<Suc (length raw)] then Inr (Some txt_worker_symlink)
      else bindE (se_resolve env (path_text raw)) (\<lambda>resolved.
        if \<not> under resolved (pp_workspace pp) then Inr (Some txt_worker_outside)
        else if under resolved (pp_data_dir pp) then Inr (Some txt_worker_data_dir)
        else Inr (part_error (map (se_casefold env) (drop (length (pp_workspace pp)) resolved)))))"

section \<open>Bounds of tool arguments and results\<close>

definition truncate_text :: "ustr \<Rightarrow> nat \<Rightarrow> ustr" where
  "truncate_text text limit =
     (if length text \<le> limit then text
      else if limit \<le> 20 then take (limit - 14) text @ u ''... truncated''
      else take (limit div 2) text @ [10, 10] @ u ''... truncated '' @ dec (length text - limit) @ u '' chars ...''
        @ [10, 10] @ last_n (limit div 2) text)"

definition int_of_json :: "schema_env \<Rightarrow> json \<Rightarrow> int option" where
  "int_of_json env v = (case v of JInt i \<Rightarrow> Some i | JBool b \<Rightarrow> Some (if b then 1 else 0)
     | JFloat r \<Rightarrow> Some (if r < 0 then - \<lfloor>- r\<rfloor> else \<lfloor>r\<rfloor>) | JStr t \<Rightarrow> parse_int env t | _ \<Rightarrow> None)"

definition clamp_int :: "schema_env \<Rightarrow> json \<Rightarrow> int \<Rightarrow> int \<Rightarrow> int \<Rightarrow> int" where
  "clamp_int env v def lo hi = max lo (min (case int_of_json env v of Some i \<Rightarrow> i | None \<Rightarrow> def) hi)"

definition is_binary_bytes :: "nat list \<Rightarrow> bool" where
  "is_binary_bytes raw \<longleftrightarrow> 0 \<in> set raw \<or>
     (let sample = take 4096 raw;
          odd = length (filter (\<lambda>b. b < 9 \<or> (13 < b \<and> b < 32)) sample)
      in sample \<noteq> [] \<and> length sample < 5 * odd)"

lemma clamp_int_bounds: "lo \<le> hi \<Longrightarrow> lo \<le> clamp_int env v def lo hi \<and> clamp_int env v def lo hi \<le> hi"
  by (simp add: clamp_int_def)

text \<open>A truncated text is longer than the limit: the notice comes on top of the two halves.\<close>

lemma truncate_text_length:
  assumes "limit < length text" and "20 < limit"
  shows "limit + 27 < length (truncate_text text limit)"
proof -
  define d where "d = length (dec (length text - limit))"
  have "0 < d" by (simp add: d_def dec_nonempty)
  moreover have "limit \<le> limit div 2 + limit div 2 + 1" by simp
  moreover have "length (last_n (limit div 2) text) = limit div 2"
    using assms by (simp add: length_last_n)
  ultimately show ?thesis using assms by (simp add: truncate_text_def d_def [symmetric])
qed

end
