(* ===== verification/ToolRunner.thy ===== *)
theory ToolRunner
  imports ToolSecurity DelegateTool
begin

text \<open>
  How a tool call of the model is run: the executor (\<^verbatim>\<open>tools/executor.py\<close>), the hooks around a call
  (\<^verbatim>\<open>hooks/manager.py\<close>, \<^verbatim>\<open>hooks/tool_permission.py\<close>, \<^verbatim>\<open>hooks/tool_result_truncation.py\<close>,
  \<^verbatim>\<open>hooks/channel_status.py\<close>) and the runner of a batch (\<^verbatim>\<open>runtime/tool_call_runner.py\<close>). What a tool
  answers, what the user decides and what the channel raises are tapes; the state also records which
  tools ran and what was asked and shown. The calls of a parallel batch are run one after another: each
  reads its own answers, so only the order of the log depends on their interleaving.
\<close>

section \<open>Data\<close>

record tool_call =
  tl_id :: ustr
  tl_name :: ustr
  tl_args :: "(ustr \<times> json) list"

text \<open>\<open>ContextAttachment\<close>; a tool may also hand over an object of another class.\<close>

record ctx_attachment =
  ca_source :: json
  ca_messages :: json
  ca_tokens :: json
  ca_kind :: ustr
  ca_verified :: bool

datatype attached = Other_object | Attached ctx_attachment

record tool_output =
  ou_content :: ustr
  ou_metadata :: "(ustr \<times> json) list"
  ou_attachment :: "attached option"

text \<open>The record of a call; a record of a refused call has neither metadata nor attachment.\<close>

record call_record = tool_record +
  cl_metadata :: "(ustr \<times> json) list option"
  cl_attachment :: "attached option"

datatype chan_note = Tool_started ustr ustr "(ustr \<times> json) list" | Tool_finished ustr ustr bool

record bench =
  bn_answers :: "(exn + tool_output) tape"
  bn_approvals :: "(exn + ustr option) tape"
  bn_ticks :: "real tape"
  bn_channel :: "exn option tape"
  bn_shown :: "chan_note list"
  bn_adapters :: "ustr list"
  bn_runs :: "(tool \<times> (ustr \<times> json) list) list"
  bn_asked :: "(tool_call \<times> (exn + ustr option)) list"
  bn_delegation :: "delegation option"

text \<open>The adapter of the turn, or the wrapper a delegation puts around it.\<close>

datatype adapter = Direct | Via_delegation

datatype hook = Permission_hook "ustr list" | Truncation_hook int | Status_hook | Monitor_hook

record runner_env =
  rn_security :: security_env
  rn_registry :: registry
  rn_hooks :: "hook list"
  rn_parallel :: bool
  rn_encode :: "ustr \<Rightarrow> nat list"
  rn_decode :: "nat list \<Rightarrow> ustr"
  rn_coord :: coord_cfg
  rn_can_ask :: bool

section \<open>The executor\<close>

definition read_clock :: "(bench, real) prog" where
  "read_clock b = (Inr (bn_ticks b 0), b\<lparr>bn_ticks := tape_tl (bn_ticks b)\<rparr>)"

definition path_arg :: "security_env \<Rightarrow> (ustr \<times> json) list \<Rightarrow> ustr" where
  "path_arg env args = (case dict_get args (u ''path'') of Some v \<Rightarrow> py_str (se_schema env) v | None \<Rightarrow> u ''.'')"

definition precheck :: "security_env \<Rightarrow> tool \<Rightarrow> (ustr \<times> json) list \<Rightarrow> exn + ustr option" where
  "precheck env t args =
     bindE (case to_policy t of None \<Rightarrow> Inr None | Some pp \<Rightarrow> policy_validate env pp (path_arg env args)) (\<lambda>err.
       if truthy err then Inr err
       else bindE (se_resolve env (case to_workspace t of Some w \<Rightarrow> w | None \<Rightarrow> se_cwd env)) (\<lambda>base.
         validate_tool_call env (to_name t) args (path_text base)))"

definition run_tool :: "tool \<Rightarrow> (ustr \<times> json) list \<Rightarrow> (bench, tool_output) prog" where
  "run_tool t args b =
     (bn_answers b 0, b\<lparr>bn_answers := tape_tl (bn_answers b), bn_runs := bn_runs b @ [(t, args)]\<rparr>)"

definition executor_run :: "security_env \<Rightarrow> tool \<Rightarrow> (ustr \<times> json) list \<Rightarrow> (bench, call_record) prog" where
  "executor_run env t args =
     seq read_clock (\<lambda>started.
     seq (catch
       (seq (lift (precheck env t args)) (\<lambda>err.
          if truthy err
          then ret (txt_tool_word @ to_name t @ txt_security_failed @ the err, err, None, [])
          else seq (run_tool t args) (\<lambda>out. ret (ou_content out, None, ou_attachment out, ou_metadata out))))
       (\<lambda>e. if is_exception e
            then ret (txt_tool_word @ to_name t @ txt_execution_failed @ exn_text e, Some (exn_text e), None, [])
            else raise e)) (\<lambda>(content, err, att, meta).
     seq read_clock (\<lambda>ended.
       ret \<lparr>tr_call_id = None, tr_name = to_name t, tr_args = args, tr_content = content, tr_error = err,
            tr_duration = (ended - started) * 1000, cl_metadata = Some meta, cl_attachment = att\<rparr>)))"

section \<open>Hooks\<close>

text \<open>An exception of a hook is logged and the next hook is called.\<close>

definition guarded :: "'a \<Rightarrow> (bench, 'a) prog \<Rightarrow> (bench, 'a) prog" where
  "guarded def m = catch m (\<lambda>e. if is_exception e then ret def else raise e)"

definition ask_channel :: "tool_call \<Rightarrow> (bench, exn + ustr option) prog" where
  "ask_channel call b = (Inr (bn_approvals b 0), b\<lparr>bn_approvals := tape_tl (bn_approvals b), bn_asked := bn_asked b @ [(call, bn_approvals b 0)]\<rparr>)"

definition on_delegation :: "(delegation, 'a) prog \<Rightarrow> 'a \<Rightarrow> (bench, 'a) prog" where
  "on_delegation m def b = (case bn_delegation b of
     None \<Rightarrow> (Inr def, b)
   | Some d \<Rightarrow> (case m d of (r, d') \<Rightarrow> (r, b\<lparr>bn_delegation := Some d'\<rparr>)))"

definition request_approval :: "runner_env \<Rightarrow> adapter \<Rightarrow> tool_call \<Rightarrow> (bench, ustr option) prog" where
  "request_approval env ad call = (case ad of
     Direct \<Rightarrow> seq (ask_channel call) lift
   | Via_delegation \<Rightarrow>
       seq (on_delegation (set_waiting_iv (rn_coord env) True) ()) (\<lambda>_.
       seq (ask_channel call) (\<lambda>answer.
       seq (on_delegation (set_waiting_iv (rn_coord env) False) ()) (\<lambda>_. lift answer))))"

definition needs_approval :: "runner_env \<Rightarrow> ustr list \<Rightarrow> ustr \<Rightarrow> bool" where
  "needs_approval env required name \<longleftrightarrow> name \<in> set required
     \<or> (case dict_get (rg_tools (rn_registry env)) name of Some t \<Rightarrow> to_approval_required t | None \<Rightarrow> False)"

definition before_tool_call :: "runner_env \<Rightarrow> hook \<Rightarrow> tool_call \<Rightarrow> adapter \<Rightarrow> bool \<Rightarrow> (bench, ustr option) prog" where
  "before_tool_call env h call ad auto = (case h of
     Permission_hook required \<Rightarrow>
       (if auto \<or> \<not> needs_approval env required (tl_name call) then ret None
        else if \<not> rn_can_ask env then ret (Some txt_no_approval_channel)
        else guarded (Some txt_no_approval_channel) (request_approval env ad call))
   | _ \<Rightarrow> ret None)"

fun run_before_tool_call :: "runner_env \<Rightarrow> hook list \<Rightarrow> tool_call \<Rightarrow> adapter \<Rightarrow> bool \<Rightarrow> (bench, ustr option) prog" where
  "run_before_tool_call env [] call ad auto = ret None"
| "run_before_tool_call env (h # hs) call ad auto =
     seq (guarded None (before_tool_call env h call ad auto)) (\<lambda>reason.
       if truthy reason then ret reason else run_before_tool_call env hs call ad auto)"

definition show_note :: "chan_note \<Rightarrow> (bench, unit) prog" where
  "show_note n b = (let b1 = b\<lparr>bn_channel := tape_tl (bn_channel b)\<rparr> in
     case bn_channel b 0 of Some e \<Rightarrow> (Inl e, b1) | None \<Rightarrow> (Inr (), b1\<lparr>bn_shown := bn_shown b @ [n]\<rparr>))"

definition on_tool_started :: "hook \<Rightarrow> tool_call \<Rightarrow> (bench, unit) prog" where
  "on_tool_started h call = (case h of
     Status_hook \<Rightarrow>
       seq (modify (\<lambda>b. b\<lparr>bn_adapters := List.insert (tl_id call) (bn_adapters b)\<rparr>)) (\<lambda>_.
         show_note (Tool_started (tl_id call) (tl_name call) (tl_args call)))
   | _ \<Rightarrow> ret ())"

definition run_tool_started :: "hook list \<Rightarrow> tool_call \<Rightarrow> (bench, unit) prog" where
  "run_tool_started hs call = for_each hs (\<lambda>h. guarded () (on_tool_started h call))"

section \<open>Truncation of results\<close>

definition is_line_end :: "nat \<Rightarrow> bool" where
  "is_line_end c \<longleftrightarrow> (10 \<le> c \<and> c \<le> 13) \<or> (28 \<le> c \<and> c \<le> 30) \<or> c = 133 \<or> c = 8232 \<or> c = 8233"

text \<open>\<open>str.splitlines\<close>: a carriage return and the line feed after it end one line.\<close>

fun lines_of :: "ustr \<Rightarrow> ustr \<Rightarrow> ustr list" where
  "lines_of cur [] = (if cur = [] then [] else [rev cur])"
| "lines_of cur [c] = (if is_line_end c then [rev cur] else [rev (c # cur)])"
| "lines_of cur (c # d # cs) =
     (if c = 13 \<and> d = 10 then rev cur # lines_of [] cs
      else if is_line_end c then rev cur # lines_of [] (d # cs) else lines_of (c # cur) (d # cs))"

definition token_count :: "runner_env \<Rightarrow> ustr \<Rightarrow> int" where
  "token_count env s = content_tokens (\<lambda>t. length (rn_encode env t)) s"

definition fit_token_limit :: "runner_env \<Rightarrow> nat \<Rightarrow> ustr \<Rightarrow> ustr" where
  "fit_token_limit env limit content = rn_decode env (take limit (rn_encode env content))"

definition omitted_notice :: "nat \<Rightarrow> ustr" where
  "omitted_notice n = txt_omitted @ dec n @ txt_omitted_results @ txt_retry_hint @ u '']''"

definition head_text :: "ustr list \<Rightarrow> nat \<Rightarrow> ustr" where
  "head_text selected n = py_join [10] (selected @ [[], omitted_notice n])"

text \<open>The longest run of leading lines that fits.\<close>

fun select_lines :: "runner_env \<Rightarrow> nat \<Rightarrow> nat \<Rightarrow> ustr list \<Rightarrow> ustr list \<Rightarrow> ustr list" where
  "select_lines env limit n selected [] = selected"
| "select_lines env limit n selected (l # ls) =
     (let candidate = selected @ [l] in
      if token_count env (head_text candidate (n - length candidate)) > int limit then selected
      else select_lines env limit n candidate ls)"

definition truncate_head_lines :: "runner_env \<Rightarrow> nat \<Rightarrow> ustr \<Rightarrow> ustr" where
  "truncate_head_lines env limit content =
     (let ls = lines_of [] content; selected = select_lines env limit (length ls) [] ls
      in fit_token_limit env limit (head_text selected (length ls - length selected)))"

definition truncate_tokens :: "runner_env \<Rightarrow> nat \<Rightarrow> ustr \<Rightarrow> bool \<Rightarrow> ustr" where
  "truncate_tokens env limit content tail =
     (let notice = txt_omitted_part @ txt_retry_hint @ u '']'';
          budget = limit - length (rn_encode env ([10, 10] @ notice));
          toks = rn_encode env content;
          kept = (if budget = 0 then []
                  else if tail then last_n budget toks
                  else take (budget div 2) toks @ last_n (budget - budget div 2) toks)
      in fit_token_limit env limit (rn_decode env kept @ [10, 10] @ notice))"

definition with_source_url :: "runner_env \<Rightarrow> tool_call \<Rightarrow> ustr \<Rightarrow> ustr" where
  "with_source_url env call content =
     (if tl_name call \<noteq> u ''web_fetch'' then content
      else let url = (case dict_get (tl_args call) (u ''url'') of Some v \<Rightarrow> py_str (se_schema (rn_security env)) v | None \<Rightarrow> [])
           in if url \<noteq> [] \<and> \<not> is_substring url content then txt_source_url @ url @ [10, 10] @ content else content)"

definition truncate_result :: "runner_env \<Rightarrow> int \<Rightarrow> tool_call \<Rightarrow> ustr \<Rightarrow> ustr" where
  "truncate_result env max_tokens call content0 =
     (let limit = nat (max 1 max_tokens); content = with_source_url env call content0 in
      if token_count env content \<le> int limit then content
      else if tl_name call \<in> {u ''list_dir'', u ''find_file'', u ''grep'', u ''web_search''}
      then truncate_head_lines env limit content
      else if tl_name call \<in> {u ''exec'', u ''write_stdin''} then truncate_tokens env limit content True
      else truncate_tokens env limit content False)"

definition after_tool_call :: "runner_env \<Rightarrow> hook \<Rightarrow> tool_call \<Rightarrow> call_record \<Rightarrow> (bench, call_record) prog" where
  "after_tool_call env h call r = (case h of
     Truncation_hook n \<Rightarrow> ret (r\<lparr>tr_content := truncate_result env n call (tr_content r)\<rparr>)
   | Status_hook \<Rightarrow>
       seq (gets (\<lambda>b. tl_id call \<in> set (bn_adapters b))) (\<lambda>known.
         if \<not> known then ret r
         else seq (modify (\<lambda>b. b\<lparr>bn_adapters := removeAll (tl_id call) (bn_adapters b)\<rparr>)) (\<lambda>_.
           seq (show_note (Tool_finished (tl_id call) (tl_name call) (truthy (tr_error r)))) (\<lambda>_. ret r)))
   | _ \<Rightarrow> ret r)"

fun run_after_tool_call :: "runner_env \<Rightarrow> hook list \<Rightarrow> tool_call \<Rightarrow> call_record \<Rightarrow> (bench, call_record) prog" where
  "run_after_tool_call env [] call r = ret r"
| "run_after_tool_call env (h # hs) call r =
     seq (guarded r (after_tool_call env h call r)) (\<lambda>r'. run_after_tool_call env hs call r')"

section \<open>The runner\<close>

record prepared =
  pc_call :: tool_call
  pc_tool :: "tool option"
  pc_invalid :: "ustr option"
  pc_blocked :: "ustr option"

definition prepare :: "runner_env \<Rightarrow> tool_call \<Rightarrow> ustr list option \<Rightarrow> exn + prepared" where
  "prepare env call allowed =
     (if (case allowed of Some names \<Rightarrow> tl_name call \<notin> set names | None \<Rightarrow> False) then
        Inr \<lparr>pc_call = call, pc_tool = None, pc_invalid = None, pc_blocked = Some txt_channel_blocks\<rparr>
      else bindE (prepare_call (se_schema (rn_security env)) (rn_registry env) (tl_name call) (JObj (tl_args call)))
        (\<lambda>(t, args, err).
          Inr \<lparr>pc_call = call\<lparr>tl_args := args\<rparr>, pc_tool = t, pc_invalid = err, pc_blocked = None\<rparr>))"

definition is_parallel_safe :: "runner_env \<Rightarrow> prepared \<Rightarrow> bool" where
  "is_parallel_safe env p \<longleftrightarrow> rn_parallel env \<and> pc_invalid p = None
     \<and> (case pc_tool p of Some t \<Rightarrow> to_parallel_safe t | None \<Rightarrow> False)"

definition error_record :: "tool_call \<Rightarrow> ustr \<Rightarrow> ustr \<Rightarrow> call_record" where
  "error_record call content err = \<lparr>tr_call_id = None, tr_name = tl_name call, tr_args = tl_args call,
     tr_content = content, tr_error = Some err, tr_duration = 0, cl_metadata = None, cl_attachment = None\<rparr>"

definition finish_call :: "runner_env \<Rightarrow> tool_call \<Rightarrow> call_record \<Rightarrow> (bench, call_record) prog" where
  "finish_call env call r = run_after_tool_call env (rn_hooks env) call (r\<lparr>tr_call_id := Some (tl_id call)\<rparr>)"

definition refuse :: "runner_env \<Rightarrow> tool_call \<Rightarrow> ustr \<Rightarrow> ustr \<Rightarrow> (bench, call_record) prog" where
  "refuse env call word err = finish_call env call (error_record call (txt_tool_word @ tl_name call @ word @ err) err)"

definition execute_prepared :: "runner_env \<Rightarrow> prepared \<Rightarrow> adapter \<Rightarrow> bool \<Rightarrow> (bench, call_record) prog" where
  "execute_prepared env p ad auto =
     (let call = pc_call p in
      if truthy (pc_blocked p) then refuse env call txt_blocked_by_channel (the (pc_blocked p))
      else if truthy (pc_invalid p) then refuse env call txt_bad_arguments (the (pc_invalid p))
      else case pc_tool p of
        None \<Rightarrow> raise AssertionError
      | Some t \<Rightarrow>
          seq (lift (precheck (rn_security env) t (tl_args call))) (\<lambda>err.
            if truthy err then refuse env call txt_security_failed (the err)
            else seq (run_before_tool_call env (rn_hooks env) call ad auto) (\<lambda>reason.
              if truthy reason then refuse env call txt_blocked_by_hook (the reason)
              else seq (run_tool_started (rn_hooks env) call) (\<lambda>_.
                seq (executor_run (rn_security env) t (tl_args call)) (\<lambda>r. finish_call env call r)))))"

fun execute_batch :: "runner_env \<Rightarrow> prepared list \<Rightarrow> adapter \<Rightarrow> bool \<Rightarrow> (bench, call_record list) prog" where
  "execute_batch env [] ad auto = ret []"
| "execute_batch env (p # ps) ad auto =
     seq (execute_prepared env p ad auto) (\<lambda>r. seq (execute_batch env ps ad auto) (\<lambda>rs. ret (r # rs)))"

fun execute_loop ::
  "runner_env \<Rightarrow> tool_call list \<Rightarrow> prepared list \<Rightarrow> adapter \<Rightarrow> bool \<Rightarrow> ustr list option \<Rightarrow> (bench, call_record list) prog"
where
  "execute_loop env [] batch ad auto allowed = execute_batch env batch ad auto"
| "execute_loop env (c # cs) batch ad auto allowed =
     seq (lift (prepare env c allowed)) (\<lambda>p.
       if is_parallel_safe env p then execute_loop env cs (batch @ [p]) ad auto allowed
       else seq (execute_batch env batch ad auto) (\<lambda>rs.
         seq (execute_prepared env p ad auto) (\<lambda>r.
         seq (execute_loop env cs [] ad auto allowed) (\<lambda>rest. ret (rs @ [r] @ rest)))))"

definition execute_calls ::
  "runner_env \<Rightarrow> tool_call list \<Rightarrow> adapter \<Rightarrow> bool \<Rightarrow> ustr list option \<Rightarrow> (bench, call_record list) prog" where
  "execute_calls env calls ad auto allowed = execute_loop env calls [] ad auto allowed"

text \<open>The configuration of approvals is checked when the runtime is built.\<close>

definition validate_tool_permission_tools :: "registry \<Rightarrow> ustr list \<Rightarrow> ustr list \<Rightarrow> exn + unit" where
  "validate_tool_permission_tools rg configured allowed_unregistered =
     (case List.find (\<lambda>n. \<not> has_tool n rg \<and> n \<notin> set allowed_unregistered) configured of
        Some n \<Rightarrow> Inl (ValueError (txt_approval_unregistered @ n))
      | None \<Rightarrow>
          (case List.find (\<lambda>n. case dict_get (rg_tools rg) n of Some t \<Rightarrow> to_parallel_safe t | None \<Rightarrow> False)
             (configured @ filter (\<lambda>n. case dict_get (rg_tools rg) n of Some t \<Rightarrow> to_approval_required t | None \<Rightarrow> False)
                (tool_names rg)) of
             Some n \<Rightarrow> Inl (ValueError (txt_approval_parallel @ n))
           | None \<Rightarrow> Inr ()))"

end
