(* ===== verification/ToolFacts.thy ===== *)
theory ToolFacts
  imports ToolRunner
begin

text \<open>
  What the runner leaves behind. A bench keeps a journal of the tools that ran and of the approvals
  that were asked for; every operation only appends to it, and an entry of the journal is traced back
  to the checks that preceded it.
\<close>

section \<open>The journal\<close>

definition journal :: "bench \<Rightarrow> (tool \<times> (ustr \<times> json) list) list \<times> (tool_call \<times> (exn + ustr option)) list" where
  "journal b = (bn_runs b, bn_asked b)"

text \<open>\<open>logs P b b'\<close>: the entries added between the two states satisfy \<open>P\<close>.\<close>

definition logs ::
  "((tool \<times> (ustr \<times> json) list) list \<Rightarrow> (tool_call \<times> (exn + ustr option)) list \<Rightarrow> bool) \<Rightarrow> bench \<Rightarrow> bench \<Rightarrow> bool" where
  "logs P b b' \<longleftrightarrow> (\<exists>runs asks. bn_runs b' = bn_runs b @ runs \<and> bn_asked b' = bn_asked b @ asks \<and> P runs asks)"

lemma logsI: "bn_runs b' = bn_runs b @ runs \<Longrightarrow> bn_asked b' = bn_asked b @ asks \<Longrightarrow> P runs asks \<Longrightarrow> logs P b b'"
  unfolding logs_def by blast

lemma logs_silent: "journal b' = journal b \<Longrightarrow> P [] [] \<Longrightarrow> logs P b b'"
  by (auto simp: logs_def journal_def)

lemma logs_mono: "logs P b b' \<Longrightarrow> (\<And>runs asks. P runs asks \<Longrightarrow> Q runs asks) \<Longrightarrow> logs Q b b'"
  unfolding logs_def by blast

lemma logs_trans:
  "logs P b b1 \<Longrightarrow> logs Q b1 b2 \<Longrightarrow> (\<And>r1 a1 r2 a2. P r1 a1 \<Longrightarrow> Q r2 a2 \<Longrightarrow> R (r1 @ r2) (a1 @ a2)) \<Longrightarrow> logs R b b2"
  unfolding logs_def by (metis append_assoc)

text \<open>The programs that leave the journal alone.\<close>

definition silent :: "(bench, 'a) prog \<Rightarrow> bool" where
  "silent m \<longleftrightarrow> (\<forall>j. keeps (\<lambda>b. journal b = j) m)"

named_theorems silent_rules "programs that leave the journal alone"

lemma silentD: "silent m \<Longrightarrow> journal (snd (m b)) = journal b"
  unfolding silent_def by (blast dest: keepsD)

lemma silentD': "silent m \<Longrightarrow> m b = (r, b') \<Longrightarrow> journal b' = journal b"
  using silentD [of m b] by simp

lemma silentI: "(\<And>b. journal (snd (m b)) = journal b) \<Longrightarrow> silent m"
  unfolding silent_def by (auto intro: keepsI)

lemma silent_seq [silent_rules]: "silent m \<Longrightarrow> (\<And>a. silent (f a)) \<Longrightarrow> silent (seq m f)"
  unfolding silent_def by (auto intro: keeps_seq)

lemma silent_catch [silent_rules]: "silent m \<Longrightarrow> (\<And>e. silent (h e)) \<Longrightarrow> silent (catch m h)"
  unfolding silent_def by (auto intro: keeps_catch)

lemma silent_basic [silent_rules]:
  "silent (ret a)" "silent (raise e)" "silent (lift r)" "silent (gets f)" "silent read_clock" "silent (show_note n)"
  by (auto intro!: silentI simp: prog_simps read_clock_def show_note_def journal_def Let_def split: option.split)

lemma silent_if [silent_rules]: "silent m \<Longrightarrow> silent n \<Longrightarrow> silent (if b then m else n)"
  by simp

lemma silent_for_each [silent_rules]: "(\<And>x. silent (f x)) \<Longrightarrow> silent (for_each xs f)"
  by (induction xs) (auto intro: silent_rules)

lemma silent_modify: "(\<And>b. journal (f b) = journal b) \<Longrightarrow> silent (modify f)"
  by (auto intro: silentI simp: prog_simps)

lemma silent_guarded [silent_rules]: "silent m \<Longrightarrow> silent (guarded def m)"
  unfolding guarded_def by (intro silent_rules)

lemma silent_on_delegation [silent_rules]: "silent (on_delegation m def)"
  by (rule silentI) (auto simp: on_delegation_def journal_def split: option.split prod.split)

lemma silent_started [silent_rules]: "silent (run_tool_started hs call)"
proof -
  have "silent (on_tool_started h call)" for h
    by (cases h) (auto simp: on_tool_started_def journal_def intro!: silent_rules silent_modify)
  then show ?thesis unfolding run_tool_started_def by (intro silent_rules)
qed

lemma silent_after [silent_rules]: "silent (run_after_tool_call env hs call r)"
proof (induction hs arbitrary: r)
  case (Cons h hs)
  have "silent (after_tool_call env h call r)"
    by (cases h) (auto simp: after_tool_call_def journal_def intro!: silent_rules silent_modify)
  then show ?case using Cons by (auto intro: silent_rules)
qed (auto intro: silent_rules)

lemma silent_finish [silent_rules]: "silent (finish_call env call r)" "silent (refuse env call w e)"
  by (auto simp: finish_call_def refuse_def intro: silent_rules)

section \<open>Approvals\<close>

text \<open>The channel was asked for this very call and did not give a reason against it.\<close>

definition consented :: "tool_call \<Rightarrow> (tool_call \<times> (exn + ustr option)) list \<Rightarrow> bool" where
  "consented call asks \<longleftrightarrow> (\<exists>answer. (call, Inr answer) \<in> set asks \<and> \<not> truthy answer)"

lemma consented_append [simp]: "consented call (xs @ ys) \<longleftrightarrow> consented call xs \<or> consented call ys"
  by (auto simp: consented_def)

definition passed :: "runner_env \<Rightarrow> bool \<Rightarrow> tool_call \<Rightarrow> hook list \<Rightarrow> (tool_call \<times> (exn + ustr option)) list \<Rightarrow> bool" where
  "passed env auto call hs asks \<longleftrightarrow>
     (\<forall>required. Permission_hook required \<in> set hs \<longrightarrow> auto \<or> \<not> needs_approval env required (tl_name call)
        \<or> consented call asks)"

lemma passed_mono: "passed env auto call hs xs \<Longrightarrow> passed env auto call hs (xs @ ys)"
  "passed env auto call hs ys \<Longrightarrow> passed env auto call hs (xs @ ys)"
  by (auto simp: passed_def)

lemma request_approval_log:
  assumes "request_approval env ad call b = (r, b')"
  shows "logs (\<lambda>runs asks. runs = [] \<and> (\<forall>answer. r = Inr answer \<longrightarrow> \<not> truthy answer \<longrightarrow> consented call asks)) b b'"
proof (cases ad)
  case Direct
  then show ?thesis using assms
    by (auto simp: request_approval_def ask_channel_def seq_def lift_def consented_def intro!: logsI [where asks = "[_]"])
next
  case Via_delegation
  define set_wait where "set_wait w = on_delegation (set_waiting_iv (rn_coord env) w) ()" for w
  have quiet: "silent (set_wait w)" for w by (simp add: set_wait_def silent_on_delegation)
  have eq: "seq (set_wait True) (\<lambda>_. seq (ask_channel call) (\<lambda>answer. seq (set_wait False) (\<lambda>_. lift answer))) b = (r, b')"
    using assms Via_delegation by (simp add: request_approval_def set_wait_def)
  then show ?thesis
  proof (rule seq_cases)
    fix e assume "set_wait True b = (Inl e, b')" "r = Inl e"
    then show ?thesis using silentD' [OF quiet] by (auto intro: logs_silent)
  next
    fix x b1 assume one: "set_wait True b = (Inr x, b1)"
      and rest: "seq (ask_channel call) (\<lambda>answer. seq (set_wait False) (\<lambda>_. lift answer)) b1 = (r, b')"
    have j1: "journal b1 = journal b" by (rule silentD' [OF quiet one])
    define b2 where "b2 = snd (ask_channel call b1)"
    have two: "seq (set_wait False) (\<lambda>_. lift (bn_approvals b1 0)) b2 = (r, b')"
      using rest by (simp add: seq_def [of "ask_channel call"] ask_channel_def b2_def)
    have j2: "bn_runs b2 = bn_runs b" "bn_asked b2 = bn_asked b @ [(call, bn_approvals b1 0)]"
      using j1 by (simp_all add: b2_def ask_channel_def journal_def)
    have j3: "journal b' = journal b2" using two by (rule silentD' [rotated]) (intro silent_rules quiet)
    have "r = Inr answer \<Longrightarrow> bn_approvals b1 0 = Inr answer" for answer
      using two by (rule seq_cases) (auto simp: lift_def)
    then show ?thesis using j2 j3
      by (auto simp: journal_def consented_def intro!: logsI [where asks = "[_]"])
  qed
qed

lemma before_log:
  assumes "before_tool_call env h call ad auto b = (r, b')"
  shows "logs (\<lambda>runs asks. runs = [] \<and> (\<forall>reason. r = Inr reason \<longrightarrow> \<not> truthy reason \<longrightarrow> passed env auto call [h] asks)) b b'"
    and "r = Inl e \<Longrightarrow> \<not> is_exception e"
proof -
  have blocked: "truthy (Some txt_no_approval_channel)" by (simp add: truthy_def txt_no_approval_channel_def)
  have "logs (\<lambda>runs asks. runs = [] \<and> (\<forall>reason. r = Inr reason \<longrightarrow> \<not> truthy reason \<longrightarrow> passed env auto call [h] asks)) b b'
      \<and> (\<forall>e. r = Inl e \<longrightarrow> \<not> is_exception e)"
  proof (cases "\<exists>required. h = Permission_hook required \<and> \<not> auto \<and> needs_approval env required (tl_name call) \<and> rn_can_ask env")
    case True
    then have "guarded (Some txt_no_approval_channel) (request_approval env ad call) b = (r, b')"
      using assms by (auto simp: before_tool_call_def)
    then show ?thesis unfolding guarded_def
    proof (rule catch_cases)
      fix e b1 assume e: "request_approval env ad call b = (Inl e, b1)"
        "(if is_exception e then ret (Some txt_no_approval_channel) else raise e) b1 = (r, b')"
      then have "b' = b1" "r = (if is_exception e then Inr (Some txt_no_approval_channel) else Inl e)"
        by (auto simp: ret_def raise_def split: if_splits)
      then show ?thesis using request_approval_log [OF e(1)] blocked by (auto elim: logs_mono split: if_splits)
    next
      fix a assume "request_approval env ad call b = (Inr a, b')" "r = Inr a"
      then show ?thesis using request_approval_log [of env ad call b] by (auto elim!: logs_mono simp: passed_def)
    qed
  next
    case False
    then have "b' = b" "r = Inr None \<and> passed env auto call [h] [] \<or> r = Inr (Some txt_no_approval_channel)"
      using assms by (cases h; auto simp: before_tool_call_def ret_def passed_def split: if_splits)+
    then show ?thesis using blocked by (auto intro: logs_silent)
  qed
  then show "logs (\<lambda>runs asks. runs = [] \<and> (\<forall>reason. r = Inr reason \<longrightarrow> \<not> truthy reason \<longrightarrow> passed env auto call [h] asks)) b b'"
    and "r = Inl e \<Longrightarrow> \<not> is_exception e" by auto
qed

lemma run_before_log:
  assumes "run_before_tool_call env hs call ad auto b = (r, b')"
  shows "logs (\<lambda>runs asks. runs = [] \<and> (\<forall>reason. r = Inr reason \<longrightarrow> \<not> truthy reason \<longrightarrow> passed env auto call hs asks)) b b'"
  using assms
proof (induction hs arbitrary: b)
  case Nil
  then show ?case by (auto simp: ret_def passed_def intro: logs_silent)
next
  case (Cons h hs)
  define k where "k = (\<lambda>reason. if truthy reason then ret reason else run_before_tool_call env hs call ad auto)"
  from Cons.prems have "seq (guarded None (before_tool_call env h call ad auto)) k b = (r, b')"
    by (simp add: k_def)
  then show ?case
  proof (rule seq_cases)
    fix e assume "guarded None (before_tool_call env h call ad auto) b = (Inl e, b')" "r = Inl e"
    then have "before_tool_call env h call ad auto b = (Inl e, b')"
      unfolding guarded_def by (auto elim!: catch_cases simp: ret_def raise_def split: if_splits)
    from before_log(1) [OF this] show ?thesis using \<open>r = Inl e\<close> by (auto elim: logs_mono)
  next
    fix reason b1 assume g: "guarded None (before_tool_call env h call ad auto) b = (Inr reason, b1)" and rest: "k reason b1 = (r, b')"
    have one: "before_tool_call env h call ad auto b = (Inr reason, b1)"
      using g unfolding guarded_def
      by (rule catch_cases) (auto dest: before_log(2) simp: ret_def raise_def split: if_splits)
    show ?thesis
    proof (cases "truthy reason")
      case True
      then have "r = Inr reason" "b' = b1" using rest by (simp_all add: k_def ret_def)
      then show ?thesis using before_log(1) [OF one] True by (auto elim: logs_mono)
    next
      case False
      then have "run_before_tool_call env hs call ad auto b1 = (r, b')" using rest by (simp add: k_def)
      show ?thesis
        by (rule logs_trans [OF before_log(1) [OF one] Cons.IH [OF \<open>run_before_tool_call env hs call ad auto b1 = (r, b')\<close>]])
          (use False in \<open>auto simp: passed_def\<close>)
    qed
  qed
qed

section \<open>What runs\<close>

text \<open>The executor runs a tool once, and only if its own check finds nothing.\<close>

definition harmless :: "security_env \<Rightarrow> tool \<times> (ustr \<times> json) list \<Rightarrow> bool" where
  "harmless env run \<longleftrightarrow> (\<exists>err. precheck env (fst run) (snd run) = Inr err \<and> \<not> truthy err)"

lemma executor_log:
  assumes "executor_run env t args b = (r, b')"
  shows "logs (\<lambda>runs asks. asks = [] \<and> (runs = [] \<or> runs = [(t, args)] \<and> harmless env (t, args))) b b'"
proof -
  let ?P = "\<lambda>runs asks. asks = [] \<and> (runs = [] \<or> runs = [(t, args)] \<and> harmless env (t, args))"
  define body where "body = (\<lambda>err. if truthy err
      then ret (txt_tool_word @ to_name t @ txt_security_failed @ the err, err, None, [])
      else seq (run_tool t args) (\<lambda>out. ret (ou_content out, None, ou_attachment out, ou_metadata out)))"
  define handler :: "exn \<Rightarrow> (bench, ustr \<times> ustr option \<times> attached option \<times> (ustr \<times> json) list) prog"
    where "handler = (\<lambda>e. if is_exception e
      then ret (txt_tool_word @ to_name t @ txt_execution_failed @ exn_text e, Some (exn_text e), None, [])
      else raise e)"
  have quiet: "silent (handler e)" for e by (simp add: handler_def silent_rules)
  have inner: "logs ?P b1 b2" if "catch (seq (lift (precheck env t args)) body) handler b1 = (x, b2)" for b1 b2 x
  proof (cases "precheck env t args")
    case (Inl e)
    then have "handler e b1 = (x, b2)" using that by (simp add: catch_def seq_def lift_def)
    then show ?thesis using silentD' [OF quiet] by (auto intro: logs_silent)
  next
    case (Inr err)
    then have run: "catch (body err) handler b1 = (x, b2)" using that by (simp add: catch_def seq_def lift_def)
    show ?thesis
    proof (cases "truthy err")
      case True
      then have "silent (catch (body err) handler)" by (simp add: body_def) (intro silent_rules quiet)
      from silentD' [OF this run] show ?thesis by (auto intro: logs_silent)
    next
      case False
      then have "bn_runs b2 = bn_runs b1 @ [(t, args)] \<and> bn_asked b2 = bn_asked b1"
        using run by (auto simp: body_def catch_def seq_def run_tool_def ret_def raise_def handler_def
            split: prod.splits sum.splits if_splits)
      then show ?thesis using Inr False by (auto simp: harmless_def intro!: logsI [where runs = "[_]"])
    qed
  qed
  have last: "silent (seq read_clock (\<lambda>ended. ret (z ended)))" for z :: "real \<Rightarrow> call_record"
    by (intro silent_rules)
  show ?thesis
    using assms unfolding executor_run_def body_def [symmetric] handler_def [symmetric]
  proof (rule seq_cases)
    fix e assume "read_clock b = (Inl e, b')"
    then show ?thesis by (simp add: read_clock_def)
  next
    fix t0 b1 assume "read_clock b = (Inr t0, b1)"
      and rest: "seq (catch (seq (lift (precheck env t args)) body) handler) (\<lambda>(content, err, att, meta). seq read_clock (\<lambda>ended.
        ret \<lparr>tr_call_id = None, tr_name = to_name t, tr_args = args, tr_content = content, tr_error = err,
          tr_duration = (ended - t0) * 1000, cl_metadata = Some meta, cl_attachment = att\<rparr>)) b1 = (r, b')"
    then have j: "journal b1 = journal b" by (auto simp: read_clock_def journal_def)
    from rest have "logs ?P b1 b'"
    proof (rule seq_cases)
      fix e assume "catch (seq (lift (precheck env t args)) body) handler b1 = (Inl e, b')"
      then show ?thesis by (rule inner)
    next
      fix y b2 assume one: "catch (seq (lift (precheck env t args)) body) handler b1 = (Inr y, b2)"
        and two: "(case y of (content, err, att, meta) \<Rightarrow> seq read_clock (\<lambda>ended.
        ret \<lparr>tr_call_id = None, tr_name = to_name t, tr_args = args, tr_content = content, tr_error = err,
          tr_duration = (ended - t0) * 1000, cl_metadata = Some meta, cl_attachment = att\<rparr>)) b2 = (r, b')"
      have "journal b' = journal b2" using two by (cases y) (auto dest: silentD' [OF last])
      then show ?thesis using inner [OF one] by (auto simp: logs_def journal_def)
    qed
    then show ?thesis using j by (auto simp: logs_def journal_def)
  qed
qed

text \<open>A tool ran for a prepared call.\<close>

definition ran_for :: "runner_env \<Rightarrow> bool \<Rightarrow> prepared \<Rightarrow> tool \<times> (ustr \<times> json) list \<Rightarrow> (tool_call \<times> (exn + ustr option)) list \<Rightarrow> bool" where
  "ran_for env auto p run asks \<longleftrightarrow> pc_tool p = Some (fst run) \<and> snd run = tl_args (pc_call p)
     \<and> \<not> truthy (pc_blocked p) \<and> \<not> truthy (pc_invalid p) \<and> harmless (rn_security env) run
     \<and> passed env auto (pc_call p) (rn_hooks env) asks"

lemma prepared_log:
  assumes "execute_prepared env p ad auto b = (r, b')"
  shows "logs (\<lambda>runs asks. runs = [] \<or> (\<exists>run. runs = [run] \<and> ran_for env auto p run asks)) b b'"
proof (cases "truthy (pc_blocked p) \<or> truthy (pc_invalid p) \<or> pc_tool p = None")
  case True
  then have "silent (execute_prepared env p ad auto)"
    by (auto simp: execute_prepared_def Let_def intro: silent_rules split: option.split)
  from silentD' [OF this assms] show ?thesis by (auto intro: logs_silent)
next
  case False
  then obtain t where t: "pc_tool p = Some t" by auto
  let ?call = "pc_call p" and ?sec = "rn_security env"
  define go where "go = seq (run_tool_started (rn_hooks env) ?call) (\<lambda>_.
      seq (executor_run ?sec t (tl_args ?call)) (finish_call env ?call))"
  define after_ask where "after_ask = (\<lambda>reason. if truthy reason then refuse env ?call txt_blocked_by_hook (the reason) else go)"
  have go: "logs (\<lambda>runs asks. asks = [] \<and> (runs = [] \<or> runs = [(t, tl_args ?call)] \<and> harmless ?sec (t, tl_args ?call))) b1 b2"
    if "go b1 = (x, b2)" for b1 b2 x
    using that unfolding go_def
    by (elim seq_cases) (auto dest!: silentD' [OF silent_started] silentD' [OF silent_finish(1)] executor_log
        simp: logs_def journal_def)
  have "seq (lift (precheck ?sec t (tl_args ?call))) (\<lambda>err.
      if truthy err then refuse env ?call txt_security_failed (the err)
      else seq (run_before_tool_call env (rn_hooks env) ?call ad auto) after_ask) b = (r, b')"
    using assms False t unfolding go_def after_ask_def by (simp add: execute_prepared_def Let_def)
  then show ?thesis
  proof (rule seq_cases)
    fix e assume "lift (precheck ?sec t (tl_args ?call)) b = (Inl e, b')"
    then show ?thesis by (auto simp: lift_def intro: logs_silent)
  next
    fix err b1 assume "lift (precheck ?sec t (tl_args ?call)) b = (Inr err, b1)"
      and rest: "(if truthy err then refuse env ?call txt_security_failed (the err)
        else seq (run_before_tool_call env (rn_hooks env) ?call ad auto) after_ask) b1 = (r, b')"
    then have b1: "b1 = b" by (simp add: lift_def)
    show ?thesis
    proof (cases "truthy err")
      case True
      then show ?thesis using rest b1 silentD' [OF silent_finish(2)] by (auto intro: logs_silent)
    next
      case False
      then have "seq (run_before_tool_call env (rn_hooks env) ?call ad auto) after_ask b = (r, b')" using rest b1 by simp
      then show ?thesis
      proof (rule seq_cases)
        fix e assume "run_before_tool_call env (rn_hooks env) ?call ad auto b = (Inl e, b')"
        from run_before_log [OF this] show ?thesis by (auto elim: logs_mono)
      next
        fix reason b2 assume one: "run_before_tool_call env (rn_hooks env) ?call ad auto b = (Inr reason, b2)"
          and two: "after_ask reason b2 = (r, b')"
        show ?thesis
        proof (cases "truthy reason")
          case True
          then have "journal b' = journal b2" using two silentD' [OF silent_finish(2)] by (auto simp: after_ask_def)
          then show ?thesis using run_before_log [OF one] by (auto simp: logs_def journal_def)
        next
          case f: False
          then have "go b2 = (r, b')" using two by (simp add: after_ask_def)
          from logs_trans [OF run_before_log [OF one] go [OF this]] f \<open>\<not> (_ \<or> _ \<or> _)\<close> t show ?thesis
            by (auto simp: ran_for_def)
        qed
      qed
    qed
  qed
qed

section \<open>Validation messages\<close>

text \<open>No message is empty, so an invalid call is always refused.\<close>

definition spoken :: "exn + ustr list \<Rightarrow> bool" where
  "spoken r \<longleftrightarrow> (\<forall>es. r = Inr es \<longrightarrow> list_all (\<lambda>t. t \<noteq> []) es)"

named_theorems spoken_rules "results without empty messages"

lemma spoken_basic [spoken_rules]: "spoken (Inl e)" "spoken (Inr [])" "t \<noteq> [] \<Longrightarrow> spoken (Inr [t])"
  by (simp_all add: spoken_def)

lemma spoken_if [spoken_rules]: "(c \<Longrightarrow> spoken a) \<Longrightarrow> (\<not> c \<Longrightarrow> spoken b) \<Longrightarrow> spoken (if c then a else b)"
  by simp

lemma spoken_choice [spoken_rules]: "t \<noteq> [] \<Longrightarrow> spoken (Inr (if c then [] else [t]))" "t \<noteq> [] \<Longrightarrow> spoken (Inr (if c then [t] else []))"
  by (simp_all add: spoken_def)

lemma spoken_option [spoken_rules]:
  "(x = None \<Longrightarrow> spoken a) \<Longrightarrow> (\<And>y. x = Some y \<Longrightarrow> spoken (f y)) \<Longrightarrow> spoken (case x of None \<Rightarrow> a | Some y \<Rightarrow> f y)"
  by (cases x) auto

lemma spoken_both [spoken_rules]: "spoken a \<Longrightarrow> spoken b \<Longrightarrow> spoken (both a b)"
  by (auto simp: spoken_def both_def bindE_eq_Inr)

lemma spoken_bind: "(\<And>x. spoken (f x)) \<Longrightarrow> spoken (bindE r f)"
  by (cases r) (auto intro: spoken_basic)

lemma spoken_map:
  assumes "\<And>x. x \<in> set xs \<Longrightarrow> spoken (f x)"
  shows "spoken (bindE (mapE f xs) (\<lambda>es. Inr (concat es)))"
proof -
  have "list_all (\<lambda>t. t \<noteq> []) ys" if "mapE f xs = Inr es" "ys \<in> set es" for es ys
  proof -
    from that(1) have two: "list_all2 (\<lambda>x y. f x = Inr y) xs es" by (simp add: mapE_Inr)
    from that(2) obtain i where i: "i < length es" "es ! i = ys" by (auto simp: in_set_conv_nth)
    then have "f (xs ! i) = Inr ys" "xs ! i \<in> set xs"
      using list_all2_nthD2 [OF two i(1)] list_all2_lengthD [OF two] by simp_all
    then show ?thesis using assms unfolding spoken_def by blast
  qed
  then show ?thesis unfolding spoken_def bindE_eq_Inr list_all_iff by fastforce
qed

lemma spoken_bound [spoken_rules]: "(\<And>t. msg t \<noteq> []) \<Longrightarrow> spoken (bound_error env s key violates msg)"
  by (auto simp: bound_error_def spoken_def split: option.splits)

lemma spoken_messages [spoken_rules]:
  "spoken (enum_errors env v s label)" "spoken (range_errors env v s label)" "spoken (length_errors env v s label)"
  by (auto simp: enum_errors_def range_errors_def length_errors_def split: json.split split del: if_split
      intro!: spoken_rules spoken_bind)

lemma spoken_missing [spoken_rules]: "spoken (missing_errors env args s)"
  unfolding missing_errors_def by (rule spoken_bind, rule spoken_map) (auto intro: spoken_rules)

lemma spoken_value: "spoken (validate_value env v s path)"
proof (induction env v s path rule: validate_value.induct)
  case (1 env v s path)
  show ?case
    by (subst validate_value.simps)
      (auto simp: Let_def intro!: spoken_rules spoken_bind spoken_map 1 split: option.split json.split split del: if_split)
qed

lemma spoken_args: "spoken (validate_args env a s)"
  by (auto simp: validate_args_def intro!: spoken_rules spoken_map spoken_value split: json.split option.split)

section \<open>The runs of a batch\<close>

text \<open>A run of a call: the channel allows the tool, it is registered, its arguments are the cast ones and
  valid, the security check finds nothing, and the approvals it needs were given.\<close>

definition licensed ::
  "runner_env \<Rightarrow> bool \<Rightarrow> ustr list option \<Rightarrow> tool_call \<Rightarrow> tool \<times> (ustr \<times> json) list
     \<Rightarrow> (tool_call \<times> (exn + ustr option)) list \<Rightarrow> bool" where
  "licensed env auto allowed call run asks \<longleftrightarrow>
     (\<forall>names. allowed = Some names \<longrightarrow> tl_name call \<in> set names)
     \<and> dict_get (rg_tools (rn_registry env)) (tl_name call) = Some (fst run)
     \<and> snd run = cast_args (se_schema (rn_security env)) (tl_args call) (effective_schema (fst run))
     \<and> validate_args (se_schema (rn_security env)) (JObj (snd run)) (effective_schema (fst run)) = Inr []
     \<and> harmless (rn_security env) run
     \<and> passed env auto (call\<lparr>tl_args := snd run\<rparr>) (rn_hooks env) asks"

lemma licensed_more: "licensed env auto allowed c run xs \<Longrightarrow> licensed env auto allowed c run (xs @ ys)"
  "licensed env auto allowed c run ys \<Longrightarrow> licensed env auto allowed c run (xs @ ys)"
  by (auto simp: licensed_def passed_mono)

lemma py_join_spoken: "list_all (\<lambda>t. t \<noteq> []) es \<Longrightarrow> py_join sep es = [] \<longleftrightarrow> es = []"
  by (rule py_join_Nil_iff) (simp add: list_all_iff)

lemma ran_licensed:
  assumes p: "prepare env c allowed = Inr p" and ran: "ran_for env auto p run asks"
  shows "licensed env auto allowed c run asks"
proof -
  let ?sv = "se_schema (rn_security env)"
  have open_call: "\<forall>names. allowed = Some names \<longrightarrow> tl_name c \<in> set names"
  proof (rule ccontr)
    assume "\<not> ?thesis"
    then have "pc_blocked p = Some txt_channel_blocks" using p by (auto simp: prepare_def)
    then show False using ran by (simp add: ran_for_def truthy_def txt_channel_blocks_def)
  qed
  then obtain t args err where prep: "prepare_call ?sv (rn_registry env) (tl_name c) (JObj (tl_args c)) = Inr (t, args, err)"
    and pp: "p = \<lparr>pc_call = c\<lparr>tl_args := args\<rparr>, pc_tool = t, pc_invalid = err, pc_blocked = None\<rparr>"
    using p by (auto simp: prepare_def bindE_eq_Inr split: option.splits if_splits)
  have t: "t = Some (fst run)" "snd run = args" "\<not> truthy err" using ran pp by (auto simp: ran_for_def)
  then have get: "dict_get (rg_tools (rn_registry env)) (tl_name c) = Some (fst run)"
    using prep by (auto simp: prepare_call_def Let_def bindE_eq_Inr split: option.splits)
  then obtain errors where "args = cast_args ?sv (tl_args c) (effective_schema (fst run))"
    and v: "validate_args ?sv (JObj args) (effective_schema (fst run)) = Inr errors"
    and e: "err = (if errors = [] then None else Some (py_join txt_semicolon errors))"
    using prep t(1) by (auto simp: prepare_call_def Let_def bindE_eq_Inr)
  moreover have "errors = []"
    using t(3) e py_join_spoken spoken_args v by (auto simp: truthy_def spoken_def split: if_splits)
  ultimately show ?thesis using open_call get t(2) ran pp by (simp add: licensed_def ran_for_def)
qed

definition all_licensed ::
  "runner_env \<Rightarrow> bool \<Rightarrow> ustr list option \<Rightarrow> tool_call list \<Rightarrow> (tool \<times> (ustr \<times> json) list) list
     \<Rightarrow> (tool_call \<times> (exn + ustr option)) list \<Rightarrow> bool" where
  "all_licensed env auto allowed calls runs asks \<longleftrightarrow>
     (\<forall>run \<in> set runs. \<exists>c \<in> set calls. licensed env auto allowed c run asks)"

lemma all_licensed_append:
  assumes "all_licensed env auto allowed xs r1 a1" and "all_licensed env auto allowed ys r2 a2"
    and "set xs \<subseteq> set zs" and "set ys \<subseteq> set zs"
  shows "all_licensed env auto allowed zs (r1 @ r2) (a1 @ a2)"
  using assms unfolding all_licensed_def by (auto intro: licensed_more) (meson licensed_more subsetD)+

lemma one_licensed:
  assumes "prepare env c allowed = Inr p" and "execute_prepared env p ad auto b = (r, b')" and "c \<in> set calls"
  shows "logs (all_licensed env auto allowed calls) b b'"
proof (rule logs_mono [OF prepared_log [OF assms(2)]])
  fix runs asks assume "runs = [] \<or> (\<exists>run. runs = [run] \<and> ran_for env auto p run asks)"
  then show "all_licensed env auto allowed calls runs asks"
    using ran_licensed [OF assms(1)] assms(3) unfolding all_licensed_def by fastforce
qed

lemma licensed_trans:
  "logs (all_licensed env auto allowed calls) b b1 \<Longrightarrow> logs (all_licensed env auto allowed calls) b1 b2
     \<Longrightarrow> logs (all_licensed env auto allowed calls) b b2"
  by (rule logs_trans [where P = "all_licensed env auto allowed calls" and Q = "all_licensed env auto allowed calls"])
    (auto intro: all_licensed_append)

text \<open>A batch holds prepared calls of the round.\<close>

definition batch_of :: "runner_env \<Rightarrow> ustr list option \<Rightarrow> tool_call list \<Rightarrow> prepared list \<Rightarrow> bool" where
  "batch_of env allowed calls ps \<longleftrightarrow> (\<forall>p \<in> set ps. \<exists>c \<in> set calls. prepare env c allowed = Inr p)"

lemma batch_licensed:
  "execute_batch env ps ad auto b = (r, b') \<Longrightarrow> batch_of env allowed calls ps \<Longrightarrow> logs (all_licensed env auto allowed calls) b b'"
proof (induction ps arbitrary: b r)
  case Nil
  then show ?case by (auto simp: ret_def all_licensed_def intro: logs_silent)
next
  case (Cons p ps)
  obtain c where c: "c \<in> set calls" "prepare env c allowed = Inr p" using Cons.prems(2) by (auto simp: batch_of_def)
  have rest: "batch_of env allowed calls ps" using Cons.prems(2) by (simp add: batch_of_def)
  from Cons.prems(1) have "seq (execute_prepared env p ad auto) (\<lambda>r. seq (execute_batch env ps ad auto) (\<lambda>rs. ret (r # rs))) b = (r, b')"
    by simp
  then show ?case
  proof (rule seq_cases)
    fix e assume "execute_prepared env p ad auto b = (Inl e, b')"
    then show ?thesis by (rule one_licensed [OF c(2) _ c(1)])
  next
    fix x b1 assume one: "execute_prepared env p ad auto b = (Inr x, b1)"
      and two: "seq (execute_batch env ps ad auto) (\<lambda>rs. ret (x # rs)) b1 = (r, b')"
    obtain y where "execute_batch env ps ad auto b1 = (y, b')" using two by (rule seq_cases) (auto simp: ret_def)
    from licensed_trans [OF one_licensed [OF c(2) one c(1)] Cons.IH [OF this rest]] show ?thesis .
  qed
qed

lemma loop_licensed:
  "execute_loop env cs batch ad auto allowed b = (r, b') \<Longrightarrow> batch_of env allowed calls batch \<Longrightarrow> set cs \<subseteq> set calls
     \<Longrightarrow> logs (all_licensed env auto allowed calls) b b'"
proof (induction cs arbitrary: batch b r)
  case Nil
  then show ?case by (simp add: batch_licensed)
next
  case (Cons c cs)
  have c: "c \<in> set calls" and cs: "set cs \<subseteq> set calls" using Cons.prems(3) by auto
  show ?case
  proof (cases "prepare env c allowed")
    case (Inl e)
    then show ?thesis using Cons.prems(1)
      by (auto simp: seq_def lift_def all_licensed_def intro: logs_silent)
  next
    case (Inr p)
    show ?thesis
    proof (cases "is_parallel_safe env p")
      case True
      then have "execute_loop env cs (batch @ [p]) ad auto allowed b = (r, b')"
        using Cons.prems(1) Inr by (simp add: seq_def lift_def)
      moreover have "batch_of env allowed calls (batch @ [p])" using Cons.prems(2) Inr c by (auto simp: batch_of_def)
      ultimately show ?thesis using Cons.IH cs by blast
    next
      case False
      then have "seq (execute_batch env batch ad auto) (\<lambda>rs. seq (execute_prepared env p ad auto) (\<lambda>r.
          seq (execute_loop env cs [] ad auto allowed) (\<lambda>rest. ret (rs @ [r] @ rest)))) b = (r, b')"
        using Cons.prems(1) Inr by (simp add: seq_def [of "lift _"] lift_def)
      then show ?thesis
      proof (rule seq_cases)
        fix e assume "execute_batch env batch ad auto b = (Inl e, b')"
        then show ?thesis by (rule batch_licensed [OF _ Cons.prems(2)])
      next
        fix rs b1 assume one: "execute_batch env batch ad auto b = (Inr rs, b1)"
          and "seq (execute_prepared env p ad auto) (\<lambda>r.
            seq (execute_loop env cs [] ad auto allowed) (\<lambda>rest. ret (rs @ [r] @ rest))) b1 = (r, b')"
        from this(2) have "logs (all_licensed env auto allowed calls) b1 b'"
        proof (rule seq_cases)
          fix e assume "execute_prepared env p ad auto b1 = (Inl e, b')"
          then show ?thesis by (rule one_licensed [OF Inr _ c])
        next
          fix x b2 assume two: "execute_prepared env p ad auto b1 = (Inr x, b2)"
            and "seq (execute_loop env cs [] ad auto allowed) (\<lambda>rest. ret (rs @ [x] @ rest)) b2 = (r, b')"
          then obtain y where "execute_loop env cs [] ad auto allowed b2 = (y, b')"
            by (auto elim!: seq_cases simp: ret_def)
          from licensed_trans [OF one_licensed [OF Inr two c] Cons.IH [OF this _ cs]] show ?thesis
            by (simp add: batch_of_def)
        qed
        from licensed_trans [OF batch_licensed [OF one Cons.prems(2)] this] show ?thesis .
      qed
    qed
  qed
qed

end
