(* ===== verification/ToolProps.thy ===== *)
theory ToolProps
  imports ToolFacts
begin

text \<open>
  The properties of tool calls: what a call must have passed before its tool runs, and how the records
  answer the calls.
\<close>

section \<open>Records answer calls\<close>

definition answers_call :: "tool_call \<Rightarrow> call_record \<Rightarrow> bool" where
  "answers_call c r \<longleftrightarrow> tr_call_id r = Some (tl_id c)"

lemma after_keeps_id:
  "run_after_tool_call env hs call r b = (Inr r', b') \<Longrightarrow> tr_call_id r' = tr_call_id r \<and> tr_name r' = tr_name r"
proof (induction hs arbitrary: r b)
  case Nil
  then show ?case by (simp add: ret_def)
next
  case (Cons h hs)
  from Cons.prems have "seq (guarded r (after_tool_call env h call r)) (\<lambda>r'. run_after_tool_call env hs call r') b = (Inr r', b')"
    by simp
  then obtain r1 b1 where one: "guarded r (after_tool_call env h call r) b = (Inr r1, b1)"
    and "run_after_tool_call env hs call r1 b1 = (Inr r', b')"
    by (rule seq_cases) auto
  from Cons.IH [OF this(2)] have "tr_call_id r' = tr_call_id r1 \<and> tr_name r' = tr_name r1" .
  moreover have "tr_call_id r1 = tr_call_id r \<and> tr_name r1 = tr_name r"
    using one by (cases h) (auto simp: guarded_def after_tool_call_def catch_def seq_def prog_simps
        split: sum.splits prod.splits if_splits)
  ultimately show ?case by simp
qed

lemma finish_answers:
  "finish_call env call r b = (Inr r', b') \<Longrightarrow> answers_call call r'"
  unfolding finish_call_def by (drule after_keeps_id) (simp add: answers_call_def)

lemma prepared_answers:
  assumes "execute_prepared env p ad auto b = (Inr r, b')"
  shows "answers_call (pc_call p) r"
  using assms unfolding execute_prepared_def refuse_def Let_def
  by (auto split: if_splits option.splits elim!: seq_cases simp: raise_def) (erule finish_answers)+

lemma prepare_id: "prepare env c allowed = Inr p \<Longrightarrow> tl_id (pc_call p) = tl_id c"
  by (auto simp: prepare_def bindE_eq_Inr split: if_splits option.splits)

lemma batch_answers:
  "execute_batch env ps ad auto b = (Inr rs, b') \<Longrightarrow> list_all2 answers_call (map pc_call ps) rs"
proof (induction ps arbitrary: b rs)
  case Nil
  then show ?case by (simp add: ret_def)
next
  case (Cons p ps)
  from Cons.prems have "seq (execute_prepared env p ad auto) (\<lambda>r. seq (execute_batch env ps ad auto) (\<lambda>rs. ret (r # rs))) b = (Inr rs, b')"
    by simp
  then obtain r b1 rest where "execute_prepared env p ad auto b = (Inr r, b1)"
    and "execute_batch env ps ad auto b1 = (Inr rest, b')" and "rs = r # rest"
    by (auto elim!: seq_cases simp: ret_def)
  then show ?case using Cons.IH prepared_answers by auto
qed

lemma answers_same_id: "tl_id c = tl_id d \<Longrightarrow> answers_call c r = answers_call d r"
  by (simp add: answers_call_def)

lemma loop_answers:
  "execute_loop env cs batch ad auto allowed b = (Inr rs, b')
     \<Longrightarrow> list_all2 answers_call (map pc_call batch @ cs) rs"
proof (induction cs arbitrary: batch b rs)
  case Nil
  then show ?case by (simp add: batch_answers)
next
  case (Cons c cs)
  show ?case
  proof (cases "prepare env c allowed")
    case (Inl e)
    then show ?thesis using Cons.prems by (simp add: seq_def lift_def)
  next
    case (Inr p)
    note id = answers_same_id [OF prepare_id [OF Inr]]
    show ?thesis
    proof (cases "is_parallel_safe env p")
      case True
      then have "execute_loop env cs (batch @ [p]) ad auto allowed b = (Inr rs, b')"
        using Cons.prems Inr by (simp add: seq_def lift_def)
      from Cons.IH [OF this] show ?thesis
        by (auto simp: list_all2_append1 list_all2_Cons1 id)
    next
      case False
      then have "seq (execute_batch env batch ad auto) (\<lambda>rs. seq (execute_prepared env p ad auto) (\<lambda>r.
          seq (execute_loop env cs [] ad auto allowed) (\<lambda>rest. ret (rs @ [r] @ rest)))) b = (Inr rs, b')"
        using Cons.prems Inr by (simp add: seq_def [of "lift _"] lift_def)
      then obtain rs1 b1 r b2 rest where "execute_batch env batch ad auto b = (Inr rs1, b1)"
        and "execute_prepared env p ad auto b1 = (Inr r, b2)"
        and "execute_loop env cs [] ad auto allowed b2 = (Inr rest, b')" and "rs = rs1 @ [r] @ rest"
        by (auto elim!: seq_cases simp: ret_def)
      then show ?thesis
        using Cons.IH [of "[]"] batch_answers prepared_answers id by (fastforce intro!: list_all2_appendI)
    qed
  qed
qed

section \<open>A bench of two calls\<close>

definition demo_tool :: tool where
  "demo_tool = \<lparr>to_object = 1, to_name = u ''count'', to_description = u ''counts'',
     to_schema = [(u ''type'', JStr (u ''object'')),
       (u ''properties'', JObj [(u ''n'', JObj [(u ''type'', JStr (u ''integer''))])]),
       (u ''required'', JArr [JStr (u ''n'')])],
     to_parallel_safe = False, to_approval_required = True, to_read_only = False, to_trusted = False,
     to_workspace = Some (u ''/w''), to_has_policy = False, to_policy = None\<rparr>"

definition demo_security :: security_env where
  "demo_security = \<lparr>se_schema = \<lparr>sv_str = (\<lambda>j. u ''text''), sv_digit = (\<lambda>c. if 48 \<le> c \<and> c \<le> 57 then Some (c - 48) else None),
       sv_float = (\<lambda>t. None), sv_type_error = u ''unhashable''\<rparr>,
     se_lower = (\<lambda>t. t), se_letter = (\<lambda>c. 97 \<le> c \<and> c \<le> 122), se_resolve = (\<lambda>p. Inr (path_parts p)),
     se_url = (\<lambda>t. Inr (u ''http'', t)), se_symlink = (\<lambda>p. False), se_casefold = (\<lambda>t. t), se_cwd = u ''/''\<rparr>"

definition bench_env :: runner_env where
  "bench_env = \<lparr>rn_security = demo_security, rn_registry = register_tool demo_tool empty_registry,
     rn_hooks = [Permission_hook [], Truncation_hook 100, Status_hook], rn_parallel = True,
     rn_encode = (\<lambda>t. t), rn_decode = (\<lambda>t. t),
     rn_coord = \<lparr>has_sink = False, per_run_limit = 1, global_limit = 1, run_timeout = 10, worker_timeout = 5,
       worker_result_limit = 10, parent_result_limit = 20, max_context = 100, enc = length,
       alnum = ascii_alnum, repr_float = (\<lambda>_. u ''0.0'')\<rparr>,
     rn_can_ask = True\<rparr>"

definition demo_output :: tool_output where
  "demo_output = \<lparr>ou_content = u ''seven'', ou_metadata = [], ou_attachment = None\<rparr>"

definition demo_bench :: bench where
  "demo_bench = \<lparr>bn_answers = (\<lambda>_. Inr demo_output), bn_approvals = (\<lambda>_. Inr None), bn_ticks = (\<lambda>_. 0),
     bn_channel = (\<lambda>_. None), bn_shown = [], bn_adapters = [], bn_runs = [], bn_asked = [], bn_delegation = None\<rparr>"

definition demo_calls :: "tool_call list" where
  "demo_calls = [\<lparr>tl_id = u ''c1'', tl_name = u ''count'', tl_args = [(u ''n'', JStr (u ''7''))]\<rparr>,
     \<lparr>tl_id = u ''c2'', tl_name = u ''ghost'', tl_args = []\<rparr>]"

definition demo_result :: "(exn + call_record list) \<times> bench" where
  "demo_result = execute_calls bench_env demo_calls Direct False None demo_bench"

lemma demo_runs: "bn_runs (snd demo_result) = [(demo_tool, [(u ''n'', JInt 7)])]"
  by code_simp

lemma demo_records: "map_sum id (map (\<lambda>r. (tr_call_id r, tr_error r = None))) (fst demo_result)
    = Inr [(Some (u ''c1''), True), (Some (u ''c2''), False)]"
  by code_simp

section \<open>Properties\<close>

text \<open>C29: Whatever a round of tool calls does, each tool that ran answers a call of the round that names
  it: the channel allows the call, the tool is the registered one, its arguments are the normalised
  ones and satisfy its schema, the security check finds nothing, and, if the call needs an approval,
  approvals are automatic or the channel was asked for this very call and gave no reason against it.\<close>

theorem only_licensed_tools_run:
  assumes "execute_calls env calls ad auto allowed b = (r, b')"
  shows "\<exists>runs asks. bn_runs b' = bn_runs b @ runs \<and> bn_asked b' = bn_asked b @ asks
    \<and> (\<forall>run \<in> set runs. \<exists>c \<in> set calls. licensed env auto allowed c run asks)"
  using loop_licensed [OF assms [unfolded execute_calls_def], of calls]
  by (simp add: logs_def all_licensed_def batch_of_def)

theorem only_licensed_tools_run_witness:
  "\<exists>c \<in> set demo_calls. licensed bench_env False None c (demo_tool, [(u ''n'', JInt 7)]) (bn_asked (snd demo_result))"
proof -
  have "execute_calls bench_env demo_calls Direct False None demo_bench = (fst demo_result, snd demo_result)"
    by (simp add: demo_result_def)
  from only_licensed_tools_run [OF this] show ?thesis by (auto simp: demo_runs demo_bench_def)
qed

text \<open>A round that returns has one record for each call, in the order of the calls, whether the call
  ran, failed or was refused, in a parallel batch or alone.\<close>

theorem records_answer_calls:
  assumes "execute_calls env calls ad auto allowed b = (Inr rs, b')"
  shows "map tr_call_id rs = map (\<lambda>c. Some (tl_id c)) calls"
  using loop_answers [OF assms [unfolded execute_calls_def]]
  by (simp add: list_all2_conv_all_nth answers_call_def list_eq_iff_nth_eq)

theorem records_answer_calls_witness: "\<exists>rs. fst demo_result = Inr rs \<and> map tr_call_id rs = [Some (u ''c1''), Some (u ''c2'')]"
proof -
  obtain rs where rs: "fst demo_result = Inr rs" using demo_records by (cases "fst demo_result") auto
  then have "execute_calls bench_env demo_calls Direct False None demo_bench = (Inr rs, snd demo_result)"
    by (metis demo_result_def prod.collapse)
  from records_answer_calls [OF this] show ?thesis using rs by (simp add: demo_calls_def)
qed

end
