(* ===== verification/Attachments.thy ===== *)
theory Attachments
  imports ToolRunner
begin

text \<open>
  What a tool may add to the context of a turn (\<^verbatim>\<open>tools/context_attachment.py\<close>) and the budgets of a
  turn (\<^verbatim>\<open>runtime/attachment_manager.py\<close>): the kind, the roles, the declared number of tokens, the
  number and size of loaded skills, and the context that would be sent next.
\<close>

section \<open>Attachments\<close>

record attach_cfg =
  at_build :: build_env
  at_schema :: schema_env
  at_mcp_limit :: int
  at_max_context :: int
  at_max_skills :: int
  at_max_skill_tokens :: int
  at_max_loaded_tokens :: int

abbreviation at_count :: "attach_cfg \<Rightarrow> ustr \<Rightarrow> int" where
  "at_count cfg \<equiv> content_tokens (be_enc (at_build cfg))"

text \<open>\<open>isinstance(x, int)\<close> holds for a truth value too.\<close>

definition int_value :: "json \<Rightarrow> int option" where
  "int_value v = (case v of JInt i \<Rightarrow> Some i | JBool b \<Rightarrow> Some (if b then 1 else 0) | _ \<Rightarrow> None)"

definition allowed_roles :: "ctx_attachment \<Rightarrow> ustr list" where
  "allowed_roles a = [u ''user'', u ''assistant'']
     @ (if ca_kind a = u ''skill'' \<and> ca_verified a \<and> (case ca_source a of JStr s \<Rightarrow> starts_with s (u ''skill:'') | _ \<Rightarrow> False)
        then [u ''system''] else [])"

definition text_of :: "json \<Rightarrow> ustr option" where
  "text_of m = (case jget m (u ''content'') of Some (JStr t) \<Rightarrow> Some t | _ \<Rightarrow> None)"

text \<open>A role that cannot be hashed raises when it is looked up in the set of roles.\<close>

definition bad_message :: "attach_cfg \<Rightarrow> ustr list \<Rightarrow> json \<Rightarrow> exn + bool" where
  "bad_message cfg roles m = (case m of
     JObj kvs \<Rightarrow>
       (let role = (case dict_get kvs (u ''role'') of Some r \<Rightarrow> r | None \<Rightarrow> JNull) in
        if \<not> hashable role then Inl (TypeError (sv_type_error (at_schema cfg)))
        else Inr (\<not> list_ex (\<lambda>r. role = JStr r) roles \<or> text_of m = None))
   | _ \<Rightarrow> Inr True)"

fun any_bad_message :: "attach_cfg \<Rightarrow> ustr list \<Rightarrow> json list \<Rightarrow> exn + bool" where
  "any_bad_message cfg roles [] = Inr False"
| "any_bad_message cfg roles (m # ms) =
     bindE (bad_message cfg roles m) (\<lambda>bad. if bad then Inr True else any_bad_message cfg roles ms)"

definition messages_tokens :: "attach_cfg \<Rightarrow> json list \<Rightarrow> int" where
  "messages_tokens cfg ms = sum_list (map (\<lambda>m. case text_of m of Some t \<Rightarrow> at_count cfg t | None \<Rightarrow> 0) ms)"

definition validate_context_attachment :: "attach_cfg \<Rightarrow> attached option \<Rightarrow> int \<Rightarrow> int \<Rightarrow> exn + ustr option" where
  "validate_context_attachment cfg att used limit = (case att of
     None \<Rightarrow> Inr None
   | Some Other_object \<Rightarrow> Inr (Some txt_att_format)
   | Some (Attached a) \<Rightarrow> (case (ca_source a, ca_messages a) of
       (JStr _, JArr ms) \<Rightarrow>
         (if ca_kind a \<notin> {u ''mcp'', u ''skill''} then Inr (Some txt_att_kind)
          else case int_value (ca_tokens a) of
            None \<Rightarrow> Inr (Some txt_att_format)
          | Some n \<Rightarrow>
              (if n < 0 then Inr (Some txt_att_format)
               else bindE (any_bad_message cfg (allowed_roles a) ms) (\<lambda>bad.
                 Inr (if bad then Some txt_att_roles
                      else if messages_tokens cfg ms \<noteq> n then Some txt_att_count
                      else if used + n > limit then Some (txt_att_total @ show_int limit @ txt_tokens_restriction)
                      else None))))
     | _ \<Rightarrow> Inr (Some txt_att_format)))"

section \<open>Budgets of a turn\<close>

record attach_state =
  am_schema_tokens :: int
  am_mcp_tokens :: int
  am_skill_names :: "ustr list"
  am_skill_tokens :: int

definition new_attachments :: "attach_cfg \<Rightarrow> json list \<Rightarrow> attach_state" where
  "new_attachments cfg tools = \<lparr>am_schema_tokens = tool_schema_tokens (at_build cfg) tools, am_mcp_tokens = 0,
     am_skill_names = [], am_skill_tokens = 0\<rparr>"

definition validate_skill :: "attach_cfg \<Rightarrow> attach_state \<Rightarrow> (ustr \<times> json) list option \<Rightarrow> ctx_attachment \<Rightarrow> ustr option" where
  "validate_skill cfg st metadata a = (case metadata of
     None \<Rightarrow> Some txt_skill_no_metadata
   | Some md \<Rightarrow> (case dict_get md (u ''loaded_skill_name'') of
       Some (JStr name) \<Rightarrow>
         (if ca_source a \<noteq> JStr (u ''skill:'' @ name) then Some txt_skill_source
          else case Option.bind (dict_get md (u ''loaded_skill_token_count'')) int_value of
            None \<Rightarrow> Some txt_skill_tokens_bad
          | Some body \<Rightarrow>
              (if body < 0 then Some txt_skill_tokens_bad
               else if int (length (am_skill_names st)) \<ge> at_max_skills cfg then
                 Some (txt_skill_at_most @ show_int (at_max_skills cfg) @ txt_skill_word)
               else if body > at_max_skill_tokens cfg then
                 Some (txt_skill_single @ show_int (at_max_skill_tokens cfg) @ txt_tokens_restriction)
               else if am_skill_tokens st + body > at_max_loaded_tokens cfg then
                 Some (txt_skill_total @ show_int (at_max_loaded_tokens cfg) @ txt_tokens_restriction)
               else None))
     | _ \<Rightarrow> Some txt_skill_source))"

text \<open>The tokens of the messages to be sent: a content that is no text counts as it is printed.\<close>

definition working_tokens :: "attach_cfg \<Rightarrow> json list \<Rightarrow> int" where
  "working_tokens cfg ms = sum_list (map (\<lambda>m. at_count cfg
     (case jget m (u ''content'') of Some v \<Rightarrow> py_str (at_schema cfg) v | None \<Rightarrow> [])) ms)"

definition validate_context_budget :: "attach_cfg \<Rightarrow> attach_state \<Rightarrow> int \<Rightarrow> json list \<Rightarrow> ustr option" where
  "validate_context_budget cfg st n msgs =
     (if working_tokens cfg msgs + am_schema_tokens st + n > at_max_context cfg
      then Some (txt_att_context @ show_int (at_max_context cfg) @ txt_tokens_restriction) else None)"

definition token_value :: "ctx_attachment \<Rightarrow> int" where
  "token_value a = (case int_value (ca_tokens a) of Some n \<Rightarrow> n | None \<Rightarrow> 0)"

definition check_attachment ::
  "attach_cfg \<Rightarrow> attach_state \<Rightarrow> attached option \<Rightarrow> call_record \<Rightarrow> json list \<Rightarrow> exn + ustr option" where
  "check_attachment cfg st att r msgs = (case att of
     None \<Rightarrow> Inr None
   | Some ob \<Rightarrow>
       (let mcp = (case ob of Attached a \<Rightarrow> ca_kind a = u ''mcp'' | Other_object \<Rightarrow> True) in
        bindE (validate_context_attachment cfg att (if mcp then am_mcp_tokens st else 0)
            (if mcp then at_mcp_limit cfg else at_max_context cfg)) (\<lambda>err.
          case (err, ob) of
            (Some e, _) \<Rightarrow> Inr (Some e)
          | (None, Other_object) \<Rightarrow> Inl AssertionError
          | (None, Attached a) \<Rightarrow>
              (case (if ca_kind a = u ''skill'' then validate_skill cfg st (cl_metadata r) a else None) of
                 Some e \<Rightarrow> Inr (Some e)
               | None \<Rightarrow> Inr (validate_context_budget cfg st (token_value a) msgs)))))"

definition attached_messages :: "ctx_attachment \<Rightarrow> json list" where
  "attached_messages a = (case ca_messages a of JArr ms \<Rightarrow> ms | _ \<Rightarrow> [])"

definition meta_value :: "call_record \<Rightarrow> string \<Rightarrow> exn + json" where
  "meta_value r k = (case cl_metadata r of
     None \<Rightarrow> Inl (KeyError (u ''metadata''))
   | Some md \<Rightarrow> (case dict_get md (u k) of Some v \<Rightarrow> Inr v | None \<Rightarrow> Inl (KeyError (u k))))"

definition commit_attachment ::
  "attach_cfg \<Rightarrow> attach_state \<Rightarrow> attached option \<Rightarrow> call_record \<Rightarrow> json list \<Rightarrow> exn + attach_state \<times> json list" where
  "commit_attachment cfg st att r msgs = (case att of
     None \<Rightarrow> Inr (st, msgs)
   | Some Other_object \<Rightarrow> Inl AssertionError
   | Some (Attached a) \<Rightarrow>
       (if ca_kind a = u ''mcp'' then
          Inr (st\<lparr>am_mcp_tokens := am_mcp_tokens st + token_value a\<rparr>, msgs @ attached_messages a)
        else
          bindE (meta_value r ''loaded_skill_name'') (\<lambda>name.
          bindE (meta_value r ''loaded_skill_token_count'') (\<lambda>body.
            case int_of_json (at_schema cfg) body of
              None \<Rightarrow> Inl (TypeError (sv_type_error (at_schema cfg)))
            | Some n \<Rightarrow> Inr (st\<lparr>am_skill_names := am_skill_names st @ [py_str (at_schema cfg) name],
                  am_skill_tokens := am_skill_tokens st + n\<rparr>, msgs @ attached_messages a)))))"

section \<open>Facts\<close>

text \<open>The budgets that hold after any number of attachments.\<close>

definition within_budgets :: "attach_cfg \<Rightarrow> attach_state \<Rightarrow> bool" where
  "within_budgets cfg st \<longleftrightarrow> (am_mcp_tokens st \<noteq> 0 \<longrightarrow> am_mcp_tokens st \<le> at_mcp_limit cfg)
     \<and> int (length (am_skill_names st)) \<le> max 0 (at_max_skills cfg)
     \<and> (am_skill_tokens st \<noteq> 0 \<longrightarrow> am_skill_tokens st \<le> at_max_loaded_tokens cfg)
     \<and> 0 \<le> am_mcp_tokens st \<and> 0 \<le> am_skill_tokens st"

lemma new_within: "within_budgets cfg (new_attachments cfg tools)"
  by (simp add: within_budgets_def new_attachments_def)

lemma no_bad_texts:
  "any_bad_message cfg roles ms = Inr False \<Longrightarrow> m \<in> set ms \<Longrightarrow> \<exists>t. text_of m = Some t"
proof (induction ms)
  case (Cons x xs)
  then show ?case
    by (auto simp: bindE_eq_Inr bad_message_def Let_def split: if_splits json.splits)
qed simp

lemma messages_tokens_working:
  assumes "any_bad_message cfg roles ms = Inr False"
  shows "working_tokens cfg ms = messages_tokens cfg ms"
proof -
  have "(case jget m (u ''content'') of Some v \<Rightarrow> py_str (at_schema cfg) v | None \<Rightarrow> []) = t" if "text_of m = Some t" for m t
    using that by (auto simp: text_of_def py_str_def split: option.splits json.splits)
  then have "map (\<lambda>m. at_count cfg (case jget m (u ''content'') of Some v \<Rightarrow> py_str (at_schema cfg) v | None \<Rightarrow> [])) ms
      = map (\<lambda>m. case text_of m of Some t \<Rightarrow> at_count cfg t | None \<Rightarrow> 0) ms"
    using no_bad_texts [OF assms] by (force intro!: map_cong)
  then show ?thesis by (simp only: working_tokens_def messages_tokens_def)
qed

lemma validated_attachment:
  assumes "validate_context_attachment cfg (Some (Attached a)) used limit = Inr None"
  shows "used + token_value a \<le> limit" "0 \<le> token_value a"
    "working_tokens cfg (attached_messages a) = token_value a"
    "any_bad_message cfg (allowed_roles a) (attached_messages a) = Inr False"
    "ca_kind a = u ''mcp'' \<or> ca_kind a = u ''skill''"
  using assms messages_tokens_working
  by (auto simp: validate_context_attachment_def token_value_def attached_messages_def bindE_eq_Inr
      split: json.splits if_splits option.splits)

lemma checked_attachment:
  assumes "check_attachment cfg st (Some (Attached a)) r msgs = Inr None"
  shows "validate_context_attachment cfg (Some (Attached a)) (if ca_kind a = u ''mcp'' then am_mcp_tokens st else 0)
      (if ca_kind a = u ''mcp'' then at_mcp_limit cfg else at_max_context cfg) = Inr None"
    "ca_kind a = u ''skill'' \<Longrightarrow> validate_skill cfg st (cl_metadata r) a = None"
    "validate_context_budget cfg st (token_value a) msgs = None"
  using assms by (auto simp: check_attachment_def bindE_eq_Inr Let_def split: option.splits if_splits)

lemma skill_facts:
  assumes "validate_skill cfg st (cl_metadata r) a = None"
  obtains name body where "meta_value r ''loaded_skill_name'' = Inr (JStr name)"
    and "meta_value r ''loaded_skill_token_count'' = Inr body" and "ca_source a = JStr (u ''skill:'' @ name)"
    and "int_of_json (at_schema cfg) body = int_value body" and "\<exists>n. int_value body = Some n \<and> 0 \<le> n
      \<and> n \<le> at_max_skill_tokens cfg \<and> am_skill_tokens st + n \<le> at_max_loaded_tokens cfg"
    and "int (length (am_skill_names st)) < at_max_skills cfg"
  using assms
  by (auto simp: validate_skill_def meta_value_def int_of_json_def int_value_def bind_eq_Some_conv not_le not_less
      split: option.splits if_splits json.splits)

text \<open>A checked attachment can be committed, and keeps every budget and the limit of the context.\<close>

lemma commit_ok:
  assumes "check_attachment cfg st (Some (Attached a)) r msgs = Inr None" and "within_budgets cfg st"
  obtains st' where "commit_attachment cfg st (Some (Attached a)) r msgs = Inr (st', msgs @ attached_messages a)"
    and "within_budgets cfg st'" and "am_schema_tokens st' = am_schema_tokens st"
    and "working_tokens cfg (msgs @ attached_messages a) + am_schema_tokens st' \<le> at_max_context cfg"
proof (cases "ca_kind a = u ''mcp''")
  note c = checked_attachment [OF assms(1)]
  note v = validated_attachment [OF c(1)]
  have total: "working_tokens cfg (msgs @ attached_messages a) + am_schema_tokens st \<le> at_max_context cfg"
    using c(3) v(3) by (simp add: validate_context_budget_def working_tokens_def split: if_splits)
  case True
  then show ?thesis using that [of "st\<lparr>am_mcp_tokens := am_mcp_tokens st + token_value a\<rparr>"] v(1,2) total assms(2)
    by (simp add: commit_attachment_def within_budgets_def)
next
  note c = checked_attachment [OF assms(1)]
  note v = validated_attachment [OF c(1)]
  have total: "working_tokens cfg (msgs @ attached_messages a) + am_schema_tokens st \<le> at_max_context cfg"
    using c(3) v(3) by (simp add: validate_context_budget_def working_tokens_def split: if_splits)
  case False
  then have "validate_skill cfg st (cl_metadata r) a = None" using v(5) c(2) by auto
  then obtain name body n where "meta_value r ''loaded_skill_name'' = Inr (JStr name)"
    and "meta_value r ''loaded_skill_token_count'' = Inr body" "int_of_json (at_schema cfg) body = Some n" "0 \<le> n"
    and "am_skill_tokens st + n \<le> at_max_loaded_tokens cfg" "int (length (am_skill_names st)) < at_max_skills cfg"
    by (elim skill_facts exE conjE) auto
  then show ?thesis using False total assms(2)
      that [of "st\<lparr>am_skill_names := am_skill_names st @ [py_str (at_schema cfg) (JStr name)], am_skill_tokens := am_skill_tokens st + n\<rparr>"]
    by (simp add: commit_attachment_def within_budgets_def)
qed

end
