(* ===== verification/AgentLoop.thy ===== *)
theory AgentLoop
  imports Attachments
begin

text \<open>
  The loop of a turn (\<^verbatim>\<open>runtime/agent_loop.py\<close>): model calls and tool rounds until the model answers
  in text, the delegation of the turn, guidance and stop requests of the user, and the end of the
  delegation on every path. What the model answers, the clocks and what the channel does are tapes; the
  state also records what was sent to the model. The registry may change while a turn runs, so each
  reading of it is an answer of a tape.
\<close>

section \<open>Data\<close>

text \<open>\<open>LLMResponse\<close> and \<open>LLMChunk\<close>.\<close>

record llm_response =
  rs_content :: ustr
  rs_calls :: "tool_call list"
  rs_usage :: "llm_usage option"
  rs_protocol_error :: "ustr option"
  rs_reasoning :: "ustr option"

record llm_chunk =
  ck_delta :: ustr
  ck_calls :: "tool_call list"
  ck_finish :: "ustr option"
  ck_usage :: "llm_usage option"
  ck_protocol_error :: "ustr option"

record loop_env =
  le_runner :: runner_env
  le_attach :: attach_cfg
  le_rounds :: int
  le_max_calls :: int
  le_streaming :: bool
  le_workers :: run_env
  le_auto :: bool
  le_allowed :: "ustr list option"
  le_persist :: bool
  le_attachment_tool :: "tool option"

record agent =
  ag_bench :: bench
  ag_registries :: "registry tape"
  ag_clock :: "real tape"
  ag_expired :: "bool tape"
  ag_stops :: "bool tape"
  ag_guidance_in :: "(exn + ustr list) tape"
  ag_replies :: "(exn + llm_response) tape"
  ag_streams :: "(llm_chunk list \<times> exn option) tape"
  ag_delta_errors :: "exn option tape"
  ag_deltas :: "ustr list"
  ag_requests :: "(json list \<times> json list) list"
  ag_working :: "json list"
  ag_tools :: "json list"
  ag_usage :: llm_usage
  ag_records :: "call_record list"
  ag_guidance :: "ustr list"
  ag_attach :: attach_state
  ag_adapter :: adapter
  ag_finished :: bool

record loop_answer =
  la_content :: ustr
  la_messages :: "json list"
  la_tools :: "call_record list"
  la_usage :: llm_usage
  la_skills :: "ustr list"
  la_skill_tokens :: int
  la_guidance :: "ustr list"
  la_cancelled :: bool

definition delegate_name :: ustr where
  "delegate_name = u ''delegate_multi_agent''"

section \<open>The world of the loop\<close>

definition on_bench :: "(bench, 'a) prog \<Rightarrow> (agent, 'a) prog" where
  "on_bench m a = (case m (ag_bench a) of (r, b) \<Rightarrow> (r, a\<lparr>ag_bench := b\<rparr>))"

abbreviation at_delegation :: "(delegation, 'a) prog \<Rightarrow> 'a \<Rightarrow> (agent, 'a) prog" where
  "at_delegation m def \<equiv> on_bench (on_delegation m def)"

definition invocation_of :: "agent \<Rightarrow> delegation option" where
  "invocation_of a = bn_delegation (ag_bench a)"

definition read_registry :: "(agent, registry) prog" where
  "read_registry a = (Inr (ag_registries a 0), a\<lparr>ag_registries := tape_tl (ag_registries a)\<rparr>)"

definition loop_time :: "(agent, real) prog" where
  "loop_time a = (Inr (ag_clock a 0), a\<lparr>ag_clock := tape_tl (ag_clock a)\<rparr>)"

definition read_expired :: "(agent, bool) prog" where
  "read_expired a = (Inr (ag_expired a 0), a\<lparr>ag_expired := tape_tl (ag_expired a)\<rparr>)"

definition is_stop_requested :: "(agent, bool) prog" where
  "is_stop_requested a = (Inr (ag_stops a 0), a\<lparr>ag_stops := tape_tl (ag_stops a)\<rparr>)"

definition consume_guidance :: "(agent, ustr list) prog" where
  "consume_guidance a = (ag_guidance_in a 0, a\<lparr>ag_guidance_in := tape_tl (ag_guidance_in a)\<rparr>)"

definition on_delta :: "ustr \<Rightarrow> (agent, unit) prog" where
  "on_delta t a = (let a1 = a\<lparr>ag_delta_errors := tape_tl (ag_delta_errors a)\<rparr> in
     case ag_delta_errors a 0 of Some e \<Rightarrow> (Inl e, a1) | None \<Rightarrow> (Inr (), a1\<lparr>ag_deltas := ag_deltas a @ [t]\<rparr>))"

definition send_request :: "json list \<Rightarrow> (agent, json list) prog" where
  "send_request tools a = (Inr (ag_working a), a\<lparr>ag_requests := ag_requests a @ [(ag_working a, tools)]\<rparr>)"

definition push_message :: "json \<Rightarrow> (agent, unit) prog" where
  "push_message m = modify (\<lambda>a. a\<lparr>ag_working := ag_working a @ [m]\<rparr>)"

section \<open>Messages\<close>

definition role_message :: "string \<Rightarrow> ustr \<Rightarrow> json" where
  "role_message role content = JObj [(u ''role'', JStr (u role)), (u ''content'', JStr content)]"

definition call_json :: "loop_env \<Rightarrow> tool_call \<Rightarrow> json" where
  "call_json env c = JObj [(u ''id'', JStr (tl_id c)), (u ''type'', JStr (u ''function'')),
     (u ''function'', JObj [(u ''name'', JStr (tl_name c)),
        (u ''arguments'', JStr (dumps (be_float (at_build (le_attach env))) (default_style False) (JObj (tl_args c))))])]"

definition assistant_tool_message :: "loop_env \<Rightarrow> ustr \<Rightarrow> tool_call list \<Rightarrow> ustr option \<Rightarrow> json" where
  "assistant_tool_message env content calls reasoning =
     JObj ([(u ''role'', JStr (u ''assistant'')), (u ''content'', JStr content),
        (u ''tool_calls'', JArr (map (call_json env) calls))]
       @ (if truthy reasoning then [(u ''reasoning_content'', JStr (the reasoning))] else []))"

definition tool_result_message :: "tool_call \<Rightarrow> call_record \<Rightarrow> json" where
  "tool_result_message c r = JObj [(u ''role'', JStr (u ''tool'')), (u ''tool_call_id'', JStr (tl_id c)),
     (u ''name'', JStr (tl_name c)), (u ''content'', JStr (tr_content r))]"

definition tool_round_limit_fallback :: "call_record list \<Rightarrow> ustr" where
  "tool_round_limit_fallback rs =
     (let names = py_join (u '', '') (map tr_name rs) in
      txt_rounds_reached @ dec (length rs) @ txt_rounds_calls
        @ (if names = [] then txt_none else names) @ txt_rounds_hint)"

section \<open>The end of the delegation\<close>

definition finish_multi_agent :: "loop_env \<Rightarrow> ustr \<Rightarrow> (agent, unit) prog" where
  "finish_multi_agent env outcome =
     seq (gets (\<lambda>a. ag_finished a \<or> invocation_of a = None)) (\<lambda>skip.
       if skip then ret ()
       else seq (modify (\<lambda>a. a\<lparr>ag_finished := True\<rparr>)) (\<lambda>_.
         at_delegation (finish_parent_turn (rn_coord (le_runner env)) outcome) ()))"

definition loop_answer_of :: "ustr \<Rightarrow> bool \<Rightarrow> agent \<Rightarrow> loop_answer" where
  "loop_answer_of content cancelled a = \<lparr>la_content = content, la_messages = ag_working a, la_tools = ag_records a,
     la_usage = ag_usage a, la_skills = am_skill_names (ag_attach a), la_skill_tokens = am_skill_tokens (ag_attach a),
     la_guidance = ag_guidance a, la_cancelled = cancelled\<rparr>"

definition finish_loop :: "loop_env \<Rightarrow> ustr \<Rightarrow> bool \<Rightarrow> ustr option \<Rightarrow> (agent, loop_answer) prog" where
  "finish_loop env content cancelled outcome =
     seq (finish_multi_agent env (if truthy outcome then the outcome
        else if cancelled then u ''cancelled'' else u ''completed'')) (\<lambda>_.
       gets (loop_answer_of content cancelled))"

definition deadline_of :: "agent \<Rightarrow> real option" where
  "deadline_of a = Option.bind (invocation_of a) deadline_monotonic"

text \<open>\<open>asyncio.wait_for\<close>: a wait that runs out cancels what it waits for, and a cancellation that
  comes back is then a timeout.\<close>

definition await_deadline :: "(agent, 'a) prog \<Rightarrow> (agent, 'a) prog" where
  "await_deadline m = seq (gets deadline_of) (\<lambda>d. case d of
     None \<Rightarrow> m
   | Some t \<Rightarrow> seq loop_time (\<lambda>now.
       if t - now \<le> 0 then raise TimeoutError
       else seq read_expired (\<lambda>expired.
         catch m (\<lambda>e. if e = CancelledError \<and> expired then raise TimeoutError else raise e))))"

definition deadline_expired :: "(agent, bool) prog" where
  "deadline_expired = seq (gets deadline_of) (\<lambda>d. case d of
     None \<Rightarrow> ret False | Some t \<Rightarrow> seq loop_time (\<lambda>now. ret (t \<le> now)))"

definition check_multi_agent :: "loop_env \<Rightarrow> (agent, ustr option) prog" where
  "check_multi_agent env = seq (gets (\<lambda>a. (ag_working a, ag_tools a))) (\<lambda>(msgs, tools).
     at_delegation (check_parent_synthesis (rn_coord (le_runner env)) msgs tools) None)"

text \<open>The checks before a model call: an answer ends the loop.\<close>

definition checkpoint :: "loop_env \<Rightarrow> (agent, loop_answer option) prog" where
  "checkpoint env = seq deadline_expired (\<lambda>expired.
     if expired then seq (finish_loop env txt_ma_timed_out False (Some (u ''timed_out''))) (\<lambda>r. ret (Some r))
     else seq (check_multi_agent env) (\<lambda>err. case err of
       Some t \<Rightarrow> seq (finish_loop env t False (Some (u ''failed''))) (\<lambda>r. ret (Some r))
     | None \<Rightarrow> ret None))"

text \<open>The \<open>try\<close> around a model call and around the tool calls.\<close>

definition guard :: "loop_env \<Rightarrow> (agent, 'a) prog \<Rightarrow> (agent, loop_answer + 'a) prog" where
  "guard env m = catch (seq m (\<lambda>x. ret (Inr x))) (\<lambda>e.
     if e = CancelledError then seq (finish_multi_agent env (u ''cancelled'')) (\<lambda>_. raise e)
     else if e = TimeoutError then seq (finish_loop env txt_ma_timed_out False (Some (u ''timed_out''))) (\<lambda>r. ret (Inl r))
     else if is_exception e then seq (finish_multi_agent env (u ''failed'')) (\<lambda>_. raise e)
     else raise e)"

section \<open>Guidance and stop\<close>

definition guide :: "ustr \<Rightarrow> (agent, unit) prog" where
  "guide content =
     (let t = py_strip content in
      if t = [] then ret ()
      else seq (modify (\<lambda>a. a\<lparr>ag_guidance := ag_guidance a @ [t]\<rparr>)) (\<lambda>_.
        push_message (role_message ''user'' (txt_guidance @ t))))"

definition apply_turn_control :: "(agent, bool) prog" where
  "apply_turn_control = seq is_stop_requested (\<lambda>stop.
     if stop then ret True
     else seq consume_guidance (\<lambda>gs. seq (for_each gs guide) (\<lambda>_. ret False)))"

section \<open>A model call\<close>

text \<open>The chunks of a stream, and the exception that may end it.\<close>

fun absorb :: "bool \<Rightarrow> llm_chunk list \<Rightarrow> llm_response \<Rightarrow> (agent, llm_response) prog" where
  "absorb live [] r = ret r"
| "absorb live (c # cs) r =
     (let us = usage_add (case rs_usage r of Some x \<Rightarrow> x | None \<Rightarrow> no_usage) (ck_usage c);
          r1 = r\<lparr>rs_usage := Some us, rs_content := rs_content r @ ck_delta c\<rparr>
      in seq (if ck_delta c \<noteq> [] \<and> live then on_delta (ck_delta c) else ret ()) (\<lambda>_.
        absorb live cs (r1\<lparr>rs_calls := (if ck_calls c \<noteq> [] then ck_calls c else rs_calls r1),
          rs_protocol_error := (if truthy (ck_protocol_error c) then ck_protocol_error c else rs_protocol_error r1)\<rparr>)))"

definition empty_response :: llm_response where
  "empty_response = \<lparr>rs_content = [], rs_calls = [], rs_usage = Some no_usage, rs_protocol_error = None, rs_reasoning = None\<rparr>"

definition ask_model :: "(agent, llm_response) prog" where
  "ask_model a = (ag_replies a 0, a\<lparr>ag_replies := tape_tl (ag_replies a)\<rparr>)"

definition ask_stream :: "(agent, llm_chunk list \<times> exn option) prog" where
  "ask_stream a = (Inr (ag_streams a 0), a\<lparr>ag_streams := tape_tl (ag_streams a)\<rparr>)"

definition complete :: "loop_env \<Rightarrow> json list \<Rightarrow> bool \<Rightarrow> (agent, llm_response) prog" where
  "complete env tools live = seq (send_request tools) (\<lambda>_.
     if \<not> le_streaming env then ask_model
     else seq ask_stream (\<lambda>(chunks, failure).
       seq (absorb live chunks empty_response) (\<lambda>r. case failure of
         Some e \<Rightarrow> raise e
       | None \<Rightarrow> (if (case rs_usage r of Some x \<Rightarrow> lu_total x | None \<Rightarrow> 0) \<le> 0
            then raise (RuntimeError txt_stream_no_usage) else ret r))))"

section \<open>The tools of a round\<close>

definition openai_schema :: json where
  "openai_schema =
     (let text = (\<lambda>n. JObj [(u ''type'', JStr (u ''string'')), (u ''minLength'', JInt 1), (u ''maxLength'', JInt n)]);
          task = JObj [(u ''type'', JStr (u ''object'')), (u ''additionalProperties'', JBool False),
            (u ''required'', JArr [JStr (u ''role''), JStr (u ''brief'')]),
            (u ''properties'', JObj [(u ''role'', text (int role_max_length)), (u ''brief'', text (int brief_max_length))])];
          parameters = JObj [(u ''type'', JStr (u ''object'')), (u ''additionalProperties'', JBool False),
            (u ''required'', JArr [JStr (u ''strategy''), JStr (u ''tasks'')]),
            (u ''properties'', JObj [
               (u ''strategy'', JObj [(u ''type'', JStr (u ''string'')),
                  (u ''enum'', JArr [JStr (u ''fan_out_fan_in''), JStr (u ''pipeline'')])]),
               (u ''tasks'', JObj [(u ''type'', JStr (u ''array'')), (u ''minItems'', JInt 1), (u ''items'', task)])])]
      in JObj [(u ''type'', JStr (u ''function'')),
           (u ''function'', JObj [(u ''name'', JStr delegate_name), (u ''description'', JStr txt_delegate_description),
              (u ''parameters'', parameters)])])"

definition loop_tools :: "ustr list option \<Rightarrow> delegation option \<Rightarrow> registry \<Rightarrow> json list" where
  "loop_tools allowed dg rg =
     (let schemas = fst (openai_tools allowed rg) in
      schemas @ (case dg of
          Some (iv, _) \<Rightarrow> (if iv_schema_visible iv \<and> \<not> list_ex (\<lambda>s. row_name s = Some (JStr delegate_name)) schemas
            then [openai_schema] else [])
        | None \<Rightarrow> []))"

definition refresh_tools :: "loop_env \<Rightarrow> (agent, unit) prog" where
  "refresh_tools env = seq read_registry (\<lambda>rg.
     modify (\<lambda>a. a\<lparr>ag_tools := loop_tools (le_allowed env) (invocation_of a) rg\<rparr>))"

definition flush_ordinary :: "loop_env \<Rightarrow> tool_call list \<Rightarrow> adapter \<Rightarrow> (agent, (call_record \<times> bool) list) prog" where
  "flush_ordinary env calls ad =
     (if calls = [] then ret []
      else seq read_registry (\<lambda>rg.
        seq (await_deadline (on_bench (execute_calls ((le_runner env)\<lparr>rn_registry := rg\<rparr>) calls ad (le_auto env) (le_allowed env)))) (\<lambda>rs.
          ret (map (\<lambda>r. (r, True)) rs))))"

definition delegate_record :: "tool_call \<Rightarrow> ustr \<Rightarrow> ustr option \<Rightarrow> call_record" where
  "delegate_record c content err = \<lparr>tr_call_id = Some (tl_id c), tr_name = tl_name c, tr_args = tl_args c,
     tr_content = content, tr_error = err, tr_duration = 0, cl_metadata = None, cl_attachment = None\<rparr>"

definition visible :: "agent \<Rightarrow> bool" where
  "visible a = (case invocation_of a of Some (iv, _) \<Rightarrow> iv_schema_visible iv | None \<Rightarrow> False)"

definition wrap_adapter :: "adapter \<Rightarrow> agent \<Rightarrow> adapter" where
  "wrap_adapter ad a = (case invocation_of a of
     Some (iv, _) \<Rightarrow> (if iv_run_id iv = None then ad else Via_delegation) | None \<Rightarrow> ad)"

fun parent_calls ::
  "loop_env \<Rightarrow> tool_call list \<Rightarrow> tool_call list \<Rightarrow> adapter \<Rightarrow> bool \<Rightarrow> (agent, (call_record \<times> bool) list \<times> adapter) prog"
where
  "parent_calls env [] ordinary ad wrapped = seq (flush_ordinary env ordinary ad) (\<lambda>rs. ret (rs, ad))"
| "parent_calls env (c # cs) ordinary ad wrapped =
     (if tl_name c \<noteq> delegate_name then parent_calls env cs (ordinary @ [c]) ad wrapped
      else seq (flush_ordinary env ordinary ad) (\<lambda>rs.
        seq (gets visible) (\<lambda>v.
          if \<not> v then
            seq (parent_calls env cs [] ad wrapped) (\<lambda>(rest, ad').
              ret (rs @ [(delegate_record c txt_delegate_not_allowed (Some txt_delegation_not_allowed), False)] @ rest, ad'))
          else
            seq (at_delegation (invoke (rn_coord (le_runner env)) (JObj (tl_args c)) (le_workers env)) []) (\<lambda>content.
            seq (gets (\<lambda>a. (visible a, wrap_adapter ad a))) (\<lambda>(v', ad1).
              (let wrap = \<not> v' \<and> \<not> wrapped in
               seq (parent_calls env cs [] (if wrap then ad1 else ad) (wrapped \<or> wrap)) (\<lambda>(rest, ad').
                 ret (rs @ [(delegate_record c content None, False)] @ rest, ad'))))))))"

section \<open>After the tools\<close>

text \<open>The record of a rejected attachment, and its message in place of the tool's.\<close>

definition reject_attachment :: "ustr \<Rightarrow> call_record \<Rightarrow> call_record" where
  "reject_attachment err r = r\<lparr>tr_error := Some err, tr_content := txt_attachment_rejected @ err\<rparr>"

fun settle_attachments ::
  "loop_env \<Rightarrow> nat \<Rightarrow> (tool_call \<times> call_record) list \<Rightarrow> (agent, call_record list) prog" where
  "settle_attachments env i [] = ret []"
| "settle_attachments env i ((c, r0) # rest) =
     (let att = cl_attachment r0; r = r0\<lparr>cl_attachment := None\<rparr> in
      seq (gets (\<lambda>a. (ag_attach a, ag_working a))) (\<lambda>(st, msgs).
      seq (lift (check_attachment (le_attach env) st att r msgs)) (\<lambda>err.
      seq (case err of
          Some e \<Rightarrow>
            seq (modify (\<lambda>a. a\<lparr>ag_working := (ag_working a)[i := tool_result_message c (reject_attachment e r)]\<rparr>)) (\<lambda>_.
              ret (reject_attachment e r))
        | None \<Rightarrow>
            seq (lift (commit_attachment (le_attach env) st att r msgs)) (\<lambda>(st', msgs').
              seq (modify (\<lambda>a. a\<lparr>ag_attach := st', ag_working := msgs'\<rparr>)) (\<lambda>_. ret r))) (\<lambda>r'.
      seq (settle_attachments env (Suc i) rest) (\<lambda>rs. ret (r' # rs))))))"

text \<open>\<open>zip(..., strict=True)\<close> refuses lists of different lengths.\<close>

definition settle_round :: "loop_env \<Rightarrow> tool_call list \<Rightarrow> (call_record \<times> bool) list \<Rightarrow> (agent, unit) prog" where
  "settle_round env calls executed =
     (if length calls \<noteq> length executed then raise (ValueError (u ''zip() arguments have different lengths''))
      else seq (gets (\<lambda>a. length (ag_working a))) (\<lambda>start.
        seq (modify (\<lambda>a. a\<lparr>ag_working := ag_working a @ map2 (\<lambda>c e. tool_result_message c (fst e)) calls executed\<rparr>)) (\<lambda>_.
        seq (settle_attachments env start (zip calls (map fst executed))) (\<lambda>rs.
          modify (\<lambda>a. a\<lparr>ag_records := ag_records a
            @ map fst (filter (\<lambda>(r, persist). le_persist env \<and> persist) (zip rs (map snd executed)))\<rparr>)))))"

definition slice_calls :: "int \<Rightarrow> 'a list \<Rightarrow> 'a list" where
  "slice_calls n xs = (if 0 \<le> n then take (nat n) xs else take (length xs - nat (- n)) xs)"

section \<open>The loop\<close>

definition text_answer :: "loop_env \<Rightarrow> llm_response \<Rightarrow> (agent, loop_answer) prog" where
  "text_answer env r = seq is_stop_requested (\<lambda>stop.
     if stop then finish_loop env (rs_content r) True None
     else if py_strip (rs_content r) = [] then
       seq (finish_multi_agent env (u ''failed'')) (\<lambda>_. raise (RuntimeError txt_empty_response))
     else finish_loop env (rs_content r) False None)"

text \<open>The calls of a round, once the assistant's message is recorded.\<close>

definition tool_round :: "loop_env \<Rightarrow> llm_response \<Rightarrow> tool_call list \<Rightarrow> (agent, loop_answer option) prog" where
  "tool_round env r calls =
     seq (gets ag_adapter) (\<lambda>ad.
     seq (guard env (parent_calls env calls [] ad False)) (\<lambda>x. case x of
       Inl answer \<Rightarrow> ret (Some answer)
     | Inr (executed, ad') \<Rightarrow>
         seq (modify (\<lambda>a. a\<lparr>ag_adapter := ad'\<rparr>)) (\<lambda>_.
         seq (settle_round env calls executed) (\<lambda>_.
         seq apply_turn_control (\<lambda>stop.
           if stop then seq (finish_loop env (rs_content r) True None) (\<lambda>r. ret (Some r))
           else seq (refresh_tools env) (\<lambda>_. checkpoint env))))))"

definition after_reply :: "loop_env \<Rightarrow> llm_response \<Rightarrow> (agent, loop_answer option) prog" where
  "after_reply env r =
     seq (modify (\<lambda>a. a\<lparr>ag_usage := usage_add (ag_usage a) (rs_usage r)\<rparr>)) (\<lambda>_.
       if rs_calls r = [] then seq (text_answer env r) (\<lambda>x. ret (Some x))
       else
         (let calls = slice_calls (le_max_calls env) (rs_calls r) in
          seq (push_message (assistant_tool_message env (rs_content r) calls (rs_reasoning r))) (\<lambda>_.
          seq is_stop_requested (\<lambda>stop.
            if stop then seq (finish_loop env (rs_content r) True None) (\<lambda>x. ret (Some x))
            else tool_round env r calls))))"

definition agent_round :: "loop_env \<Rightarrow> (agent, loop_answer option) prog" where
  "agent_round env =
     seq apply_turn_control (\<lambda>stop.
       if stop then seq (finish_loop env [] True None) (\<lambda>r. ret (Some r))
       else seq (checkpoint env) (\<lambda>early. case early of
         Some r \<Rightarrow> ret (Some r)
       | None \<Rightarrow> seq (gets ag_tools) (\<lambda>tools.
           seq (guard env (await_deadline (complete env tools True))) (\<lambda>x. case x of
             Inl r \<Rightarrow> ret (Some r) | Inr reply \<Rightarrow> after_reply env reply))))"

fun agent_rounds :: "loop_env \<Rightarrow> nat \<Rightarrow> (agent, loop_answer option) prog" where
  "agent_rounds env 0 = ret None"
| "agent_rounds env (Suc n) =
     seq (agent_round env) (\<lambda>r. case r of Some x \<Rightarrow> ret (Some x) | None \<Rightarrow> agent_rounds env n)"

text \<open>The rounds are used up: one more call, without tools, asks for a summary.\<close>

definition summary_round :: "loop_env \<Rightarrow> (agent, loop_answer) prog" where
  "summary_round env =
     seq (push_message (role_message ''system'' txt_round_limit_prompt)) (\<lambda>_.
     seq deadline_expired (\<lambda>expired.
       if expired then finish_loop env txt_ma_timed_out False (Some (u ''timed_out''))
       else seq (guard env (await_deadline (complete env [] False))) (\<lambda>x. case x of
         Inl r \<Rightarrow> ret r
       | Inr reply \<Rightarrow>
           seq (modify (\<lambda>a. a\<lparr>ag_usage := usage_add (ag_usage a) (rs_usage reply)\<rparr>)) (\<lambda>_.
           seq is_stop_requested (\<lambda>stop.
             if stop then finish_loop env [] True None
             else
               seq (gets ag_records) (\<lambda>records.
                 (let text = py_strip (rs_content reply);
                      content = (if truthy (rs_protocol_error reply) \<or> rs_calls reply \<noteq> [] \<or> text = []
                                 then tool_round_limit_fallback records else text)
                  in seq (on_delta content) (\<lambda>_. finish_loop env content False None))))))))"

definition start_loop :: "loop_env \<Rightarrow> json list \<Rightarrow> (agent, unit) prog" where
  "start_loop env messages =
     seq (modify (\<lambda>a. a\<lparr>ag_working := messages, ag_usage := no_usage, ag_records := [], ag_guidance := [],
       ag_adapter := Direct, ag_finished := False\<rparr>)) (\<lambda>_.
     seq (refresh_tools env) (\<lambda>_.
       modify (\<lambda>a. a\<lparr>ag_attach := new_attachments (le_attach env) (ag_tools a)\<rparr>)))"

text \<open>With the attachments of a message the turn gets a registry of its own.\<close>

definition scoped_registry :: "tool \<Rightarrow> registry \<Rightarrow> registry" where
  "scoped_registry t rg =
     register_tool t (fold (\<lambda>n acc. case dict_get (rg_tools rg) n of Some x \<Rightarrow> register_tool x acc | None \<Rightarrow> acc)
       (tool_names rg) empty_registry)"

definition scope_tools :: "loop_env \<Rightarrow> (agent, loop_env) prog" where
  "scope_tools env = (case le_attachment_tool env of
     None \<Rightarrow> ret env
   | Some t \<Rightarrow> seq read_registry (\<lambda>rg.
       (let scoped = scoped_registry t rg;
            base = (case le_allowed env of Some (n # ns) \<Rightarrow> n # ns | _ \<Rightarrow> tool_names scoped)
        in seq (modify (\<lambda>a. a\<lparr>ag_registries := (\<lambda>_. scoped)\<rparr>)) (\<lambda>_.
          ret (env\<lparr>le_allowed := Some (List.insert (to_name t) base)\<rparr>)))))"

definition agent_run :: "loop_env \<Rightarrow> json list \<Rightarrow> (agent, loop_answer) prog" where
  "agent_run env0 messages =
     seq (scope_tools env0) (\<lambda>env.
     seq (start_loop env messages) (\<lambda>_.
     seq (agent_rounds env (nat (le_rounds env))) (\<lambda>r. case r of
       Some x \<Rightarrow> ret x | None \<Rightarrow> summary_round env)))"

end
