(* ===== verification/AgentFacts.thy ===== *)
theory AgentFacts
  imports AgentLoop ToolFacts
begin

text \<open>
  Facts about the agent loop: which programs leave its local variables alone, what tools may hand over,
  the protocol between the model's calls and the tool messages that answer them, and the end of the
  delegation.
\<close>

section \<open>Programs that leave the local variables alone\<close>

definition locals_of :: "agent \<Rightarrow> (json list \<times> json list) list \<times> json list \<times> attach_state \<times> bool" where
  "locals_of a = (ag_requests a, ag_working a, ag_attach a, ag_finished a)"

definition quiet :: "(agent, 'a) prog \<Rightarrow> bool" where
  "quiet m \<longleftrightarrow> (\<forall>j. keeps (\<lambda>a. locals_of a = j) m)"

named_theorems quiet_rules "programs that leave the local variables of the loop alone"

lemma quietI: "(\<And>a. locals_of (snd (m a)) = locals_of a) \<Longrightarrow> quiet m"
  unfolding quiet_def by (auto intro: keepsI)

lemma quietD: "quiet m \<Longrightarrow> locals_of (snd (m a)) = locals_of a"
  unfolding quiet_def by (blast dest: keepsD)

lemma quiet_seq [quiet_rules]: "quiet m \<Longrightarrow> (\<And>x. quiet (f x)) \<Longrightarrow> quiet (seq m f)"
  unfolding quiet_def by (auto intro: keeps_seq)

lemma quiet_catch [quiet_rules]: "quiet m \<Longrightarrow> (\<And>e. quiet (h e)) \<Longrightarrow> quiet (catch m h)"
  unfolding quiet_def by (auto intro: keeps_catch)

lemma quiet_basic [quiet_rules]:
  "quiet (ret x)" "quiet (raise e)" "quiet (lift r)" "quiet (gets f)" "quiet (on_bench m)" "quiet read_registry"
  "quiet loop_time" "quiet read_expired" "quiet is_stop_requested" "quiet consume_guidance" "quiet (on_delta t)"
  "quiet ask_model" "quiet ask_stream" "quiet (refresh_tools env)"
  by (auto intro!: quietI simp: prog_simps locals_of_def on_bench_def read_registry_def loop_time_def read_expired_def
      is_stop_requested_def consume_guidance_def on_delta_def ask_model_def ask_stream_def refresh_tools_def Let_def
      split: option.split prod.split)

lemma quiet_if [quiet_rules]: "quiet m \<Longrightarrow> quiet n \<Longrightarrow> quiet (if b then m else n)"
  by simp

lemma quiet_cases [quiet_rules]:
  "quiet m \<Longrightarrow> (\<And>x. quiet (f x)) \<Longrightarrow> quiet (case y of None \<Rightarrow> m | Some x \<Rightarrow> f x)"
  "(\<And>x z. quiet (g x z)) \<Longrightarrow> quiet (case p of (x, z) \<Rightarrow> g x z)"
  by (simp_all split: option.split prod.split)

lemma quiet_let [quiet_rules]: "(\<And>x. quiet (f x)) \<Longrightarrow> quiet (let x = y in f x)"
  by simp

lemma quiet_await [quiet_rules]: "quiet m \<Longrightarrow> quiet (await_deadline m)"
  unfolding await_deadline_def by (intro quiet_rules)

lemma quiet_checks [quiet_rules]: "quiet deadline_expired" "quiet (check_multi_agent env)"
  unfolding deadline_expired_def check_multi_agent_def by (intro quiet_rules)+

lemma quiet_absorb [quiet_rules]: "quiet (absorb live cs r)"
  by (induction cs arbitrary: r) (simp_all add: Let_def quiet_rules)

lemma quiet_flush [quiet_rules]: "quiet (flush_ordinary env calls ad)"
  unfolding flush_ordinary_def by (intro quiet_rules)

lemma quiet_calls [quiet_rules]: "quiet (parent_calls env cs ordinary ad wrapped)"
proof (induction cs arbitrary: ordinary ad wrapped)
  case (Cons c cs)
  show ?case unfolding parent_calls.simps by (intro quiet_rules Cons.IH)
qed (simp add: quiet_rules)

section \<open>What tools may hand over\<close>

text \<open>The messages of an attachment carry no tool calls.\<close>

definition call_ids :: "json \<Rightarrow> ustr list" where
  "call_ids m = (case jget m (u ''tool_calls'') of
     Some (JArr cs) \<Rightarrow> map (\<lambda>c. case jget c (u ''id'') of Some (JStr i) \<Rightarrow> i | _ \<Rightarrow> []) cs
   | _ \<Rightarrow> [])"

definition plain :: "attached option \<Rightarrow> bool" where
  "plain att \<longleftrightarrow> (\<forall>a. att = Some (Attached a) \<longrightarrow> (\<forall>m \<in> set (attached_messages a). call_ids m = []))"

definition plain_bench :: "bench \<Rightarrow> bool" where
  "plain_bench b \<longleftrightarrow> (\<forall>i out. bn_answers b i = Inr out \<longrightarrow> plain (ou_attachment out))"

named_theorems plain_rules "programs that keep the tools' answers plain"

lemma plain_modify [plain_rules]: "(\<And>b. bn_answers (f b) = bn_answers b) \<Longrightarrow> keeps plain_bench (modify f)"
  by (rule keeps_modify) (simp add: plain_bench_def)

lemma plain_basic [plain_rules]:
  "keeps plain_bench read_clock" "keeps plain_bench (show_note n)" "keeps plain_bench (ask_channel c)"
  "keeps plain_bench (run_tool t args)"
  by (auto intro!: keepsI simp: plain_bench_def read_clock_def show_note_def ask_channel_def run_tool_def Let_def
      split: option.split)

lemma plain_on_delegation [plain_rules]: "keeps plain_bench (on_delegation m def)"
  by (rule keepsI) (auto simp: on_delegation_def plain_bench_def split: option.split prod.split)

lemma plain_guarded [plain_rules]: "keeps plain_bench m \<Longrightarrow> keeps plain_bench (guarded def m)"
  unfolding guarded_def by (intro keeps_rules)

lemma plain_hooks [plain_rules]:
  "keeps plain_bench (run_before_tool_call env hs call ad auto)" "keeps plain_bench (run_tool_started hs call)"
proof -
  have "keeps plain_bench (before_tool_call env h call ad auto)" for h
    by (cases h; cases ad) (simp_all add: before_tool_call_def request_approval_def plain_rules keeps_rules)
  then show "keeps plain_bench (run_before_tool_call env hs call ad auto)"
    by (induction hs) (auto intro: keeps_rules plain_rules)
  have "keeps plain_bench (on_tool_started h call)" for h
    by (cases h) (auto simp: on_tool_started_def intro!: keeps_rules plain_rules)
  then show "keeps plain_bench (run_tool_started hs call)"
    unfolding run_tool_started_def by (intro keeps_rules plain_rules)
qed

text \<open>A record carries what its tool handed over, or nothing.\<close>

lemma after_attachment:
  "run_after_tool_call env hs call r b = (Inr r', b') \<Longrightarrow> cl_attachment r' = cl_attachment r"
proof (induction hs arbitrary: r b)
  case (Cons h hs)
  then obtain r1 b1 where one: "guarded r (after_tool_call env h call r) b = (Inr r1, b1)"
    and "run_after_tool_call env hs call r1 b1 = (Inr r', b')"
    by (auto elim: seq_cases)
  from Cons.IH [OF this(2)] have "cl_attachment r' = cl_attachment r1" .
  moreover have "cl_attachment r1 = cl_attachment r"
    using one by (cases h) (auto simp: guarded_def after_tool_call_def catch_def seq_def prog_simps
        split: sum.splits prod.splits if_splits)
  ultimately show ?case by simp
qed (simp add: ret_def)

lemma plain_after: "keeps plain_bench (run_after_tool_call env hs call r)"
proof (induction hs arbitrary: r)
  case (Cons h hs)
  have "keeps plain_bench (after_tool_call env h call r)"
    by (cases h) (auto simp: after_tool_call_def intro!: keeps_rules plain_rules)
  then show ?case using Cons by (auto intro: keeps_rules plain_rules)
qed (simp add: keeps_rules)

lemma plain_seq_exec [plain_rules]:
  "keeps plain_bench (executor_run sec t args)" "keeps plain_bench (finish_call env c r)"
  "keeps plain_bench (refuse env c w e)"
  unfolding executor_run_def finish_call_def refuse_def by (intro keeps_rules plain_rules plain_after)+

lemma executor_attachment:
  "executor_run env t args b = (Inr r, b') \<Longrightarrow> plain_bench b \<Longrightarrow> plain (cl_attachment r)"
  by (auto simp: executor_run_def prog_simps read_clock_def run_tool_def plain_def plain_bench_def
      split: sum.splits if_splits prod.splits)

lemma finish_attachment: "finish_call env c r b = (Inr r', b') \<Longrightarrow> cl_attachment r' = cl_attachment r"
  unfolding finish_call_def by (drule after_attachment) simp

lemma refuse_attachment: "refuse env c w e b = (Inr r', b') \<Longrightarrow> plain (cl_attachment r')"
  unfolding refuse_def by (drule finish_attachment) (simp add: error_record_def plain_def)

lemma plain_prepared [plain_rules]: "keeps plain_bench (execute_prepared env p ad auto)"
  unfolding execute_prepared_def Let_def by (intro keeps_rules plain_rules)

lemma lift_state: "lift x s = (Inr y, s') \<Longrightarrow> s' = s"
  by (simp add: lift_def)

lemma plain_after_run: "keeps plain_bench m \<Longrightarrow> m b = (r, b') \<Longrightarrow> plain_bench b \<Longrightarrow> plain_bench b'"
  using keepsD by fastforce

lemma prepared_attachment:
  assumes run: "execute_prepared env p ad auto b = (Inr r, b')" and b: "plain_bench b"
  shows "plain (cl_attachment r)"
proof (cases "truthy (pc_blocked p) \<or> truthy (pc_invalid p) \<or> pc_tool p = None")
  case True
  then show ?thesis using run
    by (auto simp: execute_prepared_def Let_def raise_def split: if_splits dest: refuse_attachment)
next
  case False
  then obtain t where t: "pc_tool p = Some t" by auto
  let ?env = "rn_security env" and ?call = "pc_call p"
  from run t False obtain err b1 where one: "lift (precheck ?env t (tl_args ?call)) b = (Inr err, b1)"
    and two: "(if truthy err then refuse env ?call txt_security_failed (the err)
            else seq (run_before_tool_call env (rn_hooks env) ?call ad auto) (\<lambda>reason.
              if truthy reason then refuse env ?call txt_blocked_by_hook (the reason)
              else seq (run_tool_started (rn_hooks env) ?call) (\<lambda>_.
                seq (executor_run ?env t (tl_args ?call)) (\<lambda>r. finish_call env ?call r)))) b1 = (Inr r, b')"
    by (auto simp: execute_prepared_def Let_def elim: seq_cases)
  have b1: "plain_bench b1" using lift_state [OF one] b by simp
  show ?thesis
  proof (cases "truthy err")
    case True
    then show ?thesis using two by (auto dest: refuse_attachment)
  next
    case False
    with two obtain reason b2 where hook: "run_before_tool_call env (rn_hooks env) ?call ad auto b1 = (Inr reason, b2)"
      and three: "(if truthy reason then refuse env ?call txt_blocked_by_hook (the reason)
              else seq (run_tool_started (rn_hooks env) ?call) (\<lambda>_.
                seq (executor_run ?env t (tl_args ?call)) (\<lambda>r. finish_call env ?call r))) b2 = (Inr r, b')"
      by (auto elim: seq_cases)
    have b2: "plain_bench b2" by (rule plain_after_run [OF plain_hooks(1) hook b1])
    show ?thesis
    proof (cases "truthy reason")
      case True
      then show ?thesis using three by (auto dest: refuse_attachment)
    next
      case False
      with three obtain b3 x b4 where "run_tool_started (rn_hooks env) ?call b2 = (Inr (), b3)"
        and ex: "executor_run ?env t (tl_args ?call) b3 = (Inr x, b4)" and fin: "finish_call env ?call x b4 = (Inr r, b')"
        by (auto elim!: seq_cases)
      then have "plain_bench b3" using plain_after_run [OF plain_hooks(2) _ b2] by blast
      from executor_attachment [OF ex this] show ?thesis using finish_attachment [OF fin] by simp
    qed
  qed
qed

lemma plain_batch [plain_rules]: "keeps plain_bench (execute_batch env ps ad auto)"
  by (induction ps) (auto intro: keeps_rules plain_rules)

lemma plain_loop [plain_rules]: "keeps plain_bench (execute_loop env cs batch ad auto allowed)"
proof (induction cs arbitrary: batch)
  case (Cons c cs)
  show ?case unfolding execute_loop.simps by (intro keeps_rules plain_rules Cons.IH)
qed (simp add: plain_rules)

lemma batch_attachments:
  "execute_batch env ps ad auto b = (Inr rs, b') \<Longrightarrow> plain_bench b \<Longrightarrow> \<forall>r \<in> set rs. plain (cl_attachment r)"
proof (induction ps arbitrary: b rs)
  case (Cons p ps)
  then obtain r b1 rest where one: "execute_prepared env p ad auto b = (Inr r, b1)"
    and "execute_batch env ps ad auto b1 = (Inr rest, b')" and "rs = r # rest"
    by (auto elim!: seq_cases simp: ret_def)
  moreover have "plain_bench b1" by (rule plain_after_run [OF plain_prepared one Cons.prems(2)])
  ultimately show ?case using Cons.IH prepared_attachment [OF one Cons.prems(2)] by auto
qed (simp add: ret_def)

lemma loop_attachments:
  "execute_loop env cs batch ad auto allowed b = (Inr rs, b') \<Longrightarrow> plain_bench b
     \<Longrightarrow> \<forall>r \<in> set rs. plain (cl_attachment r)"
proof (induction cs arbitrary: batch b rs)
  case Nil
  then show ?case using batch_attachments by simp
next
  case (Cons c cs)
  obtain p where two: "(if is_parallel_safe env p then execute_loop env cs (batch @ [p]) ad auto allowed
       else seq (execute_batch env batch ad auto) (\<lambda>rs.
         seq (execute_prepared env p ad auto) (\<lambda>r.
         seq (execute_loop env cs [] ad auto allowed) (\<lambda>rest. ret (rs @ [r] @ rest))))) b = (Inr rs, b')"
    using Cons.prems(1) by (cases "prepare env c allowed") (simp_all add: seq_def [of "lift _"] lift_def)
  note b0 = Cons.prems(2)
  show ?case
  proof (cases "is_parallel_safe env p")
    case True
    then show ?thesis using Cons.IH two b0 by auto
  next
    case False
    with two obtain rs1 b1 r b2 rest where one: "execute_batch env batch ad auto b = (Inr rs1, b1)"
      and mid: "execute_prepared env p ad auto b1 = (Inr r, b2)"
      and last: "execute_loop env cs [] ad auto allowed b2 = (Inr rest, b')" and rs: "rs = rs1 @ [r] @ rest"
      by (auto elim!: seq_cases simp: ret_def)
    have b1: "plain_bench b1" by (rule plain_after_run [OF plain_batch one b0])
    have b2: "plain_bench b2" by (rule plain_after_run [OF plain_prepared mid b1])
    show ?thesis using rs batch_attachments [OF one b0] prepared_attachment [OF mid b1] Cons.IH [OF last b2] by auto
  qed
qed

section \<open>The tools' answers at the loop\<close>

abbreviation plain_agent :: "agent \<Rightarrow> bool" where
  "plain_agent a \<equiv> plain_bench (ag_bench a)"

named_theorems tame_rules "programs of the loop that keep the tools' answers plain"

lemma tame_on_bench [tame_rules]: "keeps plain_bench m \<Longrightarrow> keeps plain_agent (on_bench m)"
  by (rule keepsI) (auto simp: on_bench_def split: prod.split dest: keepsD)

lemma tame_modify [tame_rules]: "(\<And>a. ag_bench (f a) = ag_bench a) \<Longrightarrow> keeps plain_agent (modify f)"
  by (rule keeps_modify) simp

lemma tame_basic [tame_rules]:
  "keeps plain_agent read_registry" "keeps plain_agent loop_time" "keeps plain_agent read_expired"
  "keeps plain_agent is_stop_requested" "keeps plain_agent consume_guidance" "keeps plain_agent (on_delta t)"
  "keeps plain_agent ask_model" "keeps plain_agent ask_stream" "keeps plain_agent (send_request tools)"
  "keeps plain_agent (push_message m)"
  by (auto intro!: keepsI simp: read_registry_def loop_time_def read_expired_def is_stop_requested_def
      consume_guidance_def on_delta_def ask_model_def ask_stream_def send_request_def push_message_def modify_def Let_def
      split: option.split)

lemma tame_await [tame_rules]: "keeps plain_agent m \<Longrightarrow> keeps plain_agent (await_deadline m)"
  unfolding await_deadline_def by (intro keeps_rules tame_rules)

lemma tame_flush [tame_rules]: "keeps plain_agent (flush_ordinary env calls ad)"
  unfolding flush_ordinary_def execute_calls_def by (intro keeps_rules tame_rules plain_rules)

lemma tame_calls [tame_rules]: "keeps plain_agent (parent_calls env cs ordinary ad wrapped)"
proof (induction cs arbitrary: ordinary ad wrapped)
  case (Cons c cs)
  show ?case unfolding parent_calls.simps by (intro keeps_rules tame_rules plain_rules Cons.IH)
qed (simp add: keeps_rules tame_rules)

lemma tame_after: "keeps plain_agent m \<Longrightarrow> m a = (r, a') \<Longrightarrow> plain_agent a \<Longrightarrow> plain_agent a'"
  using keepsD by fastforce

lemma await_value:
  "await_deadline m a = (Inr x, a') \<Longrightarrow> \<exists>a0. m a0 = (Inr x, a') \<and> ag_bench a0 = ag_bench a"
  unfolding await_deadline_def
  by (auto simp: prog_simps loop_time_def read_expired_def split: option.splits if_splits prod.splits sum.splits)

lemma flush_attachments:
  assumes "flush_ordinary env calls ad a = (Inr rs, a')" and "plain_agent a"
  shows "\<forall>r \<in> set rs. plain (cl_attachment (fst r))"
proof (cases "calls = []")
  case False
  with assms(1) obtain rg a1 xs where "read_registry a = (Inr rg, a1)"
    and "await_deadline (on_bench (execute_calls ((le_runner env)\<lparr>rn_registry := rg\<rparr>) calls ad (le_auto env) (le_allowed env))) a1 = (Inr xs, a')"
    and rs: "rs = map (\<lambda>r. (r, True)) xs"
    by (auto simp: flush_ordinary_def ret_def elim!: seq_cases)
  then obtain b0 b' where "plain_bench b0"
    and "execute_calls ((le_runner env)\<lparr>rn_registry := rg\<rparr>) calls ad (le_auto env) (le_allowed env) b0 = (Inr xs, b')"
    using assms(2) by (auto simp: read_registry_def on_bench_def dest!: await_value split: prod.splits)
  then show ?thesis using loop_attachments rs unfolding execute_calls_def by fastforce
qed (use assms in \<open>simp add: flush_ordinary_def ret_def\<close>)

lemma delegate_record_plain: "plain (cl_attachment (delegate_record c t e))"
  by (simp add: delegate_record_def plain_def)

lemma calls_attachments:
  "parent_calls env cs ordinary ad wrapped a = (Inr (rs, ad'), a') \<Longrightarrow> plain_agent a
     \<Longrightarrow> \<forall>r \<in> set rs. plain (cl_attachment (fst r))"
proof (induction cs arbitrary: ordinary ad wrapped a rs ad')
  case Nil
  then have "flush_ordinary env ordinary ad a = (Inr rs, a')" by (auto simp: ret_def elim!: seq_cases)
  then show ?case by (rule flush_attachments) (rule Nil.prems)
next
  case (Cons c cs)
  show ?case
  proof (cases "tl_name c = delegate_name")
    case False
    then show ?thesis using Cons by simp
  next
    case True
    let ?w = "at_delegation (invoke (rn_coord (le_runner env)) (JObj (tl_args c)) (le_workers env)) []"
    define K where "K = (\<lambda>rs1. seq (gets visible) (\<lambda>v. if \<not> v then
            seq (parent_calls env cs [] ad wrapped) (\<lambda>(rest, ad').
              ret (rs1 @ [(delegate_record c txt_delegate_not_allowed (Some txt_delegation_not_allowed), False)] @ rest, ad'))
          else seq ?w (\<lambda>content. seq (gets (\<lambda>a. (visible a, wrap_adapter ad a))) (\<lambda>(v', ad1).
              (let wrap = \<not> v' \<and> \<not> wrapped in
               seq (parent_calls env cs [] (if wrap then ad1 else ad) (wrapped \<or> wrap)) (\<lambda>(rest, ad').
                 ret (rs1 @ [(delegate_record c content None, False)] @ rest, ad')))))))"
    have "seq (flush_ordinary env ordinary ad) K a = (Inr (rs, ad'), a')"
      using Cons.prems(1) True unfolding K_def parent_calls.simps by simp
    then obtain rs1 a1 where flush: "flush_ordinary env ordinary ad a = (Inr rs1, a1)"
      and rest: "K rs1 a1 = (Inr (rs, ad'), a')"
      by (rule seq_cases) auto
    have a1: "plain_agent a1" by (rule tame_after [OF tame_flush flush Cons.prems(2)])
    note one = flush_attachments [OF flush Cons.prems(2)]
    show ?thesis
    proof (cases "visible a1")
      case False
      with rest [unfolded K_def] obtain rest' ad2 where "parent_calls env cs [] ad wrapped a1 = (Inr (rest', ad2), a')"
        and "rs = rs1 @ [(delegate_record c txt_delegate_not_allowed (Some txt_delegation_not_allowed), False)] @ rest'"
        by (auto simp: ret_def elim!: seq_cases)
      then show ?thesis using Cons.IH [OF _ a1, of "[]" ad wrapped rest' ad2] one delegate_record_plain by (simp add: ball_Un)
    next
      case True
      with rest [unfolded K_def] obtain content a2 rest' ad1 ad2 w where inv: "?w a1 = (Inr content, a2)"
        and "parent_calls env cs [] ad1 w a2 = (Inr (rest', ad2), a')"
        and "rs = rs1 @ [(delegate_record c content None, False)] @ rest'"
        by (auto simp: ret_def Let_def gets_def elim!: seq_cases)
      moreover have "plain_agent a2" using keepsD [OF tame_on_bench [OF plain_on_delegation] a1] inv by (metis snd_conv)
      ultimately show ?thesis using Cons.IH [of "[]" ad1 w a2 rest' ad2] one delegate_record_plain by (simp add: ball_Un)
    qed
  qed
qed

section \<open>Calls and their answers\<close>

text \<open>Reading a conversation: the ids of the calls that still wait for their tool messages.\<close>

definition answered_id :: "json \<Rightarrow> ustr option" where
  "answered_id m = (if jget m (u ''role'') = Some (JStr (u ''tool''))
     then Some (case jget m (u ''tool_call_id'') of Some (JStr i) \<Rightarrow> i | _ \<Rightarrow> []) else None)"

fun talk :: "ustr list \<Rightarrow> json list \<Rightarrow> ustr list option" where
  "talk pend [] = Some pend"
| "talk [] (m # ms) = (if answered_id m = None then talk (call_ids m) ms else None)"
| "talk (p # ps) (m # ms) = (if answered_id m = Some p \<and> call_ids m = [] then talk ps ms else None)"

text \<open>Every call is answered, in order, right after the message that makes it.\<close>

definition balanced_talk :: "json list \<Rightarrow> bool" where
  "balanced_talk ms \<longleftrightarrow> talk [] ms = Some []"

definition shape :: "json \<Rightarrow> ustr option \<times> ustr list" where
  "shape m = (answered_id m, call_ids m)"

lemma talk_append: "talk p (xs @ ys) = Option.bind (talk p xs) (\<lambda>q. talk q ys)"
  by (induction p xs rule: talk.induct) auto

lemma talk_shape: "map shape xs = map shape ys \<Longrightarrow> talk p xs = talk p ys"
proof (induction p xs arbitrary: ys rule: talk.induct)
  case (2 m ms)
  then show ?case by (cases ys) (auto simp: shape_def)
next
  case (3 q qs m ms)
  then show ?case by (cases ys) (auto simp: shape_def)
qed simp

lemma talk_quiet: "\<forall>m \<in> set ms. shape m = (None, []) \<Longrightarrow> talk [] ms = Some []"
  by (induction ms) (auto simp: shape_def)

lemma balanced_push: "balanced_talk ms \<Longrightarrow> \<forall>m \<in> set xs. shape m = (None, []) \<Longrightarrow> balanced_talk (ms @ xs)"
  by (simp add: balanced_talk_def talk_append talk_quiet)

lemma shape_role: "role \<noteq> ''tool'' \<Longrightarrow> shape (role_message role t) = (None, [])"
  by (simp add: shape_def role_message_def answered_id_def call_ids_def jget_def dict_get_def)

lemma shape_tool: "shape (tool_result_message c r) = (Some (tl_id c), [])"
  by (simp add: shape_def tool_result_message_def answered_id_def call_ids_def jget_def dict_get_def)

lemma shape_assistant: "shape (assistant_tool_message env t calls reasoning) = (None, map tl_id calls)"
  by (simp add: shape_def assistant_tool_message_def answered_id_def call_ids_def jget_def dict_get_def call_json_def comp_def)

lemma talk_answers: "length calls = length rs
    \<Longrightarrow> talk (map tl_id calls) (map2 (\<lambda>c e. tool_result_message c (f e)) calls rs) = Some []"
proof (induction calls rs rule: list_induct2)
  case (Cons c cs r rs)
  then show ?case using shape_tool [of c "f r"] by (simp add: shape_def)
qed simp

text \<open>A checked attachment adds messages that neither call nor answer.\<close>

lemma attachment_shape:
  assumes "check_attachment cfg st (Some (Attached a)) r msgs = Inr None" and "plain (Some (Attached a))"
    and "m \<in> set (attached_messages a)"
  shows "shape m = (None, [])"
proof -
  have ok: "any_bad_message cfg (allowed_roles a) (attached_messages a) = Inr False"
    using validated_attachment(4) [OF checked_attachment(1) [OF assms(1)]] .
  have "bad_message cfg roles x = Inr False" if "any_bad_message cfg roles xs = Inr False" "x \<in> set xs" for roles xs x
    using that by (induction xs) (auto simp: bindE_eq_Inr split: if_splits)
  from this [OF ok assms(3)] have "jget m (u ''role'') \<noteq> Some (JStr (u ''tool''))"
    by (auto simp: bad_message_def Let_def jget_def list_ex_iff allowed_roles_def split: json.splits option.splits if_splits)
  then show ?thesis using assms(2,3) by (simp add: shape_def answered_id_def plain_def)
qed

end
