(* ===== verification/AgentCosts.thy ===== *)
theory AgentCosts
  imports AgentFacts
begin

text \<open>
  What the agent loop may cost, and how it ends: bounds on the model calls and on the tools run, the
  budgets of attachments, and the delegation of the turn, which is settled whenever the loop answers.
\<close>

section \<open>Tools run by the runner\<close>

definition runs_most :: "nat \<Rightarrow> (bench, 'a) prog \<Rightarrow> bool" where
  "runs_most k m \<longleftrightarrow> (\<forall>b r b'. m b = (r, b') \<longrightarrow> length (bn_runs b') \<le> length (bn_runs b) + k)"

lemma runs_mostD: "runs_most k m \<Longrightarrow> m b = (r, b') \<Longrightarrow> length (bn_runs b') \<le> length (bn_runs b) + k"
  unfolding runs_most_def by blast

lemma runs_seq:
  assumes "runs_most j m" and "\<And>x. runs_most k (f x)"
  shows "runs_most (j + k) (seq m f)"
proof -
  have "length (bn_runs b') \<le> length (bn_runs b) + (j + k)" if "seq m f b = (r, b')" for b r b'
    using that
  proof (rule seq_cases)
    fix e assume "m b = (Inl e, b')"
    then show ?thesis using runs_mostD [OF assms(1)] by fastforce
  next
    fix x b1 assume "m b = (Inr x, b1)" and "f x b1 = (r, b')"
    then show ?thesis using runs_mostD [OF assms(1)] runs_mostD [OF assms(2)] by fastforce
  qed
  then show ?thesis by (simp add: runs_most_def)
qed

lemma runs_silent: "silent m \<Longrightarrow> runs_most 0 m"
  unfolding runs_most_def by (auto dest: silentD' simp: journal_def)

lemma runs_prepared: "runs_most 1 (execute_prepared env p ad auto)"
  unfolding runs_most_def by (auto dest!: prepared_log simp: logs_def)

lemma runs_batch: "runs_most (length ps) (execute_batch env ps ad auto)"
proof (induction ps)
  case (Cons p ps)
  have "runs_most (1 + (length ps + 0)) (execute_batch env (p # ps) ad auto)"
    unfolding execute_batch.simps by (intro runs_seq runs_prepared Cons runs_silent silent_rules)
  then show ?case by simp
qed (simp add: runs_silent silent_rules)

lemma runs_loop: "runs_most (length batch + length cs) (execute_loop env cs batch ad auto allowed)"
proof (induction cs arbitrary: batch)
  case Nil
  then show ?case by (simp add: runs_batch)
next
  case (Cons c cs)
  have alone: "runs_most (length batch + (1 + (length ([] :: prepared list) + length cs + 0))) (seq (execute_batch env batch ad auto) (\<lambda>rs.
         seq (execute_prepared env p ad auto) (\<lambda>r.
         seq (execute_loop env cs [] ad auto allowed) (\<lambda>rest. ret (rs @ [r] @ rest)))))" for p
    by (intro runs_seq runs_prepared runs_batch Cons runs_silent silent_rules)
  have "runs_most (0 + (length batch + (1 + length cs))) (execute_loop env (c # cs) batch ad auto allowed)"
    unfolding execute_loop.simps
    by (intro runs_seq runs_silent silent_basic) (use alone Cons.IH [of "batch @ [_]"] in simp)
  then show ?case by simp
qed

section \<open>Model calls and tools of the loop\<close>

definition costs :: "nat \<Rightarrow> nat \<Rightarrow> (agent, 'a) prog \<Rightarrow> bool" where
  "costs j k m \<longleftrightarrow> (\<forall>a r a'. m a = (r, a') \<longrightarrow> length (ag_requests a') \<le> length (ag_requests a) + j
     \<and> length (bn_runs (ag_bench a')) \<le> length (bn_runs (ag_bench a)) + k)"

lemma costsD: "costs j k m \<Longrightarrow> m a = (r, a') \<Longrightarrow> length (ag_requests a') \<le> length (ag_requests a) + j
     \<and> length (bn_runs (ag_bench a')) \<le> length (bn_runs (ag_bench a)) + k"
  unfolding costs_def by blast

lemma costs_mono: "costs j k m \<Longrightarrow> j \<le> j' \<Longrightarrow> k \<le> k' \<Longrightarrow> costs j' k' m"
  unfolding costs_def by (meson add_left_mono le_trans)

lemma costs_seq:
  assumes "costs j1 k1 m" and "\<And>x. costs j2 k2 (f x)"
  shows "costs (j1 + j2) (k1 + k2) (seq m f)"
proof -
  have "length (ag_requests a') \<le> length (ag_requests a) + (j1 + j2)
      \<and> length (bn_runs (ag_bench a')) \<le> length (bn_runs (ag_bench a)) + (k1 + k2)" if "seq m f a = (r, a')" for a r a'
    using that
  proof (rule seq_cases)
    fix e assume "m a = (Inl e, a')"
    then show ?thesis using costsD [OF assms(1)] by fastforce
  next
    fix x a1 assume "m a = (Inr x, a1)" and "f x a1 = (r, a')"
    from costsD [OF assms(1) this(1)] costsD [OF assms(2) this(2)] show ?thesis by linarith
  qed
  then show ?thesis by (simp add: costs_def)
qed

abbreviation free :: "(agent, 'a) prog \<Rightarrow> bool" where
  "free m \<equiv> costs 0 0 m"

named_theorems free_rules "programs that call no model and run no tool"

lemma costs_free [free_rules]: "free m \<Longrightarrow> (\<And>x. costs j k (f x)) \<Longrightarrow> costs j k (seq m f)"
  using costs_seq [of 0 0 m j k f] by simp

lemma costs_then: "costs j k m \<Longrightarrow> (\<And>x. free (f x)) \<Longrightarrow> costs j k (seq m f)"
  using costs_seq [of j k m 0 0 f] by simp

lemma costs_catch [free_rules]:
  assumes "costs j k m" and "\<And>e. free (h e)"
  shows "costs j k (catch m h)"
proof -
  have "length (ag_requests a') \<le> length (ag_requests a) + j
      \<and> length (bn_runs (ag_bench a')) \<le> length (bn_runs (ag_bench a)) + k" if "catch m h a = (r, a')" for a r a'
    using that
  proof (rule catch_cases)
    fix e a1 assume "m a = (Inl e, a1)" and "h e a1 = (r, a')"
    from costsD [OF assms(1) this(1)] costsD [OF assms(2) this(2)] show ?thesis by linarith
  next
    fix x assume "m a = (Inr x, a')"
    from costsD [OF assms(1) this] show ?thesis by simp
  qed
  then show ?thesis by (simp add: costs_def)
qed

lemma costs_if [free_rules]: "costs j k m \<Longrightarrow> costs j k n \<Longrightarrow> costs j k (if b then m else n)"
  by simp

lemma costs_cases [free_rules]:
  "costs j k m \<Longrightarrow> (\<And>x. costs j k (f x)) \<Longrightarrow> costs j k (case y of None \<Rightarrow> m | Some x \<Rightarrow> f x)"
  "(\<And>x z. costs j k (g x z)) \<Longrightarrow> costs j k (case p of (x, z) \<Rightarrow> g x z)"
  "(\<And>w. costs j k (h w)) \<Longrightarrow> costs j k (let w = v in h w)"
  by (simp_all split: option.split prod.split)

lemma free_zero: "free m \<Longrightarrow> costs j k m"
  by (erule costs_mono) simp_all

lemma free_basic [free_rules]:
  "free (ret x)" "free (raise e)" "free (lift r)" "free (gets f)" "free read_registry" "free loop_time" "free read_expired"
  "free is_stop_requested" "free consume_guidance" "free (on_delta t)" "free ask_model" "free ask_stream" "free (push_message m)"
  "free (at_delegation d x)" "free (refresh_tools env)"
  by (auto simp: costs_def prog_simps read_registry_def loop_time_def read_expired_def is_stop_requested_def on_bench_def
      consume_guidance_def on_delta_def ask_model_def ask_stream_def push_message_def on_delegation_def refresh_tools_def Let_def
      split: option.splits prod.splits)

lemma free_modify: "(\<And>a. ag_requests (f a) = ag_requests a \<and> ag_bench (f a) = ag_bench a) \<Longrightarrow> free (modify f)"
  by (auto simp: costs_def modify_def)

lemma free_for_each [free_rules]: "(\<And>x. free (f x)) \<Longrightarrow> free (for_each xs f)"
  by (induction xs) (auto intro: free_rules)

lemma costs_bench: "runs_most k m \<Longrightarrow> costs 0 k (on_bench m)"
  by (auto simp: costs_def on_bench_def dest: runs_mostD split: prod.splits)

lemma free_loop_rules [free_rules]:
  "free (finish_multi_agent env t)" "free (finish_loop env c b o')" "free deadline_expired" "free (check_multi_agent env)"
  "free (checkpoint env)" "free apply_turn_control" "free (text_answer env r)"
proof -
  show fin: "free (finish_multi_agent env t)" for t
    unfolding finish_multi_agent_def by (intro free_rules free_modify) simp_all
  show fins: "free (finish_loop env c b o')" for c b o'
    unfolding finish_loop_def by (intro free_rules fin)
  show dl: "free deadline_expired" "free (check_multi_agent env)"
    unfolding deadline_expired_def check_multi_agent_def by (intro free_rules)+
  then show "free (checkpoint env)" unfolding checkpoint_def by (intro free_rules dl fins)
  have "free (guide g)" for g unfolding guide_def by (intro free_rules free_modify) simp_all
  then show "free apply_turn_control" unfolding apply_turn_control_def by (intro free_rules)
  show "free (text_answer env r)" unfolding text_answer_def by (intro free_rules fin fins)
qed

lemma costs_await [free_rules]: "costs j k m \<Longrightarrow> costs j k (await_deadline m)"
  unfolding await_deadline_def by (intro free_rules free_zero [OF free_basic(2)]) simp_all

lemma costs_guard: "costs j k m \<Longrightarrow> costs j k (guard env m)"
  unfolding guard_def by (rule costs_catch, erule costs_then) (intro free_rules)+

lemma free_absorb [free_rules]: "free (absorb live cs r)"
proof (induction cs arbitrary: r)
  case (Cons c cs)
  show ?case unfolding absorb.simps by (intro free_rules Cons.IH)
qed (simp add: free_rules)

lemma costs_complete: "costs 1 0 (complete env tools live)"
proof -
  have "costs 1 0 (send_request tools)" by (auto simp: costs_def send_request_def)
  then show ?thesis unfolding complete_def by (rule costs_then) (intro free_rules)
qed

lemma costs_flush: "costs 0 (length calls) (flush_ordinary env calls ad)"
  unfolding flush_ordinary_def execute_calls_def
  by (intro free_rules costs_if costs_then [OF costs_await [OF costs_bench]] free_zero [OF free_basic(1)])
    (use runs_loop [of "[]"] in simp)

lemma costs_calls: "costs 0 (length ordinary + length cs) (parent_calls env cs ordinary ad wrapped)"
proof (induction cs arbitrary: ordinary ad wrapped)
  case Nil
  then show ?case by (simp add: costs_then costs_flush free_rules)
next
  case (Cons c cs)
  have rest: "costs 0 (Suc (length cs)) (seq (parent_calls env cs [] ad' w) (\<lambda>(rest, ad'). ret (f rest ad')))" for ad' w f
    by (rule costs_then [OF costs_mono [OF Cons.IH [of "[]" ad' w]]]) (simp_all add: free_rules)
  have more: "costs (0 + 0) (length ordinary + Suc (length cs)) (seq (flush_ordinary env ordinary ad) (\<lambda>rs.
        seq (gets visible) (\<lambda>v.
          if \<not> v then seq (parent_calls env cs [] ad wrapped) (\<lambda>(rest, ad').
              ret (rs @ [(delegate_record c txt_delegate_not_allowed (Some txt_delegation_not_allowed), False)] @ rest, ad'))
          else seq (at_delegation (invoke (rn_coord (le_runner env)) (JObj (tl_args c)) (le_workers env)) []) (\<lambda>content.
            seq (gets (\<lambda>a. (visible a, wrap_adapter ad a))) (\<lambda>(v', ad1).
              (let wrap = \<not> v' \<and> \<not> wrapped in
               seq (parent_calls env cs [] (if wrap then ad1 else ad) (wrapped \<or> wrap)) (\<lambda>(rest, ad').
                 ret (rs @ [(delegate_record c content None, False)] @ rest, ad'))))))))"
  proof (rule costs_seq [OF costs_flush], rule costs_free [OF free_basic(4)], rule costs_if, rule rest)
    show "costs 0 (Suc (length cs)) (seq (at_delegation d []) (\<lambda>content.
            seq (gets (\<lambda>a. (visible a, wrap_adapter ad a))) (\<lambda>(v', ad1).
              (let wrap = \<not> v' \<and> \<not> wrapped in
               seq (parent_calls env cs [] (if wrap then ad1 else ad) (wrapped \<or> wrap)) (\<lambda>(rest, ad').
                 ret (rs @ [(delegate_record c content None, False)] @ rest, ad'))))))" for rs d
      by (rule costs_free [OF free_basic(14)], rule costs_free [OF free_basic(4)], rule costs_cases, rule costs_cases, rule rest)
  qed
  show ?case using more Cons.IH [of "ordinary @ [c]"] by simp
qed

lemma free_settle [free_rules]: "free (settle_attachments env i pairs)"
proof (induction pairs arbitrary: i)
  case (Cons p rest)
  obtain c r0 where p: "p = (c, r0)" by (cases p)
  have update: "free (modify (\<lambda>a. a\<lparr>ag_working := f a\<rparr>))" "free (modify (\<lambda>a. a\<lparr>ag_attach := st, ag_working := w\<rparr>))" for f st w
    by (rule free_modify, simp)+
  show ?case unfolding p settle_attachments.simps by (intro free_rules update Cons.IH)
qed (simp add: free_rules)

lemma free_settle_round [free_rules]: "free (settle_round env calls executed)"
  unfolding settle_round_def by (intro free_rules free_modify) simp_all

lemma length_slice: "0 \<le> n \<Longrightarrow> length (slice_calls n xs) \<le> nat n"
  by (simp add: slice_calls_def)

lemma costs_tools: "costs 0 (length calls) (tool_round env r calls)"
proof -
  have rest: "free (case x of Inl answer \<Rightarrow> ret (Some answer)
     | Inr (executed, ad') \<Rightarrow> seq (modify (\<lambda>a. a\<lparr>ag_adapter := ad'\<rparr>)) (\<lambda>_.
         seq (settle_round env calls executed) (\<lambda>_. seq apply_turn_control (\<lambda>stop.
           if stop then seq (finish_loop env (rs_content r) True None) (\<lambda>r. ret (Some r))
           else seq (refresh_tools env) (\<lambda>_. checkpoint env)))))" for x
    by (cases x) (auto intro!: free_rules free_modify)
  show ?thesis unfolding tool_round_def
    by (rule costs_free [OF free_basic(4)], rule costs_then [OF costs_guard rest])
      (use costs_calls [of "[]"] in simp)
qed

lemma costs_reply:
  assumes "0 \<le> le_max_calls env"
  shows "costs 0 (nat (le_max_calls env)) (after_reply env r)"
proof -
  have "costs 0 (nat (le_max_calls env)) (tool_round env r (slice_calls (le_max_calls env) (rs_calls r)))"
    by (rule costs_mono [OF costs_tools]) (simp_all add: length_slice assms)
  note tools = this
  have usage: "free (modify (\<lambda>a. a\<lparr>ag_usage := f a\<rparr>))" for f by (rule free_modify) simp
  show ?thesis unfolding after_reply_def Let_def
    by (rule costs_free [OF usage], rule costs_if, rule free_zero, (intro free_rules)[1],
        rule costs_free [OF free_basic(13)], rule costs_free [OF free_basic(8)], rule costs_if, rule free_zero, (intro free_rules)[1], rule tools)
qed

lemma costs_round:
  assumes "0 \<le> le_max_calls env"
  shows "costs 1 (nat (le_max_calls env)) (agent_round env)"
proof -
  have reply: "costs 0 (nat (le_max_calls env)) (case x of Inl r \<Rightarrow> ret (Some r) | Inr reply \<Rightarrow> after_reply env reply)" for x
    by (cases x) (simp_all add: costs_reply [OF assms] free_zero [OF free_basic(1)])
  have model: "costs (1 + 0) (0 + nat (le_max_calls env)) (seq (guard env (await_deadline (complete env tools True))) (\<lambda>x. case x of
        Inl r \<Rightarrow> ret (Some r) | Inr reply \<Rightarrow> after_reply env reply))" for tools
    by (rule costs_seq [OF costs_guard [OF costs_await [OF costs_complete]] reply])
  have over: "costs 1 (nat (le_max_calls env)) (seq (finish_loop env [] True None) (\<lambda>r. ret (Some r)))"
    by (rule free_zero) (intro free_rules)
  show ?thesis unfolding agent_round_def
    by (rule costs_free [OF free_loop_rules(6)], rule costs_if, rule over, rule costs_free [OF free_loop_rules(5)],
        rule costs_cases, rule costs_free [OF free_basic(4)]) (use model in \<open>simp_all add: free_zero [OF free_basic(1)]\<close>)
qed

lemma costs_rounds:
  assumes "0 \<le> le_max_calls env"
  shows "costs n (n * nat (le_max_calls env)) (agent_rounds env n)"
proof (induction n)
  case (Suc n)
  have "costs (1 + n) (nat (le_max_calls env) + n * nat (le_max_calls env)) (agent_rounds env (Suc n))"
    unfolding agent_rounds.simps
    by (rule costs_seq [OF costs_round [OF assms]], rule costs_cases) (use Suc in \<open>simp_all add: free_zero [OF free_basic(1)]\<close>)
  then show ?case by simp
qed (simp add: free_rules)

lemma costs_summary: "costs 1 0 (summary_round env)"
proof -
  have usage: "free (modify (\<lambda>a. a\<lparr>ag_usage := f a\<rparr>))" for f by (rule free_modify) simp
  have reply: "free (case x of Inl r \<Rightarrow> ret r
       | Inr reply \<Rightarrow>
           seq (modify (\<lambda>a. a\<lparr>ag_usage := usage_add (ag_usage a) (rs_usage reply)\<rparr>)) (\<lambda>_.
           seq is_stop_requested (\<lambda>stop.
             if stop then finish_loop env [] True None
             else
               seq (gets ag_records) (\<lambda>records.
                 (let text = py_strip (rs_content reply);
                      content = (if truthy (rs_protocol_error reply) \<or> rs_calls reply \<noteq> [] \<or> text = []
                                 then tool_round_limit_fallback records else text)
                  in seq (on_delta content) (\<lambda>_. finish_loop env content False None))))))" for x
    by (cases x) (auto intro!: free_rules usage)
  show ?thesis unfolding summary_round_def
    by (rule costs_free [OF free_basic(13)], rule costs_free [OF free_loop_rules(3)], rule costs_if,
        rule free_zero [OF free_loop_rules(2)], rule costs_then [OF costs_guard [OF costs_await [OF costs_complete]] reply])
qed

lemma scope_free: "free (scope_tools env)"
  unfolding scope_tools_def by (intro free_rules free_modify) simp_all

lemma start_free: "free (start_loop env ms)"
  unfolding start_loop_def by (intro free_rules free_modify) simp_all

lemma scope_limits: "scope_tools env a = (Inr env', a') \<Longrightarrow> le_max_calls env' = le_max_calls env \<and> le_rounds env' = le_rounds env
    \<and> le_attach env' = le_attach env"
  unfolding scope_tools_def
  by (auto simp: prog_simps read_registry_def Let_def split: option.splits list.splits)

section \<open>The end of the delegation\<close>

definition settled_turn :: "agent \<Rightarrow> bool" where
  "settled_turn a \<longleftrightarrow> (case invocation_of a of None \<Rightarrow> True | Some (iv, _) \<Rightarrow> iv_run_id iv = None \<or> iv_finished iv)"

abbreviation unfinished :: "agent \<Rightarrow> bool" where
  "unfinished a \<equiv> \<not> ag_finished a"

text \<open>A program whose answer, if it has one, comes with a settled delegation.\<close>

abbreviation concludes :: "(agent, loop_answer option) prog \<Rightarrow> bool" where
  "concludes m \<equiv> gives unfinished m (\<lambda>r a. if r = None then unfinished a else settled_turn a)"

abbreviation answers_settled :: "(agent, loop_answer) prog \<Rightarrow> bool" where
  "answers_settled m \<equiv> gives unfinished m (\<lambda>_. settled_turn)"

lemma finish_parent_settles:
  assumes "finish_parent_turn cf t (iv, s) = (Inr (), (iv', s'))"
  shows "iv_run_id iv' = None \<or> iv_finished iv'"
proof (cases "iv_run_id iv = None \<or> iv_finished iv")
  case True
  then show ?thesis using assms by (auto simp: finish_parent_turn_def ret_def split: option.splits)
next
  case False
  then have "iv' = iv\<lparr>iv_finished := True\<rparr>"
    using assms by (auto simp: finish_parent_turn_def prog_simps on_invocation_def on_coord_def
        split: option.splits prod.splits sum.splits exn.splits)
  then show ?thesis by simp
qed

lemma finish_settles: "gives unfinished (finish_multi_agent env t) (\<lambda>_. settled_turn)"
proof (rule givesI)
  fix a x a' assume "unfinished a" and run: "finish_multi_agent env t a = (Inr x, a')"
  show "settled_turn a'"
  proof (cases "invocation_of a")
    case None
    then show ?thesis using run by (simp add: finish_multi_agent_def ret_def settled_turn_def)
  next
    case (Some d)
    obtain iv s where d: "d = (iv, s)" by (cases d)
    obtain r iv' s' where fin: "finish_parent_turn (rn_coord (le_runner env)) t (iv, s) = (r, (iv', s'))"
      by (metis prod.collapse)
    have "invocation_of a' = Some (iv', s') \<and> r = Inr ()"
      using run Some \<open>unfinished a\<close> fin d
      by (auto simp: finish_multi_agent_def modify_def on_bench_def on_delegation_def invocation_of_def)
    then show ?thesis using finish_parent_settles fin by (auto simp: settled_turn_def)
  qed
qed

lemma loop_finish_settles: "answers_settled (finish_loop env c b o')"
  unfolding finish_loop_def
  by (rule gives_seq [OF finish_settles]) (auto intro!: givesI simp: gets_def)

lemma loop_finish_run: "finish_loop env c b o' a = (Inr x, a') \<Longrightarrow> unfinished a \<Longrightarrow> settled_turn a'"
  using givesD [OF loop_finish_settles] .

lemma option_concludes: "answers_settled m \<Longrightarrow> concludes (seq m (\<lambda>x. ret (Some x)))"
  by (rule givesI) (auto simp: ret_def elim!: seq_cases dest: givesD)

lemma open_quiet: "quiet m \<Longrightarrow> keeps unfinished m"
  by (rule keepsI) (use quietD in \<open>force simp: locals_of_def\<close>)

lemma open_modify: "(\<And>a. ag_finished (f a) = ag_finished a) \<Longrightarrow> keeps unfinished (modify f)"
  by (rule keeps_modify) simp

lemma guard_settles:
  assumes "keeps unfinished m"
  shows "gives unfinished (guard env m) (\<lambda>x a. case x of Inl _ \<Rightarrow> settled_turn a | Inr _ \<Rightarrow> unfinished a)"
proof (rule givesI)
  fix a x a' assume a: "unfinished a" and run: "guard env m a = (Inr x, a')"
  show "case x of Inl _ \<Rightarrow> settled_turn a' | Inr _ \<Rightarrow> unfinished a'"
    using run unfolding guard_def
  proof (rule catch_cases)
    fix y assume "seq m (\<lambda>x. ret (Inr x)) a = (y, a')" and "Inr x = y"
    then show ?thesis using keepsD [OF assms a] by (auto simp: ret_def elim!: seq_cases)
  next
    fix e a1 assume one: "seq m (\<lambda>x. ret (Inr x)) a = (Inl e, a1)"
      and "(if e = CancelledError then seq (finish_multi_agent env (u ''cancelled'')) (\<lambda>_. raise e)
     else if e = TimeoutError then seq (finish_loop env txt_ma_timed_out False (Some (u ''timed_out''))) (\<lambda>r. ret (Inl r))
     else if is_exception e then seq (finish_multi_agent env (u ''failed'')) (\<lambda>_. raise e)
     else raise e) a1 = (Inr x, a')"
    moreover have "unfinished a1" using one keepsD [OF assms a] by (auto simp: ret_def elim!: seq_cases)
    ultimately show ?thesis
      by (auto simp: ret_def raise_def elim!: seq_cases split: if_splits)
        (erule loop_finish_run, assumption)
  qed
qed

lemma open_control: "keeps unfinished apply_turn_control"
proof -
  have "keeps unfinished (guide g)" for g
    unfolding guide_def push_message_def by (intro keeps_rules open_modify) simp_all
  then show ?thesis unfolding apply_turn_control_def
    by (intro keeps_rules open_quiet [OF quiet_basic(9)] open_quiet [OF quiet_basic(10)])
qed

lemma checkpoint_concludes: "concludes (checkpoint env)"
proof -
  have none: "concludes (ret None)" by (rule givesI) (simp add: ret_def)
  have synth: "concludes (case err of Some t \<Rightarrow> seq (finish_loop env t False (Some (u ''failed''))) (\<lambda>r. ret (Some r)) | None \<Rightarrow> ret None)" for err
    by (cases err) (simp_all add: none option_concludes loop_finish_settles)
  show ?thesis unfolding checkpoint_def
    by (rule gives_keeps [OF open_quiet [OF quiet_checks(1)]], rule gives_if, rule option_concludes, rule loop_finish_settles,
        rule gives_keeps [OF open_quiet [OF quiet_checks(2)]], rule synth)
qed

lemma text_settles: "answers_settled (text_answer env r)"
proof -
  have "gives P (seq m (\<lambda>_. raise e)) Q" for m :: "(agent, unit) prog" and e P Q
    by (rule givesI) (auto simp: raise_def elim!: seq_cases)
  then show ?thesis unfolding text_answer_def
    by (auto intro!: gives_keeps [OF open_quiet [OF quiet_basic(9)]] gives_if loop_finish_settles)
qed

lemma open_settle: "keeps unfinished (settle_round env calls executed)"
proof -
  have "keeps unfinished (settle_attachments env i pairs)" for i pairs
  proof (induction pairs arbitrary: i)
    case (Cons p rest)
    obtain c r0 where p: "p = (c, r0)" by (cases p)
    show ?case unfolding p settle_attachments.simps by (intro keeps_rules open_modify Cons.IH) simp_all
  qed (simp add: keeps_rules)
  then show ?thesis unfolding settle_round_def by (intro keeps_rules open_modify) simp_all
qed

lemma tools_conclude: "concludes (tool_round env r calls)"
proof -
  have after: "concludes (seq apply_turn_control (\<lambda>stop.
      if stop then seq (finish_loop env (rs_content r) True None) (\<lambda>r. ret (Some r))
      else seq (refresh_tools env) (\<lambda>_. checkpoint env)))"
    by (rule gives_keeps [OF open_control], rule gives_if, rule option_concludes, rule loop_finish_settles,
        rule gives_keeps [OF open_quiet [OF quiet_basic(14)] checkpoint_concludes])
  have rest: "gives (\<lambda>a. case x of Inl _ \<Rightarrow> settled_turn a | Inr _ \<Rightarrow> unfinished a) (case x of Inl answer \<Rightarrow> ret (Some answer)
     | Inr (executed, ad') \<Rightarrow> seq (modify (\<lambda>a. a\<lparr>ag_adapter := ad'\<rparr>)) (\<lambda>_.
         seq (settle_round env calls executed) (\<lambda>_. seq apply_turn_control (\<lambda>stop.
           if stop then seq (finish_loop env (rs_content r) True None) (\<lambda>r. ret (Some r))
           else seq (refresh_tools env) (\<lambda>_. checkpoint env)))))
       (\<lambda>r a. if r = None then unfinished a else settled_turn a)" for x
  proof (cases x)
    case (Inl answer)
    then show ?thesis by (auto intro!: givesI simp: ret_def)
  next
    case (Inr p)
    obtain executed ad' where p: "p = (executed, ad')" by (cases p)
    have "keeps unfinished (modify (\<lambda>a. a\<lparr>ag_adapter := ad'\<rparr>))" by (rule open_modify) simp
    have "concludes (seq (modify (\<lambda>a. a\<lparr>ag_adapter := ad'\<rparr>)) (\<lambda>_.
         seq (settle_round env calls executed) (\<lambda>_. seq apply_turn_control (\<lambda>stop.
           if stop then seq (finish_loop env (rs_content r) True None) (\<lambda>r. ret (Some r))
           else seq (refresh_tools env) (\<lambda>_. checkpoint env)))))"
      by (rule gives_keeps [OF \<open>keeps unfinished (modify _)\<close>], rule gives_keeps [OF open_settle], rule after)
    then show ?thesis by (simp add: Inr p)
  qed
  show ?thesis unfolding tool_round_def
    by (rule gives_keeps [OF keeps_gets], rule gives_seq [OF guard_settles rest], rule open_quiet, rule quiet_calls)
qed

lemma reply_concludes: "concludes (after_reply env r)"
proof -
  have usage: "keeps unfinished (modify (\<lambda>a. a\<lparr>ag_usage := f a\<rparr>))" for f by (rule open_modify) simp
  have push: "keeps unfinished (push_message m)" for m unfolding push_message_def by (rule open_modify) simp
  show ?thesis unfolding after_reply_def Let_def
    by (rule gives_keeps [OF usage], rule gives_if, rule option_concludes [OF text_settles],
        rule gives_keeps [OF push], rule gives_keeps [OF open_quiet [OF quiet_basic(9)]], rule gives_if,
        rule option_concludes [OF loop_finish_settles], rule tools_conclude)
qed

lemma open_complete: "keeps unfinished (await_deadline (complete env tools live))"
proof -
  have "keeps unfinished (send_request tools)" by (rule keepsI) (simp add: send_request_def)
  moreover have "keeps unfinished ask_model" "keeps unfinished ask_stream" "keeps unfinished loop_time" "keeps unfinished read_expired"
    by (intro open_quiet quiet_rules)+
  moreover have "keeps unfinished (absorb live cs r)" for cs r by (intro open_quiet quiet_rules)
  ultimately show ?thesis unfolding await_deadline_def complete_def by (intro keeps_rules)
qed

lemma round_concludes: "concludes (agent_round env)"
proof -
  have reply: "gives (\<lambda>a. case x of Inl _ \<Rightarrow> settled_turn a | Inr _ \<Rightarrow> unfinished a)
      (case x of Inl r \<Rightarrow> ret (Some r) | Inr reply \<Rightarrow> after_reply env reply)
      (\<lambda>r a. if r = None then unfinished a else settled_turn a)" for x
    using reply_concludes by (cases x) (auto intro!: givesI simp: ret_def dest: givesD)
  have model: "concludes (seq (gets ag_tools) (\<lambda>tools. seq (guard env (await_deadline (complete env tools True)))
      (\<lambda>x. case x of Inl r \<Rightarrow> ret (Some r) | Inr reply \<Rightarrow> after_reply env reply)))"
    by (rule gives_keeps [OF keeps_gets], rule gives_seq [OF guard_settles [OF open_complete] reply])
  have early: "gives (\<lambda>a. if e = None then unfinished a else settled_turn a) (case e of Some r \<Rightarrow> ret (Some r)
      | None \<Rightarrow> seq (gets ag_tools) (\<lambda>tools. seq (guard env (await_deadline (complete env tools True)))
          (\<lambda>x. case x of Inl r \<Rightarrow> ret (Some r) | Inr reply \<Rightarrow> after_reply env reply)))
      (\<lambda>r a. if r = None then unfinished a else settled_turn a)" for e
    using model by (cases e) (auto intro!: givesI simp: ret_def dest: givesD)
  show ?thesis unfolding agent_round_def
    by (rule gives_keeps [OF open_control], rule gives_if, rule option_concludes [OF loop_finish_settles],
        rule gives_seq [OF checkpoint_concludes early])
qed

lemma rounds_conclude: "concludes (agent_rounds env n)"
proof (induction n)
  case (Suc n)
  have "gives (\<lambda>a. if r = None then unfinished a else settled_turn a)
      (case r of Some x \<Rightarrow> ret (Some x) | None \<Rightarrow> agent_rounds env n)
      (\<lambda>r a. if r = None then unfinished a else settled_turn a)" for r
    using Suc by (cases r) (auto intro!: givesI simp: ret_def dest: givesD)
  then show ?case by (simp add: gives_seq [OF round_concludes])
qed (auto intro!: givesI simp: ret_def)

lemma summary_settles: "answers_settled (summary_round env)"
proof -
  have push: "keeps unfinished (push_message m)" for m unfolding push_message_def by (rule open_modify) simp
  have usage: "keeps unfinished (modify (\<lambda>a. a\<lparr>ag_usage := f a\<rparr>))" for f by (rule open_modify) simp
  have tail: "answers_settled (seq (modify (\<lambda>a. a\<lparr>ag_usage := usage_add (ag_usage a) (rs_usage reply)\<rparr>)) (\<lambda>_.
           seq is_stop_requested (\<lambda>stop.
             if stop then finish_loop env [] True None
             else
               seq (gets ag_records) (\<lambda>records.
                 (let text = py_strip (rs_content reply);
                      content = (if truthy (rs_protocol_error reply) \<or> rs_calls reply \<noteq> [] \<or> text = []
                                 then tool_round_limit_fallback records else text)
                  in seq (on_delta content) (\<lambda>_. finish_loop env content False None))))))" for reply
    unfolding Let_def
    by (rule gives_keeps [OF usage], rule gives_keeps [OF open_quiet [OF quiet_basic(9)]], rule gives_if, rule loop_finish_settles,
        rule gives_keeps [OF keeps_gets], rule gives_keeps [OF open_quiet [OF quiet_basic(11)]], rule loop_finish_settles)
  have reply: "gives (\<lambda>a. case x of Inl _ \<Rightarrow> settled_turn a | Inr _ \<Rightarrow> unfinished a) (case x of Inl r \<Rightarrow> ret r
       | Inr reply \<Rightarrow> seq (modify (\<lambda>a. a\<lparr>ag_usage := usage_add (ag_usage a) (rs_usage reply)\<rparr>)) (\<lambda>_.
           seq is_stop_requested (\<lambda>stop.
             if stop then finish_loop env [] True None
             else
               seq (gets ag_records) (\<lambda>records.
                 (let text = py_strip (rs_content reply);
                      content = (if truthy (rs_protocol_error reply) \<or> rs_calls reply \<noteq> [] \<or> text = []
                                 then tool_round_limit_fallback records else text)
                  in seq (on_delta content) (\<lambda>_. finish_loop env content False None)))))) (\<lambda>_. settled_turn)" for x
    using tail by (cases x) (auto intro!: givesI simp: ret_def dest: givesD)
  show ?thesis unfolding summary_round_def
    by (rule gives_keeps [OF push], rule gives_keeps [OF open_quiet [OF quiet_checks(1)]], rule gives_if, rule loop_finish_settles,
        rule gives_seq [OF guard_settles [OF open_complete] reply])
qed

section \<open>The budgets of attachments\<close>

abbreviation budgeted :: "attach_cfg \<Rightarrow> agent \<Rightarrow> bool" where
  "budgeted cfg a \<equiv> within_budgets cfg (ag_attach a)"

lemma budget_modify: "(\<And>a. ag_attach (f a) = ag_attach a) \<Longrightarrow> keeps (budgeted cfg) (modify f)"
  by (rule keeps_modify) simp

lemma budget_quiet: "quiet m \<Longrightarrow> keeps (budgeted cfg) m"
  by (rule keepsI) (use quietD in \<open>force simp: locals_of_def\<close>)

lemma budget_push [keeps_rules]: "keeps (budgeted cfg) (push_message m)"
  unfolding push_message_def by (rule budget_modify) simp

lemma budget_finish [keeps_rules]: "keeps (budgeted cfg) (finish_multi_agent env t)" "keeps (budgeted cfg) (finish_loop env c b o')"
  unfolding finish_loop_def finish_multi_agent_def
  by (intro keeps_rules budget_modify budget_quiet [OF quiet_basic(5)]; simp)+

lemma budget_settle: "keeps (budgeted (le_attach env)) (settle_attachments env i pairs)"
proof (induction pairs arbitrary: i)
  case (Cons p rest)
  obtain c r0 where p: "p = (c, r0)" by (cases p)
  let ?cfg = "le_attach env" and ?r = "r0\<lparr>cl_attachment := None\<rparr>"
  define tail where "tail = (\<lambda>r'. seq (settle_attachments env (Suc i) rest) (\<lambda>rs. ret (r' # rs)))"
  have rest: "keeps (budgeted ?cfg) (tail r')" for r'
    unfolding tail_def by (intro keeps_rules Cons.IH)
  show ?case
  proof (rule keepsI)
    fix a assume a: "budgeted ?cfg a"
    show "budgeted ?cfg (snd (settle_attachments env i (p # rest) a))"
    proof (cases "check_attachment ?cfg (ag_attach a) (cl_attachment r0) ?r (ag_working a)")
      case (Inl e)
      then show ?thesis using a by (simp add: p Let_def lift_def seq_def [of "lift _"])
    next
      case chk: (Inr err)
      show ?thesis
      proof (cases err)
        case (Some e)
        then have "settle_attachments env i (p # rest) a
            = tail (reject_attachment e ?r) (a\<lparr>ag_working := (ag_working a)[i := tool_result_message c (reject_attachment e ?r)]\<rparr>)"
          using chk by (simp add: p Let_def lift_def seq_def [of "lift _"] seq_assoc tail_def)
        then show ?thesis using keepsD [OF rest] a by simp
      next
        case none: None
        obtain st' msgs' where com: "commit_attachment ?cfg (ag_attach a) (cl_attachment r0) ?r (ag_working a) = Inr (st', msgs')"
            and ok: "within_budgets ?cfg st'"
        proof (cases "cl_attachment r0")
          case None
          then show ?thesis using that a by (simp add: commit_attachment_def)
        next
          case (Some ob)
          then obtain at' where "cl_attachment r0 = Some (Attached at')"
            using chk none by (cases ob) (auto simp: check_attachment_def validate_context_attachment_def)
          then show ?thesis using commit_ok [of ?cfg "ag_attach a" at' ?r "ag_working a"] chk none a that by metis
        qed
        then have "settle_attachments env i (p # rest) a = tail ?r (a\<lparr>ag_attach := st', ag_working := msgs'\<rparr>)"
          using chk none by (simp add: p Let_def lift_def seq_def [of "lift _"] seq_assoc tail_def)
        then show ?thesis using keepsD [OF rest] ok by simp
      qed
    qed
  qed
qed (simp add: keeps_rules)

lemma budget_parts:
  shows budget_round: "keeps (budgeted (le_attach env)) (agent_round env)"
    and budget_summary: "keeps (budgeted (le_attach env)) (summary_round env)"
proof -
  let ?B = "budgeted (le_attach env)"
  have small: "keeps ?B read_registry" "keeps ?B loop_time" "keeps ?B read_expired" "keeps ?B is_stop_requested" "keeps ?B consume_guidance"
    "keeps ?B ask_model" "keeps ?B ask_stream" "keeps ?B (refresh_tools env)" "keeps ?B deadline_expired" "keeps ?B (check_multi_agent env)"
    "keeps ?B (parent_calls env cs o' ad w)" "keeps ?B (absorb live ks r)" for cs o' ad w live ks r
    by (intro budget_quiet quiet_rules)+
  have send: "keeps ?B (send_request t)" for t by (rule keepsI) (simp add: send_request_def)
  have guide: "keeps ?B (guide g)" for g unfolding guide_def by (intro keeps_rules budget_modify) simp_all
  have control: "keeps ?B apply_turn_control" unfolding apply_turn_control_def by (intro keeps_rules small guide)
  have guarded: "keeps ?B (guard env m)" if "keeps ?B m" for m :: "(agent, 'b) prog"
    unfolding guard_def by (rule keeps_catch, rule keeps_seq, rule that) (intro keeps_rules)+
  have check: "keeps ?B (checkpoint env)" unfolding checkpoint_def by (intro keeps_rules small)
  have settle: "keeps ?B (settle_round env cs es)" for cs es
    unfolding settle_round_def by (intro keeps_rules budget_modify budget_settle) simp_all
  have tools: "keeps ?B (tool_round env r cs)" for r cs
    unfolding tool_round_def by (intro keeps_rules small guarded budget_modify settle control check) simp_all
  have answered: "keeps ?B (text_answer env r)" for r unfolding text_answer_def by (intro keeps_rules small)
  have reply: "keeps ?B (after_reply env r)" for r
    unfolding after_reply_def Let_def by (intro keeps_rules small budget_modify answered tools) simp_all
  have model: "keeps ?B (await_deadline (complete env t live))" for t live
    unfolding await_deadline_def complete_def by (intro keeps_rules small send)
  show "keeps ?B (agent_round env)" unfolding agent_round_def by (intro keeps_rules control check guarded model reply)
  have delta: "keeps ?B (on_delta t)" for t by (intro budget_quiet quiet_rules)
  show "keeps ?B (summary_round env)"
    unfolding summary_round_def Let_def by (intro keeps_rules small guarded model delta budget_modify) simp_all
qed

lemma budget_rounds: "keeps (budgeted (le_attach env)) (agent_rounds env n)"
  by (induction n) (auto intro: keeps_rules budget_round)

text \<open>The beginning of a turn: nothing attached yet, the delegation not finished.\<close>

lemma start_facts:
  "start_loop env ms a = (r, a') \<Longrightarrow> r = Inr () \<and> unfinished a' \<and> budgeted (le_attach env) a'
     \<and> ag_working a' = ms \<and> ag_requests a' = ag_requests a \<and> ag_bench a' = ag_bench a"
  by (auto simp: start_loop_def refresh_tools_def read_registry_def prog_simps new_within)

lemma scope_facts: "scope_tools env a = (r, a') \<Longrightarrow> (\<exists>env'. r = Inr env' \<and> le_max_calls env' = le_max_calls env
    \<and> le_rounds env' = le_rounds env \<and> le_attach env' = le_attach env) \<and> ag_requests a' = ag_requests a \<and> ag_bench a' = ag_bench a"
  unfolding scope_tools_def
  by (auto simp: prog_simps read_registry_def Let_def split: option.splits list.splits)

text \<open>A run is a start, its rounds and, when they are used up, the summary.\<close>

lemma run_cases:
  assumes "agent_run env ms a = (r, a')"
  obtains env' a1 where "le_max_calls env' = le_max_calls env" "le_rounds env' = le_rounds env" "le_attach env' = le_attach env"
    and "unfinished a1" "budgeted (le_attach env) a1" "ag_working a1 = ms" "ag_requests a1 = ag_requests a" "ag_bench a1 = ag_bench a"
    and "seq (agent_rounds env' (nat (le_rounds env))) (\<lambda>r. case r of Some x \<Rightarrow> ret x | None \<Rightarrow> summary_round env') a1 = (r, a')"
proof -
  obtain r0 a0 where scope: "scope_tools env a = (r0, a0)" by fastforce
  then obtain env' where env': "r0 = Inr env'" "le_max_calls env' = le_max_calls env" "le_rounds env' = le_rounds env"
      "le_attach env' = le_attach env" "ag_requests a0 = ag_requests a" "ag_bench a0 = ag_bench a"
    using scope_facts by blast
  obtain r1 a1 where start: "start_loop env' ms a0 = (r1, a1)" by fastforce
  note st = start_facts [OF start]
  have "seq (agent_rounds env' (nat (le_rounds env))) (\<lambda>r. case r of Some x \<Rightarrow> ret x | None \<Rightarrow> summary_round env') a1 = (r, a')"
    using assms scope start env' st by (simp add: agent_run_def seq_def [of "scope_tools _"] seq_def [of "start_loop _ _"])
  then show ?thesis using that env' st by auto
qed

end
