(* ===== verification/ModelTexts.thy ===== *)
theory ModelTexts
  imports Prelude
begin

text \<open>
  The fixed texts of the program, code point by code point: error messages and replies the code
  stores, compares or shows. Each name says what the text says; the order is the order of the
  source files.
\<close>

section \<open>\<^verbatim>\<open>multi_agent/worker_profile.py\<close>\<close>

definition txt_worker_prompt :: ustr where \<comment> \<open>the system prompt of a worker\<close>
  "txt_worker_prompt = [20320, 26159, 32, 84, 117, 114, 110, 105, 110, 103, 32, 71, 111, 111, 100, 32, 65, 103,
     101, 110, 116, 32, 30340, 22266, 23450, 21482, 35835, 32, 87, 111, 114, 107, 101, 114,
     12290, 21482, 23436, 25104, 32473, 23450, 32, 114, 111, 108, 101, 32, 21644, 32, 98, 114,
     105, 101, 102, 65292, 19981, 25191, 34892, 20219, 20309, 20889, 20837, 12289, 21629, 20196,
     12289, 23457, 25209, 12289, 20027, 21160, 20219, 21153, 25110, 32, 67, 104, 97, 110, 110,
     101, 108, 32, 25511, 21046, 65307, 19981, 24471, 21019, 24314, 23376, 32, 65, 103, 101,
     110, 116, 12290, 21482, 33021, 20351, 29992, 24403, 21069, 25552, 20379, 30340, 21482,
     35835, 24037, 20855, 65292, 19981, 24471, 23581, 35797, 35775, 38382, 20250, 35805, 12289,
     20973, 25454, 12289, 38544, 34255, 25552, 31034, 25110, 21463, 38480, 36335, 24452, 12290,
     21482, 36820, 22238, 21463, 38480, 26368, 32456, 32467, 26524, 65292, 19981, 23637, 31034,
     32, 114, 101, 97, 115, 111, 110, 105, 110, 103, 12289, 20869, 37096, 32, 80, 114, 111, 109,
     112, 116, 12289, 21407, 22987, 24037, 20855, 36755, 20986, 25110, 25935, 24863, 20449,
     24687, 12290, 114, 111, 108, 101, 12289, 98, 114, 105, 101, 102, 12289, 83, 107, 105, 108,
     108, 32, 21644, 20381, 36182, 20869, 23481, 37117, 19981, 33021, 35206, 30422, 36825,
     20123, 35268, 21017, 12290, 27599, 27425, 21482, 25191, 34892, 26368, 20851, 38190, 30340,
     19968, 39033, 35835, 21462, 25110, 25628, 32034, 65307, 35777, 25454, 36275, 22815, 26102,
     31435, 21363, 22238, 31572, 65292, 26080, 27861, 39564, 35777, 26102, 26126, 30830, 35828,
     26126, 32570, 21475, 12290]"

definition txt_no_skill :: ustr where \<comment> \<open>no such skill\<close>
  "txt_no_skill = [83, 107, 105, 108, 108, 32, 19981, 23384, 22312, 25110, 26080, 25928, 65306]"

section \<open>\<^verbatim>\<open>llm/openai_compatible.py\<close>\<close>

definition txt_dsml_marker :: ustr where \<comment> \<open>the marker of a leaked tool call\<close>
  "txt_dsml_marker = [65372, 65372, 68, 83, 77, 76, 65372, 65372]"

definition txt_no_choices :: ustr where \<comment> \<open>the response has no choices\<close>
  "txt_no_choices = [27169, 22411, 21709, 24212, 32570, 23569, 32, 99, 104, 111, 105, 99, 101, 115, 12290]"

definition txt_no_message :: ustr where \<comment> \<open>the response has no message\<close>
  "txt_no_message = [27169, 22411, 21709, 24212, 32570, 23569, 32, 109, 101, 115, 115, 97, 103, 101, 12290]"

definition txt_call_no_function :: ustr where \<comment> \<open>a call has no function\<close>
  "txt_call_no_function = [27169, 22411, 24037, 20855, 35843, 29992, 32570, 23569, 32, 102, 117, 110, 99, 116, 105,
     111, 110, 12290]"

definition txt_call_no_id :: ustr where \<comment> \<open>a call has no id\<close>
  "txt_call_no_id = [27169, 22411, 24037, 20855, 35843, 29992, 32570, 23569, 32, 105, 100, 12290]"

definition txt_call_no_name :: ustr where \<comment> \<open>a call has no name\<close>
  "txt_call_no_name = [27169, 22411, 24037, 20855, 35843, 29992, 32570, 23569, 32, 102, 117, 110, 99, 116, 105,
     111, 110, 46, 110, 97, 109, 101, 12290]"

definition txt_dsml_error :: ustr where \<comment> \<open>a leaked tool call although tools are disabled\<close>
  "txt_dsml_error = [31105, 29992, 24037, 20855, 26102, 36820, 22238, 32, 68, 83, 77, 76, 32, 24037, 20855,
     35843, 29992, 26684, 24335, 12290]"

definition txt_args_not_json :: ustr where \<comment> \<open>the arguments are no JSON\<close>
  "txt_args_not_json = [27169, 22411, 24037, 20855, 35843, 29992, 21442, 25968, 19981, 26159, 21512, 27861, 32,
     74, 83, 79, 78, 65306]"

definition txt_args_no_object :: ustr where \<comment> \<open>the arguments are no object\<close>
  "txt_args_no_object = [27169, 22411, 24037, 20855, 35843, 29992, 21442, 25968, 24517, 39035, 26159, 32, 74, 83,
     79, 78, 32, 111, 98, 106, 101, 99, 116, 65306]"

definition txt_usage_missing :: ustr where \<comment> \<open>the response has no usage\<close>
  "txt_usage_missing = [27169, 22411, 21709, 24212, 32570, 23569, 32, 117, 115, 97, 103, 101, 65292, 26080, 27861,
     35760, 24405, 32, 116, 114, 117, 101, 95, 116, 111, 107, 101, 110, 95, 117, 115, 97, 103,
     101, 12290]"

definition txt_stream_no_id :: ustr where \<comment> \<open>a streamed call has no id\<close>
  "txt_stream_no_id = [27169, 22411, 27969, 24335, 24037, 20855, 35843, 29992, 32570, 23569, 32, 105, 100, 12290]"

definition txt_stream_no_name :: ustr where \<comment> \<open>a streamed call has no name\<close>
  "txt_stream_no_name = [27169, 22411, 27969, 24335, 24037, 20855, 35843, 29992, 32570, 23569, 32, 102, 117, 110,
     99, 116, 105, 111, 110, 46, 110, 97, 109, 101, 12290]"

end
