(* ===== verification/WorkerRunner.thy ===== *)
theory WorkerRunner
  imports AgentCosts ModelTexts
begin

text \<open>
  The turn of a worker: the tools it may use and the paths it may read (\<^verbatim>\<open>multi_agent/worker_profile.py\<close>),
  and the restricted agent loop that carries out one task (\<^verbatim>\<open>multi_agent/worker_runner.py\<close>).
\<close>

section \<open>The profile\<close>

text \<open>The names of the trusted tools; each name has one class, and a tool is trusted if it is of it.\<close>

definition worker_tool_names :: "ustr list" where
  "worker_tool_names = map u [''list_dir'', ''find_file'', ''read_file'', ''grep'', ''now'', ''load_skill'',
     ''web_fetch'', ''web_search'']"

definition absolute :: "ustr \<Rightarrow> bool" where
  "absolute p \<longleftrightarrow> starts_with p (u ''/'')"

text \<open>\<open>WorkerPathPolicy.__post_init__\<close>.\<close>

definition mk_path_policy :: "security_env \<Rightarrow> ustr \<Rightarrow> ustr \<Rightarrow> exn + path_policy" where
  "mk_path_policy env workspace data_dir =
     bindE (se_resolve env workspace) (\<lambda>ws.
     bindE (se_resolve env (if absolute data_dir then data_dir else path_text ws @ u ''/'' @ data_dir)) (\<lambda>dd.
       Inr \<lparr>pp_workspace = ws, pp_data_dir = dd\<rparr>))"

definition workspace_for :: "security_env \<Rightarrow> registry \<Rightarrow> ustr option \<Rightarrow> ustr" where
  "workspace_for env rg workspace = (case workspace of
     Some w \<Rightarrow> w
   | None \<Rightarrow> (case List.find (\<lambda>n. Option.bind (dict_get (rg_tools rg) n) to_workspace \<noteq> None) (tool_names rg) of
       Some n \<Rightarrow> the (Option.bind (dict_get (rg_tools rg) n) to_workspace)
     | None \<Rightarrow> se_cwd env))"

text \<open>The tools a worker gets, each with the worker's path policy if it knows one.\<close>

definition worker_may_use :: "ustr list option \<Rightarrow> ustr list \<Rightarrow> ustr \<Rightarrow> tool \<Rightarrow> bool" where
  "worker_may_use allowed approvals name t \<longleftrightarrow>
     (case allowed of Some names \<Rightarrow> name \<in> set names | None \<Rightarrow> True)
     \<and> name \<in> set worker_tool_names \<and> name \<notin> set approvals
     \<and> to_trusted t \<and> \<not> starts_with name (u ''mcp_'') \<and> to_read_only t \<and> \<not> to_approval_required t"

definition worker_copy :: "path_policy \<Rightarrow> tool \<Rightarrow> tool" where
  "worker_copy pp t = (if to_has_policy t then t\<lparr>to_policy := Some pp\<rparr> else t)"

definition worker_registry :: "registry \<Rightarrow> path_policy \<Rightarrow> ustr list option \<Rightarrow> ustr list \<Rightarrow> registry" where
  "worker_registry rg pp allowed approvals =
     fold (\<lambda>name acc. case dict_get (rg_tools rg) name of
         None \<Rightarrow> acc
       | Some t \<Rightarrow> (if worker_may_use allowed approvals name t then register_tool (worker_copy pp t) acc else acc))
       (tool_names rg) empty_registry"

record skill_manifest =
  mf_name :: ustr
  mf_description :: ustr
  mf_dir :: ustr
  mf_path :: ustr

definition skill_blocked :: "security_env \<Rightarrow> path_policy \<Rightarrow> skill_manifest \<Rightarrow> exn + bool" where
  "skill_blocked env pp m =
     bindE (policy_validate env pp (mf_dir m)) (\<lambda>e1.
       if truthy e1 then Inr True
       else bindE (policy_validate env pp (mf_path m)) (\<lambda>e2. Inr (truthy e2)))"

definition worker_skill_catalog :: "security_env \<Rightarrow> path_policy \<Rightarrow> (ustr, skill_manifest) dict \<Rightarrow> exn + skill_item list" where
  "worker_skill_catalog env pp manifests =
     bindE (mapE (\<lambda>m. bindE (skill_blocked env pp m) (\<lambda>bad. Inr (bad, m))) (sort_key mf_name (map snd manifests))) (\<lambda>rows.
       Inr (map (\<lambda>(bad, m). \<lparr>sk_name = mf_name m, sk_description = mf_description m\<rparr>) (filter (\<lambda>(bad, m). \<not> bad) rows)))"

text \<open>\<open>WorkerSkillManager.load\<close>: what the manager then loads is an argument.\<close>

definition worker_load_skill ::
  "security_env \<Rightarrow> path_policy \<Rightarrow> (ustr, skill_manifest) dict \<Rightarrow> (ustr \<Rightarrow> exn + 'a) \<Rightarrow> ustr \<Rightarrow> exn + 'a" where
  "worker_load_skill env pp manifests load name = (case dict_get manifests name of
     None \<Rightarrow> Inl (RuntimeError (txt_no_skill @ name))
   | Some m \<Rightarrow>
       bindE (policy_validate env pp (mf_dir m)) (\<lambda>e1.
         if truthy e1 then Inl (RuntimeError (the e1))
         else bindE (policy_validate env pp (mf_path m)) (\<lambda>e2.
           if truthy e2 then Inl (RuntimeError (the e2)) else load name)))"

record worker_profile =
  wp_tools :: "ustr list"
  wp_prompt :: ustr
  wp_catalog :: "skill_item list"
  wp_policy :: path_policy

definition build_worker_profile ::
  "security_env \<Rightarrow> registry \<Rightarrow> ustr \<Rightarrow> ustr option \<Rightarrow> (ustr, skill_manifest) dict option \<Rightarrow> ustr list \<Rightarrow> exn + worker_profile"
where
  "build_worker_profile env rg data_dir workspace manifests approvals =
     bindE (mk_path_policy env (workspace_for env rg workspace) data_dir) (\<lambda>pp.
     bindE (case manifests of Some ms \<Rightarrow> worker_skill_catalog env pp ms | None \<Rightarrow> Inr []) (\<lambda>catalog.
       Inr \<lparr>wp_tools = tool_names (worker_registry rg pp None approvals), wp_prompt = txt_worker_prompt,
            wp_catalog = catalog, wp_policy = pp\<rparr>))"

section \<open>The runner\<close>

text \<open>The loop of a worker: its own registry, only truncation as a hook, one call at a time.\<close>

definition worker_loop :: "loop_env \<Rightarrow> registry \<Rightarrow> worker_profile \<Rightarrow> int \<Rightarrow> loop_env" where
  "worker_loop base rg prof max_result_tokens =
     base\<lparr>le_runner := (le_runner base)\<lparr>rn_registry := worker_registry rg (wp_policy prof) (Some (wp_tools prof)) [],
            rn_hooks := [Truncation_hook max_result_tokens], rn_parallel := False\<rparr>,
          le_max_calls := 1, le_streaming := False, le_auto := False, le_allowed := Some (wp_tools prof),
          le_persist := True, le_attachment_tool := None\<rparr>"

definition evidence_preview :: "ustr \<Rightarrow> ustr" where
  "evidence_preview content = take 1000 content @ (if length content > 1000 then [10] @ txt_preview_cut else [])"

definition evidence_handoff :: "call_record list \<Rightarrow> ustr option" where
  "evidence_handoff rs =
     (let evidence = map (\<lambda>r. u ''['' @ tr_name r @ u '']'' @ [10] @ evidence_preview (py_strip (tr_content r)))
            (filter (\<lambda>r. \<not> truthy (tr_error r) \<and> py_strip (tr_content r) \<noteq> []) rs)
      in if evidence = [] then None else Some (txt_evidence_intro @ [10, 10] @ py_join [10, 10] evidence))"

record worker_desk =
  wk_agent :: agent
  wk_usage :: "(ustr \<times> ustr, ma_usage) dict"

definition on_agent :: "(agent, 'a) prog \<Rightarrow> (worker_desk, 'a) prog" where
  "on_agent m d = (case m (wk_agent d) of (r, a) \<Rightarrow> (r, d\<lparr>wk_agent := a\<rparr>))"

definition remember_usage :: "ustr \<Rightarrow> ustr \<Rightarrow> llm_usage \<Rightarrow> (worker_desk, unit) prog" where
  "remember_usage run_id node us =
     (if lu_input us < 0 \<or> lu_output us < 0 \<or> lu_total us \<le> 0 then ret ()
      else modify (\<lambda>d. d\<lparr>wk_usage := dict_put (run_id, node)
        \<lparr>us_input = lu_input us, us_output = lu_output us, us_turn_total = lu_total us\<rparr> (wk_usage d)\<rparr>))"

definition usage_for :: "ustr \<Rightarrow> ustr \<Rightarrow> worker_desk \<Rightarrow> ma_usage option" where
  "usage_for run_id node d = dict_get (wk_usage d) (run_id, node)"

definition release_worker_run :: "ustr \<Rightarrow> (worker_desk, unit) prog" where
  "release_worker_run run_id = modify (\<lambda>d. d\<lparr>wk_usage := filter (\<lambda>kv. fst (fst kv) \<noteq> run_id) (wk_usage d)\<rparr>)"

definition judge_worker :: "ustr \<Rightarrow> ustr \<Rightarrow> loop_answer \<Rightarrow> (worker_desk, worker_result) prog" where
  "judge_worker run_id node x =
     (if la_cancelled x then
        seq (remember_usage run_id node (la_usage x)) (\<lambda>_. lift (mk_worker_result Cancelled None (Some txt_worker_cancelled)))
      else if starts_with (la_content x) txt_limit_prefix then
        seq (remember_usage run_id node (la_usage x)) (\<lambda>_. case evidence_handoff (la_tools x) of
          Some content \<Rightarrow> lift (mk_worker_result Completed (Some content) None)
        | None \<Rightarrow> lift (mk_worker_result Failed None (Some txt_worker_limit)))
      else
        seq (remember_usage run_id node (la_usage x)) (\<lambda>_. lift (mk_worker_result Completed (Some (la_content x)) None)))"

definition run_task ::
  "loop_env \<Rightarrow> worker_profile \<Rightarrow> snapshot \<Rightarrow> ma_task \<Rightarrow> ustr option \<Rightarrow> ustr \<Rightarrow> ustr \<Rightarrow> (worker_desk, worker_result) prog" where
  "run_task env prof memory task dep run_id node =
     catch
       (seq (lift (build_worker_messages (at_build (le_attach env)) (wp_prompt prof) memory (wp_catalog prof)
               (t_role task) (t_brief task) dep)) (\<lambda>messages.
        seq (on_agent (agent_run env messages)) (\<lambda>x. judge_worker run_id node x)))
       (\<lambda>e. if is_exception e then lift (mk_worker_result Failed None (Some txt_worker_failed)) else raise e)"

end
