(* ===== verification/AgentProps.thy ===== *)
theory AgentProps
  imports AgentCosts ToolProps MultiAgentProps BoundaryProps
begin

text \<open>
  The properties of the agent loop: the conversation it sends to the model, the bounds on its work, the
  budgets of what tools add to the context, and the end of the delegation of the turn.
\<close>

section \<open>Programs that only end the delegation\<close>

definition still :: "(agent, 'a) prog \<Rightarrow> bool" where
  "still m \<longleftrightarrow> (\<forall>j. keeps (\<lambda>a. (ag_requests a, ag_working a, ag_attach a) = j) m)"

named_theorems still_rules "programs that leave the conversation and the budgets alone"

lemma stillI: "(\<And>a. (\<lambda>a. (ag_requests a, ag_working a, ag_attach a)) (snd (m a)) = (ag_requests a, ag_working a, ag_attach a)) \<Longrightarrow> still m"
  unfolding still_def by (auto intro: keepsI)

lemma still_quiet: "quiet m \<Longrightarrow> still m"
  by (rule stillI) (use quietD in \<open>force simp: locals_of_def\<close>)

lemma still_seq [still_rules]: "still m \<Longrightarrow> (\<And>x. still (f x)) \<Longrightarrow> still (seq m f)"
  unfolding still_def by (auto intro: keeps_seq)

lemma still_catch [still_rules]: "still m \<Longrightarrow> (\<And>e. still (h e)) \<Longrightarrow> still (catch m h)"
  unfolding still_def by (auto intro: keeps_catch)

lemma still_basic [still_rules]:
  "still (ret x)" "still (raise e)" "still (lift r)" "still (gets f)" "still (on_bench m)" "still read_registry"
  "still loop_time" "still is_stop_requested" "still consume_guidance" "still (refresh_tools env)" "still deadline_expired"
  "still (check_multi_agent env)" "still (parent_calls env cs ordinary ad wrapped)" "still (on_delta t)"
  by (intro still_quiet quiet_rules)+

lemma still_if [still_rules]: "still m \<Longrightarrow> still n \<Longrightarrow> still (if b then m else n)"
  by simp

lemma still_cases [still_rules]:
  "still m \<Longrightarrow> (\<And>x. still (f x)) \<Longrightarrow> still (case y of None \<Rightarrow> m | Some x \<Rightarrow> f x)"
  by (simp split: option.split)

lemma still_modify: "(\<And>a. (ag_requests (f a), ag_working (f a), ag_attach (f a)) = (ag_requests a, ag_working a, ag_attach a)) \<Longrightarrow> still (modify f)"
  by (rule stillI) (simp add: modify_def)

lemma still_finish [still_rules]: "still (finish_multi_agent env t)" "still (finish_loop env c b o')"
  unfolding finish_loop_def finish_multi_agent_def by (intro still_rules still_modify; simp)+

lemma still_checks [still_rules]: "still (checkpoint env)" "still (text_answer env r)" "still m \<Longrightarrow> still (guard env m)"
  unfolding checkpoint_def text_answer_def guard_def by (intro still_rules)+

section \<open>The conversation\<close>

definition talked :: "agent \<Rightarrow> bool" where
  "talked a \<longleftrightarrow> plain_agent a \<and> (\<forall>q \<in> set (ag_requests a). balanced_talk (fst q))"

definition calm :: "agent \<Rightarrow> bool" where
  "calm a \<longleftrightarrow> talked a \<and> balanced_talk (ag_working a)"

text \<open>The assistant has made calls that wait for their answers.\<close>

definition asking :: "tool_call list \<Rightarrow> agent \<Rightarrow> bool" where
  "asking calls a \<longleftrightarrow> talked a \<and> talk [] (ag_working a) = Some (map tl_id calls)"

lemma tame_finish [tame_rules]: "keeps plain_agent (finish_multi_agent env t)" "keeps plain_agent (finish_loop env c b o')"
  unfolding finish_loop_def finish_multi_agent_def by (intro keeps_rules tame_rules plain_rules; simp)+

lemma tame_checks [tame_rules]:
  "keeps plain_agent deadline_expired" "keeps plain_agent (check_multi_agent env)" "keeps plain_agent (checkpoint env)"
  "keeps plain_agent (text_answer env r)" "keeps plain_agent m \<Longrightarrow> keeps plain_agent (guard env m)"
  "keeps plain_agent (refresh_tools env)"
  unfolding deadline_expired_def check_multi_agent_def checkpoint_def text_answer_def guard_def refresh_tools_def
  by (intro keeps_rules tame_rules plain_rules; simp)+

lemma still_keeps:
  assumes "still m" and "keeps plain_agent m"
  shows "keeps calm m" "keeps talked m" "keeps (asking calls) m"
proof -
  have *: "(ag_requests (snd (m a)), ag_working (snd (m a))) = (ag_requests a, ag_working a)
      \<and> (plain_agent a \<longrightarrow> plain_agent (snd (m a)))" for a
    using assms keepsD [OF assms(2), of a] keepsD [of "\<lambda>x. (ag_requests x, ag_working x, ag_attach x)
      = (ag_requests a, ag_working a, ag_attach a)" m a] by (auto simp: still_def)
  then show "keeps calm m" "keeps talked m" "keeps (asking calls) m"
    by (auto intro!: keepsI simp: calm_def talked_def asking_def)
qed

lemma calm_push: "shape x = (None, []) \<Longrightarrow> keeps calm (push_message x)"
  unfolding push_message_def by (rule keeps_modify) (auto simp: calm_def talked_def intro: balanced_push)

lemma calm_control: "keeps calm apply_turn_control"
proof -
  have "keeps calm (modify (\<lambda>a. a\<lparr>ag_guidance := ag_guidance a @ [t]\<rparr>))" for t
    by (rule still_keeps(1) [OF still_modify]) (auto intro: tame_rules)
  then have "keeps calm (guide g)" for g
    unfolding guide_def by (intro keeps_rules calm_push shape_role) simp_all
  then show ?thesis unfolding apply_turn_control_def
    by (intro keeps_rules still_keeps(1) [OF still_basic(8)] still_keeps(1) [OF still_basic(9)] tame_rules)
qed

lemma tame_absorb [tame_rules]: "keeps plain_agent (absorb live cs r)"
proof (induction cs arbitrary: r)
  case (Cons c cs)
  show ?case unfolding absorb.simps by (intro keeps_rules tame_rules Cons.IH)
qed (simp add: keeps_rules)

lemma calm_complete: "keeps calm (complete env tools live)"
proof -
  have "keeps calm (send_request tools)"
    by (rule keepsI) (auto simp: send_request_def calm_def talked_def)
  moreover have "keeps calm ask_model" "keeps calm ask_stream" "keeps calm (absorb live cs r)" for cs r
    by (intro still_keeps(1) still_quiet quiet_rules tame_rules)+
  ultimately show ?thesis unfolding complete_def by (intro keeps_rules)
qed

lemma calm_await: "keeps calm m \<Longrightarrow> keeps calm (await_deadline m)"
proof -
  assume m: "keeps calm m"
  have "keeps calm loop_time" "keeps calm read_expired"
    by (intro still_keeps(1) still_quiet quiet_rules tame_rules)+
  with m show ?thesis unfolding await_deadline_def by (intro keeps_rules)
qed

lemma calm_finish: "keeps calm (finish_multi_agent env t)" "keeps calm (finish_loop env c b o')"
  by (intro still_keeps(1) still_rules tame_rules)+

lemma calm_guard: "keeps calm m \<Longrightarrow> keeps calm (guard env m)"
  unfolding guard_def by (rule keeps_catch, erule keeps_seq) (intro keeps_rules calm_finish)+

text \<open>The tool messages at hand, from position \<open>i\<close> on.\<close>

definition tooled :: "nat \<Rightarrow> (tool_call \<times> call_record) list \<Rightarrow> agent \<Rightarrow> bool" where
  "tooled i rest a \<longleftrightarrow> calm a \<and> i + length rest \<le> length (ag_working a)
     \<and> (\<forall>j < length rest. shape (ag_working a ! (i + j)) = (Some (tl_id (fst (rest ! j))), []))"

lemma tooled_replace:
  assumes "tooled i ((c, r) # rest) a"
  shows "tooled (Suc i) rest (a\<lparr>ag_working := (ag_working a)[i := tool_result_message c r']\<rparr>)"
proof -
  have "shape (ag_working a ! i) = (Some (tl_id c), [])" and i: "i < length (ag_working a)"
    using assms by (force simp: tooled_def)+
  then have "map shape ((ag_working a)[i := tool_result_message c r']) = map shape (ag_working a)"
    by (simp add: map_update shape_tool list_update_same_conv)
  then have "balanced_talk ((ag_working a)[i := tool_result_message c r']) = balanced_talk (ag_working a)"
    unfolding balanced_talk_def by (metis talk_shape)
  moreover have "shape (ag_working a ! (Suc i + j)) = (Some (tl_id (fst (rest ! j))), [])" if "j < length rest" for j
    using assms that by (auto simp: tooled_def dest: spec [of _ "Suc j"])
  ultimately show ?thesis using assms i by (auto simp: tooled_def calm_def talked_def)
qed

lemma tooled_commit:
  assumes "tooled i ((c, r) # rest) a" and "\<forall>m \<in> set xs. shape m = (None, [])"
  shows "tooled (Suc i) rest (a\<lparr>ag_attach := st, ag_working := ag_working a @ xs\<rparr>)"
proof -
  have "shape (ag_working a ! (Suc i + j)) = (Some (tl_id (fst (rest ! j))), [])" if "j < length rest" for j
    using assms(1) that by (auto simp: tooled_def dest: spec [of _ "Suc j"])
  then show ?thesis using assms by (auto simp: tooled_def calm_def talked_def nth_append intro: balanced_push)
qed

lemma hoare_lift: "(\<And>x s. P s \<Longrightarrow> r = Inr x \<Longrightarrow> Q x s) \<Longrightarrow> (\<And>e s. P s \<Longrightarrow> r = Inl e \<Longrightarrow> E e s) \<Longrightarrow> hoare P (lift r) Q E"
  by (rule hoareI) (auto simp: lift_def)

lemma commit_shape:
  assumes "check_attachment cfg st att r msgs = Inr None" and "plain att"
    and "commit_attachment cfg st att r msgs = Inr (st', msgs')"
  obtains xs where "msgs' = msgs @ xs" and "\<forall>m \<in> set xs. shape m = (None, [])"
proof (cases att)
  case None
  then show ?thesis using assms(3) that [of "[]"] by (simp add: commit_attachment_def)
next
  case (Some ob)
  then obtain a where a: "att = Some (Attached a)" using assms(3) by (cases ob) (auto simp: commit_attachment_def)
  then have "msgs' = msgs @ attached_messages a"
    using assms(3) by (auto simp: commit_attachment_def bindE_eq_Inr split: if_splits option.splits)
  then show ?thesis using that assms(1,2) attachment_shape a by blast
qed

lemma calm_settle:
  "\<forall>p \<in> set pairs. plain (cl_attachment (snd p))
     \<Longrightarrow> hoare (tooled i pairs) (settle_attachments env i pairs) (\<lambda>_. calm) (\<lambda>_. talked)"
proof (induction pairs arbitrary: i)
  case Nil
  then show ?case by (auto intro!: hoareI simp: ret_def tooled_def)
next
  case (Cons p rest)
  obtain c r0 where p: "p = (c, r0)" by (cases p)
  let ?cfg = "le_attach env" and ?att = "cl_attachment r0" and ?r = "r0\<lparr>cl_attachment := None\<rparr>"
  have next_step: "hoare (tooled (Suc i) rest) (seq (settle_attachments env (Suc i) rest) (\<lambda>rs. ret (r' # rs))) (\<lambda>_. calm) (\<lambda>_. talked)" for r'
    by (rule hoare_seq [OF Cons.IH]) (use Cons.prems in \<open>auto intro!: hoareI simp: ret_def\<close>)
  define judged where "judged = (\<lambda>st msgs err. (case err of
      Some e \<Rightarrow> seq (modify (\<lambda>a. a\<lparr>ag_working := (ag_working a)[i := tool_result_message c (reject_attachment e ?r)]\<rparr>)) (\<lambda>_. ret (reject_attachment e ?r))
    | None \<Rightarrow> seq (lift (commit_attachment ?cfg st ?att ?r msgs)) (\<lambda>(st', msgs').
        seq (modify (\<lambda>a. a\<lparr>ag_attach := st', ag_working := msgs'\<rparr>)) (\<lambda>_. ret ?r))) :: (agent, call_record) prog)"
  have judge: "hoare (\<lambda>a. tooled i (p # rest) a \<and> ag_working a = msgs) (judged st msgs err) (\<lambda>_. tooled (Suc i) rest) (\<lambda>_. talked)"
    if chk: "check_attachment ?cfg st ?att ?r msgs = Inr err" for st msgs err
  proof (cases err)
    case (Some e)
    then show ?thesis using tooled_replace by (auto intro!: hoareI simp: judged_def prog_simps p)
  next
    case None
    have plain: "plain ?att" using Cons.prems p by simp
    show ?thesis
    proof (rule hoareI)
      fix a r' a' assume pre: "tooled i (p # rest) a \<and> ag_working a = msgs" and "judged st msgs err a = (Inr r', a')"
      then obtain st' msgs' where com: "commit_attachment ?cfg st ?att ?r msgs = Inr (st', msgs')"
        and a': "a' = a\<lparr>ag_attach := st', ag_working := msgs'\<rparr>"
        using None by (auto simp: judged_def prog_simps split: sum.splits)
      from commit_shape [OF chk [unfolded None] plain com] obtain xs
        where "msgs' = msgs @ xs" "\<forall>m \<in> set xs. shape m = (None, [])" .
      then show "tooled (Suc i) rest a'" using pre a' p tooled_commit by auto
    next
      fix a e a' assume "tooled i (p # rest) a \<and> ag_working a = msgs" and "judged st msgs err a = (Inl e, a')"
      then show "talked a'" using None by (auto simp: judged_def prog_simps tooled_def calm_def split: sum.splits prod.splits)
    qed
  qed
  show ?case
  proof (rule hoareI)
    fix a rs a' assume pre: "tooled i (p # rest) a" and run: "settle_attachments env i (p # rest) a = (Inr rs, a')"
    then obtain err where chk: "check_attachment ?cfg (ag_attach a) ?att ?r (ag_working a) = Inr err"
      and rest: "seq (judged (ag_attach a) (ag_working a) err) (\<lambda>r'. seq (settle_attachments env (Suc i) rest) (\<lambda>rs. ret (r' # rs))) a = (Inr rs, a')"
      unfolding judged_def p by (auto simp: Let_def lift_def seq_def [of "lift _"] split: sum.splits)
    from hoareD [OF hoare_seq [OF judge [OF chk] next_step] _ rest] pre show "calm a'" by simp
  next
    fix a e a' assume pre: "tooled i (p # rest) a" and run: "settle_attachments env i (p # rest) a = (Inl e, a')"
    show "talked a'"
    proof (cases "check_attachment ?cfg (ag_attach a) ?att ?r (ag_working a)")
      case (Inl e')
      then show ?thesis using run pre unfolding p by (auto simp: Let_def lift_def seq_def [of "lift _"] tooled_def calm_def)
    next
      case (Inr err)
      then have "seq (judged (ag_attach a) (ag_working a) err) (\<lambda>r'. seq (settle_attachments env (Suc i) rest) (\<lambda>rs. ret (r' # rs))) a = (Inl e, a')"
        using run unfolding judged_def p by (simp add: Let_def lift_def seq_def [of "lift _"])
      from hoareD_exn [OF hoare_seq [OF judge [OF Inr] next_step] _ this] pre show ?thesis by simp
    qed
  qed
qed

text \<open>What a round may end with: the conversation is at rest unless the loop is over.\<close>

abbreviation rests :: "(agent, loop_answer option) prog \<Rightarrow> (agent \<Rightarrow> bool) \<Rightarrow> bool" where
  "rests m P \<equiv> hoare P m (\<lambda>r a. talked a \<and> (r = None \<longrightarrow> calm a)) (\<lambda>_. talked)"

lemma calm_talked: "calm a \<Longrightarrow> talked a"
  by (simp add: calm_def)

lemma hoare_keeps_seq:
  "keeps P m \<Longrightarrow> (\<And>x. hoare P (f x) Q E) \<Longrightarrow> (\<And>e s. P s \<Longrightarrow> E e s) \<Longrightarrow> hoare P (seq m f) Q E"
  unfolding keeps_def by (rule hoare_seq [where R = "\<lambda>_. P"]) (auto intro: hoare_post)

lemma keeps_run: "keeps P m \<Longrightarrow> m a = (r, a') \<Longrightarrow> P a \<Longrightarrow> P a'"
  using keepsD by fastforce

lemma calm_rests: "keeps calm m \<Longrightarrow> rests m calm"
  by (rule hoareI) (auto dest: keeps_run simp: calm_talked)

lemma ends_rests:
  assumes "keeps talked m" and "\<And>a. P a \<Longrightarrow> talked a"
  shows "rests (seq m (\<lambda>x. ret (Some x))) P"
  by (rule hoareI) (auto simp: ret_def elim!: seq_cases dest: keeps_run [OF assms(1)] assms(2))

lemma asking_talked: "asking calls a \<Longrightarrow> talked a"
  by (simp add: asking_def)

lemma guard_calls:
  "hoare (asking calls) (guard env (parent_calls env calls [] ad False))
     (\<lambda>x a. asking calls a \<and> (\<forall>e ad'. x = Inr (e, ad') \<longrightarrow> (\<forall>r \<in> set e. plain (cl_attachment (fst r))))) (\<lambda>_. talked)"
proof (rule hoareI)
  let ?m = "guard env (parent_calls env calls [] ad False)"
  have keep: "keeps (asking calls) ?m" by (intro still_keeps(3) still_rules tame_rules)
  fix a x a' assume a: "asking calls a" and run: "?m a = (Inr x, a')"
  have carried: "\<forall>r \<in> set e. plain (cl_attachment (fst r))" if "x = Inr (e, ad')" for e ad'
  proof -
    have "parent_calls env calls [] ad False a = (Inr (e, ad'), a')"
      using run that unfolding guard_def
      by (auto simp: catch_def prog_simps split: sum.splits prod.splits if_splits)
    then show ?thesis by (rule calls_attachments) (use a in \<open>simp add: asking_def talked_def\<close>)
  qed
  then show "asking calls a' \<and> (\<forall>e ad'. x = Inr (e, ad') \<longrightarrow> (\<forall>r \<in> set e. plain (cl_attachment (fst r))))"
    using keepsD [OF keep a] run by simp
next
  fix a e a' assume "asking calls a" "guard env (parent_calls env calls [] ad False) a = (Inl e, a')"
  moreover have "keeps (asking calls) (guard env (parent_calls env calls [] ad False))" by (intro still_keeps(3) still_rules tame_rules)
  ultimately show "talked a'" using keepsD asking_talked by (metis snd_conv)
qed

lemma settle_round_calm:
  assumes "\<forall>r \<in> set executed. plain (cl_attachment (fst r))"
  shows "hoare (asking calls) (settle_round env calls executed) (\<lambda>_. calm) (\<lambda>_. talked)"
proof (cases "length calls = length executed")
  case False
  then show ?thesis by (auto simp: settle_round_def asking_talked intro: hoare_rules)
next
  case len: True
  let ?pairs = "zip calls (map fst executed)" and ?msgs = "map2 (\<lambda>c e. tool_result_message c (fst e)) calls executed"
  have tooled: "tooled (length (ag_working a)) ?pairs (a\<lparr>ag_working := ag_working a @ ?msgs\<rparr>)" if "asking calls a" for a
    using that len talk_answers [OF len, of fst]
    by (auto simp: tooled_def asking_def calm_def talked_def balanced_talk_def talk_append nth_append shape_tool)
  have recording: "keeps calm (modify (\<lambda>a. a\<lparr>ag_records := f a\<rparr>))" for f
    by (rule still_keeps(1) [OF still_modify]) (auto intro: tame_rules)
  have "\<forall>p \<in> set ?pairs. plain (cl_attachment (snd p))"
    using assms by (auto dest!: set_zip_rightD)
  note settle = calm_settle [OF this]
  define K :: "call_record list \<Rightarrow> (agent, unit) prog" where "K = (\<lambda>rs. modify (\<lambda>a. a\<lparr>ag_records := ag_records a
      @ map fst (filter (\<lambda>(r, persist). le_persist env \<and> persist) (zip rs (map snd executed)))\<rparr>))"
  have "hoare calm (K rs) (\<lambda>_. calm) (\<lambda>_. talked)" for rs
    using keeps_run [OF recording] unfolding K_def by (auto intro!: hoareI simp: modify_def)
  note tail = hoare_seq [OF settle this]
  have run: "settle_round env calls executed a
      = seq (settle_attachments env (length (ag_working a)) ?pairs) K (a\<lparr>ag_working := ag_working a @ ?msgs\<rparr>)" for a
    using len by (simp add: settle_round_def K_def)
  show ?thesis
    by (rule hoareI) (use hoareD [OF tail tooled] hoareD_exn [OF tail tooled] in \<open>simp_all add: run\<close>)
qed

lemma after_tools_calm: "rests (seq apply_turn_control (\<lambda>stop.
    if stop then seq (finish_loop env t True None) (\<lambda>r. ret (Some r)) else seq (refresh_tools env) (\<lambda>_. checkpoint env))) calm"
proof (rule calm_rests, rule keeps_seq [OF calm_control], rule keeps_if)
  show "keeps calm (seq (finish_loop env t True None) (\<lambda>r. ret (Some r)))" by (intro keeps_rules calm_finish)
  show "keeps calm (seq (refresh_tools env) (\<lambda>_. checkpoint env))"
    by (intro keeps_rules still_keeps(1) still_rules tame_rules)
qed

lemma tool_round_rests: "rests (tool_round env r calls) (asking calls)"
proof -
  have adapter: "hoare (asking calls) (modify (\<lambda>a. a\<lparr>ag_adapter := ad\<rparr>)) (\<lambda>_. asking calls) (\<lambda>_. talked)" for ad
    by (rule hoareI) (auto simp: modify_def asking_def talked_def)
  have rest: "rests (case x of Inl answer \<Rightarrow> ret (Some answer)
     | Inr (executed, ad') \<Rightarrow> seq (modify (\<lambda>a. a\<lparr>ag_adapter := ad'\<rparr>)) (\<lambda>_.
         seq (settle_round env calls executed) (\<lambda>_. seq apply_turn_control (\<lambda>stop.
           if stop then seq (finish_loop env (rs_content r) True None) (\<lambda>r. ret (Some r))
           else seq (refresh_tools env) (\<lambda>_. checkpoint env)))))
     (\<lambda>a. asking calls a \<and> (\<forall>e ad'. x = Inr (e, ad') \<longrightarrow> (\<forall>r \<in> set e. plain (cl_attachment (fst r)))))" for x
  proof (cases x)
    case (Inl answer)
    then show ?thesis by (auto intro!: hoareI simp: ret_def asking_talked)
  next
    case (Inr p)
    obtain executed ad' where p: "p = (executed, ad')" by (cases p)
    show ?thesis
    proof (cases "\<forall>r \<in> set executed. plain (cl_attachment (fst r))")
      case True
      have "rests (seq (modify (\<lambda>a. a\<lparr>ag_adapter := ad'\<rparr>)) (\<lambda>_.
         seq (settle_round env calls executed) (\<lambda>_. seq apply_turn_control (\<lambda>stop.
           if stop then seq (finish_loop env (rs_content r) True None) (\<lambda>r. ret (Some r))
           else seq (refresh_tools env) (\<lambda>_. checkpoint env))))) (asking calls)"
        by (rule hoare_seq [OF adapter], rule hoare_seq [OF settle_round_calm [OF True]], rule after_tools_calm)
      then show ?thesis using Inr p by (auto intro: hoare_pre)
    qed (use Inr p in \<open>auto simp: hoare_def\<close>)
  qed
  show ?thesis unfolding tool_round_def
    by (rule hoare_keeps_seq [OF keeps_gets], rule hoare_seq [OF guard_calls rest], rule asking_talked)
qed

lemma after_reply_rests: "rests (after_reply env r) calm"
proof -
  have usage: "keeps calm (modify (\<lambda>a. a\<lparr>ag_usage := f a\<rparr>))" for f
    by (rule still_keeps(1) [OF still_modify]) (auto intro: tame_rules)
  let ?calls = "slice_calls (le_max_calls env) (rs_calls r)"
  have push: "hoare calm (push_message (assistant_tool_message env t calls reasoning)) (\<lambda>_. asking calls) (\<lambda>_. talked)" for t calls reasoning
    using shape_assistant [of env t calls reasoning]
    by (auto intro!: hoareI simp: push_message_def modify_def calm_def asking_def talked_def balanced_talk_def talk_append shape_def)
      fastforce+
  have answered: "rests (seq (text_answer env r) (\<lambda>x. ret (Some x))) calm"
    by (rule ends_rests) (auto intro: still_keeps(2) still_rules tame_rules simp: calm_talked)
  have stop: "rests (seq (finish_loop env t True None) (\<lambda>x. ret (Some x))) (asking calls)" for t calls
    by (rule ends_rests) (auto intro: still_keeps(2) still_rules tame_rules simp: asking_talked)
  have asked: "keeps (asking calls) is_stop_requested" for calls
    by (rule still_keeps(3) [OF still_basic(8)]) (rule tame_rules)
  show ?thesis unfolding after_reply_def Let_def
    by (rule hoare_keeps_seq [OF usage _ calm_talked], rule hoare_if, rule answered,
        rule hoare_seq [OF push], rule hoare_keeps_seq [OF asked _ asking_talked], rule hoare_if)
      (rule stop tool_round_rests)+
qed

lemma agent_round_rests: "rests (agent_round env) calm"
proof -
  have check: "keeps calm (checkpoint env)" by (rule still_keeps(1) [OF still_checks(1)]) (rule tame_rules)
  have model: "keeps calm (guard env (await_deadline (complete env tools True)))" for tools
    by (intro calm_guard calm_await calm_complete)
  have stop: "rests (seq (finish_loop env [] True None) (\<lambda>r. ret (Some r))) calm"
    by (rule ends_rests) (auto intro: still_keeps(2) still_rules tame_rules simp: calm_talked)
  have reply: "rests (case x of Inl r \<Rightarrow> ret (Some r) | Inr reply \<Rightarrow> after_reply env reply) calm" for x
    by (cases x) (auto intro: after_reply_rests hoare_rules simp: calm_talked)
  have over: "rests (ret (Some r)) calm" for r by (auto intro: hoare_rules simp: calm_talked)
  have rest: "rests (case early of Some r \<Rightarrow> ret (Some r) | None \<Rightarrow> seq (gets ag_tools) (\<lambda>tools.
      seq (guard env (await_deadline (complete env tools True))) (\<lambda>x. case x of
        Inl r \<Rightarrow> ret (Some r) | Inr reply \<Rightarrow> after_reply env reply))) calm" for early
    by (cases early) (simp_all add: over hoare_keeps_seq [OF keeps_gets hoare_keeps_seq [OF model reply]] calm_talked)
  show ?thesis unfolding agent_round_def
    by (rule hoare_keeps_seq [OF calm_control _ calm_talked], rule hoare_if, rule stop,
        rule hoare_keeps_seq [OF check rest calm_talked])
qed

lemma agent_rounds_rest: "rests (agent_rounds env n) calm"
proof (induction n)
  case (Suc n)
  have "rests (case r of Some x \<Rightarrow> ret (Some x) | None \<Rightarrow> agent_rounds env n) (\<lambda>a. talked a \<and> (r = None \<longrightarrow> calm a))" for r
    using Suc by (cases r) (auto intro: hoare_rules hoare_pre)
  then show ?case by (simp add: hoare_seq [OF agent_round_rests])
qed (auto intro: hoare_rules simp: calm_talked)

lemma summary_talks: "hoare calm (summary_round env) (\<lambda>_. talked) (\<lambda>_. talked)"
proof -
  have "keeps calm (summary_round env)"
  proof -
    have model: "keeps calm (guard env (await_deadline (complete env [] False)))"
      by (intro calm_guard calm_await calm_complete)
    have more: "keeps calm (modify (\<lambda>a. a\<lparr>ag_usage := f a\<rparr>))" "keeps calm is_stop_requested" "keeps calm (on_delta t)"
      "keeps calm deadline_expired" for f t
      by (intro still_keeps(1) still_rules still_modify tame_rules; simp)+
    show ?thesis unfolding summary_round_def
      by (intro keeps_rules calm_push shape_role calm_finish model more) simp_all
  qed
  then show ?thesis by (auto intro!: hoareI dest: keeps_run calm_talked)
qed

section \<open>A turn with one tool call\<close>

definition agent_env :: loop_env where
  "agent_env = \<lparr>le_runner = bench_env,
     le_attach = \<lparr>at_build = \<lparr>be_enc = length, be_float = (\<lambda>_. u ''0.0'')\<rparr>, at_schema = se_schema demo_security,
       at_mcp_limit = 50, at_max_context = 5000, at_max_skills = 2, at_max_skill_tokens = 20, at_max_loaded_tokens = 30\<rparr>,
     le_rounds = 2, le_max_calls = 3, le_streaming = False, le_workers = demo_env, le_auto = True, le_allowed = None,
     le_persist = True, le_attachment_tool = None\<rparr>"

definition attaching_output :: tool_output where
  "attaching_output = \<lparr>ou_content = u ''seven'', ou_metadata = [],
     ou_attachment = Some (Attached \<lparr>ca_source = JStr (u ''server''), ca_messages = JArr [role_message ''user'' (u ''seven!'')],
       ca_tokens = JInt 6, ca_kind = u ''mcp'', ca_verified = False\<rparr>)\<rparr>"

definition calling_reply :: llm_response where
  "calling_reply = \<lparr>rs_content = u ''let me see'', rs_calls = take 1 demo_calls,
     rs_usage = Some \<lparr>lu_input = 5, lu_output = 2, lu_total = 7\<rparr>, rs_protocol_error = None, rs_reasoning = None\<rparr>"

definition closing_reply :: llm_response where
  "closing_reply = \<lparr>rs_content = u ''seven'', rs_calls = [], rs_usage = Some \<lparr>lu_input = 9, lu_output = 1, lu_total = 10\<rparr>,
     rs_protocol_error = None, rs_reasoning = None\<rparr>"

definition demo_agent :: agent where
  "demo_agent = \<lparr>ag_bench = demo_bench\<lparr>bn_answers := (\<lambda>_. Inr attaching_output), bn_delegation := None\<rparr>,
     ag_registries = (\<lambda>_. rn_registry bench_env), ag_clock = (\<lambda>_. 0), ag_expired = (\<lambda>_. False), ag_stops = (\<lambda>_. False),
     ag_guidance_in = (\<lambda>_. Inr []), ag_replies = (\<lambda>i. Inr (if i = 0 then calling_reply else closing_reply)),
     ag_streams = (\<lambda>_. ([], None)), ag_delta_errors = (\<lambda>_. None), ag_deltas = [], ag_requests = [], ag_working = [],
     ag_tools = [], ag_usage = no_usage, ag_records = [], ag_guidance = [],
     ag_attach = new_attachments (le_attach agent_env) [], ag_adapter = Direct, ag_finished = False\<rparr>"

definition demo_messages :: "json list" where
  "demo_messages = [role_message ''system'' (u ''be brief''), role_message ''user'' (u ''count'')]"

definition demo_turn_run :: "(exn + loop_answer) \<times> agent" where
  "demo_turn_run = agent_run agent_env demo_messages demo_agent"

lemma demo_turn_facts:
  "(case demo_turn_run of (r, a) \<Rightarrow> ((case r of Inr x \<Rightarrow> la_content x | Inl e \<Rightarrow> []), length (ag_requests a),
     length (bn_runs (ag_bench a)), am_mcp_tokens (ag_attach a))) = (u ''seven'', 2, 1, 6)"
  by code_simp

lemma demo_turn_result: "agent_run agent_env demo_messages demo_agent = (fst demo_turn_run, snd demo_turn_run)"
  by (simp add: demo_turn_run_def)

lemma demo_plain: "plain_bench (ag_bench demo_agent)"
  by (auto simp: plain_bench_def demo_agent_def attaching_output_def plain_def attached_messages_def call_ids_def
      role_message_def jget_def dict_get_def)

section \<open>Properties\<close>

text \<open>C24: In every conversation the loop sends to the model, each tool call of an assistant message is
  answered by a tool message with its id, in the order of the calls and right after that message, and
  no tool message answers anything else; rejected attachments and delegated calls included.\<close>

theorem conversation_answers_calls:
  assumes "agent_run env messages a = (r, a')" and "balanced_talk messages" and "plain_bench (ag_bench a)"
    and "ag_requests a = []"
  shows "\<forall>(sent, tools) \<in> set (ag_requests a'). balanced_talk sent"
proof -
  from assms(1) obtain env' a1 where start: "ag_working a1 = messages" "ag_requests a1 = ag_requests a" "ag_bench a1 = ag_bench a"
    and run: "seq (agent_rounds env' (nat (le_rounds env))) (\<lambda>r. case r of Some x \<Rightarrow> ret x | None \<Rightarrow> summary_round env') a1 = (r, a')"
    by (rule run_cases)
  have "calm a1" using start assms(2-4) by (simp add: calm_def talked_def)
  have "hoare (\<lambda>a. talked a \<and> (x = None \<longrightarrow> calm a)) (case x of Some x \<Rightarrow> ret x | None \<Rightarrow> summary_round env') (\<lambda>_. talked) (\<lambda>_. talked)" for x
    by (cases x) (auto intro!: hoare_rules intro: hoare_pre [OF summary_talks])
  from hoare_seq [OF agent_rounds_rest this] have "hoare calm (seq (agent_rounds env' (nat (le_rounds env)))
      (\<lambda>r. case r of Some x \<Rightarrow> ret x | None \<Rightarrow> summary_round env')) (\<lambda>_. talked) (\<lambda>_. talked)" .
  then have "talked a'" using run \<open>calm a1\<close> by (cases r) (auto dest: hoareD hoareD_exn)
  then show ?thesis by (auto simp: talked_def)
qed

theorem conversation_answers_calls_witness:
  "length (ag_requests (snd demo_turn_run)) = 2 \<and> list_all (\<lambda>(sent, tools). balanced_talk sent) (ag_requests (snd demo_turn_run))"
proof -
  have "balanced_talk demo_messages" by code_simp
  from conversation_answers_calls [OF demo_turn_result this demo_plain] demo_turn_facts show ?thesis
    by (simp add: demo_agent_def case_prod_unfold list_all_iff)
qed





text \<open>C27: Whenever the loop answers, be it by text, by the summary, after a stop, a timeout or a failed
  check, the delegation of the turn has been handed its outcome: no accepted run is left behind.\<close>

theorem answered_turn_settles:
  assumes "agent_run env messages a = (Inr answer, a')" and "bn_delegation (ag_bench a') = Some (iv, s)"
  shows "iv_run_id iv = None \<or> iv_finished iv"
proof -
  from assms(1) obtain env' a1 where "unfinished a1"
    and run: "seq (agent_rounds env' (nat (le_rounds env))) (\<lambda>r. case r of Some x \<Rightarrow> ret x | None \<Rightarrow> summary_round env') a1 = (Inr answer, a')"
    by (rule run_cases)
  have "gives (\<lambda>a. if x = None then unfinished a else settled_turn a) (case x of Some x \<Rightarrow> ret x | None \<Rightarrow> summary_round env') (\<lambda>_. settled_turn)" for x
    using summary_settles by (cases x) (auto intro!: givesI simp: ret_def dest: givesD)
  from givesD [OF gives_seq [OF rounds_conclude this] \<open>unfinished a1\<close> run] show ?thesis
    using assms(2) by (simp add: settled_turn_def invocation_of_def)
qed

text \<open>A turn that is stopped while its delegation is accepted.\<close>

definition stopped_agent :: agent where
  "stopped_agent = demo_agent\<lparr>ag_stops := (\<lambda>_. True), ag_bench := (ag_bench demo_agent)\<lparr>bn_delegation :=
     Some (demo_invocation\<lparr>iv_accepted := True, iv_run_id := Some (u ''run-0''), iv_schema_visible := False\<rparr>, demo_delegated)\<rparr>\<rparr>"

definition stopped_env :: loop_env where
  "stopped_env = agent_env\<lparr>le_runner := bench_env\<lparr>rn_coord := demo_cfg\<rparr>\<rparr>"

lemma stopped_finish: "fst (finish_parent_turn demo_cfg (u ''cancelled'')
    (demo_invocation\<lparr>iv_accepted := True, iv_run_id := Some (u ''run-0''), iv_schema_visible := False\<rparr>, demo_delegated)) = Inr ()"
  by code_simp

theorem answered_turn_settles_witness:
  "\<exists>x a'. agent_run stopped_env [] stopped_agent = (Inr x, a') \<and> la_cancelled x
     \<and> (\<exists>iv s. bn_delegation (ag_bench a') = Some (iv, s) \<and> (iv_run_id iv = None \<or> iv_finished iv))"
proof -
  let ?iv = "demo_invocation\<lparr>iv_accepted := True, iv_run_id := Some (u ''run-0''), iv_schema_visible := False\<rparr>"
  obtain iv s where fin: "finish_parent_turn demo_cfg (u ''cancelled'') (?iv, demo_delegated) = (Inr (), (iv, s))"
    using stopped_finish by (metis prod.collapse)
  obtain x a' where run: "agent_run stopped_env [] stopped_agent = (Inr x, a')" and x: "la_cancelled x"
    and d: "bn_delegation (ag_bench a') = Some (iv, s)"
    using fin
    by (auto simp: agent_run_def truthy_def scope_tools_def start_loop_def refresh_tools_def read_registry_def eval_nat_numeral
        agent_round_def apply_turn_control_def is_stop_requested_def finish_loop_def finish_multi_agent_def loop_answer_of_def
        on_bench_def on_delegation_def invocation_of_def stopped_env_def stopped_agent_def agent_env_def demo_agent_def
        prog_simps)
  with answered_turn_settles [OF run d] show ?thesis by blast
qed

end

