(* ===== verification/WorkerProps.thy ===== *)
theory WorkerProps
  imports WorkerRunner AgentProps
begin

text \<open>
  What a worker can do: a property of the runs of tools that holds for every licensed call holds for the
  whole loop, and for a worker it confines the tools and the paths.
\<close>

section \<open>The tools that ran in a turn\<close>

definition sound :: "registry \<Rightarrow> (tool \<times> (ustr \<times> json) list \<Rightarrow> bool) \<Rightarrow> agent \<Rightarrow> bool" where
  "sound rg P a \<longleftrightarrow> ag_registries a = (\<lambda>_. rg) \<and> (\<forall>run \<in> set (bn_runs (ag_bench a)). P run)"

lemma sound_modify:
  "(\<And>a. ag_registries (f a) = ag_registries a \<and> ag_bench (f a) = ag_bench a) \<Longrightarrow> keeps (sound rg P) (modify f)"
  by (rule keeps_modify) (simp add: sound_def)

lemma sound_basic [keeps_rules]:
  "keeps (sound rg P) read_registry" "keeps (sound rg P) loop_time" "keeps (sound rg P) read_expired"
  "keeps (sound rg P) is_stop_requested" "keeps (sound rg P) consume_guidance" "keeps (sound rg P) (on_delta t)"
  "keeps (sound rg P) ask_model" "keeps (sound rg P) ask_stream" "keeps (sound rg P) (send_request ts)"
  "keeps (sound rg P) (push_message m)" "keeps (sound rg P) (at_delegation d x)" "keeps (sound rg P) (refresh_tools env)"
  by (auto intro!: keepsI simp: sound_def read_registry_def loop_time_def read_expired_def is_stop_requested_def
      consume_guidance_def on_delta_def ask_model_def ask_stream_def send_request_def push_message_def modify_def
      on_bench_def on_delegation_def refresh_tools_def seq_def Let_def split: option.split prod.split)


lemma sound_finish [keeps_rules]: "keeps (sound rg P) (finish_multi_agent env t)" "keeps (sound rg P) (finish_loop env c b o')"
  unfolding finish_loop_def finish_multi_agent_def by (intro keeps_rules sound_modify; simp)+


lemma sound_checks [keeps_rules]:
  "keeps (sound rg P) deadline_expired" "keeps (sound rg P) (check_multi_agent env)" "keeps (sound rg P) (checkpoint env)"
  "keeps (sound rg P) apply_turn_control" "keeps (sound rg P) (text_answer env r)"
proof -
  show *: "keeps (sound rg P) deadline_expired" "keeps (sound rg P) (check_multi_agent env)"
    unfolding deadline_expired_def check_multi_agent_def by (intro keeps_rules)+
  show "keeps (sound rg P) (checkpoint env)" unfolding checkpoint_def by (intro keeps_rules *)
  have "keeps (sound rg P) (guide g)" for g unfolding guide_def by (intro keeps_rules sound_modify) simp_all
  then show "keeps (sound rg P) apply_turn_control" unfolding apply_turn_control_def by (intro keeps_rules)
  show "keeps (sound rg P) (text_answer env r)" unfolding text_answer_def by (intro keeps_rules)
qed








section \<open>The tools of a worker\<close>








section \<open>Property\<close>










end
