(* ===== verification/JsonText.thy ===== *)
theory JsonText
  imports Json
begin

text \<open>
  \<^verbatim>\<open>json.loads\<close>: the JSON texts the program reads are parsed here, so that what it wrote and what it
  reads back can be compared. What a text of digits with a fraction or an exponent is as a number is a
  parameter (\<open>float\<close> of the interpreter). The interpreter also limits the depth of a value and the
  number of digits of an integer; the second limit is modelled.
\<close>

section \<open>Parts of a text\<close>

definition json_space :: "nat \<Rightarrow> bool" where
  "json_space c \<longleftrightarrow> c = 32 \<or> c = 9 \<or> c = 10 \<or> c = 13"

definition skip_ws :: "ustr \<Rightarrow> ustr" where
  "skip_ws = dropWhile json_space"

definition ascii_digit :: "nat \<Rightarrow> bool" where
  "ascii_digit c \<longleftrightarrow> 48 \<le> c \<and> c \<le> 57"

definition hex_value :: "nat \<Rightarrow> nat option" where
  "hex_value c = (if 48 \<le> c \<and> c \<le> 57 then Some (c - 48) else if 97 \<le> c \<and> c \<le> 102 then Some (c - 87)
     else if 65 \<le> c \<and> c \<le> 70 then Some (c - 55) else None)"

definition hex4 :: "ustr \<Rightarrow> nat option" where
  "hex4 s = (if length s < 4 then None
     else fold (\<lambda>c acc. case (acc, hex_value c) of (Some n, Some d) \<Rightarrow> Some (16 * n + d) | _ \<Rightarrow> None) (take 4 s) (Some 0))"

definition simple_escape :: "nat \<Rightarrow> nat option" where
  "simple_escape c = map_of [(34, 34), (92, 92), (47, 47), (98, 8), (102, 12), (110, 10), (114, 13), (116, 9)] c"

text \<open>A code point of the form \<open>\uXXXX\<close>, with the second half of a surrogate pair if one follows.\<close>

definition unicode_escape :: "ustr \<Rightarrow> (nat \<times> ustr) option" where
  "unicode_escape s = (case hex4 s of
     None \<Rightarrow> None
   | Some n \<Rightarrow>
       (let r = drop 4 s in
        if 55296 \<le> n \<and> n \<le> 56319 \<and> take 2 r = [92, 117] then
          (case hex4 (drop 2 r) of
             None \<Rightarrow> None
           | Some m \<Rightarrow> (if 56320 \<le> m \<and> m \<le> 57343
                then Some (65536 + (n - 55296) * 1024 + (m - 56320), drop 6 r) else Some (n, r)))
        else Some (n, r)))"

lemma unicode_escape_shorter: "unicode_escape s = Some (n, r) \<Longrightarrow> length r \<le> length s"
  by (auto simp: unicode_escape_def Let_def split: option.splits if_splits)

text \<open>The rest of a string after its opening quote; a raw control character ends it with an error.\<close>

function unquote :: "ustr \<Rightarrow> (ustr \<times> ustr) option" where
  "unquote [] = None"
| "unquote (c # cs) =
     (if c = 34 then Some ([], cs)
      else if c < 32 then None
      else if c = 92 then
        (case cs of
           [] \<Rightarrow> None
         | e # ds \<Rightarrow>
             (if e = 117 then
                (case unicode_escape ds of
                   None \<Rightarrow> None
                 | Some (x, r) \<Rightarrow> map_option (apfst ((#) x)) (unquote r))
              else case simple_escape e of
                  None \<Rightarrow> None
                | Some x \<Rightarrow> map_option (apfst ((#) x)) (unquote ds)))
      else map_option (apfst ((#) c)) (unquote cs))"
  by pat_completeness auto
termination
  by (relation "measure length") (auto dest!: unicode_escape_shorter)

text \<open>A number: the text of it, and whether it has a fraction or an exponent.\<close>

definition scan_digits :: "ustr \<Rightarrow> ustr \<times> ustr" where
  "scan_digits s = (takeWhile ascii_digit s, dropWhile ascii_digit s)"

definition scan_fraction :: "ustr \<Rightarrow> ustr \<times> ustr" where
  "scan_fraction s = (if take 1 s = [46] \<and> takeWhile ascii_digit (drop 1 s) \<noteq> []
     then (46 # takeWhile ascii_digit (drop 1 s), dropWhile ascii_digit (drop 1 s)) else ([], s))"

definition scan_exponent :: "ustr \<Rightarrow> ustr \<times> ustr" where
  "scan_exponent s =
     (let signed = take 1 (drop 1 s) = [43] \<or> take 1 (drop 1 s) = [45];
          body = (if signed then drop 2 s else drop 1 s)
      in if (take 1 s = [101] \<or> take 1 s = [69]) \<and> takeWhile ascii_digit body \<noteq> []
         then (take (if signed then 2 else 1) s @ takeWhile ascii_digit body, dropWhile ascii_digit body) else ([], s))"

definition scan_sign :: "ustr \<Rightarrow> ustr \<times> ustr" where
  "scan_sign s = (if take 1 s = [45] then ([45], drop 1 s) else ([], s))"

definition scan_whole :: "ustr \<Rightarrow> ustr \<times> ustr" where
  "scan_whole s = (if take 1 s = [48] then ([48], drop 1 s) else scan_digits s)"

definition scan_number :: "ustr \<Rightarrow> (bool \<times> ustr \<times> ustr) option" where
  "scan_number s =
     (let (sign, s1) = scan_sign s; (whole, s2) = scan_whole s1
      in if whole = [] then None
         else (let (frac, s3) = scan_fraction s2; (expo, s4) = scan_exponent s3
               in Some (frac \<noteq> [] \<or> expo \<noteq> [], sign @ whole @ frac @ expo, s4)))"

definition digits_value :: "ustr \<Rightarrow> nat" where
  "digits_value ds = fold (\<lambda>c n. 10 * n + (c - 48)) ds 0"

definition int_text :: "ustr \<Rightarrow> int" where
  "int_text t = (if take 1 t = [45] then - int (digits_value (drop 1 t)) else int (digits_value t))"

definition parse_number :: "(ustr \<Rightarrow> real) \<Rightarrow> ustr \<Rightarrow> (json \<times> ustr) option" where
  "parse_number fl s = (case scan_number s of
     None \<Rightarrow> None
   | Some (is_float, t, r) \<Rightarrow>
       (if is_float then Some (JFloat (fl t), r)
        else if length t > 4300 then None else Some (JInt (int_text t), r)))"

section \<open>Values\<close>

text \<open>
  A value, the elements of an array after its bracket and the members of an object. The tests that a
  remaining text is shorter always succeed; they make the recursion terminate by definition.
\<close>

function json_value :: "(ustr \<Rightarrow> real) \<Rightarrow> ustr \<Rightarrow> (json \<times> ustr) option"
  and json_items :: "(ustr \<Rightarrow> real) \<Rightarrow> ustr \<Rightarrow> (json list \<times> ustr) option"
  and json_members :: "(ustr \<Rightarrow> real) \<Rightarrow> ustr \<Rightarrow> (ustr, json) dict \<Rightarrow> ((ustr, json) dict \<times> ustr) option" where
  "json_value fl s = (case s of
     [] \<Rightarrow> None
   | c # cs \<Rightarrow>
       (if c = 34 then map_option (apfst JStr) (unquote cs)
        else if c = 91 then
          (if take 1 (skip_ws cs) = [93] then Some (JArr [], drop 1 (skip_ws cs))
           else if length (skip_ws cs) < length s then map_option (apfst JArr) (json_items fl (skip_ws cs)) else None)
        else if c = 123 then
          (if take 1 (skip_ws cs) = [125] then Some (JObj [], drop 1 (skip_ws cs))
           else if length (skip_ws cs) < length s then map_option (apfst JObj) (json_members fl (skip_ws cs) []) else None)
        else if take 4 s = u ''null'' then Some (JNull, drop 4 s)
        else if take 4 s = u ''true'' then Some (JBool True, drop 4 s)
        else if take 5 s = u ''false'' then Some (JBool False, drop 5 s)
        else if take 3 s = u ''NaN'' then Some (JFloat (fl (u ''NaN'')), drop 3 s)
        else if take 8 s = u ''Infinity'' then Some (JFloat (fl (u ''Infinity'')), drop 8 s)
        else if take 9 s = u ''-Infinity'' then Some (JFloat (fl (u ''-Infinity'')), drop 9 s)
        else parse_number fl s))"
| "json_items fl s = (case json_value fl s of
     None \<Rightarrow> None
   | Some (v, r) \<Rightarrow> (case skip_ws r of
       [] \<Rightarrow> None
     | c # cs \<Rightarrow>
         (if c = 93 then Some ([v], cs)
          else if c = 44 \<and> length (skip_ws cs) < length s then map_option (apfst ((#) v)) (json_items fl (skip_ws cs))
          else None)))"
| "json_members fl s d =
     (if take 1 s \<noteq> [34] then None
      else case unquote (drop 1 s) of
        None \<Rightarrow> None
      | Some (k, r) \<Rightarrow>
          (if take 1 (skip_ws r) \<noteq> [58] \<or> length (skip_ws (drop 1 (skip_ws r))) \<ge> length s then None
           else case json_value fl (skip_ws (drop 1 (skip_ws r))) of
             None \<Rightarrow> None
           | Some (v, r2) \<Rightarrow> (case skip_ws r2 of
               [] \<Rightarrow> None
             | c # cs \<Rightarrow>
                 (if c = 125 then Some (dict_put k v d, cs)
                  else if c = 44 \<and> length (skip_ws cs) < length s then json_members fl (skip_ws cs) (dict_put k v d)
                  else None))))"
  by pat_completeness auto
termination
  by (relation "measure (\<lambda>x. case x of Inl (_, s) \<Rightarrow> 2 * length s
      | Inr (Inl (_, s)) \<Rightarrow> 2 * length s + 1 | Inr (Inr (_, s, _)) \<Rightarrow> 2 * length s + 1)") auto

declare json_value.simps [simp del] json_items.simps [simp del] json_members.simps [simp del]

definition loads :: "(ustr \<Rightarrow> real) \<Rightarrow> ustr \<Rightarrow> json option" where
  "loads fl s = (case json_value fl (skip_ws s) of
     Some (v, r) \<Rightarrow> (if skip_ws r = [] then Some v else None)
   | None \<Rightarrow> None)"

section \<open>What was written is read back\<close>

text \<open>The style separates items by a comma and keys by a colon, with white space after them.\<close>

definition loose :: "nat \<Rightarrow> ustr \<Rightarrow> bool" where
  "loose c s \<longleftrightarrow> take 1 s = [c] \<and> list_all json_space (drop 1 s)"

definition plain_style :: "json_style \<Rightarrow> bool" where
  "plain_style st \<longleftrightarrow> \<not> sort_keys st \<and> loose 44 (item_sep st) \<and> loose 58 (key_sep st)"

text \<open>The texts of numbers the interpreter can read back; keys of an object are distinct.\<close>

fun readable :: "(real \<Rightarrow> ustr) \<Rightarrow> (ustr \<Rightarrow> real) \<Rightarrow> json \<Rightarrow> bool" where
  "readable rf fl (JInt i) = (length (show_int i) \<le> 4300)"
| "readable rf fl (JFloat r) = (scan_number (rf r) = Some (True, rf r, []) \<and> fl (rf r) = r)"
| "readable rf fl (JArr xs) = list_all (readable rf fl) xs"
| "readable rf fl (JObj kvs) = (dict_ok kvs \<and> list_all (\<lambda>kv. readable rf fl (snd kv)) kvs)"
| "readable rf fl _ = True"

definition stops :: "ustr \<Rightarrow> bool" where
  "stops r \<longleftrightarrow> r = [] \<or> hd r \<in> {44, 93, 125}"

lemma stops_simps [simp]: "stops []" "stops (44 # r)" "stops (93 # r)" "stops (125 # r)"
  by (simp_all add: stops_def)

lemma stops_cases: "stops r \<Longrightarrow> (r = [] \<Longrightarrow> P) \<Longrightarrow> (\<And>c s. r = c # s \<Longrightarrow> c = 44 \<or> c = 93 \<or> c = 125 \<Longrightarrow> P) \<Longrightarrow> P"
  by (cases r) (auto simp: stops_def)

lemma hex_digit_value: "n < 16 \<Longrightarrow> hex_value (hex_digit n) = Some n"
  by (auto simp: hex_digit_def hex_value_def)

lemma hex4_control: "a < 16 \<Longrightarrow> b < 16 \<Longrightarrow> hex4 (48 # 48 # hex_digit a # hex_digit b # s) = Some (16 * a + b)"
  by (simp add: hex4_def hex_digit_value) (simp add: hex_value_def)

lemma control_escape:
  assumes "c < 32"
  shows "unicode_escape (48 # 48 # hex_digit (c div 16) # hex_digit (c mod 16) # s) = Some (c, s)"
proof -
  have "hex4 (48 # 48 # hex_digit (c div 16) # hex_digit (c mod 16) # s) = Some c"
    using assms hex4_control [of "c div 16" "c mod 16" s] by simp
  then show ?thesis using assms by (simp add: unicode_escape_def)
qed

lemma unquote_esc: "unquote (esc_char c @ s) = map_option (apfst ((#) c)) (unquote s)"
proof (cases "c < 32 \<or> c = 34 \<or> c = 92")
  case False
  then show ?thesis by (simp add: esc_char_def)
next
  case True
  then show ?thesis by (simp add: esc_char_def control_escape simple_escape_def)
qed

lemma unquote_text: "unquote (concat (map esc_char t) @ 34 # s) = Some (t, s)"
  by (induction t) (simp_all add: unquote_esc)

lemma takeWhile_stops: "stops r \<Longrightarrow> takeWhile ascii_digit (s @ r) = takeWhile ascii_digit s"
  by (induction s) (auto simp: ascii_digit_def elim: stops_cases)

lemma dropWhile_stops: "stops r \<Longrightarrow> dropWhile ascii_digit (s @ r) = dropWhile ascii_digit s @ r"
  by (induction s) (auto simp: ascii_digit_def elim: stops_cases)

lemmas scan_stops = takeWhile_stops dropWhile_stops

lemma fraction_stops: "stops r \<Longrightarrow> scan_fraction (s @ r) = apsnd (\<lambda>x. x @ r) (scan_fraction s)"
  by (cases s) (auto simp: scan_fraction_def scan_stops elim: stops_cases)

lemma exponent_stops: "stops r \<Longrightarrow> scan_exponent (s @ r) = apsnd (\<lambda>x. x @ r) (scan_exponent s)"
proof (cases s rule: remdups_adj.cases)
  case 1
  assume "stops r" with 1 show ?thesis by (auto simp: scan_exponent_def elim!: stops_cases)
next
  case (2 a)
  assume "stops r" with 2 show ?thesis by (auto simp: scan_exponent_def ascii_digit_def elim!: stops_cases)
next
  case (3 a b l)
  assume "stops r" with 3 show ?thesis by (auto simp: scan_exponent_def Let_def scan_stops)
qed

lemma sign_stops: "stops r \<Longrightarrow> scan_sign (s @ r) = apsnd (\<lambda>x. x @ r) (scan_sign s)"
  by (cases s) (auto simp: scan_sign_def elim: stops_cases)

lemma whole_stops: "stops r \<Longrightarrow> scan_whole (s @ r) = apsnd (\<lambda>x. x @ r) (scan_whole s)"
  by (cases s) (auto simp: scan_whole_def scan_digits_def scan_stops ascii_digit_def elim: stops_cases)

lemma number_stops:
  assumes "stops r" and "scan_number s = Some (f, t, q)"
  shows "scan_number (s @ r) = Some (f, t, q @ r)"
proof -
  obtain sign s1 whole s2 frac s3 expo s4 where parts: "scan_sign s = (sign, s1)" "scan_whole s1 = (whole, s2)"
    "scan_fraction s2 = (frac, s3)" "scan_exponent s3 = (expo, s4)" by (metis surj_pair)
  moreover have "scan_sign (s @ r) = (sign, s1 @ r)" "scan_whole (s1 @ r) = (whole, s2 @ r)"
    "scan_fraction (s2 @ r) = (frac, s3 @ r)" "scan_exponent (s3 @ r) = (expo, s4 @ r)"
    by (simp_all add: parts sign_stops whole_stops fraction_stops exponent_stops assms(1))
  ultimately show ?thesis using assms(2) by (auto simp: scan_number_def split: if_splits)
qed

text \<open>Integers.\<close>

lemma digits_of_dec: "list_all ascii_digit (dec n)"
proof (induction n rule: dec.induct)
  case (1 n)
  have "ascii_digit (48 + n mod 10)" "n < 10 \<Longrightarrow> ascii_digit (48 + n)" by (auto simp: ascii_digit_def)
  with 1 show ?case by (subst dec.simps) simp
qed

lemma digits_value_append: "digits_value (xs @ [c]) = 10 * digits_value xs + (c - 48)"
  by (simp add: digits_value_def)

lemma digits_value_dec [simp]: "digits_value (dec n) = n"
proof (induction n rule: dec.induct)
  case (1 n)
  show ?case
  proof (cases "n < 10")
    case True
    then show ?thesis by (subst dec.simps) (simp add: digits_value_def)
  next
    case False
    then show ?thesis by (subst dec.simps) (simp add: digits_value_append 1)
  qed
qed

lemma hd_dec: "0 < n \<Longrightarrow> hd (dec n) \<noteq> 48"
proof (induction n rule: dec.induct)
  case (1 n)
  show ?case
  proof (cases "n < 10")
    case False
    then have "hd (dec (n div 10)) \<noteq> 48" using 1 by simp
    then show ?thesis using False dec_nonempty [of "n div 10"] by (subst dec.simps) simp
  qed (use 1 in \<open>simp add: dec.simps\<close>)
qed

lemma scan_dec: "scan_number (dec n) = Some (False, dec n, [])"
proof (cases "n = 0")
  case True
  then show ?thesis by (simp add: dec.simps scan_number_def scan_sign_def scan_whole_def scan_fraction_def scan_exponent_def)
next
  case False
  from digits_of_dec [of n] have all: "\<forall>c \<in> set (dec n). ascii_digit c" by (simp add: list_all_iff)
  with dec_nonempty [of n] have h: "hd (dec n) \<noteq> 45" "hd (dec n) \<noteq> 48"
    using False hd_dec [of n] hd_in_set [of "dec n"] by (fastforce simp: ascii_digit_def)+
  then have "take 1 (dec n) \<noteq> [45]" "take 1 (dec n) \<noteq> [48]" by (cases "dec n"; simp)+
  moreover have "scan_digits (dec n) = (dec n, [])"
    using all by (simp add: scan_digits_def takeWhile_eq_all_conv dropWhile_eq_Nil_conv)
  ultimately show ?thesis using dec_nonempty [of n]
    by (simp add: scan_number_def scan_sign_def scan_whole_def scan_fraction_def scan_exponent_def)
qed

lemma scan_negative: "scan_number (45 # dec n) = Some (False, 45 # dec n, [])"
proof -
  have "hd (dec n) \<noteq> 45" using digits_of_dec [of n] dec_nonempty [of n]
    by (cases "dec n") (auto simp: ascii_digit_def)
  then have "take 1 (dec n) \<noteq> [45]" by (cases "dec n") auto
  with scan_dec [of n] show ?thesis by (auto simp: scan_number_def scan_sign_def Let_def split: prod.splits if_splits)
qed

lemma int_text_show [simp]: "int_text (show_int i) = i"
proof -
  have "take 1 (dec n) \<noteq> [45]" for n using digits_of_dec [of n] by (cases "dec n") (auto simp: ascii_digit_def)
  then show ?thesis by (simp add: int_text_def show_int_def)
qed

lemma parse_int_text:
  assumes "stops r" and "length (show_int i) \<le> 4300"
  shows "parse_number fl (show_int i @ r) = Some (JInt i, r)"
proof -
  have "scan_number (show_int i) = Some (False, show_int i, [])"
    by (simp add: show_int_def scan_dec scan_negative)
  from number_stops [OF assms(1) this] assms(2) show ?thesis by (simp add: parse_number_def)
qed

text \<open>How a written value starts.\<close>

definition opens :: "ustr \<Rightarrow> bool" where
  "opens s \<longleftrightarrow> s \<noteq> [] \<and> \<not> json_space (hd s) \<and> hd s \<noteq> 93 \<and> hd s \<noteq> 125"

lemma scan_opens: "scan_number s = Some x \<Longrightarrow> s \<noteq> [] \<and> (hd s = 45 \<or> ascii_digit (hd s))"
  by (cases s) (auto simp: scan_number_def scan_sign_def scan_whole_def scan_digits_def ascii_digit_def Let_def split: if_splits prod.splits)

lemma number_head: "hd s = 45 \<or> ascii_digit (hd s) \<Longrightarrow> s \<noteq> [] \<Longrightarrow> opens s"
  by (auto simp: opens_def ascii_digit_def json_space_def)

lemma show_int_scan: "scan_number (show_int i) = Some (False, show_int i, [])"
  by (simp add: show_int_def scan_dec scan_negative)

lemma dumps_opens: "readable rf fl j \<Longrightarrow> opens (dumps rf st j)"
proof (cases j)
  case (JInt i)
  then show ?thesis using number_head scan_opens [OF show_int_scan] by simp
next
  case (JFloat r)
  assume "readable rf fl j"
  with JFloat show ?thesis using number_head scan_opens by fastforce
qed (auto simp: opens_def quote_def json_space_def u_def Let_def)

lemma skip_opens [simp]: "opens s \<Longrightarrow> skip_ws (s @ r) = s @ r"
  by (cases s) (simp_all add: opens_def skip_ws_def)

lemma skip_spaces: "list_all json_space w \<Longrightarrow> skip_ws (w @ s) = skip_ws s"
  by (simp add: skip_ws_def list_all_iff dropWhile_append2)

lemma skip_mark [simp]: "c = 44 \<or> c = 58 \<or> c = 93 \<or> c = 125 \<or> c = 34 \<Longrightarrow> skip_ws (c # s) = c # s"
  by (auto simp: skip_ws_def json_space_def)

lemma looseE: "loose c s \<Longrightarrow> (\<And>w. s = c # w \<Longrightarrow> list_all json_space w \<Longrightarrow> P) \<Longrightarrow> P"
  by (cases s) (auto simp: loose_def)

lemma number_value:
  "c \<noteq> 34 \<and> c \<noteq> 91 \<and> c \<noteq> 123 \<and> c \<noteq> 110 \<and> c \<noteq> 116 \<and> c \<noteq> 102 \<and> c \<noteq> 78 \<and> c \<noteq> 73 \<Longrightarrow>
     take 9 (c # cs) \<noteq> u ''-Infinity'' \<Longrightarrow> json_value fl (c # cs) = parse_number fl (c # cs)"
  by (subst json_value.simps) (auto simp: u_def)

lemma value_number:
  assumes "scan_number s = Some x" and "stops r" and "parse_number fl (s @ r) = Some y"
  shows "json_value fl (s @ r) = Some y"
proof -
  obtain c cs where s: "s = c # cs" and c: "c = 45 \<or> ascii_digit c" using scan_opens [OF assms(1)] by (cases s) auto
  have "take 9 (s @ r) \<noteq> u ''-Infinity''"
  proof
    assume "take 9 (s @ r) = u ''-Infinity''"
    then have "c = 45" "take 8 (cs @ r) = u ''Infinity''" by (simp_all add: s u_def eval_nat_numeral)
    then have "cs = [] \<or> hd cs = 73" using assms(2) by (cases cs) (auto simp: u_def eval_nat_numeral elim: stops_cases)
    then show False using assms(1) by (cases cs) (auto simp: s \<open>c = 45\<close> scan_number_def scan_sign_def scan_whole_def scan_digits_def ascii_digit_def)
  qed
  moreover have "c \<noteq> 34 \<and> c \<noteq> 91 \<and> c \<noteq> 123 \<and> c \<noteq> 110 \<and> c \<noteq> 116 \<and> c \<noteq> 102 \<and> c \<noteq> 78 \<and> c \<noteq> 73"
    using c by (auto simp: ascii_digit_def)
  ultimately show ?thesis using assms(3) by (simp add: s number_value)
qed

definition reads_back :: "(real \<Rightarrow> ustr) \<Rightarrow> (ustr \<Rightarrow> real) \<Rightarrow> json_style \<Rightarrow> json \<Rightarrow> bool" where
  "reads_back rf fl st j \<longleftrightarrow> opens (dumps rf st j) \<and> (\<forall>r. stops r \<longrightarrow> json_value fl (dumps rf st j @ r) = Some (j, r))"

lemma reads_backD: "reads_back rf fl st j \<Longrightarrow> stops r \<Longrightarrow> json_value fl (dumps rf st j @ r) = Some (j, r)"
  by (simp add: reads_back_def)

lemma join_Cons: "py_join sep (x # xs) = x @ (if xs = [] then [] else sep @ py_join sep xs)"
  by (cases xs) simp_all

lemma items_read:
  assumes "loose 44 (item_sep st)" and "\<forall>x \<in> set xs. reads_back rf fl st x" and "xs \<noteq> []"
  shows "json_items fl (py_join (item_sep st) (map (dumps rf st) xs) @ 93 # r) = Some (xs, r)"
  using assms(2,3)
proof (induction xs)
  case (Cons x xs)
  note x = reads_backD [of rf fl st x]
  from assms(1) obtain w where w: "item_sep st = 44 # w" "list_all json_space w" by (rule looseE)
  show ?case
  proof (cases xs)
    case Nil
    with Cons.prems x [of "93 # r"] show ?thesis by (subst json_items.simps) simp
  next
    case (Cons y ys)
    let ?rest = "py_join (item_sep st) (map (dumps rf st) xs) @ 93 # r"
    have "opens (dumps rf st y)" using Cons.prems Cons by (simp add: reads_back_def)
    then have "skip_ws ?rest = ?rest" using Cons by (simp add: join_Cons)
    then have "skip_ws (w @ ?rest) = ?rest" using w by (simp add: skip_spaces)
    moreover have "json_items fl ?rest = Some (xs, r)" using Cons.IH Cons.prems Cons by simp
    moreover have "json_value fl (dumps rf st x @ 44 # w @ ?rest) = Some (x, 44 # w @ ?rest)"
      using Cons.prems by (intro x) auto
    ultimately show ?thesis using Cons w Cons.prems by (subst json_items.simps) simp
  qed
qed simp

lemma put_new: "k \<notin> fst ` set d \<Longrightarrow> dict_put k v d = d @ [(k, v)]"
  by (induction k v d rule: dict_put.induct) auto

lemma members_read:
  assumes "loose 44 (item_sep st)" and "loose 58 (key_sep st)" and "\<forall>kv \<in> set kvs. reads_back rf fl st (snd kv)"
    and "kvs \<noteq> []" and "dict_ok (d @ kvs)"
  shows "json_members fl (py_join (item_sep st) (map (\<lambda>(k, v). quote k @ key_sep st @ v) (map (\<lambda>kv. (fst kv, dumps rf st (snd kv))) kvs))
     @ 125 # r) d = Some (d @ kvs, r)"
  using assms(3-5)
proof (induction kvs arbitrary: d)
  case (Cons kv kvs)
  obtain k x where kv: "kv = (k, x)" by (cases kv)
  from assms(1) obtain w where w: "item_sep st = 44 # w" "list_all json_space w" by (rule looseE)
  from assms(2) obtain w' where w': "key_sep st = 58 # w'" "list_all json_space w'" by (rule looseE)
  let ?text = "\<lambda>kvs. py_join (item_sep st) (map (\<lambda>(k, v). quote k @ key_sep st @ v) (map (\<lambda>kv. (fst kv, dumps rf st (snd kv))) kvs)) @ 125 # r"
  let ?tail = "if kvs = [] then 125 # r else 44 # w @ ?text kvs"
  have put: "dict_put k x d = d @ [(k, x)]" using Cons.prems(3) by (intro put_new) (auto simp: kv dict_ok_def)
  have each: "reads_back rf fl st x" using Cons.prems(1) kv by simp
  have shape: "?text (kv # kvs) = 34 # concat (map esc_char k) @ 34 # 58 # w' @ dumps rf st x @ ?tail"
    using w w' by (simp add: kv join_Cons quote_def)
  have opens: "skip_ws (w' @ dumps rf st x @ ?tail) = dumps rf st x @ ?tail"
    using each w' by (simp add: skip_spaces reads_back_def)
  have "json_value fl (dumps rf st x @ ?tail) = Some (x, ?tail)"
    using each by (intro reads_backD) auto
  moreover have "kvs \<noteq> [] \<Longrightarrow> json_members fl (?text kvs) (d @ [(k, x)]) = Some (d @ kv # kvs, r)"
    using Cons.IH [of "d @ [(k, x)]"] Cons.prems kv by simp
  moreover have "kvs \<noteq> [] \<Longrightarrow> skip_ws (w @ ?text kvs) = ?text kvs"
    using w by (cases kvs) (auto simp: skip_spaces join_Cons quote_def)
  ultimately show ?case using opens unfolding shape
    by (subst json_members.simps) (simp add: unquote_text put kv)
qed simp

lemma read_back:
  assumes "plain_style st"
  shows "readable rf fl j \<Longrightarrow> reads_back rf fl st j"
proof (induction j)
  case (JInt i)
  then show ?case using value_number [OF show_int_scan] parse_int_text dumps_opens [OF JInt] by (simp add: reads_back_def)
next
  case (JFloat x)
  have scan: "scan_number (rf x) = Some (True, rf x, [])" and "fl (rf x) = x" using JFloat by auto
  then have "parse_number fl (rf x @ r) = Some (JFloat x, r)" if "stops r" for r
    using number_stops [OF that scan] by (simp add: parse_number_def)
  then show ?case using value_number [OF scan] dumps_opens [OF JFloat] by (simp add: reads_back_def)
next
  case (JArr xs)
  have each: "\<forall>x \<in> set xs. reads_back rf fl st x" using JArr by (auto simp: list_all_iff)
  have "json_value fl (91 # py_join (item_sep st) (map (dumps rf st) xs) @ 93 # r) = Some (JArr xs, r)" for r
  proof (cases xs)
    case (Cons y ys)
    let ?s = "py_join (item_sep st) (map (dumps rf st) xs) @ 93 # r"
    have o: "opens (dumps rf st y)" using each Cons by (simp add: reads_back_def)
    then have "skip_ws ?s = ?s" using Cons by (simp add: join_Cons)
    moreover have "take 1 ?s \<noteq> [93]" using o Cons by (cases "dumps rf st y") (auto simp: opens_def join_Cons)
    ultimately show ?thesis using items_read [of st xs rf fl r] each Cons assms
      by (subst json_value.simps) (simp add: plain_style_def)
  qed (simp add: json_value.simps)
  then show ?case using dumps_opens [OF JArr.prems] by (simp add: reads_back_def u_def)
next
  case (JObj kvs)
  have each: "\<forall>kv \<in> set kvs. reads_back rf fl st (snd kv)"
    using JObj by (fastforce simp: list_all_iff intro: snds.intros)
  have "json_value fl (123 # py_join (item_sep st) (map (\<lambda>(k, v). quote k @ key_sep st @ v)
      (map (\<lambda>kv. (fst kv, dumps rf st (snd kv))) kvs)) @ 125 # r) = Some (JObj kvs, r)" for r
  proof (cases kvs)
    case (Cons kv rest)
    let ?s = "py_join (item_sep st) (map (\<lambda>(k, v). quote k @ key_sep st @ v) (map (\<lambda>kv. (fst kv, dumps rf st (snd kv))) kvs)) @ 125 # r"
    obtain s' where s': "?s = 34 # s'" using Cons by (simp add: join_Cons quote_def)
    have "json_members fl ?s [] = Some (kvs, r)"
      using members_read [of st kvs rf fl "[]" r] assms each Cons JObj.prems by (simp add: plain_style_def)
    then show ?thesis unfolding s' by (subst json_value.simps) simp
  qed (simp add: json_value.simps)
  moreover have "dumps rf st (JObj kvs) = 123 # py_join (item_sep st) (map (\<lambda>(k, v). quote k @ key_sep st @ v)
      (map (\<lambda>kv. (fst kv, dumps rf st (snd kv))) kvs)) @ [125]"
    using assms by (simp add: plain_style_def u_def Let_def)
  moreover have "opens (dumps rf st (JObj kvs))" by (rule dumps_opens [OF JObj.prems])
  ultimately show ?case by (simp add: reads_back_def del: dumps.simps)
qed (auto simp: reads_back_def opens_def json_space_def u_def quote_def json_value.simps unquote_text)

theorem loads_dumps:
  assumes "plain_style st" and "readable rf fl j"
  shows "loads fl (dumps rf st j) = Some j"
proof -
  have each: "reads_back rf fl st j" using read_back assms by blast
  then have "skip_ws (dumps rf st j) = dumps rf st j" using skip_opens [of "dumps rf st j" "[]"] by (simp add: reads_back_def)
  with reads_backD [OF each, of "[]"] show ?thesis by (simp add: loads_def skip_ws_def)
qed

end
