(* ===== verification/LlmClient.thy ===== *)
theory LlmClient
  imports AgentLoop ModelTexts JsonText
begin

text \<open>
  The model client (\<^verbatim>\<open>llm/openai_compatible.py\<close>): one request with retries of recoverable errors, the
  normalised answer of a complete response, and the chunks of a streamed one. The objects of the SDK
  are records whose absent attributes are \<open>None\<close>; what the service answers is a tape.
\<close>

section \<open>Requests\<close>

text \<open>The exceptions of the SDK the client tells apart, each with its text.\<close>

datatype api_error =
    APITimeoutError ustr
  | APIConnectionError ustr
  | RateLimitError ustr
  | InternalServerError ustr
  | BadRequestError ustr
  | Other_api exn

definition recoverable :: "api_error \<Rightarrow> bool" where
  "recoverable e = (case e of APITimeoutError _ \<Rightarrow> True | APIConnectionError _ \<Rightarrow> True | RateLimitError _ \<Rightarrow> True
     | InternalServerError _ \<Rightarrow> True | _ \<Rightarrow> False)"

definition api_exn :: "api_error \<Rightarrow> exn" where
  "api_exn e = (case e of APITimeoutError t \<Rightarrow> OtherError t | APIConnectionError t \<Rightarrow> OtherError t
     | RateLimitError t \<Rightarrow> OtherError t | InternalServerError t \<Rightarrow> OtherError t | BadRequestError t \<Rightarrow> OtherError t
     | Other_api x \<Rightarrow> x)"

record model_client =
  mc_model :: ustr
  mc_max_retries :: int
  mc_retry_delay :: real
  mc_float :: "ustr \<Rightarrow> real"
  mc_str :: "json \<Rightarrow> ustr"

record request_payload =
  rp_model :: ustr
  rp_messages :: "json list"
  rp_tools :: "json list option"
  rp_stream :: bool
  rp_include_usage :: bool

record 'r service =
  sv_answers :: "(api_error + 'r) tape"
  sv_interrupts :: "exn option tape"
  sv_requests :: "request_payload list"
  sv_sleeps :: "real list"

definition payload_of :: "model_client \<Rightarrow> json list \<Rightarrow> json list \<Rightarrow> bool \<Rightarrow> request_payload" where
  "payload_of c messages tools stream = \<lparr>rp_model = mc_model c, rp_messages = messages,
     rp_tools = (if tools = [] then None else Some tools), rp_stream = stream, rp_include_usage = stream\<rparr>"

definition send_payload :: "request_payload \<Rightarrow> 'r service \<Rightarrow> (api_error + 'r) \<times> 'r service" where
  "send_payload p d = (sv_answers d 0, d\<lparr>sv_answers := tape_tl (sv_answers d), sv_requests := sv_requests d @ [p]\<rparr>)"

text \<open>\<open>asyncio.sleep\<close> may be interrupted.\<close>

definition pause :: "real \<Rightarrow> ('r service, unit) prog" where
  "pause t d = ((case sv_interrupts d 0 of Some e \<Rightarrow> Inl e | None \<Rightarrow> Inr ()),
     d\<lparr>sv_interrupts := tape_tl (sv_interrupts d), sv_sleeps := sv_sleeps d @ [t]\<rparr>)"

function create_completion :: "model_client \<Rightarrow> request_payload \<Rightarrow> int \<Rightarrow> ('r service, 'r) prog" where
  "create_completion c p attempt d = (case send_payload p d of
     (Inr r, d1) \<Rightarrow> (Inr r, d1)
   | (Inl e, d1) \<Rightarrow>
       (if recoverable e \<and> attempt + 1 \<le> mc_max_retries c then
          (case pause (mc_retry_delay c * real_of_int (attempt + 1)) d1 of
             (Inl x, d2) \<Rightarrow> (Inl x, d2)
           | (Inr _, d2) \<Rightarrow> create_completion c p (attempt + 1) d2)
        else (Inl (api_exn e), d1)))"
  by pat_completeness auto
termination
  by (relation "measure (\<lambda>(c, p, attempt, d). nat (mc_max_retries c - attempt))") auto

declare create_completion.simps [simp del]

section \<open>The answer of a complete response\<close>

record sdk_function =
  sf_name :: "ustr option"
  sf_arguments :: json

record sdk_call =
  sc_id :: "ustr option"
  sc_function :: "sdk_function option"
  sc_index :: "int option"

record sdk_message =
  sm_content :: "ustr option"
  sm_calls :: "sdk_call list"
  sm_reasoning :: "ustr option"

record sdk_usage =
  su_prompt :: "int option"
  su_completion :: "int option"
  su_total :: "int option"

record sdk_response =
  sr_choices :: "sdk_message option list"
  sr_usage :: "sdk_usage option"

text \<open>\<open>x or default\<close>.\<close>

definition or_empty :: "ustr option \<Rightarrow> ustr" where
  "or_empty x = (case x of Some t \<Rightarrow> t | None \<Rightarrow> [])"

definition or_zero :: "int option \<Rightarrow> int" where
  "or_zero x = (case x of Some n \<Rightarrow> n | None \<Rightarrow> 0)"

definition protocol_error_of :: "ustr \<Rightarrow> json list \<Rightarrow> ustr option" where
  "protocol_error_of content tools =
     (if tools = [] \<and> is_substring txt_dsml_marker content then Some txt_dsml_error else None)"

definition parse_arguments :: "(ustr \<Rightarrow> real) \<Rightarrow> json \<Rightarrow> ustr \<Rightarrow> exn + (ustr, json) dict" where
  "parse_arguments fl raw name = (case raw of
     JObj kvs \<Rightarrow> Inr kvs
   | JStr t \<Rightarrow>
       (if py_strip t = [] then Inr []
        else case loads fl t of
          None \<Rightarrow> Inl (ValueError (txt_args_not_json @ name))
        | Some (JObj kvs) \<Rightarrow> Inr kvs
        | Some _ \<Rightarrow> Inl (ValueError (txt_args_no_object @ name)))
   | _ \<Rightarrow> Inr [])"

definition parse_usage :: "sdk_usage option \<Rightarrow> llm_usage option" where
  "parse_usage usage = (case usage of
     None \<Rightarrow> None
   | Some x \<Rightarrow>
       (let i = or_zero (su_prompt x); o' = or_zero (su_completion x); t = or_zero (su_total x) in
        Some \<lparr>lu_input = i, lu_output = o', lu_total = (if t \<le> 0 then i + o' else t)\<rparr>))"

definition require_usage :: "sdk_usage option \<Rightarrow> exn + llm_usage" where
  "require_usage usage = (case parse_usage usage of
     Some x \<Rightarrow> (if lu_total x \<le> 0 then Inl (RuntimeError txt_usage_missing) else Inr x)
   | None \<Rightarrow> Inl (RuntimeError txt_usage_missing))"

definition parse_tool_call :: "(ustr \<Rightarrow> real) \<Rightarrow> sdk_call \<Rightarrow> exn + tool_call" where
  "parse_tool_call fl c = (case sc_function c of
     None \<Rightarrow> Inl (ValueError txt_call_no_function)
   | Some f \<Rightarrow>
       (let i = or_empty (sc_id c); name = or_empty (sf_name f) in
        if i = [] then Inl (ValueError txt_call_no_id)
        else if name = [] then Inl (ValueError txt_call_no_name)
        else bindE (parse_arguments fl (sf_arguments f) name) (\<lambda>args.
          Inr \<lparr>tl_id = i, tl_name = name, tl_args = args\<rparr>)))"

definition parse_tool_calls :: "(ustr \<Rightarrow> real) \<Rightarrow> sdk_call list \<Rightarrow> exn + tool_call list" where
  "parse_tool_calls fl cs = mapE (parse_tool_call fl) cs"

definition normalize_response :: "model_client \<Rightarrow> json list \<Rightarrow> sdk_response \<Rightarrow> exn + llm_response" where
  "normalize_response c tools r = (case sr_choices r of
     [] \<Rightarrow> Inl (RuntimeError txt_no_choices)
   | None # _ \<Rightarrow> Inl (RuntimeError txt_no_message)
   | Some m # _ \<Rightarrow>
       (let content = or_empty (sm_content m) in
        bindE (parse_tool_calls (mc_float c) (sm_calls m)) (\<lambda>calls.
        bindE (require_usage (sr_usage r)) (\<lambda>usage.
          Inr \<lparr>rs_content = content, rs_calls = calls, rs_usage = Some usage,
               rs_protocol_error = protocol_error_of content tools, rs_reasoning = sm_reasoning m\<rparr>))))"

definition client_complete :: "model_client \<Rightarrow> json list \<Rightarrow> json list \<Rightarrow> (sdk_response service, llm_response) prog" where
  "client_complete c messages tools =
     seq (create_completion c (payload_of c messages tools False) 0) (\<lambda>r. lift (normalize_response c tools r))"

section \<open>The chunks of a streamed response\<close>

record sdk_delta =
  sd_content :: "ustr option"
  sd_calls :: "sdk_call list"

record sdk_choice =
  so_delta :: "sdk_delta option"
  so_finish :: "ustr option"

record sdk_event =
  se_usage :: "sdk_usage option"
  se_choices :: "sdk_choice list"

record call_part =
  pt_id :: ustr
  pt_name :: ustr
  pt_arguments :: ustr

definition new_part :: call_part where
  "new_part = \<lparr>pt_id = [], pt_name = [], pt_arguments = []\<rparr>"

text \<open>\<open>getattr(item, "index", position) or position\<close>: an index of zero is replaced by the position.\<close>

definition part_index :: "nat \<Rightarrow> sdk_call \<Rightarrow> int" where
  "part_index position item = (let i = or_zero (sc_index item) in if i = 0 then int position else i)"

text \<open>\<open>str\<close> of the arguments of a fragment: a text, or what the interpreter prints for another value.\<close>

definition fragment_text :: "(json \<Rightarrow> ustr) \<Rightarrow> json \<Rightarrow> ustr" where
  "fragment_text pr v = (if py_truthy v then (case v of JStr t \<Rightarrow> t | _ \<Rightarrow> pr v) else [])"

definition merge_part :: "(json \<Rightarrow> ustr) \<Rightarrow> sdk_call \<Rightarrow> call_part \<Rightarrow> call_part" where
  "merge_part pr item p =
     (let p1 = (if or_empty (sc_id item) \<noteq> [] then p\<lparr>pt_id := or_empty (sc_id item)\<rparr> else p) in
      case sc_function item of
        None \<Rightarrow> p1
      | Some f \<Rightarrow>
          (let p2 = (if or_empty (sf_name f) \<noteq> [] then p1\<lparr>pt_name := or_empty (sf_name f)\<rparr> else p1) in
           p2\<lparr>pt_arguments := pt_arguments p2 @ fragment_text pr (sf_arguments f)\<rparr>))"

definition merge_delta :: "(json \<Rightarrow> ustr) \<Rightarrow> nat \<times> sdk_call \<Rightarrow> (int, call_part) dict \<Rightarrow> (int, call_part) dict" where
  "merge_delta pr pc parts = (case pc of (position, item) \<Rightarrow>
     (let i = part_index position item in
      dict_put i (merge_part pr item (case dict_get parts i of Some p \<Rightarrow> p | None \<Rightarrow> new_part)) parts))"

definition merge_tool_call_deltas :: "(json \<Rightarrow> ustr) \<Rightarrow> sdk_call list \<Rightarrow> (int, call_part) dict \<Rightarrow> (int, call_part) dict" where
  "merge_tool_call_deltas pr items parts = fold (merge_delta pr) (zip [0..<length items] items) parts"

definition build_stream_call :: "(ustr \<Rightarrow> real) \<Rightarrow> call_part \<Rightarrow> exn + tool_call" where
  "build_stream_call fl p =
     (if pt_id p = [] then Inl (ValueError txt_stream_no_id)
      else if pt_name p = [] then Inl (ValueError txt_stream_no_name)
      else bindE (parse_arguments fl (JStr (pt_arguments p)) (pt_name p)) (\<lambda>args.
        Inr \<lparr>tl_id = pt_id p, tl_name = pt_name p, tl_args = args\<rparr>))"

definition build_stream_tool_calls :: "(ustr \<Rightarrow> real) \<Rightarrow> (int, call_part) dict \<Rightarrow> exn + tool_call list" where
  "build_stream_tool_calls fl parts = mapE (\<lambda>(_, p). build_stream_call fl p) (sort_key fst parts)"

text \<open>What has been read so far, and the chunks yielded so far.\<close>

record stream_state =
  ss_parts :: "(int, call_part) dict"
  ss_content :: ustr
  ss_chunks :: "llm_chunk list"

definition chunk :: llm_chunk where
  "chunk = \<lparr>ck_delta = [], ck_calls = [], ck_finish = None, ck_usage = None, ck_protocol_error = None\<rparr>"

definition yield_chunk :: "llm_chunk \<Rightarrow> (stream_state, unit) prog" where
  "yield_chunk c = modify (\<lambda>s. s\<lparr>ss_chunks := ss_chunks s @ [c]\<rparr>)"

definition read_choice :: "model_client \<Rightarrow> sdk_choice \<Rightarrow> (stream_state, unit) prog" where
  "read_choice c ch =
     (let delta_text = (case so_delta ch of Some d \<Rightarrow> or_empty (sd_content d) | None \<Rightarrow> []) in
      seq (modify (\<lambda>s. s\<lparr>ss_content := ss_content s @ delta_text,
          ss_parts := (case so_delta ch of Some d \<Rightarrow> merge_tool_call_deltas (mc_str c) (sd_calls d) (ss_parts s) | None \<Rightarrow> ss_parts s)\<rparr>)) (\<lambda>_.
      seq (gets ss_parts) (\<lambda>parts.
      seq (lift (if so_finish ch = Some (u ''tool_calls'') then build_stream_tool_calls (mc_float c) parts else Inr [])) (\<lambda>calls.
        if delta_text \<noteq> [] \<or> truthy (so_finish ch) \<or> calls \<noteq> []
        then yield_chunk (chunk\<lparr>ck_delta := delta_text, ck_calls := calls, ck_finish := so_finish ch\<rparr>)
        else ret ()))))"

definition read_event :: "model_client \<Rightarrow> sdk_event \<Rightarrow> (stream_state, unit) prog" where
  "read_event c ev =
     seq (case parse_usage (se_usage ev) of
         Some x \<Rightarrow> yield_chunk (chunk\<lparr>ck_usage := Some x\<rparr>)
       | None \<Rightarrow> ret ()) (\<lambda>_.
       for_each (se_choices ev) (read_choice c))"

text \<open>The events of a stream and the exception that may end it.\<close>

definition read_stream :: "model_client \<Rightarrow> json list \<Rightarrow> sdk_event list \<times> exn option \<Rightarrow> (stream_state, unit) prog" where
  "read_stream c tools evs =
     seq (for_each (fst evs) (read_event c)) (\<lambda>_.
     seq (case snd evs of Some e \<Rightarrow> raise e | None \<Rightarrow> ret ()) (\<lambda>_.
     seq (gets ss_content) (\<lambda>content.
       case protocol_error_of content tools of
         Some e \<Rightarrow> yield_chunk (chunk\<lparr>ck_protocol_error := Some e\<rparr>)
       | None \<Rightarrow> ret ())))"

text \<open>The chunks a consumer of the stream gets, and the exception after them.\<close>

definition stream_chunks :: "model_client \<Rightarrow> json list \<Rightarrow> sdk_event list \<times> exn option \<Rightarrow> llm_chunk list \<times> exn option" where
  "stream_chunks c tools evs =
     (case read_stream c tools evs \<lparr>ss_parts = [], ss_content = [], ss_chunks = []\<rparr> of
        (Inr _, s) \<Rightarrow> (ss_chunks s, None)
      | (Inl e, s) \<Rightarrow> (ss_chunks s, Some e))"

definition client_stream ::
  "model_client \<Rightarrow> json list \<Rightarrow> json list \<Rightarrow> ((sdk_event list \<times> exn option) service, llm_chunk list \<times> exn option) prog" where
  "client_stream c messages tools d =
     (case create_completion c (payload_of c messages tools True) 0 d of
        (Inl e, d1) \<Rightarrow> (Inr ([], Some e), d1)
      | (Inr evs, d1) \<Rightarrow> (Inr (stream_chunks c tools evs), d1))"

end
