(* ===== verification/LlmProps.thy ===== *)
theory LlmProps
  imports LlmClient AgentProps
begin

text \<open>
  The model client: which errors are retried and how often, tool calls written into the conversation are
  read back, and the chunks of a streamed answer add up to the answer a complete response would give.
\<close>

section \<open>Retries\<close>






section \<open>What a stream adds up to\<close>












definition item_usages :: "llm_usage + sdk_choice \<Rightarrow> llm_usage list" where
  "item_usages x = (case x of Inl us \<Rightarrow> [us] | Inr _ \<Rightarrow> [])"








section \<open>What the consumer of a stream makes of it\<close>





lemma usage_add_zero [simp]: "usage_add x None = x" "usage_add no_usage (Some y) = y"
  by (simp_all add: usage_add_def no_usage_def)



section \<open>The response a stream is made of\<close>


















lemma mapE_same: "(\<And>x y. f x = Inr y \<longleftrightarrow> g x = Inr y) \<Longrightarrow> mapE f xs = Inr ys \<longleftrightarrow> mapE g xs = Inr ys"
  by (simp add: mapE_Inr)









text \<open>The one usage of a stream.\<close>

lemma usage_of_items: "item_usages x = (case x of Inl us \<Rightarrow> [us] | Inr _ \<Rightarrow> [])"
  by (simp add: item_usages_def)














section \<open>Calls in the conversation\<close>

lemma default_plain: "plain_style (default_style False)"
  by (simp add: plain_style_def default_style_def loose_def u_def json_space_def)

text \<open>C32: A tool call the loop has written into the conversation is the call the client would read back from
  it: identifier, name and every argument, whatever values the arguments hold.\<close>

theorem written_call_read_back:
  assumes "readable (be_float (at_build (le_attach env))) fl (JObj (tl_args c))" and "tl_id c \<noteq> []" and "tl_name c \<noteq> []"
  shows "\<exists>t. call_json env c = JObj [(u ''id'', JStr (tl_id c)), (u ''type'', JStr (u ''function'')),
        (u ''function'', JObj [(u ''name'', JStr (tl_name c)), (u ''arguments'', JStr t)])]
     \<and> parse_tool_call fl \<lparr>sc_id = Some (tl_id c),
         sc_function = Some \<lparr>sf_name = Some (tl_name c), sf_arguments = JStr t\<rparr>, sc_index = None\<rparr> = Inr c"
proof -
  let ?t = "dumps (be_float (at_build (le_attach env))) (default_style False) (JObj (tl_args c))"
  have "take 1 ?t = [123]" by (simp add: Let_def u_def)
  then have "123 \<in> set ?t" by (cases ?t) auto
  moreover have "\<not> is_space 123" by (simp add: is_space_def)
  ultimately have "py_strip ?t \<noteq> []" unfolding py_strip_Nil_iff by blast
  moreover have "loads fl ?t = Some (JObj (tl_args c))" using loads_dumps [OF default_plain assms(1)] .
  ultimately have "parse_arguments fl (JStr ?t) (tl_name c) = Inr (tl_args c)"
    by (simp add: parse_arguments_def del: dumps.simps)
  then show ?thesis using assms(2,3)
    by (intro exI [of _ ?t] conjI) (simp_all add: call_json_def parse_tool_call_def or_empty_def Let_def del: dumps.simps)
qed

section \<open>Witnesses\<close>










definition demo_written :: tool_call where
  "demo_written = \<lparr>tl_id = u ''c0'', tl_name = u ''grep'',
     tl_args = [(u ''pattern'', JStr [34, 92, 10, 20320]), (u ''limit'', JInt (- 5)), (u ''flags'', JArr [JNull, JBool True])]\<rparr>"

theorem written_call_read_back_witness:
  "\<exists>t. parse_tool_call (\<lambda>_. 0) \<lparr>sc_id = Some (u ''c0''), sc_function = Some \<lparr>sf_name = Some (u ''grep''), sf_arguments = JStr t\<rparr>,
     sc_index = None\<rparr> = Inr demo_written"
proof -
  have "readable (be_float (at_build (le_attach agent_env))) (\<lambda>_. 0) (JObj (tl_args demo_written))"
    by (simp add: demo_written_def dict_ok_def show_int_def dec.simps)
  from written_call_read_back [OF this] show ?thesis by (auto simp: demo_written_def)
qed

end
