(* ===== verification/CronTexts.thy ===== *)
theory CronTexts
  imports Prelude
begin

text \<open>
  The fixed texts of the program, code point by code point: error messages and replies the code
  stores, compares or shows. Each name says what the text says; the order is the order of the
  source files.
\<close>

section \<open>\<^verbatim>\<open>proactive/scheduler.py\<close>\<close>

definition txt_cron_fields :: ustr where \<comment> \<open>number of fields\<close>
  "txt_cron_fields = [67, 114, 111, 110, 32, 24517, 39035, 21253, 21547, 32, 53, 32, 20010, 23383, 27573, 65292,
     23454, 38469, 20026, 32]"

definition txt_cron_empty :: ustr where \<comment> \<open>an empty field\<close>
  "txt_cron_empty = [32, 19981, 33021, 20026, 31354]"

definition txt_cron_format :: ustr where \<comment> \<open>malformed\<close>
  "txt_cron_format = [32, 26684, 24335, 38169, 35823, 65306]"

definition txt_cron_order :: ustr where \<comment> \<open>the range is reversed\<close>
  "txt_cron_order = [32, 21306, 38388, 36215, 28857, 19981, 33021, 22823, 20110, 32456, 28857]"

definition txt_cron_step_only :: ustr where \<comment> \<open>a step needs a range\<close>
  "txt_cron_step_only = [32, 21482, 26377, 32, 42, 32, 25110, 21306, 38388, 21487, 20197, 20351, 29992, 27493,
     38271]"

definition txt_cron_step :: ustr where \<comment> \<open>the step must be positive\<close>
  "txt_cron_step = [32, 27493, 38271, 24517, 39035, 22823, 20110, 32, 48]"

definition txt_cron_range :: ustr where \<comment> \<open>out of range\<close>
  "txt_cron_range = [32, 36229, 20986, 33539, 22260, 32]"

definition txt_cron_never :: ustr where \<comment> \<open>no moment within two years\<close>
  "txt_cron_never = [67, 114, 111, 110, 32, 22312, 20004, 24180, 20869, 27809, 26377, 21487, 25191, 34892,
     26102, 21051]"

definition txt_delay_number :: ustr where \<comment> \<open>the delay must be a number\<close>
  "txt_delay_number = [100, 101, 108, 97, 121, 95, 115, 101, 99, 111, 110, 100, 115, 32, 24517, 39035, 26159,
     25968, 23383]"

definition txt_delay_positive :: ustr where \<comment> \<open>the delay must be positive\<close>
  "txt_delay_positive = [100, 101, 108, 97, 121, 95, 115, 101, 99, 111, 110, 100, 115, 32, 24517, 39035, 22823,
     20110, 32, 48]"

definition txt_job_no_cron :: ustr where \<comment> \<open>no expression\<close>
  "txt_job_no_cron = [21608, 26399, 32, 67, 114, 111, 110, 32, 74, 111, 98, 32, 32570, 23569, 32, 99, 114, 111,
     110]"

definition txt_next_offset :: ustr where \<comment> \<open>no UTC offset\<close>
  "txt_next_offset = [110, 101, 120, 116, 95, 114, 117, 110, 95, 97, 116, 32, 24517, 39035, 21253, 21547, 32,
     85, 84, 67, 32, 111, 102, 102, 115, 101, 116]"

section \<open>\<^verbatim>\<open>proactive/types.py\<close>\<close>

definition txt_usage_fields :: ustr where \<comment> \<open>negative usage\<close>
  "txt_usage_fields = [117, 115, 97, 103, 101, 32, 23383, 27573, 24517, 39035, 26159, 38750, 36127, 25972, 25968]"

definition txt_usage_object :: ustr where \<comment> \<open>usage is no object\<close>
  "txt_usage_object = [117, 115, 97, 103, 101, 32, 24517, 39035, 26159, 32, 111, 98, 106, 101, 99, 116]"

definition txt_recurring_needs :: ustr where \<comment> \<open>a recurring job needs both\<close>
  "txt_recurring_needs = [21608, 26399, 32, 67, 114, 111, 110, 32, 74, 111, 98, 32, 24517, 39035, 35774, 32622, 32,
     99, 114, 111, 110, 32, 19982, 32, 110, 101, 120, 116, 95, 114, 117, 110, 95, 97, 116]"

definition txt_once_no_cron :: ustr where \<comment> \<open>a single job has no expression\<close>
  "txt_once_no_cron = [19968, 27425, 24615, 32, 67, 114, 111, 110, 32, 74, 111, 98, 32, 19981, 33021, 35774,
     32622, 32, 99, 114, 111, 110]"

definition txt_job_fields :: ustr where \<comment> \<open>wrong fields\<close>
  "txt_job_fields = [67, 114, 111, 110, 32, 74, 111, 98, 32, 23383, 27573, 26080, 25928]"

definition txt_job_recurring :: ustr where \<comment> \<open>recurring is no truth value\<close>
  "txt_job_recurring = [67, 114, 111, 110, 32, 114, 101, 99, 117, 114, 114, 105, 110, 103, 32, 24517, 39035,
     26159, 32, 98, 111, 111, 108, 101, 97, 110]"

definition txt_job_strings :: ustr where \<comment> \<open>a field is no text\<close>
  "txt_job_strings = [67, 114, 111, 110, 32, 74, 111, 98, 32, 23383, 31526, 20018, 23383, 27573, 26080, 25928]"

definition txt_job_cron_type :: ustr where \<comment> \<open>the expression is no text\<close>
  "txt_job_cron_type = [67, 114, 111, 110, 32, 99, 114, 111, 110, 32, 24517, 39035, 26159, 32, 115, 116, 114, 105,
     110, 103, 32, 25110, 32, 110, 117, 108, 108]"

definition txt_job_next_type :: ustr where \<comment> \<open>the next run is no text\<close>
  "txt_job_next_type = [67, 114, 111, 110, 32, 110, 101, 120, 116, 95, 114, 117, 110, 95, 97, 116, 32, 24517,
     39035, 26159, 32, 115, 116, 114, 105, 110, 103, 32, 25110, 32, 110, 117, 108, 108]"

definition txt_job_channels :: ustr where \<comment> \<open>no channels\<close>
  "txt_job_channels = [67, 114, 111, 110, 32, 100, 101, 108, 105, 118, 101, 114, 121, 95, 99, 104, 97, 110, 110,
     101, 108, 115, 32, 24517, 39035, 26159, 38750, 31354, 23383, 31526, 20018, 25968, 32452]"

definition txt_aware_suffix :: ustr where \<comment> \<open>no UTC offset\<close>
  "txt_aware_suffix = [32, 24517, 39035, 21253, 21547, 32, 85, 84, 67, 32, 111, 102, 102, 115, 101, 116]"

section \<open>\<^verbatim>\<open>proactive/cron.py\<close>\<close>

definition txt_prompt_empty :: ustr where \<comment> \<open>no prompt\<close>
  "txt_prompt_empty = [112, 114, 111, 109, 112, 116, 32, 19981, 33021, 20026, 31354]"

definition txt_channels_empty :: ustr where \<comment> \<open>no channel\<close>
  "txt_channels_empty = [100, 101, 108, 105, 118, 101, 114, 121, 95, 99, 104, 97, 110, 110, 101, 108, 115, 32,
     33267, 23569, 38656, 35201, 19968, 20010, 38750, 31354, 32, 99, 104, 97, 110, 110, 101, 108]"

definition txt_recurring_cron :: ustr where \<comment> \<open>no expression\<close>
  "txt_recurring_cron = [21608, 26399, 32, 67, 114, 111, 110, 32, 74, 111, 98, 32, 24517, 39035, 35774, 32622, 32,
     99, 114, 111, 110]"

definition txt_recurring_next :: ustr where \<comment> \<open>a next run is given\<close>
  "txt_recurring_next = [21608, 26399, 32, 67, 114, 111, 110, 32, 74, 111, 98, 32, 19981, 33021, 35774, 32622, 32,
     110, 101, 120, 116, 95, 114, 117, 110, 95, 97, 116]"

definition txt_once_next :: ustr where \<comment> \<open>no next run\<close>
  "txt_once_next = [19968, 27425, 24615, 32, 67, 114, 111, 110, 32, 74, 111, 98, 32, 24517, 39035, 35774,
     32622, 32, 110, 101, 120, 116, 95, 114, 117, 110, 95, 97, 116]"

definition txt_once_offset :: ustr where \<comment> \<open>no UTC offset\<close>
  "txt_once_offset = [110, 101, 120, 116, 95, 114, 117, 110, 95, 97, 116, 32, 24517, 39035, 21253, 21547, 32,
     85, 84, 67, 32, 111, 102, 102, 115, 101, 116]"

definition txt_next_future :: ustr where \<comment> \<open>the next run is past\<close>
  "txt_next_future = [110, 101, 120, 116, 95, 114, 117, 110, 95, 97, 116, 32, 24517, 39035, 26202, 20110, 24403,
     21069, 26102, 38388]"

definition txt_job_missing :: ustr where \<comment> \<open>no such job\<close>
  "txt_job_missing = [67, 114, 111, 110, 32, 74, 111, 98, 32, 19981, 23384, 22312, 65306]"

definition txt_cron_task_failed :: ustr where \<comment> \<open>the task failed\<close>
  "txt_cron_task_failed = [21518, 21488, 20219, 21153, 25191, 34892, 22833, 36133]"

definition txt_cron_done :: ustr where \<comment> \<open>the task is done\<close>
  "txt_cron_done = [23450, 26102, 20219, 21153, 24050, 23436, 25104, 65306]"

definition txt_cron_task :: ustr where \<comment> \<open>scheduled task\<close>
  "txt_cron_task = [23450, 26102, 20219, 21153, 32]"

definition txt_cron_recovered :: ustr where \<comment> \<open>has recovered\<close>
  "txt_cron_recovered = [32, 24050, 24674, 22797, 12290]"

definition txt_cron_failed :: ustr where \<comment> \<open>has failed\<close>
  "txt_cron_failed = [32, 25191, 34892, 22833, 36133, 12290]"

definition txt_cron_file_fields :: ustr where \<comment> \<open>wrong fields\<close>
  "txt_cron_file_fields = [32, 23383, 27573, 26080, 25928]"

definition txt_cron_file_jobs :: ustr where \<comment> \<open>the jobs are no array\<close>
  "txt_cron_file_jobs = [32, 30340, 32, 106, 111, 98, 115, 32, 24517, 39035, 26159, 25968, 32452]"

definition txt_cron_file_usage :: ustr where \<comment> \<open>the usage is invalid\<close>
  "txt_cron_file_usage = [32, 30340, 32, 117, 115, 97, 103, 101, 32, 26080, 25928]"

definition txt_cron_file_twice :: ustr where \<comment> \<open>an identifier occurs twice\<close>
  "txt_cron_file_twice = [32, 21253, 21547, 37325, 22797, 32, 67, 114, 111, 110, 32, 74, 111, 98, 32, 73, 68]"

definition txt_delay_exclusive :: ustr where \<comment> \<open>a delay excludes the others\<close>
  "txt_delay_exclusive = [100, 101, 108, 97, 121, 95, 115, 101, 99, 111, 110, 100, 115, 32, 19981, 33021, 19982, 32,
     99, 114, 111, 110, 32, 25110, 32, 110, 101, 120, 116, 95, 114, 117, 110, 95, 97, 116, 32,
     21516, 26102, 35774, 32622]"

end
