(* ===== verification/CronSchedule.thy ===== *)
theory CronSchedule
  imports ToolSecurity CronTexts
begin

text \<open>
  Five-field cron expressions (\<^verbatim>\<open>proactive/scheduler.py\<close>): parsing, matching a local moment, and the search
  for the next moment that matches. An instant is the number of microseconds since the epoch; the offset
  of a time zone at an instant, the ISO form of an instant and the decimal digits outside ASCII are
  parameters, the calendar is computed.
\<close>

section \<open>The environment\<close>

text \<open>\<open>ce_reprint\<close> prints a parsed moment again with its own offset and without fractions of a second.\<close>

record cron_env =
  ce_isdigit :: "nat \<Rightarrow> bool"
  ce_decimal :: "nat \<Rightarrow> nat option"
  ce_int_error :: "ustr \<Rightarrow> ustr"
  ce_offset :: "ustr \<Rightarrow> int \<Rightarrow> int"
  ce_zone_error :: "ustr \<Rightarrow> exn option"
  ce_iso :: "ustr \<Rightarrow> int \<Rightarrow> ustr"
  ce_from_iso :: "ustr \<Rightarrow> exn + int option"
  ce_reprint :: "ustr \<Rightarrow> ustr"
  ce_utc_iso :: "int \<Rightarrow> ustr"
  ce_add_error :: "json \<Rightarrow> json \<Rightarrow> ustr"
  ce_seconds :: "real \<Rightarrow> exn + int"

section \<open>Parsing\<close>

record cron_spec =
  cs_minute :: "int set"
  cs_hour :: "int set"
  cs_day_of_month :: "int set"
  cs_month :: "int set"
  cs_day_of_week :: "int set"
  cs_any_day_of_month :: bool
  cs_any_day_of_week :: bool

definition field_specs :: "(ustr \<times> int \<times> int) list" where
  "field_specs = [(u ''minute'', 0, 59), (u ''hour'', 0, 23), (u ''day-of-month'', 1, 31), (u ''month'', 1, 12),
     (u ''day-of-week'', 0, 7)]"

text \<open>\<open>str.isdigit\<close> and \<open>int\<close> of such a text; some digits are no decimal digits.\<close>

definition is_digits :: "cron_env \<Rightarrow> ustr \<Rightarrow> bool" where
  "is_digits env t \<longleftrightarrow> t \<noteq> [] \<and> list_all (\<lambda>c. (48 \<le> c \<and> c \<le> 57) \<or> ce_isdigit env c) t"

definition decimal_value :: "cron_env \<Rightarrow> nat \<Rightarrow> nat option" where
  "decimal_value env c = (if 48 \<le> c \<and> c \<le> 57 then Some (c - 48) else ce_decimal env c)"

definition to_int :: "cron_env \<Rightarrow> ustr \<Rightarrow> exn + int" where
  "to_int env t =
     (if length t > 4300 \<or> list_ex (\<lambda>c. decimal_value env c = None) t then Inl (ValueError (ce_int_error env t))
      else Inr (int (fold (\<lambda>c n. 10 * n + the (decimal_value env c)) t 0)))"

definition parse_field_value :: "cron_env \<Rightarrow> ustr \<Rightarrow> ustr \<Rightarrow> int \<Rightarrow> int \<Rightarrow> exn + int" where
  "parse_field_value env t name lo hi =
     (if \<not> is_digits env t then Inl (ValueError (name @ txt_cron_format @ t))
      else bindE (to_int env t) (\<lambda>v.
        if v < lo \<or> hi < v then Inl (ValueError (name @ txt_cron_range @ show_int lo @ u ''-'' @ show_int hi)) else Inr v))"

text \<open>\<open>s.split(c, 1)\<close> where \<open>c\<close> occurs.\<close>

definition cut :: "nat \<Rightarrow> ustr \<Rightarrow> ustr \<times> ustr" where
  "cut c s = (takeWhile (\<lambda>x. x \<noteq> c) s, drop 1 (dropWhile (\<lambda>x. x \<noteq> c) s))"

definition split_step :: "cron_env \<Rightarrow> ustr \<Rightarrow> ustr \<Rightarrow> exn + ustr \<times> int" where
  "split_step env part name =
     (if 47 \<notin> set part then Inr (part, 1)
      else let (range_text, step_text) = cut 47 part in
        if \<not> is_digits env step_text then Inl (ValueError (name @ txt_cron_step))
        else bindE (to_int env step_text) (\<lambda>k.
          if k \<le> 0 then Inl (ValueError (name @ txt_cron_step)) else Inr (range_text, k)))"

text \<open>\<open>range(start, stop, step)\<close> for a positive step.\<close>

definition py_range :: "int \<Rightarrow> int \<Rightarrow> int \<Rightarrow> int list" where
  "py_range start stop k = map (\<lambda>i. start + int i * k) [0..<nat ((stop - start + k - 1) div k)]"

definition parse_part :: "cron_env \<Rightarrow> ustr \<Rightarrow> int \<Rightarrow> int \<Rightarrow> ustr \<Rightarrow> exn + int list" where
  "parse_part env name lo hi part =
     bindE (split_step env part name) (\<lambda>(range_text, k).
       if range_text = u ''*'' then Inr (py_range lo (hi + 1) k)
       else if 45 \<in> set range_text then
         (let (a, b) = cut 45 range_text in
          bindE (parse_field_value env a name lo hi) (\<lambda>start.
          bindE (parse_field_value env b name lo hi) (\<lambda>last.
            if last < start then Inl (ValueError (name @ txt_cron_order)) else Inr (py_range start (last + 1) k))))
       else bindE (parse_field_value env range_text name lo hi) (\<lambda>v.
         if k \<noteq> 1 then Inl (ValueError (name @ txt_cron_step_only)) else Inr [v]))"

definition parse_field :: "cron_env \<Rightarrow> ustr \<times> ustr \<times> int \<times> int \<Rightarrow> exn + int list" where
  "parse_field env x = (case x of (raw, name, lo, hi) \<Rightarrow>
     (if raw = [] then Inl (ValueError (name @ txt_cron_empty))
      else bindE (mapE (parse_part env name lo hi) (split_on 44 [] raw)) (\<lambda>vs. Inr (concat vs))))"

definition parse_cron :: "cron_env \<Rightarrow> ustr \<Rightarrow> exn + cron_spec" where
  "parse_cron env expression =
     (let fields = py_split (py_strip expression) in
      if length fields \<noteq> 5 then Inl (ValueError (txt_cron_fields @ dec (length fields)))
      else bindE (mapE (parse_field env) (zip fields field_specs)) (\<lambda>vs.
        Inr \<lparr>cs_minute = set (vs ! 0), cs_hour = set (vs ! 1), cs_day_of_month = set (vs ! 2), cs_month = set (vs ! 3),
             cs_day_of_week = set (map (\<lambda>v. if v = 7 then 0 else v) (vs ! 4)),
             cs_any_day_of_month = (fields ! 2 = u ''*''), cs_any_day_of_week = (fields ! 4 = u ''*'')\<rparr>))"

definition validate_cron :: "cron_env \<Rightarrow> ustr \<Rightarrow> exn + ustr option" where
  "validate_cron env expression = (case parse_cron env expression of
     Inl (ValueError t) \<Rightarrow> Inr (Some t) | Inl e \<Rightarrow> Inl e | Inr _ \<Rightarrow> Inr None)"

section \<open>Moments\<close>

text \<open>The local reading of an instant: minute, hour, day of the month, month and weekday from Monday.\<close>

record local_moment =
  lm_minute :: int
  lm_hour :: int
  lm_day :: int
  lm_month :: int
  lm_weekday :: int

text \<open>Month and day of a day of the proleptic Gregorian calendar, counted from the epoch.\<close>

definition month_and_day :: "int \<Rightarrow> int \<times> int" where
  "month_and_day days =
     (let d = (days + 719468) mod 146097;
          y = (d - d div 1460 + d div 36524 - d div 146096) div 365;
          n = d - (365 * y + y div 4 - y div 100);
          m = (5 * n + 2) div 153
      in (if m < 10 then m + 3 else m - 9, n - (153 * m + 2) div 5 + 1))"

definition local_of :: "cron_env \<Rightarrow> ustr \<Rightarrow> int \<Rightarrow> local_moment" where
  "local_of env zone t =
     (let minutes = (t + ce_offset env zone t) div 60000000; days = minutes div 1440; (m, d) = month_and_day days in
      \<lparr>lm_minute = minutes mod 60, lm_hour = minutes div 60 mod 24, lm_day = d, lm_month = m, lm_weekday = (days + 3) mod 7\<rparr>)"

definition cron_hit :: "cron_spec \<Rightarrow> local_moment \<Rightarrow> bool" where
  "cron_hit spec m =
     (if lm_minute m \<notin> cs_minute spec \<or> lm_hour m \<notin> cs_hour spec \<or> lm_month m \<notin> cs_month spec then False
      else
        (let dom = lm_day m \<in> cs_day_of_month spec; dow = (lm_weekday m + 1) mod 7 \<in> cs_day_of_week spec in
         if cs_any_day_of_month spec \<and> cs_any_day_of_week spec then True
         else if cs_any_day_of_month spec then dow
         else if cs_any_day_of_week spec then dom
         else dom \<or> dow))"

definition cron_matches :: "cron_env \<Rightarrow> ustr \<Rightarrow> local_moment \<Rightarrow> exn + bool" where
  "cron_matches env expression m = bindE (parse_cron env expression) (\<lambda>spec. Inr (cron_hit spec m))"

section \<open>The next moment\<close>

definition minute_us :: int where
  "minute_us = 60000000"

fun search_fire :: "cron_env \<Rightarrow> ustr \<Rightarrow> cron_spec \<Rightarrow> nat \<Rightarrow> int \<Rightarrow> int option" where
  "search_fire env zone spec 0 current = None"
| "search_fire env zone spec (Suc n) current =
     (if cron_hit spec (local_of env zone current) then Some current else search_fire env zone spec n (current + minute_us))"

definition horizon :: nat where
  "horizon = 366 * 24 * 60 * 2"

definition next_cron_fire :: "cron_env \<Rightarrow> ustr \<Rightarrow> ustr \<Rightarrow> int \<Rightarrow> exn + int" where
  "next_cron_fire env zone expression after =
     bindE (parse_cron env expression) (\<lambda>spec.
       case search_fire env zone spec horizon (after div minute_us * minute_us + minute_us) of
         Some t \<Rightarrow> Inr t | None \<Rightarrow> Inl (ValueError txt_cron_never))"

definition next_run_at_after_delay :: "cron_env \<Rightarrow> ustr \<Rightarrow> json \<Rightarrow> int \<Rightarrow> exn + ustr" where
  "next_run_at_after_delay env zone delay now =
     (case (case delay of JInt i \<Rightarrow> Some (real_of_int i) | JFloat r \<Rightarrow> Some r | _ \<Rightarrow> None) of
        None \<Rightarrow> Inl (ValueError txt_delay_number)
      | Some r \<Rightarrow>
          (if r \<le> 0 then Inl (ValueError txt_delay_positive)
           else bindE (ce_seconds env r) (\<lambda>us. Inr (ce_iso env zone (now + us)))))"

end
