(* ===== verification/CronJobs.thy ===== *)
theory CronJobs
  imports CronSchedule
begin

text \<open>
  Scheduled jobs: their snapshot (\<^verbatim>\<open>CronJob\<close> and \<^verbatim>\<open>UsageTotals\<close> of \<^verbatim>\<open>proactive/types.py\<close>) and the manager
  that keeps the next moment of each job, starts what is due and records what became of it
  (\<^verbatim>\<open>proactive/cron.py\<close>). The sections between two waits of a coroutine are operations of their own, so
  that they can be interleaved; the file of the manager is one JSON value a write may fail to replace.
\<close>

section \<open>Usage and jobs\<close>

record usage_totals =
  ut_calls :: int
  ut_input :: int
  ut_output :: int
  ut_total :: int

definition no_totals :: usage_totals where
  "no_totals = \<lparr>ut_calls = 0, ut_input = 0, ut_output = 0, ut_total = 0\<rparr>"

definition mk_totals :: "int \<Rightarrow> int \<Rightarrow> int \<Rightarrow> int \<Rightarrow> exn + usage_totals" where
  "mk_totals c i o' t = (if c < 0 \<or> i < 0 \<or> o' < 0 \<or> t < 0 then Inl (ValueError txt_usage_fields)
     else Inr \<lparr>ut_calls = c, ut_input = i, ut_output = o', ut_total = t\<rparr>)"

definition totals_add :: "usage_totals \<Rightarrow> llm_usage \<Rightarrow> exn + usage_totals" where
  "totals_add x us = mk_totals (ut_calls x + 1) (ut_input x + lu_input us) (ut_output x + lu_output us) (ut_total x + lu_total us)"

definition totals_json :: "usage_totals \<Rightarrow> json" where
  "totals_json x = JObj [(u ''calls'', JInt (ut_calls x)), (u ''input_tokens'', JInt (ut_input x)),
     (u ''output_tokens'', JInt (ut_output x)), (u ''total_tokens'', JInt (ut_total x))]"

text \<open>\<open>x + y\<close> of two values of a JSON file: numbers, texts or lists, otherwise it raises.\<close>

definition addable :: "json \<Rightarrow> json \<Rightarrow> bool" where
  "addable x y = (case (x, y) of
     (JStr _, JStr _) \<Rightarrow> True | (JArr _, JArr _) \<Rightarrow> True
   | _ \<Rightarrow> (let num = (\<lambda>v. case v of JInt _ \<Rightarrow> True | JFloat _ \<Rightarrow> True | JBool _ \<Rightarrow> True | _ \<Rightarrow> False) in num x \<and> num y))"

text \<open>\<open>UsageTotals.from_dict\<close>: a missing value has a default, and in the end each has to be an integer. The
  default of the total is computed even where it is not used.\<close>

definition totals_of_json :: "cron_env \<Rightarrow> json \<Rightarrow> exn + usage_totals" where
  "totals_of_json env j = (case j of
     JObj kvs \<Rightarrow>
       (let val = (\<lambda>k. case dict_get kvs (u k) of None \<Rightarrow> JInt 0 | Some v \<Rightarrow> v) in
        if \<not> addable (val ''input_tokens'') (val ''output_tokens'')
        then Inl (TypeError (ce_add_error env (val ''input_tokens'') (val ''output_tokens'')))
        else case (val ''calls'', val ''input_tokens'', val ''output_tokens'') of
          (JInt c, JInt i, JInt o') \<Rightarrow>
            (case dict_get kvs (u ''total_tokens'') of
               None \<Rightarrow> mk_totals c i o' (i + o')
             | Some (JInt t) \<Rightarrow> mk_totals c i o' t
             | Some _ \<Rightarrow> Inl (ValueError txt_usage_fields))
        | _ \<Rightarrow> Inl (ValueError txt_usage_fields))
   | _ \<Rightarrow> Inl (ValueError txt_usage_object))"

record cron_job =
  cj_id :: ustr
  cj_cron :: "ustr option"
  cj_created :: ustr
  cj_prompt :: ustr
  cj_recurring :: bool
  cj_channels :: "ustr list"
  cj_updated :: ustr
  cj_next :: "ustr option"

definition aware_iso :: "cron_env \<Rightarrow> ustr \<Rightarrow> exn + ustr" where
  "aware_iso env t = bindE (ce_from_iso env t) (\<lambda>x. case x of
     None \<Rightarrow> Inl (ValueError (u ''next_run_at'' @ txt_aware_suffix)) | Some _ \<Rightarrow> Inr (ce_reprint env t))"

text \<open>\<open>CronJob.__post_init__\<close>, which \<open>dataclasses.replace\<close> runs again.\<close>

definition mk_cron_job :: "cron_env \<Rightarrow> cron_job \<Rightarrow> exn + cron_job" where
  "mk_cron_job env j =
     bindE (if cj_recurring j then
              (case cj_cron j of
                 Some c \<Rightarrow> (if py_strip c = [] \<or> cj_next j = None then Inl (ValueError txt_recurring_needs)
                           else Inr (j\<lparr>cj_cron := Some (py_strip c)\<rparr>))
               | None \<Rightarrow> Inl (ValueError txt_recurring_needs))
            else if cj_cron j \<noteq> None then Inl (ValueError txt_once_no_cron) else Inr j) (\<lambda>j1.
       case cj_next j1 of
         None \<Rightarrow> Inr j1
       | Some t \<Rightarrow> bindE (aware_iso env t) (\<lambda>t'. Inr (j1\<lparr>cj_next := Some t'\<rparr>)))"

definition opt_json :: "ustr option \<Rightarrow> json" where
  "opt_json x = (case x of Some t \<Rightarrow> JStr t | None \<Rightarrow> JNull)"

definition job_json :: "cron_job \<Rightarrow> json" where
  "job_json j = JObj [(u ''id'', JStr (cj_id j)), (u ''cron'', opt_json (cj_cron j)), (u ''created_at'', JStr (cj_created j)),
     (u ''prompt'', JStr (cj_prompt j)), (u ''recurring'', JBool (cj_recurring j)),
     (u ''delivery_channels'', JArr (map JStr (cj_channels j))), (u ''updated_at'', JStr (cj_updated j)),
     (u ''next_run_at'', opt_json (cj_next j))]"

definition job_keys :: "ustr list" where
  "job_keys = map u [''id'', ''cron'', ''created_at'', ''prompt'', ''recurring'', ''delivery_channels'', ''updated_at'', ''next_run_at'']"

definition text_value :: "json \<Rightarrow> ustr option" where
  "text_value j = (case j of JStr t \<Rightarrow> Some t | _ \<Rightarrow> None)"

definition text_or_null :: "json \<Rightarrow> ustr option option" where
  "text_or_null j = (case j of JStr t \<Rightarrow> Some (Some t) | JNull \<Rightarrow> Some None | _ \<Rightarrow> None)"

definition channel_texts :: "json \<Rightarrow> ustr list option" where
  "channel_texts j = (case j of
     JArr xs \<Rightarrow> (if xs \<noteq> [] \<and> list_all (\<lambda>x. case x of JStr t \<Rightarrow> py_strip t \<noteq> [] | _ \<Rightarrow> False) xs
                then Some (map (\<lambda>x. case x of JStr t \<Rightarrow> t | _ \<Rightarrow> []) xs) else None)
   | _ \<Rightarrow> None)"

definition job_of_json :: "cron_env \<Rightarrow> (ustr, json) dict \<Rightarrow> exn + cron_job" where
  "job_of_json env p =
     (let get = (\<lambda>k. case dict_get p (u k) of Some v \<Rightarrow> v | None \<Rightarrow> JNull) in
      if set (map fst p) \<noteq> set job_keys then Inl (ValueError txt_job_fields)
      else case get ''recurring'' of
        JBool rec \<Rightarrow>
          (case (text_value (get ''id''), text_value (get ''created_at''), text_value (get ''prompt''), text_value (get ''updated_at'')) of
             (Some i, Some created, Some prompt, Some updated) \<Rightarrow>
               (case text_or_null (get ''cron'') of
                  None \<Rightarrow> Inl (ValueError txt_job_cron_type)
                | Some cron \<Rightarrow> (case text_or_null (get ''next_run_at'') of
                    None \<Rightarrow> Inl (ValueError txt_job_next_type)
                  | Some nxt \<Rightarrow> (case channel_texts (get ''delivery_channels'') of
                      None \<Rightarrow> Inl (ValueError txt_job_channels)
                    | Some channels \<Rightarrow> mk_cron_job env \<lparr>cj_id = i, cj_cron = cron, cj_created = created, cj_prompt = prompt,
                        cj_recurring = rec, cj_channels = channels, cj_updated = updated, cj_next = nxt\<rparr>)))
           | _ \<Rightarrow> Inl (ValueError txt_job_strings))
      | _ \<Rightarrow> Inl (ValueError txt_job_recurring))"

text \<open>\<open>next_job_fire\<close>: a job that runs once has no moment after its own.\<close>

definition next_job_fire :: "cron_env \<Rightarrow> ustr \<Rightarrow> cron_job \<Rightarrow> int \<Rightarrow> exn + int option" where
  "next_job_fire env zone j after =
     (if cj_recurring j then
        (case cj_cron j of
           None \<Rightarrow> Inl (ValueError txt_job_no_cron)
         | Some c \<Rightarrow> bindE (next_cron_fire env zone c after) (\<lambda>t. Inr (Some t)))
      else case cj_next j of
        None \<Rightarrow> Inr None
      | Some t \<Rightarrow> bindE (ce_from_iso env t) (\<lambda>x. case x of
          None \<Rightarrow> Inl (ValueError txt_next_offset)
        | Some s \<Rightarrow> Inr (if after < s then Some s else None)))"

section \<open>The manager\<close>

record cron_result =
  cx_success :: bool
  cx_content :: ustr
  cx_usage :: llm_usage

record cron_cfg =
  cc_env :: cron_env
  cc_path :: ustr
  cc_incidents :: bool

text \<open>The state of the manager. \<open>cd_started\<close> records the tasks it has created: the job, its scheduled moment and
  whether it recurs.

  What the manager asks of others: a result to publish, an incident to open, close or delete.\<close>

datatype cron_note =
    Published ustr ustr
  | Recovered ustr ustr
  | Failed_incident ustr ustr
  | Purged ustr

record cron_desk =
  cd_jobs :: "(ustr, cron_job) dict"
  cd_usage :: usage_totals
  cd_tasks :: "ustr list"
  cd_running :: "ustr list"
  cd_next :: "(ustr, int) dict"
  cd_deleting :: "ustr list"
  cd_zone :: ustr
  cd_file :: "json option"
  cd_clock :: "int tape"
  cd_uuids :: "ustr tape"
  cd_write_errors :: "exn option tape"
  cd_call_errors :: "exn option tape"
  cd_notes :: "cron_note list"
  cd_started :: "(ustr \<times> int \<times> bool) list"
  cd_wakeups :: nat

definition cron_now :: "(cron_desk, int) prog" where
  "cron_now d = (Inr (cd_clock d 0), d\<lparr>cd_clock := tape_tl (cd_clock d)\<rparr>)"

definition new_cron_id :: "(cron_desk, ustr) prog" where
  "new_cron_id d = (Inr (u ''cron_'' @ cd_uuids d 0), d\<lparr>cd_uuids := tape_tl (cd_uuids d)\<rparr>)"

definition wake :: "(cron_desk, unit) prog" where
  "wake = modify (\<lambda>d. d\<lparr>cd_wakeups := Suc (cd_wakeups d)\<rparr>)"

definition call_out :: "cron_note \<Rightarrow> (cron_desk, unit) prog" where
  "call_out n d = (case cd_call_errors d 0 of
     Some e \<Rightarrow> (Inl e, d\<lparr>cd_call_errors := tape_tl (cd_call_errors d)\<rparr>)
   | None \<Rightarrow> (Inr (), d\<lparr>cd_call_errors := tape_tl (cd_call_errors d), cd_notes := cd_notes d @ [n]\<rparr>))"

definition list_jobs :: "cron_desk \<Rightarrow> cron_job list" where
  "list_jobs d = sort_key (\<lambda>j. (cj_created j, cj_id j)) (map snd (cd_jobs d))"

definition snapshot_json :: "cron_desk \<Rightarrow> json" where
  "snapshot_json d = JObj [(u ''jobs'', JArr (map job_json (list_jobs d))), (u ''usage'', totals_json (cd_usage d))]"

definition save_cron_state :: "(cron_desk, unit) prog" where
  "save_cron_state d = (case cd_write_errors d 0 of
     Some e \<Rightarrow> (Inl e, d\<lparr>cd_write_errors := tape_tl (cd_write_errors d)\<rparr>)
   | None \<Rightarrow> (Inr (), d\<lparr>cd_write_errors := tape_tl (cd_write_errors d), cd_file := Some (snapshot_json d)\<rparr>))"

definition rows_of_json :: "json \<Rightarrow> (ustr, json) dict list option" where
  "rows_of_json j = (case j of
     JArr xs \<Rightarrow> (if list_all (\<lambda>x. case x of JObj _ \<Rightarrow> True | _ \<Rightarrow> False) xs
                then Some (map (\<lambda>x. case x of JObj kvs \<Rightarrow> kvs | _ \<Rightarrow> []) xs) else None)
   | _ \<Rightarrow> None)"

definition load_state :: "cron_cfg \<Rightarrow> json option \<Rightarrow> exn + (ustr, cron_job) dict \<times> usage_totals" where
  "load_state cfg file = (case file of
     None \<Rightarrow> Inr ([], no_totals)
   | Some (JObj p) \<Rightarrow>
       (if set (map fst p) \<noteq> {u ''jobs'', u ''usage''} then Inl (ValueError (cc_path cfg @ txt_cron_file_fields))
        else case rows_of_json (the (dict_get p (u ''jobs''))) of
          None \<Rightarrow> Inl (ValueError (cc_path cfg @ txt_cron_file_jobs))
        | Some rows \<Rightarrow>
            (let usage = the (dict_get p (u ''usage'')) in
             if \<not> (case usage of JObj kvs \<Rightarrow> set (map fst kvs) = set (map u [''calls'', ''input_tokens'', ''output_tokens'', ''total_tokens''])
                      | _ \<Rightarrow> False)
             then Inl (ValueError (cc_path cfg @ txt_cron_file_usage))
             else bindE (mapE (job_of_json (cc_env cfg)) rows) (\<lambda>jobs.
               if \<not> distinct (map cj_id jobs) then Inl (ValueError (cc_path cfg @ txt_cron_file_twice))
               else bindE (totals_of_json (cc_env cfg) usage) (\<lambda>t. Inr (map (\<lambda>j. (cj_id j, j)) jobs, t)))))
   | Some _ \<Rightarrow> Inl (ValueError (cc_path cfg @ txt_cron_file_fields)))"

definition get_job :: "ustr \<Rightarrow> (cron_desk, cron_job) prog" where
  "get_job i = seq (gets (\<lambda>d. dict_get (cd_jobs d) i)) (\<lambda>x. case x of
     Some j \<Rightarrow> ret j | None \<Rightarrow> raise (ValueError (txt_job_missing @ i)))"

definition runtime_state :: "ustr \<Rightarrow> (cron_desk, ustr) prog" where
  "runtime_state i = seq (get_job i) (\<lambda>_. gets (\<lambda>d.
     if i \<in> set (cd_running d) then u ''running'' else if i \<in> set (cd_tasks d) then u ''queued'' else u ''active''))"

definition cron_is_idle :: "cron_desk \<Rightarrow> bool" where
  "cron_is_idle d \<longleftrightarrow> cd_tasks d = []"

definition next_deadline :: "cron_desk \<Rightarrow> int option" where
  "next_deadline d = (case map snd (filter (\<lambda>(i, _). i \<notin> set (cd_deleting d)) (cd_next d)) of
     [] \<Rightarrow> None | t # ts \<Rightarrow> Some (fold min ts t))"

definition replace_job :: "cron_cfg \<Rightarrow> cron_job \<Rightarrow> int option \<Rightarrow> (cron_desk, unit) prog" where
  "replace_job cfg j deadline =
     seq (gets cd_zone) (\<lambda>zone.
     seq cron_now (\<lambda>now.
     seq (lift (mk_cron_job (cc_env cfg) (j\<lparr>cj_next := map_option (ce_iso (cc_env cfg) zone) deadline,
         cj_updated := ce_utc_iso (cc_env cfg) now\<rparr>))) (\<lambda>j'.
       modify (\<lambda>d. d\<lparr>cd_jobs := dict_put (cj_id j) j' (cd_jobs d)\<rparr>))))"

definition advance_deadline :: "cron_cfg \<Rightarrow> cron_job \<Rightarrow> int \<Rightarrow> (cron_desk, unit) prog" where
  "advance_deadline cfg j scheduled =
     (let drop_it = seq (modify (\<lambda>d. d\<lparr>cd_next := dict_del (cj_id j) (cd_next d)\<rparr>)) (\<lambda>_. replace_job cfg j None) in
      if \<not> cj_recurring j then drop_it
      else seq (gets cd_zone) (\<lambda>zone.
        seq (lift (next_job_fire (cc_env cfg) zone j scheduled)) (\<lambda>x. case x of
          None \<Rightarrow> drop_it
        | Some t \<Rightarrow> seq (modify (\<lambda>d. d\<lparr>cd_next := dict_put (cj_id j) t (cd_next d)\<rparr>)) (\<lambda>_. replace_job cfg j (Some t)))))"

text \<open>One job that is due: skipped while it is deleted, its next moment set, started unless it still runs.\<close>

definition due_job :: "cron_cfg \<Rightarrow> int \<times> ustr \<Rightarrow> (cron_desk, bool \<times> nat) prog" where
  "due_job cfg x = (case x of (scheduled, i) \<Rightarrow>
     seq (gets (\<lambda>d. (dict_get (cd_jobs d) i, i \<in> set (cd_deleting d)))) (\<lambda>(job, deleting). case job of
       None \<Rightarrow> seq (modify (\<lambda>d. d\<lparr>cd_next := dict_del i (cd_next d)\<rparr>)) (\<lambda>_. ret (True, 0))
     | Some j \<Rightarrow>
         (if deleting then ret (False, 0)
          else seq (advance_deadline cfg j scheduled) (\<lambda>_.
            seq (gets (\<lambda>d. i \<in> set (cd_tasks d))) (\<lambda>busy.
              if busy then ret (True, 0)
              else seq (modify (\<lambda>d. d\<lparr>cd_tasks := cd_tasks d @ [i], cd_started := cd_started d @ [(i, scheduled, cj_recurring j)]\<rparr>)) (\<lambda>_.
                ret (True, 1)))))))"

fun due_jobs :: "cron_cfg \<Rightarrow> (int \<times> ustr) list \<Rightarrow> (cron_desk, bool \<times> nat) prog" where
  "due_jobs cfg [] = ret (False, 0)"
| "due_jobs cfg (x # xs) = seq (due_job cfg x) (\<lambda>(c, n). seq (due_jobs cfg xs) (\<lambda>(c', n'). ret (c \<or> c', n + n')))"

definition due_list :: "cron_desk \<Rightarrow> int \<Rightarrow> (int \<times> ustr) list" where
  "due_list d moment = sort (map (\<lambda>(i, t). (t, i)) (filter (\<lambda>(_, t). t \<le> moment) (cd_next d)))"

definition run_due_at :: "cron_cfg \<Rightarrow> int \<Rightarrow> (cron_desk, nat) prog" where
  "run_due_at cfg moment =
     seq (gets (\<lambda>d. due_list d moment)) (\<lambda>due.
     seq (due_jobs cfg due) (\<lambda>(changed, created).
       if changed then seq save_cron_state (\<lambda>_. seq wake (\<lambda>_. ret created)) else ret created))"

definition run_due :: "cron_cfg \<Rightarrow> int option \<Rightarrow> (cron_desk, nat) prog" where
  "run_due cfg now = seq (case now of Some t \<Rightarrow> ret t | None \<Rightarrow> cron_now) (run_due_at cfg)"

fun rebuild_jobs :: "cron_cfg \<Rightarrow> int \<Rightarrow> bool \<Rightarrow> cron_job list \<Rightarrow> (cron_desk, bool) prog" where
  "rebuild_jobs cfg now persist [] = ret False"
| "rebuild_jobs cfg now persist (j # js) =
     seq (gets cd_zone) (\<lambda>zone.
     seq (lift (next_job_fire (cc_env cfg) zone j now)) (\<lambda>x.
     seq (case x of
         None \<Rightarrow> (if persist then seq (modify (\<lambda>d. d\<lparr>cd_jobs := dict_del (cj_id j) (cd_jobs d)\<rparr>)) (\<lambda>_. ret True) else ret False)
       | Some t \<Rightarrow> seq (modify (\<lambda>d. d\<lparr>cd_next := dict_put (cj_id j) t (cd_next d)\<rparr>)) (\<lambda>_.
           if cj_recurring j \<and> persist then seq (replace_job cfg j (Some t)) (\<lambda>_. ret True) else ret False)) (\<lambda>c.
     seq (rebuild_jobs cfg now persist js) (\<lambda>c'. ret (c \<or> c')))))"

definition rebuild_deadlines :: "cron_cfg \<Rightarrow> int \<Rightarrow> bool \<Rightarrow> (cron_desk, unit) prog" where
  "rebuild_deadlines cfg now persist =
     seq (modify (\<lambda>d. d\<lparr>cd_next := []\<rparr>)) (\<lambda>_.
     seq (gets (\<lambda>d. map snd (cd_jobs d))) (\<lambda>jobs.
     seq (rebuild_jobs cfg now persist jobs) (\<lambda>changed.
       if persist \<and> changed then save_cron_state else ret ())))"

definition read_state :: "cron_cfg \<Rightarrow> (cron_desk, unit) prog" where
  "read_state cfg = seq (gets cd_file) (\<lambda>file. seq (lift (load_state cfg file)) (\<lambda>(jobs, usage).
     modify (\<lambda>d. d\<lparr>cd_jobs := jobs, cd_usage := usage\<rparr>)))"

text \<open>A new process: what was in memory is gone, the file is read.\<close>

definition new_manager :: "cron_cfg \<Rightarrow> (cron_desk, unit) prog" where
  "new_manager cfg = seq (read_state cfg) (\<lambda>_.
     seq (modify (\<lambda>d. d\<lparr>cd_tasks := [], cd_running := [], cd_next := [], cd_deleting := []\<rparr>)) (\<lambda>_.
     seq cron_now (\<lambda>now. rebuild_deadlines cfg now False)))"

definition initialize_schedule :: "cron_cfg \<Rightarrow> int option \<Rightarrow> (cron_desk, unit) prog" where
  "initialize_schedule cfg now = seq (read_state cfg) (\<lambda>_.
     seq (case now of Some t \<Rightarrow> ret t | None \<Rightarrow> cron_now) (\<lambda>t.
     seq (rebuild_deadlines cfg t True) (\<lambda>_. wake)))"

definition update_timezone :: "cron_cfg \<Rightarrow> ustr \<Rightarrow> (cron_desk, unit) prog" where
  "update_timezone cfg name = seq (lift (case ce_zone_error (cc_env cfg) name of Some e \<Rightarrow> Inl e | None \<Rightarrow> Inr ())) (\<lambda>_.
     seq (modify (\<lambda>d. d\<lparr>cd_zone := name\<rparr>)) (\<lambda>_.
     seq cron_now (\<lambda>now. seq (rebuild_deadlines cfg now True) (\<lambda>_. wake))))"

text \<open>The plan of a new job: its first moment and the text kept for it.\<close>

definition plan_job :: "cron_env \<Rightarrow> ustr \<Rightarrow> int \<Rightarrow> bool \<Rightarrow> ustr option \<Rightarrow> ustr option \<Rightarrow> exn + int \<times> ustr" where
  "plan_job env zone now rec cron next_text =
     (if rec then
        (case cron of
           None \<Rightarrow> Inl (ValueError txt_recurring_cron)
         | Some c \<Rightarrow> bindE (validate_cron env c) (\<lambda>err.
             if truthy err then Inl (ValueError (the err))
             else if next_text \<noteq> None then Inl (ValueError txt_recurring_next)
             else bindE (next_cron_fire env zone c now) (\<lambda>t. Inr (t, ce_iso env zone t))))
      else
        (case next_text of
           None \<Rightarrow> Inl (ValueError txt_once_next)
         | Some t \<Rightarrow> bindE (ce_from_iso env t) (\<lambda>x. case x of
             None \<Rightarrow> Inl (ValueError txt_once_offset)
           | Some s \<Rightarrow> (if s \<le> now then Inl (ValueError txt_next_future) else Inr (s, t)))))"

definition create_job ::
  "cron_cfg \<Rightarrow> ustr \<Rightarrow> bool \<Rightarrow> ustr option \<Rightarrow> ustr option \<Rightarrow> ustr list \<Rightarrow> (cron_desk, cron_job) prog" where
  "create_job cfg raw_prompt rec cron next_text channels =
     (let prompt = py_strip raw_prompt; chans = map py_strip (if channels = [] then [u ''all''] else channels) in
      if prompt = [] then raise (ValueError txt_prompt_empty)
      else if list_ex (\<lambda>c. c = []) chans then raise (ValueError txt_channels_empty)
      else seq cron_now (\<lambda>now. seq (gets cd_zone) (\<lambda>zone.
        seq (lift (plan_job (cc_env cfg) zone now rec cron next_text)) (\<lambda>(deadline, t).
        seq new_cron_id (\<lambda>i.
        seq (lift (mk_cron_job (cc_env cfg) \<lparr>cj_id = i, cj_cron = cron, cj_created = ce_utc_iso (cc_env cfg) now, cj_prompt = prompt,
            cj_recurring = rec, cj_channels = chans, cj_updated = ce_utc_iso (cc_env cfg) now, cj_next = Some t\<rparr>)) (\<lambda>j.
        seq (modify (\<lambda>d. d\<lparr>cd_jobs := dict_put i j (cd_jobs d), cd_next := dict_put i deadline (cd_next d)\<rparr>)) (\<lambda>_.
        seq save_cron_state (\<lambda>_. seq wake (\<lambda>_. ret j)))))))))"

section \<open>The task of a job\<close>

definition mark_running :: "ustr \<Rightarrow> (cron_desk, unit) prog" where
  "mark_running i = seq (gets (\<lambda>d. i \<in> set (cd_deleting d) \<or> dict_get (cd_jobs d) i = None)) (\<lambda>gone.
     if gone then raise CancelledError else modify (\<lambda>d. d\<lparr>cd_running := List.insert i (cd_running d)\<rparr>))"

definition remove_job :: "ustr \<Rightarrow> (cron_desk, unit) prog" where
  "remove_job i = modify (\<lambda>d. d\<lparr>cd_jobs := dict_del i (cd_jobs d), cd_next := dict_del i (cd_next d)\<rparr>)"

definition cancel_job :: "ustr \<Rightarrow> (cron_desk, unit) prog" where
  "cancel_job i = seq (gets (\<lambda>d. (i \<in> set (cd_deleting d), dict_get (cd_jobs d) i))) (\<lambda>(deleting, job).
     if deleting then ret ()
     else case job of
       None \<Rightarrow> ret ()
     | Some j \<Rightarrow> (if cj_recurring j then ret () else seq (remove_job i) (\<lambda>_. save_cron_state)))"

definition cron_fingerprint :: "ustr \<Rightarrow> ustr" where
  "cron_fingerprint i = u ''proactive:cron:'' @ i"

definition finish_job :: "cron_cfg \<Rightarrow> ustr \<Rightarrow> cron_result \<Rightarrow> (cron_desk, unit) prog" where
  "finish_job cfg i r = seq (gets (\<lambda>d. (i \<in> set (cd_deleting d), dict_get (cd_jobs d) i))) (\<lambda>(deleting, job). case job of
     None \<Rightarrow> ret ()
   | Some j \<Rightarrow>
       (if deleting then ret ()
        else seq (gets cd_usage) (\<lambda>us. seq (lift (totals_add us (cx_usage r))) (\<lambda>us'.
          seq (modify (\<lambda>d. d\<lparr>cd_usage := us'\<rparr>)) (\<lambda>_.
          seq (if cj_recurring j then ret () else remove_job i) (\<lambda>_.
          seq save_cron_state (\<lambda>_.
          (if cx_success r then
             seq (call_out (Published (txt_cron_done @ cx_content r) (cj_id j))) (\<lambda>_.
               if cc_incidents cfg then call_out (Recovered (cron_fingerprint (cj_id j)) (txt_cron_task @ cj_id j @ txt_cron_recovered)) else ret ())
           else if cc_incidents cfg then
             call_out (Failed_incident (cron_fingerprint (cj_id j)) (txt_cron_task @ cj_id j @ txt_cron_failed))
           else ret ()))))))))"

text \<open>The start of a task, up to the wait for the executor, and its end: the executor gave a result,
  failed, or the task was cancelled. In the end the task is gone.\<close>

definition job_start :: "ustr \<Rightarrow> (cron_desk, unit) prog" where
  "job_start i = seq (get_job i) (\<lambda>_. mark_running i)"

definition task_gone :: "ustr \<Rightarrow> cron_desk \<Rightarrow> cron_desk" where
  "task_gone i d = d\<lparr>cd_tasks := removeAll i (cd_tasks d), cd_running := removeAll i (cd_running d), cd_wakeups := Suc (cd_wakeups d)\<rparr>"

definition failed_task :: cron_result where
  "failed_task = \<lparr>cx_success = False, cx_content = [], cx_usage = no_usage\<rparr>"

definition job_exit :: "cron_cfg \<Rightarrow> ustr \<Rightarrow> exn + cron_result \<Rightarrow> (cron_desk, unit) prog" where
  "job_exit cfg i outcome =
     ensuring
       (catch
         (seq (case outcome of
             Inr r \<Rightarrow> ret r
           | Inl e \<Rightarrow> (if is_exception e then ret failed_task else raise e)) (\<lambda>r. finish_job cfg i r))
         (\<lambda>e. if e = CancelledError then seq (cancel_job i) (\<lambda>_. raise e) else raise e))
       (task_gone i)"

text \<open>The whole task when nothing else happens in between.\<close>

definition run_job :: "cron_cfg \<Rightarrow> ustr \<Rightarrow> exn + cron_result \<Rightarrow> (cron_desk, unit) prog" where
  "run_job cfg i outcome = (\<lambda>d. case job_start i d of
     (Inr _, d1) \<Rightarrow> job_exit cfg i outcome d1
   | (Inl e, d1) \<Rightarrow> (if e = CancelledError then job_exit cfg i (Inl e) d1 else (Inl e, task_gone i d1)))"

section \<open>Deleting a job\<close>

definition delete_begin :: "ustr \<Rightarrow> (cron_desk, cron_job) prog" where
  "delete_begin i = seq (get_job i) (\<lambda>j. seq (modify (\<lambda>d. d\<lparr>cd_deleting := List.insert i (cd_deleting d)\<rparr>)) (\<lambda>_. ret j))"

definition delete_end :: "cron_cfg \<Rightarrow> ustr \<Rightarrow> (cron_desk, unit) prog" where
  "delete_end cfg i =
     catch
       (seq (if cc_incidents cfg then call_out (Purged (cron_fingerprint i)) else ret ()) (\<lambda>_.
        seq (modify (\<lambda>d. d\<lparr>cd_jobs := dict_del i (cd_jobs d), cd_next := dict_del i (cd_next d),
          cd_tasks := removeAll i (cd_tasks d), cd_running := removeAll i (cd_running d)\<rparr>)) (\<lambda>_.
        seq save_cron_state (\<lambda>_.
        seq (modify (\<lambda>d. d\<lparr>cd_deleting := removeAll i (cd_deleting d)\<rparr>)) (\<lambda>_. wake)))))
       (\<lambda>e. seq (modify (\<lambda>d. d\<lparr>cd_deleting := removeAll i (cd_deleting d)\<rparr>)) (\<lambda>_. seq wake (\<lambda>_. raise e)))"

definition cancel_task :: "cron_cfg \<Rightarrow> ustr \<Rightarrow> cron_desk \<Rightarrow> cron_desk" where
  "cancel_task cfg i d = (if i \<in> set (cd_tasks d) then snd (job_exit cfg i (Inl CancelledError) d) else d)"

definition delete_job :: "cron_cfg \<Rightarrow> ustr \<Rightarrow> (cron_desk, cron_job) prog" where
  "delete_job cfg i = seq (delete_begin i) (\<lambda>j. seq (modify (cancel_task cfg i)) (\<lambda>_. seq (delete_end cfg i) (\<lambda>_. ret j)))"

definition close_manager :: "cron_cfg \<Rightarrow> (cron_desk, unit) prog" where
  "close_manager cfg = modify (\<lambda>d. fold (cancel_task cfg) (cd_tasks d) d)"

end
