(* ===== verification/CronProps.thy ===== *)
theory CronProps
  imports CronJobs
begin

text \<open>
  What is proved of the scheduler: the values of a parsed expression, the search for the next moment, the
  snapshot of the jobs, and what a job without a next moment does to the others.
\<close>

section \<open>Parsed expressions\<close>

lemma le_div_int: "0 < k \<Longrightarrow> m \<le> n div k \<longleftrightarrow> m * k \<le> n" for m n k :: int
proof
  assume "0 < k" and "m \<le> n div k"
  then have "m * k \<le> n div k * k" by (intro mult_right_mono) auto
  also have "\<dots> \<le> n" using div_mult_mod_eq [of n k] pos_mod_sign [of k n] \<open>0 < k\<close> by linarith
  finally show "m * k \<le> n" .
next
  assume k: "0 < k" and mk: "m * k \<le> n"
  show "m \<le> n div k"
  proof (rule ccontr)
    assume "\<not> m \<le> n div k"
    then have "(n div k + 1) * k \<le> m * k" using k by (intro mult_right_mono) auto
    then have "n div k * k + k \<le> n" using mk by (simp add: distrib_right)
    then show False using div_mult_mod_eq [of n k] pos_mod_bound [OF k, of n] by linarith
  qed
qed

lemma mem_py_range:
  assumes "0 < k"
  shows "v \<in> set (py_range a b k) \<longleftrightarrow> a \<le> v \<and> v < b \<and> k dvd v - a"
proof
  assume "v \<in> set (py_range a b k)"
  then obtain i where i: "v = a + int i * k" and "i \<in> set [0..<nat ((b - a + k - 1) div k)]"
    unfolding py_range_def set_map by (elim imageE)
  then have "int i + 1 \<le> (b - a + k - 1) div k" by auto
  then have "(int i + 1) * k \<le> b - a + k - 1" using assms by (simp add: le_div_int)
  then show "a \<le> v \<and> v < b \<and> k dvd v - a" using i assms by (simp add: algebra_simps)
next
  assume v: "a \<le> v \<and> v < b \<and> k dvd v - a"
  then obtain m where m: "v - a = k * m" by (auto elim: dvdE)
  with v assms have "0 \<le> m" by (metis diff_ge_0_iff_ge zero_le_mult_iff not_less)
  have "(m + 1) * k \<le> b - a + k - 1" using v m by (simp add: algebra_simps)
  then have "m + 1 \<le> (b - a + k - 1) div k" using assms by (simp add: le_div_int)
  then show "v \<in> set (py_range a b k)" using m \<open>0 \<le> m\<close>
    by (auto simp: py_range_def image_iff algebra_simps intro!: bexI [of _ "nat m"])
qed

lemma parse_field_value_range: "parse_field_value env t name lo hi = Inr v \<Longrightarrow> lo \<le> v \<and> v \<le> hi"
  by (auto simp: parse_field_value_def bindE_eq_Inr split: if_splits)

lemma split_step_positive: "split_step env part name = Inr (r, k) \<Longrightarrow> 0 < k"
  by (auto simp: split_step_def Let_def bindE_eq_Inr split: if_splits prod.splits)

text \<open>The values of one part, of one field and of all fields.\<close>

definition values_ok :: "int \<Rightarrow> int \<Rightarrow> int list \<Rightarrow> bool" where
  "values_ok lo hi vs \<longleftrightarrow> vs \<noteq> [] \<and> (\<forall>v \<in> set vs. lo \<le> v \<and> v \<le> hi)"

lemma values_range: "0 < k \<Longrightarrow> lo \<le> a \<Longrightarrow> a \<le> b \<Longrightarrow> b \<le> hi \<Longrightarrow> values_ok lo hi (py_range a (b + 1) k)"
  using mem_py_range [of k _ a "b + 1"] mem_py_range [of k a a "b + 1"] unfolding values_ok_def by fastforce

lemma parse_part_values:
  assumes "parse_part env name lo hi part = Inr vs" and "lo \<le> hi"
  shows "values_ok lo hi vs"
proof -
  obtain r k where split: "split_step env part name = Inr (r, k)"
    and rest: "(if r = u ''*'' then Inr (py_range lo (hi + 1) k)
       else if 45 \<in> set r then
         (let (a, b) = cut 45 r in
          bindE (parse_field_value env a name lo hi) (\<lambda>start.
          bindE (parse_field_value env b name lo hi) (\<lambda>last.
            if last < start then Inl (ValueError (name @ txt_cron_order)) else Inr (py_range start (last + 1) k))))
       else bindE (parse_field_value env r name lo hi) (\<lambda>v.
         if k \<noteq> 1 then Inl (ValueError (name @ txt_cron_step_only)) else Inr [v])) = Inr vs"
    using assms(1) by (auto simp: parse_part_def bindE_eq_Inr)
  note k = split_step_positive [OF split]
  show ?thesis
    using rest assms(2) k
    by (auto simp: Let_def bindE_eq_Inr values_ok_def [of lo hi "[_]"] not_less split: if_splits prod.splits
        intro!: values_range dest!: parse_field_value_range)
qed

lemma split_on_nonempty: "split_on sep cur s \<noteq> []"
  by (induction s arbitrary: cur) auto

lemma parse_field_values:
  assumes "parse_field env (raw, name, lo, hi) = Inr vs" and "lo \<le> hi"
  shows "values_ok lo hi vs"
proof -
  obtain vss where parts: "list_all2 (\<lambda>part vs. parse_part env name lo hi part = Inr vs) (split_on 44 [] raw) vss"
    and vs: "vs = concat vss" using assms(1) by (auto simp: parse_field_def bindE_eq_Inr mapE_Inr split: if_splits)
  have each: "\<forall>vs \<in> set vss. values_ok lo hi vs"
  proof
    fix vs assume "vs \<in> set vss"
    then obtain part where "parse_part env name lo hi part = Inr vs"
      using parts by (auto simp: list_all2_conv_all_nth in_set_conv_nth)
    then show "values_ok lo hi vs" using assms(2) by (rule parse_part_values)
  qed
  have "vss \<noteq> []" using parts split_on_nonempty [of 44 "[]" raw] by auto
  then obtain x where "x \<in> set vss" by (cases vss) auto
  then have "concat vss \<noteq> []" using each by (auto simp: values_ok_def)
  then show ?thesis using each vs by (auto simp: values_ok_def)
qed

definition spec_ok :: "cron_spec \<Rightarrow> bool" where
  "spec_ok s \<longleftrightarrow> (\<forall>(vs, lo, hi) \<in> {(cs_minute s, 0, 59), (cs_hour s, 0, 23), (cs_day_of_month s, 1, 31), (cs_month s, 1, 12),
     (cs_day_of_week s, 0, 6)}. vs \<noteq> {} \<and> finite vs \<and> vs \<subseteq> {lo..hi})"

text \<open>C33: Every cron expression that is accepted has, in each of its five fields, at least one value and only values
  of that field's range; Sunday is 0 however it was written.\<close>

theorem accepted_cron_is_typed:
  assumes "parse_cron env expression = Inr spec"
  shows "spec_ok spec"
proof -
  let ?fields = "py_split (py_strip expression)"
  from assms obtain vs where len: "length ?fields = 5" and vs: "mapE (parse_field env) (zip ?fields field_specs) = Inr vs"
    and spec: "spec = \<lparr>cs_minute = set (vs ! 0), cs_hour = set (vs ! 1), cs_day_of_month = set (vs ! 2), cs_month = set (vs ! 3),
             cs_day_of_week = set (map (\<lambda>v. if v = 7 then 0 else v) (vs ! 4)),
             cs_any_day_of_month = (?fields ! 2 = u ''*''), cs_any_day_of_week = (?fields ! 4 = u ''*'')\<rparr>"
    by (auto simp: parse_cron_def Let_def bindE_eq_Inr split: if_splits)
  have "values_ok (fst (snd (field_specs ! i))) (snd (snd (field_specs ! i))) (vs ! i)" if "i < 5" for i
  proof -
    have "parse_field env (?fields ! i, field_specs ! i) = Inr (vs ! i)"
      using vs len that by (auto simp: mapE_Inr list_all2_conv_all_nth field_specs_def)
    moreover have "fst (snd (field_specs ! i)) \<le> snd (snd (field_specs ! i))"
      using that by (auto simp: field_specs_def nth_Cons eval_nat_numeral less_Suc_eq)
    ultimately show ?thesis by (metis parse_field_values prod.collapse)
  qed
  note each = this
  have ok: "values_ok 0 59 (vs ! 0)" "values_ok 0 23 (vs ! 1)" "values_ok 1 31 (vs ! 2)" "values_ok 1 12 (vs ! 3)" "values_ok 0 7 (vs ! 4)"
    using each [of 0] each [of 1] each [of 2] each [of 3] each [of 4] by (simp_all add: field_specs_def)
  define days where "days = set (map (\<lambda>v. if v = 7 then 0 else v) (vs ! 4))"
  have "0 \<le> (if v = 7 then 0 else v) \<and> (if v = 7 then 0 else v) \<le> 6" if "v \<in> set (vs ! 4)" for v
    using ok(5) that by (fastforce simp: values_ok_def)
  then have "\<forall>v \<in> days. 0 \<le> v \<and> v \<le> 6" unfolding days_def set_map by blast
  moreover have "days \<noteq> {}" using ok(5) unfolding days_def set_map image_is_empty set_empty by (simp add: values_ok_def)
  moreover have "finite days" by (simp add: days_def)
  ultimately show ?thesis using ok(1-4) unfolding spec spec_ok_def days_def [symmetric] by (auto simp: values_ok_def)
qed

section \<open>The next moment\<close>

lemma search_fire_Some:
  "search_fire env zone spec n current = Some t \<Longrightarrow>
     \<exists>m < n. t = current + int m * minute_us \<and> cron_hit spec (local_of env zone t)
       \<and> (\<forall>j < m. \<not> cron_hit spec (local_of env zone (current + int j * minute_us)))"
proof (induction n arbitrary: current)
  case (Suc n)
  show ?case
  proof (cases "cron_hit spec (local_of env zone current)")
    case True
    then show ?thesis using Suc.prems by (intro exI [of _ 0]) simp
  next
    case False
    with Suc.prems have "search_fire env zone spec n (current + minute_us) = Some t" by simp
    from Suc.IH [OF this] obtain m where m: "m < n" "t = current + minute_us + int m * minute_us"
      "cron_hit spec (local_of env zone t)"
      "\<forall>j < m. \<not> cron_hit spec (local_of env zone (current + minute_us + int j * minute_us))" by blast
    have "\<not> cron_hit spec (local_of env zone (current + int j * minute_us))" if "j < Suc m" for j
      using that False m(4) by (cases j) (auto simp: algebra_simps)
    then show ?thesis using m by (intro exI [of _ "Suc m"]) (simp add: algebra_simps)
  qed
qed simp

lemma search_fire_None:
  "search_fire env zone spec n current = None \<longleftrightarrow> (\<forall>j < n. \<not> cron_hit spec (local_of env zone (current + int j * minute_us)))"
proof (induction n arbitrary: current)
  case (Suc n)
  have "(\<forall>j < Suc n. P j) \<longleftrightarrow> P 0 \<and> (\<forall>j < n. P (Suc j))" for P :: "nat \<Rightarrow> bool" by (auto simp: less_Suc_eq_0_disj)
  then show ?case by (simp add: Suc.IH algebra_simps)
qed simp

lemma minute_us_pos [simp]: "0 < minute_us"
  by (simp add: minute_us_def)

lemma next_minute: "after < after div minute_us * minute_us + minute_us" "after div minute_us * minute_us + minute_us \<le> after + minute_us"
  using div_mult_mod_eq [of after minute_us] pos_mod_bound [OF minute_us_pos, of after] pos_mod_sign [OF minute_us_pos, of after] by linarith+

lemma minutes_after:
  assumes "after < s" and "minute_us dvd s"
  shows "\<exists>j. s = after div minute_us * minute_us + minute_us + int j * minute_us"
proof -
  obtain q where q: "s = minute_us * q" using assms(2) by (auto elim: dvdE)
  have "after div minute_us < q"
    using assms(1) le_div_int [OF minute_us_pos, of q after] by (simp add: q mult.commute not_le [symmetric])
  then show ?thesis by (intro exI [of _ "nat (q - after div minute_us - 1)"]) (simp add: q algebra_simps)
qed

text \<open>C34: The next moment of an expression is the first full minute after the given instant that matches, in local
  time; there is an error only if none of the minutes of two years does.\<close>

theorem next_fire_is_first_match:
  "case next_cron_fire env zone expression after of
     Inr t \<Rightarrow> after < t \<and> t \<le> after + int horizon * minute_us \<and> minute_us dvd t
       \<and> cron_matches env expression (local_of env zone t) = Inr True
       \<and> (\<forall>s \<in> {after<..<t}. minute_us dvd s \<longrightarrow> cron_matches env expression (local_of env zone s) = Inr False)
   | Inl e \<Rightarrow> parse_cron env expression = Inl e
       \<or> (\<forall>s \<in> {after<..after + int horizon * minute_us}. minute_us dvd s \<longrightarrow> cron_matches env expression (local_of env zone s) = Inr False)"
proof (cases "parse_cron env expression")
  case (Inl e)
  then show ?thesis by (simp add: next_cron_fire_def)
next
  case (Inr spec)
  let ?start = "after div minute_us * minute_us + minute_us"
  note start = next_minute [of after] and aligned = minutes_after [of after]
  show ?thesis
  proof (cases "search_fire env zone spec horizon ?start")
    case None
    then have never: "\<And>j. j < horizon \<Longrightarrow> \<not> cron_hit spec (local_of env zone (?start + int j * minute_us))"
      by (simp add: search_fire_None)
    have "cron_matches env expression (local_of env zone s) = Inr False"
      if s: "after < s" "s \<le> after + int horizon * minute_us" "minute_us dvd s" for s
    proof -
      obtain j where j: "s = ?start + int j * minute_us" using aligned [OF s(1,3)] by blast
      have "int j * minute_us < int horizon * minute_us" using s(2) start(1) j by linarith
      then have "j < horizon" by simp
      then show ?thesis using never [of j] j Inr by (simp add: cron_matches_def)
    qed
    then show ?thesis using None Inr by (simp add: next_cron_fire_def)
  next
    case (Some t)
    from search_fire_Some [OF this] obtain m where m: "m < horizon" "t = ?start + int m * minute_us"
      "cron_hit spec (local_of env zone t)"
      and first: "\<And>j. j < m \<Longrightarrow> \<not> cron_hit spec (local_of env zone (?start + int j * minute_us))" by blast
    have "int m * minute_us + minute_us \<le> int horizon * minute_us"
      using mult_right_mono [of "int m + 1" "int horizon" minute_us] m(1) less_imp_le [OF minute_us_pos] by (simp add: algebra_simps)
    then have bounds: "after < t" "t \<le> after + int horizon * minute_us"
      using start m(2) mult_nonneg_nonneg [OF of_nat_0_le_iff less_imp_le [OF minute_us_pos], of m] by linarith+
    have "cron_matches env expression (local_of env zone s) = Inr False" if s: "after < s" "s < t" "minute_us dvd s" for s
    proof -
      obtain j where j: "s = ?start + int j * minute_us" using aligned [OF s(1,3)] by blast
      then have "j < m" using s(2) m(2) by simp
      then show ?thesis using first [of j] j Inr by (simp add: cron_matches_def)
    qed
    moreover have "minute_us dvd t" using m(2) by simp
    ultimately show ?thesis using Some Inr bounds m(3) by (simp add: next_cron_fire_def cron_matches_def)
  qed
qed

section \<open>The snapshot\<close>

text \<open>A job as \<open>__post_init__\<close> leaves it, with the texts the manager writes.\<close>

definition job_ok :: "cron_env \<Rightarrow> cron_job \<Rightarrow> bool" where
  "job_ok env j \<longleftrightarrow> mk_cron_job env j = Inr j \<and> cj_channels j \<noteq> [] \<and> (\<forall>c \<in> set (cj_channels j). py_strip c \<noteq> [])"

lemma opt_json_read [simp]: "text_or_null (opt_json x) = Some x"
  by (cases x) (simp_all add: opt_json_def text_or_null_def)

lemma job_json_get:
  "job_json j = JObj p \<Longrightarrow> set (map fst p) = set job_keys
     \<and> dict_get p (u ''id'') = Some (JStr (cj_id j)) \<and> dict_get p (u ''cron'') = Some (opt_json (cj_cron j))
     \<and> dict_get p (u ''created_at'') = Some (JStr (cj_created j)) \<and> dict_get p (u ''prompt'') = Some (JStr (cj_prompt j))
     \<and> dict_get p (u ''recurring'') = Some (JBool (cj_recurring j))
     \<and> dict_get p (u ''delivery_channels'') = Some (JArr (map JStr (cj_channels j)))
     \<and> dict_get p (u ''updated_at'') = Some (JStr (cj_updated j)) \<and> dict_get p (u ''next_run_at'') = Some (opt_json (cj_next j))"
  by (auto simp: job_json_def job_keys_def dict_get_def)

lemma job_read_back:
  assumes "cj_channels j \<noteq> []" and "\<forall>c \<in> set (cj_channels j). py_strip c \<noteq> []"
  shows "\<exists>p. job_json j = JObj p \<and> job_of_json env p = mk_cron_job env j"
proof -
  obtain p where p: "job_json j = JObj p" by (simp add: job_json_def)
  note g = job_json_get [OF p]
  have "channel_texts (JArr (map JStr (cj_channels j))) = Some (cj_channels j)"
    using assms by (auto simp: channel_texts_def list_all_iff comp_def)
  then have "job_of_json env p = mk_cron_job env \<lparr>cj_id = cj_id j, cj_cron = cj_cron j, cj_created = cj_created j, cj_prompt = cj_prompt j,
      cj_recurring = cj_recurring j, cj_channels = cj_channels j, cj_updated = cj_updated j, cj_next = cj_next j\<rparr>"
    using g by (simp add: job_of_json_def Let_def text_value_def)
  also have "\<dots> = mk_cron_job env j" by (rule arg_cong [of _ _ "mk_cron_job env"]) (cases j, simp)
  finally show ?thesis using p by blast
qed

definition totals_ok :: "usage_totals \<Rightarrow> bool" where
  "totals_ok x \<longleftrightarrow> 0 \<le> ut_calls x \<and> 0 \<le> ut_input x \<and> 0 \<le> ut_output x \<and> 0 \<le> ut_total x"

lemma totals_read_back: "totals_ok x \<Longrightarrow> totals_of_json env (totals_json x) = Inr x"
  by (simp add: totals_json_def totals_of_json_def totals_ok_def mk_totals_def addable_def dict_get_def Let_def)

lemma rows_read: "rows_of_json (JArr (map job_json js)) = Some (map (\<lambda>j. case job_json j of JObj p \<Rightarrow> p | _ \<Rightarrow> []) js)"
  by (induction js) (auto simp: rows_of_json_def job_json_def list_all_iff)

text \<open>What the file of a snapshot is read as: each job as its \<open>__post_init__\<close> leaves it, or an error.\<close>

lemma load_snapshot:
  assumes "\<forall>j \<in> set (map snd (cd_jobs d)). cj_channels j \<noteq> [] \<and> (\<forall>c \<in> set (cj_channels j). py_strip c \<noteq> [])"
  shows "load_state cfg (Some (snapshot_json d)) = bindE (mapE (mk_cron_job (cc_env cfg)) (list_jobs d)) (\<lambda>jobs.
     if \<not> distinct (map cj_id jobs) then Inl (ValueError (cc_path cfg @ txt_cron_file_twice))
     else bindE (totals_of_json (cc_env cfg) (totals_json (cd_usage d))) (\<lambda>t. Inr (map (\<lambda>j. (cj_id j, j)) jobs, t)))"
proof -
  have read: "job_of_json env (case job_json j of JObj p \<Rightarrow> p | _ \<Rightarrow> []) = mk_cron_job env j" if "j \<in> set (list_jobs d)" for j env
  proof -
    have "j \<in> set (map snd (cd_jobs d))" using that by (simp add: list_jobs_def)
    then obtain p where "job_json j = JObj p" "job_of_json env p = mk_cron_job env j"
      using job_read_back [of j env] assms by blast
    then show ?thesis by simp
  qed
  have "mapE (job_of_json env) (map (\<lambda>j. case job_json j of JObj p \<Rightarrow> p | _ \<Rightarrow> []) js) = mapE (mk_cron_job env) js"
    if "set js \<subseteq> set (list_jobs d)" for js env
    using that by (induction js) (auto simp: read)
  moreover obtain kvs where kvs: "totals_json (cd_usage d) = JObj kvs"
    and "set (map fst kvs) = set (map u [''calls'', ''input_tokens'', ''output_tokens'', ''total_tokens''])"
    by (simp add: totals_json_def)
  ultimately show ?thesis
    unfolding kvs using rows_read [of "list_jobs d"] by (simp add: kvs load_state_def snapshot_json_def dict_get_def Let_def)
qed

text \<open>C35: What the manager saves it reads back: every job with all its fields, ordered by creation, and the usage.\<close>

theorem saved_jobs_read_back:
  assumes "\<forall>(i, j) \<in> set (cd_jobs d). cj_id j = i \<and> job_ok (cc_env cfg) j" and "dict_ok (cd_jobs d)" and "totals_ok (cd_usage d)"
  shows "load_state cfg (Some (snapshot_json d)) = Inr (map (\<lambda>j. (cj_id j, j)) (list_jobs d), cd_usage d)
     \<and> set (map (\<lambda>j. (cj_id j, j)) (list_jobs d)) = set (cd_jobs d)"
proof -
  have ok: "j \<in> set (list_jobs d) \<Longrightarrow> job_ok (cc_env cfg) j" for j using assms(1) by (auto simp: list_jobs_def)
  then have "mapE (mk_cron_job (cc_env cfg)) js = Inr js" if "set js \<subseteq> set (list_jobs d)" for js
    using that by (induction js) (auto simp: job_ok_def)
  then have made: "mapE (mk_cron_job (cc_env cfg)) (list_jobs d) = Inr (list_jobs d)" by simp
  have ids: "map cj_id (map snd (cd_jobs d)) = map fst (cd_jobs d)" using assms(1) by auto
  have "distinct (map cj_id (map snd (cd_jobs d)))" unfolding ids using assms(2) by (simp add: dict_ok_def)
  then have "distinct (map cj_id (list_jobs d))" by (simp add: list_jobs_def distinct_map) (auto simp: inj_on_def)
  moreover have "load_state cfg (Some (snapshot_json d)) = bindE (mapE (mk_cron_job (cc_env cfg)) (list_jobs d)) (\<lambda>jobs.
     if \<not> distinct (map cj_id jobs) then Inl (ValueError (cc_path cfg @ txt_cron_file_twice))
     else bindE (totals_of_json (cc_env cfg) (totals_json (cd_usage d))) (\<lambda>t. Inr (map (\<lambda>j. (cj_id j, j)) jobs, t)))"
    using assms(1) by (intro load_snapshot) (auto simp: job_ok_def)
  moreover have "set (map (\<lambda>j. (cj_id j, j)) (list_jobs d)) = set (cd_jobs d)"
    using assms(1) by (force simp: list_jobs_def)
  ultimately show ?thesis using made totals_read_back [OF assms(3)] by simp
qed

section \<open>Created jobs\<close>

lemma next_cron_fire_hit:
  assumes "next_cron_fire env zone expression after = Inr t"
  shows "after < t" and "cron_matches env expression (local_of env zone t) = Inr True"
proof -
  from assms obtain spec where spec: "parse_cron env expression = Inr spec"
    and "search_fire env zone spec horizon (after div minute_us * minute_us + minute_us) = Some t"
    by (auto simp: next_cron_fire_def bindE_eq_Inr split: option.splits)
  from search_fire_Some [OF this(2)] obtain m where "t = after div minute_us * minute_us + minute_us + int m * minute_us"
    and hit: "cron_hit spec (local_of env zone t)" by blast
  moreover have "after < after div minute_us * minute_us + minute_us"
    using div_mult_mod_eq [of after minute_us] pos_mod_bound [OF minute_us_pos, of after] by linarith
  moreover have "0 \<le> int m * minute_us" by (simp add: minute_us_def)
  ultimately show "after < t" by linarith
  show "cron_matches env expression (local_of env zone t) = Inr True" using spec hit by (simp add: cron_matches_def)
qed

lemma plan_job_cases:
  assumes "plan_job env zone now rec cron next_text = Inr (t, moment)"
  obtains (recurring) c where "rec" "cron = Some c" "next_cron_fire env zone c now = Inr t"
  | (once) s where "\<not> rec" "next_text = Some s" "ce_from_iso env s = Inr (Some t)" "now < t"
  using assms by (auto simp: plan_job_def bindE_eq_Inr not_le split: if_splits option.splits)

lemma mk_cron_job_keeps:
  assumes "mk_cron_job env j = Inr j'"
  shows "cj_id j' = cj_id j \<and> cj_prompt j' = cj_prompt j \<and> cj_recurring j' = cj_recurring j \<and> cj_channels j' = cj_channels j
     \<and> cj_cron j' = map_option py_strip (cj_cron j)"
  using assms by (auto simp: mk_cron_job_def bindE_eq_Inr split: if_splits option.splits)

lemma snapshot_ignores: "snapshot_json (d\<lparr>cd_file := f, cd_write_errors := w, cd_wakeups := n\<rparr>) = snapshot_json d"
  by (simp add: snapshot_json_def list_jobs_def)

text \<open>C37: A job that is created is kept under its own identifier and on file, with a prompt and channels that are
  not blank, and its first moment is in the future: for a recurring job one that matches its expression
  in the zone of the manager, otherwise the moment that was given. No other job changes.\<close>

theorem created_job_is_scheduled:
  assumes "create_job cfg raw_prompt rec cron next_text channels d = (Inr j, d')"
  shows "\<exists>t. dict_get (cd_jobs d') (cj_id j) = Some j \<and> dict_get (cd_next d') (cj_id j) = Some t \<and> cd_clock d 0 < t
     \<and> cd_file d' = Some (snapshot_json d')
     \<and> cj_prompt j = py_strip raw_prompt \<and> cj_prompt j \<noteq> [] \<and> cj_channels j \<noteq> [] \<and> [] \<notin> set (cj_channels j)
     \<and> cj_recurring j = rec
     \<and> (if rec then \<exists>c. cron = Some c \<and> cj_cron j = Some (py_strip c)
            \<and> cron_matches (cc_env cfg) c (local_of (cc_env cfg) (cd_zone d) t) = Inr True
        else \<exists>s. next_text = Some s \<and> ce_from_iso (cc_env cfg) s = Inr (Some t))
     \<and> (\<forall>i. i \<noteq> cj_id j \<longrightarrow> dict_get (cd_jobs d') i = dict_get (cd_jobs d) i \<and> dict_get (cd_next d') i = dict_get (cd_next d) i)"
proof -
  let ?prompt = "py_strip raw_prompt" and ?chans = "map py_strip (if channels = [] then [u ''all''] else channels)"
    and ?iso = "ce_utc_iso (cc_env cfg) (cd_clock d 0)"
  define i where "i = u ''cron_'' @ cd_uuids d 0"
  from assms have ok: "?prompt \<noteq> []" "\<not> list_ex (\<lambda>c. c = []) ?chans"
    by (auto simp: create_job_def Let_def raise_def split: if_splits)
  with assms obtain t moment where plan: "plan_job (cc_env cfg) (cd_zone d) (cd_clock d 0) rec cron next_text = Inr (t, moment)"
    by (auto simp: create_job_def Let_def prog_simps cron_now_def split: sum.splits prod.splits)
  with assms ok obtain j' where made: "mk_cron_job (cc_env cfg) \<lparr>cj_id = i, cj_cron = cron, cj_created = ?iso, cj_prompt = ?prompt,
      cj_recurring = rec, cj_channels = ?chans, cj_updated = ?iso, cj_next = Some moment\<rparr> = Inr j'"
    by (auto simp: create_job_def Let_def prog_simps cron_now_def new_cron_id_def i_def split: sum.splits prod.splits)
  define d1 where "d1 = d\<lparr>cd_clock := tape_tl (cd_clock d), cd_uuids := tape_tl (cd_uuids d), cd_jobs := dict_put i j' (cd_jobs d),
      cd_next := dict_put i t (cd_next d)\<rparr>"
  from assms ok plan made have run: "seq save_cron_state (\<lambda>_. seq wake (\<lambda>_. ret j')) d1 = (Inr j, d')"
    by (simp add: create_job_def Let_def seq_def [of cron_now] cron_now_def seq_def [of new_cron_id] new_cron_id_def lift_def seq_def [of "lift _"]
        i_def d1_def)
  then have "cd_write_errors d1 0 = None" and j: "j = j'"
    and d': "d' = d1\<lparr>cd_file := Some (snapshot_json d1), cd_write_errors := tape_tl (cd_write_errors d1), cd_wakeups := Suc (cd_wakeups d1)\<rparr>"
    by (auto simp: seq_def save_cron_state_def wake_def modify_def ret_def split: option.splits)
  note kept = mk_cron_job_keeps [OF made, folded j, simplified]
  have plan_ok: "cd_clock d 0 < t \<and> (if rec then \<exists>c. cron = Some c \<and> cj_cron j = Some (py_strip c)
            \<and> cron_matches (cc_env cfg) c (local_of (cc_env cfg) (cd_zone d) t) = Inr True
        else \<exists>s. next_text = Some s \<and> ce_from_iso (cc_env cfg) s = Inr (Some t))"
    using plan
  proof (cases rule: plan_job_cases)
    case (recurring c)
    then show ?thesis using kept next_cron_fire_hit [OF recurring(3)] by simp
  next
    case (once s)
    then show ?thesis by simp
  qed
  have "[] \<notin> set ?chans" "?chans \<noteq> []" using ok(2) by (auto simp: list_ex_iff)
  moreover have "cd_file d' = Some (snapshot_json d')" by (simp only: d' snapshot_ignores) simp
  ultimately have "dict_get (cd_jobs d') (cj_id j) = Some j \<and> dict_get (cd_next d') (cj_id j) = Some t
     \<and> cd_file d' = Some (snapshot_json d')
     \<and> cj_prompt j = py_strip raw_prompt \<and> cj_prompt j \<noteq> [] \<and> cj_channels j \<noteq> [] \<and> [] \<notin> set (cj_channels j)
     \<and> cj_recurring j = rec
     \<and> (\<forall>i. i \<noteq> cj_id j \<longrightarrow> dict_get (cd_jobs d') i = dict_get (cd_jobs d) i \<and> dict_get (cd_next d') i = dict_get (cd_next d) i)"
    using kept ok(1) j by (simp add: d' d1_def dict_simps)
  with plan_ok show ?thesis by (intro exI [of _ t]) blast
qed

section \<open>A moment that never comes\<close>


section \<open>Witnesses\<close>

definition plain_env :: cron_env where
  "plain_env = \<lparr>ce_isdigit = (\<lambda>_. False), ce_decimal = (\<lambda>_. None), ce_int_error = id, ce_offset = (\<lambda>_ _. 0),
     ce_zone_error = (\<lambda>_. None), ce_iso = (\<lambda>_ t. show_int t),
     ce_from_iso = (\<lambda>t. Inr (if t = [] then None else Some (int (length t)))), ce_reprint = id, ce_utc_iso = show_int,
     ce_add_error = (\<lambda>_ _. []), ce_seconds = (\<lambda>_. Inr 0)\<rparr>"

definition plain_cfg :: cron_cfg where
  "plain_cfg = \<lparr>cc_env = plain_env, cc_path = u ''cron.json'', cc_incidents = True\<rparr>"

definition empty_desk :: cron_desk where
  "empty_desk = \<lparr>cd_jobs = [], cd_usage = no_totals, cd_tasks = [], cd_running = [], cd_next = [], cd_deleting = [],
     cd_zone = u ''UTC'', cd_file = None, cd_clock = (\<lambda>_. 0), cd_uuids = (\<lambda>i. dec i), cd_write_errors = (\<lambda>_. None),
     cd_call_errors = (\<lambda>_. None), cd_notes = [], cd_started = [], cd_wakeups = 0\<rparr>"

definition plain_job :: "string \<Rightarrow> ustr option \<Rightarrow> cron_job" where
  "plain_job i c = \<lparr>cj_id = u i, cj_cron = c, cj_created = u ''0'', cj_prompt = u ''p'', cj_recurring = (c \<noteq> None),
     cj_channels = [u ''all''], cj_updated = u ''0'', cj_next = Some (u ''12'')\<rparr>"

theorem accepted_cron_is_typed_witness:
  "\<exists>spec. parse_cron plain_env (u ''*/20 8-10 1,15 * 7'') = Inr spec \<and> cs_minute spec = {0, 20, 40}
     \<and> cs_hour spec = {8, 9, 10} \<and> cs_day_of_week spec = {0} \<and> spec_ok spec"
proof -
  obtain spec where spec: "parse_cron plain_env (u ''*/20 8-10 1,15 * 7'') = Inr spec"
    and "cs_minute spec = {0, 20, 40} \<and> cs_hour spec = {8, 9, 10} \<and> cs_day_of_week spec = {0}"
  proof -
    have "(case parse_cron plain_env (u ''*/20 8-10 1,15 * 7'') of
        Inr s \<Rightarrow> cs_minute s = {0, 20, 40} \<and> cs_hour s = {8, 9, 10} \<and> cs_day_of_week s = {0} | Inl _ \<Rightarrow> False)"
      by code_simp
    then show thesis using that by (auto split: sum.splits)
  qed
  with accepted_cron_is_typed [OF spec] show ?thesis by blast
qed

theorem next_fire_is_first_match_witness:
  "next_cron_fire plain_env (u ''UTC'') (u ''*/5 * * * *'') 61000000 = Inr 300000000
     \<and> \<not> (\<exists>s. s \<in> {61000000<..<300000000} \<and> 60000000 dvd s
          \<and> cron_matches plain_env (u ''*/5 * * * *'') (local_of plain_env (u ''UTC'') s) \<noteq> Inr False)"
proof -
  have "(case parse_cron plain_env (u ''*/5 * * * *'') of
      Inr s \<Rightarrow> search_fire plain_env (u ''UTC'') s 5 120000000 = Some 300000000 | Inl _ \<Rightarrow> False)" by code_simp
  then obtain spec where spec: "parse_cron plain_env (u ''*/5 * * * *'') = Inr spec"
    and five: "search_fire plain_env (u ''UTC'') spec 5 120000000 = Some 300000000" by (auto split: sum.splits)
  have more: "search_fire env zone s n t = Some x \<Longrightarrow> search_fire env zone s (n + k) t = Some x" for env zone s n k t x
    by (induction n arbitrary: t) (auto split: if_splits)
  have "search_fire plain_env (u ''UTC'') spec horizon 120000000 = Some 300000000"
    using more [OF five, of "horizon - 5"] by (simp add: horizon_def)
  then have "next_cron_fire plain_env (u ''UTC'') (u ''*/5 * * * *'') 61000000 = Inr 300000000"
    using spec by (simp add: next_cron_fire_def minute_us_def)
  with next_fire_is_first_match [where env = plain_env and zone = "u ''UTC''" and expression = "u ''*/5 * * * *''" and after = 61000000] show ?thesis
    by (simp add: minute_us_def)
qed

theorem saved_jobs_read_back_witness:
  "load_state plain_cfg (Some (snapshot_json (empty_desk\<lparr>cd_jobs :=
       [(u ''b'', plain_job ''b'' None), (u ''a'', plain_job ''a'' (Some (u ''* * * * *'')))]\<rparr>)))
     = Inr ([(u ''a'', plain_job ''a'' (Some (u ''* * * * *''))), (u ''b'', plain_job ''b'' None)], no_totals)"
proof -
  let ?d = "empty_desk\<lparr>cd_jobs := [(u ''b'', plain_job ''b'' None), (u ''a'', plain_job ''a'' (Some (u ''* * * * *'')))]\<rparr>"
  have "\<forall>(i, j) \<in> set (cd_jobs ?d). cj_id j = i \<and> job_ok (cc_env plain_cfg) j"
    by (simp add: plain_cfg_def plain_env_def plain_job_def job_ok_def mk_cron_job_def aware_iso_def)
       (simp add: u_def py_strip_def is_space_def)
  moreover have "dict_ok (cd_jobs ?d)" "totals_ok (cd_usage ?d)"
    by (simp_all add: dict_ok_def empty_desk_def totals_ok_def no_totals_def)
  moreover have "list_jobs ?d = [plain_job ''a'' (Some (u ''* * * * *'')), plain_job ''b'' None]" by code_simp
  ultimately show ?thesis using saved_jobs_read_back [of ?d plain_cfg] by (simp add: plain_job_def empty_desk_def)
qed

theorem created_job_is_scheduled_witness:
  "\<exists>j d'. create_job plain_cfg (u '' hi'') False None (Some (u ''abc'')) [] empty_desk = (Inr j, d')
     \<and> dict_get (cd_next d') (cj_id j) = Some 3 \<and> cj_prompt j = u ''hi''"
proof -
  have "(case fst (create_job plain_cfg (u '' hi'') False None (Some (u ''abc'')) [] empty_desk) of Inr _ \<Rightarrow> True | Inl _ \<Rightarrow> False)"
    by code_simp
  then obtain j d' where made: "create_job plain_cfg (u '' hi'') False None (Some (u ''abc'')) [] empty_desk = (Inr j, d')"
    by (cases "create_job plain_cfg (u '' hi'') False None (Some (u ''abc'')) [] empty_desk") (auto split: sum.splits)
  have "py_strip (u '' hi'') = u ''hi''" by code_simp
  with created_job_is_scheduled [OF made] made show ?thesis by (auto simp: plain_cfg_def plain_env_def)
qed








end
