(* ===== verification/ServiceTexts.thy ===== *)
theory ServiceTexts
  imports Prelude
begin

text \<open>
  The fixed texts of the program, code point by code point: error messages and replies the code
  stores, compares or shows. Each name says what the text says; the order is the order of the
  source files.
\<close>

section \<open>\<^verbatim>\<open>proactive/types.py\<close>\<close>

definition txt_incident_fields :: ustr where \<comment> \<open>unexpected fields\<close>
  "txt_incident_fields = [73, 110, 99, 105, 100, 101, 110, 116, 32, 23383, 27573, 26080, 25928]"

definition txt_incident_strings :: ustr where \<comment> \<open>a field is no text\<close>
  "txt_incident_strings = [73, 110, 99, 105, 100, 101, 110, 116, 32, 23383, 31526, 20018, 23383, 27573, 26080, 25928]"

definition txt_incident_state :: ustr where \<comment> \<open>unknown state\<close>
  "txt_incident_state = [26080, 25928, 30340, 32, 73, 110, 99, 105, 100, 101, 110, 116, 32, 115, 116, 97, 116, 101,
     65306]"

definition txt_incident_count :: ustr where \<comment> \<open>bad count\<close>
  "txt_incident_count = [73, 110, 99, 105, 100, 101, 110, 116, 32, 111, 99, 99, 117, 114, 114, 101, 110, 99, 101,
     95, 99, 111, 117, 110, 116, 32, 24517, 39035, 26159, 27491, 25972, 25968]"

definition txt_incident_history :: ustr where \<comment> \<open>bad history\<close>
  "txt_incident_history = [73, 110, 99, 105, 100, 101, 110, 116, 32, 104, 105, 115, 116, 111, 114, 121, 32, 26080,
     25928]"

section \<open>\<^verbatim>\<open>proactive/incidents.py\<close>\<close>

definition txt_incident_opened :: ustr where \<comment> \<open>system failure\<close>
  "txt_incident_opened = [31995, 32479, 24322, 24120, 65306]"

definition txt_incident_resolved :: ustr where \<comment> \<open>system recovered\<close>
  "txt_incident_resolved = [31995, 32479, 24050, 24674, 22797, 65306]"

definition txt_incident_query :: ustr where \<comment> \<open>bad state asked for\<close>
  "txt_incident_query = [73, 110, 99, 105, 100, 101, 110, 116, 32, 115, 116, 97, 116, 101, 32, 21482, 33021, 26159,
     32, 111, 112, 101, 110, 32, 25110, 32, 114, 101, 115, 111, 108, 118, 101, 100]"

definition txt_incident_missing :: ustr where \<comment> \<open>no such incident\<close>
  "txt_incident_missing = [73, 110, 99, 105, 100, 101, 110, 116, 32, 19981, 23384, 22312, 65306]"

definition txt_incident_closed :: ustr where \<comment> \<open>already resolved\<close>
  "txt_incident_closed = [73, 110, 99, 105, 100, 101, 110, 116, 32, 24050, 35299, 20915, 65306]"

definition txt_incident_by_user :: ustr where \<comment> \<open>marked as resolved by the user\<close>
  "txt_incident_by_user = [29992, 25143, 22312, 32, 87, 101, 98, 32, 20013, 26631, 35760, 24050, 35299, 20915]"

definition txt_incident_file :: ustr where \<comment> \<open>unexpected fields of the file\<close>
  "txt_incident_file = [105, 110, 99, 105, 100, 101, 110, 116, 115, 46, 106, 115, 111, 110, 32, 24517, 39035,
     20165, 21253, 21547, 32, 105, 110, 99, 105, 100, 101, 110, 116, 115]"

definition txt_incident_rows :: ustr where \<comment> \<open>the incidents are no list of objects\<close>
  "txt_incident_rows = [105, 110, 99, 105, 100, 101, 110, 116, 115, 46, 106, 115, 111, 110, 32, 30340, 32, 105,
     110, 99, 105, 100, 101, 110, 116, 115, 32, 24517, 39035, 26159, 23545, 35937, 25968, 32452]"

definition txt_incident_twice :: ustr where \<comment> \<open>a fingerprint twice\<close>
  "txt_incident_twice = [105, 110, 99, 105, 100, 101, 110, 116, 115, 46, 106, 115, 111, 110, 32, 21253, 21547,
     37325, 22797, 32, 102, 105, 110, 103, 101, 114, 112, 114, 105, 110, 116]"

definition txt_no_incidents :: ustr where \<comment> \<open>no incidents\<close>
  "txt_no_incidents = [26242, 26080, 31995, 32479, 24322, 24120, 12290]"

definition txt_times_bar :: ustr where \<comment> \<open>times\<close>
  "txt_times_bar = [32, 27425, 32, 124, 32]"

definition txt_tool_no_route :: ustr where \<comment> \<open>no current route\<close>
  "txt_tool_no_route = [20027, 21160, 32, 84, 111, 111, 108, 32, 32570, 23569, 24403, 21069, 32, 114, 111, 117,
     116, 101]"

section \<open>\<^verbatim>\<open>proactive/cron.py\<close>\<close>

definition txt_created :: ustr where \<comment> \<open>created\<close>
  "txt_created = [24050, 21019, 24314]"

definition txt_periodic :: ustr where \<comment> \<open>periodic\<close>
  "txt_periodic = [21608, 26399, 24615]"

definition txt_one_time :: ustr where \<comment> \<open>one-time\<close>
  "txt_one_time = [19968, 27425, 24615]"

definition txt_cron_job_colon :: ustr where \<comment> \<open>scheduled task\<close>
  "txt_cron_job_colon = [23450, 26102, 20219, 21153, 65306]"

definition txt_next_run_open :: ustr where \<comment> \<open>next run, bracket opened\<close>
  "txt_next_run_open = [65288, 19979, 27425, 36816, 34892, 65306]"

definition txt_next_run_close :: ustr where \<comment> \<open>bracket closed\<close>
  "txt_next_run_close = [65289, 12290]"

definition txt_no_crons :: ustr where \<comment> \<open>no jobs\<close>
  "txt_no_crons = [26242, 26080, 32, 67, 114, 111, 110, 32, 23450, 26102, 20219, 21153, 12290]"

definition txt_cron_deleted :: ustr where \<comment> \<open>deleted\<close>
  "txt_cron_deleted = [24050, 21024, 38500, 32, 67, 114, 111, 110, 32, 23450, 26102, 20219, 21153, 65306]"

section \<open>\<^verbatim>\<open>gateway/routing.py\<close>\<close>

definition txt_route_parts :: ustr where \<comment> \<open>a part is no text or empty\<close>
  "txt_route_parts = [112, 114, 105, 110, 99, 105, 112, 97, 108, 95, 105, 100, 12289, 99, 104, 97, 110, 110,
     101, 108, 32, 21644, 32, 99, 111, 110, 118, 101, 114, 115, 97, 116, 105, 111, 110, 95, 105,
     100, 32, 24517, 39035, 26159, 38750, 31354, 23383, 31526, 20018]"

end
