(* ===== verification/CronTools.thy ===== *)
theory CronTools
  imports CronJobs ToolRunner ServiceTexts
begin

text \<open>
  The three tools around the cron manager (\<^verbatim>\<open>proactive/cron.py\<close>) and what a created job promises. The manager is the
  one of the current route; the arguments have passed the schema of the tool, which admits an
  array of texts as channels.
\<close>

section \<open>The tools\<close>

text \<open>\<open>_optional_arg\<close>: a missing or blank argument is none.\<close>

definition optional_arg :: "schema_env \<Rightarrow> json option \<Rightarrow> ustr option" where
  "optional_arg env v = (case v of
     None \<Rightarrow> None | Some JNull \<Rightarrow> None
   | Some x \<Rightarrow> (let t = py_strip (py_str env x) in if t = [] then None else Some t))"

definition channel_args :: "schema_env \<Rightarrow> json option \<Rightarrow> ustr list" where
  "channel_args env v = (case v of Some (JArr xs) \<Rightarrow> map (py_str env) xs | _ \<Rightarrow> [])"

definition required_arg :: "(ustr, json) dict \<Rightarrow> string \<Rightarrow> exn + json" where
  "required_arg args k = (case dict_get args (u k) of Some v \<Rightarrow> Inr v | None \<Rightarrow> Inl (KeyError (u k)))"

definition text_or_none :: "ustr option \<Rightarrow> ustr" where
  "text_or_none x = (case x of Some t \<Rightarrow> t | None \<Rightarrow> u ''None'')"

definition plain_output :: "ustr \<Rightarrow> tool_output" where
  "plain_output t = \<lparr>ou_content = t, ou_metadata = [], ou_attachment = None\<rparr>"

definition planned_delay :: "cron_cfg \<Rightarrow> json option \<Rightarrow> ustr option \<Rightarrow> ustr option \<Rightarrow> (cron_desk, ustr option) prog" where
  "planned_delay cfg delay cron next_text =
     (if delay = None \<or> delay = Some JNull then ret next_text
      else if cron \<noteq> None \<or> next_text \<noteq> None then raise (ValueError txt_delay_exclusive)
      else seq cron_now (\<lambda>now. seq (gets cd_zone) (\<lambda>zone.
        seq (lift (next_run_at_after_delay (cc_env cfg) zone (the delay) now)) (\<lambda>t. ret (Some t)))))"

definition created_text :: "cron_job \<Rightarrow> ustr" where
  "created_text j = txt_created @ (if cj_recurring j then txt_periodic else txt_one_time) @ txt_cron_job_colon @ cj_id j
     @ txt_next_run_open @ text_or_none (if cj_recurring j then cj_cron j else cj_next j) @ txt_next_run_close"

definition create_cron_tool :: "cron_cfg \<Rightarrow> schema_env \<Rightarrow> (ustr, json) dict \<Rightarrow> (cron_desk, tool_output) prog" where
  "create_cron_tool cfg env args =
     (let cron = optional_arg env (dict_get args (u ''cron'')) in
      seq (planned_delay cfg (dict_get args (u ''delay_seconds'')) cron (optional_arg env (dict_get args (u ''next_run_at'')))) (\<lambda>next_text.
      seq (lift (required_arg args ''prompt'')) (\<lambda>prompt.
      seq (lift (required_arg args ''recurring'')) (\<lambda>rec.
      seq (create_job cfg (py_str env prompt) (py_truthy rec) cron next_text (channel_args env (dict_get args (u ''delivery_channels'')))) (\<lambda>j.
        ret \<lparr>ou_content = created_text j, ou_metadata = [(u ''cron_id'', JStr (cj_id j))], ou_attachment = None\<rparr>)))))"

definition cron_line :: "ustr \<Rightarrow> cron_job \<Rightarrow> ustr" where
  "cron_line state j = cj_id j @ u '' status='' @ state @ u '' next_run_at='' @ text_or_none (cj_next j)
     @ u '' schedule='' @ (case cj_cron j of Some t \<Rightarrow> (if t = [] then u ''one-shot'' else t) | None \<Rightarrow> u ''one-shot'')
     @ u '' recurring='' @ (if cj_recurring j then u ''True'' else u ''False'') @ u '' prompt='' @ cj_prompt j"

fun cron_lines :: "cron_job list \<Rightarrow> (cron_desk, ustr list) prog" where
  "cron_lines [] = ret []"
| "cron_lines (j # js) = seq (runtime_state (cj_id j)) (\<lambda>state. seq (cron_lines js) (\<lambda>ls. ret (cron_line state j # ls)))"

definition list_crons_tool :: "(cron_desk, tool_output) prog" where
  "list_crons_tool = seq (gets list_jobs) (\<lambda>jobs.
     if jobs = [] then ret (plain_output txt_no_crons)
     else seq (cron_lines jobs) (\<lambda>ls. ret (plain_output (py_join [10] ls))))"

definition delete_cron_tool :: "cron_cfg \<Rightarrow> schema_env \<Rightarrow> (ustr, json) dict \<Rightarrow> (cron_desk, tool_output) prog" where
  "delete_cron_tool cfg env args =
     seq (lift (required_arg args ''id'')) (\<lambda>v.
     seq (delete_job cfg (py_str env v)) (\<lambda>j. ret (plain_output (txt_cron_deleted @ cj_id j))))"

end
