(* ===== verification/Incidents.thy ===== *)
theory Incidents
  imports ToolRunner ServiceTexts
begin

text \<open>
  The record of system failures (\<^verbatim>\<open>proactive/incidents.py\<close>, \<^verbatim>\<open>Incident\<close> of \<^verbatim>\<open>proactive/types.py\<close>): one incident per
  fingerprint, open or resolved, announced when it opens and when it closes. The section under the lock
  and the call of the observer after it are one operation: only the file is shared, and only the section
  touches it. The file is one JSON value that a write replaces or, refused, leaves alone.
\<close>

section \<open>Incidents\<close>

text \<open>An entry of the history keeps the order of its keys.\<close>

type_synonym history_entry = "(ustr, ustr) dict"

record incident =
  in_id :: ustr
  in_fingerprint :: ustr
  in_source :: ustr
  in_state :: ustr
  in_first :: ustr
  in_last :: ustr
  in_count :: int
  in_message :: ustr
  in_history :: "history_entry list"

definition history_entry :: "string \<Rightarrow> ustr \<Rightarrow> ustr \<Rightarrow> history_entry" where
  "history_entry state now message = [(u ''state'', u state), (u ''occurred_at'', now), (u ''message'', message)]"

definition entry_json :: "history_entry \<Rightarrow> json" where
  "entry_json e = JObj (map (\<lambda>(k, t). (k, JStr t)) e)"

definition incident_fields :: "incident \<Rightarrow> (ustr, json) dict" where
  "incident_fields i = [(u ''id'', JStr (in_id i)), (u ''fingerprint'', JStr (in_fingerprint i)), (u ''source'', JStr (in_source i)),
     (u ''state'', JStr (in_state i)), (u ''first_detected_at'', JStr (in_first i)), (u ''last_detected_at'', JStr (in_last i)),
     (u ''occurrence_count'', JInt (in_count i)), (u ''message'', JStr (in_message i)),
     (u ''history'', JArr (map entry_json (in_history i)))]"

definition incident_keys :: "ustr list" where
  "incident_keys = map u [''id'', ''fingerprint'', ''source'', ''state'', ''first_detected_at'', ''last_detected_at'',
     ''occurrence_count'', ''message'', ''history'']"

definition json_text :: "json \<Rightarrow> ustr option" where
  "json_text v = (case v of JStr t \<Rightarrow> Some t | _ \<Rightarrow> None)"

definition entry_of_json :: "json \<Rightarrow> history_entry option" where
  "entry_of_json v = (case v of
     JObj kvs \<Rightarrow>
       (if set (map fst kvs) = {u ''state'', u ''occurred_at'', u ''message''} \<and> list_all (\<lambda>(_, x). json_text x \<noteq> None) kvs
        then Some (map (\<lambda>(k, x). (k, the (json_text x))) kvs) else None)
   | _ \<Rightarrow> None)"

definition history_of_json :: "json \<Rightarrow> history_entry list option" where
  "history_of_json v = (case v of
     JArr xs \<Rightarrow> (if list_all (\<lambda>x. entry_of_json x \<noteq> None) xs then Some (map (\<lambda>x. the (entry_of_json x)) xs) else None)
   | _ \<Rightarrow> None)"

definition field_value :: "(ustr, json) dict \<Rightarrow> string \<Rightarrow> json" where
  "field_value p k = (case dict_get p (u k) of Some v \<Rightarrow> v | None \<Rightarrow> JNull)"

definition incident_of_fields :: "(ustr, json) dict \<Rightarrow> exn + incident" where
  "incident_of_fields p =
     (if set (map fst p) \<noteq> set incident_keys then Inl (ValueError txt_incident_fields)
      else case map (\<lambda>k. json_text (field_value p k)) [''id'', ''fingerprint'', ''source'', ''state'', ''first_detected_at'', ''last_detected_at'', ''message''] of
        [Some i, Some f, Some src, Some st, Some t0, Some t1, Some msg] \<Rightarrow>
          (if st \<noteq> u ''open'' \<and> st \<noteq> u ''resolved'' then Inl (ValueError (txt_incident_state @ st))
           else case field_value p ''occurrence_count'' of
             JInt n \<Rightarrow>
               (if n < 1 then Inl (ValueError txt_incident_count)
                else case history_of_json (field_value p ''history'') of
                  None \<Rightarrow> Inl (ValueError txt_incident_history)
                | Some h \<Rightarrow> Inr \<lparr>in_id = i, in_fingerprint = f, in_source = src, in_state = st, in_first = t0, in_last = t1,
                    in_count = n, in_message = msg, in_history = h\<rparr>)
           | _ \<Rightarrow> Inl (ValueError txt_incident_count))
      | _ \<Rightarrow> Inl (ValueError txt_incident_strings))"

section \<open>The monitor\<close>

record publication =
  pb_event :: ustr
  pb_content :: ustr
  pb_source :: ustr
  pb_principal :: "ustr option"

record monitor_cfg =
  mf_principal :: "ustr option"
  mf_observed :: bool

record monitor =
  mo_file :: "json option"
  mo_times :: "ustr tape"
  mo_uuids :: "ustr tape"
  mo_write_errors :: "exn option tape"
  mo_publish_errors :: "exn option tape"
  mo_observer_errors :: "exn option tape"
  mo_published :: "publication list"
  mo_signals :: nat

definition incidents_of_file :: "json option \<Rightarrow> exn + incident list" where
  "incidents_of_file file = (case file of
     None \<Rightarrow> Inr []
   | Some (JObj p) \<Rightarrow>
       (if set (map fst p) \<noteq> {u ''incidents''} then Inl (ValueError txt_incident_file)
        else case the (dict_get p (u ''incidents'')) of
          JArr xs \<Rightarrow>
            (if \<not> list_all (\<lambda>x. case x of JObj _ \<Rightarrow> True | _ \<Rightarrow> False) xs then Inl (ValueError txt_incident_rows)
             else bindE (mapE (\<lambda>x. case x of JObj kvs \<Rightarrow> incident_of_fields kvs | _ \<Rightarrow> Inl (ValueError txt_incident_rows)) xs) (\<lambda>incs.
               if \<not> distinct (map in_fingerprint incs) then Inl (ValueError txt_incident_twice) else Inr incs))
        | _ \<Rightarrow> Inl (ValueError txt_incident_rows))
   | Some _ \<Rightarrow> Inl (ValueError txt_incident_file))"

definition load_incidents :: "(monitor, incident list) prog" where
  "load_incidents m = (incidents_of_file (mo_file m), m)"

definition incidents_json :: "incident list \<Rightarrow> json" where
  "incidents_json incs = JObj [(u ''incidents'', JArr (map (\<lambda>i. JObj (incident_fields i)) incs))]"

definition save_incidents :: "incident list \<Rightarrow> (monitor, unit) prog" where
  "save_incidents incs m = (case mo_write_errors m 0 of
     Some e \<Rightarrow> (Inl e, m\<lparr>mo_write_errors := tape_tl (mo_write_errors m)\<rparr>)
   | None \<Rightarrow> (Inr (), m\<lparr>mo_write_errors := tape_tl (mo_write_errors m), mo_file := Some (incidents_json incs)\<rparr>))"

definition index_for_fingerprint :: "incident list \<Rightarrow> ustr \<Rightarrow> nat option" where
  "index_for_fingerprint incs f = (let n = length (takeWhile (\<lambda>i. in_fingerprint i \<noteq> f) incs) in
     if n < length incs then Some n else None)"

definition incident_now :: "(monitor, ustr) prog" where
  "incident_now m = (Inr (mo_times m 0), m\<lparr>mo_times := tape_tl (mo_times m)\<rparr>)"

definition new_incident_id :: "(monitor, ustr) prog" where
  "new_incident_id m = (Inr (u ''incident_'' @ mo_uuids m 0), m\<lparr>mo_uuids := tape_tl (mo_uuids m)\<rparr>)"

definition publish :: "monitor_cfg \<Rightarrow> string \<Rightarrow> ustr \<Rightarrow> ustr \<Rightarrow> (monitor, unit) prog" where
  "publish cfg event content f m = (let m1 = m\<lparr>mo_publish_errors := tape_tl (mo_publish_errors m)\<rparr> in
     case mo_publish_errors m 0 of
       Some e \<Rightarrow> (Inl e, m1)
     | None \<Rightarrow> (Inr (), m1\<lparr>mo_published := mo_published m @
         [\<lparr>pb_event = u event, pb_content = content, pb_source = f, pb_principal = mf_principal cfg\<rparr>]\<rparr>))"

text \<open>The scope of a publication is always \<open>all_subscribed\<close> and not kept. An exception of the publisher is kept until the observer has been told.\<close>

definition try_publish :: "monitor_cfg \<Rightarrow> bool \<Rightarrow> string \<Rightarrow> ustr \<Rightarrow> ustr \<Rightarrow> (monitor, exn option) prog" where
  "try_publish cfg notify event content f =
     (if notify then catch (seq (publish cfg event content f) (\<lambda>_. ret None)) (\<lambda>e. if is_exception e then ret (Some e) else raise e)
      else ret None)"

definition notify_state_changed :: "monitor_cfg \<Rightarrow> (monitor, unit) prog" where
  "notify_state_changed cfg m =
     (if \<not> mf_observed cfg then (Inr (), m)
      else ((case mo_observer_errors m 0 of Some e \<Rightarrow> Inl e | None \<Rightarrow> Inr ()),
        m\<lparr>mo_observer_errors := tape_tl (mo_observer_errors m), mo_signals := Suc (mo_signals m)\<rparr>))"

definition finish_report :: "monitor_cfg \<Rightarrow> exn option \<Rightarrow> (monitor, bool) prog" where
  "finish_report cfg err = seq (notify_state_changed cfg) (\<lambda>_. case err of Some e \<Rightarrow> raise e | None \<Rightarrow> ret True)"

definition seen_again :: "ustr \<Rightarrow> incident \<Rightarrow> incident" where
  "seen_again now i = i\<lparr>in_count := in_count i + 1, in_last := now\<rparr>"

definition new_incident :: "ustr \<Rightarrow> ustr \<Rightarrow> ustr \<Rightarrow> ustr \<Rightarrow> ustr \<Rightarrow> incident" where
  "new_incident iid f src now message = \<lparr>in_id = iid, in_fingerprint = f, in_source = src, in_state = u ''open'', in_first = now,
     in_last = now, in_count = 1, in_message = message, in_history = [history_entry ''open'' now message]\<rparr>"

definition reopened :: "ustr \<Rightarrow> ustr \<Rightarrow> incident \<Rightarrow> incident" where
  "reopened now message i = i\<lparr>in_state := u ''open'', in_last := now, in_count := in_count i + 1, in_message := message,
     in_history := in_history i @ [history_entry ''open'' now message]\<rparr>"

definition report_failure :: "monitor_cfg \<Rightarrow> ustr \<Rightarrow> ustr \<Rightarrow> ustr \<Rightarrow> bool \<Rightarrow> (monitor, bool) prog" where
  "report_failure cfg f src message notify =
     seq load_incidents (\<lambda>incs.
     seq incident_now (\<lambda>now.
       let announce = (\<lambda>incs'. seq (save_incidents incs') (\<lambda>_.
         seq (try_publish cfg notify ''proactive.incident.opened'' (txt_incident_opened @ message) f) (finish_report cfg))) in
       case index_for_fingerprint incs f of
         Some k \<Rightarrow>
           (if in_state (incs ! k) = u ''open'' then
              seq (save_incidents (incs[k := seen_again now (incs ! k)])) (\<lambda>_. seq (notify_state_changed cfg) (\<lambda>_. ret False))
            else announce (incs[k := reopened now message (incs ! k)]))
       | None \<Rightarrow> seq new_incident_id (\<lambda>iid. announce (incs @ [new_incident iid f src now message]))))"

definition resolved_at :: "ustr \<Rightarrow> ustr \<Rightarrow> incident \<Rightarrow> incident" where
  "resolved_at now message i = i\<lparr>in_state := u ''resolved'', in_last := now,
     in_history := in_history i @ [history_entry ''resolved'' now message]\<rparr>"

definition report_recovery :: "monitor_cfg \<Rightarrow> ustr \<Rightarrow> ustr \<Rightarrow> bool \<Rightarrow> (monitor, bool) prog" where
  "report_recovery cfg f message notify =
     seq load_incidents (\<lambda>incs. case index_for_fingerprint incs f of
       None \<Rightarrow> ret False
     | Some k \<Rightarrow>
         (if in_state (incs ! k) = u ''resolved'' then ret False
          else seq incident_now (\<lambda>now.
            seq (save_incidents (incs[k := (resolved_at now message (incs ! k))\<lparr>in_message := message\<rparr>])) (\<lambda>_.
            seq (try_publish cfg notify ''proactive.incident.resolved'' (txt_incident_resolved @ message) f) (finish_report cfg)))))"

definition resolve_by_fingerprint :: "monitor_cfg \<Rightarrow> ustr \<Rightarrow> (monitor, incident) prog" where
  "resolve_by_fingerprint cfg f =
     seq load_incidents (\<lambda>incs. case index_for_fingerprint incs f of
       None \<Rightarrow> raise (ValueError (txt_incident_missing @ f))
     | Some k \<Rightarrow>
         (if in_state (incs ! k) = u ''resolved'' then raise (ValueError (txt_incident_closed @ f))
          else seq incident_now (\<lambda>now.
            let i = resolved_at now txt_incident_by_user (incs ! k) in
            seq (save_incidents (incs[k := i])) (\<lambda>_.
            seq (lift (incident_of_fields (incident_fields i))) (\<lambda>r.
            seq (notify_state_changed cfg) (\<lambda>_. ret r))))))"

definition delete_by_fingerprint :: "monitor_cfg \<Rightarrow> ustr \<Rightarrow> (monitor, nat) prog" where
  "delete_by_fingerprint cfg f =
     seq load_incidents (\<lambda>incs.
       let kept = filter (\<lambda>i. in_fingerprint i \<noteq> f) incs; removed = length incs - length kept in
       if removed \<noteq> 0 then seq (save_incidents kept) (\<lambda>_. seq (notify_state_changed cfg) (\<lambda>_. ret removed))
       else ret removed)"

text \<open>A sort with \<open>reverse=True\<close> keeps the order of equal elements.\<close>

definition list_incidents :: "ustr option \<Rightarrow> (monitor, incident list) prog" where
  "list_incidents state =
     (if state \<notin> {None, Some (u ''open''), Some (u ''resolved'')} then raise (ValueError txt_incident_query)
      else seq load_incidents (\<lambda>incs.
        seq (lift (mapE (\<lambda>i. incident_of_fields (incident_fields i)) (filter (\<lambda>i. state = None \<or> Some (in_state i) = state) incs))) (\<lambda>vs.
          ret (rev (sort_key (\<lambda>i. (in_last i, in_id i)) (rev vs))))))"

definition get_by_fingerprint :: "ustr \<Rightarrow> (monitor, incident option) prog" where
  "get_by_fingerprint f =
     seq load_incidents (\<lambda>incs. case index_for_fingerprint incs f of
       None \<Rightarrow> ret None
     | Some k \<Rightarrow> seq (lift (incident_of_fields (incident_fields (incs ! k)))) (\<lambda>i. ret (Some i)))"

text \<open>\<open>ListIncidentsTool.run\<close> with the monitor of the current route.\<close>

definition incident_line :: "incident \<Rightarrow> ustr" where
  "incident_line i = u ''['' @ in_state i @ u ''] '' @ in_fingerprint i @ u '' | '' @ in_source i @ u '' | ''
     @ show_int (in_count i) @ txt_times_bar @ in_message i"

definition list_incidents_tool :: "schema_env \<Rightarrow> (ustr, json) dict \<Rightarrow> (monitor, tool_output) prog" where
  "list_incidents_tool env args =
     seq (list_incidents (case dict_get args (u ''state'') of
         None \<Rightarrow> None | Some JNull \<Rightarrow> None | Some v \<Rightarrow> Some (py_str env v))) (\<lambda>incs.
       ret \<lparr>ou_content = (if incs = [] then txt_no_incidents else py_join [10] (map incident_line incs)),
            ou_metadata = [], ou_attachment = None\<rparr>)"

section \<open>Histories of calls\<close>

datatype monitor_op =
    Report_failure ustr ustr ustr bool
  | Report_recovery ustr ustr bool
  | Resolve_fingerprint ustr
  | Delete_fingerprint ustr
  | List_incidents "ustr option"
  | Get_fingerprint ustr

text \<open>One call, with the answer whether it changed the state of an incident.\<close>

definition monitor_run :: "monitor_cfg \<Rightarrow> monitor_op \<Rightarrow> (monitor, bool) prog" where
  "monitor_run cfg op = (case op of
     Report_failure f src message notify \<Rightarrow> report_failure cfg f src message notify
   | Report_recovery f message notify \<Rightarrow> report_recovery cfg f message notify
   | Resolve_fingerprint f \<Rightarrow> seq (resolve_by_fingerprint cfg f) (\<lambda>_. ret True)
   | Delete_fingerprint f \<Rightarrow> seq (delete_by_fingerprint cfg f) (\<lambda>n. ret (n \<noteq> 0))
   | List_incidents st \<Rightarrow> seq (list_incidents st) (\<lambda>_. ret False)
   | Get_fingerprint f \<Rightarrow> seq (get_by_fingerprint f) (\<lambda>_. ret False))"

definition monitor_after :: "monitor_cfg \<Rightarrow> monitor_op \<Rightarrow> monitor \<Rightarrow> monitor" where
  "monitor_after cfg op m = snd (monitor_run cfg op m)"

end
