(* ===== verification/IncidentProps.thy ===== *)
theory IncidentProps
  imports Incidents
begin

text \<open>
  The record of failures: what is written is read back, every operation rewrites at most one incident
  and announces at most one edge, and the history of an incident alternates.
\<close>

section \<open>The file\<close>

definition entry_ok :: "history_entry \<Rightarrow> bool" where
  "entry_ok e \<longleftrightarrow> set (map fst e) = {u ''state'', u ''occurred_at'', u ''message''}"

definition incident_ok :: "incident \<Rightarrow> bool" where
  "incident_ok i \<longleftrightarrow> in_state i \<in> {u ''open'', u ''resolved''} \<and> 1 \<le> in_count i \<and> (\<forall>e \<in> set (in_history i). entry_ok e)"

definition book_ok :: "incident list \<Rightarrow> bool" where
  "book_ok incs \<longleftrightarrow> distinct (map in_fingerprint incs) \<and> (\<forall>i \<in> set incs. incident_ok i)"

definition book :: "monitor \<Rightarrow> incident list" where
  "book m = (case incidents_of_file (mo_file m) of Inr incs \<Rightarrow> incs | Inl _ \<Rightarrow> [])"

lemma entry_read_back: "entry_of_json (entry_json e) = (if entry_ok e then Some e else None)"
  by (auto simp: entry_of_json_def entry_json_def entry_ok_def json_text_def list_all_iff image_image case_prod_unfold comp_def
      intro!: map_idI)

lemma entry_of_json_ok: "entry_of_json x = Some e \<Longrightarrow> entry_ok e"
  by (cases x) (clarsimp simp: entry_of_json_def entry_ok_def image_image case_prod_unfold split: if_splits)+

lemma history_read_back: "\<forall>e \<in> set h. entry_ok e \<Longrightarrow> history_of_json (JArr (map entry_json h)) = Some h"
  by (auto simp: history_of_json_def list_all_iff entry_read_back intro!: map_idI)

lemma history_of_json_ok:
  assumes "history_of_json v = Some h" and "e \<in> set h"
  shows "entry_ok e"
proof -
  from assms have "\<exists>x. entry_of_json x \<noteq> None \<and> e = the (entry_of_json x)"
    by (cases v) (fastforce simp: history_of_json_def list_all_iff simp del: not_None_eq split: if_splits)+
  then obtain x where "entry_of_json x \<noteq> None" "e = the (entry_of_json x)" by blast
  then show ?thesis using entry_of_json_ok [of x e] by auto
qed

lemma incident_values [simp]:
  "dict_get (incident_fields i) (u ''id'') = Some (JStr (in_id i))"
  "dict_get (incident_fields i) (u ''fingerprint'') = Some (JStr (in_fingerprint i))"
  "dict_get (incident_fields i) (u ''source'') = Some (JStr (in_source i))"
  "dict_get (incident_fields i) (u ''state'') = Some (JStr (in_state i))"
  "dict_get (incident_fields i) (u ''first_detected_at'') = Some (JStr (in_first i))"
  "dict_get (incident_fields i) (u ''last_detected_at'') = Some (JStr (in_last i))"
  "dict_get (incident_fields i) (u ''occurrence_count'') = Some (JInt (in_count i))"
  "dict_get (incident_fields i) (u ''message'') = Some (JStr (in_message i))"
  "dict_get (incident_fields i) (u ''history'') = Some (JArr (map entry_json (in_history i)))"
  by (simp_all add: incident_fields_def dict_get_def)

lemma incident_keys_written: "map fst (incident_fields i) = incident_keys"
  by (simp add: incident_fields_def incident_keys_def)

lemma incident_read_back: "incident_ok i \<Longrightarrow> incident_of_fields (incident_fields i) = Inr i"
  unfolding incident_of_fields_def incident_keys_written
  by (auto simp: json_text_def field_value_def incident_ok_def history_read_back)

lemma incident_of_fields_ok: "incident_of_fields p = Inr i \<Longrightarrow> incident_ok i"
  by (simp add: incident_of_fields_def split: if_splits option.splits json.splits)
    (auto simp: incident_ok_def history_of_json_ok)

lemma mapE_incidents:
  "\<forall>i \<in> set incs. incident_ok i \<Longrightarrow>
   mapE (\<lambda>x. case x of JObj kvs \<Rightarrow> incident_of_fields kvs | _ \<Rightarrow> Inl (ValueError txt_incident_rows))
     (map (\<lambda>i. JObj (incident_fields i)) incs) = Inr incs"
  by (induction incs) (simp_all add: incident_read_back)

lemma book_read_back: "book_ok incs \<Longrightarrow> incidents_of_file (Some (incidents_json incs)) = Inr incs"
  by (simp add: incidents_of_file_def incidents_json_def dict_get_def book_ok_def mapE_incidents list_all_iff)

lemma read_row:
  "(case x of JObj kvs \<Rightarrow> incident_of_fields kvs | _ \<Rightarrow> Inl (ValueError txt_incident_rows)) = Inr i \<Longrightarrow> incident_ok i"
  by (cases x) (auto intro: incident_of_fields_ok)

lemma incidents_of_file_ok:
  assumes "incidents_of_file file = Inr incs"
  shows "book_ok incs"
proof (cases "file")
  case (Some v)
  then obtain xs where read: "mapE (\<lambda>x. case x of JObj kvs \<Rightarrow> incident_of_fields kvs | _ \<Rightarrow> Inl (ValueError txt_incident_rows)) xs = Inr incs"
      and "distinct (map in_fingerprint incs)"
    using assms by (auto simp: incidents_of_file_def bindE_eq_Inr split: json.splits if_splits)
  moreover have "incident_ok i" if "i \<in> set incs" for i
    using read that read_row by (auto simp: mapE_Inr list_all2_conv_all_nth in_set_conv_nth)
  ultimately show ?thesis by (simp add: book_ok_def)
qed (use assms in \<open>simp add: incidents_of_file_def book_ok_def\<close>)

section \<open>What an operation does\<close>

text \<open>What is announced: nothing or one edge; a call that returns has announced what it was asked to.\<close>

definition told :: "bool \<Rightarrow> ustr \<times> bool \<Rightarrow> exn + bool \<Rightarrow> (ustr \<times> bool) list \<Rightarrow> bool" where
  "told notify edge r ps \<longleftrightarrow> ps \<in> {[], [edge]} \<and> (\<forall>b. r = Inr b \<longrightarrow> b \<and> ps = (if notify then [edge] else []))"

text \<open>The incidents after an operation, its answer and what it announces.\<close>

inductive rewrite :: "monitor_op \<Rightarrow> incident list \<Rightarrow> incident list \<Rightarrow> exn + bool \<Rightarrow> (ustr \<times> bool) list \<Rightarrow> bool" where
  again: "k < length incs \<Longrightarrow> in_state (incs ! k) = u ''open'' \<Longrightarrow> \<forall>b. r = Inr b \<longrightarrow> \<not> b \<Longrightarrow>
    rewrite (Report_failure (in_fingerprint (incs ! k)) src msg notify) incs (incs[k := seen_again t (incs ! k)]) r []"
| reopen: "k < length incs \<Longrightarrow> in_state (incs ! k) \<noteq> u ''open'' \<Longrightarrow> told notify (in_fingerprint (incs ! k), True) r ps \<Longrightarrow>
    rewrite (Report_failure (in_fingerprint (incs ! k)) src msg notify) incs (incs[k := reopened t msg (incs ! k)]) r ps"
| first: "f \<notin> in_fingerprint ` set incs \<Longrightarrow> told notify (f, True) r ps \<Longrightarrow>
    rewrite (Report_failure f src msg notify) incs (incs @ [new_incident iid f src t msg]) r ps"
| recovered: "k < length incs \<Longrightarrow> in_state (incs ! k) \<noteq> u ''resolved'' \<Longrightarrow> told notify (in_fingerprint (incs ! k), False) r ps \<Longrightarrow>
    rewrite (Report_recovery (in_fingerprint (incs ! k)) msg notify) incs
      (incs[k := (resolved_at t msg (incs ! k))\<lparr>in_message := msg\<rparr>]) r ps"
| resolved: "k < length incs \<Longrightarrow> in_state (incs ! k) \<noteq> u ''resolved'' \<Longrightarrow> \<forall>b. r = Inr b \<longrightarrow> b \<Longrightarrow>
    rewrite (Resolve_fingerprint (in_fingerprint (incs ! k))) incs (incs[k := resolved_at t msg (incs ! k)]) r []"
| deleted: "\<forall>b. r = Inr b \<longrightarrow> b \<Longrightarrow> rewrite (Delete_fingerprint f) incs (filter (\<lambda>i. in_fingerprint i \<noteq> f) incs) r []"

text \<open>The calls that rightly change nothing.\<close>

fun idle_call :: "monitor_op \<Rightarrow> incident list \<Rightarrow> bool" where
  "idle_call (Report_failure f src msg notify) incs = False"
| "idle_call (Report_recovery f msg notify) incs = (\<forall>i \<in> set incs. in_fingerprint i = f \<longrightarrow> in_state i = u ''resolved'')"
| "idle_call (Resolve_fingerprint f) incs = False"
| "idle_call (Delete_fingerprint f) incs = (f \<notin> in_fingerprint ` set incs)"
| "idle_call (List_incidents st) incs = True"
| "idle_call (Get_fingerprint f) incs = True"

definition edge_of :: "publication \<Rightarrow> ustr \<times> bool" where
  "edge_of p = (pb_source p, pb_event p = u ''proactive.incident.opened'')"

definition outcome :: "monitor_op \<Rightarrow> monitor \<Rightarrow> (exn + bool) \<times> monitor \<Rightarrow> bool" where
  "outcome op m x \<longleftrightarrow> (case x of (r, m') \<Rightarrow>
     (mo_file m' = mo_file m \<and> mo_published m' = mo_published m \<and>
        (\<forall>b. r = Inr b \<longrightarrow> \<not> b \<and> (\<exists>incs. incidents_of_file (mo_file m) = Inr incs \<and> idle_call op incs)))
   \<or> (\<exists>incs incs' ps. incidents_of_file (mo_file m) = Inr incs \<and> mo_file m' = Some (incidents_json incs')
        \<and> rewrite op incs incs' r (map edge_of ps) \<and> mo_published m' = mo_published m @ ps))"

lemma index_for_Some:
  assumes "index_for_fingerprint incs f = Some k"
  shows "k < length incs" and "in_fingerprint (incs ! k) = f"
  using assms nth_length_takeWhile [of "\<lambda>i. in_fingerprint i \<noteq> f" incs]
  by (auto simp: index_for_fingerprint_def Let_def split: if_splits)

lemma index_for_None: "index_for_fingerprint incs f = None \<Longrightarrow> f \<notin> in_fingerprint ` set incs"
proof -
  assume "index_for_fingerprint incs f = None"
  then have "\<not> length (takeWhile (\<lambda>i. in_fingerprint i \<noteq> f) incs) < length incs"
    by (auto simp: index_for_fingerprint_def Let_def split: if_splits)
  then have "takeWhile (\<lambda>i. in_fingerprint i \<noteq> f) incs = incs"
    using takeWhile_eq_take [of "\<lambda>i. in_fingerprint i \<noteq> f" incs] by simp
  then show ?thesis by (auto simp: takeWhile_eq_all_conv)
qed

definition untouched :: "(monitor, 'a) prog \<Rightarrow> bool" where
  "untouched g \<longleftrightarrow> (\<forall>m. mo_file (snd (g m)) = mo_file m \<and> mo_published (snd (g m)) = mo_published m)"

lemma untouched_told: "untouched (notify_state_changed cfg)"
  by (simp add: untouched_def notify_state_changed_def)

lemma untouched_then: "untouched g \<Longrightarrow> (\<And>a. untouched (h a)) \<Longrightarrow> untouched (seq g h)"
  unfolding untouched_def seq_def by (auto split: prod.split sum.split) (metis snd_conv)+

lemma untouched_basic: "untouched (ret a)" "untouched (raise e)" "untouched (lift r)" "untouched incident_now" "untouched new_incident_id"
  "untouched load_incidents"
  by (simp_all add: untouched_def ret_def raise_def lift_def incident_now_def new_incident_id_def load_incidents_def)

lemmas untouched_rules = untouched_told untouched_then untouched_basic

lemma untouched_finish: "untouched (finish_report cfg err)"
  unfolding finish_report_def by (cases err) (auto intro!: untouched_rules)

definition answers :: "bool \<Rightarrow> (monitor, bool) prog \<Rightarrow> bool" where
  "answers x g \<longleftrightarrow> untouched g \<and> (\<forall>m b. fst (g m) = Inr b \<longrightarrow> b = x)"

lemma answers_ret: "answers x (ret x)"
  by (simp add: answers_def untouched_basic ret_def)

lemma answers_then:
  assumes "untouched g" and "\<And>a. answers x (h a)"
  shows "answers x (seq g h)"
proof -
  have "b = x" if "fst (seq g h m) = Inr b" for m b
    using that assms(2) by (cases "g m"; cases "fst (g m)") (auto simp: seq_def answers_def)
  moreover have "untouched (seq g h)" using assms by (intro untouched_then) (simp_all add: answers_def)
  ultimately show ?thesis by (auto simp: answers_def)
qed

lemma outcome_error [simp]: "outcome op m (Inl e, m)"
  by (simp add: outcome_def)

lemma outcome_raised: "untouched g \<Longrightarrow> (\<And>b. fst (g m) \<noteq> Inr b) \<Longrightarrow> outcome op m (g m)"
  by (auto simp: outcome_def untouched_def split: prod.split) (metis fst_conv snd_conv)+

lemma outcome_idle: "answers False g \<Longrightarrow> incidents_of_file (mo_file m) = Inr incs \<Longrightarrow> idle_call op incs \<Longrightarrow> outcome op m (g m)"
  by (auto simp: outcome_def answers_def untouched_def split: prod.split) (metis fst_conv snd_conv)+

lemma outcome_seq:
  assumes "untouched g" and "\<And>a m1. mo_file m1 = mo_file m \<Longrightarrow> mo_published m1 = mo_published m \<Longrightarrow> outcome op m (h a m1)"
  shows "outcome op m (seq g h m)"
proof (cases "g m")
  case (Pair r m1)
  then have "mo_file m1 = mo_file m" "mo_published m1 = mo_published m" using assms(1) by (auto simp: untouched_def) (metis snd_conv)+
  then show ?thesis using assms(2) Pair by (cases r) (simp_all add: seq_def outcome_def)
qed

lemma outcome_loaded:
  assumes "\<And>incs. incidents_of_file (mo_file m) = Inr incs \<Longrightarrow> outcome op m (h incs m)"
  shows "outcome op m (seq load_incidents h m)"
  using assms by (cases "incidents_of_file (mo_file m)") (simp_all add: seq_def load_incidents_def outcome_def)

text \<open>A write, and what is announced after it.\<close>

lemma outcome_saved:
  assumes "incidents_of_file (mo_file m) = Inr incs" and "\<And>r. \<forall>b. r = Inr b \<longrightarrow> b = x \<Longrightarrow> rewrite op incs incs' r []" and "answers x g"
    and "mo_file m1 = mo_file m" and "mo_published m1 = mo_published m"
  shows "outcome op m (seq (save_incidents incs') (\<lambda>_. g) m1)"
proof (cases "mo_write_errors m1 0")
  case (Some e)
  then show ?thesis using assms(4,5) by (simp add: seq_def save_incidents_def outcome_def)
next
  case None
  let ?m2 = "m1\<lparr>mo_write_errors := tape_tl (mo_write_errors m1), mo_file := Some (incidents_json incs')\<rparr>"
  obtain r m3 where g: "g ?m2 = (r, m3)" by fastforce
  then have "mo_file m3 = Some (incidents_json incs')" "mo_published m3 = mo_published m @ []" "\<forall>b. r = Inr b \<longrightarrow> b = x"
    using assms(3,5) unfolding answers_def untouched_def by (metis (no_types, lifting) fst_conv snd_conv append_Nil2
      monitor.select_convs(1,7) monitor.surjective monitor.update_convs(1,4))+
  with assms(1,2) None g show ?thesis by (auto simp: seq_def save_incidents_def outcome_def)
qed

lemma outcome_announced:
  assumes "incidents_of_file (mo_file m) = Inr incs"
    and "\<And>r ps. told notify (f, u event = u ''proactive.incident.opened'') r ps \<Longrightarrow> rewrite op incs incs' r ps"
    and "mo_file m1 = mo_file m" and "mo_published m1 = mo_published m"
  shows "outcome op m (seq (save_incidents incs') (\<lambda>_. seq (try_publish cfg notify event content f) (finish_report cfg)) m1)"
proof (cases "mo_write_errors m1 0")
  case (Some e)
  then show ?thesis using assms(3,4) by (simp add: seq_def save_incidents_def outcome_def)
next
  case None
  let ?edge = "(f, u event = u ''proactive.incident.opened'')"
  define m2 where "m2 = m1\<lparr>mo_write_errors := tape_tl (mo_write_errors m1), mo_file := Some (incidents_json incs')\<rparr>"
  have m2: "mo_file m2 = Some (incidents_json incs')" "mo_published m2 = mo_published m" using assms(4) by (simp_all add: m2_def)
  have "\<exists>r m4 ps. seq (try_publish cfg notify event content f) (finish_report cfg) m2 = (r, m4) \<and> mo_file m4 = Some (incidents_json incs')
      \<and> mo_published m4 = mo_published m @ ps \<and> told notify ?edge r (map edge_of ps)"
  proof (cases "notify \<and> mo_publish_errors m2 0 = None")
    case True
    then show ?thesis using m2
      by (auto simp: try_publish_def publish_def finish_report_def notify_state_changed_def prog_simps Let_def told_def edge_of_def
        split: option.split)
  next
    case False
    then show ?thesis using m2
      by (auto simp: try_publish_def publish_def finish_report_def notify_state_changed_def prog_simps Let_def told_def
        split: option.split)
  qed
  moreover have "seq (save_incidents incs') (\<lambda>_. seq (try_publish cfg notify event content f) (finish_report cfg)) m1
      = seq (try_publish cfg notify event content f) (finish_report cfg) m2"
    using None by (simp add: m2_def save_incidents_def seq_def [of "save_incidents incs'"])
  ultimately show ?thesis using assms(1,2) by (auto simp: outcome_def)
qed

lemma answers_told: "answers x (seq (notify_state_changed cfg) (\<lambda>_. ret x))"
  by (intro answers_then untouched_told answers_ret)

lemma outcome_failure: "outcome (Report_failure f src message notify) m (report_failure cfg f src message notify m)"
  unfolding report_failure_def
proof (rule outcome_loaded, rule outcome_seq [OF untouched_basic(4)])
  fix incs now and m1 :: monitor
  assume incs: "incidents_of_file (mo_file m) = Inr incs" and m1: "mo_file m1 = mo_file m" "mo_published m1 = mo_published m"
  let ?announce = "\<lambda>incs'. seq (save_incidents incs') (\<lambda>_.
    seq (try_publish cfg notify ''proactive.incident.opened'' (txt_incident_opened @ message) f) (finish_report cfg))"
  show "outcome (Report_failure f src message notify) m ((let announce = ?announce in case index_for_fingerprint incs f of
         Some k \<Rightarrow>
           (if in_state (incs ! k) = u ''open'' then
              seq (save_incidents (incs[k := seen_again now (incs ! k)])) (\<lambda>_. seq (notify_state_changed cfg) (\<lambda>_. ret False))
            else announce (incs[k := reopened now message (incs ! k)]))
       | None \<Rightarrow> seq new_incident_id (\<lambda>iid. announce (incs @ [new_incident iid f src now message]))) m1)"
  proof (cases "index_for_fingerprint incs f")
    case None
    have "outcome (Report_failure f src message notify) m (?announce (incs @ [new_incident iid f src now message]) m2)"
      if "mo_file m2 = mo_file m" "mo_published m2 = mo_published m" for iid m2
      by (rule outcome_announced [OF incs _ that], rule rewrite.first [OF index_for_None [OF None]]) simp
    then show ?thesis using m1 by (simp add: None seq_def [of new_incident_id] new_incident_id_def)
  next
    case (Some k)
    note k = index_for_Some [OF this]
    show ?thesis
    proof (cases "in_state (incs ! k) = u ''open''")
      case True
      have "outcome (Report_failure f src message notify) m
          (seq (save_incidents (incs[k := seen_again now (incs ! k)])) (\<lambda>_. seq (notify_state_changed cfg) (\<lambda>_. ret False)) m1)"
        by (rule outcome_saved [OF incs _ answers_told m1]) (use rewrite.again [OF k(1) True] k(2) in auto)
      with True show ?thesis by (simp add: Some)
    next
      case False
      have "outcome (Report_failure f src message notify) m (?announce (incs[k := reopened now message (incs ! k)]) m1)"
        by (rule outcome_announced [OF incs _ m1]) (use rewrite.reopen [OF k(1) False] k(2) in auto)
      with False show ?thesis by (simp add: Some)
    qed
  qed
qed

lemma outcome_recovery: "outcome (Report_recovery f message notify) m (report_recovery cfg f message notify m)"
  unfolding report_recovery_def
proof (rule outcome_loaded)
  fix incs
  assume incs: "incidents_of_file (mo_file m) = Inr incs"
  show "outcome (Report_recovery f message notify) m ((case index_for_fingerprint incs f of
       None \<Rightarrow> ret False
     | Some k \<Rightarrow>
         (if in_state (incs ! k) = u ''resolved'' then ret False
          else seq incident_now (\<lambda>now.
            seq (save_incidents (incs[k := (resolved_at now message (incs ! k))\<lparr>in_message := message\<rparr>])) (\<lambda>_.
            seq (try_publish cfg notify ''proactive.incident.resolved'' (txt_incident_resolved @ message) f) (finish_report cfg))))) m)"
  proof (cases "index_for_fingerprint incs f")
    case None
    then show ?thesis using index_for_None [OF None] by (auto intro!: outcome_idle [OF answers_ret incs])
  next
    case (Some k)
    note k = index_for_Some [OF this]
    show ?thesis
    proof (cases "in_state (incs ! k) = u ''resolved''")
      case True
      have "in_state i = u ''resolved''" if "i \<in> set incs" "in_fingerprint i = f" for i
        using incidents_of_file_ok [OF incs] that k True
        by (metis book_ok_def distinct_map inj_on_def nth_mem)
      then show ?thesis using True by (auto simp: Some intro!: outcome_idle [OF answers_ret incs])
    next
      case False
      have "outcome (Report_recovery f message notify) m (seq incident_now (\<lambda>now.
          seq (save_incidents (incs[k := (resolved_at now message (incs ! k))\<lparr>in_message := message\<rparr>])) (\<lambda>_.
          seq (try_publish cfg notify ''proactive.incident.resolved'' (txt_incident_resolved @ message) f) (finish_report cfg))) m)"
        by (rule outcome_seq [OF untouched_basic(4)], rule outcome_announced [OF incs])
          (use rewrite.recovered [OF k(1) False] k(2) in auto)
      with False show ?thesis by (simp add: Some)
    qed
  qed
qed

lemma outcome_resolve: "outcome (Resolve_fingerprint f) m (seq (resolve_by_fingerprint cfg f) (\<lambda>_. ret True) m)"
  unfolding resolve_by_fingerprint_def seq_assoc
proof (rule outcome_loaded)
  fix incs
  assume incs: "incidents_of_file (mo_file m) = Inr incs"
  show "outcome (Resolve_fingerprint f) m (seq (case index_for_fingerprint incs f of
       None \<Rightarrow> raise (ValueError (txt_incident_missing @ f))
     | Some k \<Rightarrow>
         (if in_state (incs ! k) = u ''resolved'' then raise (ValueError (txt_incident_closed @ f))
          else seq incident_now (\<lambda>now.
            let i = resolved_at now txt_incident_by_user (incs ! k) in
            seq (save_incidents (incs[k := i])) (\<lambda>_.
            seq (lift (incident_of_fields (incident_fields i))) (\<lambda>r.
            seq (notify_state_changed cfg) (\<lambda>_. ret r)))))) (\<lambda>_. ret True) m)"
  proof (cases "index_for_fingerprint incs f")
    case (Some k)
    note k = index_for_Some [OF this]
    show ?thesis
    proof (cases "in_state (incs ! k) = u ''resolved''")
      case False
      have rest: "answers True (seq (lift (incident_of_fields (incident_fields i))) (\<lambda>r. seq (notify_state_changed cfg) (\<lambda>_. seq (ret r) (\<lambda>_. ret True))))"
        for i by (simp, intro answers_then answers_told untouched_basic)
      have "outcome (Resolve_fingerprint f) m (seq incident_now (\<lambda>now.
            seq (save_incidents (incs[k := resolved_at now txt_incident_by_user (incs ! k)])) (\<lambda>_.
            seq (lift (incident_of_fields (incident_fields (resolved_at now txt_incident_by_user (incs ! k))))) (\<lambda>r.
            seq (notify_state_changed cfg) (\<lambda>_. seq (ret r) (\<lambda>_. ret True))))) m)"
        by (rule outcome_seq [OF untouched_basic(4)], rule outcome_saved [OF incs _ rest])
          (use rewrite.resolved [OF k(1) False] k(2) in auto)
      with False show ?thesis by (simp add: Some Let_def seq_assoc)
    qed (simp add: Some raise_def)
  qed (simp add: raise_def)
qed

lemma outcome_delete: "outcome (Delete_fingerprint f) m (seq (delete_by_fingerprint cfg f) (\<lambda>n. ret (n \<noteq> 0)) m)"
  unfolding delete_by_fingerprint_def Let_def seq_assoc
proof (rule outcome_loaded)
  fix incs
  assume incs: "incidents_of_file (mo_file m) = Inr incs"
  let ?kept = "filter (\<lambda>i. in_fingerprint i \<noteq> f) incs"
  show "outcome (Delete_fingerprint f) m (seq (if length incs - length ?kept \<noteq> 0
      then seq (save_incidents ?kept) (\<lambda>_. seq (notify_state_changed cfg) (\<lambda>_. ret (length incs - length ?kept)))
      else ret (length incs - length ?kept)) (\<lambda>n. ret (n \<noteq> 0)) m)"
  proof (cases "length incs - length ?kept = 0")
    case True
    then have "idle_call (Delete_fingerprint f) incs" using length_filter_less [of _ incs "\<lambda>i. in_fingerprint i \<noteq> f"] by auto
    then have "outcome (Delete_fingerprint f) m (ret False m)" by (rule outcome_idle [OF answers_ret incs])
    with True show ?thesis by simp
  next
    case False
    have "outcome (Delete_fingerprint f) m (seq (save_incidents ?kept) (\<lambda>_. seq (notify_state_changed cfg) (\<lambda>_. ret True)) m)"
      by (rule outcome_saved [OF incs _ answers_told]) (auto intro: rewrite.deleted)
    with False show ?thesis by (simp add: seq_assoc)
  qed
qed

lemma outcome_list: "outcome (List_incidents st) m (seq (list_incidents st) (\<lambda>_. ret False) m)"
proof (cases "st \<in> {None, Some (u ''open''), Some (u ''resolved'')}")
  case True
  show ?thesis unfolding list_incidents_def
    by (simp only: True not_True_eq_False if_False seq_assoc, rule outcome_loaded, rule outcome_idle)
      (auto intro!: answers_then answers_ret untouched_rules simp del: seq_ret)
next
  case False
  then show ?thesis by (simp add: list_incidents_def raise_def)
qed

lemma outcome_get: "outcome (Get_fingerprint f) m (seq (get_by_fingerprint f) (\<lambda>_. ret False) m)"
  unfolding get_by_fingerprint_def seq_assoc
  by (rule outcome_loaded, rule outcome_idle)
    (auto intro!: answers_then answers_ret untouched_rules simp: seq_assoc split: option.split)

lemma outcome_run: "outcome op m (monitor_run cfg op m)"
  unfolding monitor_run_def
  by (cases op) (simp_all only: monitor_op.case outcome_failure outcome_recovery outcome_resolve outcome_delete outcome_list outcome_get)


section \<open>Edges\<close>

text \<open>The fingerprints that are open, and the edges announced so far: \<open>True\<close> for an incident that opens. An abstract
  monitor knows nothing else. A call that raises may have done its work before, or nothing.\<close>

definition opens :: "incident list \<Rightarrow> ustr set" where
  "opens incs = in_fingerprint ` {i \<in> set incs. in_state i = u ''open''}"

type_synonym edges = "ustr set \<times> (ustr \<times> bool) list"

definition edges :: "monitor \<Rightarrow> edges" where
  "edges m = (opens (book m), map edge_of (mo_published m))"

inductive edge_move :: "monitor_op \<Rightarrow> edges \<Rightarrow> exn + bool \<Rightarrow> edges \<Rightarrow> bool" where
  raised: "edge_move op (O', P) (Inl e) (O', P)"
| still_open: "f \<in> O' \<Longrightarrow> edge_move (Report_failure f src msg notify) (O', P) (Inr False) (O', P)"
| opened: "f \<notin> O' \<Longrightarrow> told notify (f, True) r ps \<Longrightarrow>
    edge_move (Report_failure f src msg notify) (O', P) r (insert f O', P @ ps)"
| not_open: "f \<notin> O' \<Longrightarrow> edge_move (Report_recovery f msg notify) (O', P) (Inr False) (O', P)"
| closed: "f \<in> O' \<Longrightarrow> told notify (f, False) r ps \<Longrightarrow>
    edge_move (Report_recovery f msg notify) (O', P) r (O' - {f}, P @ ps)"
| by_user: "f \<in> O' \<Longrightarrow> \<forall>b. r = Inr b \<longrightarrow> b \<Longrightarrow> edge_move (Resolve_fingerprint f) (O', P) r (O' - {f}, P)"
| deleted: "edge_move (Delete_fingerprint f) (O', P) r (O' - {f}, P)"
| listed: "edge_move (List_incidents st) (O', P) r (O', P)"
| got: "edge_move (Get_fingerprint f) (O', P) r (O', P)"

lemma in_opens: "f \<in> opens incs \<longleftrightarrow> (\<exists>k < length incs. in_fingerprint (incs ! k) = f \<and> in_state (incs ! k) = u ''open'')"
  by (auto simp: opens_def in_set_conv_nth image_iff)

lemma book_state: "book_ok incs \<Longrightarrow> k < length incs \<Longrightarrow> in_state (incs ! k) \<in> {u ''open'', u ''resolved''}"
  by (simp add: book_ok_def incident_ok_def)

lemma same_fingerprint:
  "book_ok incs \<Longrightarrow> j < length incs \<Longrightarrow> k < length incs \<Longrightarrow> in_fingerprint (incs ! j) = in_fingerprint (incs ! k) \<longleftrightarrow> j = k"
  using nth_eq_iff_index_eq [of "map in_fingerprint incs" j k] by (simp add: book_ok_def)

lemma open_at: "book_ok incs \<Longrightarrow> k < length incs \<Longrightarrow> in_fingerprint (incs ! k) \<in> opens incs \<longleftrightarrow> in_state (incs ! k) = u ''open''"
  by (auto simp: in_opens same_fingerprint)

lemma opens_update:
  assumes "book_ok incs" and "k < length incs" and "in_fingerprint i = in_fingerprint (incs ! k)"
  shows "opens (incs[k := i]) = (if in_state i = u ''open'' then insert (in_fingerprint i) (opens incs) else opens incs - {in_fingerprint i})"
    (is "?l = ?r")
proof -
  have "f \<in> ?l \<longleftrightarrow> f \<in> ?r" for f
    using assms by (auto simp: in_opens nth_list_update same_fingerprint)
  then show ?thesis by blast
qed

lemma opens_append: "opens (incs @ [i]) = (if in_state i = u ''open'' then insert (in_fingerprint i) (opens incs) else opens incs)"
  by (auto simp: opens_def)

lemma opens_filter: "opens (filter (\<lambda>i. in_fingerprint i \<noteq> f) incs) = opens incs - {f}"
  by (auto simp: opens_def)

lemma rewrite_edges:
  assumes "rewrite op incs incs' r ps" and "book_ok incs"
  shows "edge_move op (opens incs, P) r (opens incs', P @ ps)"
  using assms
proof (cases rule: rewrite.cases)
  case (again k src msg notify t)
  then have "opens incs' = opens incs" "in_fingerprint (incs ! k) \<in> opens incs"
    using assms(2) by (auto simp: opens_update seen_again_def open_at)
  then show ?thesis using again by (cases r) (auto intro: edge_move.raised edge_move.still_open)
next
  case (reopen k notify src msg t)
  then show ?thesis using assms(2) edge_move.opened [of "in_fingerprint (incs ! k)" "opens incs" notify r ps]
    by (simp add: opens_update reopened_def open_at)
next
  case (first f notify src msg iid t)
  then have "f \<notin> opens incs" by (auto simp: opens_def)
  then show ?thesis using first edge_move.opened [of f "opens incs" notify r ps] by (simp add: opens_append new_incident_def)
next
  case (recovered k notify msg t)
  then have "in_fingerprint (incs ! k) \<in> opens incs" using assms(2) book_state [of incs k] by (auto simp: open_at)
  then show ?thesis using recovered assms(2) edge_move.closed [of "in_fingerprint (incs ! k)" "opens incs" notify r ps]
    by (simp add: opens_update resolved_at_def)
next
  case (resolved k t msg)
  then have "in_fingerprint (incs ! k) \<in> opens incs" using assms(2) book_state [of incs k] by (auto simp: open_at)
  then show ?thesis using resolved assms(2) edge_move.by_user [of "in_fingerprint (incs ! k)" "opens incs" r]
    by (simp add: opens_update resolved_at_def)
next
  case (deleted f)
  then show ?thesis using edge_move.deleted by (simp add: opens_filter)
qed

lemma rewrite_book:
  assumes "rewrite op incs incs' r ps" and "book_ok incs"
  shows "book_ok incs'"
proof -
  have update: "book_ok (incs[k := i])" if "k < length incs" "in_fingerprint i = in_fingerprint (incs ! k)" "incident_ok i" for k i
  proof -
    have "map in_fingerprint (incs[k := i]) = map in_fingerprint incs"
      using that(1,2) list_update_id [of "map in_fingerprint incs" k] by (simp add: map_update)
    then show ?thesis using assms(2) that set_update_subset_insert [of incs k i] by (auto simp: book_ok_def)
  qed
  have ok: "k < length incs \<Longrightarrow> incident_ok (incs ! k)" for k using assms(2) by (simp add: book_ok_def)
  from assms(1) show ?thesis
  proof (cases rule: rewrite.cases)
    case (again k src msg notify t)
    then show ?thesis using ok [of k] by (auto intro!: update simp: seen_again_def incident_ok_def)
  next
    case (reopen k notify src msg t)
    then show ?thesis using ok [of k] by (auto intro!: update simp: reopened_def incident_ok_def entry_ok_def history_entry_def)
  next
    case (first f notify src msg iid t)
    then show ?thesis using assms(2) by (auto simp: book_ok_def new_incident_def incident_ok_def entry_ok_def history_entry_def)
  next
    case (recovered k notify msg t)
    then show ?thesis using ok [of k] by (auto intro!: update simp: resolved_at_def incident_ok_def entry_ok_def history_entry_def)
  next
    case (resolved k t msg)
    then show ?thesis using ok [of k] by (auto intro!: update simp: resolved_at_def incident_ok_def entry_ok_def history_entry_def)
  next
    case (deleted f)
    then show ?thesis using assms(2) by (auto simp: book_ok_def distinct_map_filter)
  qed
qed

text \<open>The incidents on file, and what the next call does with them.\<close>

lemma monitor_run_cases:
  assumes "monitor_run cfg op m = (r, m')"
  obtains (same) "mo_file m' = mo_file m" "mo_published m' = mo_published m"
      "\<forall>b. r = Inr b \<longrightarrow> \<not> b \<and> idle_call op (book m)"
  | (written) ps where "rewrite op (book m) (book m') r (map edge_of ps)" "book_ok (book m)" "book_ok (book m')"
      "mo_published m' = mo_published m @ ps"
proof -
  from outcome_run [of op m cfg] assms
  consider "mo_file m' = mo_file m" "mo_published m' = mo_published m"
      "\<forall>b. r = Inr b \<longrightarrow> \<not> b \<and> (\<exists>incs. incidents_of_file (mo_file m) = Inr incs \<and> idle_call op incs)"
    | incs incs' ps where "incidents_of_file (mo_file m) = Inr incs" "mo_file m' = Some (incidents_json incs')"
      "rewrite op incs incs' r (map edge_of ps)" "mo_published m' = mo_published m @ ps"
    by (auto simp: outcome_def)
  then show thesis
  proof cases
    case 1
    have "\<not> b \<and> idle_call op (book m)" if "r = Inr b" for b using 1(3) that by (auto simp: book_def)
    then show ?thesis by (intro same [OF 1(1,2)] allI impI)
  next
    case 2
    have ok: "book_ok incs" using 2(1) by (rule incidents_of_file_ok)
    note ok' = rewrite_book [OF 2(3) ok]
    have "book m = incs" "book m' = incs'" using 2(1,2) book_read_back [OF ok'] by (simp_all add: book_def)
    with 2 ok ok' show ?thesis by (intro written [of ps]) simp_all
  qed
qed


lemma idle_edges:
  assumes "\<forall>b. r = Inr b \<longrightarrow> \<not> b \<and> idle_call op incs"
  shows "edge_move op (opens incs, P) r (opens incs, P)"
proof (cases r)
  case (Inl e)
  then show ?thesis by (simp add: edge_move.raised)
next
  case (Inr b)
  with assms have idle: "r = Inr False" "idle_call op incs" by simp_all
  show ?thesis
  proof (cases op)
    case (Report_recovery f msg notify)
    then have "f \<notin> opens incs" using idle(2) by (auto simp: opens_def)
    then show ?thesis using Report_recovery idle(1) by (simp add: edge_move.not_open)
  next
    case (Delete_fingerprint f)
    then have "opens incs - {f} = opens incs" using idle(2) by (auto simp: opens_def)
    then show ?thesis using Delete_fingerprint edge_move.deleted [of f "opens incs" P r] by simp
  qed (use idle in \<open>simp_all add: edge_move.listed edge_move.got\<close>)
qed

text \<open>C38: The monitor is an edge detector: every call, whatever the file system, the publisher and the observer do, is a
  move of the abstract monitor that knows only which fingerprints are open. A failure of an open
  fingerprint and a recovery of one that is not announce nothing; an opening or closing announces that edge
  at most once, and exactly once if the call returns and was asked to announce.\<close>

theorem monitor_refines_edges:
  "edge_move op (edges m) (fst (monitor_run cfg op m)) (edges (monitor_after cfg op m))"
proof -
  obtain r m' where run: "monitor_run cfg op m = (r, m')" by fastforce
  then have "edge_move op (edges m) r (edges m')"
  proof (cases rule: monitor_run_cases)
    case same
    then have "edges m' = edges m" by (simp add: edges_def book_def)
    then show ?thesis using idle_edges [OF same(3)] by (simp add: edges_def)
  next
    case (written ps)
    then show ?thesis using rewrite_edges [of op "book m" "book m'" r "map edge_of ps" "map edge_of (mo_published m)"]
      by (simp add: edges_def)
  qed
  then show ?thesis using run by (simp add: monitor_after_def)
qed

section \<open>Histories\<close>

text \<open>The history of an incident: it opens first and then closes and opens in turn, up to the present state; the
  count covers every opening.\<close>

definition history_alternates :: "incident \<Rightarrow> bool" where
  "history_alternates i \<longleftrightarrow> (let h = in_history i in h \<noteq> []
     \<and> (\<forall>k < length h. dict_get (h ! k) (u ''state'') = Some (if even k then u ''open'' else u ''resolved''))
     \<and> in_state i = (if odd (length h) then u ''open'' else u ''resolved'')
     \<and> int (length h) \<le> 2 * in_count i
     \<and> dict_get (hd h) (u ''occurred_at'') = Some (in_first i))"

lemma entry_values: "dict_get (history_entry st t msg) (u ''state'') = Some (u st)" "dict_get (history_entry st t msg) (u ''occurred_at'') = Some t"
  by (simp_all add: history_entry_def dict_get_def)

lemma alternates_new: "history_alternates (new_incident iid f src t msg)"
  by (simp add: history_alternates_def new_incident_def entry_values)

lemma alternates_again: "history_alternates i \<Longrightarrow> history_alternates (seen_again t i)"
  by (simp add: history_alternates_def seen_again_def Let_def)

lemma alternates_reopened: "history_alternates i \<Longrightarrow> in_state i \<noteq> u ''open'' \<Longrightarrow> history_alternates (reopened t msg i)"
  by (auto simp: history_alternates_def reopened_def Let_def nth_append less_Suc_eq entry_values split: if_splits)

lemma odd_below: "odd n \<Longrightarrow> int n \<le> 2 * c \<Longrightarrow> 1 + int n \<le> 2 * c"
  by presburger

lemma alternates_resolved:
  "history_alternates i \<Longrightarrow> in_state i \<noteq> u ''resolved'' \<Longrightarrow> history_alternates (resolved_at t msg i)"
  by (auto simp: history_alternates_def resolved_at_def Let_def nth_append less_Suc_eq entry_values odd_below split: if_splits)

lemma alternates_message: "history_alternates (i\<lparr>in_message := msg\<rparr>) = history_alternates i"
  by (simp add: history_alternates_def)

lemma rewrite_alternates:
  assumes "rewrite op incs incs' r ps" and "\<forall>i \<in> set incs. history_alternates i"
  shows "\<forall>i \<in> set incs'. history_alternates i"
proof -
  have update: "\<forall>i \<in> set (incs[k := i]). history_alternates i" if "history_alternates i" for k i
    using assms(2) that set_update_subset_insert [of incs k i] by auto
  have old: "k < length incs \<Longrightarrow> history_alternates (incs ! k)" for k using assms(2) by simp
  from assms(1) show ?thesis
  proof (cases rule: rewrite.cases)
    case (first f notify src msg iid t)
    then show ?thesis using assms(2) by (auto simp: alternates_new)
  next
    case (deleted f)
    then show ?thesis using assms(2) by auto
  next
    case (again k src msg notify t)
    then show ?thesis using update [OF alternates_again [OF old]] by simp
  next
    case (reopen k notify src msg t)
    then show ?thesis using update [OF alternates_reopened [OF old]] by simp
  next
    case (recovered k notify msg t)
    then have "history_alternates ((resolved_at t msg (incs ! k))\<lparr>in_message := msg\<rparr>)"
      by (simp add: alternates_message alternates_resolved old)
    then show ?thesis using recovered update by simp
  next
    case (resolved k t msg)
    then show ?thesis using update [OF alternates_resolved [OF old]] by simp
  qed
qed

text \<open>C39: Whatever calls are made and whatever fails on the way, from an empty file on there is at most one incident
  per fingerprint, each with a history that opens and closes in turn and ends in the present state.\<close>

theorem incident_histories_alternate:
  assumes "mo_file m = None"
  shows "distinct (map in_fingerprint (book (fold (monitor_after cfg) ops m)))
     \<and> (\<forall>i \<in> set (book (fold (monitor_after cfg) ops m)). incident_ok i \<and> history_alternates i)"
proof -
  let ?good = "\<lambda>incs. book_ok incs \<and> (\<forall>i \<in> set incs. history_alternates i)"
  have step: "?good (book (monitor_after cfg op m))" if good: "?good (book m)" for m op
  proof -
    obtain r where "monitor_run cfg op m = (r, monitor_after cfg op m)" by (cases "monitor_run cfg op m") (simp add: monitor_after_def)
    then show ?thesis
    proof (cases rule: monitor_run_cases)
      case same
      then show ?thesis using good by (simp add: book_def)
    next
      case (written ps)
      then show ?thesis using good rewrite_alternates by blast
    qed
  qed
  have "?good (book m) \<Longrightarrow> ?good (book (fold (monitor_after cfg) ops m))"
  proof (induction ops arbitrary: m)
    case (Cons op ops)
    from Cons.IH [OF step [OF Cons.prems]] show ?case by simp
  qed simp
  moreover have "?good (book m)" using assms by (simp add: book_def incidents_of_file_def book_ok_def)
  ultimately show ?thesis by (simp add: book_ok_def)
qed

section \<open>A witness\<close>

definition demo_monitor :: monitor where
  "demo_monitor = \<lparr>mo_file = None, mo_times = (\<lambda>i. dec i), mo_uuids = (\<lambda>i. dec i), mo_write_errors = (\<lambda>_. None),
     mo_publish_errors = (\<lambda>_. None), mo_observer_errors = (\<lambda>_. None), mo_published = [], mo_signals = 0\<rparr>"

definition demo_calls_made :: "monitor_op list" where
  "demo_calls_made = [Report_failure (u ''a'') (u ''cron'') (u ''x'') True, Report_recovery (u ''a'') (u ''y'') True]"

definition quiet_monitor :: monitor_cfg where
  "quiet_monitor = \<lparr>mf_principal = None, mf_observed = False\<rparr>"

lemmas monitor_simps = monitor_after_def monitor_run_def report_failure_def report_recovery_def load_incidents_def incident_now_def
  new_incident_id_def save_incidents_def try_publish_def publish_def finish_report_def notify_state_changed_def prog_simps Let_def
  index_for_fingerprint_def

lemma demo_calls_file:
  "mo_file (fold (monitor_after quiet_monitor) demo_calls_made demo_monitor) = Some (incidents_json
     [(resolved_at (dec 1) (u ''y'') (new_incident (u ''incident_'' @ dec 0) (u ''a'') (u ''cron'') (dec 0) (u ''x'')))\<lparr>in_message := u ''y''\<rparr>])"
proof -
  let ?i = "new_incident (u ''incident_'' @ dec 0) (u ''a'') (u ''cron'') (dec 0) (u ''x'')"
  have "incidents_of_file (Some (incidents_json [?i])) = Inr [?i]"
    by (rule book_read_back) (simp add: book_ok_def incident_ok_def new_incident_def entry_ok_def history_entry_def)
  moreover have "in_fingerprint ?i = u ''a''" "in_state ?i = u ''open''" by (simp_all add: new_incident_def)
  moreover have "incidents_of_file None = Inr []" by (simp add: incidents_of_file_def)
  ultimately show ?thesis
    by (simp add: demo_calls_made_def demo_monitor_def quiet_monitor_def monitor_simps del: dec.simps)
qed

theorem incident_histories_alternate_witness:
  "map (\<lambda>i. map (\<lambda>e. dict_get e (u ''state'')) (in_history i)) (book (fold (monitor_after quiet_monitor) demo_calls_made demo_monitor))
       = [[Some (u ''open''), Some (u ''resolved'')]]
     \<and> list_all history_alternates (book (fold (monitor_after quiet_monitor) demo_calls_made demo_monitor))"
proof -
  let ?i = "(resolved_at (dec 1) (u ''y'') (new_incident (u ''incident_'' @ dec 0) (u ''a'') (u ''cron'') (dec 0) (u ''x'')))\<lparr>in_message := u ''y''\<rparr>"
  have "incidents_of_file (Some (incidents_json [?i])) = Inr [?i]"
    by (rule book_read_back) (simp add: book_ok_def incident_ok_def resolved_at_def new_incident_def entry_ok_def history_entry_def)
  then have "book (fold (monitor_after quiet_monitor) demo_calls_made demo_monitor) = [?i]" by (simp add: book_def demo_calls_file)
  moreover have "mo_file demo_monitor = None" by (simp add: demo_monitor_def)
  note incident_histories_alternate [OF this, of quiet_monitor demo_calls_made]
  ultimately show ?thesis by (simp add: list_all_iff) (simp add: resolved_at_def new_incident_def entry_values)
qed

end
