(* ===== verification/RouteIds.thy ===== *)
theory RouteIds
  imports SessionStore ServiceTexts
begin

text \<open>
  The identifier of a session, derived from principal, channel and conversation (\<^verbatim>\<open>gateway/routing.py\<close>): the
  parts are encoded with their lengths and hashed. The hash is a parameter. What is proved is that the
  text that is hashed determines the parts, so sessions of different routes are kept apart as far as the
  hash keeps different texts apart.
\<close>

section \<open>The encoding\<close>

definition is_surrogate :: "nat \<Rightarrow> bool" where
  "is_surrogate c \<longleftrightarrow> 55296 \<le> c \<and> c \<le> 57343"

record id_env =
  ie_sha256 :: "nat list \<Rightarrow> ustr"
  ie_encode_error :: "ustr \<Rightarrow> exn"
  ie_size_error :: "nat \<Rightarrow> exn"

text \<open>\<open>n.to_bytes(8, "big")\<close>.\<close>

definition big_endian :: "nat \<Rightarrow> nat list" where
  "big_endian n = map (\<lambda>i. n div 256 ^ (7 - i) mod 256) [0..<8]"

definition encode_part :: "id_env \<Rightarrow> ustr \<Rightarrow> exn + nat list" where
  "encode_part env t =
     (if list_ex is_surrogate t then Inl (ie_encode_error env t)
      else let bs = utf8 t in
        if length bs \<ge> 2 ^ 64 then Inl (ie_size_error env (length bs)) else Inr (big_endian (length bs) @ bs))"

definition domain_separator :: "nat list" where
  "domain_separator = utf8 (u ''tga-gateway-session-v1'') @ [0]"

definition derive_session_id :: "id_env \<Rightarrow> json \<Rightarrow> json \<Rightarrow> json \<Rightarrow> exn + ustr" where
  "derive_session_id env pid channel conversation =
     (let part = (\<lambda>v. case v of JStr t \<Rightarrow> (if t = [] then None else Some t) | _ \<Rightarrow> None) in
      case (part pid, part channel, part conversation) of
        (Some p, Some ch, Some cv) \<Rightarrow>
          bindE (mapE (encode_part env) [p, ch, cv]) (\<lambda>bs. Inr (ie_sha256 env (domain_separator @ concat bs)))
      | _ \<Rightarrow> Inl (ValueError txt_route_parts))"

definition is_opaque_session_id :: "json \<Rightarrow> bool" where
  "is_opaque_session_id v = (case v of
     JStr t \<Rightarrow> length t = 64 \<and> list_all (\<lambda>c. (48 \<le> c \<and> c \<le> 57) \<or> (97 \<le> c \<and> c \<le> 102)) t
   | _ \<Rightarrow> False)"

section \<open>Facts\<close>

lemma length_big_endian [simp]: "length (big_endian n) = 8"
  by (simp add: big_endian_def)

fun of_big_endian :: "nat list \<Rightarrow> nat" where
  "of_big_endian [] = 0"
| "of_big_endian (b # bs) = b * 256 ^ length bs + of_big_endian bs"

text \<open>The first \<open>k\<close> of the digits give the number without its last \<open>8 - k\<close> digits.\<close>

lemma of_big_endian_read: "n < 256 ^ k \<Longrightarrow> of_big_endian (map (\<lambda>i. n div 256 ^ (k - 1 - i) mod 256) [0..<k]) = n"
proof (induction k arbitrary: n)
  case (Suc k)
  have "map (\<lambda>i. n div 256 ^ (k - i) mod 256) [0..<Suc k]
      = (n div 256 ^ k mod 256) # map (\<lambda>i. (n mod 256 ^ k) div 256 ^ (k - 1 - i) mod 256) [0..<k]"
    (is "?l = _ # ?r")
  proof -
    have "n div 256 ^ (k - Suc i) mod 256 = (n mod 256 ^ k) div 256 ^ (k - 1 - i) mod 256" if "i < k" for i
    proof -
      have "k = (k - 1 - i) + Suc i" using that by simp
      then have "256 ^ k = (256::nat) ^ (k - 1 - i) * 256 ^ Suc i" by (metis power_add)
      then have "n mod 256 ^ k div 256 ^ (k - 1 - i) = n div 256 ^ (k - 1 - i) mod 256 ^ Suc i"
        by (simp add: mod_mult2_eq)
      then show ?thesis by (simp add: mod_mod_cancel)
    qed
    then have "map (\<lambda>i. n div 256 ^ (k - Suc i) mod 256) [0..<k] = ?r" by (intro map_cong) auto
    moreover have "?l = (n div 256 ^ k mod 256) # map (\<lambda>i. n div 256 ^ (k - Suc i) mod 256) [0..<k]"
      by (simp only: upt_conv_Cons zero_less_Suc list.map map_Suc_upt [symmetric] map_map comp_def diff_zero)
    ultimately show ?thesis by simp
  qed
  moreover have "n div 256 ^ k < 256" using Suc.prems by (simp add: less_mult_imp_div_less)
  ultimately show ?case using Suc.IH [of "n mod 256 ^ k"] by (simp add: mult.commute)
qed simp

lemma big_endian_inject: "m < 2 ^ 64 \<Longrightarrow> n < 2 ^ 64 \<Longrightarrow> big_endian m = big_endian n \<longleftrightarrow> m = n"
proof -
  have read: "of_big_endian (big_endian k) = k" if "k < 2 ^ 64" for k
    using that of_big_endian_read [of k 8] by (simp add: big_endian_def)
  assume "m < 2 ^ 64" "n < 2 ^ 64"
  with read show ?thesis by metis
qed

text \<open>UTF-8 can be read back: the first byte of a character tells its length.\<close>

fun utf8_read :: "nat list \<Rightarrow> (nat \<times> nat list) option" where
  "utf8_read [] = None"
| "utf8_read (a # bs) =
     (if a < 128 then Some (a, bs)
      else if a < 224 then (case bs of b # r \<Rightarrow> Some ((a - 192) * 64 + (b - 128), r) | _ \<Rightarrow> None)
      else if a < 240 then (case bs of b # c # r \<Rightarrow> Some ((a - 224) * 4096 + (b - 128) * 64 + (c - 128), r) | _ \<Rightarrow> None)
      else (case bs of b # c # d # r \<Rightarrow> Some ((a - 240) * 262144 + (b - 128) * 4096 + (c - 128) * 64 + (d - 128), r) | _ \<Rightarrow> None))"

lemma join_digits: "(c::nat) = q * 64 + d \<Longrightarrow> q = a * 64 + b \<Longrightarrow> a * 4096 + b * 64 + d = c"
  by simp

lemma utf8_read_char: "utf8_read (utf8_char c @ r) = Some (c, r)"
proof -
  have "c div 64 * 64 + c mod 64 = c" by simp
  moreover have "c div 4096 * 4096 + c div 64 mod 64 * 64 + c mod 64 = c"
  proof -
    have "c div 4096 = c div 64 div 64" by (simp add: div_mult2_eq [symmetric])
    then show ?thesis
      using join_digits [OF div_mult_mod_eq [of c 64, symmetric] div_mult_mod_eq [of "c div 64" 64, symmetric]] by (simp only:)
  qed
  moreover have "c div 262144 * 262144 + c div 4096 mod 64 * 4096 + c div 64 mod 64 * 64 + c mod 64 = c"
  proof -
    have "c div 262144 = c div 64 div 64 div 64" "c div 4096 = c div 64 div 64" by (simp_all add: div_mult2_eq [symmetric])
    moreover have "c div 64 div 64 div 64 * 262144 + c div 64 div 64 mod 64 * 4096 = c div 64 div 64 * 4096"
      using div_mult_mod_eq [of "c div 64 div 64" 64] by linarith
    ultimately show ?thesis
      using join_digits [OF div_mult_mod_eq [of c 64, symmetric] div_mult_mod_eq [of "c div 64" 64, symmetric]] by (simp only:)
  qed
  moreover have "c < 2048 \<Longrightarrow> c div 64 < 32" "c < 65536 \<Longrightarrow> c div 4096 < 16" by (simp_all add: less_mult_imp_div_less)
  ultimately show ?thesis by (auto simp: utf8_char_def)
qed

lemma utf8_inject: "utf8 s = utf8 t \<longleftrightarrow> s = t"
proof
  show "utf8 s = utf8 t \<Longrightarrow> s = t"
  proof (induction s arbitrary: t)
    case Nil
    show ?case
    proof (cases t)
      case (Cons d t')
      then have "utf8_read (utf8 t) = Some (d, utf8 t')" by (simp add: utf8_def utf8_read_char)
      moreover have "utf8 t = []" using Nil by (simp add: utf8_def [of "[]"])
      ultimately show ?thesis by simp
    qed simp
  next
    case (Cons c s)
    have read: "utf8_read (utf8 (c # s)) = Some (c, utf8 s)" by (simp add: utf8_def utf8_read_char)
    show ?case
    proof (cases t)
      case Nil
      then have "utf8 (c # s) = []" using Cons.prems by (simp add: utf8_def [of "[]"])
      then show ?thesis using read by simp
    next
      case (Cons d t')
      then have "utf8_read (utf8 t) = Some (d, utf8 t')" by (simp add: utf8_def utf8_read_char)
      then show ?thesis using Cons Cons.IH Cons.prems read by simp
    qed
  qed
qed simp

text \<open>The encodings of two parts in front of anything.\<close>

lemma encode_part_prefix:
  assumes "encode_part env s = Inr a" and "encode_part env t = Inr b" and "a @ x = b @ y"
  shows "s = t \<and> x = y"
proof -
  from assms(1,2) have a: "a = big_endian (length (utf8 s)) @ utf8 s" "length (utf8 s) < 2 ^ 64"
    and b: "b = big_endian (length (utf8 t)) @ utf8 t" "length (utf8 t) < 2 ^ 64"
    by (auto simp: encode_part_def Let_def split: if_splits)
  from assms(3) have "big_endian (length (utf8 s)) = big_endian (length (utf8 t))" "utf8 s @ x = utf8 t @ y"
    unfolding a(1) b(1) by simp_all
  with a(2) b(2) big_endian_inject have "length (utf8 s) = length (utf8 t)" by blast
  with \<open>utf8 s @ x = utf8 t @ y\<close> have "utf8 s = utf8 t" "x = y" by simp_all
  then show ?thesis by (simp add: utf8_inject)
qed

section \<open>Properties\<close>

text \<open>The texts that are hashed for two routes.\<close>

definition route_bytes :: "id_env \<Rightarrow> ustr \<times> ustr \<times> ustr \<Rightarrow> exn + nat list" where
  "route_bytes env r = (case r of (p, ch, cv) \<Rightarrow> bindE (mapE (encode_part env) [p, ch, cv]) (\<lambda>bs. Inr (domain_separator @ concat bs)))"

lemma route_bytes_inject:
  assumes "route_bytes env r = Inr a" and "route_bytes env r' = Inr a"
  shows "r = r'"
proof -
  obtain p ch cv p' ch' cv' where r: "r = (p, ch, cv)" "r' = (p', ch', cv')" by (cases r, cases r')
  from assms(1) obtain a1 a2 a3 where a: "encode_part env p = Inr a1" "encode_part env ch = Inr a2" "encode_part env cv = Inr a3"
      "a = domain_separator @ a1 @ a2 @ a3 @ []"
    unfolding r(1) by (auto simp: route_bytes_def bindE_eq_Inr)
  from assms(2) obtain b1 b2 b3 where b: "encode_part env p' = Inr b1" "encode_part env ch' = Inr b2" "encode_part env cv' = Inr b3"
      "a = domain_separator @ b1 @ b2 @ b3 @ []"
    unfolding r(2) by (auto simp: route_bytes_def bindE_eq_Inr)
  from a(4) b(4) have "a1 @ a2 @ a3 @ [] = b1 @ b2 @ b3 @ []" by simp
  from encode_part_prefix [OF a(1) b(1) this] have "p = p'" "a2 @ a3 @ [] = b2 @ b3 @ []" by simp_all
  moreover from encode_part_prefix [OF a(2) b(2) this(2)] have "ch = ch'" "a3 @ [] = b3 @ []" by simp_all
  moreover from encode_part_prefix [OF a(3) b(3) this(2)] have "cv = cv'" by simp
  ultimately show ?thesis by (simp add: r)
qed

lemma derive_from_bytes:
  assumes "derive_session_id env x y z = Inr s"
  obtains p ch cv a where "x = JStr p" "y = JStr ch" "z = JStr cv" "route_bytes env (p, ch, cv) = Inr a" "s = ie_sha256 env a"
proof -
  from assms obtain p ch cv where parts: "x = JStr p" "y = JStr ch" "z = JStr cv"
    by (auto simp: derive_session_id_def Let_def split: json.splits option.splits if_splits)
  with assms that show thesis
    by (auto simp: derive_session_id_def route_bytes_def Let_def bindE_eq_Inr split: if_splits)
qed

text \<open>C40: Two routes get the same session identifier only if they are the same route: what is hashed determines
  principal, channel and conversation, whatever characters they contain and wherever one part could be
  taken for the beginning of the next. The hash must not map two different texts to one.\<close>

theorem session_ids_separate_routes:
  assumes "derive_session_id env p ch cv = Inr s" and "derive_session_id env p' ch' cv' = Inr s"
    and "\<And>a b. ie_sha256 env a = ie_sha256 env b \<Longrightarrow> a = b"
  shows "(p, ch, cv) = (p', ch', cv')"
proof -
  from assms(1) obtain x y z a where r: "p = JStr x" "ch = JStr y" "cv = JStr z" "route_bytes env (x, y, z) = Inr a" "s = ie_sha256 env a"
    by (rule derive_from_bytes)
  from assms(2) obtain x' y' z' a' where r': "p' = JStr x'" "ch' = JStr y'" "cv' = JStr z'" "route_bytes env (x', y', z') = Inr a'"
      "s = ie_sha256 env a'"
    by (rule derive_from_bytes)
  have "a' = a" using r(5) r'(5) assms(3) by simp
  with r(4) r'(4) have "(x, y, z) = (x', y', z')" by (intro route_bytes_inject) simp_all
  then show ?thesis using r r' by simp
qed

definition demo_ids :: id_env where
  "demo_ids = \<lparr>ie_sha256 = id, ie_encode_error = (\<lambda>_. ValueError []), ie_size_error = (\<lambda>_. ValueError [])\<rparr>"

text \<open>The same characters, cut differently.\<close>

theorem session_ids_separate_routes_witness:
  "derive_session_id demo_ids (JStr (u ''ab'')) (JStr (u ''c'')) (JStr (u ''d''))
     \<noteq> derive_session_id demo_ids (JStr (u ''a'')) (JStr (u ''bc'')) (JStr (u ''d''))"
proof
  assume same: "derive_session_id demo_ids (JStr (u ''ab'')) (JStr (u ''c'')) (JStr (u ''d''))
     = derive_session_id demo_ids (JStr (u ''a'')) (JStr (u ''bc'')) (JStr (u ''d''))"
  have letters: "u ''ab'' = [97, 98]" "u ''c'' = [99]" "u ''d'' = [100]" by code_simp+
  then have plain: "\<not> list_ex is_surrogate (u ''ab'')" "\<not> list_ex is_surrogate (u ''c'')" "\<not> list_ex is_surrogate (u ''d'')"
    by (simp_all add: is_surrogate_def)
  have short: "length (utf8 (u ''ab'')) = 2" "length (utf8 (u ''c'')) = 1" "length (utf8 (u ''d'')) = 1"
    by (simp_all add: letters utf8_def utf8_char_def)
  obtain s where first: "derive_session_id demo_ids (JStr (u ''ab'')) (JStr (u ''c'')) (JStr (u ''d'')) = Inr s"
    by (simp add: derive_session_id_def encode_part_def Let_def plain short)
  have "(JStr (u ''ab''), JStr (u ''c''), JStr (u ''d'')) = (JStr (u ''a''), JStr (u ''bc''), JStr (u ''d''))"
    by (rule session_ids_separate_routes [OF first first [unfolded same]]) (simp add: demo_ids_def)
  then show False by simp
qed

end
