(* ===== verification/Spec2Isabelle.thy ===== *)
theory Spec2Isabelle
  imports BoundaryProps TurnProps GatewayProps ToolProps WorkerProps LlmProps CronProps CronTools IncidentProps RouteIds
begin

text \<open>
  A model of the core of Turning-Good-Agent, a gateway that connects chat channels to a language-model
  agent. Paths below are relative to \<^verbatim>\<open>src/Turning-Good-Agent\<close>.

  \<^bold>\<open>The program.\<close> A message of a channel enters the gateway's turn coordinator (\<^verbatim>\<open>gateway/turns.py\<close>), which
  lets one turn per route run at a time. A turn goes through the states of \<^verbatim>\<open>runtime/state.py\<close>: slash commands,
  loading the session, compacting its history, building the prompt, the agent loop, saving, the reply. The loop
  (\<^verbatim>\<open>runtime/agent_loop.py\<close>) calls the model (\<^verbatim>\<open>llm/openai_compatible.py\<close>) and runs the tools it asks for
  (\<^verbatim>\<open>runtime/tool_call_runner.py\<close>, \<^verbatim>\<open>tools/\<close>); once per turn the model may delegate tasks to workers, which the
  coordinator (\<^verbatim>\<open>multi_agent/coordinator.py\<close>) runs side by side or one after another, each in a restricted loop of its
  own (\<^verbatim>\<open>multi_agent/worker_runner.py\<close>). Sessions live in directories, one data root per principal
  (\<^verbatim>\<open>sessions/store.py\<close>, \<^verbatim>\<open>runtime/principal_context.py\<close>). Beside the turns the cron manager starts jobs at their
  moments (\<^verbatim>\<open>proactive/cron.py\<close>).

  \<^bold>\<open>How the code is modelled.\<close> A coroutine is a function from the state it can see to a result, a value or an
  exception, and the state it leaves (theory \<open>Effects\<close>: \<open>prog\<close>, \<open>seq\<close>, \<open>catch\<close>, \<open>ensuring\<close>); state changes made
  before an exception stay, as in Python. What comes from outside is a tape, a function from the number of the
  question to its answer: clock readings, identifiers, model answers, what the file system, the event sink or a
  channel do. Every statement holds for all tapes unless it says otherwise. Where coroutines interleave, the sections
  between two waits are the steps of a relation (\<open>fan_step\<close>, \<open>gw_move\<close>, \<open>coord_step\<close>). A Python text is the list of its code
  points, a \<open>dict\<close> an association list in insertion order, a JSON value the datatype \<open>json\<close>. Texts of the
  source outside ASCII are constants \<open>txt_...\<close> in the \<open>Texts\<close> theories, with their lines in the map.

  \<^bold>\<open>The theories.\<close>

  \<^item> \<open>Prelude\<close>, \<open>Effects\<close>, \<open>Json\<close>, \<open>JsonText\<close>: vocabulary, the laws of dictionaries (locale \<open>keyed_store\<close>), the locale
    \<open>machine\<close> of a step relation with an invariant, the program logic \<open>hoare\<close>, JSON values, \<open>dumps\<close> and its parser
    \<open>loads\<close> with the lemma \<open>loads_dumps\<close>.
  \<^item> \<open>MultiAgentTypes\<close> (\<^verbatim>\<open>multi_agent/types.py\<close>, \<^verbatim>\<open>events.py\<close>, \<^verbatim>\<open>schema.py\<close>), \<open>Redaction\<close>, \<open>Coordinator\<close>, \<open>WorkerSteps\<close>,
    \<open>FanOut\<close>, \<open>Delegation\<close> (\<^verbatim>\<open>multi_agent/coordinator.py\<close>), \<open>DelegateTool\<close> (\<^verbatim>\<open>multi_agent/delegate_tool.py\<close>): runs, workers
    between their waiting points, the two collections, \<open>delegate\<close>, \<open>finalize\<close>, the delegation of a turn. \<open>WorkerFacts\<close>,
    \<open>WorkerResults\<close>, \<open>WorkerLiveness\<close>, \<open>RunResults\<close>, \<open>RunLiveness\<close>, \<open>DelegationFacts\<close> prove invariants through the locales
    \<open>coord_inv\<close>, \<open>worker_inv\<close> and \<open>run_inv\<close>, the contracts of a property that every event and every
    worker keeps; each invariant is an interpretation. \<open>MultiAgentProps\<close> and \<open>BoundaryProps\<close> hold the properties.
  \<^item> \<open>ContextMemory\<close> (\<^verbatim>\<open>context/\<close>, \<^verbatim>\<open>memory/\<close>, \<^verbatim>\<open>observability/token_monitor.py\<close>) with \<open>ContextProps\<close>: prompt, compaction,
    profile memory, token accounts.
  \<^item> \<open>SessionStore\<close>, \<open>RunHistory\<close> (\<^verbatim>\<open>sessions/store.py\<close>), \<open>SessionManager\<close> (\<^verbatim>\<open>sessions/manager.py\<close>), \<open>PrincipalReader\<close>
    (\<^verbatim>\<open>runtime/principal_context.py\<close>, \<^verbatim>\<open>gateway/principals.py\<close>) with \<open>SessionFacts\<close>, \<open>RecoveryFacts\<close>, \<open>ReaderFacts\<close>,
    \<open>SessionProps\<close>, \<open>ReaderProps\<close>: files read back, recovery after a restart, separation of principals.
  \<^item> \<open>Messages\<close> (\<^verbatim>\<open>bus/messages.py\<close>, \<^verbatim>\<open>channels/policy.py\<close>, \<^verbatim>\<open>channels/base.py\<close>), \<open>TurnTypes\<close>, \<open>TurnMachine\<close>, \<open>TurnLoop\<close>
    (\<^verbatim>\<open>runtime/state.py\<close>, \<^verbatim>\<open>runtime/runtime.py\<close>, \<^verbatim>\<open>runtime/turn_context.py\<close>) with \<open>TurnFacts\<close>, \<open>TurnProps\<close>: the turn as
    a state machine that always ends with a reply. The agent loop is an argument there.
  \<^item> \<open>GatewayTurns\<close> (\<^verbatim>\<open>gateway/turns.py\<close>) with \<open>GatewayFacts\<close>, \<open>RouteQueues\<close>, \<open>GatewayProps\<close>: the locked sections as moves,
    their invariant, and a simulation of the abstract first-in-first-out machine of one route.
  \<^item> \<open>ToolSchema\<close>, \<open>ToolRegistry\<close> (\<^verbatim>\<open>tools/base.py\<close>, \<^verbatim>\<open>tools/registry.py\<close>), \<open>ToolSecurity\<close> (\<^verbatim>\<open>tools/security.py\<close>,
    \<^verbatim>\<open>tools/path_utils.py\<close>), \<open>ToolRunner\<close> (\<^verbatim>\<open>tools/executor.py\<close>, \<^verbatim>\<open>hooks/\<close>, \<^verbatim>\<open>runtime/tool_call_runner.py\<close>) with \<open>ToolFacts\<close>,
    \<open>ToolProps\<close>: arguments against a schema, the checks before a tool runs, the round of calls. \<open>WorkerRunner\<close>
    (\<^verbatim>\<open>multi_agent/worker_profile.py\<close>, \<^verbatim>\<open>worker_runner.py\<close>) with \<open>WorkerProps\<close>: what a worker may do.
  \<^item> \<open>Attachments\<close> (\<^verbatim>\<open>tools/context_attachment.py\<close>, \<^verbatim>\<open>runtime/attachment_manager.py\<close>), \<open>AgentLoop\<close>
    (\<^verbatim>\<open>runtime/agent_loop.py\<close>) with \<open>AgentFacts\<close>, \<open>AgentCosts\<close>, \<open>AgentProps\<close>: the conversation, its bounds, its end.
  \<^item> \<open>LlmClient\<close> (\<^verbatim>\<open>llm/openai_compatible.py\<close>) with \<open>LlmProps\<close>: retries, and streamed answers against complete ones.
  \<^item> \<open>CronSchedule\<close> (\<^verbatim>\<open>proactive/scheduler.py\<close>), \<open>CronJobs\<close>, \<open>CronTools\<close> (\<^verbatim>\<open>proactive/cron.py\<close>, the jobs of
    \<^verbatim>\<open>proactive/types.py\<close>) with \<open>CronProps\<close>: cron expressions, the next moment, created jobs, the snapshot of the jobs.
  \<^item> \<open>Incidents\<close> (\<^verbatim>\<open>proactive/incidents.py\<close>) with \<open>IncidentProps\<close>: the record of failures as a refinement of an edge detector,
    and the histories of its incidents.
  \<^item> \<open>RouteIds\<close> (\<^verbatim>\<open>gateway/routing.py\<close>): the identifier of a session, with the encoding of a route proved injective.

  \<^bold>\<open>Bounds and fuel.\<close> A worker and a pipeline poll until a slot is free or a deadline passes, so they run on fuel
  (\<open>env_fuel\<close>); the theories \<open>WorkerLiveness\<close> and \<open>RunLiveness\<close> show that some fuel is enough and more changes
  nothing, as soon as the clock passes every bound. A fan-out and the gateway are step relations without a bound. The
  tool rounds of the loop are bounded by the configuration, the retries of a request by \<open>max_retries\<close>, the search for a
  cron moment by the two years of the source. All other recursion is structural or has a measure. Python
  integers are unbounded and so is \<open>int\<close>; floats are reals.

  \<^bold>\<open>Not modelled.\<close> The tokenizer, the hash of identifiers, path resolution, URL splitting, Unicode tables beyond ASCII,
  time zones and ISO dates are parameters. A \<open>dict\<close> with equal keys under \<open>==\<close> of different types does not occur. The
  built-in tools are host actions: running a tool answers from a tape. \<^verbatim>\<open>sessions/locks.py\<close> is a table of locks;
  the turns of one session run one after another in the model. Left out as glue or input and output: channel
  adapters, the MCP client, the skill installer, gateway processes and authentication, the web backend, the
  command line and the settings; of the proactive part the review windows and the services whose decisions a
  model takes from prompts. Of modelled files, \<open>start\<close> and \<open>close\<close> of the runtime, \<open>clear_matching_sessions\<close>
  and \<open>count_rows\<close> of the store, and \<open>wait_for_jobs\<close> of the cron manager are left out; the cancellation of a cron
  task is that of a task that has begun.
\<close>

end
